(* ===== verification/Prelude.thy ===== *)
theory Prelude
  imports Complex_Main "HOL-Library.Word"
begin

text \<open>
  What every component of the model shares.

  \<^item> \<open>dbl\<close> stands for \<^verbatim>\<open>o3d::Double\<close>. Arithmetic on it is exact: the rounding of
    IEEE doubles, infinities and NaN are not modelled. A division by zero, which gives an
    infinity or a NaN in the code, is 0 here; every property that depends on a quotient has
    the hypothesis that its divisor is not 0, or follows a guard of the code that says so.
  \<^item> \<open>to_int32\<close>, \<open>c_round\<close>, \<open>truncate\<close>, \<open>round_dec\<close>, \<open>decimalPlace\<close> are the C conversions
    and the templates of \<^verbatim>\<open>strategies/include/siis/utils/math.h\<close>.
  \<^item> \<open>isValid\<close> and \<open>isEmpty\<close> are the emptiness tests of the O3D string classes, which the
    code uses to tell an identifier that is set from one that was reset to the empty string.
  \<^item> \<open>take_last\<close> and its lemmas serve the ring buffer and everything that writes to it.
\<close>

named_theorems dbl_simps \<open>conversions between doubles and integers\<close>

type_synonym dbl = rat

section \<open>Conversions of doubles\<close>

text \<open>Truncation toward zero, as a C cast from double to an integer type does.\<close>

definition trunc_dbl :: "dbl \<Rightarrow> int" where
  "trunc_dbl x = (if 0 \<le> x then \<lfloor>x\<rfloor> else \<lceil>x\<rceil>)"

text \<open>
  The cast to a 32 bit integer. Outside of the range of the type the behaviour is undefined in
  C++; the model takes the value that the conversion instruction of x86-64 gives, which is the
  least 32 bit integer.
\<close>

definition to_int32 :: "dbl \<Rightarrow> int" where
  "to_int32 x = (if - (2 ^ 31) \<le> trunc_dbl x \<and> trunc_dbl x < 2 ^ 31 then trunc_dbl x else - (2 ^ 31))"

text \<open>\<^verbatim>\<open>::round\<close>: to the nearest integer, halves away from zero.\<close>

definition c_round :: "dbl \<Rightarrow> int" where
  "c_round x = (if 0 \<le> x then \<lfloor>x + 1 / 2\<rfloor> else \<lceil>x - 1 / 2\<rceil>)"

definition pow10 :: "int \<Rightarrow> dbl" where
  "pow10 n = (if 0 \<le> n then 10 ^ nat n else 1 / 10 ^ nat (- n))"

definition truncate :: "dbl \<Rightarrow> int \<Rightarrow> dbl" where
  "truncate number digits =
     (let stepper = pow10 digits in of_int (trunc_dbl (stepper * number)) / stepper)"

definition round_dec :: "dbl \<Rightarrow> int \<Rightarrow> dbl" where
  "round_dec number decimals =
     of_int \<lfloor>number * pow10 decimals + 1 / 2\<rfloor> / pow10 decimals"

lemma pow10_pos [simp]: "0 < pow10 n"
  by (simp add: pow10_def)

lemma pow10_nonzero [simp]: "pow10 n \<noteq> 0"
  using pow10_pos [of n] by linarith

lemma trunc_dbl_nonneg [dbl_simps]: "0 \<le> x \<Longrightarrow> trunc_dbl x = \<lfloor>x\<rfloor>"
  by (simp add: trunc_dbl_def)

lemma trunc_dbl_of_int [simp]: "trunc_dbl (of_int n) = n"
  by (simp add: trunc_dbl_def)

lemma to_int32_range: "- (2 ^ 31) \<le> to_int32 x \<and> to_int32 x < 2 ^ 31"
  by (simp add: to_int32_def)

lemma to_int32_nonneg [dbl_simps]:
  assumes "0 \<le> x" and "x < 2 ^ 31"
  shows "to_int32 x = \<lfloor>x\<rfloor>"
proof -
  have "0 \<le> \<lfloor>x\<rfloor>" and "\<lfloor>x\<rfloor> < 2 ^ 31"
    using assms by (auto simp: floor_less_iff)
  then show ?thesis using assms by (simp add: to_int32_def trunc_dbl_def)
qed

lemma to_int32_overflow:
  assumes "2 ^ 31 \<le> x"
  shows "to_int32 x = - (2 ^ 31)"
proof -
  have "2 ^ 31 \<le> \<lfloor>x\<rfloor>" using assms by (simp add: le_floor_iff)
  moreover have "0 \<le> x" using assms by (rule order_trans [rotated]) simp
  ultimately show ?thesis by (simp add: to_int32_def trunc_dbl_def)
qed

text \<open>
  \<open>floor_log10 v\<close> is \<open>floor (log10 v)\<close> for a positive \<open>v\<close>, computed on the exact value:
  multiply or divide by ten until one digit is left of the decimal point.
\<close>

function floor_log10 :: "dbl \<Rightarrow> int" where
  "floor_log10 v =
     (if v \<le> 0 then 0
      else if 10 \<le> v then 1 + floor_log10 (v / 10)
      else if v < 1 then floor_log10 (v * 10) - 1
      else 0)"
  by pat_completeness auto
termination
proof (relation "measure (\<lambda>v. if 1 \<le> v then nat \<lfloor>v\<rfloor> else 10 + nat \<lceil>1 / v\<rceil>)", goal_cases)
  case 1
  then show ?case by simp
next
  case (2 v)
  then have v: "10 \<le> v" by simp
  have "\<lfloor>v / 10\<rfloor> < \<lfloor>v\<rfloor>"
  proof -
    have "v / 10 \<le> v - 1" using v by simp
    then have "\<lfloor>v / 10\<rfloor> \<le> \<lfloor>v - 1\<rfloor>" by (rule floor_mono)
    then show ?thesis by simp
  qed
  moreover have "0 \<le> \<lfloor>v / 10\<rfloor>" using v by simp
  ultimately show ?case using v by simp
next
  case (3 v)
  then have v: "0 < v" "v < 1" by auto
  show ?case
  proof (cases "1 \<le> v * 10")
    case True
    have "\<lfloor>v * 10\<rfloor> < 10" using v by (simp add: floor_less_iff)
    then have "nat \<lfloor>v * 10\<rfloor> < 10 + nat \<lceil>1 / v\<rceil>" by linarith
    with True v show ?thesis by simp
  next
    case False
    have one: "1 < 1 / v" using v by simp
    have "1 / (v * 10) = (1 / v) / 10" by simp
    also have "\<dots> < 1 / v - 1 + 1 / 10 + 9 / 10" using one by simp
    finally have lt: "1 / (v * 10) < 1 / v" by simp
    have ten: "10 \<le> 1 / v" using False v by (simp add: field_simps)
    have "1 / (v * 10) \<le> 1 / v - 1"
      using ten by simp
    then have "\<lceil>1 / (v * 10)\<rceil> \<le> \<lceil>1 / v - 1\<rceil>" by (rule ceiling_mono)
    then have "\<lceil>1 / (v * 10)\<rceil> < \<lceil>1 / v\<rceil>" by simp
    moreover have "0 < \<lceil>1 / (v * 10)\<rceil>" using v by simp
    ultimately show ?thesis using False v by simp
  qed
qed

declare floor_log10.simps [simp del]

definition decimalPlace :: "dbl \<Rightarrow> int" where
  "decimalPlace v = - floor_log10 v"

lemma pow10_add_one: "pow10 (n + 1) = 10 * pow10 n"
proof (cases "0 \<le> n")
  case True
  then have "nat (n + 1) = Suc (nat n)" by simp
  with True show ?thesis by (simp add: pow10_def)
next
  case False
  then have "nat (- n) = Suc (nat (- n - 1))" by simp
  with False show ?thesis by (auto simp: pow10_def)
qed

lemma pow10_powi: "pow10 n = 10 powi n"
  by (auto simp: pow10_def power_int_def inverse_eq_divide power_one_over)

lemma pow10_less_iff [simp]: "pow10 m < pow10 n \<longleftrightarrow> m < n"
proof
  show "m < n \<Longrightarrow> pow10 m < pow10 n" unfolding pow10_powi by (rule power_int_strict_increasing) simp_all
  show "pow10 m < pow10 n \<Longrightarrow> m < n"
    unfolding pow10_powi using power_int_increasing [of n m "10 :: dbl"] by (cases "n \<le> m") auto
qed

lemma pow10_le_iff: "pow10 m \<le> pow10 n \<longleftrightarrow> m \<le> n"
  using pow10_less_iff [of n m] by linarith

lemma pow10_minus: "pow10 (- n) * pow10 n = 1"
  unfolding pow10_powi by (simp add: power_int_minus)

text \<open>The computed exponent is the one of the scientific notation of the number.\<close>

lemma floor_log10_bounds:
  "0 < v \<Longrightarrow> pow10 (floor_log10 v) \<le> v \<and> v < 10 * pow10 (floor_log10 v)"
proof (induction v rule: floor_log10.induct)
  case (1 v)
  consider "10 \<le> v" | "v < 1" | "1 \<le> v" "v < 10" by linarith
  then show ?case
  proof cases
    case 1
    have "floor_log10 v = floor_log10 (v / 10) + 1"
      using 1 by (subst floor_log10.simps) simp
    moreover have "pow10 (floor_log10 (v / 10)) \<le> v / 10 \<and> v / 10 < 10 * pow10 (floor_log10 (v / 10))"
      using 1 "1.IH"(1) by simp
    ultimately show ?thesis by (simp add: pow10_add_one)
  next
    case 2
    have "floor_log10 (v * 10) = floor_log10 v + 1"
      using 2 "1.prems" by (subst (2) floor_log10.simps) simp
    moreover have "pow10 (floor_log10 (v * 10)) \<le> v * 10 \<and> v * 10 < 10 * pow10 (floor_log10 (v * 10))"
      using 2 "1.prems" "1.IH"(2) by simp
    ultimately show ?thesis by (simp add: pow10_add_one)
  next
    case 3
    then have "floor_log10 v = 0" by (subst floor_log10.simps) simp
    with 3 show ?thesis by (simp add: pow10_def)
  qed
qed

lemma floor_log10_pow10 [simp]: "floor_log10 (pow10 n) = n"
proof -
  have "pow10 (floor_log10 (pow10 n)) \<le> pow10 n" "pow10 n < pow10 (floor_log10 (pow10 n) + 1)"
    using floor_log10_bounds [of "pow10 n"] by (simp_all add: pow10_add_one)
  then show ?thesis by (simp add: pow10_le_iff)
qed

text \<open>Rounding to the nearest integer, and truncation of a number that has few enough decimals.\<close>

definition is_int :: "dbl \<Rightarrow> bool" where
  "is_int x \<longleftrightarrow> of_int \<lfloor>x\<rfloor> = x"

lemma is_int_of_int [simp]: "is_int (of_int n)"
  by (simp add: is_int_def)

lemma is_intE: "is_int x \<Longrightarrow> (\<And>n. x = of_int n \<Longrightarrow> P) \<Longrightarrow> P"
  unfolding is_int_def by metis

lemma c_round_near: "\<bar>of_int (c_round x) - x\<bar> \<le> 1 / 2"
proof (cases "0 \<le> x")
  case True
  then have "c_round x = \<lfloor>x + 1 / 2\<rfloor>" by (simp add: c_round_def)
  then show ?thesis by linarith
next
  case False
  then have "c_round x = \<lceil>x - 1 / 2\<rceil>" by (simp add: c_round_def)
  then show ?thesis by linarith
qed

lemma c_round_of_int [simp]: "c_round (of_int n) = n"
  using c_round_near [of "of_int n"] by linarith

lemma truncate_exact:
  assumes "is_int (x * pow10 p)"
  shows "truncate x p = x"
proof -
  obtain n where n: "x * pow10 p = of_int n" using assms by (rule is_intE)
  then have "truncate x p = (x * pow10 p) / pow10 p" by (simp add: truncate_def mult.commute)
  then show ?thesis by simp
qed

lemma round_dec_exact:
  assumes "is_int (x * pow10 p)"
  shows "round_dec x p = x"
proof -
  obtain n where n: "x * pow10 p = of_int n" using assms by (rule is_intE)
  have "\<lfloor>of_int n + 1 / 2 :: dbl\<rfloor> = n" by (simp add: floor_eq_iff)
  then have "round_dec x p = (x * pow10 p) / pow10 p" by (simp add: round_dec_def n)
  then show ?thesis by simp
qed

lemma is_int_mult: "is_int x \<Longrightarrow> is_int y \<Longrightarrow> is_int (x * y)"
  by (elim is_intE) (simp flip: of_int_mult)

section \<open>Strings\<close>

definition isValid :: "string \<Rightarrow> bool" where
  "isValid s \<longleftrightarrow> s \<noteq> []"

definition isEmpty :: "string \<Rightarrow> bool" where
  "isEmpty s \<longleftrightarrow> s = []"

lemma isValid_simps [simp]: "\<not> isValid []" "isValid (c # s)"
  by (simp_all add: isValid_def)

lemma isEmpty_simps [simp]: "isEmpty []" "\<not> isEmpty (c # s)"
  by (simp_all add: isEmpty_def)

section \<open>The last elements of a list\<close>

definition take_last :: "nat \<Rightarrow> 'a list \<Rightarrow> 'a list" where
  "take_last n xs = drop (length xs - n) xs"

lemma length_take_last [simp]: "length (take_last n xs) = min n (length xs)"
  by (simp add: take_last_def)

lemma take_last_all [simp]: "length xs \<le> n \<Longrightarrow> take_last n xs = xs"
  by (simp add: take_last_def)

lemma take_last_Nil [simp]: "take_last n [] = []"
  by (simp add: take_last_def)

lemma take_last_snoc:
  "0 < n \<Longrightarrow> take_last n (xs @ [x]) = take_last (n - 1) xs @ [x]"
  by (auto simp: take_last_def Suc_diff_le)

lemma take_last_take_last: "m \<le> n \<Longrightarrow> take_last m (take_last n xs) = take_last m xs"
  by (cases "n \<le> length xs") (auto simp: take_last_def)

lemma take_last_snoc_take_last:
  "0 < n \<Longrightarrow> take_last n (take_last n xs @ [x]) = take_last n (xs @ [x])"
  by (simp add: take_last_snoc take_last_take_last)

lemma set_take_last: "set (take_last n xs) \<subseteq> set xs"
  by (auto simp: take_last_def dest: in_set_dropD)

lemma last_take_last: "0 < n \<Longrightarrow> xs \<noteq> [] \<Longrightarrow> last (take_last n xs) = last xs"
  by (simp add: take_last_def last_drop)

lemma take_last_Nil_iff [simp]: "0 < n \<Longrightarrow> take_last n xs = [] \<longleftrightarrow> xs = []"
  by (cases xs rule: rev_cases) (simp_all add: take_last_snoc)

lemma butlast_take_last_snoc:
  "0 < n \<Longrightarrow> xs \<noteq> [] \<Longrightarrow> butlast (take_last n xs) @ [x] = take_last n (butlast xs @ [x])"
  by (cases xs rule: rev_cases) (simp_all add: take_last_snoc)

end
