(* ===== verification/Common.thy ===== *)
theory Common
  imports Prelude "HOL-Library.Signed_Division"
begin

text \<open>
  \<^verbatim>\<open>strategies/include/siis/constants.h\<close> and \<^verbatim>\<open>strategies/src/utils/common.cpp\<close>: the timeframe constants, the
  conversions between timeframes and their names, the names of the enumerations, the calendar
  arithmetic and \<^verbatim>\<open>baseTime\<close>, the start of the bar a timestamp belongs to.

  The O3D library gives the parser of integers (\<open>toInt32\<close>), the substring (\<open>sub\<close>) and the
  conversions between timestamps and dates: they are parameters of the definitions that call
  them.
\<close>

section \<open>Constants\<close>

definition TF_TICK :: dbl where "TF_TICK = 0"
definition TF_SEC :: dbl where "TF_SEC = 1"
definition TF_MIN :: dbl where "TF_MIN = 60"
definition TF_HOUR :: dbl where "TF_HOUR = 60 * 60"
definition TF_DAY :: dbl where "TF_DAY = 60 * 60 * 24"
definition TF_WEEK :: dbl where "TF_WEEK = 60 * 60 * 24 * 7"
definition TF_MONTH :: dbl where "TF_MONTH = 60 * 60 * 24 * 30"
definition TF_YEAR :: dbl where "TF_YEAR = 60 * 60 * 24 * 365"

lemmas TF_defs = TF_TICK_def TF_SEC_def TF_MIN_def TF_HOUR_def TF_DAY_def TF_WEEK_def
  TF_MONTH_def TF_YEAR_def

definition LONG :: int where "LONG = 1"
definition SHORT :: int where "SHORT = -1"
definition UNDEFINED :: int where "UNDEFINED = 0"

datatype MAType = MA_SMA | MA_EMA | MA_WMA | MA_DEMA | MA_TEMA | MA_TRIMA | MA_KAMA | MA_MAMA | MA_T3

datatype PriceType = PRICE_NONE | PRICE_CUSTOM | PRICE_FIXED | PRICE_LAST | PRICE_BEST1 | PRICE_BEST2

datatype DistanceType = DIST_NONE | DIST_PERCENTIL | DIST_PRICE

datatype AdjustPolicy = ADJ_NONE | ADJ_CUSTOM | ADJ_PRICE | ADJ_CLOSE

section \<open>Printing of integers\<close>

text \<open>The decimal digits \<^verbatim>\<open>printf("%i")\<close> writes.\<close>

definition digit_char :: "nat \<Rightarrow> char" where
  "digit_char d = char_of (48 + d)"

fun print_nat :: "nat \<Rightarrow> string" where
  "print_nat n = (if n < 10 then [digit_char n] else print_nat (n div 10) @ [digit_char (n mod 10)])"

declare print_nat.simps [simp del]

definition print_int :: "int \<Rightarrow> string" where
  "print_int n = (if n < 0 then CHR ''-'' # print_nat (nat (- n)) else print_nat (nat n))"

section \<open>Timeframes and their names\<close>

definition timeframeFromStr :: "(string \<Rightarrow> int) \<Rightarrow> string \<Rightarrow> dbl" where
  "timeframeFromStr toInt32 tf =
     (let c = (if tf \<noteq> [] then last tf else CHR 0x00)
      in if c = CHR ''0'' \<or> c = CHR ''t'' then 0
         else if c = CHR ''s'' then of_int (toInt32 tf)
         else if c = CHR ''m'' then of_int (toInt32 tf) * 60
         else if c = CHR ''h'' then of_int (toInt32 tf) * 60 * 60
         else if c = CHR ''d'' then of_int (toInt32 tf) * 60 * 60 * 24
         else if c = CHR ''w'' then of_int (toInt32 tf) * 60 * 60 * 24 * 7
         else if c = CHR ''M'' then of_int (toInt32 tf) * 60 * 60 * 24 * 30
         else of_int (toInt32 tf))"

definition timeframeToStr :: "dbl \<Rightarrow> string" where
  "timeframeToStr tf =
     (if tf = TF_TICK then ''t''
      else if tf > TF_TICK \<and> tf < TF_MIN then print_int (to_int32 tf) @ ''s''
      else if tf \<ge> TF_MIN \<and> tf < TF_HOUR then print_int (to_int32 (tf / TF_MIN)) @ ''m''
      else if tf \<ge> TF_HOUR \<and> tf < TF_DAY then print_int (to_int32 (tf / TF_HOUR)) @ ''h''
      else if tf \<ge> TF_DAY \<and> tf < TF_WEEK then print_int (to_int32 (tf / TF_DAY)) @ ''d''
      else if tf \<ge> TF_WEEK \<and> tf < TF_MONTH then print_int (to_int32 (tf / TF_WEEK)) @ ''w''
      else if tf \<ge> TF_MONTH \<and> tf < TF_YEAR then print_int (to_int32 (tf / TF_MONTH)) @ ''M''
      else if tf \<ge> TF_YEAR then print_int (to_int32 (tf / TF_YEAR)) @ ''y''
      else [])"

definition cmpTimeframe :: "dbl \<Rightarrow> dbl \<Rightarrow> int" where
  "cmpTimeframe a b = (if to_int32 a = to_int32 b then 0 else if a < b then -1 else 1)"

section \<open>Names of the enumerations\<close>

definition marketContractToStr :: "int \<Rightarrow> string" where
  "marketContractToStr c =
     (if c = 0 then ''spot'' else if c = 1 then ''cfd'' else if c = 2 then ''future''
      else if c = 3 then ''option'' else if c = 4 then ''warrant'' else if c = 5 then ''turbo''
      else ''undefined'')"

definition marketUnitToStr :: "int \<Rightarrow> string" where
  "marketUnitToStr u =
     (if u = 0 then ''amount'' else if u = 1 then ''contracts'' else if u = 2 then ''shares''
      else if u = 3 then ''inverse'' else ''undefined'')"

definition marketTypeToStr :: "int \<Rightarrow> string" where
  "marketTypeToStr t =
     (if t = 4 then ''stock'' else if t = 7 then ''crypto'' else if t = 3 then ''indice''
      else if t = 1 then ''currency'' else if t = 2 then ''commodity'' else ''undefined'')"

definition directionToStr :: "int \<Rightarrow> string" where
  "directionToStr dir = (if dir > 0 then ''long'' else if dir < 0 then ''short'' else '''')"

definition maTypeToStr :: "MAType \<Rightarrow> string" where
  "maTypeToStr maType =
     (case maType of
        MA_SMA \<Rightarrow> ''SMA'' | MA_EMA \<Rightarrow> ''EMA'' | MA_WMA \<Rightarrow> ''WMA'' | MA_DEMA \<Rightarrow> ''DEMA''
      | MA_TRIMA \<Rightarrow> ''TRIMA'' | MA_KAMA \<Rightarrow> ''KAMA'' | MA_MAMA \<Rightarrow> ''MAMA'' | MA_T3 \<Rightarrow> ''T3''
      | _ \<Rightarrow> ''SMA'')"

definition maTypeFromStr :: "string \<Rightarrow> MAType" where
  "maTypeFromStr s =
     (if s = ''SMA'' \<or> s = ''sma'' then MA_SMA
      else if s = ''EMA'' \<or> s = ''ema'' then MA_EMA
      else if s = ''WMA'' \<or> s = ''wma'' then MA_WMA
      else if s = ''DEMA'' \<or> s = ''dema'' then MA_DEMA
      else if s = ''TEMA'' \<or> s = ''tema'' then MA_TEMA
      else if s = ''TRIMA'' \<or> s = ''trima'' then MA_TRIMA
      else if s = ''KAMA'' \<or> s = ''kama'' then MA_KAMA
      else if s = ''MAMA'' \<or> s = ''mama'' then MA_MAMA
      else if s = ''T3'' \<or> s = ''t3'' then MA_T3
      else MA_SMA)"

section \<open>Durations\<close>

text \<open>\<open>find_char c s\<close> is the index of the first \<open>c\<close>, -1 where there is none.\<close>

fun find_char :: "char \<Rightarrow> string \<Rightarrow> int" where
  "find_char c [] = -1"
| "find_char c (x # xs) =
     (if x = c then 0 else if find_char c xs < 0 then -1 else 1 + find_char c xs)"

text \<open>
  \<open>sub s a b\<close> is the O3D substring from index \<open>a\<close>, up to index \<open>b\<close> where it is given.
\<close>

definition durationFromStr ::
    "(string \<Rightarrow> int \<Rightarrow> int option \<Rightarrow> string) \<Rightarrow> (string \<Rightarrow> int) \<Rightarrow> string \<Rightarrow> dbl" where
  "durationFromStr sub toInt32 deltaTime =
     (if count_list deltaTime (CHR '':'') \<noteq> 1 then 0
      else
        let (sgnm, baseOfs) =
              (if take 1 deltaTime = ''-'' then (-1 :: int, 1)
               else if take 1 deltaTime = ''+'' then (1, 1) else (1, 0));
            separator = find_char (CHR '':'') deltaTime;
            hours = toInt32 (sub deltaTime baseOfs (Some separator));
            minutes = toInt32 (sub deltaTime (separator + 1) None)
        in if hours < 0 \<or> hours > 23 then 0
           else if minutes < 0 \<or> minutes > 59 then 0
           else of_int sgnm * (of_int hours * 3600 + of_int minutes * 60))"

section \<open>Calendar\<close>

text \<open>
  The fields of \<^verbatim>\<open>o3d::DateTime\<close> that the code reads and writes, and the operations of
  the library on it.
\<close>

record datetime =
  dt_year :: int
  dt_month :: int
  dt_mday :: int
  dt_wday :: int
  dt_hour :: int
  dt_minute :: int
  dt_second :: int
  dt_microsecond :: int

record date_lib =
  dl_new :: datetime
  dl_fromTime :: "dbl \<Rightarrow> datetime"
  dl_toTimestamp :: "datetime \<Rightarrow> dbl"
  dl_getDayOfWeek :: "datetime \<Rightarrow> int"
  dl_getIsoDayOfWeek :: "datetime \<Rightarrow> int"

definition gday :: "datetime \<Rightarrow> int" where
  "gday d =
     (let m = (dt_month d + 9) smod 12;
          y = dt_year d - m sdiv 10
      in y * 365 + y sdiv 4 - y sdiv 100 + y sdiv 400 + (m * 306 + 5) sdiv 10 + (dt_mday d - 1))"

definition dft :: "datetime \<Rightarrow> int \<Rightarrow> datetime" where
  "dft dt0 d =
     (let y = (10000 * d + 14780) sdiv 3652425;
          ddd = d - (y * 365 + y sdiv 4 - y sdiv 100 + y sdiv 400);
          (y, ddd) =
            (if ddd < 0
             then (y - 1, d - ((y - 1) * 365 + (y - 1) sdiv 4 - (y - 1) sdiv 100 + (y - 1) sdiv 400))
             else (y, ddd));
          mi = (52 + 100 * ddd) sdiv 3060
      in dt0\<lparr>dt_year := y + (mi + 2) sdiv 12,
             dt_month := (mi + 2) smod 12 + 1,
             dt_mday := ddd - (mi * 306 + 5) sdiv 10 + 1\<rparr>)"

definition baseTime :: "date_lib \<Rightarrow> dbl \<Rightarrow> dbl \<Rightarrow> dbl" where
  "baseTime lib timestamp timeframe =
     (if timeframe < TF_WEEK then of_int (to_int32 (timestamp / timeframe)) * timeframe
      else if timeframe = TF_WEEK then
        (let dt = (dl_fromTime lib timestamp)\<lparr>dt_hour := 0, dt_minute := 0, dt_second := 0,
                    dt_microsecond := 0\<rparr>;
             dt = dft (dl_new lib) (gday dt - dl_getDayOfWeek lib dt)
         in dl_toTimestamp lib dt)
      else if timeframe = TF_MONTH then
        (let dt = (dl_fromTime lib timestamp)\<lparr>dt_mday := 1\<rparr>;
             dt = dt\<lparr>dt_wday := dl_getIsoDayOfWeek lib dt, dt_hour := 0, dt_minute := 0,
                     dt_second := 0, dt_microsecond := 0\<rparr>
         in dl_toTimestamp lib dt)
      else of_int (to_int32 (timestamp / timeframe)) * timeframe)"

section \<open>Facts about the printed integers\<close>

text \<open>
  A parser of decimal prefixes, of the kind the O3D library documents for \<open>toInt32\<close>: it reads
  digits up to the first other character. It instantiates the parameter in the witnesses.
\<close>

definition digit_val :: "char \<Rightarrow> nat option" where
  "digit_val c = (let k = (of_char c :: nat) in if 48 \<le> k \<and> k \<le> 57 then Some (k - 48) else None)"

fun parse_nat :: "nat \<Rightarrow> string \<Rightarrow> nat" where
  "parse_nat acc [] = acc"
| "parse_nat acc (c # cs) = (case digit_val c of None \<Rightarrow> acc | Some d \<Rightarrow> parse_nat (10 * acc + d) cs)"

definition parse_int :: "string \<Rightarrow> int" where
  "parse_int s =
     (case s of [] \<Rightarrow> 0
      | c # cs \<Rightarrow> if c = CHR ''-'' then - int (parse_nat 0 cs) else int (parse_nat 0 s))"

lemma digit_val_digit_char [simp]: "d < 10 \<Longrightarrow> digit_val (digit_char d) = Some d"
  by (simp add: digit_val_def digit_char_def)

lemma print_nat_not_Nil [simp]: "print_nat n \<noteq> []"
  by (subst print_nat.simps) simp

lemma parse_nat_print_nat:
  "parse_nat 0 (print_nat n @ cs) = parse_nat n cs"
proof (induction n arbitrary: cs rule: print_nat.induct)
  case (1 n)
  show ?case
  proof (cases "n < 10")
    case True
    then show ?thesis by (subst print_nat.simps) simp
  next
    case False
    have "parse_nat 0 (print_nat n @ cs) = parse_nat (n div 10) (digit_char (n mod 10) # cs)"
      using False "1.IH"[OF False, of "digit_char (n mod 10) # cs"] by (subst print_nat.simps) simp
    also have "\<dots> = parse_nat n cs" by simp
    finally show ?thesis .
  qed
qed

lemma digit_char_not_minus: "d < 10 \<Longrightarrow> digit_char d \<noteq> CHR ''-''"
proof
  assume "d < 10" "digit_char d = CHR ''-''"
  then have "digit_val (CHR ''-'') = Some d" using digit_val_digit_char by metis
  then show False by (simp add: digit_val_def)
qed

lemma hd_print_nat: "hd (print_nat n) \<noteq> CHR ''-''"
proof (induction n rule: print_nat.induct)
  case (1 n)
  then show ?case by (subst print_nat.simps) (auto simp: digit_char_not_minus hd_append)
qed

lemma parse_int_print_int:
  assumes "digit_val c = None"
  shows "parse_int (print_int n @ [c]) = n"
proof (cases "n < 0")
  case True
  with assms parse_nat_print_nat [of "nat (- n)" "[c]"] show ?thesis
    by (simp add: print_int_def parse_int_def)
next
  case False
  obtain x xs where x: "print_nat (nat n) = x # xs" by (cases "print_nat (nat n)") auto
  with hd_print_nat [of "nat n"] have "x \<noteq> CHR ''-''" by auto
  with assms False x parse_nat_print_nat [of "nat n" "[c]"] show ?thesis
    by (simp add: print_int_def parse_int_def)
qed

section \<open>The calendar\<close>

text \<open>
  \<open>year_start\<close> is the day number of the first of March of a year and \<open>month_start\<close> the offset of
  a month in a year that begins in March, the two sums \<^verbatim>\<open>gday\<close> adds up.
\<close>


lemma year_digits:
  fixes y :: int
  obtains q c t u where "y = 400 * q + 100 * c + 4 * t + u" "0 \<le> c" "c \<le> 3" "0 \<le> t" "t \<le> 24" "0 \<le> u" "u \<le> 3"
     "y div 4 = 100 * q + 25 * c + t" "y div 100 = 4 * q + c" "y div 400 = q"
proof -
  define q r where "q = y div 400" and "r = y mod 400"
  define c s where "c = r div 100" and "s = r mod 100"
  define t u where "t = s div 4" and "u = s mod 4"
  have r: "0 \<le> r" "r < 400" "y = 400 * q + r" by (simp_all add: r_def q_def)
  have s: "0 \<le> s" "s < 100" "r = 100 * c + s" by (simp_all add: c_def s_def)
  have u: "0 \<le> u" "u < 4" "s = 4 * t + u" by (simp_all add: t_def u_def)
  have b: "0 \<le> c" "c \<le> 3" "0 \<le> t" "t \<le> 24" using r s u by linarith+
  have y: "y = 400 * q + 100 * c + 4 * t + u" using r s u by simp
  have d4: "y div 4 = 100 * q + 25 * c + t" by (rule int_div_pos_eq [of _ _ _ u]) (use y u in auto)
  have d100: "y div 100 = 4 * q + c" by (rule int_div_pos_eq [of _ _ _ s]) (use y s u in auto)
  have d400: "y div 400 = q" by (simp only: q_def)
  show thesis by (rule that [of q c t u]) (use y b u d4 d100 d400 in linarith)+
qed

definition year_start :: "int \<Rightarrow> int" where
  "year_start y = y * 365 + y div 4 - y div 100 + y div 400"

lemma year_start_bounds:
  "3652425 * y - 14780 \<le> 10000 * year_start y \<and>
   10000 * (year_start y + 365) + 14780 < 3652425 * (y + 2)"
proof -
  obtain q c t u where y: "y = 400 * q + 100 * c + 4 * t + u" "0 \<le> c" "c \<le> 3" "0 \<le> t" "t \<le> 24" "0 \<le> u" "u \<le> 3"
     "y div 4 = 100 * q + 25 * c + t" "y div 100 = 4 * q + c" "y div 400 = q"
    by (rule year_digits)
  show ?thesis
    unfolding year_start_def y(8-10) using y(1-7) by simp
qed

lemma sdiv_nonneg: "0 \<le> a \<Longrightarrow> 0 < b \<Longrightarrow> a sdiv b = (a::int) div b"
  by (cases "a = 0") (simp_all add: signed_divide_int_def)
lemma smod_nonneg: "0 \<le> a \<Longrightarrow> 0 < b \<Longrightarrow> a smod b = (a::int) mod b"
  by (cases "a = 0") (simp_all add: signed_modulo_int_def sdiv_nonneg minus_div_mult_eq_mod)

lemma year_start_nonneg: "0 \<le> y \<Longrightarrow> 0 \<le> year_start y"
proof -
  assume "0 \<le> y"
  moreover have "y div 100 \<le> y div 4" using calculation by linarith
  ultimately show ?thesis unfolding year_start_def by (simp add: pos_imp_zdiv_nonneg_iff)
qed

definition month_len :: "int \<Rightarrow> int" where
  "month_len m = (if m = 12 then 29 else if m = 2 \<or> m = 4 \<or> m = 7 \<or> m = 9 then 30 else 31)"


lemma int_div_succ:
  fixes y n :: int
  assumes "0 < n"
  shows "(y + 1) div n = y div n + (if (y + 1) mod n = 0 then 1 else 0)"
proof -
  define q r where "q = y div n" and "r = y mod n"
  have y: "y = n * q + r" "0 \<le> r" "r < n" using assms by (simp_all add: q_def r_def)
  have "(y + 1) div n = q + (if (y + 1) mod n = 0 then 1 else 0)"
  proof (cases "r + 1 = n")
    case True
    then have e: "y + 1 = n * (q + 1)" using y by (simp add: algebra_simps)
    show ?thesis using assms unfolding e by simp
  next
    case False
    then have r: "0 \<le> r + 1" "r + 1 < n" using y by auto
    have e: "y + 1 = n * q + (r + 1)" using y by simp
    have "(y + 1) div n = q" by (rule int_div_pos_eq [OF e r])
    moreover have "(y + 1) mod n = r + 1" by (rule int_mod_pos_eq [OF e r])
    ultimately show ?thesis using y(2) by simp
  qed
  then show ?thesis by (simp only: q_def)
qed

lemma year_start_succ:
  "year_start (y + 1) = year_start y + 365 + (if (y + 1) mod 4 = 0 then 1 else 0)
     - (if (y + 1) mod 100 = 0 then 1 else 0) + (if (y + 1) mod 400 = 0 then 1 else 0)"
proof -
  have arith: "(y + 1) * 365 + (a + p) - (b + q) + (c + r) = (y * 365 + a - b + c) + 365 + p - q + r"
    for a b c p q r :: int by simp
  have n: "(0::int) < 4" "(0::int) < 100" "(0::int) < 400" by simp_all
  show ?thesis
    unfolding year_start_def int_div_succ [OF n(1)] int_div_succ [OF n(2)] int_div_succ [OF n(3)]
    by (rule arith)
qed

lemma year_start_Suc: "year_start y + 365 \<le> year_start (y + 1)"
proof -
  have "(y + 1) mod 100 = 0 \<Longrightarrow> (y + 1) mod 4 = 0"
    using mod_mod_cancel [of 4 100 "y + 1"] by simp
  then show ?thesis unfolding year_start_succ by (simp split: if_split)
qed

lemma year_start_le: "year_start (y + 1) \<le> year_start y + 366"
proof -
  have "(y + 1) mod 400 = 0 \<Longrightarrow> (y + 1) mod 100 = 0"
    using mod_mod_cancel [of 100 400 "y + 1"] by simp
  then show ?thesis unfolding year_start_succ by (simp split: if_split)
qed

lemma div_two:
  assumes "3652425 * y \<le> x" and "x < 3652425 * (y + 2)"
  shows "x div 3652425 = y \<or> x div 3652425 = y + (1::int)"
proof -
  define q r where "q = x div 3652425" and "r = x mod 3652425"
  have "x = 3652425 * q + r" "0 \<le> r" "r < 3652425" by (simp_all add: q_def r_def)
  with assms have "q = y \<or> q = y + 1" by auto
  then show ?thesis by (simp only: q_def)
qed

lemma year_start_leap:
  "(y + 1) mod 4 = 0 \<Longrightarrow> (y + 1) mod 100 \<noteq> 0 \<or> (y + 1) mod 400 = 0 \<Longrightarrow> year_start y + 366 \<le> year_start (y + 1)"
  unfolding year_start_succ by auto

definition month_start :: "int \<Rightarrow> int" where
  "month_start m = (m * 306 + 5) div 10"

lemma upto12: "1 \<le> m \<Longrightarrow> m \<le> 12 \<Longrightarrow> m \<in> {1, 2, 3, 4, 5, 6, 7, 8, 9, 10, 11, 12::int}"
  by simp presburger

lemma month_index:
  assumes "1 \<le> mo" "mo \<le> (12::int)"
  defines "m \<equiv> (mo + 9) mod 12"
  shows "0 \<le> m" "m \<le> 11" "m div 10 = (if mo \<le> 2 then 1 else 0)" "(m + 2) mod 12 + 1 = mo"
    "(m + 2) div 12 = (if mo \<le> 2 then 1 else 0)"
  using upto12 [OF assms(1,2)] by (auto simp: m_def)

definition date_len :: "datetime \<Rightarrow> int" where
  "date_len d =
     (if dt_month d = 2
      then (if dt_year d mod 4 = 0 \<and> (dt_year d mod 100 \<noteq> 0 \<or> dt_year d mod 400 = 0) then 29 else 28)
      else if dt_month d \<in> {4, 6, 9, 11} then 30 else 31)"

definition valid_date :: "datetime \<Rightarrow> bool" where
  "valid_date d \<longleftrightarrow> 1 \<le> dt_year d \<and> 1 \<le> dt_month d \<and> dt_month d \<le> 12 \<and> 1 \<le> dt_mday d \<and> dt_mday d \<le> date_len d"

definition march_year :: "datetime \<Rightarrow> int" where
  "march_year d = (if dt_month d \<le> 2 then dt_year d - 1 else dt_year d)"
definition march_month :: "datetime \<Rightarrow> int" where
  "march_month d = (dt_month d + 9) mod 12"

lemma gday_alt:
  assumes "valid_date d"
  shows "gday d = year_start (march_year d) + month_start (march_month d) + (dt_mday d - 1)"
    and "0 \<le> march_year d"
proof -
  note m = month_index [of "dt_month d"]
  show y0: "0 \<le> march_year d" using assms by (simp add: march_year_def valid_date_def)
  have mo: "(dt_month d + 9) smod 12 = march_month d" "0 \<le> march_month d"
    and y: "dt_year d - march_month d sdiv 10 = march_year d"
    using assms m by (simp_all add: valid_date_def march_month_def march_year_def smod_nonneg sdiv_nonneg)
  show "gday d = year_start (march_year d) + month_start (march_month d) + (dt_mday d - 1)"
    unfolding gday_def Let_def mo(1) y using y0 mo(2) by (simp add: sdiv_nonneg year_start_def month_start_def)
qed

lemma month_day:
  assumes "valid_date d"
  defines "k \<equiv> month_start (march_month d) + (dt_mday d - 1)"
  shows "(52 + 100 * k) div 3060 = march_month d" and "0 \<le> k" and "k < year_start (march_year d + 1) - year_start (march_year d)"
proof -
  have mo: "dt_month d \<in> {1, 2, 3, 4, 5, 6, 7, 8, 9, 10, 11, 12}"
    using assms by (intro upto12) (simp_all add: valid_date_def)
  have d: "1 \<le> dt_mday d" "dt_mday d \<le> date_len d" using assms by (simp_all add: valid_date_def)
  show "(52 + 100 * k) div 3060 = march_month d" and "0 \<le> k"
    using mo d by (auto simp: k_def march_month_def month_start_def date_len_def split: if_splits)
  show "k < year_start (march_year d + 1) - year_start (march_year d)"
    using mo d year_start_Suc [of "march_year d"] year_start_leap [of "march_year d"] 
    by (auto simp: k_def march_month_def month_start_def date_len_def march_year_def split: if_splits)
qed


section \<open>Properties\<close>

definition timeframe_unit :: "dbl \<Rightarrow> dbl" where
  "timeframe_unit tf =
     (if tf < TF_MIN then TF_SEC else if tf < TF_HOUR then TF_MIN else if tf < TF_DAY then TF_HOUR
      else if tf < TF_WEEK then TF_DAY else if tf < TF_MONTH then TF_WEEK else TF_MONTH)"

text \<open>
  C27: The name of a timeframe below a year reads back as the timeframe, rounded down to a whole number
  of the unit the name uses. The parser of integers is assumed to read what
  \<^verbatim>\<open>printf\<close> wrote, up to the unit's letter.
\<close>

theorem timeframe_roundtrip:
  assumes "\<And>n c. digit_val c = None \<Longrightarrow> toInt32 (print_int n @ [c]) = n"
    and "0 < tf" and "tf < TF_YEAR"
  shows "timeframeFromStr toInt32 (timeframeToStr tf) = of_int \<lfloor>tf / timeframe_unit tf\<rfloor> * timeframe_unit tf"
proof -
  have d: "digit_val (CHR ''s'') = None" "digit_val (CHR ''m'') = None" "digit_val (CHR ''h'') = None"
    "digit_val (CHR ''d'') = None" "digit_val (CHR ''w'') = None" "digit_val (CHR ''M'') = None"
    by (simp_all add: digit_val_def)
  have "0 \<le> tf / timeframe_unit tf" "tf / timeframe_unit tf < 2 ^ 31"
    using assms(2,3) by (auto simp: timeframe_unit_def TF_defs field_simps)
  then have i: "to_int32 (tf / timeframe_unit tf) = \<lfloor>tf / timeframe_unit tf\<rfloor>" by (rule to_int32_nonneg)
  consider "tf < TF_MIN" | "TF_MIN \<le> tf" "tf < TF_HOUR" | "TF_HOUR \<le> tf" "tf < TF_DAY"
    | "TF_DAY \<le> tf" "tf < TF_WEEK" | "TF_WEEK \<le> tf" "tf < TF_MONTH" | "TF_MONTH \<le> tf"
    by linarith
  then show ?thesis
    using i assms(2,3) d
    by cases (simp_all add: timeframe_unit_def timeframeToStr_def timeframeFromStr_def TF_defs assms(1))
qed

theorem timeframe_roundtrip_witness:
  "timeframeFromStr parse_int (timeframeToStr 14400) = 14400"
  using timeframe_roundtrip [of parse_int 14400]
  by (simp add: parse_int_print_int TF_defs timeframe_unit_def)

text \<open>
  \<^verbatim>\<open>dft\<close> computes the date of a day number: it is the inverse of \<^verbatim>\<open>gday\<close> on
  the dates of the Gregorian calendar.
\<close>

theorem dft_gday:
  assumes "valid_date d"
  shows "dft dt0 (gday d) = dt0\<lparr>dt_year := dt_year d, dt_month := dt_month d, dt_mday := dt_mday d\<rparr>"
proof -
  define y m k where "y = march_year d" and "m = march_month d" and "k = month_start m + (dt_mday d - 1)"
  have y0: "0 \<le> y" and g: "gday d = year_start y + k"
    using gday_alt [OF assms] by (simp_all add: y_def m_def k_def)
  have k: "(52 + 100 * k) div 3060 = m" "0 \<le> k" "k < year_start (y + 1) - year_start y"
    using month_day [OF assms] by (simp_all add: y_def m_def k_def)
  have m: "0 \<le> m" "(m + 2) mod 12 + 1 = dt_month d" "y + (m + 2) div 12 = dt_year d"
    using month_index [of "dt_month d"] assms 
    by (auto simp: valid_date_def m_def y_def march_month_def march_year_def)
  define e where "e = (10000 * gday d + 14780) sdiv 3652425"
  have g0: "0 \<le> gday d" using year_start_nonneg [OF y0] k g by simp
  have ed: "e = (10000 * gday d + 14780) div 3652425" using g0 by (simp add: e_def sdiv_nonneg)
  have lo: "3652425 * y \<le> 10000 * gday d + 14780"
    using year_start_bounds [of y] g k(2) by simp
  have up: "10000 * gday d + 14780 < 3652425 * (y + 2)"
    using year_start_bounds [of y] year_start_le [of y] g k(3) by simp
  have e2: "e = y \<or> e = y + 1"
    unfolding ed by (rule div_two) (use lo up in simp_all)
  have Y: "z * 365 + z sdiv 4 - z sdiv 100 + z sdiv 400 = year_start z" if "0 \<le> z" for z
    using that by (simp add: year_start_def sdiv_nonneg)
  have mi: "(52 + 100 * k) sdiv 3060 = m" "(m * 306 + 5) sdiv 10 = month_start m"
      "(m + 2) sdiv 12 = (m + 2) div 12" "(m + 2) smod 12 = (m + 2) mod 12"
    using k m(1) by (simp_all add: sdiv_nonneg smod_nonneg month_start_def)
  have e0: "0 \<le> e" using e2 y0 by auto
  have kd: "k - month_start m + 1 = dt_mday d" by (simp add: k_def)
  show ?thesis
  proof (cases "gday d - year_start e < 0")
    case True
    then have e: "e - 1 = y" "gday d - year_start y = k" using e2 g k(2) by auto
    show ?thesis unfolding dft_def Let_def e_def [symmetric] Y [OF e0] e(1)
      using True by (simp add: e Y [OF y0] mi m kd)
  next
    case False
    then have e: "e = y" "gday d - year_start y = k" using e2 g k(3) by auto
    show ?thesis unfolding dft_def Let_def e_def [symmetric] Y [OF e0] 
      using False by (simp add: e mi m kd)
  qed
qed
definition leap_day :: datetime where
  "leap_day = \<lparr>dt_year = 2024, dt_month = 2, dt_mday = 29, dt_wday = 0, dt_hour = 0, dt_minute = 0,
             dt_second = 0, dt_microsecond = 0\<rparr>"

theorem dft_gday_witness: "dft leap_day (gday leap_day) = leap_day"
  using dft_gday [of leap_day leap_day] by (simp add: leap_day_def valid_date_def date_len_def)

text \<open>
  \<^verbatim>\<open>baseTime\<close> for the timeframes that are not calendar based: the result is the start of a bar, the
  timestamp is inside of this bar, and the base time of a base time is itself. The
  hypothesis that the number of the bar fits 32 bits is needed: the code casts it to
  \<^verbatim>\<open>Int32\<close>.
\<close>

theorem baseTime_bar:
  assumes "0 < tf" and "tf < TF_WEEK" and "0 \<le> ts" and "ts / tf < 2 ^ 31"
  shows "baseTime lib ts tf \<le> ts \<and> ts < baseTime lib ts tf + tf
       \<and> baseTime lib (baseTime lib ts tf) tf = baseTime lib ts tf"
proof -
  have q: "0 \<le> ts / tf" using assms by simp
  have i: "to_int32 (ts / tf) = \<lfloor>ts / tf\<rfloor>" by (rule to_int32_nonneg [OF q assms(4)])
  have b: "baseTime lib ts tf = of_int \<lfloor>ts / tf\<rfloor> * tf" using assms(2) i by (simp add: baseTime_def)
  have le: "of_int \<lfloor>ts / tf\<rfloor> \<le> ts / tf" "ts / tf < of_int \<lfloor>ts / tf\<rfloor> + 1" by linarith+
  have lo: "of_int \<lfloor>ts / tf\<rfloor> * tf \<le> ts" using mult_right_mono [OF le(1), of tf] assms(1) by simp
  have hi: "ts < of_int \<lfloor>ts / tf\<rfloor> * tf + tf"
    using le(2) assms(1) by (simp add: pos_divide_less_eq algebra_simps)
  have d: "of_int \<lfloor>ts / tf\<rfloor> * tf / tf = (of_int \<lfloor>ts / tf\<rfloor> :: dbl)" using assms(1) by simp
  have j: "to_int32 (of_int \<lfloor>ts / tf\<rfloor>) = \<lfloor>ts / tf\<rfloor>"
    using to_int32_nonneg [of "of_int \<lfloor>ts / tf\<rfloor>"] q le(1) assms(4) by simp
  show ?thesis unfolding b using lo hi assms(2) d j by (simp add: baseTime_def)
qed

definition no_dates :: date_lib where
  "no_dates = \<lparr>dl_new = leap_day, dl_fromTime = (\<lambda>_. leap_day), dl_toTimestamp = (\<lambda>_. 0),
              dl_getDayOfWeek = (\<lambda>_. 0), dl_getIsoDayOfWeek = (\<lambda>_. 0)\<rparr>"

theorem baseTime_bar_witness: "baseTime no_dates 1000 300 = 900"
proof -
  have "baseTime no_dates 1000 300 \<le> 1000 \<and> 1000 < baseTime no_dates 1000 300 + 300
      \<and> baseTime no_dates (baseTime no_dates 1000 300) 300 = baseTime no_dates 1000 300"
    by (rule baseTime_bar) (simp_all add: TF_defs)
  then show ?thesis by (simp add: baseTime_def TF_defs to_int32_def trunc_dbl_def)
qed

text \<open>The names of the moving average types read back, except for the one type with no name of its own.\<close>

theorem maType_roundtrip:
  "maTypeFromStr (maTypeToStr t) = t \<longleftrightarrow> t \<noteq> MA_TEMA"
  by (cases t) (simp_all add: maTypeToStr_def maTypeFromStr_def)

end
