(* ===== verification/Ohlc_Ring.thy ===== *)
theory Ohlc_Ring
  imports Common "HOL-Library.Monad_Syntax"
begin

text \<open>
  \<^verbatim>\<open>strategies/include/siis/tick.h\<close> and \<^verbatim>\<open>strategies/include/siis/ohlc.h\<close>: ticks, bars, the growing array
  of bars \<^verbatim>\<open>OhlcArray\<close> and the ring buffer \<^verbatim>\<open>OhlcCircular\<close> with its iterator.

  A pointer into the ring is an index of its storage, the null pointer is \<open>None\<close>. The array
  class of the O3D library is its list of elements in use and its capacity. The interface
  \<open>bar_log\<close> is what the generators rely on: a log that keeps the last bars.
\<close>

section \<open>Ticks and bars\<close>

record tick =
  t_ts :: dbl
  t_bid :: dbl
  t_ask :: dbl
  t_last :: dbl
  t_vol :: dbl
  t_bos :: int

definition t_price :: "tick \<Rightarrow> dbl" where
  "t_price t = (t_bid t + t_ask t) * (1 / 2)"

definition t_spread :: "tick \<Rightarrow> dbl" where
  "t_spread t = t_ask t - t_bid t"

record ohlc =
  o_ts :: dbl
  o_tf :: dbl
  o_open :: dbl
  o_high :: dbl
  o_low :: dbl
  o_close :: dbl
  o_vol :: dbl
  o_ended :: dbl

datatype ohlc_type = TYPE_LAST | TYPE_MID | TYPE_BID | TYPE_ASK

definition zero_ohlc :: ohlc where
  "zero_ohlc = \<lparr>o_ts = 0, o_tf = 0, o_open = 0, o_high = 0, o_low = 0, o_close = 0, o_vol = 0,
                o_ended = 0\<rparr>"

definition consolidated :: "ohlc \<Rightarrow> bool" where
  "consolidated b \<longleftrightarrow> o_ended b \<noteq> 0"

definition setConsolidated :: "ohlc \<Rightarrow> ohlc" where
  "setConsolidated b = b\<lparr>o_ended := 1\<rparr>"

definition setOhlc1 :: "dbl \<Rightarrow> ohlc \<Rightarrow> ohlc" where
  "setOhlc1 p b = b\<lparr>o_open := p, o_high := p, o_low := p, o_close := p\<rparr>"

definition setOhlc4 :: "dbl \<Rightarrow> dbl \<Rightarrow> dbl \<Rightarrow> dbl \<Rightarrow> ohlc \<Rightarrow> ohlc" where
  "setOhlc4 o' h l c b = b\<lparr>o_open := o', o_high := h, o_low := l, o_close := c\<rparr>"

definition o_height :: "ohlc \<Rightarrow> dbl" where
  "o_height b = o_high b - o_low b"

section \<open>The growing array\<close>

record ohlc_array =
  oa_data :: "ohlc list"
  oa_max :: int

definition oa_growSize :: "ohlc_array \<Rightarrow> ohlc_array" where
  "oa_growSize a =
     (if oa_max a = 0 then \<lparr>oa_data = [], oa_max = 100\<rparr>
      else a\<lparr>oa_max := oa_max a * 2\<rparr>)"

definition oa_push :: "ohlc \<Rightarrow> ohlc_array \<Rightarrow> ohlc_array" where
  "oa_push x a =
     (let t = int (length (oa_data a));
          a = (if t = 0 \<and> oa_max a = 0 then oa_growSize a
               else if t > 0 \<and> t \<ge> oa_max a - 1 then oa_growSize a
               else a)
      in a\<lparr>oa_data := oa_data a @ [x]\<rparr>)"

definition oa_clear :: "ohlc_array \<Rightarrow> ohlc_array" where
  "oa_clear a = a\<lparr>oa_data := []\<rparr>"

definition oa_ok :: "ohlc_array \<Rightarrow> bool" where
  "oa_ok a \<longleftrightarrow> int (length (oa_data a)) \<le> oa_max a"

lemma oa_grow_ok:
  "oa_ok a \<Longrightarrow> oa_ok (oa_growSize a) \<and> oa_data (oa_growSize a) = oa_data a"
  by (auto simp: oa_ok_def oa_growSize_def)

section \<open>The ring buffer\<close>

record ohlc_ring =
  rb_data :: "ohlc list"
  rb_first :: nat
  rb_last :: nat
  rb_size :: nat

definition new_ring :: "nat \<Rightarrow> ohlc_ring" where
  "new_ring n = \<lparr>rb_data = replicate n zero_ohlc, rb_first = 0, rb_last = 0, rb_size = 0\<rparr>"

definition rb_full :: "ohlc_ring \<Rightarrow> bool" where
  "rb_full r \<longleftrightarrow> rb_size r = length (rb_data r)"

definition rb_increment :: "ohlc_ring \<Rightarrow> nat \<Rightarrow> nat" where
  "rb_increment r p = (if p + 1 = length (rb_data r) then 0 else p + 1)"

definition rb_clear :: "ohlc_ring \<Rightarrow> ohlc_ring" where
  "rb_clear r = r\<lparr>rb_first := 0, rb_last := 0, rb_size := 0, rb_data := (rb_data r)[0 := zero_ohlc]\<rparr>"

definition writeElt :: "ohlc_ring \<Rightarrow> nat \<times> ohlc_ring" where
  "writeElt r =
     (let (res, r) =
        (if rb_full r then
           (let res = rb_last r; l = rb_increment r (rb_last r)
            in (res, r\<lparr>rb_last := l, rb_first := l\<rparr>))
         else
           (let res = rb_last r
            in (res, r\<lparr>rb_last := rb_increment r (rb_last r), rb_size := rb_size r + 1\<rparr>)))
      in (res, r\<lparr>rb_data := (rb_data r)[res := zero_ohlc]\<rparr>))"

text \<open>Reading and writing through a pointer into the ring.\<close>

definition elt :: "ohlc_ring \<Rightarrow> nat \<Rightarrow> ohlc" where
  "elt r i = rb_data r ! i"

definition set_elt :: "ohlc_ring \<Rightarrow> nat \<Rightarrow> ohlc \<Rightarrow> ohlc_ring" where
  "set_elt r i x = r\<lparr>rb_data := (rb_data r)[i := x]\<rparr>"

text \<open>The iterator \<^verbatim>\<open>Cit\<close>: its position is \<open>None\<close> at the end.\<close>

definition cit_begin :: "ohlc_ring \<Rightarrow> nat option" where
  "cit_begin r = (if rb_size r > 0 then Some (rb_first r) else None)"

definition cit_next :: "ohlc_ring \<Rightarrow> nat \<Rightarrow> nat option" where
  "cit_next r p =
     (if \<not> rb_full r \<and> p = rb_last r then None
      else let p = p + 1
           in if p = rb_last r then None
              else if p = length (rb_data r) then (if 0 = rb_last r then None else Some 0)
              else Some p)"

text \<open>
  The loop \<^verbatim>\<open>for (it = cbegin(); it != cend(); ++it)\<close> that reads every element. It is partial:
  an iterator that never reached its end would have no value.
\<close>

partial_function (option) cit_walk :: "ohlc_ring \<Rightarrow> nat option \<Rightarrow> ohlc list option" where
  "cit_walk r p =
     (case p of None \<Rightarrow> Some []
      | Some i \<Rightarrow> do { xs \<leftarrow> cit_walk r (cit_next r i); Some (elt r i # xs) })"

section \<open>What the ring stands for\<close>

definition ring_ok :: "ohlc_ring \<Rightarrow> bool" where
  "ring_ok r \<longleftrightarrow>
     2 \<le> length (rb_data r) \<and> rb_size r \<le> length (rb_data r) \<and>
     (if rb_full r then rb_last r = rb_first r \<and> rb_first r < length (rb_data r)
      else rb_first r = 0 \<and> rb_last r = rb_size r)"

definition rb_pos :: "ohlc_ring \<Rightarrow> nat \<Rightarrow> nat" where
  "rb_pos r k = (rb_first r + k) mod length (rb_data r)"

definition contents :: "ohlc_ring \<Rightarrow> ohlc list" where
  "contents r = map (\<lambda>k. elt r (rb_pos r k)) [0..<rb_size r]"

text \<open>The index of the newest element.\<close>

definition newest :: "ohlc_ring \<Rightarrow> nat" where
  "newest r = rb_pos r (rb_size r - 1)"

text \<open>Write a whole bar, and replace the newest one: what the generators do field by field.\<close>

definition rb_put :: "ohlc_ring \<Rightarrow> ohlc \<Rightarrow> ohlc_ring" where
  "rb_put r x = (let (i, r) = writeElt r in set_elt r i x)"

definition rb_amend :: "ohlc_ring \<Rightarrow> ohlc \<Rightarrow> ohlc_ring" where
  "rb_amend r x = set_elt r (newest r) x"

lemma ring_ok_new: "2 \<le> n \<Longrightarrow> ring_ok (new_ring n)"
  by (simp add: ring_ok_def new_ring_def rb_full_def)

lemma length_new: "length (rb_data (new_ring n)) = n"
  by (simp add: new_ring_def)

lemma contents_new [simp]: "contents (new_ring n) = []"
  by (simp add: contents_def new_ring_def)

lemma length_contents [simp]: "length (contents r) = rb_size r"
  by (simp add: contents_def)

lemma set_elt_simps [simp]:
  "rb_first (set_elt r i x) = rb_first r" "rb_last (set_elt r i x) = rb_last r"
  "rb_size (set_elt r i x) = rb_size r" "length (rb_data (set_elt r i x)) = length (rb_data r)"
  "rb_pos (set_elt r i x) = rb_pos r" "newest (set_elt r i x) = newest r"
  "rb_full (set_elt r i x) = rb_full r" "ring_ok (set_elt r i x) = ring_ok r"
  "set_elt (set_elt r i x) i y = set_elt r i y"
  by (auto simp: set_elt_def rb_pos_def newest_def rb_full_def ring_ok_def fun_eq_iff)

lemma elt_set_elt [simp]: "i < length (rb_data r) \<Longrightarrow> elt (set_elt r i x) i = x"
  by (simp add: elt_def set_elt_def)

lemma elt_set_elt_other: "i \<noteq> j \<Longrightarrow> elt (set_elt r i x) j = elt r j"
  by (simp add: elt_def set_elt_def)

lemma rb_pos_less: "ring_ok r \<Longrightarrow> rb_pos r k < length (rb_data r)"
  unfolding ring_ok_def rb_pos_def by (intro mod_less_divisor) linarith

lemma newest_less: "ring_ok r \<Longrightarrow> newest r < length (rb_data r)"
  by (simp add: newest_def rb_pos_less)

lemma ring_okD:
  assumes "ring_ok r"
  shows "2 \<le> length (rb_data r)" "rb_size r \<le> length (rb_data r)" "rb_first r < length (rb_data r)"
    "rb_last r < length (rb_data r)"
  using assms by (auto simp: ring_ok_def rb_full_def split: if_splits)

lemma rb_pos_if:
  assumes "ring_ok r" and "k < length (rb_data r)"
  shows "rb_pos r k = (if rb_first r + k < length (rb_data r) then rb_first r + k
                       else rb_first r + k - length (rb_data r))"
  using ring_okD(3) [OF assms(1)] assms(2) by (simp add: rb_pos_def mod_if)

lemma rb_pos_inj:
  assumes "ring_ok r" and "i < rb_size r" and "j < rb_size r" and "rb_pos r i = rb_pos r j"
  shows "i = j"
  using assms ring_okD [OF assms(1)] by (simp add: rb_pos_if split: if_splits)

lemma contents_set_elt:
  assumes "ring_ok r" and "k < rb_size r"
  shows "contents (set_elt r (rb_pos r k) x) = (contents r)[k := x]"
proof (rule nth_equalityI)
  fix j assume "j < length (contents (set_elt r (rb_pos r k) x))"
  then have j: "j < rb_size r" by simp
  show "contents (set_elt r (rb_pos r k) x) ! j = (contents r)[k := x] ! j"
  proof (cases "j = k")
    case True
    with j assms show ?thesis by (simp add: contents_def rb_pos_less)
  next
    case False
    then have "rb_pos r k \<noteq> rb_pos r j" using rb_pos_inj [OF assms(1)] assms(2) j by metis
    with False j show ?thesis by (simp add: contents_def elt_set_elt_other)
  qed
qed simp

lemma contents_newest:
  assumes "ring_ok r" and "0 < rb_size r"
  shows "elt r (newest r) = last (contents r)"
    and "contents (set_elt r (newest r) x) = butlast (contents r) @ [x]"
proof -
  have ne: "contents r \<noteq> []" using assms(2) by (simp flip: length_greater_0_conv)
  show "elt r (newest r) = last (contents r)"
    using assms(2) ne by (simp add: last_conv_nth newest_def contents_def)
  show "contents (set_elt r (newest r) x) = butlast (contents r) @ [x]"
    unfolding newest_def using contents_set_elt [OF assms(1), of "rb_size r - 1" x] assms(2) ne
    by (metis One_nat_def butlast_conv_take diff_less length_contents lessI list_update_append1
        append_butlast_last_id length_butlast list_update_length)
qed

lemma writeElt_ok:
  assumes "ring_ok r" and "writeElt r = (i, r')"
  shows "ring_ok r'" "i = newest r'" "0 < rb_size r'" "length (rb_data r') = length (rb_data r)"
    "elt r' i = zero_ohlc" "contents r' = take_last (length (rb_data r)) (contents r @ [zero_ohlc])"
proof -
  have N: "2 \<le> length (rb_data r)" "rb_size r \<le> length (rb_data r)" "rb_first r < length (rb_data r)"
    "rb_last r < length (rb_data r)" using ring_okD [OF assms(1)] by auto
  have r': "i = rb_last r" "rb_data r' = (rb_data r)[i := zero_ohlc]"
    "rb_last r' = rb_increment r (rb_last r)"
    "rb_first r' = (if rb_full r then rb_increment r (rb_last r) else rb_first r)"
    "rb_size r' = (if rb_full r then rb_size r else rb_size r + 1)"
    using assms(2) by (auto simp: writeElt_def Let_def split: if_splits)
  show ok: "ring_ok r'" and sz: "0 < rb_size r'" and len: "length (rb_data r') = length (rb_data r)"
    using assms(1) N r' by (auto simp: ring_ok_def rb_full_def rb_increment_def split: if_splits)
  show new: "i = newest r'"
    using assms(1) N r' len sz ok
    by (auto simp: newest_def rb_pos_if ring_ok_def rb_full_def rb_increment_def split: if_splits)
  show el: "elt r' i = zero_ohlc" using r' N by (simp add: elt_def)
  show "contents r' = take_last (length (rb_data r)) (contents r @ [zero_ohlc])"
  proof (rule nth_equalityI)
    show "length (contents r') = length (take_last (length (rb_data r)) (contents r @ [zero_ohlc]))"
      using r' N by (auto simp: rb_full_def)
  next
    fix k assume "k < length (contents r')"
    then have k: "k < rb_size r'" by simp
    define d where "d = (if rb_full r then 1 else (0::nat))"
    have d: "rb_size r' + d = rb_size r + 1" using r' by (simp add: d_def)
    have rhs: "take_last (length (rb_data r)) (contents r @ [zero_ohlc]) ! k
        = (contents r @ [zero_ohlc]) ! (d + k)"
      using N k r' by (auto simp: take_last_def d_def rb_full_def nth_append)
    show "contents r' ! k = take_last (length (rb_data r)) (contents r @ [zero_ohlc]) ! k"
    proof (cases "k = rb_size r' - 1")
      case True
      then have "contents r' ! k = zero_ohlc" using k el new by (simp add: contents_def newest_def)
      then show ?thesis using rhs True d sz by (simp add: nth_append)
    next
      case False
      then have dk: "d + k < rb_size r" using k d by simp
      have same: "rb_pos r' k = rb_pos r (d + k)"
        using assms(1) N r' len dk ok k
        by (auto simp: rb_pos_if d_def ring_ok_def rb_full_def rb_increment_def split: if_splits)
      have "rb_pos r' k \<noteq> newest r'"
        using rb_pos_inj [OF ok, of k "rb_size r' - 1"] k False by (auto simp: newest_def)
      then have "elt r' (rb_pos r' k) = elt r (rb_pos r' k)"
        using r'(2) new by (simp add: elt_def)
      then show ?thesis using rhs k dk same by (simp add: contents_def nth_append)
    qed
  qed
qed

section \<open>The ring as a bounded log\<close>

locale bar_log =
  fixes ok :: "'b \<Rightarrow> bool"
    and cap :: "'b \<Rightarrow> nat"
    and log :: "'b \<Rightarrow> 'a list"
    and put :: "'b \<Rightarrow> 'a \<Rightarrow> 'b"
    and amend :: "'b \<Rightarrow> 'a \<Rightarrow> 'b"
  assumes cap_pos: "ok b \<Longrightarrow> 0 < cap b"
    and put_ok: "ok b \<Longrightarrow> ok (put b x)"
    and cap_put: "ok b \<Longrightarrow> cap (put b x) = cap b"
    and log_put: "ok b \<Longrightarrow> log (put b x) = take_last (cap b) (log b @ [x])"
    and amend_ok: "ok b \<Longrightarrow> ok (amend b x)"
    and cap_amend: "ok b \<Longrightarrow> cap (amend b x) = cap b"
    and log_amend: "ok b \<Longrightarrow> log b \<noteq> [] \<Longrightarrow> log (amend b x) = butlast (log b) @ [x]"
    and log_bound: "ok b \<Longrightarrow> length (log b) \<le> cap b"
begin

lemma log_put_nonempty: "ok b \<Longrightarrow> log (put b x) \<noteq> []"
  using cap_pos by (simp add: log_put take_last_snoc)

lemma log_put_amend:
  assumes "ok b"
  shows "log (amend (put b x) y) = log (put b y)"
  using assms by (simp add: log_amend put_ok log_put_nonempty) (simp add: log_put cap_pos take_last_snoc)

lemma puts_ok: "ok b \<Longrightarrow> ok (foldl put b xs) \<and> cap (foldl put b xs) = cap b"
  by (induction xs arbitrary: b) (simp_all add: put_ok cap_put)

lemma log_puts:
  assumes "ok b"
  shows "log (foldl put b xs) = take_last (cap b) (log b @ xs)"
proof (induction xs rule: rev_induct)
  case Nil
  show ?case using assms log_bound by simp
next
  case (snoc x xs)
  have "log (foldl put b (xs @ [x])) = take_last (cap b) (take_last (cap b) (log b @ xs) @ [x])"
    using puts_ok [OF assms, of xs] snoc by (simp add: log_put)
  also have "\<dots> = take_last (cap b) (log b @ (xs @ [x]))"
    using cap_pos [OF assms] by (simp add: take_last_snoc_take_last flip: append_assoc)
  finally show ?case .
qed

text \<open>The log keeps the end of an unbounded history \<open>B\<close> through both operations.\<close>

lemma put_history:
  assumes "ok b" and "log b = take_last (cap b) B"
  shows "log (put b x) = take_last (cap b) (B @ [x])"
  using assms by (simp add: log_put take_last_snoc_take_last cap_pos)

lemma amend_history:
  assumes "ok b" and "log b = take_last (cap b) B" and "B \<noteq> []"
  shows "log (amend b x) = take_last (cap b) (butlast B @ [x])" and "last (log b) = last B"
  using assms cap_pos [OF assms(1)]
  by (simp_all add: log_amend butlast_take_last_snoc last_take_last)

end

lemma rb_put_ok:
  assumes "ring_ok r"
  shows "ring_ok (rb_put r x) \<and> length (rb_data (rb_put r x)) = length (rb_data r)
    \<and> contents (rb_put r x) = take_last (length (rb_data r)) (contents r @ [x])"
proof -
  obtain i r' where w: "writeElt r = (i, r')" by (cases "writeElt r")
  note o = writeElt_ok [OF assms w]
  have "0 < length (rb_data r)" using ring_okD(1) [OF assms] by linarith
  then show ?thesis
    using o by (simp add: rb_put_def w contents_newest take_last_snoc)
qed

interpretation ring: bar_log ring_ok "\<lambda>r. length (rb_data r)" contents rb_put rb_amend
proof unfold_locales
  fix b :: ohlc_ring and x assume b: "ring_ok b"
  show "0 < length (rb_data b)" using ring_okD(1) [OF b] by linarith
  show "ring_ok (rb_put b x)" "length (rb_data (rb_put b x)) = length (rb_data b)"
    "contents (rb_put b x) = take_last (length (rb_data b)) (contents b @ [x])"
    using rb_put_ok [OF b] by auto
  show "ring_ok (rb_amend b x)" "length (rb_data (rb_amend b x)) = length (rb_data b)"
    using b by (simp_all add: rb_amend_def)
  show "length (contents b) \<le> length (rb_data b)" using ring_okD(2) [OF b] by simp
  show "contents (rb_amend b x) = butlast (contents b) @ [x]" if "contents b \<noteq> []"
    using contents_newest(2) [OF b] that by (simp add: rb_amend_def contents_def)
qed

section \<open>Properties\<close>

text \<open>
  C12: The ring holds, after any sequence of writes into a new one, the last bars that were written,
  oldest first, and never more than its size.
\<close>

theorem ring_keeps_last:
  assumes "2 \<le> n"
  shows "contents (foldl rb_put (new_ring n) bars) = take_last n bars"
  using ring.log_puts [OF ring_ok_new [OF assms], of bars]
  by (simp only: contents_new append_Nil length_new)

lemma cit_next_pos:
  assumes "ring_ok r" and "k < rb_size r"
  shows "cit_next r (rb_pos r k) = (if k + 1 = rb_size r then None else Some (rb_pos r (k + 1)))"
  using assms ring_okD [OF assms(1)]
  by (auto simp: cit_next_def rb_pos_if Let_def ring_ok_def rb_full_def split: if_splits)

lemma cit_walk_pos:
  assumes "ring_ok r" and "k < rb_size r"
  shows "cit_walk r (Some (rb_pos r k)) = Some (drop k (contents r))"
  using assms(2)
proof (induction "rb_size r - k" arbitrary: k)
  case 0
  then show ?case by simp
next
  case (Suc n)
  have c: "drop k (contents r) = elt r (rb_pos r k) # drop (k + 1) (contents r)"
    using Suc.prems by (simp add: contents_def Cons_nth_drop_Suc [symmetric])
  show ?case
  proof (cases "k + 1 = rb_size r")
    case True
    with Suc.prems c show ?thesis
      by (subst cit_walk.simps) (simp add: cit_next_pos [OF assms(1)] cit_walk.simps [of r None])
  next
    case False
    then have "cit_walk r (Some (rb_pos r (k + 1))) = Some (drop (k + 1) (contents r))"
      using Suc by simp
    with False Suc.prems c show ?thesis
      by (subst cit_walk.simps) (simp add: cit_next_pos [OF assms(1)])
  qed
qed

definition bar_at :: "dbl \<Rightarrow> ohlc" where
  "bar_at t = zero_ohlc\<lparr>o_ts := t\<rparr>"

theorem ring_keeps_last_witness:
  "contents (foldl rb_put (new_ring 2) [bar_at 1, bar_at 2, bar_at 3]) = [bar_at 2, bar_at 3]"
  using ring_keeps_last [of 2 "[bar_at 1, bar_at 2, bar_at 3]"] by (simp add: take_last_def)

text \<open>
  The iterator reaches its end, and the loop over it reads every bar of the ring once, from the
  oldest to the newest, whether the ring is empty, filling or has wrapped around.
\<close>

theorem cit_walk_contents:
  assumes "ring_ok r"
  shows "cit_walk r (cit_begin r) = Some (contents r)"
proof (cases "rb_size r = 0")
  case True
  then show ?thesis by (simp add: cit_begin_def cit_walk.simps [of r None] contents_def)
next
  case False
  then have "rb_first r = rb_pos r 0" using ring_okD(3) [OF assms] by (simp add: rb_pos_def)
  with False cit_walk_pos [OF assms, of 0] show ?thesis by (simp add: cit_begin_def)
qed

theorem cit_walk_contents_witness:
  "cit_walk (foldl rb_put (new_ring 2) [bar_at 1, bar_at 2, bar_at 3])
     (cit_begin (foldl rb_put (new_ring 2) [bar_at 1, bar_at 2, bar_at 3])) = Some [bar_at 2, bar_at 3]"
proof -
  let ?r = "foldl rb_put (new_ring 2) [bar_at 1, bar_at 2, bar_at 3]"
  have "ring_ok ?r" using ring.puts_ok [OF ring_ok_new [of 2]] by blast
  then have "cit_walk ?r (cit_begin ?r) = Some (contents ?r)" by (rule cit_walk_contents)
  moreover have "contents ?r = [bar_at 2, bar_at 3]"
    using ring.log_puts [OF ring_ok_new [of 2], of "[bar_at 1, bar_at 2, bar_at 3]"]
    by (simp add: length_new take_last_def)
  ultimately show ?thesis by simp
qed

text \<open>
  \<^verbatim>\<open>OhlcArray::push\<close> appends the bar, and the array is always grown before the write so that the
  new element is inside of its capacity.
\<close>

theorem oa_push_ok:
  assumes "oa_ok a"
  shows "oa_ok (oa_push x a) \<and> oa_data (oa_push x a) = oa_data a @ [x]"
  using assms by (auto simp: oa_ok_def oa_push_def oa_growSize_def Let_def)

theorem oa_push_ok_witness:
  "oa_data (oa_push (bar_at 1) \<lparr>oa_data = [], oa_max = 0\<rparr>) = [bar_at 1]"
  using oa_push_ok [of "\<lparr>oa_data = [], oa_max = 0\<rparr>" "bar_at 1"] by (simp add: oa_ok_def)

end
