(* ===== verification/Bar_Gen.thy ===== *)
theory Bar_Gen
  imports Ohlc_Ring
begin

text \<open>
  What the bar generators of \<^verbatim>\<open>strategies/src/utils\<close> share: the state (the last timestamp seen, the
  pointer to the current bar in the ring it writes to), the loop over an array of ticks with and
  without an analyser, and the interface \<open>bar_gen\<close>: a generator that refines a function on the
  unbounded history of bars. The client lemmas of the interface say what the loops compute.
\<close>

record ohlc_gen =
  g_type :: ohlc_type
  g_lastTs :: dbl
  g_numLast :: nat
  g_cur :: "nat option"

text \<open>The price of a tick that a generator of a type follows.\<close>

fun tick_price :: "ohlc_type \<Rightarrow> tick \<Rightarrow> dbl" where
  "tick_price TYPE_LAST t = t_last t"
| "tick_price TYPE_MID t = t_price t"
| "tick_price TYPE_BID t = t_bid t"
| "tick_price TYPE_ASK t = t_ask t"

section \<open>Steps on the current bar\<close>

definition close_bar :: "nat \<Rightarrow> ohlc_ring \<Rightarrow> ohlc_ring" where
  "close_bar i out = set_elt out i (setConsolidated (elt out i))"

definition open_bar :: "(ohlc \<Rightarrow> ohlc) \<Rightarrow> ohlc_ring \<Rightarrow> nat \<times> ohlc_ring" where
  "open_bar init out = (let (i, out) = writeElt out in (i, set_elt out i (init (elt out i))))"

definition update_bar :: "(ohlc \<Rightarrow> ohlc) \<Rightarrow> nat \<Rightarrow> ohlc_ring \<Rightarrow> ohlc_ring" where
  "update_bar upd i out = set_elt out i (upd (elt out i))"

text \<open>
  The part the update functions have in common, after the test for a stale tick: close the current
  bar where \<open>closes\<close> says so, open a new one where there is none, then update it.
\<close>

definition write_tick :: "(ohlc \<Rightarrow> bool) \<Rightarrow> (ohlc \<Rightarrow> ohlc) \<Rightarrow> (ohlc \<Rightarrow> ohlc) \<Rightarrow> nat option \<Rightarrow> ohlc_ring
    \<Rightarrow> bool \<times> nat \<times> ohlc_ring" where
  "write_tick closes init upd cur out =
     (let (cur, out) =
            (case cur of None \<Rightarrow> (None, out)
             | Some i \<Rightarrow> if closes (elt out i) then (None, close_bar i out) else (Some i, out));
          (isNew, i, out) =
            (case cur of None \<Rightarrow> (let (i, out) = open_bar init out in (True, i, out))
             | Some i \<Rightarrow> (False, i, out))
      in (isNew, i, update_bar upd i out))"

section \<open>The loops\<close>

fun gen_loop :: "(tick \<Rightarrow> 'g \<Rightarrow> ohlc_ring \<Rightarrow> bool \<times> 'g \<times> ohlc_ring) \<Rightarrow> tick list \<Rightarrow> 'g \<Rightarrow> ohlc_ring
    \<Rightarrow> nat \<times> 'g \<times> ohlc_ring" where
  "gen_loop step [] g out = (0, g, out)"
| "gen_loop step (t # ts) g out =
     (let (isNew, g, out) = step t g out;
          (n, g, out) = gen_loop step ts g out
      in (if isNew then n + 1 else n, g, out))"

text \<open>
  With an analyser, whose \<^verbatim>\<open>updateTick\<close> is called after each tick. It reads the ring and
  changes only its own state.
\<close>

fun gen_loop_analyser ::
    "(tick \<Rightarrow> 'g \<Rightarrow> ohlc_ring \<Rightarrow> bool \<times> 'g \<times> ohlc_ring) \<Rightarrow> (tick \<Rightarrow> bool \<Rightarrow> ohlc_ring \<Rightarrow> 'a \<Rightarrow> 'a)
    \<Rightarrow> tick list \<Rightarrow> 'g \<Rightarrow> ohlc_ring \<Rightarrow> 'a \<Rightarrow> nat \<times> 'g \<times> ohlc_ring \<times> 'a" where
  "gen_loop_analyser step updateTick [] g out a = (0, g, out, a)"
| "gen_loop_analyser step updateTick (t # ts) g out a =
     (let (newBar, g, out) = step t g out;
          a = updateTick t newBar out a;
          (n, g, out, a) = gen_loop_analyser step updateTick ts g out a
      in (if newBar then n + 1 else n, g, out, a))"

lemma gen_loop_analyser_eq:
  "(case gen_loop_analyser step upd ts g out a of (n, g', out', a') \<Rightarrow> (n, g', out')) = gen_loop step ts g out"
proof (induction ts arbitrary: g out a)
  case (Cons t ts)
  obtain b g1 o1 where s: "step t g out = (b, g1, o1)" by (cases "step t g out")
  obtain n g2 o2 a2 where r: "gen_loop_analyser step upd ts g1 o1 (upd t b o1 a) = (n, g2, o2, a2)"
    by (cases "gen_loop_analyser step upd ts g1 o1 (upd t b o1 a)")
  then have "gen_loop step ts g1 o1 = (n, g2, o2)" using Cons [of g1 o1 "upd t b o1 a"] by simp
  with s r show ?case by simp
qed simp

lemma gen_loop_append:
  "gen_loop step (xs @ ys) g out =
     (let (n, g, out) = gen_loop step xs g out; (m, g, out) = gen_loop step ys g out in (n + m, g, out))"
  by (induction xs arbitrary: g out) (auto simp: Let_def split: prod.splits)

section \<open>Generators as functions on the history of bars\<close>

text \<open>
  \<open>hist_run\<close> is the abstract generator. Its state is the last timestamp, whether a bar is
  open, and all the bars so far; \<open>body\<close> says what a tick does that is not stale.
\<close>

fun hist_run :: "(tick \<Rightarrow> bool \<Rightarrow> ohlc list \<Rightarrow> bool \<times> ohlc list) \<Rightarrow> tick list \<Rightarrow> dbl \<Rightarrow> bool
    \<Rightarrow> ohlc list \<Rightarrow> nat \<times> dbl \<times> bool \<times> ohlc list" where
  "hist_run body [] l op B = (0, l, op, B)"
| "hist_run body (t # ts) l op B =
     (if t_ts t \<le> l then hist_run body ts l op B
      else let (isNew, B) = body t op B;
               (n, l, op, B) = hist_run body ts (t_ts t) True B
           in (if isNew then n + 1 else n, l, op, B))"

definition has_bar :: "'g ohlc_gen_scheme \<Rightarrow> bool" where
  "has_bar g \<longleftrightarrow> g_cur g \<noteq> None"

text \<open>The ring holds the end of the history, and the current bar is the newest one.\<close>

definition gen_rel :: "'g ohlc_gen_scheme \<Rightarrow> ohlc_ring \<Rightarrow> ohlc list \<Rightarrow> bool" where
  "gen_rel g r B \<longleftrightarrow>
     ring_ok r \<and> contents r = take_last (length (rb_data r)) B \<and>
     (has_bar g \<longrightarrow> B \<noteq> [] \<and> g_cur g = Some (newest r))"


text \<open>A property of bars that one write keeps holds of the whole history.\<close>

lemma hist_run_all:
  assumes "\<forall>t\<in>set ts. \<forall>op B. (op \<longrightarrow> B \<noteq> []) \<longrightarrow> (\<forall>b\<in>set B. P b)
      \<longrightarrow> snd (body t op B) \<noteq> [] \<and> (\<forall>b\<in>set (snd (body t op B)). P b)"
    and "op \<longrightarrow> B \<noteq> []" and "\<forall>b\<in>set B. P b"
  shows "\<forall>b\<in>set (snd (snd (snd (hist_run body ts l op B)))). P b"
  using assms
proof (induction ts arbitrary: l op B)
  case (Cons t ts)
  obtain n B1 where b: "body t op B = (n, B1)" by (cases "body t op B")
  have "snd (body t op B) \<noteq> [] \<and> (\<forall>b\<in>set (snd (body t op B)). P b)"
    by (rule Cons.prems(1) [THEN bspec, THEN spec, THEN spec, THEN mp, THEN mp])
      (use Cons.prems(2,3) in simp_all)
  then have B1: "B1 \<noteq> []" "\<forall>b\<in>set B1. P b" using b by simp_all
  have IH: "\<forall>b\<in>set (snd (snd (snd (hist_run body ts l op B)))). P b"
    if "op \<longrightarrow> B \<noteq> []" "\<forall>b\<in>set B. P b" for l op B
    by (rule Cons.IH [OF _ that], rule ballI, rule Cons.prems(1) [THEN bspec]) simp
  have "\<forall>b\<in>set (snd (snd (snd (hist_run body ts l op B)))). P b"
    by (rule IH [OF Cons.prems(2,3)])
  moreover have "\<forall>b\<in>set (snd (snd (snd (hist_run body ts (t_ts t) True B1)))). P b"
    by (rule IH) (simp_all add: B1)
  ultimately show ?case by (cases "t_ts t \<le> l") (simp_all add: b split: prod.splits)
qed simp

locale bar_gen =
  fixes step :: "tick \<Rightarrow> 'g ohlc_gen_scheme \<Rightarrow> ohlc_ring \<Rightarrow> bool \<times> 'g ohlc_gen_scheme \<times> ohlc_ring"
    and body :: "'g ohlc_gen_scheme \<Rightarrow> tick \<Rightarrow> bool \<Rightarrow> ohlc list \<Rightarrow> bool \<times> ohlc list"
  assumes stale: "t_ts t \<le> g_lastTs g \<Longrightarrow> step t g r = (False, g, r)"
    and fresh_state: "g_lastTs g < t_ts t \<Longrightarrow> step t g r = (isNew, g', r') \<Longrightarrow>
        g_lastTs g' = t_ts t \<and> has_bar g' \<and> body g' = body g \<and> g_type g' = g_type g"
    and refines: "g_lastTs g < t_ts t \<Longrightarrow> step t g r = (isNew, g', r') \<Longrightarrow> gen_rel g r B \<Longrightarrow>
        \<exists>B'. body g t (has_bar g) B = (isNew, B') \<and> gen_rel g' r' B'
          \<and> length (rb_data r') = length (rb_data r)"
begin

text \<open>The loop computes, on the ring, the end of the history the abstract generator computes.\<close>

lemma loop_refines:
  assumes "gen_rel g r B" and "gen_loop step ts g r = (n, g', r')"
  shows "\<exists>B'. hist_run (body g) ts (g_lastTs g) (has_bar g) B = (n, g_lastTs g', has_bar g', B')
       \<and> gen_rel g' r' B' \<and> length (rb_data r') = length (rb_data r)"
  using assms
proof (induction ts arbitrary: g r B n)
  case (Cons t ts)
  obtain b g1 r1 where s: "step t g r = (b, g1, r1)" by (cases "step t g r")
  obtain m g2 r2 where l: "gen_loop step ts g1 r1 = (m, g2, r2)" by (cases "gen_loop step ts g1 r1")
  have res: "n = (if b then m + 1 else m)" "g2 = g'" "r2 = r'" using Cons.prems(2) s l by auto
  note l = l [unfolded res(2,3)]
  show ?case
  proof (cases "t_ts t \<le> g_lastTs g")
    case True
    with s have "b = False" "g1 = g" "r1 = r" using stale by auto
    with True Cons.IH [OF Cons.prems(1), of m] l res(1) show ?thesis by simp
  next
    case False
    then have f: "g_lastTs g < t_ts t" by simp
    obtain B1 where B1: "body g t (has_bar g) B = (b, B1)" "gen_rel g1 r1 B1"
      "length (rb_data r1) = length (rb_data r)"
      using refines [OF f s Cons.prems(1)] by blast
    have st: "g_lastTs g1 = t_ts t" "has_bar g1 = True" "body g1 = body g"
      using fresh_state [OF f s] by auto
    obtain B2 where "hist_run (body g) ts (t_ts t) True B1 = (m, g_lastTs g', has_bar g', B2)"
      "gen_rel g' r' B2" "length (rb_data r') = length (rb_data r)"
      using Cons.IH [OF B1(2) l] unfolding st B1(3) by blast
    with f B1(1) res(1) show ?thesis by auto
  qed
qed auto

lemma loop_all:
  assumes "gen_rel g r B" and "\<forall>b\<in>set B. P b" and "gen_loop step ts g r = (n, g', r')"
    and "\<forall>t\<in>set ts. \<forall>op B. (op \<longrightarrow> B \<noteq> []) \<longrightarrow> (\<forall>b\<in>set B. P b)
      \<longrightarrow> snd (body g t op B) \<noteq> [] \<and> (\<forall>b\<in>set (snd (body g t op B)). P b)"
  shows "\<forall>b\<in>set (contents r'). P b"
proof -
  obtain B' where B': "hist_run (body g) ts (g_lastTs g) (has_bar g) B = (n, g_lastTs g', has_bar g', B')"
    "gen_rel g' r' B'" using loop_refines [OF assms(1,3)] by blast
  have "has_bar g \<longrightarrow> B \<noteq> []" using assms(1) by (simp add: gen_rel_def)
  from hist_run_all [OF assms(4) this assms(2), where l = "g_lastTs g"] B'(1) have "\<forall>b\<in>set B'. P b" by simp
  then show ?thesis using B'(2) set_take_last by (fastforce simp: gen_rel_def)
qed

lemma loop_last_ts:
  assumes "gen_loop step ts g r = (n, g', r')"
  shows "g_lastTs g \<le> g_lastTs g' \<and> (\<forall>t\<in>set ts. t_ts t \<le> g_lastTs g')"
  using assms
proof (induction ts arbitrary: g r n)
  case (Cons t ts)
  obtain b g1 r1 where s: "step t g r = (b, g1, r1)" by (cases "step t g r")
  obtain m g2 r2 where l: "gen_loop step ts g1 r1 = (m, g2, r2)" by (cases "gen_loop step ts g1 r1")
  have "g2 = g'" "r2 = r'" using Cons.prems s l by auto
  note IH = Cons.IH [OF l [unfolded this]]
  show ?case
  proof (cases "t_ts t \<le> g_lastTs g")
    case True
    with s have "g1 = g" using stale by auto
    with True IH show ?thesis by auto
  next
    case False
    with fresh_state [of g t r b g1 r1] s have "g_lastTs g1 = t_ts t" by simp
    with False IH show ?thesis by auto
  qed
qed simp

lemma loop_stale: "\<forall>t\<in>set ts. t_ts t \<le> g_lastTs g \<Longrightarrow> gen_loop step ts g r = (0, g, r)"
  by (induction ts) (simp_all add: stale)

lemma step_type: "step t g r = (isNew, g', r') \<Longrightarrow> g_type g' = g_type g"
  using stale [of t g r] fresh_state [of g t r isNew g' r'] by (cases "t_ts t \<le> g_lastTs g") auto

text \<open>A loop over the update function of one price is the loop over the step.\<close>

lemma loop_typed:
  assumes "\<And>t g r. g_type g = c \<Longrightarrow> st t g r = step t g r" and "g_type g = c"
  shows "gen_loop st ts g r = gen_loop step ts g r"
  using assms(2)
proof (induction ts arbitrary: g r)
  case (Cons t ts)
  obtain b g1 r1 where s: "step t g r = (b, g1, r1)" by (cases "step t g r")
  then have "g_type g1 = c" using step_type Cons.prems by metis
  with s Cons assms(1) show ?case by simp
qed simp

text \<open>Ticks that were already given, in any order, change nothing the second time.\<close>

lemma loop_replay:
  assumes "gen_loop step ts g r = (n, g', r')" and "set us \<subseteq> set ts"
  shows "gen_loop step us g' r' = (0, g', r')"
  by (rule loop_stale) (use loop_last_ts [OF assms(1)] assms(2) in blast)

end

text \<open>The three steps on a ring that holds the end of a history.\<close>

lemma close_bar_rel:
  assumes "ring_ok r" and "contents r = take_last (length (rb_data r)) B" and "B \<noteq> []"
  shows "ring_ok (close_bar (newest r) r)" "length (rb_data (close_bar (newest r) r)) = length (rb_data r)"
    "contents (close_bar (newest r) r) = take_last (length (rb_data r)) (butlast B @ [setConsolidated (last B)])"
proof -
  have sz: "0 < rb_size r" using assms ring.cap_pos [OF assms(1)]
    by (metis length_contents length_greater_0_conv take_last_Nil_iff)
  have "elt r (newest r) = last B"
    using contents_newest(1) [OF assms(1) sz] ring.amend_history(2) [OF assms] by simp
  then show "contents (close_bar (newest r) r) = take_last (length (rb_data r)) (butlast B @ [setConsolidated (last B)])"
    using ring.amend_history(1) [OF assms] by (simp add: close_bar_def rb_amend_def)
  show "ring_ok (close_bar (newest r) r)" "length (rb_data (close_bar (newest r) r)) = length (rb_data r)"
    using assms(1) by (simp_all add: close_bar_def)
qed

lemma update_bar_rel:
  assumes "ring_ok r" and "contents r = take_last (length (rb_data r)) B" and "B \<noteq> []"
  shows "ring_ok (update_bar f (newest r) r)" "length (rb_data (update_bar f (newest r) r)) = length (rb_data r)"
    "newest (update_bar f (newest r) r) = newest r"
    "contents (update_bar f (newest r) r) = take_last (length (rb_data r)) (butlast B @ [f (last B)])"
proof -
  have sz: "0 < rb_size r" using assms ring.cap_pos [OF assms(1)]
    by (metis length_contents length_greater_0_conv take_last_Nil_iff)
  have "elt r (newest r) = last B"
    using contents_newest(1) [OF assms(1) sz] ring.amend_history(2) [OF assms] by simp
  then show "contents (update_bar f (newest r) r) = take_last (length (rb_data r)) (butlast B @ [f (last B)])"
    using ring.amend_history(1) [OF assms] by (simp add: update_bar_def rb_amend_def)
  show "ring_ok (update_bar f (newest r) r)" "length (rb_data (update_bar f (newest r) r)) = length (rb_data r)"
    "newest (update_bar f (newest r) r) = newest r"
    using assms(1) by (simp_all add: update_bar_def)
qed

lemma open_bar_rel:
  assumes "ring_ok r" and "contents r = take_last (length (rb_data r)) B" and "open_bar f r = (i, r')"
  shows "ring_ok r'" "length (rb_data r') = length (rb_data r)" "i = newest r'"
    "contents r' = take_last (length (rb_data r)) (B @ [f zero_ohlc])"
proof -
  obtain j r1 where w: "writeElt r = (j, r1)" by (cases "writeElt r")
  note o = writeElt_ok [OF assms(1) w]
  have r': "i = j" "r' = set_elt r1 j (f zero_ohlc)" using assms(3) o(5) by (auto simp: open_bar_def w)
  then have "r' = rb_put r (f zero_ohlc)" by (simp add: rb_put_def w)
  then show "contents r' = take_last (length (rb_data r)) (B @ [f zero_ohlc])"
    using ring.put_history [OF assms(1,2)] by simp
  show "ring_ok r'" "length (rb_data r') = length (rb_data r)" "i = newest r'"
    using o r' by simp_all
qed

definition hist_write :: "(ohlc \<Rightarrow> bool) \<Rightarrow> (ohlc \<Rightarrow> ohlc) \<Rightarrow> (ohlc \<Rightarrow> ohlc) \<Rightarrow> bool \<Rightarrow> ohlc list
    \<Rightarrow> bool \<times> ohlc list" where
  "hist_write closes init upd op B =
     (let cl = (op \<and> closes (last B));
          B = (if cl then butlast B @ [setConsolidated (last B)] else B);
          isNew = (cl \<or> \<not> op);
          B = (if isNew then B @ [init zero_ohlc] else B)
      in (isNew, butlast B @ [upd (last B)]))"

lemma hist_write_all:
  assumes "\<And>b. P b \<Longrightarrow> P (setConsolidated b)" and "P (upd (init zero_ohlc))"
    and "\<And>b. P b \<Longrightarrow> \<not> closes b \<Longrightarrow> P (upd b)"
    and "op \<longrightarrow> B \<noteq> []" and "\<forall>b\<in>set B. P b"
  shows "snd (hist_write closes init upd op B) \<noteq> [] \<and> (\<forall>b\<in>set (snd (hist_write closes init upd op B)). P b)"
proof -
  have "\<forall>b\<in>set (butlast B). P b" using assms(5) by (auto dest: in_set_butlastD)
  then show ?thesis using assms by (auto simp: hist_write_def Let_def butlast_append)
qed

lemma write_tick_rel:
  assumes "gen_rel g r B" and "write_tick closes init upd (g_cur g) r = (isNew, i, r')"
    and "g_cur g' = Some i" and init: "init' zero_ohlc = init zero_ohlc"
  shows "\<exists>B'. hist_write closes init' upd (has_bar g) B = (isNew, B') \<and> gen_rel g' r' B'
           \<and> length (rb_data r') = length (rb_data r)"
proof -
  have r: "ring_ok r" "contents r = take_last (length (rb_data r)) B"
    and cur: "has_bar g \<Longrightarrow> B \<noteq> [] \<and> g_cur g = Some (newest r)"
    using assms(1) by (auto simp: gen_rel_def)
  have elt_eq: "elt r (newest r) = last B" if "has_bar g"
  proof -
    have "B \<noteq> []" using cur that by simp
    moreover have "0 < rb_size r" using r ring.cap_pos [OF r(1)] calculation
      by (metis length_contents length_greater_0_conv take_last_Nil_iff)
    ultimately show ?thesis using contents_newest(1) [OF r(1)] ring.amend_history(2) [OF r] by simp
  qed
  define B1 where "B1 = (if has_bar g \<and> closes (last B) then butlast B @ [setConsolidated (last B)] else B)"
  define r1 where "r1 = (if has_bar g \<and> closes (last B) then close_bar (newest r) r else r)"
  define opn where "opn \<longleftrightarrow> has_bar g \<and> \<not> closes (last B)"
  have r1: "ring_ok r1" "length (rb_data r1) = length (rb_data r)"
    "contents r1 = take_last (length (rb_data r1)) B1"
    using r close_bar_rel [OF r] cur by (simp_all add: r1_def B1_def)
  have w: "write_tick closes init upd (g_cur g) r =
     (if opn then (False, newest r1, update_bar upd (newest r1) r1)
      else (let (i, out) = open_bar init r1 in (True, i, update_bar upd i out)))"
  proof (cases "has_bar g")
    case True
    then show ?thesis using cur elt_eq by (simp add: write_tick_def opn_def r1_def split: prod.splits)
  next
    case False
    then show ?thesis by (simp add: write_tick_def opn_def r1_def has_bar_def split: prod.splits)
  qed
  define B2 where "B2 = (if opn then B1 else B1 @ [init zero_ohlc])"
  have h: "hist_write closes init' upd (has_bar g) B = (\<not> opn, butlast B2 @ [upd (last B2)])"
    by (auto simp: init hist_write_def B2_def B1_def opn_def Let_def butlast_append)
  obtain r2 where r2: "ring_ok r2" "length (rb_data r2) = length (rb_data r)"
    "contents r2 = take_last (length (rb_data r2)) B2" "B2 \<noteq> []" "isNew = (\<not> opn)"
    "i = newest r2" "r' = update_bar upd (newest r2) r2"
  proof (cases opn)
    case True
    with w assms(2) r1 cur show ?thesis
      by (intro that [of r1]) (auto simp: B2_def B1_def opn_def)
  next
    case False
    obtain j r2 where o: "open_bar init r1 = (j, r2)" by (cases "open_bar init r1")
    with w False assms(2) open_bar_rel [OF r1(1,3) o] r1(2) show ?thesis
      by (intro that [of r2]) (auto simp: B2_def)
  qed
  have "gen_rel g' r' (butlast B2 @ [upd (last B2)])"
    using update_bar_rel [OF r2(1,3,4), of upd] r2(6,7) assms(3) by (simp add: gen_rel_def)
  moreover have "length (rb_data r') = length (rb_data r)"
    using update_bar_rel(2) [OF r2(1,3,4), of upd] r2(2,7) by simp
  ultimately show ?thesis using h r2(5) by blast
qed

end
