(* ===== verification/Timeframe_Gen.thy ===== *)
theory Timeframe_Gen
  imports Bar_Gen
begin

text \<open>
  \<^verbatim>\<open>strategies/src/utils/timeframeohlcgen.cpp\<close>: bars of a fixed duration from ticks. The
  specification is \<open>candles\<close>: the ticks of one interval, grouped, with the first, greatest, least and
  last price and the sum of the volumes of the group. The generator writes the end of it into
  the ring.
\<close>

record tf_gen = ohlc_gen +
  g_fromTf :: dbl
  g_toTf :: dbl

definition new_tf_gen :: "dbl \<Rightarrow> dbl \<Rightarrow> ohlc_type \<Rightarrow> tf_gen" where
  "new_tf_gen fromTf toTf ohlcType =
     \<lparr>g_type = ohlcType, g_lastTs = 0, g_numLast = 0, g_cur = None, g_fromTf = fromTf, g_toTf = toTf\<rparr>"

text \<open>\<^verbatim>\<open>valid\<close>: the remainder by a timeframe below one second is an integer division by zero, \<open>None\<close>.\<close>

definition tf_valid :: "tf_gen \<Rightarrow> bool option" where
  "tf_valid g =
     (if g_fromTf g = 0 then Some (\<not> g_toTf g \<le> 0)
      else if g_fromTf g > 0 then
        (if to_int32 (g_fromTf g) = 0 then None
         else Some (to_int32 (g_toTf g) smod to_int32 (g_fromTf g) = 0))
      else Some False)"

section \<open>One tick\<close>

text \<open>
  The four \<^verbatim>\<open>updateFromTick\<close> functions are one text with two differences: the price they read, and
  how they set the prices of a new bar.
\<close>

definition tf_update :: "date_lib \<Rightarrow> (ohlc \<Rightarrow> ohlc) \<Rightarrow> dbl \<Rightarrow> tick \<Rightarrow> tf_gen \<Rightarrow> ohlc_ring
    \<Rightarrow> bool \<times> tf_gen \<times> ohlc_ring" where
  "tf_update lib setPrices price t g out =
     (if t_ts t \<le> g_lastTs g then (False, g, out)
      else
        let curBaseTime = baseTime lib (t_ts t) (g_toTf g);
            (isNew, i, out) =
              write_tick
                (\<lambda>b. \<not> consolidated b \<and> t_ts t \<ge> o_ts b + g_toTf g)
                (\<lambda>b. setPrices (b\<lparr>o_ts := curBaseTime, o_tf := g_toTf g\<rparr>))
                (\<lambda>b. b\<lparr>o_vol := o_vol b + t_vol t, o_high := max (o_high b) price,
                       o_low := min (o_low b) price, o_close := price\<rparr>)
                (g_cur g) out
        in (isNew, g\<lparr>g_cur := Some i, g_lastTs := t_ts t\<rparr>, out))"

definition tf_updateFromTickLast where
  "tf_updateFromTickLast lib t = tf_update lib (setOhlc1 (t_last t)) (t_last t) t"

definition tf_updateFromTickMid where
  "tf_updateFromTickMid lib t = tf_update lib (setOhlc1 (t_price t)) (t_price t) t"

definition tf_updateFromTickBid where
  "tf_updateFromTickBid lib t =
     tf_update lib (\<lambda>b. (setOhlc4 (t_bid t) (t_bid t) (t_bid t) (t_bid t) b)\<lparr>o_vol := 0\<rparr>) (t_bid t) t"

definition tf_updateFromTickAsk where
  "tf_updateFromTickAsk lib t =
     tf_update lib (\<lambda>b. (setOhlc4 (t_ask t) (t_ask t) (t_ask t) (t_ask t) b)\<lparr>o_vol := 0\<rparr>) (t_ask t) t"

definition tf_step :: "date_lib \<Rightarrow> tick \<Rightarrow> tf_gen \<Rightarrow> ohlc_ring \<Rightarrow> bool \<times> tf_gen \<times> ohlc_ring" where
  "tf_step lib t g =
     (case g_type g of
        TYPE_LAST \<Rightarrow> tf_updateFromTickLast lib t g | TYPE_MID \<Rightarrow> tf_updateFromTickMid lib t g
      | TYPE_BID \<Rightarrow> tf_updateFromTickBid lib t g | TYPE_ASK \<Rightarrow> tf_updateFromTickAsk lib t g)"

section \<open>The loops\<close>

definition tf_genFromTicks :: "date_lib \<Rightarrow> tick list \<Rightarrow> tf_gen \<Rightarrow> ohlc_ring \<Rightarrow> nat \<times> tf_gen \<times> ohlc_ring" where
  "tf_genFromTicks lib ticks g out =
     (let g = g\<lparr>g_numLast := 0\<rparr>
      in case g_type g of
           TYPE_LAST \<Rightarrow> gen_loop (tf_updateFromTickLast lib) ticks g out
         | TYPE_MID \<Rightarrow> gen_loop (tf_updateFromTickMid lib) ticks g out
         | TYPE_BID \<Rightarrow> gen_loop (tf_updateFromTickBid lib) ticks g out
         | TYPE_ASK \<Rightarrow> gen_loop (tf_updateFromTickAsk lib) ticks g out)"

definition tf_genFromTicksAnalyser :: "date_lib \<Rightarrow> (tick \<Rightarrow> bool \<Rightarrow> ohlc_ring \<Rightarrow> 'a \<Rightarrow> 'a) \<Rightarrow> tick list
    \<Rightarrow> tf_gen \<Rightarrow> ohlc_ring \<Rightarrow> 'a \<Rightarrow> nat \<times> tf_gen \<times> ohlc_ring \<times> 'a" where
  "tf_genFromTicksAnalyser lib updateTick ticks g out a =
     (let g = g\<lparr>g_numLast := 0\<rparr>
      in case g_type g of
           TYPE_LAST \<Rightarrow> gen_loop_analyser (tf_updateFromTickLast lib) updateTick ticks g out a
         | TYPE_MID \<Rightarrow> gen_loop_analyser (tf_updateFromTickMid lib) updateTick ticks g out a
         | TYPE_BID \<Rightarrow> gen_loop_analyser (tf_updateFromTickBid lib) updateTick ticks g out a
         | TYPE_ASK \<Rightarrow> gen_loop_analyser (tf_updateFromTickAsk lib) updateTick ticks g out a)"

text \<open>The generation from smaller bars is not written: every \<^verbatim>\<open>updateFromOhlc\<close> returns false.\<close>

definition tf_updateFromOhlc :: "ohlc \<Rightarrow> tf_gen \<Rightarrow> ohlc_ring \<Rightarrow> bool \<times> tf_gen \<times> ohlc_ring" where
  "tf_updateFromOhlc b g out = (False, g, out)"

definition tf_genFromOhlc :: "ohlc list \<Rightarrow> tf_gen \<Rightarrow> ohlc_ring \<Rightarrow> nat \<times> tf_gen \<times> ohlc_ring" where
  "tf_genFromOhlc bars g out =
     foldl (\<lambda>(n, g, out) b. let (isNew, g, out) = tf_updateFromOhlc b g out
                            in (if isNew then n + 1 else n, g, out)) (0, g\<lparr>g_numLast := 0\<rparr>, out) bars"

section \<open>The generator on the history of bars\<close>

definition tf_first :: "dbl \<Rightarrow> dbl \<Rightarrow> dbl \<Rightarrow> ohlc" where
  "tf_first ts tf p = \<lparr>o_ts = ts, o_tf = tf, o_open = p, o_high = p, o_low = p, o_close = p, o_vol = 0,
                      o_ended = 0\<rparr>"

definition tf_body :: "date_lib \<Rightarrow> tf_gen \<Rightarrow> tick \<Rightarrow> bool \<Rightarrow> ohlc list \<Rightarrow> bool \<times> ohlc list" where
  "tf_body lib g t =
     (let price = tick_price (g_type g) t
      in hist_write
           (\<lambda>b. \<not> consolidated b \<and> t_ts t \<ge> o_ts b + g_toTf g)
           (\<lambda>b. tf_first (baseTime lib (t_ts t) (g_toTf g)) (g_toTf g) price)
           (\<lambda>b. b\<lparr>o_vol := o_vol b + t_vol t, o_high := max (o_high b) price,
                  o_low := min (o_low b) price, o_close := price\<rparr>))"

lemma tf_step_update:
  obtains f where "tf_step lib t g = tf_update lib f (tick_price (g_type g) t) t g"
    and "\<And>ts tf. f (zero_ohlc\<lparr>o_ts := ts, o_tf := tf\<rparr>) = tf_first ts tf (tick_price (g_type g) t)"
  by (cases "g_type g") (auto simp: tf_step_def tf_updateFromTickLast_def tf_updateFromTickMid_def
    tf_updateFromTickBid_def tf_updateFromTickAsk_def setOhlc1_def setOhlc4_def zero_ohlc_def tf_first_def)

interpretation tf: bar_gen "tf_step lib" "tf_body lib" for lib
proof unfold_locales
  fix t :: tick and g g' :: tf_gen and r r' :: ohlc_ring and isNew B
  obtain f where f: "tf_step lib t g = tf_update lib f (tick_price (g_type g) t) t g"
    "\<And>ts tf. f (zero_ohlc\<lparr>o_ts := ts, o_tf := tf\<rparr>) = tf_first ts tf (tick_price (g_type g) t)"
    using tf_step_update [of lib t g] by blast
  show "tf_step lib t g r = (False, g, r)" if "t_ts t \<le> g_lastTs g"
    using that by (simp add: f tf_update_def)
  assume fresh: "g_lastTs g < t_ts t" and s: "tf_step lib t g r = (isNew, g', r')"
  show "g_lastTs g' = t_ts t \<and> has_bar g' \<and> tf_body lib g' = tf_body lib g \<and> g_type g' = g_type g"
    using fresh s by (auto simp: f tf_update_def tf_body_def has_bar_def Let_def split: prod.splits)
  assume rel: "gen_rel g r B"
  show "\<exists>B'. tf_body lib g t (has_bar g) B = (isNew, B') \<and> gen_rel g' r' B'
          \<and> length (rb_data r') = length (rb_data r)"
    using fresh s unfolding f(1) tf_update_def tf_body_def Let_def
    by (auto split: prod.splits intro!: write_tick_rel [OF rel] simp: f(2))
qed

section \<open>Candles\<close>

text \<open>The number of the interval of length \<open>tf\<close> a timestamp is in.\<close>

definition interval :: "dbl \<Rightarrow> tick \<Rightarrow> int" where
  "interval tf t = \<lfloor>t_ts t / tf\<rfloor>"

text \<open>The bar of a group of ticks of one interval.\<close>

definition candle :: "ohlc_type \<Rightarrow> dbl \<Rightarrow> dbl \<Rightarrow> tick list \<Rightarrow> ohlc" where
  "candle ty tf ended ts =
     \<lparr>o_ts = of_int (interval tf (hd ts)) * tf, o_tf = tf,
      o_open = tick_price ty (hd ts),
      o_high = Max (tick_price ty ` set ts),
      o_low = Min (tick_price ty ` set ts),
      o_close = tick_price ty (last ts),
      o_vol = sum_list (map t_vol ts),
      o_ended = ended\<rparr>"

text \<open>
  The candles of a list of ticks: every maximal run of ticks of one interval is a bar, and the
  bars but the last are marked as ended.
\<close>

fun candles_from :: "ohlc_type \<Rightarrow> dbl \<Rightarrow> tick list \<Rightarrow> tick list \<Rightarrow> ohlc list" where
  "candles_from ty tf run [] = [candle ty tf 0 run]"
| "candles_from ty tf run (t # ts) =
     (if interval tf t = interval tf (hd run) then candles_from ty tf (run @ [t]) ts
      else candle ty tf 1 run # candles_from ty tf [t] ts)"

fun candles :: "ohlc_type \<Rightarrow> dbl \<Rightarrow> tick list \<Rightarrow> ohlc list" where
  "candles ty tf [] = []"
| "candles ty tf (t # ts) = candles_from ty tf [t] ts"

text \<open>Ticks in order, each later than the one before it, within the range of the bar numbers.\<close>

fun rising :: "dbl \<Rightarrow> tick list \<Rightarrow> bool" where
  "rising l [] = True"
| "rising l (t # ts) \<longleftrightarrow> l < t_ts t \<and> rising (t_ts t) ts"

definition in_range :: "dbl \<Rightarrow> tick list \<Rightarrow> bool" where
  "in_range tf ts \<longleftrightarrow> (\<forall>t\<in>set ts. t_ts t / tf < 2 ^ 31)"

lemma candle_snoc:
  assumes "ts \<noteq> []"
  shows "(candle ty tf e ts)\<lparr>o_vol := o_vol (candle ty tf e ts) + t_vol t,
      o_high := max (o_high (candle ty tf e ts)) (tick_price ty t),
      o_low := min (o_low (candle ty tf e ts)) (tick_price ty t),
      o_close := tick_price ty t\<rparr> = candle ty tf e (ts @ [t])"
  using assms by (simp add: candle_def Max_insert2 max.commute min.commute Max.insert_not_elem)

lemma same_interval:
  assumes "0 < tf" and "t_ts s \<le> t_ts t"
  shows "(of_int (interval tf s) * tf + tf \<le> t_ts t) \<longleftrightarrow> interval tf t \<noteq> interval tf s"
proof -
  have le: "interval tf s \<le> interval tf t"
    unfolding interval_def using assms by (intro floor_mono divide_right_mono) simp_all
  have "(of_int (interval tf s) * tf + tf \<le> t_ts t) \<longleftrightarrow> of_int (interval tf s) + 1 \<le> t_ts t / tf"
    using assms(1) by (simp add: pos_le_divide_eq algebra_simps)
  also have "\<dots> \<longleftrightarrow> interval tf s + 1 \<le> interval tf t"
    unfolding interval_def [of tf t] le_floor_iff by simp
  finally show ?thesis using le by linarith
qed

lemma baseTime_interval:
  assumes "0 < tf" and "tf < TF_WEEK" and "0 \<le> t_ts t" and "t_ts t / tf < 2 ^ 31"
  shows "baseTime lib (t_ts t) tf = of_int (interval tf t) * tf"
  using assms to_int32_nonneg [of "t_ts t / tf"] by (simp add: baseTime_def interval_def)

lemma candle_simps [simp]:
  "o_ts (candle ty tf e ts) = of_int (interval tf (hd ts)) * tf"
  "o_ended (candle ty tf e ts) = e"
  "setConsolidated (candle ty tf e ts) = candle ty tf 1 ts"
  "consolidated (candle ty tf e ts) \<longleftrightarrow> e \<noteq> 0"
  by (simp_all add: candle_def setConsolidated_def consolidated_def)

lemma candle_first:
  "(tf_first (of_int (interval tf t) * tf) tf (tick_price ty t))\<lparr>o_vol := 0 + t_vol t,
      o_high := max (tick_price ty t) (tick_price ty t),
      o_low := min (tick_price ty t) (tick_price ty t),
      o_close := tick_price ty t\<rparr> = candle ty tf 0 [t]"
  by (simp add: tf_first_def candle_def)

lemma tf_body_candle:
  assumes "0 < g_toTf g" and "g_toTf g < TF_WEEK" and "0 \<le> t_ts t" and "t_ts t / g_toTf g < 2 ^ 31"
    and "run \<noteq> []" and "t_ts (hd run) \<le> t_ts t"
  shows "tf_body lib g t True (B @ [candle (g_type g) (g_toTf g) 0 run]) =
     (if interval (g_toTf g) t = interval (g_toTf g) (hd run)
      then (False, B @ [candle (g_type g) (g_toTf g) 0 (run @ [t])])
      else (True, (B @ [candle (g_type g) (g_toTf g) 1 run]) @ [candle (g_type g) (g_toTf g) 0 [t]]))"
proof -
  have base: "baseTime lib (t_ts t) (g_toTf g) = of_int (interval (g_toTf g) t) * g_toTf g"
    by (rule baseTime_interval [OF assms(1-4)])
  have first: "o_vol (tf_first b tf p) = 0" "o_high (tf_first b tf p) = p" "o_low (tf_first b tf p) = p"
    for b tf p by (simp_all add: tf_first_def)
  show ?thesis
    using same_interval [OF assms(1,6)] candle_first [where ty = "g_type g" and tf = "g_toTf g" and t = t]
      candle_snoc [OF assms(5), where ty = "g_type g" and tf = "g_toTf g" and e = 0 and t = t]
    by (auto simp: tf_body_def hist_write_def Let_def base butlast_append first)
qed

lemma candles_from_length: "0 < length (candles_from ty tf run ts)"
  by (induction ts arbitrary: run) auto

lemma hist_run_candles:
  assumes "0 < g_toTf g" and "g_toTf g < TF_WEEK" and "in_range (g_toTf g) ts"
    and "run \<noteq> []" and "t_ts (hd run) \<le> l" and "0 \<le> l" and "rising l ts"
  shows "\<exists>l'. hist_run (tf_body lib g) ts l True (B @ [candle (g_type g) (g_toTf g) 0 run]) =
     (length (candles_from (g_type g) (g_toTf g) run ts) - 1, l', True,
      B @ candles_from (g_type g) (g_toTf g) run ts)"
  using assms(3-)
proof (induction ts arbitrary: l B run)
  case (Cons t ts)
  have t: "l < t_ts t" "t_ts t / g_toTf g < 2 ^ 31" "0 \<le> t_ts t" "t_ts (hd run) \<le> t_ts t"
    "in_range (g_toTf g) ts" "rising (t_ts t) ts"
    using Cons.prems by (auto simp: in_range_def)
  note body = tf_body_candle [OF assms(1,2) t(3,2) Cons.prems(2) t(4), of lib B]
  show ?case
  proof (cases "interval (g_toTf g) t = interval (g_toTf g) (hd run)")
    case True
    have "t_ts (hd (run @ [t])) \<le> t_ts t" using Cons.prems(2) t(4) by simp
    from Cons.IH [OF t(5) _ this t(3,6), of B] True t(1) body show ?thesis by auto
  next
    case False
    from Cons.IH [OF t(5) _ _ t(3,6), of "[t]" "B @ [candle (g_type g) (g_toTf g) 1 run]"]
    have "\<exists>l'. hist_run (tf_body lib g) ts (t_ts t) True
        ((B @ [candle (g_type g) (g_toTf g) 1 run]) @ [candle (g_type g) (g_toTf g) 0 [t]]) =
      (length (candles_from (g_type g) (g_toTf g) [t] ts) - 1, l', True,
       (B @ [candle (g_type g) (g_toTf g) 1 run]) @ candles_from (g_type g) (g_toTf g) [t] ts)"
      by simp
    with False t(1) body candles_from_length show ?thesis by auto
  qed
qed simp

lemma gen_rel_new: "2 \<le> n \<Longrightarrow> gen_rel (new_tf_gen a b c) (new_ring n) []"
  by (simp add: gen_rel_def ring_ok_new has_bar_def new_tf_gen_def)

lemma tf_genFromTicks_loop:
  "tf_genFromTicks lib ts g r = gen_loop (tf_step lib) ts (g\<lparr>g_numLast := 0\<rparr>) r"
proof -
  have st: "g_type g = TYPE_LAST \<Longrightarrow> tf_updateFromTickLast lib t g r = tf_step lib t g r"
    "g_type g = TYPE_MID \<Longrightarrow> tf_updateFromTickMid lib t g r = tf_step lib t g r"
    "g_type g = TYPE_BID \<Longrightarrow> tf_updateFromTickBid lib t g r = tf_step lib t g r"
    "g_type g = TYPE_ASK \<Longrightarrow> tf_updateFromTickAsk lib t g r = tf_step lib t g r" for t g r
    by (simp_all add: tf_step_def)
  show ?thesis
    by (cases "g_type g") (simp_all add: tf_genFromTicks_def tf.loop_typed [OF st(1)]
      tf.loop_typed [OF st(2)] tf.loop_typed [OF st(3)] tf.loop_typed [OF st(4)])
qed

section \<open>Properties\<close>

text \<open>
  C13: A new generator that is given ticks in order writes their candles: it returns the number of
  them, and the ring holds the last of them, the newest one not yet ended.
\<close>

theorem tf_gen_candles:
  assumes "0 < tf" and "tf < TF_WEEK" and "2 \<le> n" and "rising 0 ticks" and "in_range tf ticks"
    and "tf_genFromTicks lib ticks (new_tf_gen fromTf tf ty) (new_ring n) = (k, g', out)"
  shows "contents out = take_last n (candles ty tf ticks) \<and> k = length (candles ty tf ticks)
       \<and> ring_ok out"
proof -
  let ?g = "new_tf_gen fromTf tf ty"
  have g: "?g\<lparr>g_numLast := 0\<rparr> = ?g" "g_lastTs ?g = 0" "\<not> has_bar ?g" "g_toTf ?g = tf" "g_type ?g = ty"
    by (simp_all add: new_tf_gen_def has_bar_def)
  have l: "gen_loop (tf_step lib) ticks ?g (new_ring n) = (k, g', out)"
    using assms(6) by (simp add: tf_genFromTicks_loop g(1))
  obtain B' where B': "hist_run (tf_body lib ?g) ticks 0 False [] = (k, g_lastTs g', has_bar g', B')"
    "gen_rel g' out B'" "length (rb_data out) = n"
    using tf.loop_refines [OF gen_rel_new [OF assms(3)] l] g by (auto simp: length_new)
  have "B' = candles ty tf ticks \<and> k = length (candles ty tf ticks)"
  proof (cases ticks)
    case Nil
    with B' show ?thesis by simp
  next
    case (Cons t ts)
    with assms have t: "0 < t_ts t" "t_ts t / tf < 2 ^ 31" "rising (t_ts t) ts" "in_range tf ts"
      by (auto simp: in_range_def)
    have "tf_body lib ?g t False [] = (True, [candle ty tf 0 [t]])"
      using baseTime_interval [OF assms(1,2), of t lib] t
      by (simp add: tf_body_def hist_write_def Let_def g(4,5) tf_first_def candle_def)
    moreover have "0 < length (candles_from ty tf [t] ts)" by (rule candles_from_length)
    moreover obtain l' where "hist_run (tf_body lib ?g) ts (t_ts t) True ([] @ [candle ty tf 0 [t]]) =
        (length (candles_from ty tf [t] ts) - 1, l', True, [] @ candles_from ty tf [t] ts)"
      using hist_run_candles [of ?g ts "[t]" "t_ts t" lib "[]"] assms(1,2) t unfolding g by auto
    ultimately show ?thesis using B'(1) t(1) Cons by auto
  qed
  with B' show ?thesis by (simp add: gen_rel_def)
qed

definition tick_at :: "dbl \<Rightarrow> dbl \<Rightarrow> tick" where
  "tick_at ts price = \<lparr>t_ts = ts, t_bid = price, t_ask = price, t_last = price, t_vol = 1, t_bos = 0\<rparr>"

definition sample_ticks :: "tick list" where
  "sample_ticks = [tick_at 10 5, tick_at 20 7, tick_at 70 6]"

theorem tf_gen_candles_witness:
  "case tf_genFromTicks no_dates sample_ticks (new_tf_gen 0 60 TYPE_LAST) (new_ring 4) of
     (k, g', out) \<Rightarrow> contents out = candles TYPE_LAST 60 sample_ticks \<and> k = 2"
proof -
  obtain k g' out where e: "tf_genFromTicks no_dates sample_ticks (new_tf_gen 0 60 TYPE_LAST) (new_ring 4) = (k, g', out)"
    by (cases "tf_genFromTicks no_dates sample_ticks (new_tf_gen 0 60 TYPE_LAST) (new_ring 4)")
  have "\<lfloor>7 / 6 :: dbl\<rfloor> = 1" "\<lfloor>1 / 3 :: dbl\<rfloor> = 0" "\<lfloor>1 / 6 :: dbl\<rfloor> = 0" by (simp_all add: floor_eq_iff)
  then have two: "length (candles TYPE_LAST 60 sample_ticks) = 2"
    by (simp add: sample_ticks_def tick_at_def interval_def)
  have "contents out = take_last 4 (candles TYPE_LAST 60 sample_ticks)
      \<and> k = length (candles TYPE_LAST 60 sample_ticks) \<and> ring_ok out"
    by (rule tf_gen_candles [OF _ _ _ _ _ e]) (simp_all add: TF_defs sample_ticks_def tick_at_def in_range_def)
  with two e show ?thesis by simp
qed

text \<open>
  Giving a generator ticks it was already given, all of them or some, in any order, generates no
  bar and changes neither the generator nor the ring.
\<close>

theorem tf_gen_replay:
  assumes "tf_genFromTicks lib ticks g out = (k, g', out')" and "set again \<subseteq> set ticks"
  shows "tf_genFromTicks lib again g' out' = (0, g'\<lparr>g_numLast := 0\<rparr>, out')"
proof -
  have "\<forall>t\<in>set again. t_ts t \<le> g_lastTs (g'\<lparr>g_numLast := 0\<rparr>)"
    using tf.loop_last_ts [of lib ticks "g\<lparr>g_numLast := 0\<rparr>" out k g' out'] assms
    by (auto simp: tf_genFromTicks_loop)
  then show ?thesis unfolding tf_genFromTicks_loop by (rule tf.loop_stale)
qed

theorem tf_gen_replay_witness:
  "case tf_genFromTicks no_dates sample_ticks (new_tf_gen 0 60 TYPE_LAST) (new_ring 4) of
     (k, g', out) \<Rightarrow> tf_genFromTicks no_dates [tick_at 20 7] g' out = (0, g'\<lparr>g_numLast := 0\<rparr>, out)"
proof -
  obtain k g' out where e: "tf_genFromTicks no_dates sample_ticks (new_tf_gen 0 60 TYPE_LAST) (new_ring 4) = (k, g', out)"
    by (cases "tf_genFromTicks no_dates sample_ticks (new_tf_gen 0 60 TYPE_LAST) (new_ring 4)")
  have "set [tick_at 20 7] \<subseteq> set sample_ticks" by (simp add: sample_ticks_def)
  from tf_gen_replay [OF e this] e show ?thesis by simp
qed

text \<open>
  The analyser that is told of every tick has no effect on the bars: the loop that calls it
  returns the same count and leaves the same generator and ring.
\<close>

theorem tf_gen_analyser:
  "(case tf_genFromTicksAnalyser lib updateTick ticks g out a of (n, g', out', a') \<Rightarrow> (n, g', out'))
     = tf_genFromTicks lib ticks g out"
  by (cases "g_type g")
     (simp_all add: tf_genFromTicksAnalyser_def tf_genFromTicks_def Let_def gen_loop_analyser_eq)

end
