(* ===== verification/Range_Gen.thy ===== *)
theory Range_Gen
  imports Bar_Gen
begin

text \<open>
  \<^verbatim>\<open>strategies/src/utils/rangeohlcgen.cpp\<close>: bars whose height is limited. A tick that would make the
  current bar higher than its allowed number of ticks closes it and opens the next one.
\<close>

record range_gen = ohlc_gen +
  g_barSize :: int
  g_tickScale :: dbl
  g_tickSize :: dbl
  g_pricePrecision :: int

definition new_range_gen :: "int \<Rightarrow> dbl \<Rightarrow> ohlc_type \<Rightarrow> range_gen" where
  "new_range_gen barSize tickScale ohlcType =
     \<lparr>g_type = ohlcType, g_lastTs = 0, g_numLast = 0, g_cur = None, g_barSize = barSize,
      g_tickScale = tickScale, g_tickSize = 1, g_pricePrecision = 1\<rparr>"

definition range_init :: "int \<Rightarrow> dbl \<Rightarrow> range_gen \<Rightarrow> range_gen" where
  "range_init pricePrecision tickSize g =
     (let pricePrecision = (if pricePrecision = 0 then 8 else pricePrecision);
          tickSize = (if tickSize = 0 then 1 / 100000000 else tickSize)
      in g\<lparr>g_pricePrecision := pricePrecision, g_tickSize := tickSize * g_tickScale g\<rparr>)"

definition range_valid :: "range_gen \<Rightarrow> bool" where
  "range_valid g \<longleftrightarrow> \<not> g_barSize g \<le> 0 \<and> \<not> g_tickScale g \<le> 0 \<and> \<not> g_tickSize g \<le> 0"

definition range_adjustPrice :: "range_gen \<Rightarrow> dbl \<Rightarrow> dbl" where
  "range_adjustPrice g price =
     (if price = 0 then 0
      else Prelude.truncate (of_int (c_round (price / g_tickSize g)) * g_tickSize g) (g_pricePrecision g))"

section \<open>One tick\<close>

text \<open>The test that closes the current bar: the price extends it outside of its allowed range.\<close>

definition range_closes :: "range_gen \<Rightarrow> dbl \<Rightarrow> ohlc \<Rightarrow> bool" where
  "range_closes g price b =
     (if price > o_high b then
        (let size = to_int32 ((price - o_low b) / g_tickSize g) in size > g_barSize g)
      else if price < o_low b then
        (let size = to_int32 ((o_high b - price) / g_tickSize g) in size > g_barSize g)
      else False)"

text \<open>The four \<^verbatim>\<open>updateFromTick\<close> functions differ in the price they read only.\<close>

definition range_update :: "dbl \<Rightarrow> tick \<Rightarrow> range_gen \<Rightarrow> ohlc_ring \<Rightarrow> bool \<times> range_gen \<times> ohlc_ring" where
  "range_update price t g out =
     (if t_ts t \<le> g_lastTs g then (False, g, out)
      else
        let (isNew, i, out) =
              write_tick (range_closes g price)
                (\<lambda>b. (setOhlc1 price (b\<lparr>o_ts := t_ts t, o_tf := 0\<rparr>))\<lparr>o_vol := 0\<rparr>)
                (\<lambda>b. b\<lparr>o_vol := o_vol b + t_vol t, o_high := max (o_high b) price,
                       o_low := min (o_low b) price, o_close := price, o_tf := t_ts t - o_ts b\<rparr>)
                (g_cur g) out
        in (isNew, g\<lparr>g_cur := Some i, g_lastTs := t_ts t\<rparr>, out))"

definition range_updateFromTickMid where
  "range_updateFromTickMid t = range_update (t_price t) t"

definition range_updateFromTickLast where
  "range_updateFromTickLast t = range_update (t_last t) t"

definition range_updateFromTickBid where
  "range_updateFromTickBid t = range_update (t_bid t) t"

definition range_updateFromTickAsk where
  "range_updateFromTickAsk t = range_update (t_ask t) t"

definition range_step :: "tick \<Rightarrow> range_gen \<Rightarrow> ohlc_ring \<Rightarrow> bool \<times> range_gen \<times> ohlc_ring" where
  "range_step t g =
     (case g_type g of
        TYPE_LAST \<Rightarrow> range_updateFromTickLast t g | TYPE_MID \<Rightarrow> range_updateFromTickMid t g
      | TYPE_BID \<Rightarrow> range_updateFromTickBid t g | TYPE_ASK \<Rightarrow> range_updateFromTickAsk t g)"

definition range_genFromTicks :: "tick list \<Rightarrow> range_gen \<Rightarrow> ohlc_ring \<Rightarrow> nat \<times> range_gen \<times> ohlc_ring" where
  "range_genFromTicks ticks g out =
     (let g = g\<lparr>g_numLast := 0\<rparr>
      in case g_type g of
           TYPE_LAST \<Rightarrow> gen_loop range_updateFromTickLast ticks g out
         | TYPE_MID \<Rightarrow> gen_loop range_updateFromTickMid ticks g out
         | TYPE_BID \<Rightarrow> gen_loop range_updateFromTickBid ticks g out
         | TYPE_ASK \<Rightarrow> gen_loop range_updateFromTickAsk ticks g out)"

definition range_genFromTicksAnalyser :: "(tick \<Rightarrow> bool \<Rightarrow> ohlc_ring \<Rightarrow> 'a \<Rightarrow> 'a) \<Rightarrow> tick list
    \<Rightarrow> range_gen \<Rightarrow> ohlc_ring \<Rightarrow> 'a \<Rightarrow> nat \<times> range_gen \<times> ohlc_ring \<times> 'a" where
  "range_genFromTicksAnalyser updateTick ticks g out a =
     (let g = g\<lparr>g_numLast := 0\<rparr>
      in case g_type g of
           TYPE_LAST \<Rightarrow> gen_loop_analyser range_updateFromTickLast updateTick ticks g out a
         | TYPE_MID \<Rightarrow> gen_loop_analyser range_updateFromTickMid updateTick ticks g out a
         | TYPE_BID \<Rightarrow> gen_loop_analyser range_updateFromTickBid updateTick ticks g out a
         | TYPE_ASK \<Rightarrow> gen_loop_analyser range_updateFromTickAsk updateTick ticks g out a)"

section \<open>The generator on the history of bars\<close>

definition range_body :: "range_gen \<Rightarrow> tick \<Rightarrow> bool \<Rightarrow> ohlc list \<Rightarrow> bool \<times> ohlc list" where
  "range_body g t =
     (let price = tick_price (g_type g) t
      in hist_write (range_closes g price)
           (\<lambda>b. (setOhlc1 price (b\<lparr>o_ts := t_ts t, o_tf := 0\<rparr>))\<lparr>o_vol := 0\<rparr>)
           (\<lambda>b. b\<lparr>o_vol := o_vol b + t_vol t, o_high := max (o_high b) price,
                  o_low := min (o_low b) price, o_close := price, o_tf := t_ts t - o_ts b\<rparr>))"

lemma range_step_update: "range_step t g = range_update (tick_price (g_type g) t) t g"
  by (cases "g_type g") (simp_all add: range_step_def range_updateFromTickLast_def
    range_updateFromTickMid_def range_updateFromTickBid_def range_updateFromTickAsk_def)

lemma range_closes_cong:
  "g_tickSize g' = g_tickSize g \<Longrightarrow> g_barSize g' = g_barSize g \<Longrightarrow> range_closes g' = range_closes g"
  by (simp add: range_closes_def fun_eq_iff)

interpretation range: bar_gen range_step range_body
proof unfold_locales
  fix t :: tick and g g' :: range_gen and r r' :: ohlc_ring and isNew B
  show "range_step t g r = (False, g, r)" if "t_ts t \<le> g_lastTs g"
    using that by (simp add: range_step_update range_update_def)
  assume fresh: "g_lastTs g < t_ts t" and s: "range_step t g r = (isNew, g', r')"
  have g': "g_lastTs g' = t_ts t" "has_bar g'" "g_type g' = g_type g" "g_tickSize g' = g_tickSize g"
    "g_barSize g' = g_barSize g"
    using fresh s by (auto simp: range_step_update range_update_def has_bar_def Let_def split: prod.splits)
  then show "g_lastTs g' = t_ts t \<and> has_bar g' \<and> range_body g' = range_body g \<and> g_type g' = g_type g"
    using range_closes_cong [of g' g] by (auto simp: range_body_def intro!: ext)
  assume rel: "gen_rel g r B"
  show "\<exists>B'. range_body g t (has_bar g) B = (isNew, B') \<and> gen_rel g' r' B'
          \<and> length (rb_data r') = length (rb_data r)"
    using fresh s unfolding range_step_update range_update_def range_body_def Let_def
    by (auto split: prod.splits intro!: write_tick_rel [OF rel])
qed

lemma range_genFromTicks_loop:
  "range_genFromTicks ts g r = gen_loop range_step ts (g\<lparr>g_numLast := 0\<rparr>) r"
proof -
  have st: "g_type g = TYPE_LAST \<Longrightarrow> range_updateFromTickLast t g r = range_step t g r"
    "g_type g = TYPE_MID \<Longrightarrow> range_updateFromTickMid t g r = range_step t g r"
    "g_type g = TYPE_BID \<Longrightarrow> range_updateFromTickBid t g r = range_step t g r"
    "g_type g = TYPE_ASK \<Longrightarrow> range_updateFromTickAsk t g r = range_step t g r" for t g r
    by (simp_all add: range_step_def)
  show ?thesis
    by (cases "g_type g") (simp_all add: range_genFromTicks_def range.loop_typed [OF st(1)]
      range.loop_typed [OF st(2)] range.loop_typed [OF st(3)] range.loop_typed [OF st(4)])
qed

section \<open>Properties\<close>

text \<open>A bar of a range generator: in the corridor of the prices, consistent, and of limited height.\<close>

definition range_bar :: "dbl \<Rightarrow> dbl \<Rightarrow> dbl \<Rightarrow> ohlc \<Rightarrow> bool" where
  "range_bar lo hi limit b \<longleftrightarrow>
     lo \<le> o_low b \<and> o_low b \<le> o_open b \<and> o_open b \<le> o_high b \<and> o_low b \<le> o_close b
     \<and> o_close b \<le> o_high b \<and> o_high b \<le> hi \<and> o_high b - o_low b < limit"

text \<open>Outside of overflow the integer test is the test of the height itself.\<close>

lemma size_exceeds:
  assumes "0 < s" and "0 \<le> x" and "x < s * 2 ^ 31" and "\<not> to_int32 (x / s) > n"
  shows "x < of_int (n + 1) * s"
proof -
  have q: "0 \<le> x / s" "x / s < 2 ^ 31" using assms(1-3) by (simp_all add: pos_divide_less_eq mult.commute)
  then have "\<lfloor>x / s\<rfloor> \<le> n" using assms(4) to_int32_nonneg by simp
  then have "x / s < of_int (n + 1)" by (simp add: floor_less_iff [symmetric] flip: floor_le_iff)
  then show ?thesis using assms(1) by (simp only: pos_divide_less_eq)
qed

lemma range_body_bar:
  assumes "0 < g_tickSize g" and "0 \<le> g_barSize g" and "hi - lo < g_tickSize g * 2 ^ 31"
    and "lo \<le> tick_price (g_type g) t" and "tick_price (g_type g) t \<le> hi"
    and "op \<longrightarrow> B \<noteq> []" and "\<forall>b\<in>set B. range_bar lo hi (of_int (g_barSize g + 1) * g_tickSize g) b"
  shows "snd (range_body g t op B) \<noteq> [] \<and>
    (\<forall>b\<in>set (snd (range_body g t op B)). range_bar lo hi (of_int (g_barSize g + 1) * g_tickSize g) b)"
proof -
  define p where "p = tick_price (g_type g) t"
  have pos: "0 < of_int (g_barSize g + 1) * g_tickSize g" using assms(1,2) by simp
  have keep: "range_bar lo hi (of_int (g_barSize g + 1) * g_tickSize g)
      (b\<lparr>o_vol := v, o_high := max (o_high b) p, o_low := min (o_low b) p, o_close := p, o_tf := w\<rparr>)"
    if b: "range_bar lo hi (of_int (g_barSize g + 1) * g_tickSize g) b" and c: "\<not> range_closes g p b" for b v w
  proof -
    have p: "lo \<le> p" "p \<le> hi" using assms(4,5) by (simp_all add: p_def)
    have "p - o_low b < of_int (g_barSize g + 1) * g_tickSize g" if "p > o_high b"
      using c that b p assms(3) by (intro size_exceeds [OF assms(1)]) (auto simp: range_closes_def range_bar_def Let_def)
    moreover have "o_high b - p < of_int (g_barSize g + 1) * g_tickSize g" if "p < o_low b"
      using c that b p assms(3) by (intro size_exceeds [OF assms(1)]) (auto simp: range_closes_def range_bar_def Let_def)
    moreover define L where "L = of_int (g_barSize g + 1) * g_tickSize g"
    ultimately show ?thesis using b p unfolding L_def [symmetric]
      by (cases "p > o_high b"; cases "p < o_low b") (auto simp: range_bar_def)
  qed
  show ?thesis
    unfolding range_body_def Let_def p_def [symmetric]
    by (rule hist_write_all) (use keep assms(4-7) pos in \<open>auto simp: range_bar_def setConsolidated_def
        setOhlc1_def zero_ohlc_def p_def [symmetric]\<close>)
qed

text \<open>
  C38: No bar in the ring, open or ended, is higher than the allowed number of ticks: its height stays
  below the bar size plus one tick, and its open and close are between its low and its high. The prices are in a corridor
  whose height in ticks fits 32 bits; beyond it the cast of the height overflows and a bar is
  never closed.
\<close>

theorem range_gen_height:
  assumes "g_cur g = None" and "2 \<le> n" and "0 < g_tickSize g" and "0 \<le> g_barSize g"
    and "\<forall>t\<in>set ticks. lo \<le> tick_price (g_type g) t \<and> tick_price (g_type g) t \<le> hi"
    and "hi - lo < g_tickSize g * 2 ^ 31"
    and "range_genFromTicks ticks g (new_ring n) = (k, g', out)"
  shows "\<forall>b\<in>set (contents out). range_bar lo hi (of_int (g_barSize g + 1) * g_tickSize g) b"
proof -
  let ?g = "g\<lparr>g_numLast := 0\<rparr>"
  have rel: "gen_rel ?g (new_ring n) []" using assms(1,2) by (simp add: gen_rel_def ring_ok_new has_bar_def)
  have l: "gen_loop range_step ticks ?g (new_ring n) = (k, g', out)"
    using assms(7) by (simp add: range_genFromTicks_loop)
  show ?thesis
    by (rule range.loop_all [OF rel _ l]) (use range_body_bar [of ?g hi lo] assms(3-6) in auto)
qed

definition sample_range :: range_gen where
  "sample_range = range_init 2 (1 / 2) (new_range_gen 2 1 TYPE_LAST)"

definition range_ticks :: "tick list" where
  "range_ticks = map (\<lambda>(s, p). \<lparr>t_ts = s, t_bid = p, t_ask = p, t_last = p, t_vol = 1, t_bos = 0\<rparr>)
     [(1, 10), (2, 11), (3, 12), (4, 9)]"

theorem range_gen_height_witness:
  "case range_genFromTicks range_ticks sample_range (new_ring 4) of
     (k, g', out) \<Rightarrow> \<forall>b\<in>set (contents out). range_bar 9 12 (3 / 2) b"
proof -
  obtain k g' out where e: "range_genFromTicks range_ticks sample_range (new_ring 4) = (k, g', out)"
    by (cases "range_genFromTicks range_ticks sample_range (new_ring 4)")
  have "\<forall>b\<in>set (contents out). range_bar 9 12 (of_int (g_barSize sample_range + 1) * g_tickSize sample_range) b"
    by (rule range_gen_height [OF _ _ _ _ _ _ e])
      (simp_all add: sample_range_def range_init_def new_range_gen_def range_ticks_def)
  with e show ?thesis by (simp add: sample_range_def range_init_def new_range_gen_def)
qed

end
