(* ===== verification/Reversal_Gen.thy ===== *)
theory Reversal_Gen
  imports Range_Gen
begin

text \<open>
  \<^verbatim>\<open>strategies/src/utils/reversalohlcgen.cpp\<close>: bars that close when the price comes back from a far enough
  extreme, or goes too far from the open. The update functions dereference the current bar after
  they may have set it to the null pointer: this is undefined behaviour, the value \<open>None\<close>.
\<close>

record reversal_gen = ohlc_gen +
  v_barSize :: int
  v_reversalSize :: int
  v_tickScale :: dbl
  v_tickSize :: dbl
  v_pricePrecision :: int
  v_reversing :: int

definition new_reversal_gen :: "int \<Rightarrow> int \<Rightarrow> dbl \<Rightarrow> ohlc_type \<Rightarrow> reversal_gen" where
  "new_reversal_gen barSize reversalSize tickScale ohlcType =
     \<lparr>g_type = ohlcType, g_lastTs = 0, g_numLast = 0, g_cur = None, v_barSize = barSize,
      v_reversalSize = reversalSize, v_tickScale = tickScale, v_tickSize = 1, v_pricePrecision = 1,
      v_reversing = 0\<rparr>"

definition reversal_init :: "int \<Rightarrow> dbl \<Rightarrow> reversal_gen \<Rightarrow> reversal_gen" where
  "reversal_init pricePrecision tickSize g =
     (let pricePrecision = (if pricePrecision = 0 then 8 else pricePrecision);
          tickSize = (if tickSize = 0 then 1 / 100000000 else tickSize)
      in g\<lparr>v_pricePrecision := pricePrecision, v_tickSize := tickSize * v_tickScale g\<rparr>)"

definition reversal_adjustPrice :: "reversal_gen \<Rightarrow> dbl \<Rightarrow> dbl" where
  "reversal_adjustPrice g price =
     (if price = 0 then 0
      else Prelude.truncate (of_int (c_round (price / v_tickSize g)) * v_tickSize g) (v_pricePrecision g))"

section \<open>One tick\<close>

text \<open>Close at the reversal size. The pointer is null afterwards.\<close>

definition reversal_ends :: "reversal_gen \<Rightarrow> dbl \<Rightarrow> ohlc \<Rightarrow> bool" where
  "reversal_ends g price b =
     (if v_reversing g > 0 then
        (let size = to_int32 ((price - o_low b) / v_tickSize g) in size > v_reversalSize g)
      else if v_reversing g < 0 then
        (let size = to_int32 ((o_high b - price) / v_tickSize g) in size > v_reversalSize g)
      else False)"

text \<open>Look up for the reversal.\<close>

definition reversal_lookup :: "reversal_gen \<Rightarrow> dbl \<Rightarrow> ohlc \<Rightarrow> int" where
  "reversal_lookup g price b =
     (if price > o_high b then
        (let size = to_int32 ((price - o_low b) / v_tickSize g)
         in if size \<ge> v_barSize g then -1 else v_reversing g)
      else if price < o_low b then
        (let size = to_int32 ((o_high b - price) / v_tickSize g)
         in if size \<ge> v_barSize g then 1 else v_reversing g)
      else v_reversing g)"

text \<open>The price goes too far from the open.\<close>

definition reversal_closes :: "reversal_gen \<Rightarrow> dbl \<Rightarrow> ohlc \<Rightarrow> bool" where
  "reversal_closes g price b =
     (if price > o_high b then
        (let size = to_int32 ((price - o_open b) / v_tickSize g) in size > v_barSize g)
      else if price < o_low b then
        (let size = to_int32 ((o_open b - price) / v_tickSize g) in size > v_barSize g)
      else False)"

definition reversal_update ::
    "dbl \<Rightarrow> tick \<Rightarrow> reversal_gen \<Rightarrow> ohlc_ring \<Rightarrow> (bool \<times> reversal_gen \<times> ohlc_ring) option" where
  "reversal_update price t g out =
     (if t_ts t \<le> g_lastTs g then Some (False, g, out)
      else
        case (case g_cur g of None \<Rightarrow> Some g
              | Some i \<Rightarrow>
                  if reversal_ends g price (elt out i) then None
                  else Some (g\<lparr>v_reversing := reversal_lookup g price (elt out i)\<rparr>)) of
          None \<Rightarrow> None
        | Some g \<Rightarrow>
            let (isNew, i, out) =
                  write_tick (reversal_closes g price)
                    (\<lambda>b. (setOhlc1 price (b\<lparr>o_ts := t_ts t, o_tf := 0\<rparr>))\<lparr>o_vol := 0\<rparr>)
                    (\<lambda>b. b\<lparr>o_vol := o_vol b + t_vol t, o_high := max (o_high b) price,
                           o_low := min (o_low b) price, o_close := price, o_tf := t_ts t - o_ts b\<rparr>)
                    (g_cur g) out
            in Some (isNew, g\<lparr>g_cur := Some i, g_lastTs := t_ts t\<rparr>, out))"

definition reversal_updateFromTickLast where
  "reversal_updateFromTickLast t = reversal_update (t_last t) t"

definition reversal_updateFromTickMid where
  "reversal_updateFromTickMid t = reversal_update (t_price t) t"

definition reversal_updateFromTickBid where
  "reversal_updateFromTickBid t = reversal_update (t_bid t) t"

definition reversal_updateFromTickAsk where
  "reversal_updateFromTickAsk t = reversal_update (t_ask t) t"

fun reversal_loop :: "(tick \<Rightarrow> 'g \<Rightarrow> ohlc_ring \<Rightarrow> (bool \<times> 'g \<times> ohlc_ring) option) \<Rightarrow> tick list \<Rightarrow> 'g
    \<Rightarrow> ohlc_ring \<Rightarrow> (nat \<times> 'g \<times> ohlc_ring) option" where
  "reversal_loop step [] g out = Some (0, g, out)"
| "reversal_loop step (t # ts) g out =
     do { (isNew, g, out) \<leftarrow> step t g out;
          (n, g, out) \<leftarrow> reversal_loop step ts g out;
          Some (if isNew then n + 1 else n, g, out) }"

definition reversal_genFromTicks ::
    "tick list \<Rightarrow> reversal_gen \<Rightarrow> ohlc_ring \<Rightarrow> (nat \<times> reversal_gen \<times> ohlc_ring) option" where
  "reversal_genFromTicks ticks g out =
     (let g = g\<lparr>g_numLast := 0\<rparr>
      in case g_type g of
           TYPE_LAST \<Rightarrow> reversal_loop reversal_updateFromTickLast ticks g out
         | TYPE_MID \<Rightarrow> reversal_loop reversal_updateFromTickMid ticks g out
         | TYPE_BID \<Rightarrow> reversal_loop reversal_updateFromTickBid ticks g out
         | TYPE_ASK \<Rightarrow> reversal_loop reversal_updateFromTickAsk ticks g out)"

text \<open>The loop that calls the analyser after each tick.\<close>

fun reversal_loop_analyser :: "(tick \<Rightarrow> 'g \<Rightarrow> ohlc_ring \<Rightarrow> (bool \<times> 'g \<times> ohlc_ring) option)
    \<Rightarrow> (tick \<Rightarrow> bool \<Rightarrow> ohlc_ring \<Rightarrow> 'a \<Rightarrow> 'a) \<Rightarrow> tick list \<Rightarrow> 'g \<Rightarrow> ohlc_ring \<Rightarrow> 'a
    \<Rightarrow> (nat \<times> 'g \<times> ohlc_ring \<times> 'a) option" where
  "reversal_loop_analyser step updateTick [] g out a = Some (0, g, out, a)"
| "reversal_loop_analyser step updateTick (t # ts) g out a =
     do { (newBar, g, out) \<leftarrow> step t g out;
          let a = updateTick t newBar out a;
          (n, g, out, a) \<leftarrow> reversal_loop_analyser step updateTick ts g out a;
          Some (if newBar then n + 1 else n, g, out, a) }"

definition reversal_genFromTicksAnalyser :: "(tick \<Rightarrow> bool \<Rightarrow> ohlc_ring \<Rightarrow> 'a \<Rightarrow> 'a) \<Rightarrow> tick list
    \<Rightarrow> reversal_gen \<Rightarrow> ohlc_ring \<Rightarrow> 'a \<Rightarrow> (nat \<times> reversal_gen \<times> ohlc_ring \<times> 'a) option" where
  "reversal_genFromTicksAnalyser updateTick ticks g out a =
     (let g = g\<lparr>g_numLast := 0\<rparr>
      in case g_type g of
           TYPE_LAST \<Rightarrow> reversal_loop_analyser reversal_updateFromTickLast updateTick ticks g out a
         | TYPE_MID \<Rightarrow> reversal_loop_analyser reversal_updateFromTickMid updateTick ticks g out a
         | TYPE_BID \<Rightarrow> reversal_loop_analyser reversal_updateFromTickBid updateTick ticks g out a
         | TYPE_ASK \<Rightarrow> reversal_loop_analyser reversal_updateFromTickAsk updateTick ticks g out a)"

definition reversal_valid :: "reversal_gen \<Rightarrow> bool" where
  "reversal_valid g \<longleftrightarrow>
     \<not> v_barSize g \<le> 0 \<and> \<not> v_reversalSize g \<le> 0 \<and> \<not> v_tickScale g \<le> 0 \<and> \<not> v_tickSize g \<le> 0"

section \<open>Properties\<close>

text \<open>Every bar stays within the bar size, plus one tick, of its open.\<close>

definition reversal_bar :: "dbl \<Rightarrow> dbl \<Rightarrow> dbl \<Rightarrow> ohlc \<Rightarrow> bool" where
  "reversal_bar lo hi limit b \<longleftrightarrow>
     lo \<le> o_low b \<and> o_low b \<le> o_open b \<and> o_open b \<le> o_high b \<and> o_low b \<le> o_close b
     \<and> o_close b \<le> o_high b \<and> o_high b \<le> hi \<and> o_high b - o_open b < limit \<and> o_open b - o_low b < limit"

lemma reversal_keep:
  assumes "0 < v_tickSize g" and "hi - lo < v_tickSize g * 2 ^ 31" and "lo \<le> p" and "p \<le> hi"
    and b: "reversal_bar lo hi (of_int (v_barSize g + 1) * v_tickSize g) b" and c: "\<not> reversal_closes g p b"
  shows "reversal_bar lo hi (of_int (v_barSize g + 1) * v_tickSize g)
      (b\<lparr>o_vol := v, o_high := max (o_high b) p, o_low := min (o_low b) p, o_close := p, o_tf := w\<rparr>)"
proof -
  have "p - o_open b < of_int (v_barSize g + 1) * v_tickSize g" if "p > o_high b"
    using c that b assms(2-4)
    by (intro size_exceeds [OF assms(1)]) (auto simp: reversal_closes_def reversal_bar_def Let_def)
  moreover have "o_open b - p < of_int (v_barSize g + 1) * v_tickSize g" if "p < o_low b"
    using c that b assms(2-4)
    by (intro size_exceeds [OF assms(1)]) (auto simp: reversal_closes_def reversal_bar_def Let_def)
  moreover define L where "L = of_int (v_barSize g + 1) * v_tickSize g"
  ultimately show ?thesis using b assms(3,4) unfolding L_def [symmetric]
    by (cases "p > o_high b"; cases "p < o_low b") (auto simp: reversal_bar_def)
qed

lemma reversal_update_keeps:
  assumes "0 < v_tickSize g" and "0 \<le> v_barSize g" and "hi - lo < v_tickSize g * 2 ^ 31"
    and "lo \<le> p" and "p \<le> hi" and "gen_rel g r B"
    and all: "\<forall>b\<in>set B. reversal_bar lo hi (of_int (v_barSize g + 1) * v_tickSize g) b"
    and "reversal_update p t g r = Some (isNew, g', r')"
  shows "\<exists>B'. gen_rel g' r' B' \<and> (\<forall>b\<in>set B'. reversal_bar lo hi (of_int (v_barSize g + 1) * v_tickSize g) b)"
    and "v_tickSize g' = v_tickSize g" and "v_barSize g' = v_barSize g" and "g_type g' = g_type g"
proof -
  let ?P = "reversal_bar lo hi (of_int (v_barSize g + 1) * v_tickSize g)"
  have "(\<exists>B'. gen_rel g' r' B' \<and> (\<forall>b\<in>set B'. ?P b)) \<and> v_tickSize g' = v_tickSize g
      \<and> v_barSize g' = v_barSize g \<and> g_type g' = g_type g"
  proof (cases "t_ts t \<le> g_lastTs g")
    case True
    with assms(6,7,8) show ?thesis by (auto simp: reversal_update_def)
  next
    case False
    obtain k i r1 where w: "write_tick (reversal_closes g p)
          (\<lambda>b. (setOhlc1 p (b\<lparr>o_ts := t_ts t, o_tf := 0\<rparr>))\<lparr>o_vol := 0\<rparr>)
          (\<lambda>b. b\<lparr>o_vol := o_vol b + t_vol t, o_high := max (o_high b) p,
                 o_low := min (o_low b) p, o_close := p, o_tf := t_ts t - o_ts b\<rparr>) (g_cur g) r = (k, i, r1)"
      (is "write_tick ?cl ?init ?upd _ _ = _")
      by (cases "write_tick (reversal_closes g p)
          (\<lambda>b. (setOhlc1 p (b\<lparr>o_ts := t_ts t, o_tf := 0\<rparr>))\<lparr>o_vol := 0\<rparr>)
          (\<lambda>b. b\<lparr>o_vol := o_vol b + t_vol t, o_high := max (o_high b) p,
                 o_low := min (o_low b) p, o_close := p, o_tf := t_ts t - o_ts b\<rparr>) (g_cur g) r") auto
    have cl: "reversal_closes (g\<lparr>v_reversing := x\<rparr>) p = ?cl" for x
      by (simp add: reversal_closes_def fun_eq_iff)
    have res: "r' = r1" "g_cur g' = Some i" "v_tickSize g' = v_tickSize g" "v_barSize g' = v_barSize g"
      "g_type g' = g_type g"
      using assms(8) False w
      by (auto simp: reversal_update_def cl split: option.splits if_splits prod.splits)
    obtain B' where B': "hist_write ?cl ?init ?upd (has_bar g) B = (k, B')" "gen_rel g' r' B'"
      using write_tick_rel [OF assms(6) w res(2), where init' = ?init] res(1) by blast
    have op: "has_bar g \<longrightarrow> B \<noteq> []" using assms(6) by (simp add: gen_rel_def)
    have "0 < of_int (v_barSize g + 1) * v_tickSize g" using assms(1,2) by simp
    then have "snd (hist_write ?cl ?init ?upd (has_bar g) B) \<noteq> []
        \<and> (\<forall>b\<in>set (snd (hist_write ?cl ?init ?upd (has_bar g) B)). ?P b)"
      using reversal_keep [OF assms(1,3,4,5)] assms(4,5)
      by (intro hist_write_all [OF _ _ _ op all])
        (auto simp: reversal_bar_def setConsolidated_def setOhlc1_def zero_ohlc_def)
    with B' res show ?thesis by auto
  qed
  then show "\<exists>B'. gen_rel g' r' B' \<and> (\<forall>b\<in>set B'. ?P b)" and "v_tickSize g' = v_tickSize g"
    and "v_barSize g' = v_barSize g" and "g_type g' = g_type g" by blast+
qed

lemma reversal_loop_keeps:
  assumes "\<And>t g r. g_type g = c \<Longrightarrow> st t g r = reversal_update (tick_price c t) t g r"
    and "g_type g = c" and "0 < v_tickSize g" and "0 \<le> v_barSize g" and "hi - lo < v_tickSize g * 2 ^ 31"
    and "\<forall>t\<in>set ts. lo \<le> tick_price c t \<and> tick_price c t \<le> hi" and "gen_rel g r B"
    and "\<forall>b\<in>set B. reversal_bar lo hi (of_int (v_barSize g + 1) * v_tickSize g) b"
    and "reversal_loop st ts g r = Some (n, g', r')"
  shows "\<exists>B'. gen_rel g' r' B' \<and> (\<forall>b\<in>set B'. reversal_bar lo hi (of_int (v_barSize g + 1) * v_tickSize g) b)"
  using assms(2-)
proof (induction ts arbitrary: g r B n)
  case (Cons t ts)
  obtain k g1 r1 where s: "reversal_update (tick_price c t) t g r = Some (k, g1, r1)"
    and l: "\<exists>m. reversal_loop st ts g1 r1 = Some (m, g', r')"
    using Cons.prems(8) assms(1) [OF Cons.prems(1)] by (auto simp: bind_eq_Some_conv)
  have p: "lo \<le> tick_price c t" "tick_price c t \<le> hi" "\<forall>t\<in>set ts. lo \<le> tick_price c t \<and> tick_price c t \<le> hi"
    using Cons.prems(5) by auto
  note k = reversal_update_keeps [OF Cons.prems(2-4) p(1,2) Cons.prems(6,7) s]
  obtain B1 where "gen_rel g1 r1 B1"
    "\<forall>b\<in>set B1. reversal_bar lo hi (of_int (v_barSize g + 1) * v_tickSize g) b" using k(1) by blast
  with l Cons.IH [of g1 r1 B1] Cons.prems(1-4) p(3) k(2-4) show ?case by auto
qed auto

text \<open>
  Whenever the generator returns, every bar of the ring stays within the bar size, plus one tick, of
  its open on both sides. The prices are in a corridor whose height in ticks fits 32 bits.
\<close>

theorem reversal_gen_height:
  assumes "g_cur g = None" and "2 \<le> n" and "0 < v_tickSize g" and "0 \<le> v_barSize g"
    and "\<forall>t\<in>set ticks. lo \<le> tick_price (g_type g) t \<and> tick_price (g_type g) t \<le> hi"
    and "hi - lo < v_tickSize g * 2 ^ 31"
    and "reversal_genFromTicks ticks g (new_ring n) = Some (k, g', out)"
  shows "\<forall>b\<in>set (contents out). reversal_bar lo hi (of_int (v_barSize g + 1) * v_tickSize g) b"
proof -
  let ?g = "g\<lparr>g_numLast := 0\<rparr>"
  have rel: "gen_rel ?g (new_ring n) []" using assms(1,2) by (simp add: gen_rel_def ring_ok_new has_bar_def)
  have l: "reversal_loop (\<lambda>t. reversal_update (tick_price (g_type g) t) t) ticks ?g (new_ring n) = Some (k, g', out)"
    using assms(7) by (cases "g_type g") (simp_all add: reversal_genFromTicks_def Let_def
      reversal_updateFromTickLast_def [abs_def] reversal_updateFromTickMid_def [abs_def]
      reversal_updateFromTickBid_def [abs_def] reversal_updateFromTickAsk_def [abs_def])
  have "\<exists>B'. gen_rel g' out B' \<and> (\<forall>b\<in>set B'. reversal_bar lo hi (of_int (v_barSize ?g + 1) * v_tickSize ?g) b)"
    by (rule reversal_loop_keeps [OF _ _ _ _ _ _ rel _ l, where c = "g_type g"]) (use assms(3-6) in simp_all)
  then show ?thesis using set_take_last by (fastforce simp: gen_rel_def)
qed

definition sample_reversal :: reversal_gen where
  "sample_reversal = reversal_init 2 1 (new_reversal_gen 2 1 1 TYPE_LAST)"

definition price_ticks :: "dbl list \<Rightarrow> tick list" where
  "price_ticks ps = map (\<lambda>(i, p). \<lparr>t_ts = of_nat i, t_bid = p, t_ask = p, t_last = p, t_vol = 1, t_bos = 0\<rparr>)
     (zip [1..<length ps + 1] ps)"

theorem reversal_gen_height_witness:
  "case reversal_genFromTicks (price_ticks [10, 11, 12]) sample_reversal (new_ring 2) of
     Some (k, g', out) \<Rightarrow> \<forall>b\<in>set (contents out). reversal_bar 10 12 3 b | None \<Rightarrow> False"
proof -
  have "reversal_genFromTicks (price_ticks [10, 11, 12]) sample_reversal (new_ring 2) \<noteq> None"
    by code_simp
  then obtain k g' out where e: "reversal_genFromTicks (price_ticks [10, 11, 12]) sample_reversal (new_ring 2) = Some (k, g', out)"
    by auto
  have "\<forall>b\<in>set (contents out). reversal_bar 10 12 (of_int (v_barSize sample_reversal + 1) * v_tickSize sample_reversal) b"
    by (rule reversal_gen_height [OF _ _ _ _ _ _ e])
      (simp_all add: sample_reversal_def reversal_init_def new_reversal_gen_def price_ticks_def upt_rec)
  with e show ?thesis by (simp add: sample_reversal_def reversal_init_def new_reversal_gen_def)
qed

text \<open>
  Once a reversal is looked for, the generator looks for one for ever: no operation resets
  \<^verbatim>\<open>m_reversing\<close> when the bar that started it is closed.
\<close>

theorem reversal_never_reset:
  assumes "v_reversing g \<noteq> 0" and "reversal_update p t g r = Some (isNew, g', r')"
  shows "v_reversing g' \<noteq> 0"
  using assms
  by (auto simp: reversal_update_def reversal_lookup_def Let_def split: if_splits option.splits prod.splits)

theorem reversal_never_reset_witness:
  "case reversal_updateFromTickLast (hd (price_ticks [10])) (sample_reversal\<lparr>v_reversing := 1\<rparr>) (new_ring 2) of
     Some (isNew, g', r') \<Rightarrow> v_reversing g' \<noteq> 0 | None \<Rightarrow> False"
proof -
  have "reversal_update 10 (hd (price_ticks [10])) (sample_reversal\<lparr>v_reversing := 1\<rparr>) (new_ring 2) \<noteq> None"
    by code_simp
  then obtain isNew g' r' where
    e: "reversal_update 10 (hd (price_ticks [10])) (sample_reversal\<lparr>v_reversing := 1\<rparr>) (new_ring 2) = Some (isNew, g', r')"
    by auto
  have "v_reversing g' \<noteq> 0" by (rule reversal_never_reset [OF _ e]) simp
  moreover have "t_last (hd (price_ticks [10])) = 10" by (simp add: price_ticks_def upt_rec)
  ultimately show ?thesis using e by (simp add: reversal_updateFromTickLast_def)
qed

text \<open>
  The reversal it waits for is never served. A bar that rose by its size and falls back by more
  than the reversal size is what the generator exists for: on these ticks it reads the null pointer it
  has just stored.
\<close>

theorem reversal_null_pointer:
  "reversal_genFromTicks (price_ticks [10, 11, 12]) sample_reversal (new_ring 2) \<noteq> None \<and>
   reversal_genFromTicks (price_ticks [10, 11, 12, 10]) sample_reversal (new_ring 2) = None"
  by code_simp

end
