(* ===== verification/Market_Model.thy ===== *)
theory Market_Model
  imports Ohlc_Ring
begin

unbundle bit_operations_syntax

text \<open>
  \<^verbatim>\<open>strategies/include/siis/market.h\<close> and \<^verbatim>\<open>strategies/src/market.cpp\<close>: the market, its capacities, its filters,
  the rounding of prices and quantities to what the market accepts, and the costs and profits of
  a quantity. The tests for NaN of the code have no counterpart, as numbers are exact; the
  functions that format strings and the buffers of ticks and bars are left out.
\<close>

section \<open>The market\<close>

datatype market_contract = CONTRACT_SPOT | CONTRACT_CFD | CONTRACT_FUTURE | CONTRACT_OPTION
  | CONTRACT_WARRANT | CONTRACT_TURBO

datatype market_type = TYPE_UNDEFINED | TYPE_UNKNOWN | TYPE_CURRENCY | TYPE_COMMODITY | TYPE_INDICE
  | TYPE_STOCK | TYPE_RATE | TYPE_SECTOR | TYPE_CRYPTO

datatype market_unit = UNIT_UNDEFINED | UNIT_AMOUNT | UNIT_CONTRACTS | UNIT_SHARES | UNIT_INVERSE

definition TRADE_BUY_SELL :: "32 word" where "TRADE_BUY_SELL = 1"
definition TRADE_MARGIN :: "32 word" where "TRADE_MARGIN = 2"
definition TRADE_IND_MARGIN :: "32 word" where "TRADE_IND_MARGIN = 4"
definition TRADE_FIFO :: "32 word" where "TRADE_FIFO = 8"
definition TRADE_POSITION :: "32 word" where "TRADE_POSITION = 16"
definition ORDER_ALL :: "32 word" where "ORDER_ALL = 31"

lemmas TRADE_defs = TRADE_BUY_SELL_def TRADE_MARGIN_def TRADE_IND_MARGIN_def TRADE_FIFO_def
  TRADE_POSITION_def

record market_symbol =
  sy_symbol :: string
  sy_precision :: int
  sy_vol24h :: dbl

record market_filter =
  fi_min :: dbl
  fi_max :: dbl
  fi_step :: dbl
  fi_precision :: int

record market_fee =
  fee_rate :: dbl
  fee_commission :: dbl
  fee_min :: dbl
  fee_max :: dbl

record market =
  mk_marketId :: string
  mk_pair :: string
  mk_alias :: string
  mk_type :: market_type
  mk_contract :: market_contract
  mk_unit :: market_unit
  mk_tradeCaps :: "32 word"
  mk_orderCaps :: "32 word"
  mk_lastTimestamp :: dbl
  mk_tradeable :: bool
  mk_contractSize :: dbl
  mk_lotSize :: dbl
  mk_valuePerPip :: dbl
  mk_onePipMean :: dbl
  mk_baseExchangeRate :: dbl
  mk_marginFactor :: dbl
  mk_bid :: dbl
  mk_ask :: dbl
  mk_last :: dbl
  mk_hedging :: bool
  mk_base :: market_symbol
  mk_quote :: market_symbol
  mk_settlement :: market_symbol
  mk_makerFees :: market_fee
  mk_takerFees :: market_fee
  mk_priceFilter :: market_filter
  mk_qtyFilter :: market_filter
  mk_notionalFilter :: market_filter

definition new_symbol :: market_symbol where
  "new_symbol = \<lparr>sy_symbol = '''', sy_precision = 8, sy_vol24h = 0\<rparr>"

definition new_filter :: market_filter where
  "new_filter = \<lparr>fi_min = 0, fi_max = 0, fi_step = 0, fi_precision = 0\<rparr>"

definition new_fee :: market_fee where
  "new_fee = \<lparr>fee_rate = 0, fee_commission = 0, fee_min = 0, fee_max = 0\<rparr>"

text \<open>The constructor leaves the type, the contract and the unit as the memory holds them.\<close>

definition new_market ::
    "market_type \<Rightarrow> market_contract \<Rightarrow> market_unit \<Rightarrow> string \<Rightarrow> string \<Rightarrow> string \<Rightarrow> string \<Rightarrow> market" where
  "new_market ty ct un marketId pair baseSymbol quoteSymbol =
     \<lparr>mk_marketId = marketId, mk_pair = pair, mk_alias = '''', mk_type = ty, mk_contract = ct, mk_unit = un,
      mk_tradeCaps = TRADE_BUY_SELL, mk_orderCaps = ORDER_ALL, mk_lastTimestamp = 0, mk_tradeable = True,
      mk_contractSize = 1, mk_lotSize = 1, mk_valuePerPip = 1, mk_onePipMean = 1, mk_baseExchangeRate = 1,
      mk_marginFactor = 1, mk_bid = 0, mk_ask = 0, mk_last = 0, mk_hedging = False,
      mk_base = new_symbol\<lparr>sy_symbol := baseSymbol\<rparr>, mk_quote = new_symbol\<lparr>sy_symbol := quoteSymbol\<rparr>,
      mk_settlement = new_symbol, mk_makerFees = new_fee, mk_takerFees = new_fee,
      mk_priceFilter = new_filter, mk_qtyFilter = new_filter, mk_notionalFilter = new_filter\<rparr>"

definition mk_mid :: "market \<Rightarrow> dbl" where
  "mk_mid m = (mk_bid m + mk_ask m) * (1 / 2)"

definition mk_spread :: "market \<Rightarrow> dbl" where
  "mk_spread m = mk_ask m - mk_bid m"

definition hasSpot :: "market \<Rightarrow> bool" where
  "hasSpot m \<longleftrightarrow> mk_tradeCaps m AND TRADE_BUY_SELL \<noteq> 0"

definition hasMargin :: "market \<Rightarrow> bool" where
  "hasMargin m \<longleftrightarrow> mk_tradeCaps m AND TRADE_MARGIN \<noteq> 0"

definition indivisiblePosition :: "market \<Rightarrow> bool" where
  "indivisiblePosition m \<longleftrightarrow> mk_tradeCaps m AND TRADE_IND_MARGIN \<noteq> 0"

definition fifoPosition :: "market \<Rightarrow> bool" where
  "fifoPosition m \<longleftrightarrow> mk_tradeCaps m AND TRADE_FIFO \<noteq> 0"

definition hasPosition :: "market \<Rightarrow> bool" where
  "hasPosition m \<longleftrightarrow> mk_tradeCaps m AND TRADE_POSITION \<noteq> 0"

section \<open>Setters\<close>

definition setPair :: "string \<Rightarrow> market \<Rightarrow> market" where
  "setPair pair m = m\<lparr>mk_pair := pair\<rparr>"

definition setAlias :: "string \<Rightarrow> market \<Rightarrow> market" where
  "setAlias alias m = m\<lparr>mk_alias := alias\<rparr>"

definition setTradeCapacities :: "32 word \<Rightarrow> market \<Rightarrow> market" where
  "setTradeCapacities tradeCaps m = (if sint tradeCaps > -1 then m\<lparr>mk_tradeCaps := tradeCaps\<rparr> else m)"

definition setOrderCapacities :: "32 word \<Rightarrow> market \<Rightarrow> market" where
  "setOrderCapacities orderCaps m = (if sint orderCaps > -1 then m\<lparr>mk_orderCaps := orderCaps\<rparr> else m)"

definition setCapacities :: "32 word \<Rightarrow> 32 word \<Rightarrow> market \<Rightarrow> market" where
  "setCapacities tradeCaps orderCaps m =
     (let m = (if sint tradeCaps > -1 then m\<lparr>mk_tradeCaps := tradeCaps\<rparr> else m)
      in if sint orderCaps > -1 then m\<lparr>mk_orderCaps := orderCaps\<rparr> else m)"

definition set_symbol :: "string \<Rightarrow> int \<Rightarrow> market_symbol \<Rightarrow> market_symbol" where
  "set_symbol symbol precision s =
     s\<lparr>sy_symbol := (if isValid symbol then symbol else sy_symbol s), sy_precision := precision\<rparr>"

definition setBaseInfo :: "string \<Rightarrow> int \<Rightarrow> market \<Rightarrow> market" where
  "setBaseInfo symbol precision m = m\<lparr>mk_base := set_symbol symbol precision (mk_base m)\<rparr>"

definition setQuoteInfo :: "string \<Rightarrow> int \<Rightarrow> market \<Rightarrow> market" where
  "setQuoteInfo symbol precision m = m\<lparr>mk_quote := set_symbol symbol precision (mk_quote m)\<rparr>"

definition setSettlementInfo :: "string \<Rightarrow> int \<Rightarrow> market \<Rightarrow> market" where
  "setSettlementInfo symbol precision m = m\<lparr>mk_settlement := set_symbol symbol precision (mk_settlement m)\<rparr>"

definition setBaseVol24h :: "dbl \<Rightarrow> market \<Rightarrow> market" where
  "setBaseVol24h v m = m\<lparr>mk_base := (mk_base m)\<lparr>sy_vol24h := (if v \<ge> 0 then v else sy_vol24h (mk_base m))\<rparr>\<rparr>"

definition setQuoteVol24h :: "dbl \<Rightarrow> market \<Rightarrow> market" where
  "setQuoteVol24h v m = m\<lparr>mk_quote := (mk_quote m)\<lparr>sy_vol24h := (if v \<ge> 0 then v else sy_vol24h (mk_quote m))\<rparr>\<rparr>"

definition setType :: "market_type \<Rightarrow> market_contract \<Rightarrow> market_unit \<Rightarrow> market \<Rightarrow> market" where
  "setType ty ct un m = m\<lparr>mk_type := ty, mk_contract := ct, mk_unit := un\<rparr>"

definition setDetails :: "dbl \<Rightarrow> dbl \<Rightarrow> dbl \<Rightarrow> dbl \<Rightarrow> bool \<Rightarrow> market \<Rightarrow> market" where
  "setDetails contractSize lotSize valuePerPip onePipMean hedging m =
     m\<lparr>mk_contractSize := contractSize, mk_lotSize := lotSize, mk_valuePerPip := valuePerPip,
       mk_onePipMean := onePipMean, mk_hedging := hedging\<rparr>"

definition setMakerFee :: "dbl \<Rightarrow> dbl \<Rightarrow> (dbl \<times> dbl) option \<Rightarrow> market \<Rightarrow> market" where
  "setMakerFee rate commission limits m =
     (let f = (mk_makerFees m)\<lparr>fee_rate := rate, fee_commission := commission\<rparr>
      in m\<lparr>mk_makerFees := (case limits of None \<Rightarrow> f | Some (lo, hi) \<Rightarrow> f\<lparr>fee_min := lo, fee_max := hi\<rparr>)\<rparr>)"

definition setTakerFee :: "dbl \<Rightarrow> dbl \<Rightarrow> (dbl \<times> dbl) option \<Rightarrow> market \<Rightarrow> market" where
  "setTakerFee rate commission limits m =
     (let f = (mk_takerFees m)\<lparr>fee_rate := rate, fee_commission := commission\<rparr>
      in m\<lparr>mk_takerFees := (case limits of None \<Rightarrow> f | Some (lo, hi) \<Rightarrow> f\<lparr>fee_min := lo, fee_max := hi\<rparr>)\<rparr>)"

definition setState :: "dbl \<Rightarrow> bool \<Rightarrow> market \<Rightarrow> market" where
  "setState baseExchangeRate tradeable m =
     m\<lparr>mk_baseExchangeRate := (if baseExchangeRate > 0 then baseExchangeRate else mk_baseExchangeRate m),
       mk_tradeable := tradeable\<rparr>"

definition setPrice :: "dbl \<Rightarrow> dbl \<Rightarrow> dbl \<Rightarrow> market \<Rightarrow> market" where
  "setPrice bid ask timestamp m =
     (let m = (if bid > 0 then m\<lparr>mk_bid := bid\<rparr> else m);
          m = (if ask > 0 then m\<lparr>mk_ask := ask\<rparr> else m)
      in if timestamp > 0 then m\<lparr>mk_lastTimestamp := timestamp\<rparr> else m)"

definition setLast :: "dbl \<Rightarrow> market \<Rightarrow> market" where
  "setLast last' m = (if last' > 0 then m\<lparr>mk_last := last'\<rparr> else m)"

definition setLastTick :: "tick \<Rightarrow> market \<Rightarrow> market" where
  "setLastTick t m =
     (let m = (if t_bid t > 0 then m\<lparr>mk_bid := t_bid t\<rparr> else m);
          m = (if t_ask t > 0 then m\<lparr>mk_ask := t_ask t\<rparr> else m);
          m = (if t_last t > 0 then m\<lparr>mk_last := t_last t\<rparr> else m)
      in if t_ts t > 0 then m\<lparr>mk_lastTimestamp := t_ts t\<rparr> else m)"

definition set_filter :: "dbl \<Rightarrow> dbl \<Rightarrow> dbl \<Rightarrow> market_filter \<Rightarrow> market_filter" where
  "set_filter mn mx step f =
     (let f = f\<lparr>fi_min := (if mn \<ge> 0 then mn else fi_min f)\<rparr>;
          f = f\<lparr>fi_max := (if mx \<ge> 0 then mx else fi_max f)\<rparr>;
          f = f\<lparr>fi_step := (if step \<ge> 0 then step else fi_step f)\<rparr>
      in f\<lparr>fi_precision := (if fi_step f > 0 then max 0 (decimalPlace (fi_step f)) else 0)\<rparr>)"

definition setPriceFilter :: "dbl \<Rightarrow> dbl \<Rightarrow> dbl \<Rightarrow> market \<Rightarrow> market" where
  "setPriceFilter mn mx step m = m\<lparr>mk_priceFilter := set_filter mn mx step (mk_priceFilter m)\<rparr>"

definition setQtyFilter :: "dbl \<Rightarrow> dbl \<Rightarrow> dbl \<Rightarrow> market \<Rightarrow> market" where
  "setQtyFilter mn mx step m = m\<lparr>mk_qtyFilter := set_filter mn mx step (mk_qtyFilter m)\<rparr>"

definition setNotionalFilter :: "dbl \<Rightarrow> dbl \<Rightarrow> dbl \<Rightarrow> market \<Rightarrow> market" where
  "setNotionalFilter mn mx step m = m\<lparr>mk_notionalFilter := set_filter mn mx step (mk_notionalFilter m)\<rparr>"

definition setMarginFactor :: "dbl \<Rightarrow> market \<Rightarrow> market" where
  "setMarginFactor marginFactor m = (if marginFactor > 0 then m\<lparr>mk_marginFactor := marginFactor\<rparr> else m)"

section \<open>Prices and quantities\<close>

definition openExecPrice :: "market \<Rightarrow> int \<Rightarrow> dbl" where
  "openExecPrice m direction =
     (if direction > 0 then mk_ask m else if direction < 0 then mk_bid m else 0)"

definition closeExecPrice :: "market \<Rightarrow> int \<Rightarrow> dbl" where
  "closeExecPrice m direction =
     (if direction > 0 then mk_bid m else if direction < 0 then mk_ask m else 0)"

text \<open>
  \<^verbatim>\<open>static_cast<Int32>(log10(v))\<close> on the exact value: truncated toward zero. The logarithm
  of a negative number is a NaN, which the conversion of x86-64 turns into the least integer.
\<close>

definition trunc_log10 :: "dbl \<Rightarrow> int" where
  "trunc_log10 v =
     (if v < 0 then - (2 ^ 31)
      else if 1 \<le> v \<or> pow10 (floor_log10 v) = v then floor_log10 v
      else floor_log10 v + 1)"

definition adjustPrice :: "market \<Rightarrow> dbl \<Rightarrow> dbl" where
  "adjustPrice m price =
     (let precision = fi_precision (mk_priceFilter m);
          precision = (if fi_step (mk_priceFilter m) \<le> 0
                       then (if mk_onePipMean m \<noteq> 0 then - trunc_log10 (mk_onePipMean m) else 8)
                       else precision);
          tickSize = fi_step (mk_priceFilter m);
          tickSize = (if tickSize \<le> 0 then 1 / 100000000 else tickSize)
      in Prelude.truncate (of_int (c_round (price / tickSize)) * tickSize) precision)"

definition adjustQuotePrice :: "market \<Rightarrow> dbl \<Rightarrow> dbl" where
  "adjustQuotePrice m price =
     (let precision = fi_precision (mk_notionalFilter m);
          precision = (if fi_step (mk_notionalFilter m) \<le> 0 then 2 else precision);
          tickSize = fi_step (mk_notionalFilter m);
          tickSize = (if tickSize \<le> 0 then 1 / 100 else tickSize)
      in Prelude.truncate (of_int (c_round (price / tickSize)) * tickSize) precision)"

definition adjustSettlementPrice :: "market \<Rightarrow> dbl \<Rightarrow> dbl" where
  "adjustSettlementPrice m price =
     (let precision = sy_precision (mk_settlement m);
          tickSize = pow10 (- precision)
      in Prelude.truncate (of_int (c_round (price / tickSize)) * tickSize) precision)"

definition adjustQty :: "market \<Rightarrow> dbl \<Rightarrow> bool \<Rightarrow> dbl" where
  "adjustQty m qty minIsZero =
     (let f = mk_qtyFilter m
      in if fi_min f > 0 \<and> qty < fi_min f then (if minIsZero then 0 else fi_min f)
         else if fi_max f > 0 \<and> qty > fi_max f then fi_max f
         else if fi_step f > 0
           then max (round_dec (of_int (c_round (qty / fi_step f)) * fi_step f) (fi_precision f)) (fi_min f)
         else qty)"

section \<open>Costs and profits\<close>

definition marginCost :: "market \<Rightarrow> dbl \<Rightarrow> dbl \<Rightarrow> dbl" where
  "marginCost m qty price =
     (if qty \<le> 0 \<or> price \<le> 0 then 0
      else
        let realizedPositionCost =
          (case mk_unit m of
             UNIT_AMOUNT \<Rightarrow> qty * (mk_lotSize m * mk_contractSize m) * price
           | UNIT_CONTRACTS \<Rightarrow> qty * (mk_lotSize m * mk_contractSize m / mk_valuePerPip m * price)
           | UNIT_SHARES \<Rightarrow> qty * price
           | UNIT_INVERSE \<Rightarrow> qty * (mk_lotSize m * mk_contractSize m) / price
           | _ \<Rightarrow> qty * (mk_lotSize m * mk_contractSize m) * price)
        in realizedPositionCost * mk_marginFactor m / mk_baseExchangeRate m)"

definition effectiveCost :: "market \<Rightarrow> dbl \<Rightarrow> dbl \<Rightarrow> dbl" where
  "effectiveCost m qty price =
     (if qty \<le> 0 \<or> price \<le> 0 then 0
      else case mk_unit m of
             UNIT_AMOUNT \<Rightarrow> qty * (mk_lotSize m * mk_contractSize m) * price
           | UNIT_CONTRACTS \<Rightarrow> qty * (mk_lotSize m * mk_contractSize m / mk_valuePerPip m * price)
           | UNIT_SHARES \<Rightarrow> qty * price
           | UNIT_INVERSE \<Rightarrow> qty * (mk_lotSize m * mk_contractSize m) / price
           | _ \<Rightarrow> qty * (mk_lotSize m * mk_contractSize m) * price)"

definition computePnl :: "market \<Rightarrow> dbl \<Rightarrow> int \<Rightarrow> dbl \<Rightarrow> dbl \<Rightarrow> dbl" where
  "computePnl m qty direction initialPrice lastPrice =
     (if qty \<le> 0 \<or> initialPrice \<le> 0 \<or> lastPrice \<le> 0 \<or> direction = 0 then 0
      else case mk_unit m of
             UNIT_AMOUNT \<Rightarrow> qty * (mk_lotSize m * mk_contractSize m) * of_int direction * (lastPrice - initialPrice)
           | UNIT_CONTRACTS \<Rightarrow>
               qty * (mk_lotSize m * mk_contractSize m / mk_valuePerPip m * of_int direction * (lastPrice - initialPrice))
           | UNIT_SHARES \<Rightarrow> qty * (lastPrice - initialPrice) * of_int direction
           | UNIT_INVERSE \<Rightarrow>
               qty * (mk_lotSize m * mk_contractSize m) * of_int direction * (1 / initialPrice - 1 / lastPrice)
           | _ \<Rightarrow> qty * (mk_lotSize m * mk_contractSize m) * of_int direction * (lastPrice - initialPrice))"

section \<open>Properties\<close>

text \<open>
  A number is on the grid of a step when it is a whole number of steps. The precision of a filter
  fits its step when the step has no more decimals than the precision keeps.
\<close>

definition on_grid :: "dbl \<Rightarrow> dbl \<Rightarrow> bool" where
  "on_grid step x \<longleftrightarrow> is_int (x / step)"

definition fits_step :: "market_filter \<Rightarrow> bool" where
  "fits_step f \<longleftrightarrow> 0 < fi_step f \<and> is_int (fi_step f * pow10 (fi_precision f))"

lemma round_to_step_near:
  assumes "0 < s"
  shows "\<bar>of_int (c_round (x / s)) * s - x\<bar> \<le> s / 2"
proof -
  have "\<bar>(of_int (c_round (x / s)) - x / s) * s\<bar> \<le> 1 / 2 * s"
    unfolding abs_mult using c_round_near [of "x / s"] assms by (intro mult_mono) simp_all
  then show ?thesis using assms by (simp add: algebra_simps)
qed

lemma grid_int: "fits_step f \<Longrightarrow> is_int (of_int n * fi_step f * pow10 (fi_precision f))"
  using is_int_mult [of "of_int n"] by (simp add: fits_step_def mult.assoc)

lemma adjustPrice_eq:
  assumes "fits_step (mk_priceFilter m)"
  shows "adjustPrice m price =
    of_int (c_round (price / fi_step (mk_priceFilter m))) * fi_step (mk_priceFilter m)"
  using assms truncate_exact [OF grid_int [OF assms]]
  by (simp add: adjustPrice_def Let_def fits_step_def)

text \<open>
  An adjusted price is a multiple of the tick size, within half a tick of the price, and
  adjusting it again changes nothing; for filters whose precision fits the step.
\<close>

theorem adjustPrice_nearest:
  assumes "fits_step (mk_priceFilter m)"
  shows "on_grid (fi_step (mk_priceFilter m)) (adjustPrice m price)
     \<and> \<bar>adjustPrice m price - price\<bar> \<le> fi_step (mk_priceFilter m) / 2
     \<and> adjustPrice m (adjustPrice m price) = adjustPrice m price"
proof -
  have s: "0 < fi_step (mk_priceFilter m)" using assms by (simp add: fits_step_def)
  then show ?thesis
    using round_to_step_near [OF s, of price] by (simp add: adjustPrice_eq [OF assms] on_grid_def)
qed

lemma set_filter_fits:
  assumes "0 \<le> k"
  shows "fits_step (set_filter mn mx (pow10 (- k)) f) \<and> fi_step (set_filter mn mx (pow10 (- k)) f) = pow10 (- k)
    \<and> fi_precision (set_filter mn mx (pow10 (- k)) f) = k"
  using assms is_int_of_int [of 1] less_imp_le [OF pow10_pos [of "- k"]]
  by (auto simp: set_filter_def Let_def fits_step_def decimalPlace_def pow10_minus)

text \<open>
  The precision that the filter setters compute fits the step whenever the step is a power of ten up to one, so that
  prices are then rounded to the nearest multiple of the step.
\<close>

theorem setPriceFilter_fits:
  assumes "0 \<le> k"
  shows "fits_step (mk_priceFilter (setPriceFilter mn mx (pow10 (- k)) m))
     \<and> fi_precision (mk_priceFilter (setPriceFilter mn mx (pow10 (- k)) m)) = k"
  using set_filter_fits [OF assms] by (simp add: setPriceFilter_def)

definition sample_market :: market where
  "sample_market = setPriceFilter 0 0 (pow10 (-2)) (setQtyFilter 1 100 (pow10 (-1))
     (new_market TYPE_CRYPTO CONTRACT_SPOT UNIT_AMOUNT ''BTCEUR'' ''BTC/EUR'' ''BTC'' ''EUR''))"

theorem setPriceFilter_fits_witness: "fits_step (mk_priceFilter sample_market)"
  unfolding sample_market_def using setPriceFilter_fits [of 2] by simp

theorem adjustPrice_nearest_witness: "\<bar>adjustPrice sample_market (1 / 3) - 1 / 3\<bar> \<le> 1 / 200"
proof -
  have s: "fi_step (mk_priceFilter sample_market) = 1 / 100"
    by (simp add: sample_market_def setPriceFilter_def set_filter_def Let_def pow10_def)
  have "fits_step (mk_priceFilter sample_market)"
    unfolding sample_market_def setPriceFilter_def using set_filter_fits [of 2] by simp
  from adjustPrice_nearest [OF this, of "1 / 3"] show ?thesis by (simp add: s)
qed

text \<open>
  With a step that is not a power of ten the precision can be too small: with a tick size of a
  quarter the precision is one decimal, and a valid price is moved off the grid.
\<close>

theorem adjustPrice_quarter_tick:
  "let m = setPriceFilter 0 0 (1 / 4) sample_market
   in on_grid (1 / 4) (401 / 4) \<and> adjustPrice m (401 / 4) = 501 / 5 \<and> \<not> on_grid (1 / 4) (adjustPrice m (401 / 4))"
  by code_simp

lemma adjustQty_mid:
  assumes "fits_step (mk_qtyFilter m)" and "fi_min (mk_qtyFilter m) \<le> qty"
    and "fi_max (mk_qtyFilter m) > 0 \<longrightarrow> qty \<le> fi_max (mk_qtyFilter m)"
  shows "adjustQty m qty z = max (of_int (c_round (qty / fi_step (mk_qtyFilter m))) * fi_step (mk_qtyFilter m))
    (fi_min (mk_qtyFilter m))"
  using assms round_dec_exact [OF grid_int [OF assms(1)]]
  by (auto simp: adjustQty_def Let_def fits_step_def not_less)

text \<open>
  Between the limits of the filter the adjusted quantity is at least the minimum and within half a step of the quantity, and
  it is a multiple of the step when the minimum is one.
\<close>

theorem adjustQty_nearest:
  assumes "fits_step (mk_qtyFilter m)" and "fi_min (mk_qtyFilter m) \<le> qty"
    and "fi_max (mk_qtyFilter m) > 0 \<longrightarrow> qty \<le> fi_max (mk_qtyFilter m)"
    and "on_grid (fi_step (mk_qtyFilter m)) (fi_min (mk_qtyFilter m))"
  shows "fi_min (mk_qtyFilter m) \<le> adjustQty m qty z
     \<and> \<bar>adjustQty m qty z - qty\<bar> \<le> fi_step (mk_qtyFilter m) / 2
     \<and> on_grid (fi_step (mk_qtyFilter m)) (adjustQty m qty z)"
proof -
  have s: "0 < fi_step (mk_qtyFilter m)" using assms(1) by (simp add: fits_step_def)
  define r where "r = of_int (c_round (qty / fi_step (mk_qtyFilter m))) * fi_step (mk_qtyFilter m)"
  have near: "\<bar>r - qty\<bar> \<le> fi_step (mk_qtyFilter m) / 2" unfolding r_def by (rule round_to_step_near [OF s])
  have grid: "on_grid (fi_step (mk_qtyFilter m)) r" using s by (simp add: r_def on_grid_def)
  have a: "adjustQty m qty z = max r (fi_min (mk_qtyFilter m))"
    unfolding r_def by (rule adjustQty_mid [OF assms(1-3)])
  show ?thesis
  proof (cases "fi_min (mk_qtyFilter m) \<le> r")
    case True
    with a near grid show ?thesis by simp
  next
    case False
    with a near assms(2,4) show ?thesis by (simp add: max_def)
  qed
qed

theorem adjustQty_nearest_witness: "\<bar>adjustQty sample_market (10 / 3) True - 10 / 3\<bar> \<le> 1 / 20"
proof -
  have f: "mk_qtyFilter sample_market = set_filter 1 100 (pow10 (-1)) new_filter"
    by (simp add: sample_market_def setPriceFilter_def setQtyFilter_def new_market_def)
  have v: "fi_min (mk_qtyFilter sample_market) = 1" "fi_max (mk_qtyFilter sample_market) = 100"
    "fi_step (mk_qtyFilter sample_market) = 1 / 10"
    unfolding f by (simp_all add: set_filter_def Let_def pow10_def)
  have "is_int 10" using is_int_of_int [of 10] by simp
  moreover have "fits_step (mk_qtyFilter sample_market)" unfolding f using set_filter_fits [of 1] by simp
  ultimately show ?thesis
    using adjustQty_nearest [of sample_market "10 / 3" True] by (simp add: v on_grid_def)
qed

text \<open>
  The comment of \<^verbatim>\<open>adjustQty\<close> promises the quantity rounded down to the step. It is rounded to
  the nearest step, which can be more than the quantity that was asked for.
\<close>

theorem adjustQty_rounds_up: "adjustQty sample_market (527 / 100) True > 527 / 100"
  by code_simp

text \<open>The profit is a factor of the market and the quantity, the direction, and the move of the price.\<close>

definition pnl_factor :: "market \<Rightarrow> dbl \<Rightarrow> dbl" where
  "pnl_factor m qty =
     (case mk_unit m of
        UNIT_SHARES \<Rightarrow> qty
      | UNIT_CONTRACTS \<Rightarrow> qty * (mk_lotSize m * mk_contractSize m) / mk_valuePerPip m
      | _ \<Rightarrow> qty * (mk_lotSize m * mk_contractSize m))"

definition price_move :: "market \<Rightarrow> dbl \<Rightarrow> dbl \<Rightarrow> dbl" where
  "price_move m a b = (if mk_unit m = UNIT_INVERSE then 1 / a - 1 / b else b - a)"

lemma computePnl_factor:
  assumes "0 < a" and "0 < b"
  shows "computePnl m qty d a b = (if qty \<le> 0 then 0 else pnl_factor m qty * of_int d * price_move m a b)"
  using assms by (cases "mk_unit m") (auto simp: computePnl_def pnl_factor_def price_move_def)

lemma price_move_add: "price_move m a c = price_move m a b + price_move m b c"
  by (simp add: price_move_def)

lemma price_move_pos: "0 < a \<Longrightarrow> 0 < b \<Longrightarrow> (0 < price_move m a b \<longleftrightarrow> a < b) \<and> (price_move m a b < 0 \<longleftrightarrow> b < a)"
  by (auto simp: price_move_def field_simps)

text \<open>
  Profits add up along a path of prices, and the two directions are opposite: what one side wins
  the other loses, for every unit of quantity.
\<close>

theorem computePnl_path:
  assumes "0 < a" and "0 < b" and "0 < c"
  shows "computePnl m qty d a c = computePnl m qty d a b + computePnl m qty d b c
     \<and> computePnl m qty (- d) a b = - computePnl m qty d a b"
  using assms price_move_add [of m a c b] by (simp add: computePnl_factor distrib_left)

theorem computePnl_path_witness:
  "computePnl sample_market 2 1 10 14 = computePnl sample_market 2 1 10 11 + computePnl sample_market 2 1 11 14"
  using computePnl_path [of 10 11 14] by simp

text \<open>
  A position is in profit exactly when the price moved in its direction, for every unit.
\<close>

theorem computePnl_sign:
  assumes "0 < a" and "0 < b" and "0 < qty" and "d = LONG \<or> d = SHORT"
    and "0 < mk_lotSize m" and "0 < mk_contractSize m" and "0 < mk_valuePerPip m"
  shows "0 < computePnl m qty d a b \<longleftrightarrow> (if d = LONG then a < b else b < a)"
proof -
  have "0 < pnl_factor m qty"
    using assms(3,5-7) by (simp add: pnl_factor_def split: market_unit.split)
  then show ?thesis
    using assms(1-4) price_move_pos [OF assms(1,2), of m]
    by (auto simp: computePnl_factor LONG_def SHORT_def zero_less_mult_iff mult_less_0_iff)
qed

theorem computePnl_sign_witness: "0 < computePnl sample_market 2 SHORT 14 10"
proof -
  have "mk_lotSize sample_market = 1" "mk_contractSize sample_market = 1" "mk_valuePerPip sample_market = 1"
    by (simp_all add: sample_market_def setPriceFilter_def setQtyFilter_def new_market_def)
  then show ?thesis
    using computePnl_sign [of 14 10 2 SHORT sample_market] by (simp add: SHORT_def LONG_def)
qed

text \<open>The margin cost is the effective cost, in account currency, times the margin factor.\<close>

lemma marginCost_effective:
  "marginCost m qty price = effectiveCost m qty price * mk_marginFactor m / mk_baseExchangeRate m"
  by (simp add: marginCost_def effectiveCost_def Let_def split: market_unit.split)

end
