(* ===== verification/Orders.thy ===== *)
theory Orders
  imports Market_Model
begin

text \<open>
  \<^verbatim>\<open>strategies/include/siis/order.h\<close>, \<^verbatim>\<open>position.h\<close>, \<^verbatim>\<open>strategies/src/position.cpp\<close> and the order and position signals
  of \<^verbatim>\<open>connector/\<close>: the orders with their flags, the positions with their profit, the signals a
  connector sends to the trades. A signal is the order, or the position, with the event.

  The O3D constant \<^verbatim>\<open>O3D_MIN_DOUBLE\<close> is the parameter \<open>undef\<close>. The pointers to the proxy and to
  the strategy are reduced to the question if a strategy is set.
\<close>

section \<open>Orders\<close>

datatype order_type = ORDER_UNDEFINED | ORDER_MARKET | ORDER_LIMIT | ORDER_STOP | ORDER_STOP_LIMIT
  | ORDER_TAKE_PROFIT | ORDER_TAKE_PROFIT_LIMIT

datatype time_in_force = TIME_IN_FORCE_UNDEFINED | TIME_IN_FORCE_GTC | TIME_IN_FORCE_IOC | TIME_IN_FORCE_FOK

datatype order_price_type = PRICE_TYPE_UNDEFINED | PRICE_TYPE_LAST | PRICE_TYPE_INDEX | PRICE_TYPE_MARK

definition F_POST_ONLY :: "8 word" where "F_POST_ONLY = 1"
definition F_REDUCE_ONLY :: "8 word" where "F_REDUCE_ONLY = 2"
definition F_CLOSE_ONLY :: "8 word" where "F_CLOSE_ONLY = 4"
definition F_HEDGING :: "8 word" where "F_HEDGING = 8"
definition F_MARGIN :: "8 word" where "F_MARGIN = 16"

lemmas F_defs = F_POST_ONLY_def F_REDUCE_ONLY_def F_CLOSE_ONLY_def F_HEDGING_def F_MARGIN_def

definition PRICE_UNDEFINED :: dbl where "PRICE_UNDEFINED = -1"
definition QUANTITY_UNDEFINED :: dbl where "QUANTITY_UNDEFINED = -1"
definition TIMESTAMP_UNDEFINED :: dbl where "TIMESTAMP_UNDEFINED = -1"

lemmas undefined_defs = PRICE_UNDEFINED_def QUANTITY_UNDEFINED_def TIMESTAMP_UNDEFINED_def

text \<open>The return codes of the proxy and of the connectors.\<close>

definition RET_OK :: int where "RET_OK = 1"
definition RET_UNDEFINED :: int where "RET_UNDEFINED = 0"
definition RET_INSUFFICIENT_FUNDS :: int where "RET_INSUFFICIENT_FUNDS = -1"
definition RET_INSUFFICIENT_MARGIN :: int where "RET_INSUFFICIENT_MARGIN = -2"
definition RET_ERROR :: int where "RET_ERROR = -3"
definition RET_INVALID_ARGS :: int where "RET_INVALID_ARGS = -4"

lemmas RET_defs = RET_OK_def RET_UNDEFINED_def RET_INSUFFICIENT_FUNDS_def RET_INSUFFICIENT_MARGIN_def
  RET_ERROR_def RET_INVALID_ARGS_def

record order =
  or_strategy :: bool
  or_created :: dbl
  or_executed :: dbl
  or_id :: int
  or_orderId :: string
  or_refId :: string
  or_positionId :: string
  or_marketId :: string
  or_orderType :: order_type
  or_direction :: int
  or_orderQuantity :: dbl
  or_orderPrice :: dbl
  or_orderStopPrice :: dbl
  or_limitPrice :: dbl
  or_stopPrice :: dbl
  or_timeInForce :: time_in_force
  or_priceType :: order_price_type
  or_flags :: "8 word"
  or_tradeId :: string
  or_execPrice :: dbl
  or_avgPrice :: dbl
  or_filled :: dbl
  or_cumulativeFilled :: dbl
  or_quoteTransacted :: dbl
  or_commissionAmount :: dbl
  or_cumulativeCommissionAmount :: dbl
  or_commissionAsset :: string
  or_maker :: int

definition new_order :: "dbl \<Rightarrow> order" where
  "new_order undef =
     \<lparr>or_strategy = False, or_created = TIMESTAMP_UNDEFINED, or_executed = TIMESTAMP_UNDEFINED, or_id = -1,
      or_orderId = '''', or_refId = '''', or_positionId = '''', or_marketId = '''',
      or_orderType = ORDER_UNDEFINED, or_direction = UNDEFINED, or_orderQuantity = QUANTITY_UNDEFINED,
      or_orderPrice = PRICE_UNDEFINED, or_orderStopPrice = PRICE_UNDEFINED, or_limitPrice = PRICE_UNDEFINED,
      or_stopPrice = PRICE_UNDEFINED, or_timeInForce = TIME_IN_FORCE_UNDEFINED,
      or_priceType = PRICE_TYPE_UNDEFINED, or_flags = -1, or_tradeId = '''', or_execPrice = PRICE_UNDEFINED,
      or_avgPrice = PRICE_UNDEFINED, or_filled = QUANTITY_UNDEFINED, or_cumulativeFilled = QUANTITY_UNDEFINED,
      or_quoteTransacted = QUANTITY_UNDEFINED, or_commissionAmount = undef,
      or_cumulativeCommissionAmount = undef, or_commissionAsset = '''', or_maker = -1\<rparr>"

text \<open>\<^verbatim>\<open>reset\<close> sets every field again, so that an order of the pool is as a new one.\<close>

definition reset_order :: "dbl \<Rightarrow> order \<Rightarrow> order" where
  "reset_order undef ord =
     ord\<lparr>or_strategy := False, or_created := TIMESTAMP_UNDEFINED, or_executed := TIMESTAMP_UNDEFINED, or_id := -1,
      or_orderId := '''', or_refId := '''', or_positionId := '''', or_marketId := '''',
      or_orderType := ORDER_UNDEFINED, or_direction := UNDEFINED, or_orderQuantity := QUANTITY_UNDEFINED,
      or_orderPrice := PRICE_UNDEFINED, or_orderStopPrice := PRICE_UNDEFINED, or_limitPrice := PRICE_UNDEFINED,
      or_stopPrice := PRICE_UNDEFINED, or_timeInForce := TIME_IN_FORCE_UNDEFINED,
      or_priceType := PRICE_TYPE_UNDEFINED, or_flags := -1, or_tradeId := '''', or_execPrice := PRICE_UNDEFINED,
      or_avgPrice := PRICE_UNDEFINED, or_filled := QUANTITY_UNDEFINED, or_cumulativeFilled := QUANTITY_UNDEFINED,
      or_quoteTransacted := QUANTITY_UNDEFINED, or_commissionAmount := undef,
      or_cumulativeCommissionAmount := undef, or_commissionAsset := '''', or_maker := -1\<rparr>"

lemma reset_order_new: "reset_order undef (ord :: order) = new_order undef"
  by (simp add: reset_order_def new_order_def)

definition defineFlag :: "8 word \<Rightarrow> order \<Rightarrow> order" where
  "defineFlag v ord = ord\<lparr>or_flags := (if sint (or_flags ord) < 0 then v else or_flags ord OR v)\<rparr>"

definition setPostOnly :: "order \<Rightarrow> order" where "setPostOnly = defineFlag F_POST_ONLY"
definition setReduceOnly :: "order \<Rightarrow> order" where "setReduceOnly = defineFlag F_REDUCE_ONLY"
definition setCloseOnly :: "order \<Rightarrow> order" where "setCloseOnly = defineFlag F_CLOSE_ONLY"
definition setHedging :: "order \<Rightarrow> order" where "setHedging = defineFlag F_HEDGING"
definition setMargin :: "order \<Rightarrow> order" where "setMargin = defineFlag F_MARGIN"

definition has_flag :: "8 word \<Rightarrow> order \<Rightarrow> bool" where
  "has_flag v ord \<longleftrightarrow> sint (or_flags ord) > 0 \<and> or_flags ord AND v \<noteq> 0"

definition postOnly :: "order \<Rightarrow> bool" where "postOnly = has_flag F_POST_ONLY"
definition reduceOnly :: "order \<Rightarrow> bool" where "reduceOnly = has_flag F_REDUCE_ONLY"
definition closeOnly :: "order \<Rightarrow> bool" where "closeOnly = has_flag F_CLOSE_ONLY"
definition hedging :: "order \<Rightarrow> bool" where "hedging = has_flag F_HEDGING"
definition margin :: "order \<Rightarrow> bool" where "margin = has_flag F_MARGIN"

section \<open>Order signals\<close>

datatype order_event = OS_OPENED | OS_UPDATED | OS_DELETED | OS_REJECTED | OS_CANCELED | OS_TRADED

record order_signal = order +
  os_event :: order_event
  os_completed :: bool

definition order_to_signal :: "order_event \<Rightarrow> bool \<Rightarrow> order \<Rightarrow> order_signal" where
  "order_to_signal ev completed ord = order.extend ord \<lparr>os_event = ev, os_completed = completed\<rparr>"

section \<open>Positions\<close>

record position_local =
  lo_entryPrice :: dbl
  lo_entryQty :: dbl
  lo_exitPrice :: dbl
  lo_exitQty :: dbl
  lo_profitLoss :: dbl
  lo_rawProfitLoss :: dbl
  lo_rawProfitLossRate :: dbl
  lo_profitLossRate :: dbl
  lo_profitLossMarket :: dbl
  lo_profitLossMarketRate :: dbl

definition new_position_local :: position_local where
  "new_position_local = \<lparr>lo_entryPrice = 0, lo_entryQty = 0, lo_exitPrice = 0, lo_exitQty = 0, lo_profitLoss = 0,
     lo_rawProfitLoss = 0, lo_rawProfitLossRate = 0, lo_profitLossRate = 0, lo_profitLossMarket = 0,
     lo_profitLossMarketRate = 0\<rparr>"

record position =
  po_strategy :: bool
  po_created :: dbl
  po_updated :: dbl
  po_id :: int
  po_positionId :: string
  po_refOrderId :: string
  po_marketId :: string
  po_direction :: int
  po_quantity :: dbl
  po_avgPrice :: dbl
  po_execPrice :: dbl
  po_stopPrice :: dbl
  po_limitPrice :: dbl
  po_profitCurrency :: string
  po_profitLoss :: dbl
  po_filled :: dbl
  po_cumulativeFilled :: dbl
  po_liquidationPrice :: dbl
  po_commission :: dbl
  po_local :: position_local

definition new_position :: "dbl \<Rightarrow> position" where
  "new_position undef =
     \<lparr>po_strategy = False, po_created = TIMESTAMP_UNDEFINED, po_updated = TIMESTAMP_UNDEFINED, po_id = -1,
      po_positionId = '''', po_refOrderId = '''', po_marketId = '''', po_direction = UNDEFINED,
      po_quantity = QUANTITY_UNDEFINED, po_avgPrice = PRICE_UNDEFINED, po_execPrice = PRICE_UNDEFINED,
      po_stopPrice = PRICE_UNDEFINED, po_limitPrice = PRICE_UNDEFINED, po_profitCurrency = '''',
      po_profitLoss = undef, po_filled = QUANTITY_UNDEFINED, po_cumulativeFilled = QUANTITY_UNDEFINED,
      po_liquidationPrice = PRICE_UNDEFINED, po_commission = undef, po_local = new_position_local\<rparr>"

text \<open>
  \<^verbatim>\<open>reset\<close> of a position keeps its identifiers, its currency and the locally computed values.
\<close>

definition reset_position :: "dbl \<Rightarrow> position \<Rightarrow> position" where
  "reset_position undef p =
     p\<lparr>po_strategy := False, po_created := TIMESTAMP_UNDEFINED, po_updated := TIMESTAMP_UNDEFINED, po_id := -1,
       po_direction := UNDEFINED, po_quantity := QUANTITY_UNDEFINED, po_avgPrice := PRICE_UNDEFINED,
       po_execPrice := PRICE_UNDEFINED, po_stopPrice := PRICE_UNDEFINED, po_limitPrice := PRICE_UNDEFINED,
       po_profitLoss := undef, po_filled := QUANTITY_UNDEFINED, po_cumulativeFilled := QUANTITY_UNDEFINED,
       po_liquidationPrice := PRICE_UNDEFINED, po_commission := undef\<rparr>"

definition updatePnl :: "market option \<Rightarrow> position \<Rightarrow> position" where
  "updatePnl mk p =
     (case mk of None \<Rightarrow> p
      | Some m \<Rightarrow>
          if mk_bid m \<le> 0 \<or> mk_ask m \<le> 0 then p
          else if po_avgPrice p = PRICE_UNDEFINED then p
          else
            let positionCost = effectiveCost m (po_quantity p) (po_avgPrice p);
                lastPrice = (if po_direction p > 0 then mk_bid m
                             else if po_direction p < 0 then mk_ask m else po_avgPrice p);
                raw = computePnl m (po_quantity p) (po_direction p) (po_avgPrice p) lastPrice;
                rate = (\<lambda>x. if positionCost > 0 then x / positionCost else 0);
                pl = raw - positionCost * fee_rate (mk_makerFees m) - fee_commission (mk_makerFees m);
                plm = raw - positionCost * fee_rate (mk_takerFees m) - fee_commission (mk_takerFees m);
                l = (po_local p)\<lparr>lo_rawProfitLoss := raw, lo_rawProfitLossRate := rate raw,
                      lo_profitLoss := pl, lo_profitLossRate := rate pl,
                      lo_profitLossMarket := plm, lo_profitLossMarketRate := rate plm\<rparr>
            in p\<lparr>po_local := l, po_profitLoss := pl\<rparr>)"

datatype position_event = PS_OPENED | PS_UPDATED | PS_DELETED | PS_AMENDED

record position_signal = position +
  ps_event :: position_event

definition position_to_signal :: "position_event \<Rightarrow> position \<Rightarrow> position_signal" where
  "position_to_signal ev p = position.extend p \<lparr>ps_event = ev\<rparr>"

section \<open>Properties\<close>

definition all_flags :: "8 word set" where
  "all_flags = {F_POST_ONLY, F_REDUCE_ONLY, F_CLOSE_ONLY, F_HEDGING, F_MARGIN}"

text \<open>The number of the bit of a flag.\<close>

definition flag_bit :: "8 word \<Rightarrow> nat" where
  "flag_bit f = (if f = F_POST_ONLY then 0 else if f = F_REDUCE_ONLY then 1 else if f = F_CLOSE_ONLY then 2
     else if f = F_HEDGING then 3 else 4)"

lemma flag_bits:
  assumes "f \<in> all_flags"
  shows "f = 2 ^ flag_bit f" and "flag_bit f < 7"
  using assms by (auto simp: all_flags_def F_defs flag_bit_def)

lemma bit_flag:
  assumes "f \<in> all_flags"
  shows "bit f i \<longleftrightarrow> i = flag_bit f"
proof -
  have "bit (2 ^ flag_bit f :: 8 word) i \<longleftrightarrow> i = flag_bit f"
    using flag_bits(2) [OF assms] by (auto simp: bit_exp_iff)
  then show ?thesis using flag_bits(1) [OF assms] by metis
qed

lemma flag_bit_inj: "f \<in> all_flags \<Longrightarrow> v \<in> all_flags \<Longrightarrow> flag_bit f = flag_bit v \<longleftrightarrow> f = v"
  using flag_bits(1) by metis

lemma has_flag_bit:
  assumes "f \<in> all_flags" and "\<not> bit (or_flags ord) 7"
  shows "has_flag f ord \<longleftrightarrow> bit (or_flags ord) (flag_bit f)"
proof -
  have "or_flags ord AND f \<noteq> 0 \<longleftrightarrow> bit (or_flags ord) (flag_bit f)"
  proof -
    have "or_flags ord AND f \<noteq> 0 \<longleftrightarrow> (\<exists>n. bit (or_flags ord AND f) n)"
      using bit_eq_iff [of "or_flags ord AND f" 0] by auto
    then show ?thesis using bit_flag [OF assms(1)] by (auto simp only: bit_and_iff)
  qed
  moreover have "0 \<le> sint (or_flags ord)"
    using assms(2) bit_last_iff [of "or_flags ord"] by simp
  moreover have "bit (or_flags ord) (flag_bit f) \<Longrightarrow> sint (or_flags ord) \<noteq> 0"
  proof
    assume "bit (or_flags ord) (flag_bit f)" and "sint (or_flags ord) = 0"
    moreover have "or_flags ord = 0" using calculation(2) by (metis of_int_0 of_int_sint scast_id)
    ultimately show False by simp
  qed
  ultimately show ?thesis unfolding has_flag_def by (metis order_le_less)
qed

lemma flags_fold:
  assumes "set vs \<subseteq> all_flags" and "vs \<noteq> []"
  shows "bit (or_flags (foldl (\<lambda>ord v. defineFlag v ord) (new_order undef) vs)) i \<longleftrightarrow> (\<exists>v\<in>set vs. i = flag_bit v)"
  using assms
proof (induction vs arbitrary: i rule: rev_induct)
  case (snoc v vs)
  show ?case
  proof (cases "vs = []")
    case True
    with snoc.prems show ?thesis
      by (simp add: defineFlag_def new_order_def bit_flag)
  next
    case False
    let ?o = "foldl (\<lambda>ord v. defineFlag v ord) (new_order undef) vs"
    have IH: "bit (or_flags ?o) i \<longleftrightarrow> (\<exists>v\<in>set vs. i = flag_bit v)" for i
      using snoc.IH snoc.prems False by simp
    have "\<not> bit (or_flags ?o) 7" using IH [of 7] flag_bits(2) snoc.prems by force
    then have "0 \<le> sint (or_flags ?o)" using bit_last_iff [of "or_flags ?o"] by simp
    then show ?thesis using IH snoc.prems by (auto simp: defineFlag_def bit_or_iff bit_flag)
  qed
qed simp

text \<open>
  A new order has no flag. After any sequence of flag setters, in any order and with repetitions,
  an order has exactly the flags that were set: the undefined value -1, all of whose bits are
  set, is not mistaken for a set of flags.
\<close>

theorem flags_exact:
  assumes "set vs \<subseteq> all_flags" and "f \<in> all_flags"
  shows "has_flag f (foldl (\<lambda>ord v. defineFlag v ord) (new_order undef) vs) \<longleftrightarrow> f \<in> set vs"
proof (cases "vs = []")
  case True
  then show ?thesis by (simp add: has_flag_def new_order_def)
next
  case False
  note b = flags_fold [OF assms(1) False]
  have "\<not> bit (or_flags (foldl (\<lambda>ord v. defineFlag v ord) (new_order undef) vs)) 7"
    using b [of undef 7] flag_bits(2) assms(1) by force
  then have "has_flag f (foldl (\<lambda>ord v. defineFlag v ord) (new_order undef) vs) \<longleftrightarrow> (\<exists>v\<in>set vs. flag_bit f = flag_bit v)"
    using has_flag_bit [OF assms(2)] b by simp
  also have "\<dots> \<longleftrightarrow> f \<in> set vs"
    using flag_bit_inj [OF assms(2)] assms(1) by (metis subsetD)
  finally show ?thesis .
qed

theorem flags_exact_witness:
  "\<not> postOnly (setReduceOnly (setHedging (new_order 0))) \<and> hedging (setReduceOnly (setHedging (new_order 0)))"
proof -
  have s: "set [F_HEDGING, F_REDUCE_ONLY] \<subseteq> all_flags" and f: "F_POST_ONLY \<in> all_flags" "F_HEDGING \<in> all_flags"
    by (simp_all add: all_flags_def)
  show ?thesis
    using flags_exact [OF s f(1), of 0] flags_exact [OF s f(2), of 0]
    by (simp add: postOnly_def hedging_def setReduceOnly_def setHedging_def F_defs)
qed

end
