(* ===== verification/Trade_Base.thy ===== *)
theory Trade_Base
  imports Orders
begin

text \<open>
  \<^verbatim>\<open>strategies/include/siis/trade/trade.h\<close> and \<^verbatim>\<open>strategies/src/trade/trade.cpp\<close>: the state every kind of trade has, its
  statistics and estimates. The virtual predicates a function of the base class calls are its
  boolean arguments. The market of the strategy of a trade is an argument; the pointers to the
  proxy and to the strategy are left out, and an operation is its identifier.
\<close>

section \<open>State\<close>

datatype exit_reason = REASON_NONE | REASON_TAKE_PROFIT_MARKET | REASON_TAKE_PROFIT_LIMIT
  | REASON_STOP_LOSS_MARKET | REASON_STOP_LOSS_LIMIT | REASON_CLOSE_MARKET | REASON_CANCELED_TIMEOUT
  | REASON_CANCELED_TARGETED | REASON_MARKET_TIMEOUT

datatype trade_type = TYPE_ASSET | TYPE_MARGIN | TYPE_IND_MARGIN | TYPE_POSITION

datatype trade_state = STATE_UNDEFINED | STATE_NEW | STATE_REJECTED | STATE_DELETED | STATE_CANCELED
  | STATE_OPENED | STATE_PARTIALLY_FILLED | STATE_FILLED | STATE_ERROR

datatype modifier_type = MOD_NONE | MOD_LOCAL | MOD_DISTANT | MOD_PREVIOUS

record trade_stats =
  ts_modifiedTimestamp :: dbl
  ts_bestPrice :: dbl
  ts_bestPriceTimestamp :: dbl
  ts_worstPrice :: dbl
  ts_worstPriceTimestamp :: dbl
  ts_entryOrderType :: order_type
  ts_takeProfitOrderType :: order_type
  ts_stopOrderType :: order_type
  ts_firstRealizedEntryTimestamp :: dbl
  ts_lastRealizedEntryTimestamp :: dbl
  ts_firstRealizedExitTimestamp :: dbl
  ts_lastRealizedExitTimestamp :: dbl
  ts_unrealizedProfitLoss :: dbl
  ts_profitLossCurrency :: string
  ts_notionalValue :: dbl
  ts_entryFees :: dbl
  ts_exitFees :: dbl
  ts_marginFees :: dbl
  ts_exitReason :: exit_reason

definition new_stats :: trade_stats where
  "new_stats = \<lparr>ts_modifiedTimestamp = 0, ts_bestPrice = 0, ts_bestPriceTimestamp = 0, ts_worstPrice = 0,
     ts_worstPriceTimestamp = 0, ts_entryOrderType = ORDER_UNDEFINED, ts_takeProfitOrderType = ORDER_UNDEFINED,
     ts_stopOrderType = ORDER_UNDEFINED, ts_firstRealizedEntryTimestamp = 0, ts_lastRealizedEntryTimestamp = 0,
     ts_firstRealizedExitTimestamp = 0, ts_lastRealizedExitTimestamp = 0, ts_unrealizedProfitLoss = 0,
     ts_profitLossCurrency = '''', ts_notionalValue = 0, ts_entryFees = 0, ts_exitFees = 0, ts_marginFees = 0,
     ts_exitReason = REASON_NONE\<rparr>"

record trade =
  tr_id :: int
  tr_type :: trade_type
  tr_timeframe :: dbl
  tr_timestamp :: dbl
  tr_direction :: int
  tr_dirty :: bool
  tr_expiry :: dbl
  tr_entryTimeout :: dbl
  tr_openTimeStamp :: dbl
  tr_exitTimeStamp :: dbl
  tr_entryPrice :: dbl
  tr_exitPrice :: dbl
  tr_takeProfitPrice :: dbl
  tr_stopLossPrice :: dbl
  tr_orderPrice :: dbl
  tr_orderQuantity :: dbl
  tr_filledEntryQuantity :: dbl
  tr_filledExitQuantity :: dbl
  tr_profitLossRate :: dbl
  tr_stats :: trade_stats
  tr_operations :: "int list"

definition new_trade :: "trade_type \<Rightarrow> dbl \<Rightarrow> trade" where
  "new_trade ty timeframe =
     \<lparr>tr_id = -1, tr_type = ty, tr_timeframe = timeframe, tr_timestamp = 0, tr_direction = 0, tr_dirty = False,
      tr_expiry = 0, tr_entryTimeout = 0, tr_openTimeStamp = 0, tr_exitTimeStamp = 0, tr_entryPrice = 0,
      tr_exitPrice = 0, tr_takeProfitPrice = 0, tr_stopLossPrice = 0, tr_orderPrice = 0, tr_orderQuantity = 0,
      tr_filledEntryQuantity = 0, tr_filledExitQuantity = 0, tr_profitLossRate = 0, tr_stats = new_stats,
      tr_operations = []\<rparr>"

definition init_trade :: "dbl \<Rightarrow> 'a trade_scheme \<Rightarrow> 'a trade_scheme" where
  "init_trade timeframe t =
     t\<lparr>tr_id := -1, tr_timeframe := timeframe, tr_timestamp := 0, tr_direction := 0, tr_dirty := False,
       tr_expiry := 0, tr_entryTimeout := 0, tr_openTimeStamp := 0, tr_exitTimeStamp := 0, tr_entryPrice := 0,
       tr_exitPrice := 0, tr_takeProfitPrice := 0, tr_stopLossPrice := 0, tr_orderPrice := 0, tr_orderQuantity := 0,
       tr_filledEntryQuantity := 0, tr_filledExitQuantity := 0, tr_profitLossRate := 0, tr_stats := new_stats\<rparr>"

text \<open>An update of the statistics of a trade.\<close>

definition on_stats :: "(trade_stats \<Rightarrow> trade_stats) \<Rightarrow> 'a trade_scheme \<Rightarrow> 'a trade_scheme" where
  "on_stats f t = t\<lparr>tr_stats := f (tr_stats t)\<rparr>"

lemma on_stats_sel [simp]:
  "tr_stats (on_stats f t) = f (tr_stats t)"
  "tr_id (on_stats f t) = tr_id t"
  "tr_type (on_stats f t) = tr_type t"
  "tr_timeframe (on_stats f t) = tr_timeframe t"
  "tr_timestamp (on_stats f t) = tr_timestamp t"
  "tr_direction (on_stats f t) = tr_direction t"
  "tr_dirty (on_stats f t) = tr_dirty t"
  "tr_expiry (on_stats f t) = tr_expiry t"
  "tr_entryTimeout (on_stats f t) = tr_entryTimeout t"
  "tr_openTimeStamp (on_stats f t) = tr_openTimeStamp t"
  "tr_exitTimeStamp (on_stats f t) = tr_exitTimeStamp t"
  "tr_entryPrice (on_stats f t) = tr_entryPrice t"
  "tr_exitPrice (on_stats f t) = tr_exitPrice t"
  "tr_takeProfitPrice (on_stats f t) = tr_takeProfitPrice t"
  "tr_stopLossPrice (on_stats f t) = tr_stopLossPrice t"
  "tr_orderPrice (on_stats f t) = tr_orderPrice t"
  "tr_orderQuantity (on_stats f t) = tr_orderQuantity t"
  "tr_filledEntryQuantity (on_stats f t) = tr_filledEntryQuantity t"
  "tr_filledExitQuantity (on_stats f t) = tr_filledExitQuantity t"
  "tr_profitLossRate (on_stats f t) = tr_profitLossRate t"
  "tr_operations (on_stats f t) = tr_operations t"
  by (simp_all add: on_stats_def)

section \<open>Predicates of the base class\<close>

definition tr_canDelete :: "bool \<Rightarrow> bool \<Rightarrow> bool" where
  "tr_canDelete isClosed isCanceled = (if isClosed then True else if isCanceled then True else False)"

definition tr_isActive :: "'a trade_scheme \<Rightarrow> bool" where
  "tr_isActive t \<longleftrightarrow> tr_filledEntryQuantity t > 0 \<and> tr_filledExitQuantity t < tr_filledEntryQuantity t"

definition tr_isEntryTimeout :: "bool \<Rightarrow> 'a trade_scheme \<Rightarrow> dbl \<Rightarrow> dbl \<Rightarrow> bool" where
  "tr_isEntryTimeout isOpened t timestamp timeout =
     (let timeout = (if timeout \<le> 0 then tr_entryTimeout t else timeout)
      in if timestamp > 0 \<and> timeout > 0
         then isOpened \<and> tr_openTimeStamp t > 0 \<and> timestamp - tr_openTimeStamp t > timeout
         else False)"

definition tr_isTradeTimeout :: "bool \<Rightarrow> 'a trade_scheme \<Rightarrow> dbl \<Rightarrow> dbl \<Rightarrow> bool" where
  "tr_isTradeTimeout isActive t timestamp timeout =
     (let timeout = (if timeout \<le> 0 then tr_expiry t else timeout)
      in if timestamp > 0 \<and> timeout > 0
         then isActive \<and> tr_openTimeStamp t > 0 \<and> timestamp - tr_openTimeStamp t > timeout
         else False)"

section \<open>Fees and estimates\<close>

definition fees_rate :: "dbl \<Rightarrow> 'a trade_scheme \<Rightarrow> dbl" where
  "fees_rate fees t =
     (if fees \<noteq> 0 \<and> ts_notionalValue (tr_stats t) > 0 then fees / ts_notionalValue (tr_stats t) else 0)"

definition entryFeesRate :: "'a trade_scheme \<Rightarrow> dbl" where
  "entryFeesRate t = fees_rate (ts_entryFees (tr_stats t)) t"

definition exitFeesRate :: "'a trade_scheme \<Rightarrow> dbl" where
  "exitFeesRate t = fees_rate (ts_exitFees (tr_stats t)) t"

definition marginFeesRate :: "'a trade_scheme \<Rightarrow> dbl" where
  "marginFeesRate t = fees_rate (ts_marginFees (tr_stats t)) t"

definition totalFees :: "'a trade_scheme \<Rightarrow> dbl" where
  "totalFees t = ts_entryFees (tr_stats t) + ts_exitFees (tr_stats t) + ts_marginFees (tr_stats t)"

definition totalFeesRate :: "'a trade_scheme \<Rightarrow> dbl" where
  "totalFeesRate t = fees_rate (totalFees t) t"

definition estimateExitFeesRate :: "market \<Rightarrow> 'a trade_scheme \<Rightarrow> dbl" where
  "estimateExitFeesRate m t =
     (let ty = ts_takeProfitOrderType (tr_stats t)
      in if ty = ORDER_LIMIT \<or> ty = ORDER_STOP_LIMIT \<or> ty = ORDER_TAKE_PROFIT_LIMIT
         then fee_rate (mk_makerFees m)
         else if ty = ORDER_MARKET \<or> ty = ORDER_STOP \<or> ty = ORDER_TAKE_PROFIT
         then fee_rate (mk_takerFees m)
         else fee_rate (mk_takerFees m))"

definition estimateProfitLossRate :: "market \<Rightarrow> 'a trade_scheme \<Rightarrow> dbl" where
  "estimateProfitLossRate m t =
     (if tr_entryPrice t \<le> 0 then 0
      else
        let closePrice = closeExecPrice m (tr_direction t)
        in if closePrice \<le> 0 then 0
           else
             let pnl = of_int (tr_direction t) * (closePrice - tr_entryPrice t) / tr_entryPrice t;
                 pnl = pnl - entryFeesRate t
             in pnl - estimateExitFeesRate m t)"

definition estimateTakeProfitRate :: "'a trade_scheme \<Rightarrow> dbl" where
  "estimateTakeProfitRate t =
     (if tr_takeProfitPrice t > 0 then
        (let entry = (if tr_entryPrice t \<le> 0 then tr_orderPrice t else tr_entryPrice t)
         in of_int (tr_direction t) * (tr_takeProfitPrice t - entry) / entry)
      else 0)"

definition estimateStopLossRate :: "'a trade_scheme \<Rightarrow> dbl" where
  "estimateStopLossRate t =
     (if tr_stopLossPrice t > 0 then
        (let entry = (if tr_entryPrice t \<le> 0 then tr_orderPrice t else tr_entryPrice t)
         in of_int (- tr_direction t) * (entry - tr_stopLossPrice t) / entry)
      else 0)"

definition deltaPrice :: "market \<Rightarrow> 'a trade_scheme \<Rightarrow> dbl" where
  "deltaPrice m t =
     (if tr_entryPrice t > 0 then closeExecPrice m (tr_direction t) - tr_entryPrice t else 0)"

section \<open>Operations of a trade and statistics\<close>

definition addOperation :: "int \<Rightarrow> 'a trade_scheme \<Rightarrow> 'a trade_scheme" where
  "addOperation opId t = t\<lparr>tr_operations := tr_operations t @ [opId]\<rparr>"

definition removeOperation :: "int \<Rightarrow> 'a trade_scheme \<Rightarrow> 'a trade_scheme" where
  "removeOperation opId t = t\<lparr>tr_operations := remove1 opId (tr_operations t)\<rparr>"

definition updateStats :: "dbl \<Rightarrow> dbl \<Rightarrow> 'a trade_scheme \<Rightarrow> 'a trade_scheme" where
  "updateStats lastPrice timestamp t =
     (if lastPrice > 0 \<and> timestamp > 0 then
        (let s = tr_stats t;
             s = (if ts_bestPrice s = 0 \<or> ts_worstPrice s = 0
                  then s\<lparr>ts_bestPrice := tr_entryPrice t, ts_worstPrice := tr_entryPrice t,
                         ts_bestPriceTimestamp := ts_firstRealizedEntryTimestamp s,
                         ts_worstPriceTimestamp := ts_firstRealizedEntryTimestamp s\<rparr>
                  else s);
             s = (if tr_direction t > 0 then
                    (let s = (if lastPrice > ts_bestPrice s
                              then s\<lparr>ts_bestPrice := lastPrice, ts_bestPriceTimestamp := timestamp\<rparr> else s)
                     in if lastPrice < ts_worstPrice s
                        then s\<lparr>ts_worstPrice := lastPrice, ts_worstPriceTimestamp := timestamp\<rparr> else s)
                  else if tr_direction t < 0 then
                    (let s = (if lastPrice < ts_bestPrice s
                              then s\<lparr>ts_bestPrice := lastPrice, ts_bestPriceTimestamp := timestamp\<rparr> else s)
                     in if lastPrice > ts_worstPrice s
                        then s\<lparr>ts_worstPrice := lastPrice, ts_worstPriceTimestamp := timestamp\<rparr> else s)
                  else s)
         in t\<lparr>tr_stats := s\<rparr>)
      else t)"

section \<open>Properties\<close>

lemma updateStats_step:
  assumes "0 < tr_entryPrice t" and "finite P" and "P \<noteq> {}" and "\<forall>p\<in>P. 0 < p" and "0 < p" and "0 < ts"
    and "ts_bestPrice (tr_stats t) = (if 0 < tr_direction t then Max P else Min P)"
    and "ts_worstPrice (tr_stats t) = (if 0 < tr_direction t then Min P else Max P)"
    and "tr_direction t \<noteq> 0"
  shows "ts_bestPrice (tr_stats (updateStats p ts t)) = (if 0 < tr_direction t then Max (insert p P) else Min (insert p P))"
    and "ts_worstPrice (tr_stats (updateStats p ts t)) = (if 0 < tr_direction t then Min (insert p P) else Max (insert p P))"
proof -
  have pos: "0 < Max P" "0 < Min P" using assms(2-4) by simp_all
  have ins: "Max (insert p P) = max p (Max P)" "Min (insert p P) = min p (Min P)"
    using assms(2,3) by (simp_all add: Max_insert Min_insert)
  have nz: "ts_bestPrice (tr_stats t) \<noteq> 0" "ts_worstPrice (tr_stats t) \<noteq> 0" using assms(7,8) pos by auto
  define s where "s = tr_stats t"
  have core: "tr_stats (updateStats p ts t) =
    (if 0 < tr_direction t then
       (let s = (if p > ts_bestPrice s then s\<lparr>ts_bestPrice := p, ts_bestPriceTimestamp := ts\<rparr> else s)
        in if p < ts_worstPrice s then s\<lparr>ts_worstPrice := p, ts_worstPriceTimestamp := ts\<rparr> else s)
     else
       (let s = (if p < ts_bestPrice s then s\<lparr>ts_bestPrice := p, ts_bestPriceTimestamp := ts\<rparr> else s)
        in if p > ts_worstPrice s then s\<lparr>ts_worstPrice := p, ts_worstPriceTimestamp := ts\<rparr> else s))"
    using assms(5,6,9) nz by (cases "0 < tr_direction t") (simp_all add: updateStats_def Let_def s_def)
  show "ts_bestPrice (tr_stats (updateStats p ts t)) = (if 0 < tr_direction t then Max (insert p P) else Min (insert p P))"
    and "ts_worstPrice (tr_stats (updateStats p ts t)) = (if 0 < tr_direction t then Min (insert p P) else Max (insert p P))"
    unfolding ins core using assms(7,8)
    by (simp_all add: Let_def s_def max_def min_def)
qed

lemma updateStats_frame [simp]:
  "tr_entryPrice (updateStats p ts t) = tr_entryPrice t" "tr_direction (updateStats p ts t) = tr_direction t"
  by (simp_all add: updateStats_def Let_def)

lemma updateStats_fresh:
  assumes "ts_bestPrice (tr_stats t) = 0" and "0 < p" and "0 < ts"
  shows "updateStats p ts t = updateStats p ts (t\<lparr>tr_stats := (tr_stats t)\<lparr>ts_bestPrice := tr_entryPrice t,
     ts_worstPrice := tr_entryPrice t, ts_bestPriceTimestamp := ts_firstRealizedEntryTimestamp (tr_stats t),
     ts_worstPriceTimestamp := ts_firstRealizedEntryTimestamp (tr_stats t)\<rparr>\<rparr>)"
  using assms by (simp add: updateStats_def Let_def)

lemma updateStats_fold:
  assumes "0 < tr_entryPrice t" and "finite P" and "P \<noteq> {}" and "\<forall>p\<in>P. 0 < p"
    and "\<forall>(p, ts)\<in>set ps. 0 < p \<and> 0 < ts" and "tr_direction t \<noteq> 0"
    and "ts_bestPrice (tr_stats t) = (if 0 < tr_direction t then Max P else Min P)"
    and "ts_worstPrice (tr_stats t) = (if 0 < tr_direction t then Min P else Max P)"
  shows "ts_bestPrice (tr_stats (foldl (\<lambda>t (p, ts). updateStats p ts t) t ps)) =
      (if 0 < tr_direction t then Max (fst ` set ps \<union> P) else Min (fst ` set ps \<union> P))
    \<and> ts_worstPrice (tr_stats (foldl (\<lambda>t (p, ts). updateStats p ts t) t ps)) =
      (if 0 < tr_direction t then Min (fst ` set ps \<union> P) else Max (fst ` set ps \<union> P))"
  using assms
proof (induction ps arbitrary: t P)
  case (Cons q ps)
  obtain p ts where q: "q = (p, ts)" by (cases q)
  have p: "0 < p" "0 < ts" using Cons.prems(5) by (auto simp: q)
  note st = updateStats_step [OF Cons.prems(1-4) p Cons.prems(7,8,6)]
  have set: "fst ` set ps \<union> insert p P = fst ` set (q # ps) \<union> P" by (auto simp: q)
  show ?case
    using Cons.IH [of "updateStats p ts t" "insert p P"] Cons.prems st p unfolding set [symmetric]
    by (simp add: q)
qed simp

text \<open>
  The statistics of a trade hold the best and the worst price since the entry: for a long
  trade the greatest and the least of the entry price and of the prices seen, for a short trade
  the other way round.
\<close>

theorem updateStats_extremes:
  assumes "0 < tr_entryPrice t" and "tr_direction t \<noteq> 0" and "ts_bestPrice (tr_stats t) = 0"
    and "\<forall>(p, ts)\<in>set ps. 0 < p \<and> 0 < ts" and "ps \<noteq> []"
  shows "let s = tr_stats (foldl (\<lambda>t (p, ts). updateStats p ts t) t ps); P = insert (tr_entryPrice t) (fst ` set ps)
     in ts_bestPrice s = (if 0 < tr_direction t then Max P else Min P)
      \<and> ts_worstPrice s = (if 0 < tr_direction t then Min P else Max P)"
proof -
  obtain p ts qs where ps: "ps = (p, ts) # qs" using assms(5) by (metis list.exhaust surj_pair)
  define t1 where "t1 = t\<lparr>tr_stats := (tr_stats t)\<lparr>ts_bestPrice := tr_entryPrice t,
     ts_worstPrice := tr_entryPrice t, ts_bestPriceTimestamp := ts_firstRealizedEntryTimestamp (tr_stats t),
     ts_worstPriceTimestamp := ts_firstRealizedEntryTimestamp (tr_stats t)\<rparr>\<rparr>"
  have "0 < p" "0 < ts" using assms(4) by (auto simp: ps)
  then have "foldl (\<lambda>t (p, ts). updateStats p ts t) t ps = foldl (\<lambda>t (p, ts). updateStats p ts t) t1 ps"
    using updateStats_fresh [OF assms(3)] by (simp add: ps t1_def)
  then show ?thesis
    using updateStats_fold [of t1 "{tr_entryPrice t}" ps] assms by (simp add: t1_def Let_def)
qed

theorem updateStats_extremes_witness:
  "ts_bestPrice (tr_stats (foldl (\<lambda>t (p, ts). updateStats p ts t)
     ((new_trade TYPE_ASSET 60)\<lparr>tr_entryPrice := 10, tr_direction := SHORT\<rparr>) [(12, 1), (7, 2), (9, 3)])) = 7"
  using updateStats_extremes [of "(new_trade TYPE_ASSET 60)\<lparr>tr_entryPrice := 10, tr_direction := SHORT\<rparr>"
      "[(12, 1), (7, 2), (9, 3)]"]
  by (simp add: new_trade_def new_stats_def SHORT_def Let_def)

end
