(* ===== verification/Trade_Proxy.thy ===== *)
theory Trade_Proxy
  imports Trade_Base
begin

text \<open>
  What the kinds of trades share besides the base class: the legs of a trade (\<^verbatim>\<open>EntryExit\<close>, \<^verbatim>\<open>Entry\<close>,
  \<^verbatim>\<open>Stop\<close> and \<^verbatim>\<open>Limit\<close> of \<^verbatim>\<open>margintrade.h\<close> and \<^verbatim>\<open>indmargintrade.h\<close>) and the trader proxy as a trade sees it.

  A call to the proxy returns its code and the signals that were delivered while it ran, in
  order. A connector that executes at once, like the local one, delivers all of them during
  the call; a remote one delivers them later. The trade manager hands each signal to a trade that it targets, so
  that a trade handles its own signals before the code after the call runs.
\<close>

section \<open>Legs of a trade\<close>

record leg =
  lg_state :: trade_state
  lg_orderId :: string
  lg_refId :: string
  lg_execQty :: dbl

record limit_leg = leg +
  ll_orderedQty :: dbl
  ll_fees :: dbl

record stop_leg = leg +
  sl_closing :: bool
  sl_orderedQty :: dbl
  sl_fees :: dbl

definition new_leg :: leg where
  "new_leg = \<lparr>lg_state = STATE_UNDEFINED, lg_orderId = '''', lg_refId = '''', lg_execQty = 0\<rparr>"

definition new_limit_leg :: limit_leg where
  "new_limit_leg = \<lparr>lg_state = STATE_UNDEFINED, lg_orderId = '''', lg_refId = '''', lg_execQty = 0,
     ll_orderedQty = 0, ll_fees = 0\<rparr>"

definition new_stop_leg :: stop_leg where
  "new_stop_leg = \<lparr>lg_state = STATE_UNDEFINED, lg_orderId = '''', lg_refId = '''', lg_execQty = 0,
     sl_closing = False, sl_orderedQty = 0, sl_fees = 0\<rparr>"

definition reset_leg :: "'a leg_scheme \<Rightarrow> 'a leg_scheme" where
  "reset_leg l = l\<lparr>lg_state := STATE_UNDEFINED, lg_orderId := '''', lg_refId := '''', lg_execQty := 0\<rparr>"

definition reset_limit :: "limit_leg \<Rightarrow> limit_leg" where
  "reset_limit l = (reset_leg l)\<lparr>ll_orderedQty := 0, ll_fees := 0\<rparr>"

definition reset_stop :: "stop_leg \<Rightarrow> stop_leg" where
  "reset_stop l = (reset_leg l)\<lparr>sl_closing := False, sl_orderedQty := 0, sl_fees := 0\<rparr>"

definition hasOrder :: "'a leg_scheme \<Rightarrow> bool" where
  "hasOrder l \<longleftrightarrow> isValid (lg_orderId l) \<or> isValid (lg_refId l)"

text \<open>The test for an order of a leg, by its identifier or by the reference the trade gave it.\<close>

definition leg_target :: "string \<Rightarrow> string \<Rightarrow> 'a leg_scheme \<Rightarrow> bool" where
  "leg_target orderId refId l \<longleftrightarrow>
     (isValid orderId \<and> orderId = lg_orderId l) \<or> (isValid refId \<and> refId = lg_refId l)"

definition leg_learn :: "string \<Rightarrow> 'a leg_scheme \<Rightarrow> 'a leg_scheme" where
  "leg_learn orderId l = (if isEmpty (lg_orderId l) then l\<lparr>lg_orderId := orderId\<rparr> else l)"

section \<open>The proxy\<close>

datatype signal = OrderSig order_signal | PositionSig position_signal

record 'w proxy =
  px_newOrder :: "'w \<Rightarrow> order \<times> 'w"
  px_createOrder :: "order \<Rightarrow> 'w \<Rightarrow> int \<times> signal list \<times> 'w"
  px_cancelOrder :: "string \<Rightarrow> 'w \<Rightarrow> int \<times> signal list \<times> 'w"
  px_modifyPosition :: "string \<Rightarrow> dbl \<Rightarrow> dbl \<Rightarrow> 'w \<Rightarrow> int \<times> signal list \<times> 'w"
  px_closePosition :: "string \<Rightarrow> int \<Rightarrow> dbl \<Rightarrow> bool \<Rightarrow> dbl \<Rightarrow> 'w \<Rightarrow> int \<times> signal list \<times> 'w"
  px_market :: "'w \<Rightarrow> market"
  px_undef :: dbl

text \<open>A proxy that trades every order at once at the price 10.\<close>

definition demo_signal :: "order_event \<Rightarrow> order \<Rightarrow> order_signal" where
  "demo_signal ev od = order.extend (od\<lparr>or_orderId := ''1'' @ or_refId od, or_execPrice := 10, or_filled := or_orderQuantity od\<rparr>)
     \<lparr>os_event = ev, os_completed = True\<rparr>"

definition demo_proxy :: "nat proxy" where
  "demo_proxy = \<lparr>px_newOrder = (\<lambda>n. ((new_order 0)\<lparr>or_refId := replicate n CHR ''r''\<rparr>, Suc n)),
     px_createOrder = (\<lambda>od n. (RET_OK, [OrderSig (demo_signal OS_OPENED od), OrderSig (demo_signal OS_TRADED od)], n)),
     px_cancelOrder = (\<lambda>i n. (RET_OK, [], n)), px_modifyPosition = (\<lambda>i a b n. (RET_OK, [], n)),
     px_closePosition = (\<lambda>i d q m p n. (RET_OK, [], n)), 
     px_market = (\<lambda>n. new_market TYPE_CRYPTO CONTRACT_SPOT UNIT_AMOUNT ''BTCEUR'' ''BTC/EUR'' ''BTC'' ''EUR''), px_undef = 0\<rparr>"

section \<open>The interface of a trade\<close>

text \<open>
  What the trade manager relies on: a trade changes on a signal only when it is a target
  of it, and a trade that is closed or canceled is not active.
\<close>

definition deliver_one :: "('t \<Rightarrow> string \<Rightarrow> string \<Rightarrow> bool) \<Rightarrow> (order_signal \<Rightarrow> 't \<Rightarrow> 't)
    \<Rightarrow> ('t \<Rightarrow> string \<Rightarrow> string \<Rightarrow> bool) \<Rightarrow> (position_signal \<Rightarrow> 't \<Rightarrow> 't) \<Rightarrow> signal \<Rightarrow> 't \<Rightarrow> 't" where
  "deliver_one targetOrder onOrder targetPosition onPosition s t =
     (case s of
        OrderSig sg \<Rightarrow> if targetOrder t (or_orderId sg) (or_refId sg) then onOrder sg t else t
      | PositionSig sg \<Rightarrow> if targetPosition t (po_positionId sg) (po_refOrderId sg) then onPosition sg t else t)"

locale trade_impl =
  fixes targetOrder :: "'t \<Rightarrow> string \<Rightarrow> string \<Rightarrow> bool"
    and onOrder :: "order_signal \<Rightarrow> 't \<Rightarrow> 't"
    and targetPosition :: "'t \<Rightarrow> string \<Rightarrow> string \<Rightarrow> bool"
    and onPosition :: "position_signal \<Rightarrow> 't \<Rightarrow> 't"
    and active :: "'t \<Rightarrow> bool"
    and closed :: "'t \<Rightarrow> bool"
    and canceled :: "'t \<Rightarrow> bool"
  assumes order_not_target: "\<not> targetOrder t (or_orderId s) (or_refId s) \<Longrightarrow> onOrder s t = t"
    and position_not_target: "\<not> targetPosition t (po_positionId p) (po_refOrderId p) \<Longrightarrow> onPosition p t = t"
    and closed_not_active: "closed t \<Longrightarrow> \<not> active t"
    and canceled_not_active: "canceled t \<Longrightarrow> \<not> active t"
begin

text \<open>Handing every signal to every trade has the effect of handing each to its targets.\<close>

lemma broadcast:
  "deliver_one targetOrder onOrder targetPosition onPosition s t =
     (case s of OrderSig sg \<Rightarrow> onOrder sg t | PositionSig sg \<Rightarrow> onPosition sg t)"
  by (cases s) (auto simp: deliver_one_def order_not_target position_not_target)

lemma foreign_signals:
  assumes "\<forall>s\<in>set sigs. case s of OrderSig sg \<Rightarrow> \<not> targetOrder t (or_orderId sg) (or_refId sg)
      | PositionSig sg \<Rightarrow> \<not> targetPosition t (po_positionId sg) (po_refOrderId sg)"
  shows "fold (deliver_one targetOrder onOrder targetPosition onPosition) sigs t = t"
  using assms by (induction sigs) (auto simp: deliver_one_def split: signal.splits)

text \<open>The manager deletes a trade only when nothing of it is in the market.\<close>

lemma deletable_not_active: "tr_canDelete (closed t) (canceled t) \<Longrightarrow> \<not> active t"
  using closed_not_active canceled_not_active by (auto simp: tr_canDelete_def split: if_splits)

end

end
