(* ===== verification/Margin_Trade.thy ===== *)
theory Margin_Trade
  imports Trade_Proxy
begin

text \<open>
  \<^verbatim>\<open>strategies/src/trade/margintrade.cpp\<close>: a trade on a margin market with one entry order, a stop order
  and a limit order.
\<close>

record margin_trade = trade +
  mt_positionId :: string
  mt_entry :: leg
  mt_stop :: stop_leg
  mt_limit :: limit_leg

definition new_margin_trade :: margin_trade where
  "new_margin_trade = trade.extend (new_trade TYPE_MARGIN (-1))
     \<lparr>mt_positionId = '''', mt_entry = new_leg, mt_stop = new_stop_leg, mt_limit = new_limit_leg\<rparr>"

definition mt_init :: "dbl \<Rightarrow> margin_trade \<Rightarrow> margin_trade" where
  "mt_init timeframe t =
     (init_trade timeframe t)\<lparr>mt_entry := reset_leg (mt_entry t), mt_stop := reset_stop (mt_stop t),
       mt_limit := reset_limit (mt_limit t), mt_positionId := ''''\<rparr>"

section \<open>States\<close>

definition mt_isActive :: "margin_trade \<Rightarrow> bool" where
  "mt_isActive t =
     (if lg_state (mt_stop t) = STATE_FILLED \<or> lg_state (mt_limit t) = STATE_FILLED then False
      else lg_state (mt_entry t) = STATE_PARTIALLY_FILLED \<or> lg_state (mt_entry t) = STATE_FILLED)"

definition mt_isOpened :: "margin_trade \<Rightarrow> bool" where
  "mt_isOpened t \<longleftrightarrow> lg_state (mt_entry t) = STATE_OPENED"

definition mt_isCanceled :: "margin_trade \<Rightarrow> bool" where
  "mt_isCanceled t =
     (if lg_state (mt_entry t) = STATE_REJECTED then True
      else if (lg_state (mt_entry t) = STATE_CANCELED \<or> lg_state (mt_entry t) = STATE_DELETED)
              \<and> tr_filledEntryQuantity t \<le> 0 then True
      else False)"

definition mt_isOpening :: "margin_trade \<Rightarrow> bool" where
  "mt_isOpening t \<longleftrightarrow> lg_state (mt_entry t) = STATE_OPENED \<or> lg_state (mt_entry t) = STATE_PARTIALLY_FILLED"

definition mt_isClosing :: "margin_trade \<Rightarrow> bool" where
  "mt_isClosing t \<longleftrightarrow> lg_state (mt_limit t) = STATE_PARTIALLY_FILLED
     \<or> lg_state (mt_stop t) = STATE_PARTIALLY_FILLED \<or> sl_closing (mt_stop t)"

definition mt_isClosed :: "margin_trade \<Rightarrow> bool" where
  "mt_isClosed t \<longleftrightarrow> lg_state (mt_limit t) = STATE_FILLED \<or> lg_state (mt_stop t) = STATE_FILLED"

definition mt_isTargetOrder :: "margin_trade \<Rightarrow> string \<Rightarrow> string \<Rightarrow> bool" where
  "mt_isTargetOrder t orderId refId =
     (if leg_target orderId refId (mt_entry t) then True
      else if leg_target orderId refId (mt_limit t) then True
      else if leg_target orderId refId (mt_stop t) then True
      else False)"

definition mt_isTargetPosition :: "margin_trade \<Rightarrow> string \<Rightarrow> string \<Rightarrow> bool" where
  "mt_isTargetPosition t positionId refId = (if isValid positionId \<and> positionId = mt_positionId t then True else False)"

definition mt_stateToStr :: "margin_trade \<Rightarrow> string" where
  "mt_stateToStr t =
     (if lg_state (mt_entry t) = STATE_NEW then ''new''
      else if lg_state (mt_entry t) = STATE_OPENED then ''opened''
      else if lg_state (mt_entry t) = STATE_REJECTED then ''rejected''
      else if lg_state (mt_entry t) = STATE_REJECTED \<and> tr_filledEntryQuantity t > tr_filledExitQuantity t then ''problem''
      else if tr_filledEntryQuantity t < tr_filledExitQuantity t
          \<and> (lg_state (mt_entry t) = STATE_PARTIALLY_FILLED \<or> lg_state (mt_entry t) = STATE_OPENED) then ''filling''
      else if tr_filledEntryQuantity t > 0 \<and> tr_filledExitQuantity t < tr_filledEntryQuantity t
          \<and> lg_state (mt_stop t) \<noteq> STATE_FILLED \<and> lg_state (mt_limit t) \<noteq> STATE_FILLED then ''closing''
      else if tr_filledEntryQuantity t > 0 \<and> tr_filledExitQuantity t \<ge> tr_filledEntryQuantity t then ''closed''
      else if tr_filledEntryQuantity t \<ge> tr_orderQuantity t then ''filled''
      else ''waiting'')"

section \<open>Signals\<close>

definition leg_forget :: "trade_state \<Rightarrow> 'a leg_scheme \<Rightarrow> 'a leg_scheme" where
  "leg_forget st l = l\<lparr>lg_orderId := '''', lg_refId := '''', lg_state := st\<rparr>"

definition mt_entrySignal :: "order_signal \<Rightarrow> margin_trade \<Rightarrow> margin_trade" where
  "mt_entrySignal sg t =
     (let t = t\<lparr>mt_entry := leg_learn (or_orderId sg) (mt_entry t)\<rparr>
      in case os_event sg of
           OS_OPENED \<Rightarrow> t\<lparr>tr_openTimeStamp := or_executed sg, mt_entry := (mt_entry t)\<lparr>lg_state := STATE_OPENED\<rparr>\<rparr>
         | OS_REJECTED \<Rightarrow> t\<lparr>mt_entry := leg_forget STATE_REJECTED (mt_entry t)\<rparr>
         | OS_DELETED \<Rightarrow> t\<lparr>mt_entry := (mt_entry t)\<lparr>lg_orderId := '''', lg_refId := ''''\<rparr>\<rparr>
         | OS_CANCELED \<Rightarrow> t\<lparr>mt_entry := leg_forget STATE_CANCELED (mt_entry t)\<rparr>
         | OS_UPDATED \<Rightarrow> t
         | OS_TRADED \<Rightarrow>
             (let t = (if or_cumulativeFilled sg > 0 then t\<lparr>tr_filledEntryQuantity := or_cumulativeFilled sg\<rparr>
                       else if or_filled sg > 0
                       then t\<lparr>tr_filledEntryQuantity := tr_filledEntryQuantity t + or_filled sg\<rparr> else t);
                  t = (if or_avgPrice sg > 0 then t\<lparr>tr_entryPrice := or_avgPrice sg\<rparr>
                       else if or_execPrice sg > 0 then t\<lparr>tr_entryPrice := or_execPrice sg\<rparr> else t);
                  t = (if ts_firstRealizedEntryTimestamp (tr_stats t) \<le> 0
                       then on_stats (\<lambda>s. s\<lparr>ts_firstRealizedEntryTimestamp := or_executed sg\<rparr>) t else t);
                  t = on_stats (\<lambda>s. s\<lparr>ts_lastRealizedEntryTimestamp := or_executed sg\<rparr>) t
              in if tr_filledEntryQuantity t \<ge> tr_orderQuantity t \<or> os_completed sg
                 then t\<lparr>mt_entry := (mt_entry t)\<lparr>lg_state := STATE_FILLED\<rparr>\<rparr>
                 else t\<lparr>mt_entry := (mt_entry t)\<lparr>lg_state := STATE_PARTIALLY_FILLED\<rparr>\<rparr>))"

text \<open>
  The quantities, the price and the times of an exit fill, and the state the leg gets. The code
  compares the entry quantity with the ordered one, not the exit quantity.
\<close>

definition mt_exitFill :: "order_signal \<Rightarrow> margin_trade \<Rightarrow> margin_trade" where
  "mt_exitFill sg t =
     (let t = (if or_cumulativeFilled sg > 0 then t\<lparr>tr_filledExitQuantity := or_cumulativeFilled sg\<rparr>
               else if or_filled sg > 0
               then t\<lparr>tr_filledExitQuantity := tr_filledExitQuantity t + or_filled sg\<rparr> else t);
          t = (if or_avgPrice sg > 0 then t\<lparr>tr_exitPrice := or_avgPrice sg\<rparr>
               else if or_execPrice sg > 0 then t\<lparr>tr_exitPrice := or_execPrice sg\<rparr> else t);
          t = (if ts_firstRealizedExitTimestamp (tr_stats t) \<le> 0
               then on_stats (\<lambda>s. s\<lparr>ts_firstRealizedExitTimestamp := or_executed sg\<rparr>) t else t)
      in on_stats (\<lambda>s. s\<lparr>ts_lastRealizedExitTimestamp := or_executed sg\<rparr>) t)"

definition mt_exitState :: "order_signal \<Rightarrow> margin_trade \<Rightarrow> trade_state" where
  "mt_exitState sg t =
     (if tr_filledEntryQuantity t \<ge> tr_orderQuantity t \<or> os_completed sg then STATE_FILLED
      else STATE_PARTIALLY_FILLED)"

definition mt_limitSignal :: "order_signal \<Rightarrow> margin_trade \<Rightarrow> margin_trade" where
  "mt_limitSignal sg t =
     (let t = t\<lparr>mt_limit := leg_learn (or_orderId sg) (mt_limit t)\<rparr>
      in case os_event sg of
           OS_OPENED \<Rightarrow>
             (if lg_state (mt_limit t) = STATE_NEW then
                (let t = t\<lparr>mt_limit := (mt_limit t)\<lparr>lg_state := STATE_OPENED\<rparr>\<rparr>
                 in if tr_exitTimeStamp t = 0 then t\<lparr>tr_exitTimeStamp := or_executed sg\<rparr> else t)
              else t)
         | OS_REJECTED \<Rightarrow> t\<lparr>mt_limit := leg_forget STATE_REJECTED (mt_limit t)\<rparr>
         | OS_DELETED \<Rightarrow> t\<lparr>mt_limit := (mt_limit t)\<lparr>lg_orderId := '''', lg_refId := ''''\<rparr>\<rparr>
         | OS_CANCELED \<Rightarrow> t\<lparr>mt_limit := leg_forget STATE_CANCELED (mt_limit t)\<rparr>
         | OS_UPDATED \<Rightarrow> t
         | OS_TRADED \<Rightarrow>
             (let t = mt_exitFill sg t in t\<lparr>mt_limit := (mt_limit t)\<lparr>lg_state := mt_exitState sg t\<rparr>\<rparr>))"

definition mt_stopSignal :: "order_signal \<Rightarrow> margin_trade \<Rightarrow> margin_trade" where
  "mt_stopSignal sg t =
     (let t = t\<lparr>mt_stop := leg_learn (or_orderId sg) (mt_stop t)\<rparr>
      in case os_event sg of
           OS_OPENED \<Rightarrow>
             (if lg_state (mt_stop t) = STATE_NEW then
                (let t = t\<lparr>mt_stop := (mt_stop t)\<lparr>lg_state := STATE_OPENED\<rparr>\<rparr>
                 in if tr_exitTimeStamp t = 0 then t\<lparr>tr_exitTimeStamp := or_executed sg\<rparr> else t)
              else t)
         | OS_REJECTED \<Rightarrow> t\<lparr>mt_stop := leg_forget STATE_REJECTED (mt_stop t)\<rparr>
         | OS_DELETED \<Rightarrow> t\<lparr>mt_stop := (mt_stop t)\<lparr>lg_orderId := '''', lg_refId := ''''\<rparr>\<rparr>
         | OS_CANCELED \<Rightarrow> t\<lparr>mt_stop := leg_forget STATE_CANCELED (mt_stop t)\<rparr>
         | OS_UPDATED \<Rightarrow> t
         | OS_TRADED \<Rightarrow>
             (let t = mt_exitFill sg t in t\<lparr>mt_stop := (mt_stop t)\<lparr>lg_state := mt_exitState sg t\<rparr>\<rparr>))"

definition mt_orderSignal :: "order_signal \<Rightarrow> margin_trade \<Rightarrow> margin_trade" where
  "mt_orderSignal sg t =
     (if leg_target (or_orderId sg) (or_refId sg) (mt_entry t) then mt_entrySignal sg t
      else if leg_target (or_orderId sg) (or_refId sg) (mt_limit t) then mt_limitSignal sg t
      else if leg_target (or_orderId sg) (or_refId sg) (mt_stop t) then mt_stopSignal sg t
      else t)"

text \<open>No event of a position has an effect.\<close>

definition mt_positionSignal :: "position_signal \<Rightarrow> margin_trade \<Rightarrow> margin_trade" where
  "mt_positionSignal sg t =
     (if isValid (po_positionId sg) \<and> po_positionId sg = mt_positionId t then
        (case ps_event sg of PS_OPENED \<Rightarrow> t | PS_UPDATED \<Rightarrow> t | PS_DELETED \<Rightarrow> t | PS_AMENDED \<Rightarrow> t)
      else t)"

interpretation mt: trade_impl mt_isTargetOrder mt_orderSignal mt_isTargetPosition mt_positionSignal
  mt_isActive mt_isClosed mt_isCanceled
  by unfold_locales (auto simp: mt_isTargetOrder_def mt_orderSignal_def mt_isTargetPosition_def
    mt_positionSignal_def mt_isActive_def mt_isClosed_def mt_isCanceled_def split: if_splits position_event.splits)

section \<open>Operations\<close>

definition mt_deliver :: "signal list \<Rightarrow> margin_trade \<Rightarrow> margin_trade" where
  "mt_deliver = fold (deliver_one mt_isTargetOrder mt_orderSignal mt_isTargetPosition mt_positionSignal)"

definition mt_create :: "'w proxy \<Rightarrow> order \<Rightarrow> margin_trade \<Rightarrow> 'w \<Rightarrow> int \<times> margin_trade \<times> 'w" where
  "mt_create px ord t w = (let (ret, sigs, w) = px_createOrder px ord w in (ret, mt_deliver sigs t, w))"

definition mt_cancel :: "'w proxy \<Rightarrow> string \<Rightarrow> margin_trade \<Rightarrow> 'w \<Rightarrow> int \<times> margin_trade \<times> 'w" where
  "mt_cancel px orderId t w = (let (ret, sigs, w) = px_cancelOrder px orderId w in (ret, mt_deliver sigs t, w))"

definition mt_cancel_entry :: "'w proxy \<Rightarrow> margin_trade \<times> 'w \<Rightarrow> margin_trade \<times> 'w" where
  "mt_cancel_entry px = (\<lambda>(t, w).
     if hasOrder (mt_entry t) then
       (let (ret, t, w) = mt_cancel px (lg_orderId (mt_entry t)) t w
        in if ret = RET_OK then (t\<lparr>mt_entry := leg_forget STATE_CANCELED (mt_entry t)\<rparr>, w) else (t, w))
     else (t, w))"

definition mt_cancel_stop :: "'w proxy \<Rightarrow> margin_trade \<times> 'w \<Rightarrow> margin_trade \<times> 'w" where
  "mt_cancel_stop px = (\<lambda>(t, w).
     if hasOrder (mt_stop t) then
       (let (ret, t, w) = mt_cancel px (lg_orderId (mt_stop t)) t w
        in if ret = RET_OK then (t\<lparr>mt_stop := leg_forget STATE_CANCELED (mt_stop t)\<rparr>, w) else (t, w))
     else (t, w))"

definition mt_cancel_limit :: "'w proxy \<Rightarrow> margin_trade \<times> 'w \<Rightarrow> margin_trade \<times> 'w" where
  "mt_cancel_limit px = (\<lambda>(t, w).
     if hasOrder (mt_limit t) then
       (let (ret, t, w) = mt_cancel px (lg_orderId (mt_limit t)) t w
        in if ret = RET_OK then (t\<lparr>mt_limit := leg_forget STATE_CANCELED (mt_limit t)\<rparr>, w) else (t, w))
     else (t, w))"

definition mt_open :: "'w proxy \<Rightarrow> int \<Rightarrow> order_type \<Rightarrow> dbl \<Rightarrow> dbl \<Rightarrow> dbl \<Rightarrow> dbl \<Rightarrow> margin_trade \<Rightarrow> 'w
    \<Rightarrow> margin_trade \<times> 'w" where
  "mt_open px direction orderType orderPrice quantity takeProfitPrice stopLossPrice t w =
     (let t = t\<lparr>tr_direction := direction, tr_orderQuantity := quantity, tr_orderPrice := orderPrice,
                tr_takeProfitPrice := takeProfitPrice, tr_stopLossPrice := stopLossPrice\<rparr>;
          (ord, w) = px_newOrder px w;
          ord = ord\<lparr>or_direction := direction, or_orderQuantity := quantity, or_strategy := True,
                    or_orderType := orderType, or_orderPrice := orderPrice\<rparr>;
          t = t\<lparr>mt_entry := (mt_entry t)\<lparr>lg_refId := or_refId ord\<rparr>\<rparr>;
          t = on_stats (\<lambda>s. s\<lparr>ts_entryOrderType := or_orderType ord\<rparr>) t;
          (ret, t, w) = mt_create px ord t w
      in if ret = RET_OK then (t, w)
         else (t\<lparr>mt_entry := (mt_entry t)\<lparr>lg_state := STATE_REJECTED\<rparr>\<rparr>, w))"

definition mt_remove :: "'w proxy \<Rightarrow> margin_trade \<Rightarrow> 'w \<Rightarrow> margin_trade \<times> 'w" where
  "mt_remove px t w =
     (if sl_closing (mt_stop t) then (t, w)
      else mt_cancel_limit px (mt_cancel_stop px (mt_cancel_entry px (t, w))))"

definition mt_cancelOpen :: "'w proxy \<Rightarrow> margin_trade \<Rightarrow> 'w \<Rightarrow> margin_trade \<times> 'w" where
  "mt_cancelOpen px t w = (if mt_isOpened t then mt_cancel_entry px (t, w) else (t, w))"

definition mt_cancelClose :: "'w proxy \<Rightarrow> margin_trade \<Rightarrow> 'w \<Rightarrow> margin_trade \<times> 'w" where
  "mt_cancelClose px t w =
     (if sl_closing (mt_stop t) then (t, w)
      else if \<not> mt_isActive t then (t, w)
      else mt_cancel_limit px (mt_cancel_stop px (t, w)))"

definition mt_modifyTakeProfit :: "'w proxy \<Rightarrow> dbl \<Rightarrow> modifier_type \<Rightarrow> margin_trade \<Rightarrow> 'w \<Rightarrow> margin_trade \<times> 'w" where
  "mt_modifyTakeProfit px price md t w =
     (if sl_closing (mt_stop t) then (t, w)
      else
        let md = (if hasOrder (mt_limit t) \<and> md = MOD_PREVIOUS then MOD_DISTANT else md);
            (t, w) = mt_cancel_limit px (t, w);
            (t, w) =
              (if md = MOD_DISTANT \<and> price > 0 then
                 (let remaining_qty = tr_filledEntryQuantity t - tr_filledExitQuantity t;
                      (ord, w) = px_newOrder px w;
                      ord = setReduceOnly (ord\<lparr>or_direction := - tr_direction t, or_orderQuantity := remaining_qty,
                              or_orderType := ORDER_LIMIT, or_orderPrice := price\<rparr>);
                      t = t\<lparr>mt_limit := (mt_limit t)\<lparr>lg_refId := or_refId ord\<rparr>\<rparr>;
                      (ret, t, w) = mt_create px ord t w
                  in (t, w))
               else (t, w))
        in (t\<lparr>tr_takeProfitPrice := price\<rparr>, w))"

definition mt_modifyStopLoss :: "'w proxy \<Rightarrow> dbl \<Rightarrow> modifier_type \<Rightarrow> margin_trade \<Rightarrow> 'w \<Rightarrow> margin_trade \<times> 'w" where
  "mt_modifyStopLoss px price md t w =
     (if sl_closing (mt_stop t) then (t, w)
      else
        let md = (if hasOrder (mt_stop t) \<and> md = MOD_PREVIOUS then MOD_DISTANT else md);
            (t, w) = mt_cancel_stop px (t, w);
            (t, w) =
              (if md = MOD_DISTANT \<and> price > 0 then
                 (let remaining_qty = tr_filledEntryQuantity t - tr_filledExitQuantity t;
                      (ord, w) = px_newOrder px w;
                      ord = setReduceOnly (ord\<lparr>or_direction := - tr_direction t, or_orderQuantity := remaining_qty,
                              or_orderType := ORDER_MARKET, or_orderPrice := price\<rparr>);
                      t = t\<lparr>mt_stop := (mt_stop t)\<lparr>lg_refId := or_refId ord\<rparr>\<rparr>;
                      (ret, t, w) = mt_create px ord t w
                  in (t, w))
               else (t, w))
        in (t\<lparr>tr_stopLossPrice := price\<rparr>, w))"

text \<open>\<^verbatim>\<open>close\<close> sends the order that closes the position; it keeps no reference to it.\<close>

definition mt_close :: "'w proxy \<Rightarrow> exit_reason \<Rightarrow> margin_trade \<Rightarrow> 'w \<Rightarrow> margin_trade \<times> 'w" where
  "mt_close px reason t w =
     (if sl_closing (mt_stop t) then (t, w)
      else
        let remaining_qty = tr_filledEntryQuantity t - tr_filledExitQuantity t
        in if remaining_qty \<le> 0 then (t, w)
           else
             let (t, w) = mt_cancel_limit px (mt_cancel_stop px (t, w));
                 t = on_stats (\<lambda>s. s\<lparr>ts_exitReason := reason\<rparr>) t;
                 (ord, w) = px_newOrder px w;
                 ord = setReduceOnly (ord\<lparr>or_direction := - tr_direction t, or_orderQuantity := remaining_qty,
                         or_orderType := ORDER_MARKET\<rparr>);
                 (ret, t, w) = mt_create px ord t w
             in (t, w))"

definition mt_process :: "'w proxy \<Rightarrow> margin_trade \<Rightarrow> 'w \<Rightarrow> margin_trade \<times> 'w" where
  "mt_process px t w =
     (if mt_isActive t then
        (let closePrice = closeExecPrice (px_market px w) (tr_direction t)
         in if tr_stopLossPrice t > 0 \<and> \<not> isValid (lg_orderId (mt_stop t)) \<and>
               (tr_direction t > 0 \<and> closePrice < tr_stopLossPrice t \<or>
                tr_direction t < 0 \<and> closePrice > tr_stopLossPrice t)
            then mt_close px REASON_STOP_LOSS_MARKET t w
            else if tr_takeProfitPrice t > 0 \<and> \<not> isValid (lg_orderId (mt_limit t)) \<and>
               (tr_direction t > 0 \<and> closePrice > tr_takeProfitPrice t \<or>
                tr_direction t < 0 \<and> closePrice < tr_takeProfitPrice t)
            then mt_close px REASON_TAKE_PROFIT_MARKET t w
            else (t, w))
      else (t, w))"

section \<open>Properties\<close>

text \<open>
  The trade manager deletes a margin trade only when it is not active.
\<close>

theorem mt_deletable_not_active:
  assumes "tr_canDelete (mt_isClosed t) (mt_isCanceled t)"
  shows "\<not> mt_isActive t"
  using assms by (rule mt.deletable_not_active)

theorem mt_deletable_not_active_witness:
  "\<not> mt_isActive (new_margin_trade\<lparr>mt_entry := new_leg\<lparr>lg_state := STATE_FILLED\<rparr>,
     mt_stop := new_stop_leg\<lparr>lg_state := STATE_FILLED\<rparr>\<rparr>)"
  by (rule mt_deletable_not_active)
    (simp add: tr_canDelete_def mt_isClosed_def new_margin_trade_def trade.defs)

text \<open>What a trade knows of its orders.\<close>

definition mt_ids :: "margin_trade \<Rightarrow> string set" where
  "mt_ids t = {lg_orderId (mt_entry t), lg_refId (mt_entry t), lg_orderId (mt_stop t), lg_refId (mt_stop t),
     lg_orderId (mt_limit t), lg_refId (mt_limit t)}"

lemma mt_ids_on_stats [simp]: "mt_ids (on_stats f t) = mt_ids t"
  by (simp add: mt_ids_def on_stats_def)

lemma not_target_ids: "i \<notin> mt_ids t \<Longrightarrow> r \<notin> mt_ids t \<Longrightarrow> \<not> mt_isTargetOrder t i r"
  by (auto simp: mt_isTargetOrder_def leg_target_def mt_ids_def)

text \<open>
  Whatever happens to the order that \<^verbatim>\<open>close\<close> sends, its signals carry the reference and
  identifier of that order, which no leg of the trade has. A filled trade without exit orders
  thus comes out of the call as it was, but for the exit reason: still active, with nothing counted as exited.
\<close>

theorem mt_close_unseen:
  assumes "mt_isActive t" and "\<not> sl_closing (mt_stop t)" and "\<not> hasOrder (mt_stop t)" and "\<not> hasOrder (mt_limit t)"
    and "px_newOrder px w = (ord, w1)"
    and "\<forall>od w2 ret sigs w3. px_createOrder px od w2 = (ret, sigs, w3) \<longrightarrow>
           (\<forall>s\<in>set sigs. \<exists>sg. s = OrderSig sg \<and> or_refId sg = or_refId od \<and> or_orderId sg \<notin> mt_ids t)"
    and "or_refId ord \<notin> mt_ids t"
    and "tr_filledExitQuantity t < tr_filledEntryQuantity t"
  shows "fst (mt_close px reason t w) = on_stats (\<lambda>s. s\<lparr>ts_exitReason := reason\<rparr>) t
    \<and> mt_isActive (fst (mt_close px reason t w))"
proof -
  define t1 where "t1 = on_stats (\<lambda>s. s\<lparr>ts_exitReason := reason\<rparr>) t"
  define od where "od = setReduceOnly (ord\<lparr>or_direction := - tr_direction t,
     or_orderQuantity := tr_filledEntryQuantity t - tr_filledExitQuantity t, or_orderType := ORDER_MARKET\<rparr>)"
  obtain ret sigs w3 where c: "px_createOrder px od w1 = (ret, sigs, w3)" by (cases "px_createOrder px od w1")
  have "mt_deliver sigs t1 = t1"
    unfolding mt_deliver_def
  proof (rule mt.foreign_signals, rule ballI)
    fix s assume "s \<in> set sigs"
    then obtain sg where s: "s = OrderSig sg" "or_refId sg = or_refId od" "or_orderId sg \<notin> mt_ids t"
      using assms(6) c by blast
    then have "\<not> mt_isTargetOrder t1 (or_orderId sg) (or_refId sg)"
      using assms(7) by (intro not_target_ids) (simp_all add: t1_def od_def setReduceOnly_def defineFlag_def)
    then show "case s of OrderSig sg \<Rightarrow> \<not> mt_isTargetOrder t1 (or_orderId sg) (or_refId sg)
        | PositionSig sg \<Rightarrow> \<not> mt_isTargetPosition t1 (po_positionId sg) (po_refOrderId sg)"
      by (simp add: s(1))
  qed
  then have r: "fst (mt_close px reason t w) = t1"
    using assms c by (simp add: mt_close_def mt_cancel_stop_def mt_cancel_limit_def mt_create_def Let_def
      od_def [symmetric] t1_def [symmetric])
  have "mt_isActive t1" using assms(1) by (simp add: t1_def mt_isActive_def on_stats_def split: if_splits)
  then show ?thesis by (simp only: r t1_def simp_thms)
qed

definition demo_margin_trade :: margin_trade where
  "demo_margin_trade = new_margin_trade\<lparr>mt_entry := new_leg\<lparr>lg_state := STATE_FILLED\<rparr>, tr_filledEntryQuantity := 2\<rparr>"

theorem mt_close_unseen_witness:
  "mt_isActive (fst (mt_close demo_proxy REASON_CLOSE_MARKET demo_margin_trade 1))"
proof -
  have n: "px_newOrder demo_proxy 1 = ((new_order 0)\<lparr>or_refId := ''r''\<rparr>, 2)" by (simp add: demo_proxy_def)
  show ?thesis
    by (rule mt_close_unseen [OF _ _ _ _ n, THEN conjunct2]) (simp_all add: demo_margin_trade_def new_margin_trade_def new_trade_def trade.defs mt_isActive_def hasOrder_def
      new_leg_def new_stop_leg_def new_limit_leg_def isValid_def mt_ids_def demo_proxy_def demo_signal_def order.defs)
qed

end
