(* ===== verification/Local_State.thy ===== *)
theory Local_State
  imports Trade_Proxy "HOL-Library.AList"
begin

text \<open>
  The state of the connector that simulates a broker (\<^verbatim>\<open>strategies/include/siis/connector/localconnector.h\<close>) and its virtual
  account, for one strategy with its market.

  \<^item> The handler's timestamp, the strategy's market and type of trades, the identifiers that
    \<^verbatim>\<open>Uuid::uuid5\<close> returns and \<^verbatim>\<open>O3D_MIN_DOUBLE\<close> are fields.
  \<^item> The maps of orders and positions are association lists, in the order the loops visit them.
  \<^item> The pool of positions of the trader proxy is a stack. An order of its pool is always as new (lemma \<open>reset_order_new\<close>),
    so that the pool of orders is left out.
  \<^item> An operation returns the signals that it sends to the strategy, in order. The handlers of the
    strategy's trades never call the connector, so that they may run after the call.
  \<^item> The operations take the mutex and release it before they return, except for \<^verbatim>\<open>modifyPosition\<close>, which never releases it:
    \<open>lc_locked\<close> tells whether the mutex is held between two operations.
\<close>

section \<open>The account\<close>

record account_sample =
  sm_timestamp :: dbl
  sm_equity :: dbl
  sm_profitLoss :: dbl
  sm_drawDownRate :: dbl
  sm_drawDown :: dbl

record account =
  ac_initialBalance :: dbl
  ac_balance :: dbl
  ac_usedBalance :: dbl
  ac_profitLoss :: dbl
  ac_assetProfitLoss :: dbl
  ac_drawDownRate :: dbl
  ac_drawDown :: dbl
  ac_maxDrawDownRate :: dbl
  ac_maxDrawDown :: dbl
  ac_currency :: string
  ac_precision :: int
  ac_samples :: "account_sample list"
  ac_lastUpdateTimestamp :: dbl

definition new_account :: account where
  "new_account = \<lparr>ac_initialBalance = 0, ac_balance = 1000, ac_usedBalance = 0, ac_profitLoss = 0,
     ac_assetProfitLoss = 0, ac_drawDownRate = 0, ac_drawDown = 0, ac_maxDrawDownRate = 0, ac_maxDrawDown = 0,
     ac_currency = ''USD'', ac_precision = 2, ac_samples = [], ac_lastUpdateTimestamp = 0\<rparr>"

text \<open>\<^verbatim>\<open>LocalConnector::init\<close>: the initial balance and currency of the configuration.\<close>

definition currency_precision :: "string \<Rightarrow> int" where
  "currency_precision c =
     (if c = ''USD'' \<or> c = ''USDT'' then 2
      else if c = ''USD'' \<or> c = ''USDT'' \<or> c = ''ZUSD'' then 2
      else if c = ''EUR'' \<or> c = ''ZEUR'' then 2
      else if c = ''CAD'' \<or> c = ''ZCAD'' then 2
      else if c = ''JPY'' \<or> c = ''ZJPY'' then 2
      else if c = ''BTC'' \<or> c = ''XBT'' then 8
      else if c = ''ETH'' then 8
      else if c = ''BNB'' then 8
      else if c = ''XRP'' then 4
      else 2)"

definition init_account :: "(dbl \<times> string) option \<Rightarrow> account \<Rightarrow> account" where
  "init_account config a =
     (case config of
        None \<Rightarrow> a
      | Some (balance, currency) \<Rightarrow>
          a\<lparr>ac_balance := balance, ac_initialBalance := balance, ac_currency := currency,
            ac_precision := currency_precision currency\<rparr>)"

definition updateBalance :: "account \<Rightarrow> dbl \<times> account" where
  "updateBalance a = (0, a)"

definition updateDrawDown :: "account \<Rightarrow> account" where
  "updateDrawDown a =
     (if ac_balance a > 0 \<and> ac_profitLoss a > 0 then
        (let ddRate = (ac_profitLoss a + ac_assetProfitLoss a) / ac_balance a;
             a = (if ddRate < 0
                  then a\<lparr>ac_drawDownRate := - ddRate, ac_maxDrawDownRate := max (ac_maxDrawDownRate a) (- ddRate)\<rparr> else a);
             dd = ac_profitLoss a + ac_assetProfitLoss a
         in if dd < 0
            then a\<lparr>ac_drawDown := - dd, ac_maxDrawDown := max (ac_maxDrawDown a) (- dd)\<rparr> else a)
      else a\<lparr>ac_drawDownRate := 0, ac_drawDown := 0\<rparr>)"

definition account_sample_at :: "dbl \<Rightarrow> account \<Rightarrow> account_sample" where
  "account_sample_at ts a = \<lparr>sm_timestamp = ts, sm_equity = ac_balance a, sm_profitLoss = ac_profitLoss a,
     sm_drawDownRate = ac_drawDownRate a, sm_drawDown = ac_drawDown a\<rparr>"

text \<open>
  The loop that adds one sample for each day. The values come from the last sample, read through a reference
  into the vector; the model reads it before the loop, which is what the code does as long as \<^verbatim>\<open>push_back\<close> does
  not move the vector.
\<close>

fun daily_samples :: "nat \<Rightarrow> dbl \<Rightarrow> account_sample \<Rightarrow> account_sample list" where
  "daily_samples 0 previousBt prev = []"
| "daily_samples (Suc n) previousBt prev =
     prev\<lparr>sm_timestamp := previousBt + TF_DAY\<rparr> # daily_samples n (previousBt + TF_DAY) prev"

definition set_last_sample :: "account \<Rightarrow> account_sample list \<Rightarrow> account_sample list" where
  "set_last_sample a xs = (if xs = [] then [] else butlast xs @ [account_sample_at (sm_timestamp (last xs)) a])"

definition dailyUpdate :: "date_lib \<Rightarrow> dbl \<Rightarrow> account \<Rightarrow> account" where
  "dailyUpdate dl timestamp a =
     (let currentBt = baseTime dl timestamp TF_DAY;
          a = (if ac_samples a = [] then a\<lparr>ac_samples := [account_sample_at currentBt a]\<rparr> else a);
          a = (if ac_lastUpdateTimestamp a > 0 then
                 (let previousBt = baseTime dl (ac_lastUpdateTimestamp a) TF_DAY;
                      elapsedDays = min 999 (to_int32 ((currentBt - previousBt) / TF_DAY));
                      a = (if elapsedDays > 0
                           then a\<lparr>ac_samples := ac_samples a @ daily_samples (nat elapsedDays) previousBt (last (ac_samples a))\<rparr>
                           else a)
                  in a\<lparr>ac_samples := set_last_sample a (ac_samples a)\<rparr>)
               else a)
      in a\<lparr>ac_lastUpdateTimestamp := timestamp\<rparr>)"

section \<open>The connector\<close>

record lc =
  lc_now :: dbl
  lc_uuid :: "nat \<Rightarrow> string"
  lc_uuids :: nat
  lc_undef :: dbl
  lc_market :: market
  lc_tradeType :: trade_type
  lc_orders :: "(string \<times> order) list"
  lc_positions :: "(string \<times> position) list"
  lc_freePositions :: "position list"
  lc_account :: account
  lc_locked :: bool

definition fresh_uuid :: "lc \<Rightarrow> string \<times> lc" where
  "fresh_uuid w = (lc_uuid w (lc_uuids w), w\<lparr>lc_uuids := Suc (lc_uuids w)\<rparr>)"

text \<open>
  \<^verbatim>\<open>TraderProxy::newOrder\<close> and \<^verbatim>\<open>newPosition\<close>. An empty pool is filled with a hundred new objects before the last one is
  taken.
\<close>

definition lc_newOrder :: "lc \<Rightarrow> order \<times> lc" where
  "lc_newOrder w = (let (i, w) = fresh_uuid w in ((new_order (lc_undef w))\<lparr>or_refId := i, or_strategy := True\<rparr>, w))"

definition BUCKET_SIZE :: nat where "BUCKET_SIZE = 100"

definition lc_newPosition :: "lc \<Rightarrow> position \<times> lc" where
  "lc_newPosition w =
     (let pool = (if lc_freePositions w = [] then replicate BUCKET_SIZE (new_position (lc_undef w)) else lc_freePositions w);
          p = last pool;
          (i, w) = fresh_uuid (w\<lparr>lc_freePositions := butlast pool\<rparr>)
      in (p\<lparr>po_positionId := i, po_strategy := True\<rparr>, w))"

definition lc_freePosition :: "position \<Rightarrow> lc \<Rightarrow> lc" where
  "lc_freePosition p w = w\<lparr>lc_freePositions := lc_freePositions w @ [reset_position (lc_undef w) p]\<rparr>"

text \<open>The map of the positions. A position is shared by pointer, so its update is one of the map.\<close>

definition setPosition :: "string \<Rightarrow> position \<Rightarrow> lc \<Rightarrow> lc" where
  "setPosition i p w = w\<lparr>lc_positions := AList.update i p (lc_positions w)\<rparr>"

definition findPosition :: "string \<Rightarrow> lc \<Rightarrow> position option" where
  "findPosition i w = map_of (lc_positions w) i"

definition erasePosition :: "string \<Rightarrow> lc \<Rightarrow> lc" where
  "erasePosition i w = w\<lparr>lc_positions := AList.delete i (lc_positions w)\<rparr>"

lemma findPosition_set [simp]:
  "findPosition i (setPosition j p w) = (if i = j then Some p else findPosition i w)"
  by (simp add: findPosition_def setPosition_def update_conv')

lemma findPosition_erase [simp]: "findPosition i (erasePosition j w) = (if i = j then None else findPosition i w)"
  by (simp add: findPosition_def erasePosition_def delete_conv')

lemma findPosition_free [simp]: "findPosition i (lc_freePosition p w) = findPosition i w"
  by (simp add: findPosition_def lc_freePosition_def)

lemma lc_env_set [simp]:
  "lc_now (setPosition i p w) = lc_now w" "lc_market (setPosition i p w) = lc_market w"
  "lc_undef (setPosition i p w) = lc_undef w" "lc_tradeType (setPosition i p w) = lc_tradeType w"
  "lc_orders (setPosition i p w) = lc_orders w"
  "lc_now (erasePosition i w) = lc_now w" "lc_market (erasePosition i w) = lc_market w"
  "lc_undef (erasePosition i w) = lc_undef w" "lc_tradeType (erasePosition i w) = lc_tradeType w"
  "lc_orders (erasePosition i w) = lc_orders w"
  "lc_now (lc_freePosition p w) = lc_now w" "lc_market (lc_freePosition p w) = lc_market w"
  "lc_undef (lc_freePosition p w) = lc_undef w" "lc_tradeType (lc_freePosition p w) = lc_tradeType w"
  "lc_orders (lc_freePosition p w) = lc_orders w"
  by (simp_all add: setPosition_def erasePosition_def lc_freePosition_def)

lemma lc_locked_set [simp]:
  "lc_locked (setPosition i p w) = lc_locked w" "lc_locked (erasePosition i w) = lc_locked w"
  "lc_locked (lc_freePosition p w) = lc_locked w" "lc_locked (snd (fresh_uuid w)) = lc_locked w"
  "lc_locked (snd (lc_newPosition w)) = lc_locked w" "lc_locked (snd (lc_newOrder w)) = lc_locked w"
  by (simp_all add: setPosition_def erasePosition_def lc_freePosition_def fresh_uuid_def lc_newPosition_def lc_newOrder_def Let_def)

section \<open>Properties of the account\<close>

lemma daily_samples_length [simp]: "length (daily_samples n t p) = n"
  by (induction n arbitrary: t) simp_all

lemma daily_samples_times: "map sm_timestamp (daily_samples n t p) = map (\<lambda>k. t + of_nat (Suc k) * TF_DAY) [0..<n]"
proof (induction n arbitrary: t)
  case (Suc n)
  have "map (\<lambda>k. t + of_nat (Suc k) * TF_DAY) [0..<Suc n] =
    (t + TF_DAY) # map (\<lambda>k. t + TF_DAY + of_nat (Suc k) * TF_DAY) [0..<n]"
    by (simp add: map_upt_Suc algebra_simps del: upt_Suc)
  with Suc show ?case by simp
qed simp

definition day_of :: "dbl \<Rightarrow> int" where
  "day_of ts = \<lfloor>ts / TF_DAY\<rfloor>"

definition day_starts :: "int \<Rightarrow> int \<Rightarrow> dbl list" where
  "day_starts a b = map (\<lambda>d. of_int d * TF_DAY) [a..b]"

lemma baseTime_day:
  assumes "0 \<le> ts" and "ts / TF_DAY < 2 ^ 31"
  shows "baseTime lib ts TF_DAY = of_int (day_of ts) * TF_DAY"
proof -
  have "0 \<le> ts / TF_DAY" using assms(1) by (simp add: TF_defs)
  from to_int32_nonneg [OF this assms(2)] show ?thesis by (simp add: baseTime_def day_of_def TF_defs)
qed

lemma day_starts_append:
  assumes "a \<le> b"
  shows "day_starts a b @ map (\<lambda>k. of_int b * TF_DAY + of_nat (Suc k) * TF_DAY) [0..<n] = day_starts a (b + int n)"
proof (induction n)
  case (Suc n)
  have "[a..b + int (Suc n)] = [a..b + int n] @ [b + int n + 1]"
    using assms upto_rec2 [of a "b + int (Suc n)"] by (simp add: algebra_simps)
  with Suc show ?case by (simp add: day_starts_def algebra_simps)
qed (simp add: day_starts_def)

lemma set_last_sample_times [simp]: "map sm_timestamp (set_last_sample a xs) = map sm_timestamp xs"
proof (cases xs rule: rev_cases)
  case (snoc ys y)
  then show ?thesis by (simp add: set_last_sample_def account_sample_at_def)
qed (simp add: set_last_sample_def)

lemma set_last_sample_samples [simp]:
  "set_last_sample (a\<lparr>ac_samples := ys\<rparr>) xs = set_last_sample a xs"
  by (simp add: set_last_sample_def account_sample_at_def)

lemma dailyUpdate_step:
  assumes "map sm_timestamp (ac_samples a) = day_starts d0 (day_of prev)" and "d0 \<le> day_of prev"
    and "ac_lastUpdateTimestamp a = prev" and "0 < prev" and "prev \<le> ts" and "ts / TF_DAY < 2 ^ 31"
    and "day_of ts - day_of prev < 1000"
  shows "map sm_timestamp (ac_samples (dailyUpdate lib ts a)) = day_starts d0 (day_of ts)"
    and "ac_lastUpdateTimestamp (dailyUpdate lib ts a) = ts"
    and "sm_equity (last (ac_samples (dailyUpdate lib ts a))) = ac_balance a"
proof -
  have p31: "prev / TF_DAY < 2 ^ 31" using assms(5,6) by (simp add: TF_defs)
  have le: "day_of prev \<le> day_of ts" unfolding day_of_def using assms(5) by (intro floor_mono) (simp add: TF_defs)
  have d: "0 \<le> day_of prev" "day_of ts < 2 ^ 31"
    using assms(4,6) unfolding day_of_def by (auto simp: TF_defs floor_less_iff)
  have ne: "ac_samples a \<noteq> []" using assms(1,2) by (auto simp: day_starts_def)
  define n where "n = nat (day_of ts - day_of prev)"
  have n: "int n = day_of ts - day_of prev" using le by (simp add: n_def)
  have b: "baseTime lib ts TF_DAY = of_int (day_of ts) * TF_DAY" "baseTime lib prev TF_DAY = of_int (day_of prev) * TF_DAY"
    using baseTime_day assms(4,5,6) p31 by simp_all
  have e: "to_int32 ((baseTime lib ts TF_DAY - baseTime lib prev TF_DAY) / TF_DAY) = int n"
  proof -
    have "(baseTime lib ts TF_DAY - baseTime lib prev TF_DAY) / TF_DAY = of_int (int n)"
      unfolding b by (simp add: n TF_defs diff_divide_distrib)
    moreover have "to_int32 (of_int (int n)) = int n"
      using to_int32_nonneg [of "of_int (int n)"] d n le by simp
    ultimately show ?thesis by simp
  qed
  define xs where "xs = (if 0 < n then ac_samples a @ daily_samples n (of_int (day_of prev) * TF_DAY) (last (ac_samples a))
    else ac_samples a)"
  have mn: "min 999 (int n) = int n" using n assms(7) by simp
  have r: "dailyUpdate lib ts a = a\<lparr>ac_samples := set_last_sample a xs, ac_lastUpdateTimestamp := ts\<rparr>"
    using ne assms(3,4) mn by (simp add: dailyUpdate_def Let_def e [unfolded b(2)] xs_def b(2))
  have x: "map sm_timestamp xs = day_starts d0 (day_of ts)"
  proof -
    have "map sm_timestamp xs = day_starts d0 (day_of prev) @ map (\<lambda>k. of_int (day_of prev) * TF_DAY + of_nat (Suc k) * TF_DAY) [0..<n]"
    proof (cases "0 < n")
      case True
      then show ?thesis by (simp only: xs_def if_True map_append daily_samples_times assms(1))
    next
      case False
      then have "xs = ac_samples a" "[0..<n] = []" by (simp_all add: xs_def)
      then show ?thesis by (simp only: assms(1) list.map append_Nil2)
    qed
    also have "\<dots> = day_starts d0 (day_of prev + int n)" by (rule day_starts_append [OF assms(2)])
    also have "day_of prev + int n = day_of ts" using n by simp
    finally show ?thesis .
  qed
  show "map sm_timestamp (ac_samples (dailyUpdate lib ts a)) = day_starts d0 (day_of ts)"
    "ac_lastUpdateTimestamp (dailyUpdate lib ts a) = ts"
    by (simp_all add: r x)
  have "xs \<noteq> []" using ne by (simp add: xs_def)
  then show "sm_equity (last (ac_samples (dailyUpdate lib ts a))) = ac_balance a"
    by (simp add: r set_last_sample_def account_sample_at_def)
qed

lemma dailyUpdate_balance [simp]: "ac_balance (dailyUpdate lib ts a) = ac_balance a"
  by (simp add: dailyUpdate_def Let_def)

text \<open>
  Updates of the account at rising timestamps, with gaps below 1000 days, keep exactly one sample for every day from
  the first update to the last one, and the last sample holds the current balance.
\<close>

theorem dailyUpdate_one_per_day:
  assumes "0 < t0" and "sorted (t0 # ts)" and "\<forall>t\<in>set (t0 # ts). t / TF_DAY < 2 ^ 31"
    and "\<forall>i < length ts. day_of (ts ! i) - day_of ((t0 # ts) ! i) < 1000"
    and "ac_samples a = []" and "ac_lastUpdateTimestamp a = 0"
  shows "let a' = foldl (\<lambda>a t. dailyUpdate lib t a) a (t0 # ts)
     in map sm_timestamp (ac_samples a') = day_starts (day_of t0) (day_of (last (t0 # ts)))
      \<and> sm_equity (last (ac_samples a')) = ac_balance a"
proof -
  have start: "map sm_timestamp (ac_samples (dailyUpdate lib t0 a)) = day_starts (day_of t0) (day_of t0)"
    "ac_lastUpdateTimestamp (dailyUpdate lib t0 a) = t0"
    "sm_equity (last (ac_samples (dailyUpdate lib t0 a))) = ac_balance a"
    using assms(1,3,5,6) baseTime_day [of t0 lib]
    by (simp_all add: dailyUpdate_def Let_def account_sample_at_def day_starts_def)
  have "map sm_timestamp (ac_samples (foldl (\<lambda>a t. dailyUpdate lib t a) b us)) = day_starts d0 (day_of (last (p # us)))
      \<and> sm_equity (last (ac_samples (foldl (\<lambda>a t. dailyUpdate lib t a) b us))) = ac_balance b"
    if "map sm_timestamp (ac_samples b) = day_starts d0 (day_of p)" "ac_lastUpdateTimestamp b = p"
      "sm_equity (last (ac_samples b)) = ac_balance b" "d0 \<le> day_of p"
      "0 < p" "sorted (p # us)" "\<forall>t\<in>set us. t / TF_DAY < 2 ^ 31"
      "\<forall>i < length us. day_of (us ! i) - day_of ((p # us) ! i) < 1000" for b d0 p us
    using that
  proof (induction us arbitrary: b p)
    case (Cons u us)
    have le: "p \<le> u" and u: "u / TF_DAY < 2 ^ 31" and gap: "day_of u - day_of p < 1000"
      using Cons.prems(6-8) by force+
    note st = dailyUpdate_step [OF Cons.prems(1,4,2,5) le u gap, of lib]
    have "day_of p \<le> day_of u" unfolding day_of_def using le by (intro floor_mono) (simp add: TF_defs)
    moreover have "\<forall>i < length us. day_of (us ! i) - day_of ((u # us) ! i) < 1000"
      using Cons.prems(8) by (metis Suc_less_eq length_Cons nth_Cons_Suc)
    ultimately show ?case
      using Cons.IH [of "dailyUpdate lib u b" u] st Cons.prems(4-7) le by simp
  qed simp
  from this [OF start(1,2) _ _ assms(1,2) _ assms(4)] start(3) assms(3) show ?thesis by simp
qed

theorem dailyUpdate_one_per_day_witness:
  "map sm_timestamp (ac_samples (foldl (\<lambda>a t. dailyUpdate no_dates t a) new_account [100, 200, 86500, 300000]))
    = [0, 86400, 172800, 259200]"
proof -
  have d: "day_of 100 = 0" "day_of 200 = 0" "day_of 86500 = 1" "day_of 300000 = 3" by code_simp+
  have "let a' = foldl (\<lambda>a t. dailyUpdate no_dates t a) new_account [100, 200, 86500, 300000]
     in map sm_timestamp (ac_samples a') = day_starts (day_of 100) (day_of (last [100, 200, 86500, 300000]))
      \<and> sm_equity (last (ac_samples a')) = ac_balance new_account"
    by (rule dailyUpdate_one_per_day)
      (auto simp: TF_defs new_account_def d less_Suc_eq nth_Cons split: nat.splits)
  moreover have "day_starts (day_of 100) (day_of (last [100, 200, 86500, 300000])) = [0, 86400, 172800, 259200]"
    by code_simp
  ultimately show ?thesis by (simp add: Let_def)
qed

end
