(* ===== verification/Local_Ind.thy ===== *)
theory Local_Ind
  imports Local_State
begin

text \<open>
  \<^verbatim>\<open>strategies/src/connector/localconnectorindmargin.cpp\<close>: how the local connector executes an order on the one
  position of a market with indivisible margin. The position is registered under the identifier of the market.
\<close>

section \<open>Signals\<close>

definition ind_openSignal :: "lc \<Rightarrow> order \<Rightarrow> order_signal" where
  "ind_openSignal w od =
     (order_to_signal OS_OPENED False (new_order (lc_undef w)))
       \<lparr>or_direction := or_direction od, or_marketId := or_marketId od, or_created := lc_now w,
        or_orderId := or_orderId od, or_refId := or_refId od, or_orderType := or_orderType od,
        or_flags := or_flags od, or_positionId := mk_marketId (lc_market w)\<rparr>"

definition ind_tradedSignal :: "lc \<Rightarrow> order \<Rightarrow> dbl \<Rightarrow> order_signal" where
  "ind_tradedSignal w od execPrice =
     (order_to_signal OS_TRADED True (new_order (lc_undef w)))
       \<lparr>or_direction := or_direction od, or_marketId := or_marketId od, or_executed := lc_now w,
        or_orderId := or_orderId od, or_refId := or_refId od, or_orderType := or_orderType od,
        or_flags := or_flags od, or_avgPrice := execPrice, or_execPrice := execPrice,
        or_filled := or_orderQuantity od, or_cumulativeFilled := or_orderQuantity od\<rparr>"

definition ind_deletedSignal :: "lc \<Rightarrow> order \<Rightarrow> order_signal" where
  "ind_deletedSignal w od =
     (order_to_signal OS_DELETED False (new_order (lc_undef w)))
       \<lparr>or_direction := or_direction od, or_marketId := or_marketId od, or_executed := lc_now w,
        or_orderId := or_orderId od, or_refId := or_refId od, or_orderType := or_orderType od,
        or_flags := or_flags od\<rparr>"

definition ind_positionSignal :: "position_event \<Rightarrow> lc \<Rightarrow> order \<Rightarrow> position \<Rightarrow> dbl \<Rightarrow> dbl \<Rightarrow> position_signal" where
  "ind_positionSignal ev w od p created execPrice =
     (position_to_signal ev (new_position (lc_undef w)))
       \<lparr>po_direction := or_direction od, po_marketId := or_marketId od, po_created := created, po_updated := lc_now w,
        po_refOrderId := or_refId od, po_positionId := po_positionId p, po_avgPrice := execPrice,
        po_execPrice := execPrice, po_quantity := po_quantity p, po_filled := or_orderQuantity od,
        po_cumulativeFilled := or_orderQuantity od\<rparr>"

definition ind_positionDeleted :: "lc \<Rightarrow> order \<Rightarrow> position \<Rightarrow> position_signal" where
  "ind_positionDeleted w od p =
     (position_to_signal PS_DELETED (new_position (lc_undef w)))
       \<lparr>po_direction := po_direction p, po_marketId := po_marketId p, po_created := po_created p,
        po_updated := po_updated p, po_refOrderId := or_refId od, po_quantity := 0, po_positionId := po_positionId p\<rparr>"

text \<open>The four signals of an execution, with the update of the position in between.\<close>

definition ind_signals :: "lc \<Rightarrow> order \<Rightarrow> dbl \<Rightarrow> position_signal \<Rightarrow> signal list" where
  "ind_signals w od execPrice ps =
     [OrderSig (ind_openSignal w od), OrderSig (ind_tradedSignal w od execPrice), PositionSig ps,
      OrderSig (ind_deletedSignal w od)]"

section \<open>Execution\<close>

definition ind_openPosition :: "order \<Rightarrow> dbl \<Rightarrow> lc \<Rightarrow> int \<times> signal list \<times> lc" where
  "ind_openPosition od openPrice w =
     (if \<not> or_strategy od then (RET_ERROR, [], w)
      else
        let mid = mk_marketId (lc_market w);
            (p, w) =
              (case findPosition mid w of
                 Some p \<Rightarrow> (p, w)
               | None \<Rightarrow>
                   (let (p, w) = lc_newPosition w
                    in (p\<lparr>po_positionId := mid, po_refOrderId := or_refId od, po_direction := or_direction od,
                         po_marketId := or_marketId od, po_created := lc_now w\<rparr>, w)));
            p = p\<lparr>po_quantity := or_orderQuantity od, po_updated := lc_now w,
                  po_local := (po_local p)\<lparr>lo_entryPrice := openPrice, lo_entryQty := or_orderQuantity od\<rparr>\<rparr>
        in (RET_OK, ind_signals w od openPrice (ind_positionSignal PS_OPENED w od p (lc_now w) openPrice),
            setPosition mid p w))"

text \<open>The operations on the position that exists return it changed.\<close>

definition ind_increase :: "order \<Rightarrow> position \<Rightarrow> dbl \<Rightarrow> lc \<Rightarrow> int \<times> signal list \<times> position" where
  "ind_increase od p execPrice w =
     (if \<not> or_strategy od then (RET_ERROR, [], p)
      else if execPrice \<le> 0 then (RET_ERROR, [], p)
      else
        let avg = (po_avgPrice p * po_quantity p + execPrice * or_orderQuantity od) / (po_quantity p + or_orderQuantity od);
            qty = adjustQty (lc_market w) (po_quantity p + or_orderQuantity od) True;
            p = p\<lparr>po_updated := lc_now w, po_avgPrice := avg, po_quantity := qty,
                  po_local := (po_local p)\<lparr>lo_entryPrice := avg, lo_entryQty := qty\<rparr>\<rparr>
        in (RET_OK, ind_signals w od execPrice (ind_positionSignal PS_UPDATED w od p (po_created p) execPrice), p))"

definition ind_close :: "order \<Rightarrow> position \<Rightarrow> dbl \<Rightarrow> lc \<Rightarrow> int \<times> signal list \<times> position" where
  "ind_close od p execPrice w =
     (if \<not> or_strategy od then (RET_ERROR, [], p)
      else if execPrice \<le> 0 then (RET_ERROR, [], p)
      else
        let m = lc_market w;
            l = po_local p;
            l = l\<lparr>lo_exitPrice := (lo_exitPrice l * lo_exitQty l + or_orderQuantity od * execPrice)
                                   / (lo_exitQty l + or_orderQuantity od),
                  lo_exitQty := adjustQty m (lo_exitQty l + or_orderQuantity od) True\<rparr>;
            qty = (if po_quantity p > or_orderQuantity od then adjustQty m (po_quantity p - or_orderQuantity od) True else 0);
            p = p\<lparr>po_updated := lc_now w, po_quantity := qty, po_local := l\<lparr>lo_entryQty := qty\<rparr>\<rparr>
        in (RET_OK, ind_signals w od execPrice (ind_positionSignal PS_UPDATED w od p (po_created p) execPrice), p))"

definition ind_reverse :: "order \<Rightarrow> position \<Rightarrow> dbl \<Rightarrow> lc \<Rightarrow> int \<times> signal list \<times> position" where
  "ind_reverse od p execPrice w =
     (if closeOnly od \<or> reduceOnly od then ind_close od p execPrice w
      else if \<not> or_strategy od then (RET_ERROR, [], p)
      else if execPrice \<le> 0 then (RET_ERROR, [], p)
      else
        let qty = adjustQty (lc_market w) \<bar>po_quantity p - or_orderQuantity od\<bar> True;
            p = p\<lparr>po_updated := lc_now w, po_quantity := qty, po_avgPrice := execPrice,
                  po_local := (po_local p)\<lparr>lo_exitPrice := 0, lo_exitQty := 0, lo_entryPrice := execPrice, lo_entryQty := qty\<rparr>\<rparr>
        in (RET_OK, ind_signals w od execPrice (ind_positionSignal PS_UPDATED w od p (po_created p) execPrice), p))"

definition exec_ind :: "order \<Rightarrow> dbl \<Rightarrow> dbl \<Rightarrow> lc \<Rightarrow> int \<times> signal list \<times> lc" where
  "exec_ind od openPrice closePrice w =
     (if \<not> or_strategy od then (RET_ERROR, [], w)
      else if lc_tradeType w \<noteq> TYPE_IND_MARGIN then (RET_ERROR, [], w)
      else if hedging od \<and> \<not> mk_hedging (lc_market w) then (RET_ERROR, [], w)
      else
        let mid = mk_marketId (lc_market w)
        in case findPosition mid w of
             Some p \<Rightarrow>
               (let (res, sigs, p) =
                  (if po_direction p = or_direction od then ind_increase od p openPrice w
                   else if or_orderQuantity od \<le> po_quantity p then ind_close od p closePrice w
                   else if or_orderQuantity od > po_quantity p then ind_reverse od p closePrice w
                   else (RET_ERROR, [], p));
                  w = setPosition mid p w
                in if po_quantity p \<le> 0
                   then (res, sigs @ [PositionSig (ind_positionDeleted w od p)], erasePosition mid (lc_freePosition p w))
                   else (res, sigs, w))
           | None \<Rightarrow>
               (if closeOnly od \<or> reduceOnly od then (RET_INVALID_ARGS, [], w)
                else ind_openPosition od openPrice w))"

end
