(* ===== verification/Local_Position.thy ===== *)
theory Local_Position
  imports Local_State
begin

text \<open>
  \<^verbatim>\<open>strategies/src/connector/localconnectorposition.cpp\<close>, \<^verbatim>\<open>localconnectorfifomargin.cpp\<close> and \<^verbatim>\<open>localconnectorasset.cpp\<close>: the local
  connector on markets with individual positions, and the two executions that are not implemented.
\<close>

definition exec_fifo :: "order \<Rightarrow> dbl \<Rightarrow> dbl \<Rightarrow> lc \<Rightarrow> int \<times> signal list \<times> lc" where
  "exec_fifo od openPrice closePrice w =
     (if \<not> or_strategy od then (RET_ERROR, [], w)
      else if lc_tradeType w \<noteq> TYPE_IND_MARGIN then (RET_ERROR, [], w)
      else if hedging od \<and> \<not> mk_hedging (lc_market w) then (RET_ERROR, [], w)
      else (RET_ERROR, [], w))"

definition exec_asset :: "order \<Rightarrow> dbl \<Rightarrow> dbl \<Rightarrow> lc \<Rightarrow> int \<times> signal list \<times> lc" where
  "exec_asset od openPrice closePrice w = (RET_ERROR, [], w)"

text \<open>What \<^verbatim>\<open>_createPosition\<close> sets of a position, and its two signals.\<close>

definition createdPosition :: "order \<Rightarrow> dbl \<Rightarrow> lc \<Rightarrow> position \<Rightarrow> position" where
  "createdPosition od execPrice w p =
     p\<lparr>po_positionId := or_orderId od, po_refOrderId := or_refId od, po_direction := or_direction od,
       po_marketId := or_marketId od, po_created := lc_now w, po_updated := lc_now w,
       po_quantity := or_orderQuantity od, po_stopPrice := or_stopPrice od,
       po_limitPrice := or_limitPrice od, po_avgPrice := execPrice, po_execPrice := execPrice,
       po_profitCurrency := sy_symbol (mk_quote (lc_market w)),
       po_local := (po_local p)\<lparr>lo_entryPrice := execPrice, lo_entryQty := or_orderQuantity od\<rparr>\<rparr>"

definition openPositionSignal :: "order \<Rightarrow> dbl \<Rightarrow> lc \<Rightarrow> position_signal" where
  "openPositionSignal od execPrice w =
     (position_to_signal PS_OPENED (new_position (lc_undef w)))
       \<lparr>po_direction := or_direction od, po_marketId := or_marketId od, po_created := lc_now w,
        po_updated := lc_now w, po_refOrderId := or_refId od, po_positionId := or_orderId od,
        po_avgPrice := execPrice, po_execPrice := execPrice, po_filled := or_orderQuantity od,
        po_cumulativeFilled := or_orderQuantity od\<rparr>"

definition deletedOrderSignal :: "order \<Rightarrow> lc \<Rightarrow> order_signal" where
  "deletedOrderSignal od w =
     (order_to_signal OS_DELETED False (new_order (lc_undef w)))
       \<lparr>or_direction := or_direction od, or_marketId := or_marketId od, or_executed := lc_now w,
        or_orderId := or_orderId od, or_refId := or_refId od, or_orderType := or_orderType od,
        or_flags := or_flags od\<rparr>"

definition createPosition :: "order \<Rightarrow> dbl \<Rightarrow> lc \<Rightarrow> int \<times> signal list \<times> lc" where
  "createPosition od execPrice w =
     (if \<not> or_strategy od then (RET_ERROR, [], w)
      else
        let (p, w) = lc_newPosition w
        in if execPrice \<le> 0 then (RET_ERROR, [], w)
           else
             let p = createdPosition od execPrice w p
             in (RET_OK, [PositionSig (openPositionSignal od execPrice w), OrderSig (deletedOrderSignal od w)],
                 setPosition (po_positionId p) p w))"

text \<open>\<^verbatim>\<open>_reducePosition\<close> only writes a debug message.\<close>

definition reducePosition :: "position \<Rightarrow> dbl \<Rightarrow> int" where
  "reducePosition p execPrice = (if \<not> po_strategy p then RET_ERROR else if execPrice \<le> 0 then RET_ERROR else RET_OK)"

definition deletedPositionSignal :: "position \<Rightarrow> dbl \<Rightarrow> lc \<Rightarrow> position_signal" where
  "deletedPositionSignal p execPrice w =
     (position_to_signal PS_DELETED (new_position (lc_undef w)))
       \<lparr>po_direction := po_direction p, po_marketId := po_marketId p, po_created := po_created p,
        po_updated := lc_now w, po_refOrderId := po_refOrderId p, po_positionId := po_positionId p,
        po_avgPrice := execPrice, po_execPrice := execPrice, po_filled := po_quantity p,
        po_cumulativeFilled := lo_exitQty (po_local p)\<rparr>"

definition closePosition :: "position \<Rightarrow> dbl \<Rightarrow> lc \<Rightarrow> int \<times> signal list \<times> position" where
  "closePosition p execPrice w =
     (if \<not> po_strategy p then (RET_ERROR, [], p)
      else if execPrice \<le> 0 then (RET_ERROR, [], p)
      else
        let p = p\<lparr>po_updated := lc_now w,
                  po_local := (po_local p)\<lparr>lo_exitPrice := execPrice, lo_exitQty := lo_entryQty (po_local p)\<rparr>\<rparr>
        in (RET_OK, [PositionSig (deletedPositionSignal p execPrice w)], (updatePnl (Some (lc_market w)) p)\<lparr>po_quantity := 0\<rparr>))"

definition updatePosition :: "position \<Rightarrow> lc \<Rightarrow> signal list \<times> position" where
  "updatePosition p w =
     (let m = lc_market w
      in if po_quantity p \<le> 0 then ([], p)
         else if \<not> hasPosition m then ([], p)
         else
           let closePrice = closeExecPrice m (po_direction p);
               closedBy = (if po_stopPrice p > 0 \<and> (po_direction p > 0 \<and> closePrice \<le> po_stopPrice p \<or>
                              po_direction p < 0 \<and> closePrice \<ge> po_stopPrice p)
                           then 1 else (0 :: int));
               closedBy = (if po_limitPrice p > 0 \<and> (po_direction p > 0 \<and> closePrice \<ge> po_limitPrice p \<or>
                              po_direction p < 0 \<and> closePrice \<le> po_limitPrice p)
                           then 2 else closedBy)
           in if closedBy > 0 then (let (res, sigs, p) = closePosition p closePrice w in (sigs, p)) else ([], p))"

definition exec_position :: "order \<Rightarrow> dbl \<Rightarrow> dbl \<Rightarrow> lc \<Rightarrow> int \<times> signal list \<times> lc" where
  "exec_position od openPrice closePrice w =
     (if \<not> or_strategy od then (RET_ERROR, [], w)
      else if lc_tradeType w \<noteq> TYPE_POSITION then (RET_ERROR, [], w)
      else if \<not> hedging od then (RET_ERROR, [], w)
      else if isEmpty (or_positionId od) then
        (if closeOnly od \<or> reduceOnly od then (RET_INVALID_ARGS, [], w) else createPosition od openPrice w)
      else
        case findPosition (or_positionId od) w of
          Some p \<Rightarrow>
            (if or_orderQuantity od > 0 \<and> or_orderQuantity od < po_quantity p
             then (reducePosition p closePrice, [], w)
             else (let (res, sigs, p') = closePosition p closePrice w
                   in (res, sigs, setPosition (or_positionId od) p' w)))
        | None \<Rightarrow> (RET_ERROR, [], w))"

end
