(* ===== verification/Local_Connector.thy ===== *)
theory Local_Connector
  imports Local_Ind Local_Position
begin

text \<open>
  \<^verbatim>\<open>strategies/src/connector/localconnector.cpp\<close>: the connector that simulates a broker. Market orders execute when they are
  created; the other orders wait in a map until \<^verbatim>\<open>update\<close> finds their price reached.
\<close>

section \<open>Orders\<close>

definition lc_createOrder :: "order \<Rightarrow> lc \<Rightarrow> int \<times> signal list \<times> lc" where
  "lc_createOrder od w =
     (if or_orderType od = ORDER_MARKET then
        (let m = lc_market w;
             openPrice = openExecPrice m (or_direction od);
             closePrice = closeExecPrice m (or_direction od);
             (i, w) = fresh_uuid w;
             od = od\<lparr>or_orderId := i, or_created := lc_now w\<rparr>
         in case lc_tradeType w of
              TYPE_ASSET \<Rightarrow> exec_asset od openPrice closePrice w
            | TYPE_MARGIN \<Rightarrow> exec_fifo od openPrice closePrice w
            | TYPE_IND_MARGIN \<Rightarrow> exec_ind od openPrice closePrice w
            | TYPE_POSITION \<Rightarrow> exec_position od openPrice closePrice w)
      else
        (let (i, w) = fresh_uuid w;
             od = od\<lparr>or_orderId := i\<rparr>;
             sg = (order_to_signal OS_OPENED False (new_order (lc_undef w)))
               \<lparr>or_direction := or_direction od, or_marketId := or_marketId od, or_created := lc_now w,
                or_orderId := or_orderId od, or_refId := or_refId od, or_orderType := or_orderType od,
                or_orderQuantity := or_orderQuantity od, or_orderPrice := or_orderPrice od,
                or_orderStopPrice := or_orderStopPrice od, or_flags := or_flags od\<rparr>
         in (RET_OK, [OrderSig sg], w\<lparr>lc_orders := AList.update i od (lc_orders w)\<rparr>)))"

definition lc_cancelSignal :: "lc \<Rightarrow> string \<Rightarrow> order \<Rightarrow> order_signal" where
  "lc_cancelSignal w orderId od =
     (order_to_signal OS_CANCELED False (new_order (lc_undef w)))
       \<lparr>or_executed := lc_now w, or_orderId := orderId, or_refId := or_refId od, or_orderType := or_orderType od\<rparr>"

definition lc_cancelOrder :: "string \<Rightarrow> lc \<Rightarrow> int \<times> signal list \<times> lc" where
  "lc_cancelOrder orderId w =
     (if isValid orderId then
        (case map_of (lc_orders w) orderId of
           Some od \<Rightarrow> (RET_OK, [OrderSig (lc_cancelSignal w orderId od)], w\<lparr>lc_orders := AList.delete orderId (lc_orders w)\<rparr>)
         | None \<Rightarrow> (RET_INVALID_ARGS, [], w))
      else (RET_INVALID_ARGS, [], w))"

section \<open>Positions\<close>

definition lc_closePosition :: "string \<Rightarrow> int \<Rightarrow> dbl \<Rightarrow> bool \<Rightarrow> dbl \<Rightarrow> lc \<Rightarrow> int \<times> signal list \<times> lc" where
  "lc_closePosition positionId direction quantity taker limitPrice w =
     (if isValid positionId then
        (case findPosition positionId w of
           Some p \<Rightarrow>
             (let m = lc_market w;
                  closePrice = closeExecPrice m (po_direction p);
                  (res, sigs, p) =
                    (if hasPosition m then
                       (if quantity > 0 \<and> quantity < po_quantity p then (reducePosition p closePrice, [], p)
                        else closePosition p closePrice w)
                     else (RET_ERROR, [], p));
                  w = setPosition positionId p w
              in if res = RET_OK then (res, sigs, lc_freePosition p (erasePosition positionId w)) else (res, sigs, w))
         | None \<Rightarrow> (RET_INVALID_ARGS, [], w))
      else (RET_INVALID_ARGS, [], w))"

text \<open>
  \<^verbatim>\<open>modifyPosition\<close> locks the mutex and returns without unlocking it, on every path.
\<close>

definition lc_modifyPosition :: "string \<Rightarrow> dbl \<Rightarrow> dbl \<Rightarrow> lc \<Rightarrow> int \<times> signal list \<times> lc" where
  "lc_modifyPosition positionId stopPrice limitPrice w =
     (let w = w\<lparr>lc_locked := True\<rparr>
      in case findPosition positionId w of
           None \<Rightarrow> (RET_ERROR, [], w)
         | Some p \<Rightarrow>
             if \<not> hasPosition (lc_market w) then (RET_ERROR, [], w)
             else
               let p = (if limitPrice \<ge> 0 then p\<lparr>po_limitPrice := limitPrice\<rparr> else p);
                   p = (if stopPrice \<ge> 0 then p\<lparr>po_stopPrice := stopPrice\<rparr> else p)
               in (RET_OK, [], setPosition positionId p w))"

text \<open>
  The entry of an operation that takes the mutex (\<^verbatim>\<open>update\<close>, \<^verbatim>\<open>createOrder\<close>, \<^verbatim>\<open>cancelOrder\<close>, \<^verbatim>\<open>closePosition\<close>,
  \<^verbatim>\<open>modifyPosition\<close>): it does not return (\<open>None\<close>) when the mutex is held, unless the mutex lets the call in \<open>again\<close>. Whether
  \<^verbatim>\<open>o3d::FastMutex\<close>, which belongs to a library outside the repository, lets in the thread that holds it is a parameter.
\<close>

definition lc_enter :: "bool \<Rightarrow> (lc \<Rightarrow> 'a) \<Rightarrow> lc \<Rightarrow> 'a option" where
  "lc_enter again f w = (if lc_locked w \<and> \<not> again then None else Some (f w))"

section \<open>Waiting orders\<close>

text \<open>
  The five handlers differ in the trigger and in the prices of the execution. The code of the execution is ignored: an order that
  is triggered is done, even when none of the executions applies to it.
\<close>

definition handle_exec :: "order \<Rightarrow> dbl \<Rightarrow> dbl \<Rightarrow> lc \<Rightarrow> signal list \<times> lc" where
  "handle_exec od openPrice closePrice w =
     (let m = lc_market w
      in if hasPosition m \<and> margin od then snd (exec_position od openPrice closePrice w)
         else if fifoPosition m \<and> margin od then snd (exec_fifo od openPrice closePrice w)
         else if indivisiblePosition m \<and> margin od then snd (exec_ind od openPrice closePrice w)
         else if hasSpot m \<and> \<not> margin od then snd (exec_asset od openPrice closePrice w)
         else ([], w))"

definition market_prices :: "market \<Rightarrow> order \<Rightarrow> dbl \<times> dbl" where
  "market_prices m od =
     (if or_direction od > 0 then (mk_ask m, mk_bid m)
      else if or_direction od < 0 then (mk_bid m, mk_ask m) else (0, 0))"

definition limited_prices :: "market \<Rightarrow> order \<Rightarrow> dbl \<times> dbl" where
  "limited_prices m od =
     (if or_direction od > 0 then (min (or_orderPrice od) (mk_ask m), min (or_orderPrice od) (mk_bid m))
      else if or_direction od < 0 then (max (or_orderPrice od) (mk_bid m), max (or_orderPrice od) (mk_ask m)) else (0, 0))"

definition handleLimitOrder :: "order \<Rightarrow> lc \<Rightarrow> bool \<times> signal list \<times> lc" where
  "handleLimitOrder od w =
     (let m = lc_market w
      in if or_orderType od \<noteq> ORDER_LIMIT then (False, [], w)
         else if (or_direction od > 0 \<and> mk_ask m \<le> or_orderPrice od) \<or> (or_direction od < 0 \<and> mk_bid m \<ge> or_orderPrice od)
         then (let (op, cl) = market_prices m od in (True, handle_exec od op cl w))
         else (False, [], w))"

definition handleStopOrder :: "order \<Rightarrow> lc \<Rightarrow> bool \<times> signal list \<times> lc" where
  "handleStopOrder od w =
     (let m = lc_market w
      in if or_orderType od \<noteq> ORDER_STOP then (False, [], w)
         else if (or_direction od > 0 \<and> mk_bid m \<ge> or_stopPrice od) \<or> (or_direction od < 0 \<and> mk_ask m \<le> or_stopPrice od)
         then (let (op, cl) = market_prices m od in (True, handle_exec od op cl w))
         else (False, [], w))"

definition handleStopLimitOrder :: "order \<Rightarrow> lc \<Rightarrow> bool \<times> signal list \<times> lc" where
  "handleStopLimitOrder od w =
     (let m = lc_market w
      in if or_orderType od \<noteq> ORDER_STOP_LIMIT then (False, [], w)
         else if (or_direction od > 0 \<and> mk_bid m \<ge> or_stopPrice od) \<or> (or_direction od < 0 \<and> mk_ask m \<le> or_stopPrice od)
         then (let (op, cl) = limited_prices m od in (True, handle_exec od op cl w))
         else (False, [], w))"

definition handleTakeProfitOrder :: "order \<Rightarrow> lc \<Rightarrow> bool \<times> signal list \<times> lc" where
  "handleTakeProfitOrder od w =
     (let m = lc_market w
      in if or_orderType od \<noteq> ORDER_TAKE_PROFIT then (False, [], w)
         else if (or_direction od > 0 \<and> mk_bid m \<le> or_stopPrice od) \<or> (or_direction od < 0 \<and> mk_ask m \<ge> or_stopPrice od)
         then (let (op, cl) = market_prices m od in (True, handle_exec od op cl w))
         else (False, [], w))"

definition handleTakeProfitLimitOrder :: "order \<Rightarrow> lc \<Rightarrow> bool \<times> signal list \<times> lc" where
  "handleTakeProfitLimitOrder od w =
     (let m = lc_market w
      in if or_orderType od \<noteq> ORDER_TAKE_PROFIT_LIMIT then (False, [], w)
         else if (or_direction od > 0 \<and> mk_bid m \<le> or_stopPrice od) \<or> (or_direction od < 0 \<and> mk_ask m \<ge> or_stopPrice od)
         then (let (op, cl) = limited_prices m od in (True, handle_exec od op cl w))
         else (False, [], w))"

definition handleOrder :: "order \<Rightarrow> lc \<Rightarrow> bool \<times> signal list \<times> lc" where
  "handleOrder od w =
     (if or_orderType od = ORDER_LIMIT then handleLimitOrder od w
      else if or_orderType od = ORDER_STOP then handleStopOrder od w
      else if or_orderType od = ORDER_STOP_LIMIT then handleStopLimitOrder od w
      else if or_orderType od = ORDER_TAKE_PROFIT then handleTakeProfitOrder od w
      else if or_orderType od = ORDER_TAKE_PROFIT_LIMIT then handleTakeProfitLimitOrder od w
      else (False, [], w))"

text \<open>The loop over the waiting orders gives those that are done.\<close>

fun update_orders :: "(string \<times> order) list \<Rightarrow> lc \<Rightarrow> order list \<times> signal list \<times> lc" where
  "update_orders [] w = ([], [], w)"
| "update_orders ((i, od) # ods) w =
     (let (done', sigs, w) = handleOrder od w;
          (removed, sigs', w) = update_orders ods w
      in (if done' then od # removed else removed, sigs @ sigs', w))"

fun update_positions :: "(string \<times> position) list \<Rightarrow> lc \<Rightarrow> signal list \<times> lc" where
  "update_positions [] w = ([], w)"
| "update_positions ((i, p) # ps) w =
     (let (sigs, p) = (if hasPosition (lc_market w) then updatePosition p w else ([], p));
          w = setPosition i (updatePnl (Some (lc_market w)) p) w;
          (sigs', w) = update_positions ps w
      in (sigs @ sigs', w))"

text \<open>The positions are visited when there are none: the test of the code is inverted.\<close>

definition lc_update :: "date_lib \<Rightarrow> lc \<Rightarrow> signal list \<times> lc" where
  "lc_update dl w =
     (let (removed, sigs, w) = (if lc_orders w \<noteq> [] then update_orders (lc_orders w) w else ([], [], w));
          (sigs', w) = (if lc_positions w = [] then update_positions (lc_positions w) w else ([], w));
          a = snd (updateBalance (lc_account w));
          a = dailyUpdate dl (lc_now w) (updateDrawDown a);
          w = w\<lparr>lc_account := a\<rparr>;
          w = fold (\<lambda>od w. w\<lparr>lc_orders := AList.delete (or_orderId od) (lc_orders w)\<rparr>) removed w
      in (sigs @ sigs', w))"

definition lc_terminate :: "lc \<Rightarrow> lc" where
  "lc_terminate w =
     (fold (\<lambda>(i, p) w. lc_freePosition p w) (lc_positions w) (w\<lparr>lc_orders := []\<rparr>))\<lparr>lc_positions := []\<rparr>"

section \<open>The connector as the proxy of a trade\<close>

text \<open>The proxy only passes its calls on to the connector (\<^verbatim>\<open>strategies/src/connector/traderproxy.cpp\<close>).\<close>

definition local_proxy :: "dbl \<Rightarrow> lc proxy" where
  "local_proxy undef = \<lparr>px_newOrder = lc_newOrder, px_createOrder = lc_createOrder, px_cancelOrder = lc_cancelOrder,
     px_modifyPosition = lc_modifyPosition, px_closePosition = lc_closePosition, px_market = lc_market, px_undef = undef\<rparr>"

section \<open>Properties\<close>

text \<open>The net position: positive when long.\<close>

definition net_position :: "lc \<Rightarrow> dbl" where
  "net_position w =
     (case findPosition (mk_marketId (lc_market w)) w of
        None \<Rightarrow> 0
      | Some p \<Rightarrow> of_int (po_direction p) * po_quantity p)"

definition position_ok :: "lc \<Rightarrow> bool" where
  "position_ok w =
     (case findPosition (mk_marketId (lc_market w)) w of
        None \<Rightarrow> True
      | Some p \<Rightarrow> po_direction p \<in> {LONG, SHORT} \<and> 0 < po_quantity p)"

definition reverses :: "order \<Rightarrow> lc \<Rightarrow> bool" where
  "reverses od w =
     (case findPosition (mk_marketId (lc_market w)) w of
        None \<Rightarrow> False
      | Some p \<Rightarrow> po_direction p \<noteq> or_direction od \<and> po_quantity p < or_orderQuantity od)"

lemma newPosition_env [simp]:
  "lc_market (snd (lc_newPosition w)) = lc_market w" "findPosition i (snd (lc_newPosition w)) = findPosition i w"
  "lc_now (snd (lc_newPosition w)) = lc_now w" "lc_undef (snd (lc_newPosition w)) = lc_undef w"
  "lc_tradeType (snd (lc_newPosition w)) = lc_tradeType w" "lc_orders (snd (lc_newPosition w)) = lc_orders w"
  by (simp_all add: lc_newPosition_def Let_def fresh_uuid_def findPosition_def)

lemma ind_openPosition_none:
  assumes "or_strategy od" and "findPosition (mk_marketId (lc_market w)) w = None"
    and "ind_openPosition od price w = (res, sigs, w')"
  shows "res = RET_OK" and "lc_market w' = lc_market w"
    and "\<exists>p. findPosition (mk_marketId (lc_market w)) w' = Some p \<and> po_direction p = or_direction od \<and> po_quantity p = or_orderQuantity od"
  using assms by (auto simp: ind_openPosition_def Let_def split_beta)

text \<open>
  C8: An order that the connector executes on an indivisible position, and that does not reverse it, changes the net position by its
  signed quantity, provided the resulting quantity is one the market's filter keeps.
\<close>

theorem exec_ind_net:
  assumes "exec_ind od openPrice closePrice w = (RET_OK, sigs, w')"
    and "position_ok w" and "or_direction od \<in> {LONG, SHORT}" and "0 < or_orderQuantity od" and "\<not> reverses od w"
    and "adjustQty (lc_market w) \<bar>net_position w + of_int (or_direction od) * or_orderQuantity od\<bar> True
       = \<bar>net_position w + of_int (or_direction od) * or_orderQuantity od\<bar>"
  shows "net_position w' = net_position w + of_int (or_direction od) * or_orderQuantity od \<and> position_ok w'"
proof (cases "findPosition (mk_marketId (lc_market w)) w")
  case None
  then have "ind_openPosition od openPrice w = (RET_OK, sigs, w')" and s: "or_strategy od"
    using assms(1) by (auto simp: exec_ind_def Let_def RET_defs split: if_splits)
  from ind_openPosition_none(2,3) [OF s None this(1)] None assms(3,4) show ?thesis
    by (auto simp: net_position_def position_ok_def)
next
  case (Some p)
  have d: "po_direction p \<in> {1, -1}" "or_direction od \<in> {1, -1}" "0 < po_quantity p"
    using assms(2,3) Some by (auto simp: position_ok_def LONG_def SHORT_def)
  show ?thesis
  proof (cases "po_direction p = or_direction od")
    case True
    have n: "\<bar>net_position w + of_int (or_direction od) * or_orderQuantity od\<bar> = po_quantity p + or_orderQuantity od"
      using d True assms(4) Some by (auto simp: net_position_def)
    show ?thesis
      using assms(1,4,6) Some True d unfolding n
      by (auto simp: exec_ind_def ind_increase_def Let_def RET_defs net_position_def position_ok_def LONG_def SHORT_def
        algebra_simps split: if_splits)
  next
    case False
    then have le: "or_orderQuantity od \<le> po_quantity p" using assms(5) Some by (simp add: reverses_def)
    have n: "\<bar>net_position w + of_int (or_direction od) * or_orderQuantity od\<bar> = po_quantity p - or_orderQuantity od"
      using d False assms(4) Some le by (auto simp: net_position_def)
    show ?thesis
      using assms(1,4,6) Some False d le unfolding n
      by (auto simp: exec_ind_def ind_close_def Let_def RET_defs net_position_def position_ok_def LONG_def SHORT_def
        algebra_simps split: if_splits)
  qed
qed

text \<open>
  C20: An order that reverses the position leaves it in its old direction: instead of the remainder on the other side, the net position
  is the remainder on the same side.
\<close>

theorem exec_ind_reverse_sign:
  assumes "exec_ind od openPrice closePrice w = (RET_OK, sigs, w')"
    and "findPosition (mk_marketId (lc_market w)) w = Some p" and "po_direction p \<noteq> or_direction od"
    and "po_quantity p < or_orderQuantity od" and "\<not> closeOnly od" and "\<not> reduceOnly od"
    and "adjustQty (lc_market w) (or_orderQuantity od - po_quantity p) True = or_orderQuantity od - po_quantity p"
  shows "net_position w' = of_int (po_direction p) * (or_orderQuantity od - po_quantity p)"
proof -
  have a: "\<bar>po_quantity p - or_orderQuantity od\<bar> = or_orderQuantity od - po_quantity p" using assms(4) by simp
  show ?thesis
    using assms unfolding exec_ind_def
    by (auto simp: ind_reverse_def a Let_def RET_defs net_position_def split: if_splits)
qed

definition sample_lc :: lc where
  "sample_lc = \<lparr>lc_now = 60, lc_uuid = (\<lambda>n. replicate (Suc n) CHR ''u''), lc_uuids = 0, lc_undef = -1000,
     lc_market = setPrice 99 100 60 (setTradeCapacities TRADE_IND_MARGIN sample_market), lc_tradeType = TYPE_IND_MARGIN,
     lc_orders = [], lc_positions = [], lc_freePositions = [], lc_account = new_account, lc_locked = False\<rparr>"

definition sample_order :: "int \<Rightarrow> dbl \<Rightarrow> order" where
  "sample_order d q = (new_order (-1000))\<lparr>or_strategy := True, or_direction := d, or_orderQuantity := q, or_orderType := ORDER_MARKET\<rparr>"

theorem exec_ind_net_witness:
  "net_position (snd (snd (exec_ind (sample_order LONG 2) 100 99 sample_lc))) = 2"
proof -
  obtain res sigs w' where e: "exec_ind (sample_order LONG 2) 100 99 sample_lc = (res, sigs, w')"
    by (metis prod_cases3)
  have r: "fst (exec_ind (sample_order LONG 2) 100 99 sample_lc) = RET_OK" by code_simp
  have h: "position_ok sample_lc" "or_direction (sample_order LONG 2) \<in> {LONG, SHORT}"
    "0 < or_orderQuantity (sample_order LONG 2)" "\<not> reverses (sample_order LONG 2) sample_lc"
    "adjustQty (lc_market sample_lc) \<bar>net_position sample_lc + of_int (or_direction (sample_order LONG 2)) * or_orderQuantity (sample_order LONG 2)\<bar> True
       = \<bar>net_position sample_lc + of_int (or_direction (sample_order LONG 2)) * or_orderQuantity (sample_order LONG 2)\<bar>"
    by code_simp+
  have v: "net_position sample_lc + of_int (or_direction (sample_order LONG 2)) * or_orderQuantity (sample_order LONG 2) = 2"
    by code_simp
  from exec_ind_net [OF _ h, of 100 99 sigs w'] e r v show ?thesis by simp
qed

definition long_one :: lc where
  "long_one = snd (snd (exec_ind (sample_order LONG 1) 100 99 sample_lc))"

theorem exec_ind_reverse_sign_witness:
  "net_position (snd (snd (exec_ind (sample_order SHORT 3) 99 100 long_one))) = 2"
proof -
  obtain res sigs w' where e: "exec_ind (sample_order SHORT 3) 99 100 long_one = (res, sigs, w')"
    by (metis prod_cases3)
  have r: "fst (exec_ind (sample_order SHORT 3) 99 100 long_one) = RET_OK" by code_simp
  obtain p where p: "findPosition (mk_marketId (lc_market long_one)) long_one = Some p" "po_direction p = LONG" "po_quantity p = 1"
  proof -
    have "map_option (\<lambda>p. (po_direction p, po_quantity p)) (findPosition (mk_marketId (lc_market long_one)) long_one) = Some (LONG, 1)"
      by code_simp
    with that show ?thesis by auto
  qed
  have q: "adjustQty (lc_market long_one) 2 True = 2" by code_simp
  have o: "or_direction (sample_order SHORT 3) = SHORT" "or_orderQuantity (sample_order SHORT 3) = 3"
    "\<not> closeOnly (sample_order SHORT 3)" "\<not> reduceOnly (sample_order SHORT 3)" by code_simp+
  show ?thesis
    using exec_ind_reverse_sign [OF _ p(1) _ _ o(3,4), of 99 100 sigs w'] e r p(2,3) q o(1,2)
    by (simp add: LONG_def SHORT_def)
qed

text \<open>
  The position is opened without its average price, which stays at the undefined value. A second order in the same direction at
  the same price of 100 gives an average of 49.5.
\<close>

theorem exec_ind_average_wrong:
  "map_option po_avgPrice (findPosition ''BTCEUR'' (snd (snd (exec_ind (sample_order LONG 1) 100 99 long_one)))) = Some (99 / 2)"
  by code_simp

text \<open>
  The price at which a signal says that something was executed: the price of an execution of an order, or that of a position that
  is opened, changed or deleted when the connector sets it.
\<close>

definition fill_price :: "signal \<Rightarrow> dbl option" where
  "fill_price sg =
     (case sg of
        OrderSig s \<Rightarrow> (if os_event s = OS_TRADED then Some (or_execPrice s) else None)
      | PositionSig s \<Rightarrow> (if po_execPrice s = PRICE_UNDEFINED then None else Some (po_execPrice s)))"

definition reports_opening :: "signal \<Rightarrow> bool" where
  "reports_opening sg \<longleftrightarrow> (case sg of OrderSig s \<Rightarrow> False | PositionSig s \<Rightarrow> ps_event s = PS_OPENED)"

lemmas fill_defs = fill_price_def reports_opening_def order_to_signal_def order.defs position_to_signal_def position.defs

lemma fill_price_simps [simp]:
  "fill_price (OrderSig (ind_openSignal w od)) = None" "fill_price (OrderSig (ind_tradedSignal w od x)) = Some x"
  "fill_price (OrderSig (ind_deletedSignal w od)) = None" "fill_price (OrderSig (deletedOrderSignal od w)) = None"
  "fill_price (PositionSig (ind_positionSignal ev w od p c x)) = (if x = PRICE_UNDEFINED then None else Some x)"
  "fill_price (PositionSig (ind_positionDeleted w od p)) = None"
  "fill_price (PositionSig (openPositionSignal od x w)) = (if x = PRICE_UNDEFINED then None else Some x)"
  "fill_price (PositionSig (deletedPositionSignal p x w)) = (if x = PRICE_UNDEFINED then None else Some x)"
  by (simp_all add: fill_defs ind_openSignal_def ind_tradedSignal_def ind_deletedSignal_def deletedOrderSignal_def
    ind_positionSignal_def ind_positionDeleted_def openPositionSignal_def deletedPositionSignal_def new_position_def)

lemma reports_opening_simps [simp]:
  "\<not> reports_opening (OrderSig s)" "reports_opening (PositionSig (ind_positionSignal ev w od p c x)) \<longleftrightarrow> ev = PS_OPENED"
  "\<not> reports_opening (PositionSig (ind_positionDeleted w od p))" "\<not> reports_opening (PositionSig (deletedPositionSignal p x w))"
  by (simp_all add: fill_defs ind_positionSignal_def ind_positionDeleted_def deletedPositionSignal_def)

lemma exec_ind_fill:
  assumes "sg \<in> set (fst (snd (exec_ind od op cl w)))" and "fill_price sg = Some x"
  shows "x \<in> {op, cl} \<and> (reports_opening sg \<longrightarrow> x = op)"
  using assms
  by (auto simp: exec_ind_def ind_openPosition_def ind_increase_def ind_close_def ind_reverse_def ind_signals_def Let_def
    split_beta split: if_splits option.splits)

lemma exec_position_fill:
  assumes "sg \<in> set (fst (snd (exec_position od op cl w)))" and "fill_price sg = Some x"
  shows "x \<in> {op, cl} \<and> (reports_opening sg \<longrightarrow> x = op)"
  using assms
  by (auto simp: exec_position_def createPosition_def closePosition_def Let_def split_beta split: if_splits option.splits)

lemma handle_exec_fill:
  assumes "sg \<in> set (fst (handle_exec od op cl w))" and "fill_price sg = Some x"
  shows "x \<in> {op, cl}" and "reports_opening sg \<Longrightarrow> x = op"
  using assms exec_ind_fill [of sg od op cl w] exec_position_fill [of sg od op cl w]
  by (auto simp: handle_exec_def exec_fifo_def exec_asset_def Let_def split: if_splits)

text \<open>
  C11: With \<^verbatim>\<open>bid\<close> not above \<^verbatim>\<open>ask\<close>, every execution of a waiting limit order is at its price or a better one, on the
  markets with one indivisible position, where signals of the order report it, as on those with individual positions, where signals
  of the position do. What opens a position is executed at the market's price to open: the \<^verbatim>\<open>ask\<close> of a buy, the \<^verbatim>\<open>bid\<close> of a sell.
\<close>

theorem limit_order_price:
  assumes "or_orderType od = ORDER_LIMIT" and "mk_bid (lc_market w) \<le> mk_ask (lc_market w)"
    and "sg \<in> set (fst (snd (handleOrder od w)))" and "fill_price sg = Some x"
  shows "(0 < or_direction od \<longrightarrow> x \<le> or_orderPrice od) \<and> (or_direction od < 0 \<longrightarrow> or_orderPrice od \<le> x)
    \<and> (reports_opening sg \<longrightarrow> x = openExecPrice (lc_market w) (or_direction od))"
proof -
  obtain op cl where m: "market_prices (lc_market w) od = (op, cl)" by fastforce
  have t: "(0 < or_direction od \<and> mk_ask (lc_market w) \<le> or_orderPrice od) \<or> (or_direction od < 0 \<and> mk_bid (lc_market w) \<ge> or_orderPrice od)"
    and e: "sg \<in> set (fst (handle_exec od op cl w))"
    using assms(1,3) m by (auto simp: handleOrder_def handleLimitOrder_def Let_def split: if_splits)
  from handle_exec_fill [OF e assms(4)] have "x \<in> {op, cl}" "reports_opening sg \<Longrightarrow> x = op" by auto
  with t m assms(2) show ?thesis by (auto simp: market_prices_def openExecPrice_def split: if_splits)
qed

definition sample_limit :: order where
  "sample_limit = setMargin ((sample_order LONG 1)\<lparr>or_orderType := ORDER_LIMIT, or_orderPrice := 101\<rparr>)"

text \<open>On a market of each kind the order opens a position at 100.\<close>

definition sample_pos_lc :: lc where
  "sample_pos_lc = sample_lc\<lparr>lc_tradeType := TYPE_POSITION, lc_market := setPrice 99 100 60 (setTradeCapacities TRADE_POSITION sample_market)\<rparr>"

theorem limit_order_price_witness:
  "(100 :: dbl) \<le> 101 \<and> map fill_price (fst (snd (handleOrder sample_limit sample_lc))) = [None, Some 100, Some 100, None]
    \<and> map fill_price (fst (snd (handleOrder (setHedging sample_limit) sample_pos_lc))) = [Some 100, None]"
proof -
  have h: "or_orderType (setHedging sample_limit) = ORDER_LIMIT" "mk_bid (lc_market sample_pos_lc) \<le> mk_ask (lc_market sample_pos_lc)"
    "0 < or_direction (setHedging sample_limit)" "or_orderPrice (setHedging sample_limit) = 101"
    by code_simp+
  have l: "map fill_price (fst (snd (handleOrder sample_limit sample_lc))) = [None, Some 100, Some 100, None]"
    "map fill_price (fst (snd (handleOrder (setHedging sample_limit) sample_pos_lc))) = [Some 100, None]"
    by code_simp+
  then obtain sg where m: "sg \<in> set (fst (snd (handleOrder (setHedging sample_limit) sample_pos_lc)))" "fill_price sg = Some 100"
    by (force simp: map_eq_Cons_conv)
  from limit_order_price [OF h(1,2) m] h(3,4) l show ?thesis by simp
qed

text \<open>
  The stop orders wait for \<^verbatim>\<open>stopPrice\<close>, which only the orders that create a position set; the price of a stop order is \<^verbatim>\<open>orderStopPrice\<close>.
  With \<^verbatim>\<open>stopPrice\<close> undefined, a buy stop order triggers at once and a sell stop order never.
\<close>

theorem stop_order_price:
  assumes "or_orderType od \<in> {ORDER_STOP, ORDER_STOP_LIMIT}" and "or_stopPrice od = PRICE_UNDEFINED"
    and "0 \<le> mk_bid (lc_market w)" and "0 \<le> mk_ask (lc_market w)"
  shows "fst (handleOrder od w) \<longleftrightarrow> 0 < or_direction od"
  using assms by (auto simp: handleOrder_def handleStopOrder_def handleStopLimitOrder_def PRICE_UNDEFINED_def split_beta Let_def)

theorem stop_order_price_witness:
  "fst (handleOrder ((sample_order LONG 1)\<lparr>or_orderType := ORDER_STOP, or_orderStopPrice := 500\<rparr>) sample_lc)"
proof -
  define od where "od = (sample_order LONG 1)\<lparr>or_orderType := ORDER_STOP, or_orderStopPrice := 500\<rparr>"
  have "or_orderType od \<in> {ORDER_STOP, ORDER_STOP_LIMIT}" "or_stopPrice od = PRICE_UNDEFINED"
    "0 \<le> mk_bid (lc_market sample_lc)" "0 \<le> mk_ask (lc_market sample_lc)" "0 < or_direction od"
    unfolding od_def by code_simp+
  with stop_order_price [of od sample_lc] show ?thesis unfolding od_def by simp
qed

text \<open>
  \<^verbatim>\<open>update\<close> never changes a position when no order waits: the stop and limit prices of individual positions are never
  watched and the profits are not updated.
\<close>

theorem update_ignores_positions:
  assumes "lc_orders w = []"
  shows "lc_positions (snd (lc_update dl w)) = lc_positions w \<and> fst (lc_update dl w) = []"
  using assms by (simp add: lc_update_def Let_def split_beta)

theorem update_ignores_positions_witness:
  "lc_positions (snd (lc_update no_dates long_one)) = lc_positions long_one"
proof -
  have "lc_orders long_one = []" by code_simp
  from update_ignores_positions [OF this, of no_dates] show ?thesis by simp
qed

text \<open>
  The drawdown of the account is only computed for a positive profit. As no code assigns the profit of
  the assets, it is never recorded.
\<close>

theorem drawdown_never_recorded:
  assumes "ac_assetProfitLoss a = 0"
  shows "ac_maxDrawDown (updateDrawDown a) = ac_maxDrawDown a \<and> ac_maxDrawDownRate (updateDrawDown a) = ac_maxDrawDownRate a"
  using assms by (simp add: updateDrawDown_def Let_def divide_less_0_iff)

theorem drawdown_never_recorded_witness:
  "ac_maxDrawDown (updateDrawDown (new_account\<lparr>ac_profitLoss := -500\<rparr>)) = 0"
  using drawdown_never_recorded [of "new_account\<lparr>ac_profitLoss := -500\<rparr>"] by (simp add: new_account_def)

subsection \<open>The mutex\<close>

lemma exec_lock:
  "lc_locked (snd (snd (exec_ind od op cl w))) = lc_locked w"
  "lc_locked (snd (snd (exec_position od op cl w))) = lc_locked w"
  "lc_locked (snd (snd (exec_fifo od op cl w))) = lc_locked w"
  "lc_locked (snd (snd (exec_asset od op cl w))) = lc_locked w"
proof -
  show "lc_locked (snd (snd (exec_ind od op cl w))) = lc_locked w"
    by (auto simp: exec_ind_def ind_openPosition_def Let_def split_beta split: option.splits)
  have "lc_locked (snd (snd (createPosition od op w))) = lc_locked w" by (simp add: createPosition_def Let_def split_beta)
  then show "lc_locked (snd (snd (exec_position od op cl w))) = lc_locked w"
    by (auto simp: exec_position_def Let_def split_beta split: option.splits)
qed (simp_all add: exec_fifo_def exec_asset_def)

lemma handle_exec_lock: "lc_locked (snd (handle_exec od op cl w)) = lc_locked w"
  by (simp add: handle_exec_def exec_lock Let_def)

lemma handleOrder_lock: "lc_locked (snd (snd (handleOrder od w))) = lc_locked w"
  by (simp add: handleOrder_def handleLimitOrder_def handleStopOrder_def handleStopLimitOrder_def handleTakeProfitOrder_def
    handleTakeProfitLimitOrder_def handle_exec_lock Let_def split_beta split del: if_split cong: if_cong)
    (simp add: handle_exec_lock split: if_split)

lemma update_orders_lock: "lc_locked (snd (snd (update_orders ods w))) = lc_locked w"
proof (induction ods arbitrary: w)
  case (Cons x ods)
  obtain i od where x: "x = (i, od)" by fastforce
  obtain dn sigs w' where h: "handleOrder od w = (dn, sigs, w')" by (metis prod_cases3)
  obtain rm sigs' w'' where u: "update_orders ods w' = (rm, sigs', w'')" by (metis prod_cases3)
  have "lc_locked w'' = lc_locked w" using handleOrder_lock [of od w] Cons.IH [of w'] by (simp add: h u)
  then show ?case by (simp add: x h u)
qed simp

lemma update_positions_lock: "lc_locked (snd (update_positions ps w)) = lc_locked w"
proof (induction ps arbitrary: w)
  case (Cons x ps)
  obtain i p where x: "x = (i, p)" by fastforce
  obtain sigs p' where p: "(if hasPosition (lc_market w) then updatePosition p w else ([], p)) = (sigs, p')" by fastforce
  obtain sigs' w' where u: "update_positions ps (setPosition i (updatePnl (Some (lc_market w)) p') w) = (sigs', w')" by fastforce
  have "lc_locked w' = lc_locked w" using Cons.IH [of "setPosition i (updatePnl (Some (lc_market w)) p') w"] by (simp add: u)
  then show ?case by (simp only: x update_positions.simps p u Let_def prod.case snd_conv)
qed simp

lemma delete_orders_lock: "lc_locked (fold (\<lambda>od w. w\<lparr>lc_orders := AList.delete (or_orderId od) (lc_orders w)\<rparr>) ods w) = lc_locked w"
  by (induction ods arbitrary: w) simp_all

text \<open>Every other operation gives the mutex back.\<close>

lemma operations_unlock:
  "lc_locked (snd (snd (lc_createOrder od w))) = lc_locked w"
  "lc_locked (snd (snd (lc_cancelOrder i w))) = lc_locked w"
  "lc_locked (snd (snd (lc_closePosition i d q tk lp w))) = lc_locked w"
  "lc_locked (snd (lc_update dl w)) = lc_locked w"
  "lc_locked (snd (snd (lc_modifyPosition i sp lp w)))"
proof -
  have u: "lc_locked (snd (fresh_uuid v)) = lc_locked v" for v by simp
  show "lc_locked (snd (snd (lc_createOrder od w))) = lc_locked w"
    by (simp add: lc_createOrder_def Let_def split_beta exec_lock split: trade_type.split)
  show "lc_locked (snd (snd (lc_cancelOrder i w))) = lc_locked w"
    by (simp add: lc_cancelOrder_def split: option.split)
  show "lc_locked (snd (snd (lc_closePosition i d q tk lp w))) = lc_locked w"
    by (simp add: lc_closePosition_def Let_def split_beta split: option.split)
  show "lc_locked (snd (lc_update dl w)) = lc_locked w"
    by (simp add: lc_update_def Let_def split_beta delete_orders_lock update_positions_lock update_orders_lock)
  show "lc_locked (snd (snd (lc_modifyPosition i sp lp w)))"
    by (simp add: lc_modifyPosition_def Let_def split: option.split)
qed

end
