(* ===== verification/Ind_Margin_Trade.thy ===== *)
theory Ind_Margin_Trade
  imports Trade_Proxy
begin

text \<open>
  \<^verbatim>\<open>strategies/src/trade/indmargintrade.cpp\<close>: a trade on a market where all trades share one
  position. Its entry, stop and limit orders are margin orders, and the order that closes it is
  kept in the stop leg, flagged as closing.

  The market of the strategy is the argument \<open>m\<close> of the signal handlers and \<open>undef\<close> is
  \<^verbatim>\<open>FEE_UNDEFINED\<close>. A quotient by zero is zero here; \<^verbatim>\<open>adjustPrice\<close> also gives zero for the NaN of
  zero by zero.
\<close>

record ind_trade = trade +
  it_positionId :: string
  it_entry :: leg
  it_stop :: stop_leg
  it_limit :: limit_leg

definition new_ind_trade :: ind_trade where
  "new_ind_trade = trade.extend (new_trade TYPE_IND_MARGIN (-1))
     \<lparr>it_positionId = '''', it_entry = new_leg, it_stop = new_stop_leg, it_limit = new_limit_leg\<rparr>"

definition it_init :: "dbl \<Rightarrow> ind_trade \<Rightarrow> ind_trade" where
  "it_init timeframe t =
     (init_trade timeframe t)\<lparr>it_entry := reset_leg (it_entry t), it_stop := reset_stop (it_stop t),
       it_limit := reset_limit (it_limit t), it_positionId := ''''\<rparr>"

text \<open>\<^verbatim>\<open>clear\<close> keeps the state of a leg.\<close>

definition clear_leg :: "'a leg_scheme \<Rightarrow> 'a leg_scheme" where
  "clear_leg l = l\<lparr>lg_orderId := '''', lg_refId := '''', lg_execQty := 0\<rparr>"

definition clear_limit :: "limit_leg \<Rightarrow> limit_leg" where
  "clear_limit l = (clear_leg l)\<lparr>ll_orderedQty := 0, ll_fees := 0\<rparr>"

definition clear_stop :: "stop_leg \<Rightarrow> stop_leg" where
  "clear_stop l = (clear_leg l)\<lparr>sl_closing := False, sl_orderedQty := 0, sl_fees := 0\<rparr>"

lemmas clear_defs = clear_leg_def clear_limit_def clear_stop_def

lemma it_on_stats [simp]:
  "it_entry (on_stats f t) = it_entry t" "it_stop (on_stats f t) = it_stop t" "it_limit (on_stats f t) = it_limit t"
  "it_positionId (on_stats f t) = it_positionId t"
  by (simp_all add: on_stats_def)

section \<open>States\<close>

definition it_isActive :: "ind_trade \<Rightarrow> bool" where
  "it_isActive t =
     (if lg_state (it_stop t) = STATE_FILLED \<or> lg_state (it_limit t) = STATE_FILLED then False
      else lg_state (it_entry t) = STATE_PARTIALLY_FILLED \<or> lg_state (it_entry t) = STATE_FILLED)"

definition it_isOpened :: "ind_trade \<Rightarrow> bool" where
  "it_isOpened t \<longleftrightarrow> lg_state (it_entry t) = STATE_OPENED"

definition it_isCanceled :: "ind_trade \<Rightarrow> bool" where
  "it_isCanceled t =
     (if lg_state (it_entry t) = STATE_REJECTED then True
      else if (lg_state (it_entry t) = STATE_CANCELED \<or> lg_state (it_entry t) = STATE_DELETED)
              \<and> tr_filledEntryQuantity t \<le> 0 then True
      else False)"

definition it_isOpening :: "ind_trade \<Rightarrow> bool" where
  "it_isOpening t \<longleftrightarrow> lg_state (it_entry t) = STATE_OPENED \<or> lg_state (it_entry t) = STATE_PARTIALLY_FILLED"

definition it_isClosing :: "ind_trade \<Rightarrow> bool" where
  "it_isClosing t \<longleftrightarrow> lg_state (it_limit t) = STATE_PARTIALLY_FILLED
     \<or> lg_state (it_stop t) = STATE_PARTIALLY_FILLED \<or> sl_closing (it_stop t)"

definition it_isClosed :: "ind_trade \<Rightarrow> bool" where
  "it_isClosed t \<longleftrightarrow> lg_state (it_limit t) = STATE_FILLED \<or> lg_state (it_stop t) = STATE_FILLED"

lemmas it_state_defs = it_isActive_def it_isOpened_def it_isCanceled_def it_isOpening_def it_isClosing_def
  it_isClosed_def

definition it_isTargetOrder :: "ind_trade \<Rightarrow> string \<Rightarrow> string \<Rightarrow> bool" where
  "it_isTargetOrder t orderId refId =
     (if leg_target orderId refId (it_entry t) then True
      else if leg_target orderId refId (it_limit t) then True
      else if leg_target orderId refId (it_stop t) then True
      else False)"

definition it_isTargetPosition :: "ind_trade \<Rightarrow> string \<Rightarrow> string \<Rightarrow> bool" where
  "it_isTargetPosition t positionId refId = (if isValid positionId \<and> positionId = it_positionId t then True else False)"

definition it_stateToStr :: "ind_trade \<Rightarrow> string" where
  "it_stateToStr t =
     (if lg_state (it_entry t) = STATE_NEW then ''new''
      else if lg_state (it_entry t) = STATE_OPENED then ''opened''
      else if lg_state (it_entry t) = STATE_REJECTED then ''rejected''
      else if lg_state (it_entry t) = STATE_REJECTED \<and> tr_filledEntryQuantity t > tr_filledExitQuantity t then ''problem''
      else if tr_filledEntryQuantity t < tr_filledExitQuantity t
          \<and> (lg_state (it_entry t) = STATE_PARTIALLY_FILLED \<or> lg_state (it_entry t) = STATE_OPENED) then ''filling''
      else if tr_filledEntryQuantity t > 0 \<and> tr_filledExitQuantity t < tr_filledEntryQuantity t
          \<and> lg_state (it_stop t) \<noteq> STATE_FILLED \<and> lg_state (it_limit t) \<noteq> STATE_FILLED then ''closing''
      else if tr_filledEntryQuantity t > 0 \<and> tr_filledExitQuantity t \<ge> tr_filledEntryQuantity t then ''closed''
      else if tr_filledEntryQuantity t \<ge> tr_orderQuantity t then ''filled''
      else ''waiting'')"

section \<open>Fills\<close>

text \<open>The entry: the fill of a signal, the average price and the fees.\<close>

definition it_entryFilled :: "order_signal \<Rightarrow> ind_trade \<Rightarrow> dbl" where
  "it_entryFilled sg t =
     (if or_cumulativeFilled sg > 0 then or_cumulativeFilled sg - tr_filledEntryQuantity t
      else if or_filled sg > 0 then or_filled sg else 0)"

definition it_entryPrice :: "market \<Rightarrow> order_signal \<Rightarrow> ind_trade \<Rightarrow> dbl" where
  "it_entryPrice m sg t =
     (let filled = it_entryFilled sg t
      in if or_avgPrice sg > 0 then or_avgPrice sg
         else if or_execPrice sg > 0
         then adjustPrice m ((tr_entryPrice t * tr_filledEntryQuantity t + or_execPrice sg * filled)
                             / (tr_filledEntryQuantity t + filled))
         else tr_orderPrice t)"

definition it_entryQty :: "market \<Rightarrow> order_signal \<Rightarrow> ind_trade \<Rightarrow> dbl" where
  "it_entryQty m sg t =
     (let filled = it_entryFilled sg t
      in if or_cumulativeFilled sg > 0 then or_cumulativeFilled sg
         else if filled > 0 then adjustQty m (tr_filledEntryQuantity t + filled) True
         else tr_filledEntryQuantity t)"

text \<open>Without information on the side the fill is a maker's when the entry order is a limit order.\<close>

definition it_maker :: "order_signal \<Rightarrow> 'a trade_scheme \<Rightarrow> bool" where
  "it_maker sg t =
     (if or_maker sg < 0 then (if ts_entryOrderType (tr_stats t) = ORDER_LIMIT then True else False)
      else or_maker sg > 0)"

definition it_entryFees :: "market \<Rightarrow> dbl \<Rightarrow> order_signal \<Rightarrow> dbl \<Rightarrow> ind_trade \<Rightarrow> ind_trade" where
  "it_entryFees m undef sg filled t =
     (if or_cumulativeCommissionAmount sg \<noteq> undef \<and> or_cumulativeCommissionAmount sg \<noteq> 0
         \<and> or_cumulativeCommissionAmount sg \<noteq> ts_entryFees (tr_stats t)
      then on_stats (\<lambda>s. s\<lparr>ts_entryFees := or_cumulativeCommissionAmount sg\<rparr>) t
      else if or_commissionAmount sg \<noteq> undef \<and> or_commissionAmount sg \<noteq> 0
      then on_stats (\<lambda>s. s\<lparr>ts_entryFees := ts_entryFees s + or_commissionAmount sg\<rparr>) t
      else if filled > 0 then
        (let fee = (if it_maker sg t then mk_makerFees m else mk_takerFees m)
         in on_stats (\<lambda>s. s\<lparr>ts_entryFees := ts_notionalValue s * fee_rate fee + fee_commission fee\<rparr>) t)
      else t)"

text \<open>The exit: \<^verbatim>\<open>_updateExitQty\<close> returns what the signal filled.\<close>

definition it_updateExitQty :: "market \<Rightarrow> order_signal \<Rightarrow> dbl \<Rightarrow> ind_trade \<Rightarrow> dbl \<times> ind_trade" where
  "it_updateExitQty m sg cumulatedQty t =
     (let filled = (if or_cumulativeFilled sg > 0 \<and> or_cumulativeFilled sg > cumulatedQty
                    then or_cumulativeFilled sg - cumulatedQty
                    else if or_filled sg > 0 then or_filled sg else 0);
          t = (if or_avgPrice sg > 0
               then t\<lparr>tr_exitPrice := adjustPrice m (tr_exitPrice t * tr_filledExitQuantity t)
                        + or_avgPrice sg * filled / (tr_filledExitQuantity t + filled)\<rparr>
               else if or_execPrice sg > 0
               then t\<lparr>tr_exitPrice := adjustPrice m (tr_exitPrice t * tr_filledExitQuantity t)
                        + or_execPrice sg * filled / (tr_filledExitQuantity t + filled)\<rparr>
               else t);
          t = (if filled > 0 then
                 (let t = t\<lparr>tr_filledExitQuantity := adjustQty m (tr_filledExitQuantity t + filled) True\<rparr>
                  in if tr_entryPrice t > 0 \<and> tr_filledEntryQuantity t > 0
                     then t\<lparr>tr_profitLossRate := of_int (tr_direction t) * (tr_exitPrice t * tr_filledExitQuantity t
                              - tr_entryPrice t * tr_filledExitQuantity t) / (tr_entryPrice t * tr_filledEntryQuantity t)\<rparr>
                     else t)
               else t)
      in (filled, t))"

definition it_updateExitFees :: "market \<Rightarrow> dbl \<Rightarrow> order_signal \<Rightarrow> dbl \<Rightarrow> dbl \<Rightarrow> dbl \<Rightarrow> ind_trade \<Rightarrow> dbl \<times> ind_trade" where
  "it_updateExitFees m undef sg cumulatedFees cumulatedQty prevOrderExec t =
     (let commission =
        (if or_cumulativeCommissionAmount sg = undef \<and> or_commissionAmount sg = undef then
           (if cumulatedQty > prevOrderExec then
              (let fee = (if it_maker sg t then mk_makerFees m else mk_takerFees m);
                   rate = (if tr_filledEntryQuantity t > 0
                           then (cumulatedQty - prevOrderExec) / tr_filledEntryQuantity t else 0);
                   c = rate * ts_notionalValue (tr_stats t) * (tr_exitPrice t / tr_entryPrice t) * fee_rate fee
               in if prevOrderExec = 0 then c + fee_commission fee else c)
            else 0)
         else if or_cumulativeCommissionAmount sg \<noteq> undef \<and> or_cumulativeCommissionAmount sg \<noteq> 0
                 \<and> or_cumulativeCommissionAmount sg \<noteq> cumulatedFees
         then or_cumulativeCommissionAmount sg - cumulatedFees
         else if or_commissionAmount sg \<noteq> undef \<and> or_commissionAmount sg \<noteq> 0 then or_commissionAmount sg
         else 0)
      in (commission, if commission \<noteq> 0 then on_stats (\<lambda>s. s\<lparr>ts_exitFees := ts_exitFees s + commission\<rparr>) t else t))"

definition it_updateExitState :: "order_signal \<Rightarrow> ind_trade \<Rightarrow> trade_state" where
  "it_updateExitState sg t =
     (if lg_state (it_entry t) = STATE_FILLED then
        (if tr_filledExitQuantity t > tr_filledEntryQuantity t \<or> os_completed sg then STATE_FILLED
         else STATE_PARTIALLY_FILLED)
      else
        (if isValid (lg_orderId (it_entry t)) \<and> tr_filledEntryQuantity t < tr_orderQuantity t
         then STATE_PARTIALLY_FILLED else STATE_FILLED))"

definition it_updateExitStats :: "order_signal \<Rightarrow> ind_trade \<Rightarrow> ind_trade" where
  "it_updateExitStats sg t =
     (let t = (if ts_firstRealizedExitTimestamp (tr_stats t) \<le> 0
               then on_stats (\<lambda>s. s\<lparr>ts_firstRealizedExitTimestamp := or_executed sg\<rparr>) t else t)
      in on_stats (\<lambda>s. s\<lparr>ts_lastRealizedExitTimestamp := or_executed sg\<rparr>) t)"

definition it_updateRealizedPnl :: "ind_trade \<Rightarrow> ind_trade" where
  "it_updateRealizedPnl t =
     t\<lparr>tr_profitLossRate := of_int (tr_direction t) * (tr_exitPrice t * tr_filledExitQuantity t
         - tr_entryPrice t * tr_filledExitQuantity t) / (tr_entryPrice t * tr_filledEntryQuantity t)\<rparr>"

section \<open>Signals\<close>

definition it_entryTraded :: "market \<Rightarrow> dbl \<Rightarrow> order_signal \<Rightarrow> ind_trade \<Rightarrow> ind_trade" where
  "it_entryTraded m undef sg t =
     (let filled = it_entryFilled sg t;
          price = it_entryPrice m sg t;
          qty = it_entryQty m sg t;
          t = t\<lparr>tr_entryPrice := price, tr_filledEntryQuantity := qty\<rparr>;
          t = (if filled > 0
               then on_stats (\<lambda>s. s\<lparr>ts_notionalValue := effectiveCost m (tr_filledEntryQuantity t) (tr_entryPrice t)\<rparr>)
                      (t\<lparr>tr_dirty := True\<rparr>)
               else t);
          t = it_entryFees m undef sg filled t;
          t = (if tr_filledEntryQuantity t \<ge> tr_orderQuantity t \<or> os_completed sg
               then t\<lparr>it_entry := clear_leg ((it_entry t)\<lparr>lg_state := STATE_FILLED\<rparr>)\<rparr>
               else t\<lparr>it_entry := (it_entry t)\<lparr>lg_state := STATE_PARTIALLY_FILLED\<rparr>\<rparr>);
          t = (if ts_firstRealizedEntryTimestamp (tr_stats t) \<le> 0
               then on_stats (\<lambda>s. s\<lparr>ts_firstRealizedEntryTimestamp := or_executed sg\<rparr>) t else t)
      in on_stats (\<lambda>s. s\<lparr>ts_lastRealizedEntryTimestamp := or_executed sg\<rparr>) t)"

definition it_entrySignal :: "market \<Rightarrow> dbl \<Rightarrow> order_signal \<Rightarrow> ind_trade \<Rightarrow> ind_trade" where
  "it_entrySignal m undef sg t =
     (let t = t\<lparr>it_entry := leg_learn (or_orderId sg) (it_entry t)\<rparr>
      in case os_event sg of
           OS_OPENED \<Rightarrow>
             (let t = (if lg_state (it_entry t) = STATE_NEW
                       then t\<lparr>it_entry := (it_entry t)\<lparr>lg_state := STATE_OPENED\<rparr>\<rparr> else t)
              in if tr_openTimeStamp t = 0 \<and> or_execPrice sg > 0 then t\<lparr>tr_openTimeStamp := or_executed sg\<rparr> else t)
         | OS_REJECTED \<Rightarrow> t\<lparr>it_entry := (clear_leg (it_entry t))\<lparr>lg_state := STATE_REJECTED\<rparr>\<rparr>
         | OS_DELETED \<Rightarrow> t\<lparr>it_entry := clear_leg (it_entry t)\<rparr>
         | OS_CANCELED \<Rightarrow> t\<lparr>it_entry := (clear_leg (it_entry t))\<lparr>lg_state := STATE_CANCELED\<rparr>\<rparr>
         | OS_UPDATED \<Rightarrow> t
         | OS_TRADED \<Rightarrow> it_entryTraded m undef sg t)"

definition it_limitFill :: "market \<Rightarrow> dbl \<Rightarrow> order_signal \<Rightarrow> ind_trade \<Rightarrow> ind_trade" where
  "it_limitFill m undef sg t =
     (let prev = lg_execQty (it_limit t);
          (filled, t) = it_updateExitQty m sg (lg_execQty (it_limit t)) t;
          t = (if filled > 0
               then t\<lparr>it_limit := (it_limit t)\<lparr>lg_execQty := adjustQty m (lg_execQty (it_limit t) + filled) True\<rparr>\<rparr> else t);
          (commission, t) = it_updateExitFees m undef sg (ll_fees (it_limit t)) (lg_execQty (it_limit t)) prev t
      in if commission \<noteq> 0 then t\<lparr>it_limit := (it_limit t)\<lparr>ll_fees := ll_fees (it_limit t) + commission\<rparr>\<rparr> else t)"

definition it_limitTraded :: "market \<Rightarrow> dbl \<Rightarrow> order_signal \<Rightarrow> ind_trade \<Rightarrow> ind_trade" where
  "it_limitTraded m undef sg t =
     (let t = it_limitFill m undef sg t;
          t = t\<lparr>it_limit := (it_limit t)\<lparr>lg_state := it_updateExitState sg t\<rparr>\<rparr>;
          t = (if lg_execQty (it_limit t) \<ge> ll_orderedQty (it_limit t) \<or> os_completed sg
               then t\<lparr>it_limit := clear_limit (it_limit t)\<rparr> else t)
      in it_updateExitStats sg t)"

definition it_limitSignal :: "market \<Rightarrow> dbl \<Rightarrow> order_signal \<Rightarrow> ind_trade \<Rightarrow> ind_trade" where
  "it_limitSignal m undef sg t =
     (let t = t\<lparr>it_limit := leg_learn (or_orderId sg) (it_limit t)\<rparr>
      in case os_event sg of
           OS_OPENED \<Rightarrow>
             (let t = (if lg_state (it_limit t) = STATE_NEW
                       then t\<lparr>it_limit := (it_limit t)\<lparr>lg_state := STATE_OPENED\<rparr>\<rparr> else t)
              in if tr_exitTimeStamp t = 0 \<and> or_executed sg > 0 then t\<lparr>tr_exitTimeStamp := or_executed sg\<rparr> else t)
         | OS_REJECTED \<Rightarrow> t\<lparr>it_limit := (clear_limit (it_limit t))\<lparr>lg_state := STATE_REJECTED\<rparr>\<rparr>
         | OS_DELETED \<Rightarrow> t\<lparr>it_limit := clear_limit (it_limit t)\<rparr>
         | OS_CANCELED \<Rightarrow> t\<lparr>it_limit := (clear_limit (it_limit t))\<lparr>lg_state := STATE_CANCELED\<rparr>\<rparr>
         | OS_UPDATED \<Rightarrow> t
         | OS_TRADED \<Rightarrow> it_limitTraded m undef sg t)"

definition it_stopFill :: "market \<Rightarrow> dbl \<Rightarrow> order_signal \<Rightarrow> ind_trade \<Rightarrow> ind_trade" where
  "it_stopFill m undef sg t =
     (let prev = lg_execQty (it_stop t);
          (filled, t) = it_updateExitQty m sg (lg_execQty (it_stop t)) t;
          t = (if filled > 0
               then t\<lparr>it_stop := (it_stop t)\<lparr>lg_execQty := adjustQty m (lg_execQty (it_stop t) + filled) True\<rparr>\<rparr> else t);
          (commission, t) = it_updateExitFees m undef sg (sl_fees (it_stop t)) (lg_execQty (it_stop t)) prev t
      in if commission \<noteq> 0 then t\<lparr>it_stop := (it_stop t)\<lparr>sl_fees := sl_fees (it_stop t) + commission\<rparr>\<rparr> else t)"

definition it_stopTraded :: "market \<Rightarrow> dbl \<Rightarrow> order_signal \<Rightarrow> ind_trade \<Rightarrow> ind_trade" where
  "it_stopTraded m undef sg t =
     (let t = it_stopFill m undef sg t;
          t = t\<lparr>it_stop := (it_stop t)\<lparr>lg_state := it_updateExitState sg t\<rparr>\<rparr>;
          t = (if lg_execQty (it_stop t) \<ge> sl_orderedQty (it_stop t) \<or> os_completed sg
               then t\<lparr>it_stop := clear_stop (it_stop t)\<rparr> else t)
      in it_updateExitStats sg t)"

definition it_stopSignal :: "market \<Rightarrow> dbl \<Rightarrow> order_signal \<Rightarrow> ind_trade \<Rightarrow> ind_trade" where
  "it_stopSignal m undef sg t =
     (let t = t\<lparr>it_stop := leg_learn (or_orderId sg) (it_stop t)\<rparr>
      in case os_event sg of
           OS_OPENED \<Rightarrow>
             (let t = (if lg_state (it_stop t) = STATE_NEW
                       then t\<lparr>it_stop := (it_stop t)\<lparr>lg_state := STATE_OPENED\<rparr>\<rparr> else t)
              in if tr_exitTimeStamp t = 0 \<and> or_executed sg > 0 then t\<lparr>tr_exitTimeStamp := or_executed sg\<rparr> else t)
         | OS_REJECTED \<Rightarrow> t\<lparr>it_stop := (clear_stop (it_stop t))\<lparr>lg_state := STATE_REJECTED\<rparr>\<rparr>
         | OS_DELETED \<Rightarrow> t\<lparr>it_stop := clear_stop (it_stop t)\<rparr>
         | OS_CANCELED \<Rightarrow> t\<lparr>it_stop := (clear_stop (it_stop t))\<lparr>lg_state := STATE_CANCELED\<rparr>\<rparr>
         | OS_UPDATED \<Rightarrow> t
         | OS_TRADED \<Rightarrow> it_stopTraded m undef sg t)"

definition it_orderSignal :: "market \<Rightarrow> dbl \<Rightarrow> order_signal \<Rightarrow> ind_trade \<Rightarrow> ind_trade" where
  "it_orderSignal m undef sg t =
     (if leg_target (or_orderId sg) (or_refId sg) (it_entry t) then it_entrySignal m undef sg t
      else if leg_target (or_orderId sg) (or_refId sg) (it_limit t) then it_limitSignal m undef sg t
      else if leg_target (or_orderId sg) (or_refId sg) (it_stop t) then it_stopSignal m undef sg t
      else t)"

text \<open>No event of the position has an effect.\<close>

definition it_positionSignal :: "position_signal \<Rightarrow> ind_trade \<Rightarrow> ind_trade" where
  "it_positionSignal sg t =
     (if isValid (po_positionId sg) \<and> po_positionId sg = it_positionId t then
        (case ps_event sg of PS_OPENED \<Rightarrow> t | PS_UPDATED \<Rightarrow> t | PS_DELETED \<Rightarrow> t | PS_AMENDED \<Rightarrow> t)
      else t)"

interpretation it: trade_impl it_isTargetOrder "it_orderSignal m undef" it_isTargetPosition it_positionSignal
  it_isActive it_isClosed it_isCanceled for m undef
  by unfold_locales (auto simp: it_isTargetOrder_def it_orderSignal_def it_isTargetPosition_def
    it_positionSignal_def it_state_defs split: if_splits position_event.splits)

section \<open>Operations\<close>

definition it_deliver :: "market \<Rightarrow> dbl \<Rightarrow> signal list \<Rightarrow> ind_trade \<Rightarrow> ind_trade" where
  "it_deliver m undef = fold (deliver_one it_isTargetOrder (it_orderSignal m undef) it_isTargetPosition it_positionSignal)"

definition it_create :: "'w proxy \<Rightarrow> order \<Rightarrow> ind_trade \<Rightarrow> 'w \<Rightarrow> int \<times> ind_trade \<times> 'w" where
  "it_create px od t w =
     (let (ret, sigs, w') = px_createOrder px od w
      in (ret, it_deliver (px_market px w) (px_undef px) sigs t, w'))"

definition it_cancel :: "'w proxy \<Rightarrow> string \<Rightarrow> ind_trade \<Rightarrow> 'w \<Rightarrow> int \<times> ind_trade \<times> 'w" where
  "it_cancel px orderId t w =
     (let (ret, sigs, w') = px_cancelOrder px orderId w
      in (ret, it_deliver (px_market px w) (px_undef px) sigs t, w'))"

definition it_cancel_entry :: "'w proxy \<Rightarrow> ind_trade \<times> 'w \<Rightarrow> ind_trade \<times> 'w" where
  "it_cancel_entry px = (\<lambda>(t, w).
     if hasOrder (it_entry t) then
       (let (ret, t, w) = it_cancel px (lg_orderId (it_entry t)) t w
        in if ret = RET_OK then (t\<lparr>it_entry := (clear_leg (it_entry t))\<lparr>lg_state := STATE_CANCELED\<rparr>\<rparr>, w) else (t, w))
     else (t, w))"

definition it_cancel_stop :: "'w proxy \<Rightarrow> ind_trade \<times> 'w \<Rightarrow> ind_trade \<times> 'w" where
  "it_cancel_stop px = (\<lambda>(t, w).
     if hasOrder (it_stop t) then
       (let (ret, t, w) = it_cancel px (lg_orderId (it_stop t)) t w
        in if ret = RET_OK then (t\<lparr>it_stop := (clear_stop (it_stop t))\<lparr>lg_state := STATE_CANCELED\<rparr>\<rparr>, w) else (t, w))
     else (t, w))"

definition it_cancel_limit :: "'w proxy \<Rightarrow> ind_trade \<times> 'w \<Rightarrow> ind_trade \<times> 'w" where
  "it_cancel_limit px = (\<lambda>(t, w).
     if hasOrder (it_limit t) then
       (let (ret, t, w) = it_cancel px (lg_orderId (it_limit t)) t w
        in if ret = RET_OK then (t\<lparr>it_limit := (clear_limit (it_limit t))\<lparr>lg_state := STATE_CANCELED\<rparr>\<rparr>, w) else (t, w))
     else (t, w))"

definition it_open :: "'w proxy \<Rightarrow> int \<Rightarrow> order_type \<Rightarrow> dbl \<Rightarrow> dbl \<Rightarrow> dbl \<Rightarrow> dbl \<Rightarrow> ind_trade \<Rightarrow> 'w
    \<Rightarrow> ind_trade \<times> 'w" where
  "it_open px direction orderType orderPrice quantity takeProfitPrice stopLossPrice t w =
     (let t = t\<lparr>tr_direction := direction, tr_orderQuantity := quantity, tr_orderPrice := orderPrice,
                tr_takeProfitPrice := takeProfitPrice, tr_stopLossPrice := stopLossPrice\<rparr>;
          (od, w) = px_newOrder px w;
          od = setMargin (od\<lparr>or_direction := direction, or_orderQuantity := quantity,
                 or_orderType := orderType, or_orderPrice := orderPrice\<rparr>);
          t = t\<lparr>it_entry := (it_entry t)\<lparr>lg_refId := or_refId od\<rparr>\<rparr>;
          t = on_stats (\<lambda>s. s\<lparr>ts_entryOrderType := or_orderType od\<rparr>) t;
          (ret, t, w) = it_create px od t w
      in if ret = RET_OK then (t, w)
         else (on_stats (\<lambda>s. s\<lparr>ts_entryOrderType := ORDER_UNDEFINED\<rparr>)
                 (t\<lparr>it_entry := (it_entry t)\<lparr>lg_state := STATE_REJECTED\<rparr>\<rparr>), w))"

definition it_remove :: "'w proxy \<Rightarrow> ind_trade \<Rightarrow> 'w \<Rightarrow> ind_trade \<times> 'w" where
  "it_remove px t w =
     (if sl_closing (it_stop t) then (t, w)
      else it_cancel_limit px (it_cancel_stop px (it_cancel_entry px (t, w))))"

definition it_cancelOpen :: "'w proxy \<Rightarrow> ind_trade \<Rightarrow> 'w \<Rightarrow> ind_trade \<times> 'w" where
  "it_cancelOpen px t w = (if it_isOpened t then it_cancel_entry px (t, w) else (t, w))"

definition it_cancelClose :: "'w proxy \<Rightarrow> ind_trade \<Rightarrow> 'w \<Rightarrow> ind_trade \<times> 'w" where
  "it_cancelClose px t w =
     (if sl_closing (it_stop t) then (t, w)
      else if \<not> it_isActive t then (t, w)
      else it_cancel_limit px (it_cancel_stop px (t, w)))"

text \<open>The type of a new limit order is stored as the type of the stop order.\<close>

definition it_modifyTakeProfit :: "'w proxy \<Rightarrow> dbl \<Rightarrow> modifier_type \<Rightarrow> ind_trade \<Rightarrow> 'w \<Rightarrow> ind_trade \<times> 'w" where
  "it_modifyTakeProfit px price md t w =
     (if sl_closing (it_stop t) then (t, w)
      else
        let md = (if hasOrder (it_limit t) \<and> md = MOD_PREVIOUS then MOD_DISTANT else md);
            (t, w) = it_cancel_limit px (t, w);
            (t, w) =
              (if md = MOD_DISTANT \<and> price > 0 then
                 (let remaining_qty = tr_filledEntryQuantity t - tr_filledExitQuantity t;
                      (od, w) = px_newOrder px w;
                      od = setReduceOnly (setMargin (od\<lparr>or_direction := - tr_direction t,
                             or_orderQuantity := remaining_qty, or_orderType := ORDER_LIMIT, or_orderPrice := price\<rparr>));
                      t = t\<lparr>it_limit := (it_limit t)\<lparr>lg_refId := or_refId od, ll_orderedQty := or_orderQuantity od\<rparr>\<rparr>;
                      t = on_stats (\<lambda>s. s\<lparr>ts_stopOrderType := or_orderType od\<rparr>) t;
                      (ret, t, w) = it_create px od t w
                  in if ret = RET_OK then (t, w)
                     else (on_stats (\<lambda>s. s\<lparr>ts_stopOrderType := ORDER_UNDEFINED\<rparr>)
                             (t\<lparr>it_limit := clear_limit (it_limit t)\<rparr>), w))
               else (t, w))
        in (t\<lparr>tr_takeProfitPrice := price\<rparr>, w))"

definition it_modifyStopLoss :: "'w proxy \<Rightarrow> dbl \<Rightarrow> modifier_type \<Rightarrow> ind_trade \<Rightarrow> 'w \<Rightarrow> ind_trade \<times> 'w" where
  "it_modifyStopLoss px price md t w =
     (if sl_closing (it_stop t) then (t, w)
      else
        let md = (if hasOrder (it_stop t) \<and> md = MOD_PREVIOUS then MOD_DISTANT else md);
            (t, w) = it_cancel_stop px (t, w);
            (t, w) =
              (if md = MOD_DISTANT \<and> price > 0 then
                 (let remaining_qty = tr_filledEntryQuantity t - tr_filledExitQuantity t;
                      (od, w) = px_newOrder px w;
                      od = setReduceOnly (setMargin (od\<lparr>or_direction := - tr_direction t,
                             or_orderQuantity := remaining_qty, or_orderType := ORDER_MARKET, or_orderPrice := price\<rparr>));
                      t = t\<lparr>it_stop := (it_stop t)\<lparr>lg_refId := or_refId od, sl_orderedQty := or_orderQuantity od\<rparr>\<rparr>;
                      t = on_stats (\<lambda>s. s\<lparr>ts_stopOrderType := or_orderType od\<rparr>) t;
                      (ret, t, w) = it_create px od t w
                  in if ret = RET_OK then (t, w)
                     else (on_stats (\<lambda>s. s\<lparr>ts_stopOrderType := ORDER_UNDEFINED\<rparr>)
                             (t\<lparr>it_stop := clear_stop (it_stop t)\<rparr>), w))
               else (t, w))
        in (t\<lparr>tr_stopLossPrice := price\<rparr>, w))"

text \<open>The quantity to close is read before the exit orders are canceled.\<close>

definition it_close :: "'w proxy \<Rightarrow> exit_reason \<Rightarrow> ind_trade \<Rightarrow> 'w \<Rightarrow> ind_trade \<times> 'w" where
  "it_close px reason t w =
     (if sl_closing (it_stop t) then (t, w)
      else
        let remaining_qty = tr_filledEntryQuantity t - tr_filledExitQuantity t
        in if remaining_qty \<le> 0 then (t, w)
           else
             let (t, w) = it_cancel_limit px (it_cancel_stop px (t, w));
                 t = on_stats (\<lambda>s. s\<lparr>ts_exitReason := reason\<rparr>) t;
                 (od, w) = px_newOrder px w;
                 od = setReduceOnly (setMargin (od\<lparr>or_direction := - tr_direction t,
                        or_orderQuantity := remaining_qty, or_orderType := ORDER_MARKET\<rparr>));
                 t = t\<lparr>it_stop := (it_stop t)\<lparr>lg_refId := or_refId od, sl_orderedQty := or_orderQuantity od,
                                           sl_closing := True\<rparr>\<rparr>;
                 t = on_stats (\<lambda>s. s\<lparr>ts_stopOrderType := or_orderType od\<rparr>) t;
                 (ret, t, w) = it_create px od t w
             in if ret = RET_OK then (t, w)
                else (on_stats (\<lambda>s. s\<lparr>ts_stopOrderType := ORDER_UNDEFINED\<rparr>)
                        (t\<lparr>it_stop := clear_stop (it_stop t)\<rparr>), w))"

text \<open>\<open>updateTrade\<close> is the callback of the strategy, code of a plugin.\<close>

definition it_process :: "'w proxy \<Rightarrow> (ind_trade \<Rightarrow> 'w \<Rightarrow> ind_trade \<times> 'w) \<Rightarrow> ind_trade \<Rightarrow> 'w \<Rightarrow> ind_trade \<times> 'w" where
  "it_process px updateTrade t w =
     (if it_isActive t then
        (let (t, w) = updateTrade t w;
             closePrice = closeExecPrice (px_market px w) (tr_direction t)
         in if tr_stopLossPrice t > 0 \<and> \<not> isValid (lg_orderId (it_stop t)) \<and>
               (tr_direction t > 0 \<and> closePrice \<le> tr_stopLossPrice t \<or>
                tr_direction t < 0 \<and> closePrice \<ge> tr_stopLossPrice t)
            then it_close px REASON_STOP_LOSS_MARKET t w
            else if tr_takeProfitPrice t > 0 \<and> \<not> isValid (lg_orderId (it_limit t)) \<and>
               (tr_direction t > 0 \<and> closePrice \<ge> tr_takeProfitPrice t \<or>
                tr_direction t < 0 \<and> closePrice \<le> tr_takeProfitPrice t)
            then it_close px REASON_TAKE_PROFIT_MARKET t w
            else (t, w))
      else (t, w))"

section \<open>Properties\<close>

text \<open>A trade that is canceled or closed, and so can be deleted, is not active.\<close>

theorem it_deletable_not_active:
  assumes "tr_canDelete (it_isClosed t) (it_isCanceled t)"
  shows "\<not> it_isActive t"
  using assms by (rule it.deletable_not_active)

theorem it_deletable_not_active_witness:
  "\<not> it_isActive (new_ind_trade\<lparr>it_entry := new_leg\<lparr>lg_state := STATE_FILLED\<rparr>,
     it_limit := new_limit_leg\<lparr>lg_state := STATE_FILLED\<rparr>\<rparr>)"
  by (rule it_deletable_not_active)
    (simp add: tr_canDelete_def it_isClosed_def new_ind_trade_def trade.defs)

subsection \<open>The orders that a trade sends\<close>

definition exit_order :: "int \<Rightarrow> order \<Rightarrow> bool" where
  "exit_order direction od \<longleftrightarrow> or_direction od = - direction \<and> reduceOnly od \<and> margin od"

lemma it_fees_direction [simp]:
  "tr_direction (it_entryFees m u sg f t) = tr_direction t"
  "tr_direction (snd (it_updateExitFees m u sg a b c t)) = tr_direction t"
  "tr_direction (snd (it_updateExitQty m sg q t)) = tr_direction t"
  "tr_direction (it_updateExitStats sg t) = tr_direction t"
  by (simp_all add: it_entryFees_def it_updateExitFees_def it_updateExitQty_def it_updateExitStats_def Let_def
    if_distrib [of tr_direction] cong: if_cong split del: if_split)

lemma it_fill_direction [simp]:
  "tr_direction (it_limitFill m u sg t) = tr_direction t"
  "tr_direction (it_stopFill m u sg t) = tr_direction t"
  by (simp_all add: it_limitFill_def it_stopFill_def Let_def split_beta
    if_distrib [of tr_direction] cong: if_cong split del: if_split)

lemma it_traded_direction [simp]:
  "tr_direction (it_entryTraded m u sg t) = tr_direction t"
  "tr_direction (it_limitTraded m u sg t) = tr_direction t"
  "tr_direction (it_stopTraded m u sg t) = tr_direction t"
  by (simp_all add: it_entryTraded_def it_limitTraded_def it_stopTraded_def Let_def
    if_distrib [of tr_direction] cong: if_cong split del: if_split)

lemma it_orderSignal_direction [simp]: "tr_direction (it_orderSignal m u sg t) = tr_direction t"
  by (simp add: it_orderSignal_def it_entrySignal_def it_limitSignal_def it_stopSignal_def Let_def split: order_event.splits)

lemma it_positionSignal_id [simp]: "it_positionSignal sg t = t"
  by (simp add: it_positionSignal_def split: position_event.splits)

lemma it_deliver_direction [simp]: "tr_direction (it_deliver m u sigs t) = tr_direction t"
  unfolding it_deliver_def by (induction sigs arbitrary: t) (auto simp: deliver_one_def split: signal.splits)

lemma it_cancel_direction [simp]:
  "tr_direction (fst (it_cancel_stop px tw)) = tr_direction (fst tw)"
  "tr_direction (fst (it_cancel_limit px tw)) = tr_direction (fst tw)"
  by (simp_all add: it_cancel_stop_def it_cancel_limit_def it_cancel_def Let_def split_beta)

lemma it_cancel_proxy [simp]:
  "it_cancel_stop (px\<lparr>px_createOrder := c\<rparr>) = it_cancel_stop px"
  "it_cancel_limit (px\<lparr>px_createOrder := c\<rparr>) = it_cancel_limit px"
proof -
  have "it_cancel (px\<lparr>px_createOrder := c\<rparr>) = it_cancel px" by (intro ext) (simp add: it_cancel_def)
  then show "it_cancel_stop (px\<lparr>px_createOrder := c\<rparr>) = it_cancel_stop px"
    "it_cancel_limit (px\<lparr>px_createOrder := c\<rparr>) = it_cancel_limit px"
    by (simp_all only: it_cancel_stop_def it_cancel_limit_def)
qed

lemma exit_order_flags:
  "or_flags od = -1 \<Longrightarrow> exit_order d (setReduceOnly (setMargin (od\<lparr>or_direction := - d, or_orderQuantity := q, or_orderType := ty\<rparr>)))"
  "or_flags od = -1 \<Longrightarrow> exit_order d (setReduceOnly (setMargin (od\<lparr>or_direction := - d, or_orderQuantity := q, or_orderType := ty, or_orderPrice := p\<rparr>)))"
  by (simp_all add: exit_order_def reduceOnly_def margin_def has_flag_def setReduceOnly_def setMargin_def defineFlag_def F_defs)

text \<open>
  Every order that \<^verbatim>\<open>close\<close>, \<^verbatim>\<open>modifyTakeProfit\<close> and \<^verbatim>\<open>modifyStopLoss\<close> send to the proxy is a margin
  order against the direction of the trade that can only reduce the position: what the proxy does with any other order
  changes nothing for them.
\<close>

theorem it_exit_orders:
  assumes new: "\<And>w. or_flags (fst (px_newOrder px w)) = -1"
    and same: "\<And>od w. exit_order (tr_direction t) od \<Longrightarrow> create od w = px_createOrder px od w"
  shows "it_close (px\<lparr>px_createOrder := create\<rparr>) reason t w = it_close px reason t w
     \<and> it_modifyTakeProfit (px\<lparr>px_createOrder := create\<rparr>) price md t w = it_modifyTakeProfit px price md t w
     \<and> it_modifyStopLoss (px\<lparr>px_createOrder := create\<rparr>) price md t w = it_modifyStopLoss px price md t w"
proof -
  have c: "it_create (px\<lparr>px_createOrder := create\<rparr>) od = it_create px od" if "exit_order (tr_direction t) od" for od
    by (intro ext) (simp add: it_create_def same [OF that])
  note c = c [OF exit_order_flags(1) [OF new]] c [OF exit_order_flags(2) [OF new]]
  show ?thesis
    by (simp add: it_close_def it_modifyTakeProfit_def it_modifyStopLoss_def Let_def split_beta c)
qed

definition only_exit_orders :: "int \<Rightarrow> nat proxy \<Rightarrow> order \<Rightarrow> nat \<Rightarrow> int \<times> signal list \<times> nat" where
  "only_exit_orders d px od n = (if exit_order d od then px_createOrder px od n else (RET_ERROR, [], n))"

theorem it_exit_orders_witness:
  "it_close (demo_proxy\<lparr>px_createOrder := only_exit_orders 0 demo_proxy\<rparr>) REASON_CLOSE_MARKET new_ind_trade 0
    = it_close demo_proxy REASON_CLOSE_MARKET new_ind_trade 0"
proof -
  have new: "\<And>w. or_flags (fst (px_newOrder demo_proxy w)) = -1" by (simp add: demo_proxy_def new_order_def)
  have d: "tr_direction new_ind_trade = 0" by (simp add: new_ind_trade_def new_trade_def trade.defs)
  show ?thesis
    by (rule it_exit_orders [OF new, THEN conjunct1]) (simp add: only_exit_orders_def d)
qed

subsection \<open>A canceled entry\<close>

text \<open>
  When the entry order of a trade is canceled after a partial fill, the trade is in none of the
  states: not active, opened, canceled or closed. \<^verbatim>\<open>process\<close> then does nothing, so neither the stop-loss nor the take-profit
  of the quantity held is watched, and the trade cannot be deleted.
\<close>

theorem it_cancel_partial_orphan:
  assumes "leg_target (or_orderId sg) (or_refId sg) (it_entry t)" and "os_event sg = OS_CANCELED"
    and "0 < tr_filledEntryQuantity t" and "\<not> it_isClosed t"
  shows "let t' = it_orderSignal m undef sg t
     in \<not> it_isActive t' \<and> \<not> it_isOpening t' \<and> \<not> tr_canDelete (it_isClosed t') (it_isCanceled t')
      \<and> tr_filledEntryQuantity t' = tr_filledEntryQuantity t \<and> it_process px upd t' w = (t', w)"
  using assms by (simp add: it_orderSignal_def it_entrySignal_def it_state_defs it_process_def tr_canDelete_def Let_def)

theorem it_cancel_partial_orphan_witness:
  "\<not> it_isActive (it_orderSignal (px_market demo_proxy 0) 0
     (order.extend ((new_order 0)\<lparr>or_orderId := ''a''\<rparr>) \<lparr>os_event = OS_CANCELED, os_completed = False\<rparr>)
     (new_ind_trade\<lparr>tr_filledEntryQuantity := 1, it_entry := new_leg\<lparr>lg_orderId := ''a'', lg_state := STATE_PARTIALLY_FILLED\<rparr>\<rparr>))"
proof -
  define sg where "sg = order.extend ((new_order 0)\<lparr>or_orderId := ''a''\<rparr>) \<lparr>os_event = OS_CANCELED, os_completed = False\<rparr>"
  define t where "t = new_ind_trade\<lparr>tr_filledEntryQuantity := 1, it_entry := new_leg\<lparr>lg_orderId := ''a'', lg_state := STATE_PARTIALLY_FILLED\<rparr>\<rparr>"
  have "leg_target (or_orderId sg) (or_refId sg) (it_entry t)" "os_event sg = OS_CANCELED"
    "0 < tr_filledEntryQuantity t" "\<not> it_isClosed t"
    by (simp_all add: sg_def t_def order.defs leg_target_def isValid_def it_isClosed_def new_ind_trade_def
      trade.defs new_stop_leg_def new_limit_leg_def)
  from it_cancel_partial_orphan [OF this] show ?thesis unfolding sg_def [symmetric] t_def [symmetric] Let_def by (rule conjunct1)
qed

subsection \<open>What a fill of the stop order leaves\<close>

lemmas it_if = if_distrib [of it_entry] if_distrib [of it_stop] if_distrib [of it_limit]
  if_distrib [of tr_filledEntryQuantity] if_distrib [of tr_filledExitQuantity] if_distrib [of tr_orderQuantity]
  if_distrib [of tr_exitPrice] if_distrib [of tr_entryPrice] if_distrib [of tr_profitLossRate]

lemma it_updateExitFees_frame [simp]:
  "it_entry (snd (it_updateExitFees m u sg a b c t)) = it_entry t"
  "it_stop (snd (it_updateExitFees m u sg a b c t)) = it_stop t"
  "it_limit (snd (it_updateExitFees m u sg a b c t)) = it_limit t"
  "tr_filledEntryQuantity (snd (it_updateExitFees m u sg a b c t)) = tr_filledEntryQuantity t"
  "tr_filledExitQuantity (snd (it_updateExitFees m u sg a b c t)) = tr_filledExitQuantity t"
  "tr_orderQuantity (snd (it_updateExitFees m u sg a b c t)) = tr_orderQuantity t"
  "tr_exitPrice (snd (it_updateExitFees m u sg a b c t)) = tr_exitPrice t"
  "tr_entryPrice (snd (it_updateExitFees m u sg a b c t)) = tr_entryPrice t"
  "tr_profitLossRate (snd (it_updateExitFees m u sg a b c t)) = tr_profitLossRate t"
  by (simp_all add: it_updateExitFees_def Let_def it_if cong: if_cong split del: if_split)

lemma it_updateExitQty_frame [simp]:
  "it_entry (snd (it_updateExitQty m sg q t)) = it_entry t" "it_stop (snd (it_updateExitQty m sg q t)) = it_stop t"
  "it_limit (snd (it_updateExitQty m sg q t)) = it_limit t"
  "tr_filledEntryQuantity (snd (it_updateExitQty m sg q t)) = tr_filledEntryQuantity t"
  "tr_orderQuantity (snd (it_updateExitQty m sg q t)) = tr_orderQuantity t"
  "tr_entryPrice (snd (it_updateExitQty m sg q t)) = tr_entryPrice t"
  by (simp_all add: it_updateExitQty_def Let_def it_if cong: if_cong split del: if_split)

lemma it_stopFill_frame [simp]:
  "it_entry (it_stopFill m u sg t) = it_entry t" "it_limit (it_stopFill m u sg t) = it_limit t"
  "tr_filledEntryQuantity (it_stopFill m u sg t) = tr_filledEntryQuantity t"
  "tr_orderQuantity (it_stopFill m u sg t) = tr_orderQuantity t"
  "tr_entryPrice (it_stopFill m u sg t) = tr_entryPrice t"
  by (simp_all add: it_stopFill_def Let_def split_beta it_if cong: if_cong split del: if_split)

lemma it_stopFill_exit:
  "tr_filledExitQuantity (it_stopFill m u sg t) = tr_filledExitQuantity (snd (it_updateExitQty m sg (lg_execQty (it_stop t)) t))"
  "tr_exitPrice (it_stopFill m u sg t) = tr_exitPrice (snd (it_updateExitQty m sg (lg_execQty (it_stop t)) t))"
  "tr_profitLossRate (it_stopFill m u sg t) = tr_profitLossRate (snd (it_updateExitQty m sg (lg_execQty (it_stop t)) t))"
  by (simp_all add: it_stopFill_def Let_def split_beta it_if cong: if_cong split del: if_split)

lemma it_updateExitStats_frame [simp]:
  "it_entry (it_updateExitStats sg t) = it_entry t" "it_stop (it_updateExitStats sg t) = it_stop t"
  "it_limit (it_updateExitStats sg t) = it_limit t"
  "tr_filledEntryQuantity (it_updateExitStats sg t) = tr_filledEntryQuantity t"
  "tr_filledExitQuantity (it_updateExitStats sg t) = tr_filledExitQuantity t"
  "tr_exitPrice (it_updateExitStats sg t) = tr_exitPrice t" "tr_entryPrice (it_updateExitStats sg t) = tr_entryPrice t"
  "tr_profitLossRate (it_updateExitStats sg t) = tr_profitLossRate t"
  by (simp_all add: it_updateExitStats_def Let_def)

text \<open>A fill of the stop order, without commissions, seen on the exit quantity and price.\<close>

lemma it_stop_traded:
  fixes m :: market
  assumes "\<not> leg_target (or_orderId sg) (or_refId sg) (it_entry t)" and "\<not> leg_target (or_orderId sg) (or_refId sg) (it_limit t)"
    and "leg_target (or_orderId sg) (or_refId sg) (it_stop t)" and "os_event sg = OS_TRADED"
  defines "t1 \<equiv> t\<lparr>it_stop := leg_learn (or_orderId sg) (it_stop t)\<rparr>"
  defines "t2 \<equiv> snd (it_updateExitQty m sg (lg_execQty (it_stop t1)) t1)"
  shows "it_orderSignal m u sg t = it_stopTraded m u sg t1"
    and "tr_filledExitQuantity (it_orderSignal m u sg t) = tr_filledExitQuantity t2"
    and "tr_exitPrice (it_orderSignal m u sg t) = tr_exitPrice t2"
    and "tr_profitLossRate (it_orderSignal m u sg t) = tr_profitLossRate t2"
    and "it_entry (it_orderSignal m u sg t) = it_entry t" and "it_limit (it_orderSignal m u sg t) = it_limit t"
    and "tr_filledEntryQuantity (it_orderSignal m u sg t) = tr_filledEntryQuantity t"
    and "tr_entryPrice (it_orderSignal m u sg t) = tr_entryPrice t"
    and "lg_state (it_stop (it_orderSignal m u sg t)) = it_updateExitState sg (it_stopFill m u sg t1)"
proof -
  show e: "it_orderSignal m u sg t = it_stopTraded m u sg t1"
    using assms(1-4) by (simp add: it_orderSignal_def it_stopSignal_def t1_def)
  have e1: "it_entry t1 = it_entry t" "it_limit t1 = it_limit t" "tr_filledEntryQuantity t1 = tr_filledEntryQuantity t"
    "tr_entryPrice t1 = tr_entryPrice t"
    by (simp_all add: t1_def)
  show "tr_filledExitQuantity (it_orderSignal m u sg t) = tr_filledExitQuantity t2"
    "tr_exitPrice (it_orderSignal m u sg t) = tr_exitPrice t2"
    "tr_profitLossRate (it_orderSignal m u sg t) = tr_profitLossRate t2"
    "it_entry (it_orderSignal m u sg t) = it_entry t" "it_limit (it_orderSignal m u sg t) = it_limit t"
    "tr_filledEntryQuantity (it_orderSignal m u sg t) = tr_filledEntryQuantity t"
    "tr_entryPrice (it_orderSignal m u sg t) = tr_entryPrice t"
    unfolding e t2_def
    by (simp_all add: it_stopTraded_def Let_def it_if it_stopFill_exit e1 cong: if_cong split del: if_split)
  show "lg_state (it_stop (it_orderSignal m u sg t)) = it_updateExitState sg (it_stopFill m u sg t1)"
    unfolding e by (simp add: it_stopTraded_def Let_def clear_defs)
qed

subsection \<open>The average prices\<close>

lemma sample_adjust:
  "adjustPrice sample_market 0 = 0" "adjustPrice sample_market 10 = 10"
  "adjustQty sample_market 1 True = 1" "adjustQty sample_market 2 True = 2"
  by code_simp+

definition fill_10 :: order_signal where
  "fill_10 = order.extend ((new_order 0)\<lparr>or_orderId := ''x'', or_filled := 1, or_execPrice := 10\<rparr>)
     \<lparr>os_event = OS_TRADED, os_completed = False\<rparr>"

definition exit_trade :: ind_trade where
  "exit_trade = new_ind_trade\<lparr>tr_direction := LONG, tr_entryPrice := 10, tr_filledEntryQuantity := 2,
     it_entry := new_leg\<lparr>lg_state := STATE_FILLED\<rparr>,
     it_stop := new_stop_leg\<lparr>lg_orderId := ''x'', sl_orderedQty := 2, sl_closing := True\<rparr>\<rparr>"

text \<open>
  Two fills of one unit at the price 10 close a long trade entered at 10. The average exit price
  that the code computes is 15, and the trade reports a profit of a half.
\<close>

theorem it_exit_price_wrong:
  "let t = it_orderSignal sample_market 0 fill_10 (it_orderSignal sample_market 0 fill_10 exit_trade)
   in tr_filledExitQuantity t = 2 \<and> tr_exitPrice t = 15 \<and> tr_profitLossRate t = 1 / 2"
  by code_simp

text \<open>
  A trade whose exit order is filled for exactly the quantity held, without the flag of a completed order,
  is not closed: the test asks for more than the quantity. Its stop leg is cleared, the trade stays active, and \<^verbatim>\<open>close\<close>
  does nothing.
\<close>

theorem it_exact_exit_not_closed:
  assumes "\<not> leg_target (or_orderId sg) (or_refId sg) (it_entry t)" and "\<not> leg_target (or_orderId sg) (or_refId sg) (it_limit t)"
    and "leg_target (or_orderId sg) (or_refId sg) (it_stop t)"
    and "os_event sg = OS_TRADED" and "\<not> os_completed sg" and "or_cumulativeFilled sg \<le> 0" and "0 < or_filled sg"
    and "adjustQty m (tr_filledExitQuantity t + or_filled sg) True = tr_filledEntryQuantity t"
    and "lg_state (it_entry t) = STATE_FILLED" and "lg_state (it_limit t) \<noteq> STATE_FILLED"
  shows "let t' = it_orderSignal m undef sg t
     in it_isActive t' \<and> \<not> it_isClosed t' \<and> tr_filledExitQuantity t' = tr_filledEntryQuantity t'
      \<and> it_close px reason t' w = (t', w)"
proof -
  define t1 where "t1 = t\<lparr>it_stop := leg_learn (or_orderId sg) (it_stop t)\<rparr>"
  note v = it_stop_traded [OF assms(1-4), of m undef, folded t1_def]
  have q: "tr_filledExitQuantity (snd (it_updateExitQty m sg (lg_execQty (it_stop t1)) t1)) = tr_filledEntryQuantity t"
    using assms(6-8) by (simp add: it_updateExitQty_def Let_def t1_def)
  have st: "it_updateExitState sg (it_stopFill m undef sg t1) = STATE_PARTIALLY_FILLED"
    using assms(5,9) q by (simp add: it_updateExitState_def it_stopFill_exit t1_def)
  show ?thesis
    using v(2-7,9) q st assms(9,10) by (simp add: Let_def it_isActive_def it_isClosed_def it_close_def)
qed

theorem it_exact_exit_not_closed_witness:
  "\<not> it_isClosed (it_orderSignal sample_market 0 fill_10 (exit_trade\<lparr>tr_filledExitQuantity := 1\<rparr>))"
proof -
  define t where "t = exit_trade\<lparr>tr_filledExitQuantity := 1\<rparr>"
  have h: "\<not> leg_target (or_orderId fill_10) (or_refId fill_10) (it_entry t)"
    "\<not> leg_target (or_orderId fill_10) (or_refId fill_10) (it_limit t)"
    "leg_target (or_orderId fill_10) (or_refId fill_10) (it_stop t)" "os_event fill_10 = OS_TRADED"
    "\<not> os_completed fill_10" "or_cumulativeFilled fill_10 \<le> 0" "0 < or_filled fill_10"
    "adjustQty sample_market (tr_filledExitQuantity t + or_filled fill_10) True = tr_filledEntryQuantity t"
    "lg_state (it_entry t) = STATE_FILLED" "lg_state (it_limit t) \<noteq> STATE_FILLED"
    unfolding t_def by code_simp+
  from it_exact_exit_not_closed [OF h, where undef = 0 and px = demo_proxy and w = 0 and reason = REASON_NONE] show ?thesis unfolding t_def [symmetric] Let_def by simp
qed

subsection \<open>The average entry price\<close>

text \<open>A relative fill of the entry order, with no average price, cumulated quantity or completion flag.\<close>

definition entry_fill :: "market \<Rightarrow> string \<Rightarrow> order_signal \<Rightarrow> bool" where
  "entry_fill m i sg \<longleftrightarrow> os_event sg = OS_TRADED \<and> or_orderId sg = i \<and> 0 < or_filled sg
     \<and> on_grid (fi_step (mk_qtyFilter m)) (or_filled sg) \<and> 0 < or_execPrice sg \<and> or_avgPrice sg \<le> 0
     \<and> or_cumulativeFilled sg \<le> 0 \<and> \<not> os_completed sg"

definition fills_qty :: "order_signal list \<Rightarrow> dbl" where
  "fills_qty sgs = sum_list (map or_filled sgs)"

definition fills_cost :: "order_signal list \<Rightarrow> dbl" where
  "fills_cost sgs = sum_list (map (\<lambda>sg. or_filled sg * or_execPrice sg) sgs)"

lemma on_grid_add: "on_grid s a \<Longrightarrow> on_grid s b \<Longrightarrow> on_grid s (a + b)"
  by (auto simp: on_grid_def is_int_def add_divide_distrib) (metis of_int_add floor_of_int)

lemma adjustQty_on_grid:
  assumes "fits_step (mk_qtyFilter m)" and "on_grid (fi_step (mk_qtyFilter m)) q" and "fi_min (mk_qtyFilter m) \<le> q"
    and "fi_max (mk_qtyFilter m) > 0 \<longrightarrow> q \<le> fi_max (mk_qtyFilter m)"
  shows "adjustQty m q z = q"
proof -
  obtain k where k: "q / fi_step (mk_qtyFilter m) = of_int k" using assms(2) by (auto simp: on_grid_def elim: is_intE)
  then have "of_int k * fi_step (mk_qtyFilter m) = q" using assms(1) by (simp add: fits_step_def field_simps)
  then show ?thesis using assms(3) adjustQty_mid [OF assms(1,3,4), of z] by (simp add: k)
qed

lemma it_entryFees_frame [simp]:
  "it_entry (it_entryFees m u sg f t) = it_entry t" "tr_filledEntryQuantity (it_entryFees m u sg f t) = tr_filledEntryQuantity t"
  "tr_orderQuantity (it_entryFees m u sg f t) = tr_orderQuantity t" "tr_entryPrice (it_entryFees m u sg f t) = tr_entryPrice t"
  "tr_dirty (it_entryFees m u sg f t) = tr_dirty t"
  by (simp_all add: it_entryFees_def Let_def)

lemma it_entryTraded_frame:
  "tr_filledEntryQuantity (it_entryTraded m u sg t) = it_entryQty m sg t"
  "tr_entryPrice (it_entryTraded m u sg t) = it_entryPrice m sg t"
  "tr_orderQuantity (it_entryTraded m u sg t) = tr_orderQuantity t"
  "it_entry (it_entryTraded m u sg t) =
     (if it_entryQty m sg t \<ge> tr_orderQuantity t \<or> os_completed sg then clear_leg ((it_entry t)\<lparr>lg_state := STATE_FILLED\<rparr>)
      else (it_entry t)\<lparr>lg_state := STATE_PARTIALLY_FILLED\<rparr>)"
  by (simp_all add: it_entryTraded_def Let_def it_if if_distrib [of "\<lambda>x. tr_dirty x"] cong: if_cong split del: if_split)

text \<open>One fill: the quantity is exact, and the price is off the weighted average by the rounding of one price.\<close>

lemma it_entry_fill_step:
  fixes u :: dbl
  assumes "entry_fill m i sg" and "isValid i" and "lg_orderId (it_entry t) = i"
    and "fits_step (mk_priceFilter m)" and "fits_step (mk_qtyFilter m)"
    and "on_grid (fi_step (mk_qtyFilter m)) (tr_filledEntryQuantity t)" and "0 \<le> tr_filledEntryQuantity t"
    and "fi_min (mk_qtyFilter m) \<le> tr_filledEntryQuantity t + or_filled sg"
    and "fi_max (mk_qtyFilter m) > 0 \<longrightarrow> tr_filledEntryQuantity t + or_filled sg \<le> fi_max (mk_qtyFilter m)"
  defines "t' \<equiv> it_orderSignal m u sg t"
  shows "tr_filledEntryQuantity t' = tr_filledEntryQuantity t + or_filled sg"
    and "\<bar>tr_entryPrice t' * tr_filledEntryQuantity t' - (tr_entryPrice t * tr_filledEntryQuantity t + or_filled sg * or_execPrice sg)\<bar>
      \<le> fi_step (mk_priceFilter m) / 2 * tr_filledEntryQuantity t'"
    and "tr_orderQuantity t' = tr_orderQuantity t"
    and "lg_state (it_entry t') = (if tr_orderQuantity t \<le> tr_filledEntryQuantity t' then STATE_FILLED else STATE_PARTIALLY_FILLED)"
    and "tr_filledEntryQuantity t' < tr_orderQuantity t \<Longrightarrow> lg_orderId (it_entry t') = i"
proof -
  have sg: "os_event sg = OS_TRADED" "or_orderId sg = i" "0 < or_filled sg" "0 < or_execPrice sg" "\<not> 0 < or_avgPrice sg"
    "\<not> 0 < or_cumulativeFilled sg" "\<not> os_completed sg" "on_grid (fi_step (mk_qtyFilter m)) (or_filled sg)"
    using assms(1) by (auto simp: entry_fill_def)
  have l: "t\<lparr>it_entry := leg_learn i (it_entry t)\<rparr> = t"
    using assms(2,3) by (simp add: leg_learn_def isValid_def isEmpty_def)
  have e: "t' = it_entryTraded m u sg t"
    using sg assms(2,3) l by (simp add: t'_def it_orderSignal_def leg_target_def it_entrySignal_def)
  have f: "it_entryFilled sg t = or_filled sg" using sg by (simp add: it_entryFilled_def)
  have q: "it_entryQty m sg t = tr_filledEntryQuantity t + or_filled sg"
    using sg f adjustQty_on_grid [OF assms(5) on_grid_add [OF assms(6) sg(8)] assms(8,9)] by (simp add: it_entryQty_def)
  show "tr_filledEntryQuantity t' = tr_filledEntryQuantity t + or_filled sg"
    "tr_orderQuantity t' = tr_orderQuantity t"
    "lg_state (it_entry t') = (if tr_orderQuantity t \<le> tr_filledEntryQuantity t' then STATE_FILLED else STATE_PARTIALLY_FILLED)"
    "tr_filledEntryQuantity t' < tr_orderQuantity t \<Longrightarrow> lg_orderId (it_entry t') = i"
    using sg assms(3) by (simp_all add: e it_entryTraded_frame q clear_leg_def)
  define Q where "Q = tr_filledEntryQuantity t + or_filled sg"
  define P where "P = (tr_entryPrice t * tr_filledEntryQuantity t + or_execPrice sg * or_filled sg) / Q"
  have Q: "0 < Q" using sg assms(7) by (simp add: Q_def)
  have "\<bar>adjustPrice m P - P\<bar> * Q \<le> fi_step (mk_priceFilter m) / 2 * Q"
    using adjustPrice_nearest [OF assms(4), of P] Q by (intro mult_right_mono) simp_all
  moreover have "\<bar>adjustPrice m P - P\<bar> * Q = \<bar>adjustPrice m P * Q - P * Q\<bar>"
    using Q by (simp add: abs_mult left_diff_distrib [symmetric])
  moreover have "P * Q = tr_entryPrice t * tr_filledEntryQuantity t + or_filled sg * or_execPrice sg"
    using Q by (simp add: P_def mult.commute)
  moreover have "tr_entryPrice t' = adjustPrice m P"
    using sg f by (simp add: e it_entryTraded_frame it_entryPrice_def P_def Q_def Let_def)
  moreover have "tr_filledEntryQuantity t' = Q" by (simp add: e it_entryTraded_frame q Q_def)
  ultimately show "\<bar>tr_entryPrice t' * tr_filledEntryQuantity t' - (tr_entryPrice t * tr_filledEntryQuantity t + or_filled sg * or_execPrice sg)\<bar>
      \<le> fi_step (mk_priceFilter m) / 2 * tr_filledEntryQuantity t'" by simp
qed

lemma fills_snoc [simp]:
  "fills_qty (sgs @ [sg]) = fills_qty sgs + or_filled sg"
  "fills_cost (sgs @ [sg]) = fills_cost sgs + or_filled sg * or_execPrice sg"
  "fills_qty [] = 0" "fills_cost [] = 0"
  by (simp_all add: fills_qty_def fills_cost_def)

lemma fills_qty_nonneg: "\<forall>sg\<in>set sgs. entry_fill m i sg \<Longrightarrow> 0 \<le> fills_qty sgs"
  unfolding fills_qty_def by (rule sum_list_nonneg) (auto simp: entry_fill_def)

lemma fills_qty_hd: "\<forall>sg\<in>set sgs. entry_fill m i sg \<Longrightarrow> sgs \<noteq> [] \<Longrightarrow> or_filled (hd sgs) \<le> fills_qty sgs"
  using fills_qty_nonneg [of "tl sgs" m i] by (cases sgs) (simp_all add: fills_qty_def)

lemma fills_qty_grid:
  "\<forall>sg\<in>set sgs. entry_fill m i sg \<Longrightarrow> on_grid (fi_step (mk_qtyFilter m)) (fills_qty sgs)"
proof (induction sgs rule: rev_induct)
  case Nil
  then show ?case by (simp add: on_grid_def is_int_def)
next
  case (snoc sg sgs)
  then have "on_grid (fi_step (mk_qtyFilter m)) (fills_qty sgs)" "on_grid (fi_step (mk_qtyFilter m)) (or_filled sg)"
    by (auto simp: entry_fill_def)
  then show ?case by (simp add: on_grid_add)
qed

lemma it_entry_fills:
  fixes u :: dbl
  assumes "isValid i" and "fits_step (mk_priceFilter m)" and "fits_step (mk_qtyFilter m)"
    and "lg_orderId (it_entry t) = i" and "tr_filledEntryQuantity t = 0" and "0 < tr_orderQuantity t"
    and "\<forall>sg\<in>set sgs. entry_fill m i sg" and "sgs \<noteq> [] \<longrightarrow> fi_min (mk_qtyFilter m) \<le> or_filled (hd sgs)"
    and "fills_qty sgs \<le> tr_orderQuantity t"
    and "fi_max (mk_qtyFilter m) > 0 \<longrightarrow> fills_qty sgs \<le> fi_max (mk_qtyFilter m)"
  defines "t' \<equiv> foldl (\<lambda>t sg. it_orderSignal m u sg t) t sgs"
  shows "tr_filledEntryQuantity t' = fills_qty sgs \<and> tr_orderQuantity t' = tr_orderQuantity t
    \<and> (fills_qty sgs < tr_orderQuantity t \<longrightarrow> lg_orderId (it_entry t') = i)
    \<and> (sgs \<noteq> [] \<longrightarrow> lg_state (it_entry t') = (if fills_qty sgs = tr_orderQuantity t then STATE_FILLED else STATE_PARTIALLY_FILLED))
    \<and> \<bar>tr_entryPrice t' * fills_qty sgs - fills_cost sgs\<bar> \<le> of_nat (length sgs) * (fi_step (mk_priceFilter m) / 2) * fills_qty sgs"
  unfolding t'_def using assms(7-10)
proof (induction sgs rule: rev_induct)
  case Nil
  then show ?case using assms(4,5) by simp
next
  case (snoc sg sgs)
  define r where "r = foldl (\<lambda>t sg. it_orderSignal m u sg t) t sgs"
  define h where "h = fi_step (mk_priceFilter m) / 2"
  have fill: "entry_fill m i sg" "0 < or_filled sg" and old: "\<forall>sg\<in>set sgs. entry_fill m i sg"
    using snoc.prems(1) by (auto simp: entry_fill_def)
  have nn: "0 \<le> fills_qty sgs" by (rule fills_qty_nonneg [OF old])
  have lt: "fills_qty sgs < tr_orderQuantity t" "sgs \<noteq> [] \<longrightarrow> fi_min (mk_qtyFilter m) \<le> or_filled (hd sgs)"
    using snoc.prems(2,3) fill by (auto simp: hd_append split: if_splits)
  have ih: "tr_filledEntryQuantity r = fills_qty sgs" "tr_orderQuantity r = tr_orderQuantity t" "lg_orderId (it_entry r) = i"
    "\<bar>tr_entryPrice r * fills_qty sgs - fills_cost sgs\<bar> \<le> of_nat (length sgs) * h * fills_qty sgs"
    using snoc.IH [OF old] lt snoc.prems(4) fill unfolding r_def h_def by auto
  have mn: "fi_min (mk_qtyFilter m) \<le> fills_qty sgs + or_filled sg"
    using snoc.prems(2) lt(2) fills_qty_hd [OF old] nn fill by (cases "sgs = []") auto
  note st = it_entry_fill_step [OF fill(1) assms(1) ih(3) assms(2,3), of u, unfolded ih(1), OF fills_qty_grid [OF old] nn mn]
  have mx: "fi_max (mk_qtyFilter m) > 0 \<longrightarrow> fills_qty sgs + or_filled sg \<le> fi_max (mk_qtyFilter m)"
    using snoc.prems(4) by simp
  note st1 = st(1) [OF mx] and st = st(2-) [OF mx, unfolded st(1) [OF mx]]
  let ?Q = "fills_qty sgs + or_filled sg"
  have h0: "0 \<le> h" using assms(2) by (simp add: h_def fits_step_def)
  have "of_nat (length sgs) * h * fills_qty sgs \<le> of_nat (length sgs) * h * ?Q"
    using h0 fill by (intro mult_left_mono) simp_all
  then have "\<bar>tr_entryPrice (it_orderSignal m u sg r) * ?Q - (fills_cost sgs + or_filled sg * or_execPrice sg)\<bar>
      \<le> of_nat (length sgs) * h * ?Q + h * ?Q"
    using st(1) ih(4) unfolding h_def by linarith
  then have "\<bar>tr_entryPrice (it_orderSignal m u sg r) * ?Q - (fills_cost sgs + or_filled sg * or_execPrice sg)\<bar>
      \<le> of_nat (length (sgs @ [sg])) * h * ?Q"
    by (simp add: algebra_simps)
  moreover have "?Q \<le> tr_orderQuantity t" using snoc.prems(3) by simp
  ultimately show ?case
    using st1 st(2-) ih(2) by (auto simp: r_def [symmetric] h_def)
qed

text \<open>
  C37: The relative fills of an entry order, whose quantities are on the grid of the market and do not exceed the order,
  give the exact filled quantity. The average entry price is the one weighted by the quantities, up to the rounding of half a tick
  for each fill, and the entry is filled exactly when the ordered quantity is reached.
\<close>

theorem it_entry_average:
  assumes "isValid i" and "fits_step (mk_priceFilter m)" and "fits_step (mk_qtyFilter m)"
    and "lg_orderId (it_entry t) = i" and "tr_filledEntryQuantity t = 0"
    and "\<forall>sg\<in>set sgs. entry_fill m i sg" and "sgs \<noteq> []" and "fi_min (mk_qtyFilter m) \<le> or_filled (hd sgs)"
    and "fills_qty sgs \<le> tr_orderQuantity t"
    and "fi_max (mk_qtyFilter m) > 0 \<longrightarrow> fills_qty sgs \<le> fi_max (mk_qtyFilter m)"
  shows "let t' = foldl (\<lambda>t sg. it_orderSignal m u sg t) t sgs
     in tr_filledEntryQuantity t' = fills_qty sgs
      \<and> \<bar>tr_entryPrice t' - fills_cost sgs / fills_qty sgs\<bar> \<le> of_nat (length sgs) * (fi_step (mk_priceFilter m) / 2)
      \<and> lg_state (it_entry t') = (if fills_qty sgs = tr_orderQuantity t then STATE_FILLED else STATE_PARTIALLY_FILLED)"
proof -
  define t' where "t' = foldl (\<lambda>t sg. it_orderSignal m u sg t) t sgs"
  define h where "h = of_nat (length sgs) * (fi_step (mk_priceFilter m) / 2)"
  have "0 < or_filled (hd sgs)" using assms(6,7) by (cases sgs) (auto simp: entry_fill_def)
  then have Q: "0 < fills_qty sgs" using fills_qty_hd [OF assms(6,7)] by linarith
  note f = it_entry_fills [OF assms(1-5) _ assms(6) _ assms(9,10), of u, folded t'_def h_def]
  have "\<bar>tr_entryPrice t' * fills_qty sgs - fills_cost sgs\<bar> \<le> h * fills_qty sgs"
    using f assms(7-9) Q by simp
  moreover have "tr_entryPrice t' * fills_qty sgs - fills_cost sgs = (tr_entryPrice t' - fills_cost sgs / fills_qty sgs) * fills_qty sgs"
    using Q by (simp add: field_simps)
  ultimately have "\<bar>tr_entryPrice t' - fills_cost sgs / fills_qty sgs\<bar> \<le> h"
    using Q by (simp add: abs_mult)
  then show ?thesis
    using f assms(7-9) Q unfolding t'_def [symmetric] h_def [symmetric] Let_def by simp
qed

definition entry_trade :: ind_trade where
  "entry_trade = new_ind_trade\<lparr>tr_orderQuantity := 2, it_entry := new_leg\<lparr>lg_orderId := ''x'', lg_state := STATE_OPENED\<rparr>\<rparr>"

theorem it_entry_average_witness:
  "tr_filledEntryQuantity (foldl (\<lambda>t sg. it_orderSignal sample_market 0 sg t) entry_trade [fill_10, fill_10]) = 2"
proof -
  have f: "entry_fill sample_market ''x'' fill_10" and m: "fits_step (mk_priceFilter sample_market)" "fits_step (mk_qtyFilter sample_market)"
    and i: "isValid ''x''" "lg_orderId (it_entry entry_trade) = ''x''" "tr_filledEntryQuantity entry_trade = 0"
    and q: "fi_min (mk_qtyFilter sample_market) \<le> or_filled fill_10" "fills_qty [fill_10, fill_10] = 2"
      "tr_orderQuantity entry_trade = 2" "fi_max (mk_qtyFilter sample_market) = 100"
    by code_simp+
  show ?thesis
    using it_entry_average [OF i(1) m i(2,3), of "[fill_10, fill_10]" 0] f q by (simp add: Let_def)
qed

end
