(* ===== verification/Paper_Trading.thy ===== *)
theory Paper_Trading
  imports Local_Connector Ind_Margin_Trade
begin

text \<open>
  The composition: trades on an indivisible position (\<^verbatim>\<open>indmargintrade.cpp\<close>) over the local connector
  (\<^verbatim>\<open>localconnectorindmargin.cpp\<close>) through the proxy.
\<close>

section \<open>Delivery of the signals of an execution\<close>

lemma it_deliver_simps [simp]:
  "it_deliver m u [] t = t"
  "it_deliver m u (OrderSig sg # sigs) t = it_deliver m u sigs (it_orderSignal m u sg t)"
  "it_deliver m u (PositionSig ps # sigs) t = it_deliver m u sigs t"
  unfolding it_deliver_def by (simp_all add: it.broadcast)

lemma ind_signal_fields [simp]:
  "or_orderId (ind_openSignal w od) = or_orderId od" "or_refId (ind_openSignal w od) = or_refId od"
  "os_event (ind_openSignal w od) = OS_OPENED" "or_execPrice (ind_openSignal w od) = -1"
  "or_orderId (ind_tradedSignal w od x) = or_orderId od" "or_refId (ind_tradedSignal w od x) = or_refId od"
  "os_event (ind_tradedSignal w od x) = OS_TRADED" "os_completed (ind_tradedSignal w od x)"
  "or_cumulativeFilled (ind_tradedSignal w od x) = or_orderQuantity od" "or_filled (ind_tradedSignal w od x) = or_orderQuantity od"
  "or_avgPrice (ind_tradedSignal w od x) = x" "or_execPrice (ind_tradedSignal w od x) = x"
  "or_orderId (ind_deletedSignal w od) = or_orderId od" "or_refId (ind_deletedSignal w od) = or_refId od"
  "os_event (ind_deletedSignal w od) = OS_DELETED"
  by (simp_all add: ind_openSignal_def ind_tradedSignal_def ind_deletedSignal_def order_to_signal_def order.defs new_order_def
    PRICE_UNDEFINED_def)

text \<open>A leg without an order is not the target of a signal.\<close>

lemma leg_target_empty [simp]: "lg_orderId l = '''' \<Longrightarrow> lg_refId l = '''' \<Longrightarrow> \<not> leg_target i r l"
  by (auto simp: leg_target_def isValid_def)

definition no_orders :: "'a leg_scheme \<Rightarrow> bool" where
  "no_orders l \<longleftrightarrow> lg_orderId l = '''' \<and> lg_refId l = ''''"

lemma no_orders_target [simp]: "no_orders l \<Longrightarrow> \<not> leg_target i r l"
  by (simp add: no_orders_def)

lemma no_orders_has [simp]: "no_orders l \<Longrightarrow> \<not> hasOrder l"
  by (simp add: no_orders_def hasOrder_def isValid_def)

lemma it_not_target:
  "no_orders (it_entry t) \<Longrightarrow> no_orders (it_limit t) \<Longrightarrow> no_orders (it_stop t) \<Longrightarrow> it_orderSignal m u sg t = t"
  by (simp add: it_orderSignal_def)

text \<open>What an entry that is filled at once gives.\<close>

definition entered :: "int \<Rightarrow> dbl \<Rightarrow> dbl \<Rightarrow> ind_trade \<Rightarrow> bool" where
  "entered d q x t \<longleftrightarrow> tr_direction t = d \<and> tr_orderQuantity t = q \<and> tr_filledEntryQuantity t = q \<and> tr_entryPrice t = x
     \<and> tr_filledExitQuantity t = 0 \<and> lg_state (it_entry t) = STATE_FILLED
     \<and> no_orders (it_entry t) \<and> no_orders (it_limit t) \<and> no_orders (it_stop t)
     \<and> lg_state (it_limit t) = STATE_UNDEFINED \<and> lg_state (it_stop t) = STATE_UNDEFINED \<and> lg_execQty (it_stop t) = 0
     \<and> \<not> sl_closing (it_stop t)"

definition exited :: "dbl \<Rightarrow> dbl \<Rightarrow> ind_trade \<Rightarrow> bool" where
  "exited q y t \<longleftrightarrow> it_isClosed t \<and> \<not> it_isActive t \<and> tr_filledEntryQuantity t = q \<and> tr_filledExitQuantity t = q
     \<and> tr_exitPrice t = y \<and> tr_profitLossRate t = of_int (tr_direction t) * (y - tr_entryPrice t) / tr_entryPrice t"

lemma it_entryFees_legs [simp]:
  "it_stop (it_entryFees m u sg f t) = it_stop t" "it_limit (it_entryFees m u sg f t) = it_limit t"
  "tr_filledExitQuantity (it_entryFees m u sg f t) = tr_filledExitQuantity t"
  by (simp_all add: it_entryFees_def Let_def)

lemma it_entryTraded_legs [simp]:
  "it_stop (it_entryTraded m u sg t) = it_stop t" "it_limit (it_entryTraded m u sg t) = it_limit t"
  "tr_filledExitQuantity (it_entryTraded m u sg t) = tr_filledExitQuantity t"
  by (simp_all add: it_entryTraded_def Let_def it_if cong: if_cong split del: if_split)

lemma deliver_entry:
  assumes "isValid (or_refId od)" and "lg_refId (it_entry t) = or_refId od" and "lg_orderId (it_entry t) = ''''"
    and "no_orders (it_limit t)" and "no_orders (it_stop t)" and "0 < or_orderQuantity od" and "0 < x"
    and "tr_orderQuantity t = or_orderQuantity od" and "tr_filledExitQuantity t = 0"
    and "lg_state (it_limit t) = STATE_UNDEFINED" and "lg_state (it_stop t) = STATE_UNDEFINED" and "lg_execQty (it_stop t) = 0"
    and "\<not> sl_closing (it_stop t)"
  shows "entered (tr_direction t) (or_orderQuantity od) x (it_deliver m u (ind_signals w od x ps) t)"
proof -
  define t1 where "t1 = it_orderSignal m u (ind_openSignal w od) t"
  have t1: "it_entry t1 = (it_entry t)\<lparr>lg_orderId := or_orderId od, lg_state := lg_state (it_entry t1)\<rparr>"
    "it_stop t1 = it_stop t" "it_limit t1 = it_limit t" "tr_direction t1 = tr_direction t"
    "tr_orderQuantity t1 = tr_orderQuantity t" "tr_filledExitQuantity t1 = tr_filledExitQuantity t"
    using assms(1-3) by (simp_all add: t1_def it_orderSignal_def leg_target_def it_entrySignal_def Let_def leg_learn_def isEmpty_def)
  define t2 where "t2 = it_orderSignal m u (ind_tradedSignal w od x) t1"
  have tgt: "leg_target (or_orderId od) (or_refId od) (it_entry t1)"
    using assms(1,2) t1(1) by (metis leg_target_def leg.select_convs(3) leg.surjective leg.update_convs(1,2))
  have "t2 = it_entryTraded m u (ind_tradedSignal w od x) (t1\<lparr>it_entry := leg_learn (or_orderId od) (it_entry t1)\<rparr>)"
    using tgt by (simp add: t2_def it_orderSignal_def it_entrySignal_def)
  then have "entered (tr_direction t) (or_orderQuantity od) x t2"
    using assms(4-13) t1(2-6)
    by (simp add: entered_def it_entryTraded_frame it_entryQty_def it_entryPrice_def Let_def clear_leg_def no_orders_def)
  moreover from this have "it_orderSignal m u (ind_deletedSignal w od) t2 = t2"
    by (intro it_not_target) (simp_all add: entered_def)
  ultimately show ?thesis by (simp add: ind_signals_def t1_def [symmetric] t2_def [symmetric])
qed

lemma adjustPrice_0 [simp]: "adjustPrice m 0 = 0"
  using c_round_of_int [of 0] by (simp add: adjustPrice_def Let_def Prelude.truncate_def trunc_dbl_def)

text \<open>The exit in one execution: the stop leg holds the reference of the order.\<close>

lemma deliver_exit:
  assumes "isValid (or_refId od)" and "lg_refId (it_stop t) = or_refId od" and "lg_orderId (it_stop t) = ''''"
    and "no_orders (it_limit t)" and "no_orders (it_entry t)" and "0 < q" and "or_orderQuantity od = q" and "0 < y"
    and "lg_state (it_entry t) = STATE_FILLED" and "tr_filledEntryQuantity t = q" and "tr_filledExitQuantity t = 0"
    and "lg_execQty (it_stop t) = 0" and "0 < tr_entryPrice t" and "adjustQty m q True = q"
  shows "exited q y (it_deliver m u (ind_signals w od y ps) t)
    \<and> tr_direction (it_deliver m u (ind_signals w od y ps) t) = tr_direction t
    \<and> tr_entryPrice (it_deliver m u (ind_signals w od y ps) t) = tr_entryPrice t"
proof -
  define t1 where "t1 = it_orderSignal m u (ind_openSignal w od) t"
  have t1: "it_stop t1 = (it_stop t)\<lparr>lg_orderId := or_orderId od, lg_state := lg_state (it_stop t1)\<rparr>"
    "it_entry t1 = it_entry t" "it_limit t1 = it_limit t" "tr_direction t1 = tr_direction t"
    "tr_filledEntryQuantity t1 = tr_filledEntryQuantity t" "tr_filledExitQuantity t1 = tr_filledExitQuantity t"
    "tr_entryPrice t1 = tr_entryPrice t" "lg_refId (it_stop t1) = or_refId od" "lg_execQty (it_stop t1) = 0"
    using assms(1-5,12)
    by (simp_all add: t1_def it_orderSignal_def leg_target_def it_stopSignal_def Let_def leg_learn_def isEmpty_def no_orders_def isValid_def)
  define t2 where "t2 = it_orderSignal m u (ind_tradedSignal w od y) t1"
  define sg where "sg = ind_tradedSignal w od y"
  have tg: "\<not> leg_target (or_orderId sg) (or_refId sg) (it_entry t1)" "\<not> leg_target (or_orderId sg) (or_refId sg) (it_limit t1)"
    "leg_target (or_orderId sg) (or_refId sg) (it_stop t1)" "os_event sg = OS_TRADED"
    using assms(1,4,5) t1 by (simp_all add: sg_def leg_target_def [of _ _ "it_stop t1"])
  define r where "r = t1\<lparr>it_stop := leg_learn (or_orderId sg) (it_stop t1)\<rparr>"
  define x where "x = it_updateExitQty m sg (lg_execQty (it_stop r)) r"
  have rr: "lg_execQty (it_stop r) = 0" "tr_filledExitQuantity r = 0" "tr_filledEntryQuantity r = q" "tr_entryPrice r = tr_entryPrice t"
    "tr_direction r = tr_direction t"
    using t1(4-7,9) assms(10,11) by (simp_all add: r_def leg_learn_def)
  have x: "tr_exitPrice (snd x) = y" "tr_filledExitQuantity (snd x) = q"
    "tr_profitLossRate (snd x) = of_int (tr_direction t) * (y - tr_entryPrice t) / tr_entryPrice t"
    using assms(6-8,13,14) rr
    by (simp_all add: x_def it_updateExitQty_def Let_def sg_def divide_simps) (simp add: algebra_simps)
  note v = it_stop_traded [OF tg, of m u, folded r_def, folded x_def, folded t2_def [folded sg_def]]
  have st: "lg_state (it_stop t2) = STATE_FILLED"
    using v(9) assms(9) t1(2) by (simp add: it_updateExitState_def sg_def r_def)
  have "t2 = it_stopTraded m u sg r" by (rule v(1))
  then have clr: "no_orders (it_stop t2)"
    by (simp add: it_stopTraded_def Let_def no_orders_def clear_defs) (simp add: sg_def)
  have "exited q y t2" "tr_direction t2 = tr_direction t" "tr_entryPrice t2 = tr_entryPrice t"
    using v(2-8) x st assms(10) t1 by (simp_all add: exited_def it_isClosed_def it_isActive_def t2_def)
  moreover have "it_orderSignal m u (ind_deletedSignal w od) t2 = t2"
    using v(5,6) t1(2,3) assms(4,5) clr by (intro it_not_target) simp_all
  ultimately show ?thesis by (simp add: ind_signals_def t1_def [symmetric] t2_def [symmetric])
qed

section \<open>Orders that open and close the position\<close>

definition ready :: "lc \<Rightarrow> bool" where
  "ready w \<longleftrightarrow> lc_tradeType w = TYPE_IND_MARGIN \<and> (\<forall>k. isValid (lc_uuid w k))"

definition holds_position :: "int \<Rightarrow> dbl \<Rightarrow> lc \<Rightarrow> bool" where
  "holds_position d q w \<longleftrightarrow>
     (\<exists>p. findPosition (mk_marketId (lc_market w)) w = Some p \<and> po_direction p = d \<and> po_quantity p = q)"

definition flat :: "lc \<Rightarrow> bool" where
  "flat w \<longleftrightarrow> findPosition (mk_marketId (lc_market w)) w = None"

definition fresh_trade :: "ind_trade \<Rightarrow> bool" where
  "fresh_trade t \<longleftrightarrow> no_orders (it_entry t) \<and> no_orders (it_stop t) \<and> no_orders (it_limit t)
     \<and> lg_state (it_stop t) = STATE_UNDEFINED \<and> lg_state (it_limit t) = STATE_UNDEFINED
     \<and> lg_execQty (it_stop t) = 0 \<and> \<not> sl_closing (it_stop t) \<and> tr_filledExitQuantity t = 0"

lemma fresh_init: "fresh_trade (it_init timeframe t)"
  by (simp add: fresh_trade_def it_init_def init_trade_def no_orders_def reset_leg_def reset_stop_def reset_limit_def)

lemma margin_flags:
  assumes "or_flags od = -1"
  shows "\<not> hedging (setMargin od)" "\<not> closeOnly (setMargin od)" "\<not> reduceOnly (setMargin od)"
    "\<not> hedging (setReduceOnly (setMargin od))" "reduceOnly (setReduceOnly (setMargin od))"
  using assms
  by (simp_all add: hedging_def closeOnly_def reduceOnly_def has_flag_def setMargin_def setReduceOnly_def defineFlag_def F_defs)

lemma set_flags_frame [simp]:
  "or_refId (setMargin od) = or_refId od" "or_orderQuantity (setMargin od) = or_orderQuantity od"
  "or_strategy (setMargin od) = or_strategy od" "or_direction (setMargin od) = or_direction od"
  "or_orderType (setMargin od) = or_orderType od"
  "or_refId (setReduceOnly od) = or_refId od" "or_orderQuantity (setReduceOnly od) = or_orderQuantity od"
  "or_strategy (setReduceOnly od) = or_strategy od" "or_direction (setReduceOnly od) = or_direction od"
  "or_orderType (setReduceOnly od) = or_orderType od"
  by (simp_all add: setMargin_def setReduceOnly_def defineFlag_def)

lemma flags_id [simp]:
  "hedging (od\<lparr>or_orderId := i, or_created := c\<rparr>) = hedging od" "closeOnly (od\<lparr>or_orderId := i, or_created := c\<rparr>) = closeOnly od"
  "reduceOnly (od\<lparr>or_orderId := i, or_created := c\<rparr>) = reduceOnly od"
  by (simp_all add: hedging_def closeOnly_def reduceOnly_def has_flag_def)

lemma createOrder_opens:
  assumes "ready w" and "flat w" and "or_orderType od = ORDER_MARKET" and "or_strategy od" and "\<not> hedging od"
    and "\<not> closeOnly od" and "\<not> reduceOnly od"
  obtains w1 od1 ps w2 where
    "lc_createOrder od w = (RET_OK, ind_signals w1 od1 (openExecPrice (lc_market w) (or_direction od)) ps, w2)"
    "or_refId od1 = or_refId od" "or_orderQuantity od1 = or_orderQuantity od" "ready w2" "lc_market w2 = lc_market w"
    "holds_position (or_direction od) (or_orderQuantity od) w2"
  using assms
  by (force simp: lc_createOrder_def Let_def fresh_uuid_def ready_def flat_def findPosition_def exec_ind_def ind_openPosition_def
    lc_newPosition_def holds_position_def setPosition_def update_conv')

lemma createOrder_closes:
  assumes "ready w" and "holds_position d q w" and "or_orderType od = ORDER_MARKET" and "or_strategy od" and "\<not> hedging od"
    and "or_direction od \<noteq> d" and "or_orderQuantity od = q" and "0 < closeExecPrice (lc_market w) (or_direction od)"
  obtains w1 od1 ps rest w2 where
    "lc_createOrder od w = (RET_OK, ind_signals w1 od1 (closeExecPrice (lc_market w) (or_direction od)) ps @ [PositionSig rest], w2)"
    "or_refId od1 = or_refId od" "or_orderQuantity od1 = or_orderQuantity od" "ready w2" "lc_market w2 = lc_market w" "flat w2"
proof -
  obtain p where p: "findPosition (mk_marketId (lc_market w)) w = Some p" "po_direction p = d" "po_quantity p = q"
    using assms(2) by (auto simp: holds_position_def)
  then have u: "findPosition (mk_marketId (lc_market w)) (w\<lparr>lc_uuids := k\<rparr>) = Some p" for k by (simp add: findPosition_def)
  show thesis
    using assms p that
    by (simp add: lc_createOrder_def Let_def fresh_uuid_def ready_def exec_ind_def ind_close_def u flat_def)
      (force simp: setPosition_def lc_freePosition_def erasePosition_def)
qed

lemma it_deliver_append [simp]: "it_deliver m u (xs @ ys) t = it_deliver m u ys (it_deliver m u xs t)"
  by (simp add: it_deliver_def)

lemma local_proxy_simps [simp]:
  "px_newOrder (local_proxy u) = lc_newOrder" "px_createOrder (local_proxy u) = lc_createOrder"
  "px_cancelOrder (local_proxy u) = lc_cancelOrder" "px_market (local_proxy u) = lc_market" "px_undef (local_proxy u) = u"
  by (simp_all add: local_proxy_def)

lemma newOrder_fields:
  assumes "ready w"
  obtains od w' where "lc_newOrder w = (od, w')" "or_flags od = -1" "or_strategy od" "isValid (or_refId od)" "ready w'"
    "lc_market w' = lc_market w" "\<And>i. findPosition i w' = findPosition i w"
  using assms by (simp add: lc_newOrder_def fresh_uuid_def Let_def ready_def new_order_def findPosition_def)

lemma new_env:
  "(\<And>i. findPosition i w' = findPosition i w) \<Longrightarrow> lc_market w' = lc_market w \<Longrightarrow> flat w' = flat w"
  "(\<And>i. findPosition i w' = findPosition i w) \<Longrightarrow> lc_market w' = lc_market w \<Longrightarrow> holds_position d q w' = holds_position d q w"
  by (simp_all add: flat_def holds_position_def)

text \<open>A market order opens the position of the market, and the trade is filled.\<close>

lemma open_enters:
  assumes "ready w" and "flat w" and "fresh_trade t" and "0 < q" and "0 < openExecPrice (lc_market w) d"
    and "it_open (local_proxy u) d ORDER_MARKET price q tp sl t w = (t1, w1)"
  shows "entered d q (openExecPrice (lc_market w) d) t1 \<and> ready w1 \<and> lc_market w1 = lc_market w \<and> holds_position d q w1"
proof -
  obtain od w' where n: "lc_newOrder w = (od, w')" "or_flags od = -1" "or_strategy od" "isValid (or_refId od)" "ready w'"
    "lc_market w' = lc_market w" "\<And>i. findPosition i w' = findPosition i w"
    using newOrder_fields [OF assms(1)] by blast
  define od' where "od' = setMargin (od\<lparr>or_direction := d, or_orderQuantity := q, or_orderType := ORDER_MARKET, or_orderPrice := price\<rparr>)"
  have f: "\<not> hedging od'" "\<not> closeOnly od'" "\<not> reduceOnly od'"
    unfolding od'_def by (rule margin_flags; simp add: n(2))+
  have fl: "flat w'" using new_env(1) [OF n(7,6)] assms(2) by simp
  obtain w2 od1 ps w3 where c: "lc_createOrder od' w' = (RET_OK, ind_signals w2 od1 (openExecPrice (lc_market w') d) ps, w3)"
    "or_refId od1 = or_refId od" "or_orderQuantity od1 = q" "ready w3" "lc_market w3 = lc_market w'" "holds_position d q w3"
    by (rule createOrder_opens [OF n(5) fl _ _ f]) (simp_all add: od'_def n(3))
  define r where "r = on_stats (\<lambda>s. s\<lparr>ts_entryOrderType := ORDER_MARKET\<rparr>)
    (t\<lparr>tr_direction := d, tr_orderQuantity := q, tr_orderPrice := price, tr_takeProfitPrice := tp, tr_stopLossPrice := sl,
       it_entry := (it_entry t)\<lparr>lg_refId := or_refId od\<rparr>\<rparr>)"
  have e: "t1 = it_deliver (lc_market w') u (ind_signals w2 od1 (openExecPrice (lc_market w) d) ps) r" "w1 = w3"
    using assms(6) n(1,6) c(1) by (simp_all add: it_open_def Let_def it_create_def od'_def [symmetric] r_def)
  have "entered (tr_direction r) (or_orderQuantity od1) (openExecPrice (lc_market w) d) t1"
    unfolding e(1) using assms(3-5) n(4) c(2,3)
    by (intro deliver_entry) (simp_all add: r_def fresh_trade_def no_orders_def)
  then show ?thesis using c(3-6) n(6) e(2) by (simp add: r_def)
qed

text \<open>A market order against the position, referenced by the stop leg, closes both.\<close>

lemma exit_closes:
  assumes "ready w" and "holds_position d q w" and "entered d q x t" and "0 < q" and "0 < x" and "d \<noteq> 0"
    and "adjustQty (lc_market w) q True = q" and "0 < closeExecPrice (lc_market w) (- d)"
    and "\<not> hedging od" and "or_strategy od" and "isValid (or_refId od)" and "or_direction od = - d"
    and "or_orderQuantity od = q" and "or_orderType od = ORDER_MARKET"
    and "r = on_stats g (t\<lparr>it_stop := l\<rparr>)" and "lg_refId l = or_refId od" and "lg_orderId l = ''''" and "lg_execQty l = 0"
  obtains r' w' where "it_create (local_proxy u) od r w = (RET_OK, r', w')" "exited q (closeExecPrice (lc_market w) (- d)) r'"
    "tr_direction r' = d" "tr_entryPrice r' = x" "flat w'"
proof -
  have ne: "or_direction od \<noteq> d" using assms(6,12) by simp
  have cp: "0 < closeExecPrice (lc_market w) (or_direction od)" using assms(8,12) by simp
  obtain w2 od1 ps rest w3 where
    c: "lc_createOrder od w = (RET_OK, ind_signals w2 od1 (closeExecPrice (lc_market w) (- d)) ps @ [PositionSig rest], w3)"
    "or_refId od1 = or_refId od" "or_orderQuantity od1 = q" "flat w3"
    by (rule createOrder_closes [OF assms(1,2,14,10,9) ne assms(13) cp]) (simp_all add: assms(12,13))
  define r' where "r' = it_deliver (lc_market w) u (ind_signals w2 od1 (closeExecPrice (lc_market w) (- d)) ps) r"
  have "exited q (closeExecPrice (lc_market w) (- d)) r' \<and> tr_direction r' = tr_direction r \<and> tr_entryPrice r' = tr_entryPrice r"
    unfolding r'_def using assms(3-5,7,8,11,15-18) c(2,3)
    by (intro deliver_exit) (simp_all add: entered_def)
  moreover have "it_create (local_proxy u) od r w = (RET_OK, r', w3)" by (simp add: it_create_def c(1) r'_def)
  ultimately show thesis using that c(4) assms(3,15) by (auto simp: entered_def)
qed

lemma other_side_price: "d \<in> {LONG, SHORT} \<Longrightarrow> closeExecPrice m (- d) = openExecPrice m d"
  by (auto simp: closeExecPrice_def openExecPrice_def LONG_def SHORT_def)

lemma no_cancel [simp]:
  "no_orders (it_stop t) \<Longrightarrow> it_cancel_stop px (t, w) = (t, w)"
  "no_orders (it_limit t) \<Longrightarrow> it_cancel_limit px (t, w) = (t, w)"
  by (simp_all add: it_cancel_stop_def it_cancel_limit_def)

lemma close_exits:
  assumes "ready w" and "holds_position d q w" and "entered d q x t" and "0 < q" and "0 < x" and "d \<noteq> 0"
    and "adjustQty (lc_market w) q True = q" and "0 < closeExecPrice (lc_market w) (- d)"
    and "it_close (local_proxy u) reason t w = (t2, w2)"
  shows "exited q (closeExecPrice (lc_market w) (- d)) t2 \<and> tr_direction t2 = d \<and> tr_entryPrice t2 = x \<and> flat w2"
proof -
  obtain od w' where n: "lc_newOrder w = (od, w')" "or_flags od = -1" "or_strategy od" "isValid (or_refId od)" "ready w'"
    "lc_market w' = lc_market w" "\<And>i. findPosition i w' = findPosition i w"
    using newOrder_fields [OF assms(1)] by blast
  define od' where "od' = setReduceOnly (setMargin (od\<lparr>or_direction := - d, or_orderQuantity := q, or_orderType := ORDER_MARKET\<rparr>))"
  have f: "\<not> hedging od'" unfolding od'_def by (rule margin_flags(4)) (simp add: n(2))
  have h: "holds_position d q w'" using new_env(2) [OF n(7,6)] assms(2) by simp
  define l where "l = (it_stop t)\<lparr>lg_refId := or_refId od, sl_orderedQty := q, sl_closing := True\<rparr>"
  have l: "lg_refId l = or_refId od" "lg_orderId l = ''''" "lg_execQty l = 0"
    using assms(3) by (cases "it_stop t"; simp add: l_def entered_def no_orders_def)+
  define g :: "trade_stats \<Rightarrow> trade_stats" where "g = (\<lambda>s. s\<lparr>ts_exitReason := reason, ts_stopOrderType := ORDER_MARKET\<rparr>)"
  obtain r' w3 where c: "it_create (local_proxy u) od' (on_stats g (t\<lparr>it_stop := l\<rparr>)) w' = (RET_OK, r', w3)"
    "exited q (closeExecPrice (lc_market w') (- d)) r'" "tr_direction r' = d" "tr_entryPrice r' = x" "flat w3"
    by (rule exit_closes [OF n(5) h assms(3-6) _ _ f, where r = "on_stats g (t\<lparr>it_stop := l\<rparr>)"])
      (use assms(7,8) n l in \<open>simp_all add: od'_def\<close>)
  have e: "tr_direction t = d" "tr_filledEntryQuantity t = q" "tr_filledExitQuantity t = 0" "no_orders (it_stop t)"
    "no_orders (it_limit t)" "\<not> sl_closing (it_stop t)"
    using assms(3) by (simp_all add: entered_def)
  have s: "on_stats (\<lambda>s. s\<lparr>ts_stopOrderType := ORDER_MARKET\<rparr>) ((on_stats (\<lambda>s. s\<lparr>ts_exitReason := reason\<rparr>) t)\<lparr>it_stop := l\<rparr>)
      = on_stats g (t\<lparr>it_stop := l\<rparr>)"
    by (simp add: on_stats_def g_def)
  have "(t2, w2) = (r', w3)"
    using assms(4,9) e c(1) by (simp add: it_close_def Let_def n(1) od'_def [symmetric] l_def [symmetric])
      (simp add: od'_def [symmetric] l_def [symmetric] s [symmetric])
  with c(2-5) n(6) show ?thesis by simp
qed

section \<open>Properties\<close>

text \<open>
  C2: A trade opened at the market and closed at the market comes out closed, with its whole quantity exited and
  no position left in the connector. The exit price is the price of the entry whatever the spread is: the connector
  sells what closes a long position at the ask and buys what closes a short one at the bid, so that a round trip
  costs nothing.
\<close>

theorem paper_roundtrip:
  assumes "ready w" and "flat w" and "fresh_trade t" and "0 < q" and "d \<in> {LONG, SHORT}"
    and "0 < openExecPrice (lc_market w) d" and "adjustQty (lc_market w) q True = q"
    and "it_open (local_proxy u) d ORDER_MARKET price q tp sl t w = (t1, w1)"
    and "it_close (local_proxy u) reason t1 w1 = (t2, w2)"
  shows "it_isActive t1 \<and> holds_position d q w1 \<and> tr_entryPrice t1 = openExecPrice (lc_market w) d
    \<and> it_isClosed t2 \<and> flat w2 \<and> tr_filledExitQuantity t2 = q
    \<and> tr_exitPrice t2 = tr_entryPrice t1 \<and> tr_profitLossRate t2 = 0"
proof -
  have o: "entered d q (openExecPrice (lc_market w) d) t1" "ready w1" "lc_market w1 = lc_market w" "holds_position d q w1"
    using open_enters [OF assms(1-4,6,8)] by simp_all
  have d: "d \<noteq> 0" using assms(5) by (auto simp: LONG_def SHORT_def)
  have p: "closeExecPrice (lc_market w1) (- d) = openExecPrice (lc_market w) d" "adjustQty (lc_market w1) q True = q"
    "0 < closeExecPrice (lc_market w1) (- d)"
    using other_side_price [OF assms(5), of "lc_market w"] o(3) assms(6,7) by simp_all
  have "exited q (openExecPrice (lc_market w) d) t2 \<and> tr_direction t2 = d \<and> tr_entryPrice t2 = openExecPrice (lc_market w) d \<and> flat w2"
    using close_exits [OF o(2,4,1) assms(4,6) d p(2,3) assms(9)] p(1) by simp
  with o(1,4) show ?thesis by (simp add: exited_def entered_def it_isActive_def)
qed

definition sample_trade :: ind_trade where
  "sample_trade = it_init 60 new_ind_trade"

theorem paper_roundtrip_witness:
  "let (t1, w1) = it_open (local_proxy (-1000)) LONG ORDER_MARKET 0 2 0 0 sample_trade sample_lc;
       (t2, w2) = it_close (local_proxy (-1000)) REASON_CLOSE_MARKET t1 w1
   in tr_exitPrice t2 = tr_entryPrice t1 \<and> flat w2"
proof -
  have r: "ready sample_lc" by (simp add: ready_def sample_lc_def isValid_def)
  have f: "flat sample_lc" "0 < openExecPrice (lc_market sample_lc) LONG" "adjustQty (lc_market sample_lc) 2 True = 2"
    by code_simp+
  have t: "fresh_trade sample_trade" unfolding sample_trade_def by (rule fresh_init)
  obtain t1 w1 where o: "it_open (local_proxy (-1000)) LONG ORDER_MARKET 0 2 0 0 sample_trade sample_lc = (t1, w1)" by fastforce
  obtain t2 w2 where c: "it_close (local_proxy (-1000)) REASON_CLOSE_MARKET t1 w1 = (t2, w2)" by fastforce
  from paper_roundtrip [OF r f(1) t _ _ f(2,3) o c] show ?thesis by (simp add: o c)
qed

text \<open>
  C4: Moving the stop-loss of a filled trade to the exchange does not place a stop order. The order is a market order, which the
  connector executes at once: the trade is closed and its position is gone, whatever the stop price.
\<close>

theorem paper_stop_loss_closes:
  assumes "ready w" and "flat w" and "fresh_trade t" and "0 < q" and "d \<in> {LONG, SHORT}"
    and "0 < openExecPrice (lc_market w) d" and "adjustQty (lc_market w) q True = q" and "0 < stop"
    and "it_open (local_proxy u) d ORDER_MARKET price q tp sl t w = (t1, w1)"
    and "it_modifyStopLoss (local_proxy u) stop MOD_DISTANT t1 w1 = (t2, w2)"
  shows "it_isClosed t2 \<and> tr_filledExitQuantity t2 = q \<and> flat w2"
proof -
  have o: "entered d q (openExecPrice (lc_market w) d) t1" "ready w1" "lc_market w1 = lc_market w" "holds_position d q w1"
    using open_enters [OF assms(1-4,6,9)] by simp_all
  have d: "d \<noteq> 0" using assms(5) by (auto simp: LONG_def SHORT_def)
  obtain od w' where n: "lc_newOrder w1 = (od, w')" "or_flags od = -1" "or_strategy od" "isValid (or_refId od)" "ready w'"
    "lc_market w' = lc_market w1" "\<And>i. findPosition i w' = findPosition i w1"
    using newOrder_fields [OF o(2)] by blast
  define od' where "od' = setReduceOnly (setMargin (od\<lparr>or_direction := - d, or_orderQuantity := q,
    or_orderType := ORDER_MARKET, or_orderPrice := stop\<rparr>))"
  have f: "\<not> hedging od'" unfolding od'_def by (rule margin_flags(4)) (simp add: n(2))
  have h: "holds_position d q w'" using new_env(2) [OF n(7,6)] o(4) by simp
  define l where "l = (it_stop t1)\<lparr>lg_refId := or_refId od, sl_orderedQty := q\<rparr>"
  have l: "lg_refId l = or_refId od" "lg_orderId l = ''''" "lg_execQty l = 0"
    using o(1) by (cases "it_stop t1"; simp add: l_def entered_def no_orders_def)+
  define g :: "trade_stats \<Rightarrow> trade_stats" where "g = (\<lambda>s. s\<lparr>ts_stopOrderType := ORDER_MARKET\<rparr>)"
  obtain r' w3 where c: "it_create (local_proxy u) od' (on_stats g (t1\<lparr>it_stop := l\<rparr>)) w' = (RET_OK, r', w3)"
    "exited q (closeExecPrice (lc_market w') (- d)) r'" "flat w3"
    by (rule exit_closes [OF n(5) h o(1) assms(4,6) d _ _ f, where r = "on_stats g (t1\<lparr>it_stop := l\<rparr>)"])
      (use other_side_price [OF assms(5), of "lc_market w"] assms(6,7) o(3) n l in \<open>simp_all add: od'_def\<close>)
  have e: "tr_direction t1 = d" "tr_filledEntryQuantity t1 = q" "tr_filledExitQuantity t1 = 0" "no_orders (it_stop t1)"
    "\<not> sl_closing (it_stop t1)"
    using o(1) by (simp_all add: entered_def)
  have "(t2, w2) = (r'\<lparr>tr_stopLossPrice := stop\<rparr>, w3)"
    using assms(8,10) e c(1) by (simp add: it_modifyStopLoss_def Let_def n(1) od'_def [symmetric] l_def [symmetric])
      (simp add: od'_def [symmetric] l_def [symmetric] g_def)
  with c(2,3) show ?thesis by (simp add: exited_def it_isClosed_def)
qed

theorem paper_stop_loss_closes_witness:
  "let (t1, w1) = it_open (local_proxy (-1000)) LONG ORDER_MARKET 0 2 0 0 sample_trade sample_lc;
       (t2, w2) = it_modifyStopLoss (local_proxy (-1000)) 50 MOD_DISTANT t1 w1
   in it_isClosed t2 \<and> flat w2"
proof -
  have r: "ready sample_lc" by (simp add: ready_def sample_lc_def isValid_def)
  have f: "flat sample_lc" "0 < openExecPrice (lc_market sample_lc) LONG" "adjustQty (lc_market sample_lc) 2 True = 2"
    by code_simp+
  have t: "fresh_trade sample_trade" unfolding sample_trade_def by (rule fresh_init)
  obtain t1 w1 where o: "it_open (local_proxy (-1000)) LONG ORDER_MARKET 0 2 0 0 sample_trade sample_lc = (t1, w1)" by fastforce
  obtain t2 w2 where c: "it_modifyStopLoss (local_proxy (-1000)) 50 MOD_DISTANT t1 w1 = (t2, w2)" by fastforce
  from paper_stop_loss_closes [OF r f(1) t _ _ f(2,3) _ o c] show ?thesis by (simp add: o c)
qed

end
