(* ===== verification/Position_Trade.thy ===== *)
theory Position_Trade
  imports Trade_Proxy
begin

text \<open>
  \<^verbatim>\<open>strategies/src/trade/positiontrade.cpp\<close>: a trade that owns an individual position, whose
  stop and limit prices are attributes of the position.
\<close>

record position_trade = trade +
  pt_entryOrderId :: string
  pt_entryRefId :: string
  pt_positionId :: string
  pt_entryState :: trade_state
  pt_exitState :: trade_state
  pt_closing :: bool
  pt_positionLimitPrice :: dbl
  pt_positionStopPrice :: dbl
  pt_positionQuantity :: dbl

definition new_position_trade :: position_trade where
  "new_position_trade = trade.extend (new_trade TYPE_POSITION (-1))
     \<lparr>pt_entryOrderId = '''', pt_entryRefId = '''', pt_positionId = '''', pt_entryState = STATE_UNDEFINED,
      pt_exitState = STATE_UNDEFINED, pt_closing = False, pt_positionLimitPrice = 0, pt_positionStopPrice = 0,
      pt_positionQuantity = 0\<rparr>"

definition pt_init :: "dbl \<Rightarrow> position_trade \<Rightarrow> position_trade" where
  "pt_init timeframe t =
     (init_trade timeframe t)\<lparr>pt_entryState := STATE_UNDEFINED, pt_exitState := STATE_UNDEFINED,
        pt_positionLimitPrice := 0, pt_positionStopPrice := 0, pt_positionQuantity := 0, pt_closing := False,
        pt_entryOrderId := '''', pt_entryRefId := '''', pt_positionId := ''''\<rparr>"

section \<open>States\<close>

definition pt_hasStopOrder :: "position_trade \<Rightarrow> bool" where
  "pt_hasStopOrder t \<longleftrightarrow> pt_positionStopPrice t > 0"

definition pt_hasLimitOrder :: "position_trade \<Rightarrow> bool" where
  "pt_hasLimitOrder t \<longleftrightarrow> pt_positionLimitPrice t > 0"

definition pt_isActive :: "position_trade \<Rightarrow> bool" where
  "pt_isActive t =
     (if pt_exitState t = STATE_FILLED then False
      else pt_entryState t = STATE_PARTIALLY_FILLED \<or> pt_entryState t = STATE_FILLED)"

definition pt_isOpened :: "position_trade \<Rightarrow> bool" where
  "pt_isOpened t \<longleftrightarrow> pt_entryState t = STATE_OPENED"

definition pt_isCanceled :: "position_trade \<Rightarrow> bool" where
  "pt_isCanceled t =
     (if pt_entryState t = STATE_REJECTED then True
      else if (pt_entryState t = STATE_CANCELED \<or> pt_entryState t = STATE_DELETED) \<and> tr_filledEntryQuantity t \<le> 0
      then True else False)"

definition pt_isOpening :: "position_trade \<Rightarrow> bool" where
  "pt_isOpening t \<longleftrightarrow> pt_entryState t = STATE_OPENED \<or> pt_entryState t = STATE_PARTIALLY_FILLED"

definition pt_isClosing :: "position_trade \<Rightarrow> bool" where
  "pt_isClosing t \<longleftrightarrow> pt_exitState t = STATE_PARTIALLY_FILLED \<or> pt_closing t"

definition pt_isClosed :: "position_trade \<Rightarrow> bool" where
  "pt_isClosed t \<longleftrightarrow> pt_exitState t = STATE_FILLED"

lemmas pt_state_defs = pt_isActive_def pt_isOpened_def pt_isCanceled_def pt_isOpening_def pt_isClosing_def pt_isClosed_def

definition pt_isTargetOrder :: "position_trade \<Rightarrow> string \<Rightarrow> string \<Rightarrow> bool" where
  "pt_isTargetOrder t orderId refId =
     (if isValid orderId \<and> orderId = pt_entryOrderId t then True
      else if isValid refId \<and> refId = pt_entryRefId t then True
      else False)"

definition pt_isTargetPosition :: "position_trade \<Rightarrow> string \<Rightarrow> string \<Rightarrow> bool" where
  "pt_isTargetPosition t positionId refId =
     (if isValid positionId \<and> positionId = pt_positionId t then True
      else if isValid refId \<and> refId = pt_entryRefId t then True
      else False)"

definition pt_formatToStr :: "position_trade \<Rightarrow> string" where
  "pt_formatToStr t =
     (if pt_entryState t = STATE_NEW then ''new''
      else if pt_entryState t = STATE_OPENED then ''opened''
      else if pt_entryState t = STATE_REJECTED then ''rejected''
      else if pt_entryState t = STATE_REJECTED \<and> tr_filledEntryQuantity t > tr_filledExitQuantity t then ''problem''
      else if tr_filledEntryQuantity t < tr_filledExitQuantity t
          \<and> (pt_entryState t = STATE_PARTIALLY_FILLED \<or> pt_entryState t = STATE_OPENED) then ''filling''
      else if tr_filledEntryQuantity t > 0 \<and> tr_filledExitQuantity t < tr_filledEntryQuantity t
          \<and> pt_exitState t \<noteq> STATE_FILLED then ''closing''
      else if tr_filledEntryQuantity t > 0 \<and> tr_filledExitQuantity t \<ge> tr_filledEntryQuantity t then ''closed''
      else if tr_filledEntryQuantity t \<ge> tr_orderQuantity t then ''filled''
      else ''waiting'')"

section \<open>Signals of the entry order\<close>

definition pt_orderSignal :: "order_signal \<Rightarrow> position_trade \<Rightarrow> position_trade" where
  "pt_orderSignal sg t =
     (if isValid (or_orderId sg) \<and> or_orderId sg = pt_entryOrderId t \<or> isValid (or_refId sg) \<and> or_refId sg = pt_entryRefId t then
        (case os_event sg of
           OS_OPENED \<Rightarrow>
             (let t = (if isEmpty (pt_entryOrderId t) then t\<lparr>pt_entryOrderId := or_orderId sg\<rparr> else t);
                  t = (if isEmpty (pt_positionId t) \<and> isValid (or_positionId sg) then t\<lparr>pt_positionId := or_positionId sg\<rparr> else t);
                  t = (if tr_openTimeStamp t \<noteq> TIMESTAMP_UNDEFINED then t\<lparr>tr_openTimeStamp := or_created sg\<rparr> else t);
                  t = (if or_stopPrice sg \<noteq> PRICE_UNDEFINED then t\<lparr>tr_stopLossPrice := or_stopPrice sg\<rparr> else t);
                  t = (if or_limitPrice sg \<noteq> PRICE_UNDEFINED then t\<lparr>tr_takeProfitPrice := or_limitPrice sg\<rparr> else t)
              in if tr_filledEntryQuantity t \<noteq> QUANTITY_UNDEFINED then t\<lparr>pt_entryState := STATE_OPENED\<rparr> else t)
         | OS_DELETED \<Rightarrow>
             (if or_orderId sg = pt_entryOrderId t then
                (let t = t\<lparr>pt_entryRefId := '''', pt_entryOrderId := ''''\<rparr>
                 in if isEmpty (pt_positionId t) then t\<lparr>pt_entryState := STATE_DELETED\<rparr> else t)
              else t)
         | OS_CANCELED \<Rightarrow>
             (if or_orderId sg = pt_entryOrderId t then
                (let t = t\<lparr>pt_entryRefId := '''', pt_entryOrderId := ''''\<rparr>
                 in if isEmpty (pt_positionId t) then t\<lparr>pt_entryState := STATE_CANCELED\<rparr> else t)
              else t)
         | OS_UPDATED \<Rightarrow> t
         | OS_TRADED \<Rightarrow> t
         | OS_REJECTED \<Rightarrow> t)
      else t)"

section \<open>Signals of the position\<close>

definition pt_updateRealizedPnl :: "position_trade \<Rightarrow> position_trade" where
  "pt_updateRealizedPnl t =
     (if tr_entryPrice t > 0 \<and> tr_filledExitQuantity t > 0
      then t\<lparr>tr_profitLossRate := of_int (tr_direction t) * (tr_exitPrice t * tr_filledExitQuantity t
               - tr_entryPrice t * tr_filledExitQuantity t) / (tr_entryPrice t * tr_filledExitQuantity t)\<rparr>
      else t)"

text \<open>The stop and limit prices of the position.\<close>

definition pt_amend :: "position_signal \<Rightarrow> position_trade \<Rightarrow> position_trade" where
  "pt_amend sg t =
     (let t = (if po_limitPrice sg \<noteq> PRICE_UNDEFINED then t\<lparr>pt_positionLimitPrice := po_limitPrice sg\<rparr> else t)
      in if po_stopPrice sg \<noteq> PRICE_UNDEFINED then t\<lparr>pt_positionStopPrice := po_stopPrice sg\<rparr> else t)"

text \<open>The entry state after an increase; a filled entry forgets its order.\<close>

definition pt_entryDone :: "position_trade \<Rightarrow> position_trade" where
  "pt_entryDone t =
     (if tr_filledEntryQuantity t \<ge> tr_orderQuantity t
      then t\<lparr>pt_entryState := STATE_FILLED, pt_entryOrderId := '''', pt_entryRefId := ''''\<rparr>
      else t\<lparr>pt_entryState := STATE_PARTIALLY_FILLED\<rparr>)"

definition pt_openQty :: "position_signal \<Rightarrow> dbl" where
  "pt_openQty sg =
     (if po_cumulativeFilled sg \<noteq> QUANTITY_UNDEFINED then po_cumulativeFilled sg
      else if po_filled sg \<noteq> QUANTITY_UNDEFINED then po_filled sg else 0)"

definition pt_opened :: "position_signal \<Rightarrow> position_trade \<Rightarrow> position_trade" where
  "pt_opened sg t =
     (let t = t\<lparr>pt_entryState := STATE_OPENED\<rparr>;
          t = (if isEmpty (pt_positionId t) \<and> isValid (po_positionId sg) then t\<lparr>pt_positionId := po_positionId sg\<rparr> else t);
          t = (if tr_openTimeStamp t \<noteq> TIMESTAMP_UNDEFINED then t\<lparr>tr_openTimeStamp := po_created sg\<rparr> else t);
          t = pt_amend sg t;
          t = (if tr_exitTimeStamp t \<le> 0 \<and> (po_limitPrice sg \<noteq> PRICE_UNDEFINED \<or> po_stopPrice sg \<noteq> PRICE_UNDEFINED)
               then t\<lparr>tr_exitTimeStamp := po_created sg\<rparr> else t);
          lastQty = pt_openQty sg
      in if lastQty > 0 then
           (let t = (if ts_firstRealizedEntryTimestamp (tr_stats t) \<le> 0 \<and> po_created sg \<noteq> TIMESTAMP_UNDEFINED
                     then on_stats (\<lambda>s. s\<lparr>ts_firstRealizedEntryTimestamp := po_created sg\<rparr>) t else t);
                t = (if po_created sg \<noteq> TIMESTAMP_UNDEFINED
                     then on_stats (\<lambda>s. s\<lparr>ts_lastRealizedEntryTimestamp := po_created sg\<rparr>) t else t);
                t = t\<lparr>tr_filledEntryQuantity := tr_filledEntryQuantity t + (lastQty - pt_positionQuantity t)\<rparr>;
                t = pt_entryDone t;
                t = t\<lparr>pt_positionQuantity := lastQty\<rparr>;
                t = (if po_avgPrice sg \<noteq> PRICE_UNDEFINED then t\<lparr>tr_entryPrice := po_avgPrice sg\<rparr>
                     else if po_execPrice sg \<noteq> PRICE_UNDEFINED then t\<lparr>tr_entryPrice := po_execPrice sg\<rparr> else t)
            in pt_updateRealizedPnl t)
         else t\<lparr>pt_entryState := STATE_OPENED\<rparr>)"

definition pt_updateQty :: "position_signal \<Rightarrow> position_trade \<Rightarrow> dbl" where
  "pt_updateQty sg t =
     (if po_cumulativeFilled sg \<noteq> QUANTITY_UNDEFINED then po_cumulativeFilled sg
      else if po_filled sg \<noteq> QUANTITY_UNDEFINED then po_filled sg + pt_positionQuantity t
      else if po_quantity sg \<noteq> QUANTITY_UNDEFINED then po_quantity sg
      else pt_positionQuantity t)"

text \<open>Both directions of a change of the quantity stamp the times of the exit.\<close>

definition pt_exitStamp :: "position_signal \<Rightarrow> position_trade \<Rightarrow> position_trade" where
  "pt_exitStamp sg t =
     (let t = (if ts_firstRealizedExitTimestamp (tr_stats t) \<le> 0 \<and> po_updated sg \<noteq> TIMESTAMP_UNDEFINED
               then on_stats (\<lambda>s. s\<lparr>ts_firstRealizedExitTimestamp := po_updated sg\<rparr>) t else t)
      in if po_updated sg \<noteq> TIMESTAMP_UNDEFINED
         then on_stats (\<lambda>s. s\<lparr>ts_lastRealizedExitTimestamp := po_updated sg\<rparr>) t else t)"

definition pt_decrease :: "position_signal \<Rightarrow> dbl \<Rightarrow> position_trade \<Rightarrow> position_trade" where
  "pt_decrease sg lastQty t =
     (let t = pt_exitStamp sg t;
          prev = tr_filledExitQuantity t;
          t = t\<lparr>tr_filledExitQuantity := tr_filledExitQuantity t + (pt_positionQuantity t - lastQty)\<rparr>;
          t = t\<lparr>pt_exitState := (if tr_filledExitQuantity t \<ge> tr_filledEntryQuantity t then STATE_FILLED
                                  else STATE_PARTIALLY_FILLED)\<rparr>;
          t = (if po_avgPrice sg \<noteq> PRICE_UNDEFINED then t\<lparr>tr_exitPrice := po_avgPrice sg\<rparr>
               else if po_execPrice sg \<noteq> PRICE_UNDEFINED then
                 (if tr_exitPrice t > 0
                  then (let decQty = pt_positionQuantity t - lastQty
                        in t\<lparr>tr_exitPrice := (tr_exitPrice t * prev + po_execPrice sg * decQty) / (prev + decQty)\<rparr>)
                  else t\<lparr>tr_exitPrice := po_execPrice sg\<rparr>)
               else t)
      in pt_updateRealizedPnl t)"

text \<open>The mean of the entry divides by the product of the quantities.\<close>

definition pt_increase :: "position_signal \<Rightarrow> dbl \<Rightarrow> position_trade \<Rightarrow> position_trade" where
  "pt_increase sg lastQty t =
     (let t = pt_exitStamp sg t;
          prev = tr_filledEntryQuantity t;
          t = t\<lparr>tr_filledEntryQuantity := tr_filledEntryQuantity t + (lastQty - pt_positionQuantity t)\<rparr>;
          t = pt_entryDone t;
          t = (if po_avgPrice sg \<noteq> PRICE_UNDEFINED then t\<lparr>tr_entryPrice := po_avgPrice sg\<rparr>
               else if po_execPrice sg \<noteq> PRICE_UNDEFINED then
                 (if tr_entryPrice t > 0
                  then (let incQty = lastQty - pt_positionQuantity t
                        in t\<lparr>tr_entryPrice := (tr_entryPrice t * prev + po_execPrice sg * incQty) / (prev * incQty)\<rparr>)
                  else t\<lparr>tr_entryPrice := po_execPrice sg\<rparr>)
               else t)
      in pt_updateRealizedPnl t)"

definition pt_updated :: "position_signal \<Rightarrow> position_trade \<Rightarrow> position_trade" where
  "pt_updated sg t =
     (let t = pt_amend sg t;
          lastQty = pt_updateQty sg t
      in if lastQty \<noteq> pt_positionQuantity t then
           (let t = (if lastQty < pt_positionQuantity t then pt_decrease sg lastQty t
                     else if lastQty > pt_positionQuantity t then pt_increase sg lastQty t
                     else t)
            in t\<lparr>pt_positionQuantity := lastQty\<rparr>)
         else t)"

definition pt_deleted :: "position_signal \<Rightarrow> position_trade \<Rightarrow> position_trade" where
  "pt_deleted sg t =
     (let t = t\<lparr>pt_positionId := '''', pt_entryOrderId := '''', pt_entryRefId := ''''\<rparr>;
          prev = tr_filledExitQuantity t;
          decQty = (if tr_filledExitQuantity t < tr_filledEntryQuantity t
                    then tr_filledEntryQuantity t - tr_filledExitQuantity t else 0);
          t = (if tr_filledExitQuantity t < tr_filledEntryQuantity t
               then t\<lparr>tr_filledExitQuantity := tr_filledEntryQuantity t\<rparr> else t);
          t = t\<lparr>pt_exitState := STATE_FILLED\<rparr>;
          t = (if po_updated sg \<noteq> TIMESTAMP_UNDEFINED
               then on_stats (\<lambda>s. s\<lparr>ts_lastRealizedExitTimestamp := po_updated sg\<rparr>) t else t);
          t = (if po_avgPrice sg \<noteq> PRICE_UNDEFINED then t\<lparr>tr_exitPrice := po_avgPrice sg\<rparr>
               else if po_execPrice sg \<noteq> PRICE_UNDEFINED then
                 (if tr_exitPrice t > 0
                  then t\<lparr>tr_exitPrice := (tr_exitPrice t * prev + po_execPrice sg * decQty) / (prev * decQty)\<rparr>
                  else t\<lparr>tr_exitPrice := po_execPrice sg\<rparr>)
               else t);
          t = t\<lparr>pt_positionQuantity := 0\<rparr>
      in pt_updateRealizedPnl t)"

definition pt_positionSignal :: "position_signal \<Rightarrow> position_trade \<Rightarrow> position_trade" where
  "pt_positionSignal sg t =
     (if isValid (po_positionId sg) \<and> pt_positionId t = po_positionId sg
         \<or> isValid (po_refOrderId sg) \<and> pt_entryRefId t = po_refOrderId sg then
        (case ps_event sg of
           PS_OPENED \<Rightarrow> pt_opened sg t
         | PS_UPDATED \<Rightarrow> pt_updated sg t
         | PS_DELETED \<Rightarrow> pt_deleted sg t
         | PS_AMENDED \<Rightarrow> pt_amend sg t)
      else t)"

interpretation pt: trade_impl pt_isTargetOrder pt_orderSignal pt_isTargetPosition pt_positionSignal
  pt_isActive pt_isClosed pt_isCanceled
  by unfold_locales (auto simp: pt_isTargetOrder_def pt_orderSignal_def pt_isTargetPosition_def
    pt_positionSignal_def pt_state_defs split: if_splits)

section \<open>Operations\<close>

definition pt_deliver :: "signal list \<Rightarrow> position_trade \<Rightarrow> position_trade" where
  "pt_deliver = fold (deliver_one pt_isTargetOrder pt_orderSignal pt_isTargetPosition pt_positionSignal)"

definition pt_create :: "'w proxy \<Rightarrow> order \<Rightarrow> position_trade \<Rightarrow> 'w \<Rightarrow> int \<times> position_trade \<times> 'w" where
  "pt_create px od t w = (let (ret, sigs, w) = px_createOrder px od w in (ret, pt_deliver sigs t, w))"

definition pt_cancel :: "'w proxy \<Rightarrow> string \<Rightarrow> position_trade \<Rightarrow> 'w \<Rightarrow> int \<times> position_trade \<times> 'w" where
  "pt_cancel px orderId t w = (let (ret, sigs, w) = px_cancelOrder px orderId w in (ret, pt_deliver sigs t, w))"

definition pt_modify :: "'w proxy \<Rightarrow> dbl \<Rightarrow> dbl \<Rightarrow> position_trade \<Rightarrow> 'w \<Rightarrow> int \<times> position_trade \<times> 'w" where
  "pt_modify px stopPrice limitPrice t w =
     (let (ret, sigs, w) = px_modifyPosition px (pt_positionId t) stopPrice limitPrice w in (ret, pt_deliver sigs t, w))"

definition pt_open :: "'w proxy \<Rightarrow> int \<Rightarrow> order_type \<Rightarrow> dbl \<Rightarrow> dbl \<Rightarrow> dbl \<Rightarrow> dbl \<Rightarrow> position_trade \<Rightarrow> 'w
    \<Rightarrow> position_trade \<times> 'w" where
  "pt_open px direction orderType orderPrice quantity takeProfitPrice stopLossPrice t w =
     (let t = t\<lparr>tr_direction := direction, tr_orderQuantity := quantity, tr_orderPrice := orderPrice,
                tr_takeProfitPrice := takeProfitPrice, tr_stopLossPrice := stopLossPrice\<rparr>;
          (od, w) = px_newOrder px w;
          od = setHedging (setMargin (od\<lparr>or_direction := direction, or_orderQuantity := quantity,
                 or_orderType := orderType, or_orderPrice := orderPrice\<rparr>));
          t = t\<lparr>pt_entryRefId := or_refId od\<rparr>;
          t = on_stats (\<lambda>s. s\<lparr>ts_entryOrderType := or_orderType od\<rparr>) t;
          (ret, t, w) = pt_create px od t w
      in if ret = RET_OK then (t, w)
         else (on_stats (\<lambda>s. s\<lparr>ts_entryOrderType := ORDER_UNDEFINED\<rparr>) (t\<lparr>pt_entryState := STATE_REJECTED\<rparr>), w))"

definition pt_remove :: "'w proxy \<Rightarrow> position_trade \<Rightarrow> 'w \<Rightarrow> position_trade \<times> 'w" where
  "pt_remove px t w =
     (if pt_closing t then (t, w)
      else if isValid (pt_entryOrderId t) \<or> isValid (pt_entryRefId t) then
        (let (ret, t, w) = pt_cancel px (pt_entryOrderId t) t w
         in if ret = RET_OK then
              (let t = t\<lparr>pt_entryOrderId := '''', pt_entryRefId := ''''\<rparr>
               in (t\<lparr>pt_entryState := (if tr_filledEntryQuantity t \<le> 0 then STATE_CANCELED else STATE_FILLED)\<rparr>, w))
            else (t, w))
      else (t, w))"

definition pt_cancelOpen :: "'w proxy \<Rightarrow> position_trade \<Rightarrow> 'w \<Rightarrow> position_trade \<times> 'w" where
  "pt_cancelOpen px t w =
     (if pt_isOpened t \<and> isValid (pt_entryOrderId t) then
        (let (ret, t, w) = pt_cancel px (pt_entryOrderId t) t w
         in if ret = RET_OK then (t\<lparr>pt_entryOrderId := '''', pt_entryRefId := '''', pt_entryState := STATE_CANCELED\<rparr>, w)
            else (t, w))
      else (t, w))"

definition pt_modifyTakeProfit :: "'w proxy \<Rightarrow> dbl \<Rightarrow> modifier_type \<Rightarrow> position_trade \<Rightarrow> 'w \<Rightarrow> position_trade \<times> 'w" where
  "pt_modifyTakeProfit px price md t w =
     (if pt_closing t then (t, w)
      else if price < 0 then (t, w)
      else
        let md = (if isValid (pt_positionId t) \<and> md = MOD_PREVIOUS \<and> pt_positionLimitPrice t > 0 then MOD_DISTANT else md);
            (t, w) =
              (if isValid (pt_positionId t) \<and> md = MOD_DISTANT then
                 (let (ret, t, w) = pt_modify px (pt_positionStopPrice t) price t w
                  in if ret = RET_OK
                     then ((on_stats (\<lambda>s. s\<lparr>ts_takeProfitOrderType := (if price \<le> 0 then ORDER_UNDEFINED else ORDER_LIMIT)\<rparr>) t)
                             \<lparr>pt_positionLimitPrice := price\<rparr>, w)
                     else (t, w))
               else (t, w))
        in (t\<lparr>tr_takeProfitPrice := price\<rparr>, w))"

definition pt_modifyStopLoss :: "'w proxy \<Rightarrow> dbl \<Rightarrow> modifier_type \<Rightarrow> position_trade \<Rightarrow> 'w \<Rightarrow> position_trade \<times> 'w" where
  "pt_modifyStopLoss px price md t w =
     (if pt_closing t then (t, w)
      else if price < 0 then (t, w)
      else
        let md = (if isValid (pt_positionId t) \<and> md = MOD_PREVIOUS \<and> pt_positionStopPrice t > 0 then MOD_DISTANT else md);
            (t, w) =
              (if isValid (pt_positionId t) \<and> md = MOD_DISTANT then
                 (let (ret, t, w) = pt_modify px price (pt_positionLimitPrice t) t w
                  in if ret = RET_OK
                     then ((on_stats (\<lambda>s. s\<lparr>ts_stopOrderType := (if price \<le> 0 then ORDER_UNDEFINED else ORDER_STOP)\<rparr>) t)
                             \<lparr>pt_positionStopPrice := price\<rparr>, w)
                     else (t, w))
               else (t, w))
        in (t\<lparr>tr_stopLossPrice := price\<rparr>, w))"

definition pt_close :: "'w proxy \<Rightarrow> exit_reason \<Rightarrow> position_trade \<Rightarrow> 'w \<Rightarrow> position_trade \<times> 'w" where
  "pt_close px reason t w =
     (if pt_closing t then (t, w)
      else
        let (t, w) =
              (if isValid (pt_entryOrderId t) then
                 (let (ret, t, w) = pt_cancel px (pt_entryOrderId t) t w
                  in if ret = RET_OK then (t\<lparr>pt_entryRefId := '''', pt_entryOrderId := '''', pt_entryState := STATE_CANCELED\<rparr>, w)
                     else (t, w))
               else (t, w));
            t = on_stats (\<lambda>s. s\<lparr>ts_exitReason := reason, ts_stopOrderType := ORDER_MARKET\<rparr>) t
        in if isValid (pt_positionId t) then
             (let t = t\<lparr>pt_closing := True\<rparr>;
                  (ret, sigs, w) = px_closePosition px (pt_positionId t) (tr_direction t) (pt_positionQuantity t) True 0 w;
                  t = pt_deliver sigs t
              in if ret = RET_OK then (t, w)
                 else
                   (let t = t\<lparr>pt_closing := False\<rparr>
                    in if pt_positionStopPrice t > 0
                       then (on_stats (\<lambda>s. s\<lparr>ts_stopOrderType := ORDER_UNDEFINED\<rparr>) t, w) else (t, w)))
           else (t, w))"

definition pt_process :: "'w proxy \<Rightarrow> (position_trade \<Rightarrow> 'w \<Rightarrow> position_trade \<times> 'w) \<Rightarrow> position_trade \<Rightarrow> 'w
    \<Rightarrow> position_trade \<times> 'w" where
  "pt_process px updateTrade t w =
     (if pt_isActive t then
        (let (t, w) = updateTrade t w;
             closePrice = closeExecPrice (px_market px w) (tr_direction t)
         in if tr_stopLossPrice t > 0 \<and> pt_positionStopPrice t = 0 \<and>
               (tr_direction t > 0 \<and> closePrice \<le> tr_stopLossPrice t \<or>
                tr_direction t < 0 \<and> closePrice \<ge> tr_stopLossPrice t)
            then pt_close px REASON_STOP_LOSS_MARKET t w
            else if tr_takeProfitPrice t > 0 \<and> pt_positionLimitPrice t = 0 \<and>
               (tr_direction t > 0 \<and> closePrice \<ge> tr_takeProfitPrice t \<or>
                tr_direction t < 0 \<and> closePrice \<le> tr_takeProfitPrice t)
            then pt_close px REASON_TAKE_PROFIT_MARKET t w
            else (t, w))
      else (t, w))"

section \<open>Lemmas\<close>

lemma pt_deliver_simps [simp]:
  "pt_deliver [] t = t"
  "pt_deliver (OrderSig sg # sigs) t = pt_deliver sigs (pt_orderSignal sg t)"
  "pt_deliver (PositionSig ps # sigs) t = pt_deliver sigs (pt_positionSignal ps t)"
  unfolding pt_deliver_def by (simp_all add: pt.broadcast)

lemmas pt_if = if_distrib [of pt_positionQuantity] if_distrib [of pt_positionId] if_distrib [of pt_exitState]
  if_distrib [of tr_filledEntryQuantity] if_distrib [of tr_filledExitQuantity] if_distrib [of tr_direction]
  if_distrib [of tr_entryPrice] if_distrib [of tr_exitPrice] if_distrib [of pt_entryState] if_distrib [of pt_entryRefId]
  if_distrib [of tr_orderQuantity]

lemma pt_pnl_frame [simp]:
  "pt_positionQuantity (pt_updateRealizedPnl t) = pt_positionQuantity t"
  "pt_positionId (pt_updateRealizedPnl t) = pt_positionId t"
  "pt_exitState (pt_updateRealizedPnl t) = pt_exitState t"
  "pt_entryState (pt_updateRealizedPnl t) = pt_entryState t"
  "pt_entryRefId (pt_updateRealizedPnl t) = pt_entryRefId t"
  "tr_filledEntryQuantity (pt_updateRealizedPnl t) = tr_filledEntryQuantity t"
  "tr_filledExitQuantity (pt_updateRealizedPnl t) = tr_filledExitQuantity t"
  "tr_orderQuantity (pt_updateRealizedPnl t) = tr_orderQuantity t"
  "tr_entryPrice (pt_updateRealizedPnl t) = tr_entryPrice t"
  "tr_exitPrice (pt_updateRealizedPnl t) = tr_exitPrice t"
  "tr_direction (pt_updateRealizedPnl t) = tr_direction t"
  by (simp_all add: pt_updateRealizedPnl_def)

lemma pt_amend_frame [simp]:
  "pt_positionQuantity (pt_amend sg t) = pt_positionQuantity t" "pt_positionId (pt_amend sg t) = pt_positionId t"
  "pt_exitState (pt_amend sg t) = pt_exitState t" "pt_entryRefId (pt_amend sg t) = pt_entryRefId t"
  "tr_filledEntryQuantity (pt_amend sg t) = tr_filledEntryQuantity t"
  "tr_filledExitQuantity (pt_amend sg t) = tr_filledExitQuantity t"
  "tr_entryPrice (pt_amend sg t) = tr_entryPrice t" "tr_exitPrice (pt_amend sg t) = tr_exitPrice t"
  "tr_direction (pt_amend sg t) = tr_direction t"
  "tr_orderQuantity (pt_amend sg t) = tr_orderQuantity t"
  by (simp_all add: pt_amend_def)

lemma on_stats_pt [simp]:
  "pt_positionQuantity (on_stats f t) = pt_positionQuantity t" "pt_positionId (on_stats f t) = pt_positionId t"
  "pt_exitState (on_stats f t) = pt_exitState t" "pt_entryState (on_stats f t) = pt_entryState t"
  "pt_entryRefId (on_stats f t) = pt_entryRefId t" "pt_entryOrderId (on_stats f t) = pt_entryOrderId t"
  "pt_positionStopPrice (on_stats f t) = pt_positionStopPrice t" "pt_positionLimitPrice (on_stats f t) = pt_positionLimitPrice t"
  "pt_closing (on_stats f t) = pt_closing t"
  by (simp_all add: on_stats_def)

lemma pt_exitStamp_frame [simp]:
  "pt_positionQuantity (pt_exitStamp sg t) = pt_positionQuantity t" "pt_positionId (pt_exitStamp sg t) = pt_positionId t"
  "pt_exitState (pt_exitStamp sg t) = pt_exitState t" "pt_entryRefId (pt_exitStamp sg t) = pt_entryRefId t"
  "tr_filledEntryQuantity (pt_exitStamp sg t) = tr_filledEntryQuantity t"
  "tr_filledExitQuantity (pt_exitStamp sg t) = tr_filledExitQuantity t"
  "tr_entryPrice (pt_exitStamp sg t) = tr_entryPrice t" "tr_exitPrice (pt_exitStamp sg t) = tr_exitPrice t"
  "tr_direction (pt_exitStamp sg t) = tr_direction t"
  "tr_orderQuantity (pt_exitStamp sg t) = tr_orderQuantity t"
  by (simp_all add: pt_exitStamp_def Let_def)

lemma pt_entryDone_frame [simp]:
  "pt_positionQuantity (pt_entryDone t) = pt_positionQuantity t" "pt_positionId (pt_entryDone t) = pt_positionId t"
  "tr_filledEntryQuantity (pt_entryDone t) = tr_filledEntryQuantity t"
  "tr_filledExitQuantity (pt_entryDone t) = tr_filledExitQuantity t"
  "tr_entryPrice (pt_entryDone t) = tr_entryPrice t" "tr_exitPrice (pt_entryDone t) = tr_exitPrice t"
  by (simp_all add: pt_entryDone_def)

text \<open>The quantities after each event.\<close>

lemma pt_orderSignal_qty [simp]:
  "pt_positionQuantity (pt_orderSignal sg t) = pt_positionQuantity t"
  "tr_filledEntryQuantity (pt_orderSignal sg t) = tr_filledEntryQuantity t"
  "tr_filledExitQuantity (pt_orderSignal sg t) = tr_filledExitQuantity t"
  by (simp_all add: pt_orderSignal_def Let_def pt_if cong: if_cong split: order_event.splits split del: if_split)

lemma pt_opened_qty:
  "pt_positionQuantity (pt_opened sg t) = (if 0 < pt_openQty sg then pt_openQty sg else pt_positionQuantity t)"
  "tr_filledEntryQuantity (pt_opened sg t) =
     (if 0 < pt_openQty sg then tr_filledEntryQuantity t + (pt_openQty sg - pt_positionQuantity t) else tr_filledEntryQuantity t)"
  "tr_filledExitQuantity (pt_opened sg t) = tr_filledExitQuantity t"
  by (simp_all add: pt_opened_def Let_def pt_if cong: if_cong split del: if_split)

lemma pt_updated_qty:
  "pt_positionQuantity (pt_updated sg t) = pt_updateQty sg t"
  "tr_filledEntryQuantity (pt_updated sg t) = tr_filledEntryQuantity t + max 0 (pt_updateQty sg t - pt_positionQuantity t)"
  "tr_filledExitQuantity (pt_updated sg t) = tr_filledExitQuantity t + max 0 (pt_positionQuantity t - pt_updateQty sg t)"
proof -
  have u: "pt_updateQty sg (pt_amend sg t) = pt_updateQty sg t" by (simp add: pt_updateQty_def)
  show "pt_positionQuantity (pt_updated sg t) = pt_updateQty sg t"
    by (simp add: pt_updated_def Let_def u)
  show "tr_filledEntryQuantity (pt_updated sg t) = tr_filledEntryQuantity t + max 0 (pt_updateQty sg t - pt_positionQuantity t)"
    by (simp add: pt_updated_def Let_def u pt_decrease_def pt_increase_def pt_if max_def cong: if_cong split del: if_split)
      simp
  show "tr_filledExitQuantity (pt_updated sg t) = tr_filledExitQuantity t + max 0 (pt_positionQuantity t - pt_updateQty sg t)"
    by (simp add: pt_updated_def Let_def u pt_decrease_def pt_increase_def pt_if max_def cong: if_cong split del: if_split)
      simp
qed

lemma pt_deleted_qty:
  "pt_positionQuantity (pt_deleted sg t) = 0"
  "tr_filledEntryQuantity (pt_deleted sg t) = tr_filledEntryQuantity t"
  "pt_exitState (pt_deleted sg t) = STATE_FILLED"
  "tr_filledExitQuantity (pt_deleted sg t) = max (tr_filledExitQuantity t) (tr_filledEntryQuantity t)"
  by (simp_all add: pt_deleted_def Let_def pt_if cong: if_cong split del: if_split) simp

section \<open>Properties\<close>

text \<open>The quantity of the position is what was entered and not yet exited.\<close>

definition pt_balanced :: "position_trade \<Rightarrow> bool" where
  "pt_balanced t \<longleftrightarrow> tr_filledEntryQuantity t - tr_filledExitQuantity t = pt_positionQuantity t
     \<and> 0 \<le> pt_positionQuantity t \<and> 0 \<le> tr_filledExitQuantity t"

text \<open>A quantity of a signal that is undefined or not negative.\<close>

definition qty_ok :: "dbl \<Rightarrow> bool" where
  "qty_ok q \<longleftrightarrow> q = QUANTITY_UNDEFINED \<or> 0 \<le> q"

definition position_signal_ok :: "signal \<Rightarrow> bool" where
  "position_signal_ok s =
     (case s of OrderSig sg \<Rightarrow> True
      | PositionSig ps \<Rightarrow> qty_ok (po_cumulativeFilled ps) \<and> qty_ok (po_filled ps) \<and> qty_ok (po_quantity ps))"

lemma pt_updateQty_nonneg: "pt_balanced t \<Longrightarrow> position_signal_ok (PositionSig ps) \<Longrightarrow> 0 \<le> pt_updateQty ps t"
  by (auto simp: pt_updateQty_def position_signal_ok_def qty_ok_def pt_balanced_def)

lemma pt_balanced_position:
  assumes "pt_balanced t" and "position_signal_ok (PositionSig ps)"
  shows "pt_balanced (pt_positionSignal ps t)"
  using assms pt_updateQty_nonneg [OF assms]
  by (simp add: pt_balanced_def pt_positionSignal_def pt_opened_qty pt_updated_qty pt_deleted_qty max_def
    split: position_event.splits)

text \<open>
  C17: Signals of orders and positions in any order, on the trade or on others, keep the quantity of
  the position equal to the filled entry quantity less the filled exit quantity.
\<close>

theorem pt_balance:
  assumes "pt_balanced t" and "\<forall>s\<in>set sigs. position_signal_ok s"
  shows "pt_balanced (pt_deliver sigs t)"
  using assms
proof (induction sigs arbitrary: t)
  case (Cons s sigs)
  then show ?case
    by (cases s) (simp_all add: pt_balanced_position, simp add: pt_balanced_def)
qed simp

text \<open>The signals of a position held by a trade: its opening, a change of its quantity and its end.\<close>

definition position_event_signal :: "position_event \<Rightarrow> string \<Rightarrow> dbl \<Rightarrow> dbl \<Rightarrow> position_signal" where
  "position_event_signal ev i q x =
     (position_to_signal ev (new_position 0))\<lparr>po_positionId := i, po_cumulativeFilled := q, po_execPrice := x\<rparr>"

definition demo_position_trade :: position_trade where
  "demo_position_trade = new_position_trade\<lparr>pt_positionId := ''p'', tr_orderQuantity := 3, tr_direction := 1\<rparr>"

lemma position_event_fields [simp]:
  "po_positionId (position_event_signal ev i q x) = i" "po_cumulativeFilled (position_event_signal ev i q x) = q"
  "po_execPrice (position_event_signal ev i q x) = x" "po_avgPrice (position_event_signal ev i q x) = PRICE_UNDEFINED"
  "po_filled (position_event_signal ev i q x) = QUANTITY_UNDEFINED"
  "po_quantity (position_event_signal ev i q x) = QUANTITY_UNDEFINED"
  "ps_event (position_event_signal ev i q x) = ev"
  by (simp_all add: position_event_signal_def position_to_signal_def new_position_def position.defs)

theorem pt_balance_witness:
  "pt_balanced (pt_deliver [PositionSig (position_event_signal PS_OPENED ''p'' 3 10),
     PositionSig (position_event_signal PS_UPDATED ''p'' 1 12), PositionSig (position_event_signal PS_DELETED ''p'' 1 11)]
     demo_position_trade)"
  by (rule pt_balance)
    (simp_all add: position_signal_ok_def qty_ok_def pt_balanced_def demo_position_trade_def new_position_trade_def new_trade_def trade.defs)

subsection \<open>The exit in parts\<close>

fun exit_value :: "dbl \<Rightarrow> (dbl \<times> dbl) list \<Rightarrow> dbl" where
  "exit_value held [] = 0"
| "exit_value held ((q, x) # rs) = (held - q) * x + exit_value q rs"

definition reductions :: "string \<Rightarrow> (dbl \<times> dbl) list \<Rightarrow> signal list" where
  "reductions i = map (\<lambda>(q, x). PositionSig (position_event_signal PS_UPDATED i q x))"

text \<open>Nothing was exited yet, or the exit has a positive mean price.\<close>

definition exit_priced :: "position_trade \<Rightarrow> bool" where
  "exit_priced t \<longleftrightarrow> tr_filledExitQuantity t = 0 \<and> tr_exitPrice t = 0 \<or> 0 < tr_filledExitQuantity t \<and> 0 < tr_exitPrice t"

lemma pt_amend_event [simp]: "pt_amend (position_event_signal ev i q x) t = t"
  by (simp add: pt_amend_def position_event_signal_def position_to_signal_def new_position_def position.defs)

lemma pt_pnl_rate:
  "0 < tr_entryPrice t \<Longrightarrow> 0 < tr_filledExitQuantity t \<Longrightarrow>
     tr_profitLossRate (pt_updateRealizedPnl t) = of_int (tr_direction t) * (tr_exitPrice t - tr_entryPrice t) / tr_entryPrice t"
  by (simp add: pt_updateRealizedPnl_def field_simps)

lemma pt_decrease_pnl: "\<exists>u. pt_decrease sg q t = pt_updateRealizedPnl u"
  by (auto simp: pt_decrease_def Let_def)

lemma reduction_step:
  assumes "pt_balanced t" and "exit_priced t" and "0 \<le> q" and "q < pt_positionQuantity t" and "0 < x"
    and "isValid i" and "pt_positionId t = i"
  defines "t' \<equiv> pt_positionSignal (position_event_signal PS_UPDATED i q x) t"
  shows "tr_exitPrice t' * tr_filledExitQuantity t' = tr_exitPrice t * tr_filledExitQuantity t + (pt_positionQuantity t - q) * x"
    and "exit_priced t'" and "0 < tr_filledExitQuantity t'" and "pt_positionId t' = i" and "pt_positionQuantity t' = q"
    and "pt_isClosed t' \<longleftrightarrow> q = 0" and "tr_direction t' = tr_direction t" and "tr_entryPrice t' = tr_entryPrice t"
    and "0 < tr_entryPrice t \<Longrightarrow> tr_profitLossRate t' = of_int (tr_direction t) * (tr_exitPrice t' - tr_entryPrice t) / tr_entryPrice t"
proof -
  have t': "t' = (pt_decrease (position_event_signal PS_UPDATED i q x) q t)\<lparr>pt_positionQuantity := q\<rparr>"
    using assms(3,4,6,7)
    by (simp add: t'_def pt_positionSignal_def pt_updated_def Let_def pt_updateQty_def QUANTITY_UNDEFINED_def)
  note d = t' pt_decrease_def Let_def PRICE_UNDEFINED_def
  have x: "tr_exitPrice t' = (if 0 < tr_exitPrice t
      then (tr_exitPrice t * tr_filledExitQuantity t + x * (pt_positionQuantity t - q)) / (tr_filledExitQuantity t + (pt_positionQuantity t - q))
      else x)"
    and f: "tr_filledExitQuantity t' = tr_filledExitQuantity t + (pt_positionQuantity t - q)"
    using assms(5) by (simp_all add: d pt_if cong: if_cong split del: if_split)
  show v: "tr_exitPrice t' * tr_filledExitQuantity t' = tr_exitPrice t * tr_filledExitQuantity t + (pt_positionQuantity t - q) * x"
    using assms(2,4) by (auto simp: x f exit_priced_def)
  show p: "0 < tr_filledExitQuantity t'" using assms(2,4) by (auto simp: f exit_priced_def)
  have "0 < tr_exitPrice t' * tr_filledExitQuantity t'"
    unfolding v using assms(2,4,5) by (auto simp: exit_priced_def intro: add_pos_pos)
  then show "exit_priced t'" using p by (simp add: exit_priced_def zero_less_mult_iff)
  show dir: "pt_positionId t' = i" "pt_positionQuantity t' = q" "tr_direction t' = tr_direction t" "tr_entryPrice t' = tr_entryPrice t"
    using assms(7) by (simp_all add: d pt_if cong: if_cong split del: if_split)
  have "pt_exitState t' = (if tr_filledEntryQuantity t \<le> tr_filledExitQuantity t + (pt_positionQuantity t - q) then STATE_FILLED
      else STATE_PARTIALLY_FILLED)"
    by (simp add: d pt_if cong: if_cong split del: if_split)
  then show "pt_isClosed t' \<longleftrightarrow> q = 0" using assms(1,3) by (auto simp: pt_isClosed_def pt_balanced_def)
  obtain u where u: "t' = (pt_updateRealizedPnl u)\<lparr>pt_positionQuantity := q\<rparr>" using pt_decrease_pnl t' by metis
  show "0 < tr_entryPrice t \<Longrightarrow> tr_profitLossRate t' = of_int (tr_direction t) * (tr_exitPrice t' - tr_entryPrice t) / tr_entryPrice t"
    using pt_pnl_rate [of u] u p dir by simp
qed

text \<open>
  C18: A position that is sold in parts, at prices that the signals give one by one, exits at the
  mean of the prices weighted by the quantities. The trade is closed exactly when nothing is left, and its profit is
  the move from the entry price to that mean.
\<close>

theorem pt_exit_average:
  assumes "pt_balanced t" and "exit_priced t" and "isValid i" and "pt_positionId t = i" and "0 < tr_entryPrice t"
    and "sorted_wrt (>) (pt_positionQuantity t # map fst rs)" and "\<forall>(q, x)\<in>set rs. 0 \<le> q \<and> 0 < x" and "rs \<noteq> []"
  defines "t' \<equiv> pt_deliver (reductions i rs) t"
  shows "tr_exitPrice t' * tr_filledExitQuantity t' =
      tr_exitPrice t * tr_filledExitQuantity t + exit_value (pt_positionQuantity t) rs
    \<and> tr_filledExitQuantity t' = tr_filledEntryQuantity t - fst (last rs)
    \<and> (pt_isClosed t' \<longleftrightarrow> fst (last rs) = 0)
    \<and> tr_profitLossRate t' = of_int (tr_direction t) * (tr_exitPrice t' - tr_entryPrice t) / tr_entryPrice t"
  using assms(1-8) unfolding t'_def
proof (induction rs arbitrary: t)
  case (Cons r rs)
  obtain q x where r: "r = (q, x)" by (cases r)
  define t1 where "t1 = pt_positionSignal (position_event_signal PS_UPDATED i q x) t"
  have pre: "0 \<le> q" "q < pt_positionQuantity t" "0 < x" using Cons.prems(6,7) by (simp_all add: r)
  note step = reduction_step [OF Cons.prems(1,2) pre Cons.prems(3,4), folded t1_def]
  have b: "pt_balanced t1" unfolding t1_def using Cons.prems(1) pre(1)
    by (intro pt_balanced_position) (simp_all add: position_signal_ok_def qty_ok_def)
  have d: "pt_deliver (reductions i (r # rs)) t = pt_deliver (reductions i rs) t1"
    by (simp add: reductions_def r t1_def)
  have e: "tr_filledEntryQuantity t1 = tr_filledEntryQuantity t"
    using pre(2) Cons.prems(3,4)
    by (simp add: t1_def pt_positionSignal_def pt_updated_qty pt_updateQty_def)
  show ?case
  proof (cases "rs = []")
    case True
    then show ?thesis using step b e Cons.prems(5) unfolding d by (simp add: reductions_def r pt_balanced_def)
  next
    case False
    have s: "sorted_wrt (>) (pt_positionQuantity t1 # map fst rs)" "\<forall>(q, x)\<in>set rs. 0 \<le> q \<and> 0 < x" "0 < tr_entryPrice t1"
      using Cons.prems(5-7) step(5,8) by (simp_all add: r)
    show ?thesis using Cons.IH [OF b step(2) Cons.prems(3) step(4) s(3,1,2) False] step e False
      unfolding d by (auto simp: r add.assoc)
  qed
qed simp

definition held_trade :: position_trade where
  "held_trade = demo_position_trade\<lparr>pt_positionQuantity := 3, tr_filledEntryQuantity := 3, tr_entryPrice := 10,
     pt_entryState := STATE_FILLED\<rparr>"

lemmas held_trade_defs = held_trade_def demo_position_trade_def new_position_trade_def new_trade_def trade.defs

theorem pt_exit_average_witness:
  "tr_exitPrice (pt_deliver (reductions ''p'' [(2, 12), (0, 15)]) held_trade) = 14
    \<and> pt_isClosed (pt_deliver (reductions ''p'' [(2, 12), (0, 15)]) held_trade)"
proof -
  have b: "pt_balanced held_trade" "exit_priced held_trade" "isValid ''p''" "pt_positionId held_trade = ''p''"
    "0 < tr_entryPrice held_trade" "sorted_wrt (>) (pt_positionQuantity held_trade # map fst [(2, 12), (0, 15 :: dbl)])"
    "\<forall>(q, x)\<in>set [(2, 12), (0, 15)]. (0::dbl) \<le> q \<and> (0::dbl) < x" "[(2, 12), (0, 15)] \<noteq> ([] :: (dbl \<times> dbl) list)"
    by (simp_all add: pt_balanced_def exit_priced_def held_trade_defs isValid_def)
  have v: "pt_positionQuantity held_trade = 3" "tr_exitPrice held_trade = 0" "tr_filledEntryQuantity held_trade = 3"
    by (simp_all add: held_trade_defs)
  have "tr_exitPrice (pt_deliver (reductions ''p'' [(2, 12), (0, 15)]) held_trade) * 3 = 42"
    "pt_isClosed (pt_deliver (reductions ''p'' [(2, 12), (0, 15)]) held_trade)"
    using pt_exit_average [OF b] by (auto simp: v)
  then show ?thesis by simp
qed

text \<open>
  Two fills of an entry at the same price of 100 give an entry price of 150: the code divides the sum by the product of both
  quantities, 2 and 1, instead of by their sum.
\<close>

theorem pt_entry_price_wrong:
  "tr_entryPrice (pt_deliver [PositionSig (position_event_signal PS_OPENED ''p'' 2 100),
     PositionSig (position_event_signal PS_UPDATED ''p'' 3 100)] demo_position_trade) = 150"
  by code_simp

text \<open>
  When the opening of the entry order is signaled after fills of the position, the test that should see them compares the quantity with the undefined
  value -1 and always holds: the trade returns to the opened state. It holds the position but
  is not active, so that \<^verbatim>\<open>process\<close> does nothing for it, whatever its stop-loss.
\<close>

theorem pt_late_open:
  assumes "pt_isTargetOrder t (or_orderId sg) (or_refId sg)" and "os_event sg = OS_OPENED" and "0 \<le> tr_filledEntryQuantity t"
  shows "pt_isOpened (pt_orderSignal sg t) \<and> \<not> pt_isActive (pt_orderSignal sg t)
    \<and> pt_positionQuantity (pt_orderSignal sg t) = pt_positionQuantity t
    \<and> pt_process px f (pt_orderSignal sg t) w = (pt_orderSignal sg t, w)"
proof -
  have "pt_entryState (pt_orderSignal sg t) = STATE_OPENED"
    using assms by (auto simp: pt_isTargetOrder_def pt_orderSignal_def Let_def QUANTITY_UNDEFINED_def split: if_splits)
  then show ?thesis by (simp add: pt_isOpened_def pt_isActive_def pt_process_def)
qed

theorem pt_late_open_witness:
  "pt_isActive (held_trade\<lparr>pt_entryRefId := ''r''\<rparr>)
    \<and> \<not> pt_isActive (pt_orderSignal (demo_signal OS_OPENED ((new_order 0)\<lparr>or_refId := ''r''\<rparr>)) (held_trade\<lparr>pt_entryRefId := ''r''\<rparr>))"
proof -
  have t: "pt_isTargetOrder (held_trade\<lparr>pt_entryRefId := ''r''\<rparr>)
      (or_orderId (demo_signal OS_OPENED ((new_order 0)\<lparr>or_refId := ''r''\<rparr>)))
      (or_refId (demo_signal OS_OPENED ((new_order 0)\<lparr>or_refId := ''r''\<rparr>)))"
    "os_event (demo_signal OS_OPENED ((new_order 0)\<lparr>or_refId := ''r''\<rparr>)) = OS_OPENED"
    "0 \<le> tr_filledEntryQuantity (held_trade\<lparr>pt_entryRefId := ''r''\<rparr>)"
    "pt_isActive (held_trade\<lparr>pt_entryRefId := ''r''\<rparr>)"
    by code_simp+
  from pt_late_open [OF t(1-3), of demo_proxy "\<lambda>t w. (t, w)" 0] t(4) show ?thesis by blast
qed

text \<open>
  C19: An active trade is closed at the market as soon as the close price reaches its local
  stop-loss: the proxy is called with the quantity of the position, and if it accepts the call, the trade is
  marked as closing, so that nothing closes the position a second time.
\<close>

theorem pt_stop_closes:
  assumes "pt_isActive t" and "0 < tr_stopLossPrice t" and "pt_positionStopPrice t = 0" and "\<not> pt_closing t"
    and "isValid (pt_positionId t)" and "\<not> isValid (pt_entryOrderId t)"
    and "of_int (tr_direction t) * closeExecPrice (px_market px w) (tr_direction t) \<le> of_int (tr_direction t) * tr_stopLossPrice t"
    and "tr_direction t \<in> {-1, 1}"
    and "px_closePosition px (pt_positionId t) (tr_direction t) (pt_positionQuantity t) True 0 w = (RET_OK, [], w')"
  defines "r \<equiv> pt_process px (\<lambda>t w. (t, w)) t w"
  shows "snd r = w' \<and> pt_isClosing (fst r) \<and> ts_exitReason (tr_stats (fst r)) = REASON_STOP_LOSS_MARKET
    \<and> pt_close px reason (fst r) w'' = (fst r, w'')"
proof -
  have "r = pt_close px REASON_STOP_LOSS_MARKET t w"
    using assms(1-3,7,8) by (auto simp: r_def pt_process_def)
  moreover have "pt_close px REASON_STOP_LOSS_MARKET t w =
      ((on_stats (\<lambda>s. s\<lparr>ts_exitReason := REASON_STOP_LOSS_MARKET, ts_stopOrderType := ORDER_MARKET\<rparr>) t)\<lparr>pt_closing := True\<rparr>, w')"
    using assms(4-6,9) by (simp add: pt_close_def)
  ultimately show ?thesis by (simp add: pt_isClosing_def pt_close_def)
qed

theorem pt_stop_closes_witness:
  "pt_isClosing (fst (pt_process demo_proxy (\<lambda>t w. (t, w)) (held_trade\<lparr>tr_stopLossPrice := 5\<rparr>) 0))"
proof -
  have h: "pt_isActive (held_trade\<lparr>tr_stopLossPrice := 5\<rparr>)" "0 < tr_stopLossPrice (held_trade\<lparr>tr_stopLossPrice := 5\<rparr>)"
    "pt_positionStopPrice (held_trade\<lparr>tr_stopLossPrice := 5\<rparr>) = 0" "\<not> pt_closing (held_trade\<lparr>tr_stopLossPrice := 5\<rparr>)"
    "isValid (pt_positionId (held_trade\<lparr>tr_stopLossPrice := 5\<rparr>))" "\<not> isValid (pt_entryOrderId (held_trade\<lparr>tr_stopLossPrice := 5\<rparr>))"
    "of_int (tr_direction (held_trade\<lparr>tr_stopLossPrice := 5\<rparr>)) *
       closeExecPrice (px_market demo_proxy 0) (tr_direction (held_trade\<lparr>tr_stopLossPrice := 5\<rparr>))
       \<le> of_int (tr_direction (held_trade\<lparr>tr_stopLossPrice := 5\<rparr>)) * tr_stopLossPrice (held_trade\<lparr>tr_stopLossPrice := 5\<rparr>)"
    "tr_direction (held_trade\<lparr>tr_stopLossPrice := 5\<rparr>) \<in> {-1, 1}"
    by code_simp+
  have c: "px_closePosition demo_proxy i d q m p w = (RET_OK, [], w)" for i d q m p w by (simp add: demo_proxy_def)
  from pt_stop_closes [OF h c, THEN conjunct2, THEN conjunct1] show ?thesis .
qed

end
