(* ===== verification/Paper_Position.thy ===== *)
theory Paper_Position
  imports Local_Connector Position_Trade
begin

text \<open>
  The composition: trades that own an individual position (\<^verbatim>\<open>positiontrade.cpp\<close>) over the local connector
  (\<^verbatim>\<open>localconnectorposition.cpp\<close>) through the proxy.
\<close>

definition pos_ready :: "lc \<Rightarrow> bool" where
  "pos_ready w \<longleftrightarrow> lc_tradeType w = TYPE_POSITION \<and> (\<forall>k. isValid (lc_uuid w k)) \<and> hasPosition (lc_market w)"

definition pos_fresh :: "position_trade \<Rightarrow> bool" where
  "pos_fresh t \<longleftrightarrow> pt_positionId t = '''' \<and> pt_entryOrderId t = '''' \<and> \<not> pt_closing t \<and> pt_positionQuantity t = 0
     \<and> tr_filledEntryQuantity t = 0 \<and> tr_filledExitQuantity t = 0 \<and> pt_exitState t = STATE_UNDEFINED
     \<and> pt_positionStopPrice t = 0 \<and> pt_positionLimitPrice t = 0"

lemma pos_fresh_init: "pos_fresh (pt_init timeframe t)"
  by (simp add: pos_fresh_def pt_init_def init_trade_def)

text \<open>A trade that holds its whole quantity in the position \<open>i\<close>.\<close>

definition holds :: "int \<Rightarrow> dbl \<Rightarrow> dbl \<Rightarrow> string \<Rightarrow> position_trade \<Rightarrow> bool" where
  "holds d q x i t \<longleftrightarrow> tr_direction t = d \<and> tr_filledEntryQuantity t = q \<and> tr_filledExitQuantity t = 0
     \<and> tr_entryPrice t = x \<and> pt_positionId t = i \<and> pt_positionQuantity t = q \<and> pt_entryState t = STATE_FILLED
     \<and> pt_exitState t = STATE_UNDEFINED \<and> \<not> pt_closing t \<and> pt_entryOrderId t = '''' \<and> pt_entryRefId t = ''''
     \<and> pt_positionStopPrice t = 0 \<and> pt_positionLimitPrice t = 0"

definition connector_holds :: "int \<Rightarrow> dbl \<Rightarrow> string \<Rightarrow> lc \<Rightarrow> bool" where
  "connector_holds d q i w \<longleftrightarrow> (\<exists>p. findPosition i w = Some p \<and> po_positionId p = i \<and> po_direction p = d \<and> po_quantity p = q \<and> po_strategy p)"

section \<open>Opening\<close>

lemma opened_holds:
  assumes "pos_fresh t" and "0 < q" and "0 < x" and "tr_orderQuantity t = q" and "pt_entryRefId t = r" and "isValid r"
    and "isValid i" and "ps_event sg = PS_OPENED" and "po_refOrderId sg = r" and "po_positionId sg = i"
    and "po_cumulativeFilled sg = q" and "po_avgPrice sg = x" and "po_stopPrice sg = PRICE_UNDEFINED" and "po_limitPrice sg = PRICE_UNDEFINED"
  shows "holds (tr_direction t) q x i (pt_positionSignal sg t)"
proof -
  have "pt_positionSignal sg t = pt_opened sg t" using assms(5,6,8,9) by (simp add: pt_positionSignal_def)
  also have "holds (tr_direction t) q x i \<dots>"
    using assms by (simp add: holds_def pos_fresh_def pt_opened_def Let_def pt_openQty_def undefined_defs pt_amend_def pt_entryDone_def
      isEmpty_def pt_updateRealizedPnl_def on_stats_def)
  finally show ?thesis .
qed

lemma createPosition_ok:
  assumes "pos_ready w" and "or_strategy od" and "0 < x"
  obtains w0 w2 where "createPosition od x w = (RET_OK, [PositionSig (openPositionSignal od x w0), OrderSig (deletedOrderSignal od w0)], w2)"
    "connector_holds (or_direction od) (or_orderQuantity od) (or_orderId od) w2" "lc_market w2 = lc_market w"
    "pos_ready w2" "lc_orders w2 = lc_orders w"
proof -
  obtain p w0 where n: "lc_newPosition w = (p, w0)" by fastforce
  have f: "po_strategy p" "lc_market w0 = lc_market w" "pos_ready w0" "lc_orders w0 = lc_orders w"
    using n assms(1) by (auto simp: lc_newPosition_def fresh_uuid_def Let_def pos_ready_def)
  define w2 where "w2 = setPosition (or_orderId od) (createdPosition od x w0 p) w0"
  have "createPosition od x w = (RET_OK, [PositionSig (openPositionSignal od x w0), OrderSig (deletedOrderSignal od w0)], w2)"
    using assms(2,3) by (simp add: createPosition_def n w2_def createdPosition_def)
  moreover have "connector_holds (or_direction od) (or_orderQuantity od) (or_orderId od) w2"
    using f(1) by (simp add: connector_holds_def w2_def createdPosition_def)
  moreover have "lc_market w2 = lc_market w" "pos_ready w2" "lc_orders w2 = lc_orders w"
    using f(2-4) by (simp_all add: w2_def setPosition_def pos_ready_def)
  ultimately show thesis by (rule that)
qed

lemma openPositionSignal_fields [simp]:
  "ps_event (openPositionSignal od x w) = PS_OPENED" "po_refOrderId (openPositionSignal od x w) = or_refId od"
  "po_positionId (openPositionSignal od x w) = or_orderId od" "po_cumulativeFilled (openPositionSignal od x w) = or_orderQuantity od"
  "po_avgPrice (openPositionSignal od x w) = x" "po_stopPrice (openPositionSignal od x w) = PRICE_UNDEFINED"
  "po_limitPrice (openPositionSignal od x w) = PRICE_UNDEFINED" "or_refId (deletedOrderSignal od w) = or_refId od"
  "or_orderId (deletedOrderSignal od w) = or_orderId od"
  by (simp_all add: openPositionSignal_def deletedOrderSignal_def position_to_signal_def order_to_signal_def new_position_def
    position.defs order.defs)

text \<open>The order that \<^verbatim>\<open>open\<close> sends.\<close>

definition entry_order :: "int \<Rightarrow> dbl \<Rightarrow> dbl \<Rightarrow> order \<Rightarrow> order" where
  "entry_order d q price od = setHedging (setMargin (od\<lparr>or_direction := d, or_orderQuantity := q,
     or_orderType := ORDER_MARKET, or_orderPrice := price\<rparr>))"

lemma entry_order_fields [simp]:
  "or_refId (entry_order d q price od) = or_refId od" "or_direction (entry_order d q price od) = d"
  "or_orderQuantity (entry_order d q price od) = q" "or_orderType (entry_order d q price od) = ORDER_MARKET"
  "or_strategy (entry_order d q price od) = or_strategy od" "or_positionId (entry_order d q price od) = or_positionId od"
  by (simp_all add: entry_order_def setHedging_def setMargin_def defineFlag_def)

lemma entry_order_flags:
  assumes "or_flags od = -1"
  shows "hedging (entry_order d q price od)" "\<not> closeOnly (entry_order d q price od)" "\<not> reduceOnly (entry_order d q price od)"
  using assms by (simp_all add: entry_order_def hedging_def closeOnly_def reduceOnly_def has_flag_def setHedging_def setMargin_def
    defineFlag_def F_defs)

lemma order_flags_id [simp]:
  "hedging (od\<lparr>or_orderId := i, or_created := c\<rparr>) = hedging od" "closeOnly (od\<lparr>or_orderId := i, or_created := c\<rparr>) = closeOnly od"
  "reduceOnly (od\<lparr>or_orderId := i, or_created := c\<rparr>) = reduceOnly od"
  by (simp_all add: hedging_def closeOnly_def reduceOnly_def has_flag_def)

lemma createOrder_position:
  assumes "pos_ready w" and "or_strategy od" and "or_orderType od = ORDER_MARKET" and "hedging od" and "\<not> closeOnly od"
    and "\<not> reduceOnly od" and "or_positionId od = ''''" and "0 < openExecPrice (lc_market w) (or_direction od)"
  obtains od' w0 w2 where
    "lc_createOrder od w = (RET_OK, [PositionSig (openPositionSignal od' (openExecPrice (lc_market w) (or_direction od)) w0),
       OrderSig (deletedOrderSignal od' w0)], w2)"
    "or_refId od' = or_refId od" "or_orderQuantity od' = or_orderQuantity od" "isValid (or_orderId od')"
    "connector_holds (or_direction od) (or_orderQuantity od) (or_orderId od') w2" "lc_market w2 = lc_market w"
    "pos_ready w2" "lc_orders w2 = lc_orders w"
proof -
  define w1 where "w1 = w\<lparr>lc_uuids := Suc (lc_uuids w)\<rparr>"
  define od' where "od' = od\<lparr>or_orderId := lc_uuid w (lc_uuids w), or_created := lc_now w\<rparr>"
  have r: "pos_ready w1" "lc_market w1 = lc_market w" "lc_orders w1 = lc_orders w" "or_strategy od'" "isValid (or_orderId od')"
    "or_refId od' = or_refId od" "or_orderQuantity od' = or_orderQuantity od" "or_direction od' = or_direction od"
    using assms(1,2) by (simp_all add: w1_def od'_def pos_ready_def)
  have "lc_createOrder od w = createPosition od' (openExecPrice (lc_market w) (or_direction od)) w1"
    using assms by (simp add: lc_createOrder_def Let_def fresh_uuid_def w1_def od'_def pos_ready_def exec_position_def isEmpty_def)
  moreover obtain w0 w2 where "createPosition od' (openExecPrice (lc_market w) (or_direction od)) w1 =
      (RET_OK, [PositionSig (openPositionSignal od' (openExecPrice (lc_market w) (or_direction od)) w0), OrderSig (deletedOrderSignal od' w0)], w2)"
    "connector_holds (or_direction od') (or_orderQuantity od') (or_orderId od') w2" "lc_market w2 = lc_market w1"
    "pos_ready w2" "lc_orders w2 = lc_orders w1"
    by (rule createPosition_ok [OF r(1,4) assms(8)])
  ultimately show thesis using that [of od' w0 w2] r by simp
qed

lemma pt_steps_levels [simp]:
  "tr_stopLossPrice (pt_amend sg t) = tr_stopLossPrice t" "tr_takeProfitPrice (pt_amend sg t) = tr_takeProfitPrice t"
  "tr_stopLossPrice (pt_entryDone t) = tr_stopLossPrice t" "tr_takeProfitPrice (pt_entryDone t) = tr_takeProfitPrice t"
  "tr_stopLossPrice (pt_updateRealizedPnl t) = tr_stopLossPrice t" "tr_takeProfitPrice (pt_updateRealizedPnl t) = tr_takeProfitPrice t"
  by (simp_all add: pt_amend_def pt_entryDone_def pt_updateRealizedPnl_def)

lemma pt_opened_levels [simp]:
  "tr_stopLossPrice (pt_opened sg t) = tr_stopLossPrice t" "tr_takeProfitPrice (pt_opened sg t) = tr_takeProfitPrice t"
  by (simp_all add: pt_opened_def Let_def if_distrib [of tr_stopLossPrice] if_distrib [of tr_takeProfitPrice]
    cong: if_cong split del: if_split)

lemma pt_openPosition_levels [simp]:
  "tr_stopLossPrice (pt_positionSignal (openPositionSignal od x w) t) = tr_stopLossPrice t"
  "tr_takeProfitPrice (pt_positionSignal (openPositionSignal od x w) t) = tr_takeProfitPrice t"
  by (simp_all add: pt_positionSignal_def)

lemma open_holds:
  assumes "pos_ready w" and "pos_fresh t" and "0 < q" and "0 < openExecPrice (lc_market w) d"
    and "pt_open (local_proxy u) d ORDER_MARKET price q tp sl t w = (t1, w1)"
  obtains i where "isValid i" "holds d q (openExecPrice (lc_market w) d) i t1" "pos_ready w1" "lc_market w1 = lc_market w"
    "connector_holds d q i w1" "lc_orders w1 = lc_orders w" "tr_stopLossPrice t1 = sl" "tr_takeProfitPrice t1 = tp"
proof -
  obtain od w' where n: "lc_newOrder w = (od, w')" "or_flags od = -1" "or_strategy od" "isValid (or_refId od)" "or_positionId od = ''''"
    "pos_ready w'" "lc_market w' = lc_market w" "lc_orders w' = lc_orders w"
    using assms(1) by (simp add: lc_newOrder_def fresh_uuid_def pos_ready_def new_order_def)
  define x where "x = openExecPrice (lc_market w) d"
  obtain od' w0 w2 where c: "lc_createOrder (entry_order d q price od) w' = (RET_OK, [PositionSig (openPositionSignal od' x w0),
       OrderSig (deletedOrderSignal od' w0)], w2)"
    "or_refId od' = or_refId od" "or_orderQuantity od' = q" "isValid (or_orderId od')" "connector_holds d q (or_orderId od') w2"
    "lc_market w2 = lc_market w" "pos_ready w2" "lc_orders w2 = lc_orders w"
    by (rule createOrder_position [OF n(6), of "entry_order d q price od"])
      (use assms(4) n entry_order_flags [OF n(2)] in \<open>simp_all add: x_def\<close>)
  define t0 where "t0 = on_stats (\<lambda>s. s\<lparr>ts_entryOrderType := ORDER_MARKET\<rparr>) (t\<lparr>tr_direction := d, tr_orderQuantity := q, tr_orderPrice := price,
    tr_takeProfitPrice := tp, tr_stopLossPrice := sl, pt_entryRefId := or_refId od\<rparr>)"
  have "holds (tr_direction t0) q x (or_orderId od') (pt_positionSignal (openPositionSignal od' x w0) t0)"
    using assms(2-4) n(4) c(2-4) by (intro opened_holds) (simp_all add: t0_def pos_fresh_def x_def)
  then have h: "holds d q x (or_orderId od') (pt_positionSignal (openPositionSignal od' x w0) t0)" by (simp add: t0_def)
  then have "pt_orderSignal (deletedOrderSignal od' w0) (pt_positionSignal (openPositionSignal od' x w0) t0)
      = pt_positionSignal (openPositionSignal od' x w0) t0"
    by (simp add: pt_orderSignal_def holds_def isValid_def)
  then have "(t1, w1) = (pt_positionSignal (openPositionSignal od' x w0) t0, w2)"
    using assms(5) c(1) n(1) by (simp add: pt_open_def Let_def pt_create_def local_proxy_def entry_order_def [symmetric] t0_def)
  with that [of "or_orderId od'"] c h show thesis by (simp add: x_def t0_def)
qed

section \<open>Closing\<close>

lemma deletedPositionSignal_fields [simp]:
  "ps_event (deletedPositionSignal p x w) = PS_DELETED" "po_positionId (deletedPositionSignal p x w) = po_positionId p"
  "po_avgPrice (deletedPositionSignal p x w) = x"
  by (simp_all add: deletedPositionSignal_def position_to_signal_def position.defs)

text \<open>The trade after the end of its position at the price \<open>y\<close>.\<close>

definition ended :: "dbl \<Rightarrow> dbl \<Rightarrow> position_trade \<Rightarrow> bool" where
  "ended q y t \<longleftrightarrow> pt_isClosed t \<and> \<not> pt_isActive t \<and> tr_filledEntryQuantity t = q \<and> tr_filledExitQuantity t = q
     \<and> pt_positionQuantity t = 0 \<and> pt_positionId t = '''' \<and> tr_exitPrice t = y
     \<and> tr_profitLossRate t = of_int (tr_direction t) * (y - tr_entryPrice t) / tr_entryPrice t"

lemma pt_deleted_fields:
  assumes "po_avgPrice sg \<noteq> PRICE_UNDEFINED"
  shows "tr_exitPrice (pt_deleted sg t) = po_avgPrice sg" "pt_positionId (pt_deleted sg t) = ''''"
    "tr_entryPrice (pt_deleted sg t) = tr_entryPrice t" "tr_direction (pt_deleted sg t) = tr_direction t"
    "\<exists>u. pt_deleted sg t = pt_updateRealizedPnl u"
  using assms by (auto simp: pt_deleted_def Let_def)

lemma pt_deleted_ended:
  assumes "po_avgPrice sg = y" and "0 < y" and "0 < q" and "tr_filledEntryQuantity t = q" and "tr_filledExitQuantity t = 0"
    and "0 < tr_entryPrice t"
  shows "ended q y (pt_deleted sg t)"
proof -
  have u: "po_avgPrice sg \<noteq> PRICE_UNDEFINED" using assms(1,2) by (simp add: PRICE_UNDEFINED_def)
  obtain u where u': "pt_deleted sg t = pt_updateRealizedPnl u" using pt_deleted_fields(5) [OF u] by blast
  then show ?thesis
    using pt_pnl_rate [of u] pt_deleted_fields(1-4) [OF u, of t] pt_deleted_qty [of sg t] assms
    by (simp add: ended_def pt_isClosed_def pt_isActive_def)
qed

lemma close_ends:
  assumes "pos_ready w" and "holds d q x i t" and "connector_holds d q i w" and "isValid i" and "0 < q" and "0 < x"
    and "0 < closeExecPrice (lc_market w) d" and "pt_close (local_proxy u) reason t w = (t2, w2)"
  shows "ended q (closeExecPrice (lc_market w) d) t2 \<and> tr_direction t2 = d \<and> tr_entryPrice t2 = x
    \<and> ts_exitReason (tr_stats t2) = reason \<and> findPosition i w2 = None"
proof -
  define y where "y = closeExecPrice (lc_market w) d"
  obtain p where p: "findPosition i w = Some p" "po_positionId p = i" "po_direction p = d" "po_quantity p = q" "po_strategy p"
    using assms(3) by (auto simp: connector_holds_def)
  obtain p' p'' where c: "closePosition p y w = (RET_OK, [PositionSig (deletedPositionSignal p' y w)], p'')" "po_positionId p' = i"
    using p(2,5) assms(7) by (simp add: closePosition_def y_def Let_def)
  have lc: "lc_closePosition i d q True 0 w =
      (RET_OK, [PositionSig (deletedPositionSignal p' y w)], lc_freePosition p'' (erasePosition i (setPosition i p'' w)))"
    using assms(1,4) p c(1) by (simp add: lc_closePosition_def pos_ready_def y_def)
  define t0 where "t0 = (on_stats (\<lambda>s. s\<lparr>ts_exitReason := reason, ts_stopOrderType := ORDER_MARKET\<rparr>) t)\<lparr>pt_closing := True\<rparr>"
  have h: "pt_positionId t0 = i" "tr_filledEntryQuantity t0 = q" "tr_filledExitQuantity t0 = 0" "tr_entryPrice t0 = x"
    "tr_direction t0 = d" "ts_exitReason (tr_stats t0) = reason"
    using assms(2) by (simp_all add: t0_def holds_def)
  have s: "pt_positionSignal (deletedPositionSignal p' y w) t0 = pt_deleted (deletedPositionSignal p' y w) t0"
    using h(1) c(2) assms(4) by (simp add: pt_positionSignal_def)
  have r: "(t2, w2) = (pt_deleted (deletedPositionSignal p' y w) t0, lc_freePosition p'' (erasePosition i (setPosition i p'' w)))"
    using assms(2,4,8) lc s by (simp add: pt_close_def holds_def isValid_def local_proxy_def t0_def Let_def split: if_splits)
  have "ended q y (pt_deleted (deletedPositionSignal p' y w) t0)"
    using assms(5-7) h by (intro pt_deleted_ended) (simp_all add: y_def)
  moreover have "y \<noteq> PRICE_UNDEFINED" using assms(7) by (simp add: y_def PRICE_UNDEFINED_def)
  moreover have "ts_exitReason (tr_stats (pt_deleted (deletedPositionSignal p' y w) t0)) = reason"
    using h(6) by (simp add: pt_deleted_def pt_updateRealizedPnl_def Let_def)
  ultimately show ?thesis
    using r h(4,5) pt_deleted_fields(3,4) [of "deletedPositionSignal p' y w" t0]
    by (simp add: y_def)
qed

section \<open>Properties\<close>

text \<open>
  C3: A trade opened and closed at the market pays the spread: it enters at the price that opens its direction and exits
  at the one that closes it. It comes out closed, with its whole quantity exited, and the connector has forgotten its position.
\<close>

theorem position_roundtrip:
  assumes "pos_ready w" and "pos_fresh t" and "0 < q" and "0 < openExecPrice (lc_market w) d" and "0 < closeExecPrice (lc_market w) d"
    and "pt_open (local_proxy u) d ORDER_MARKET price q tp sl t w = (t1, w1)"
    and "pt_close (local_proxy u) reason t1 w1 = (t2, w2)"
  shows "pt_isActive t1 \<and> tr_entryPrice t1 = openExecPrice (lc_market w) d \<and> connector_holds d q (pt_positionId t1) w1
    \<and> pt_isClosed t2 \<and> tr_filledExitQuantity t2 = q \<and> findPosition (pt_positionId t1) w2 = None
    \<and> tr_profitLossRate t2 = of_int d * (closeExecPrice (lc_market w) d - openExecPrice (lc_market w) d) / openExecPrice (lc_market w) d"
proof -
  obtain i where o: "isValid i" "holds d q (openExecPrice (lc_market w) d) i t1" "pos_ready w1" "lc_market w1 = lc_market w"
    "connector_holds d q i w1"
    by (rule open_holds [OF assms(1-4,6)])
  have "0 < closeExecPrice (lc_market w1) d" using assms(5) o(4) by simp
  from close_ends [OF o(3,2,5,1) assms(3,4) this assms(7)] o
  show ?thesis by (simp add: ended_def holds_def pt_isActive_def)
qed

lemma sample_pos_ready: "pos_ready sample_pos_lc"
proof -
  have "hasPosition (lc_market sample_pos_lc)" by code_simp
  then show ?thesis by (simp add: pos_ready_def sample_pos_lc_def sample_lc_def isValid_def)
qed

lemma sample_pos_prices:
  "openExecPrice (lc_market sample_pos_lc) LONG = 100" "closeExecPrice (lc_market sample_pos_lc) LONG = 99" "of_int LONG = (1 :: dbl)"
  by code_simp+

theorem position_roundtrip_witness:
  "let (t1, w1) = pt_open (local_proxy (-1000)) LONG ORDER_MARKET 0 2 0 0 (pt_init 60 new_position_trade) sample_pos_lc;
       (t2, w2) = pt_close (local_proxy (-1000)) REASON_CLOSE_MARKET t1 w1
   in pt_isClosed t2 \<and> tr_profitLossRate t2 = - 1 / 100"
proof -
  obtain t1 w1 where o: "pt_open (local_proxy (-1000)) LONG ORDER_MARKET 0 2 0 0 (pt_init 60 new_position_trade) sample_pos_lc = (t1, w1)"
    by fastforce
  obtain t2 w2 where c: "pt_close (local_proxy (-1000)) REASON_CLOSE_MARKET t1 w1 = (t2, w2)" by fastforce
  from position_roundtrip [OF sample_pos_ready pos_fresh_init _ _ _ o c]
  show ?thesis by (simp add: o c sample_pos_prices)
qed

subsection \<open>A stop-loss on the exchange\<close>

text \<open>
  The loop of a session: for each time and price of the market the connector is updated, the trade receives the signals, and the
  strategy processes the trade with its hook. \<open>None\<close> is a call that does not return.
\<close>

definition watch_step :: "bool \<Rightarrow> date_lib \<Rightarrow> dbl \<Rightarrow> (position_trade \<Rightarrow> lc \<Rightarrow> position_trade \<times> lc) \<Rightarrow> dbl \<times> market
    \<Rightarrow> position_trade \<times> lc \<Rightarrow> (position_trade \<times> lc) option" where
  "watch_step again dl u hook now s =
     map_option (\<lambda>(sigs, w). pt_process (local_proxy u) hook (pt_deliver sigs (fst s)) w)
       (lc_enter again (lc_update dl) ((snd s)\<lparr>lc_now := fst now, lc_market := snd now\<rparr>))"

primrec watch :: "bool \<Rightarrow> date_lib \<Rightarrow> dbl \<Rightarrow> (position_trade \<Rightarrow> lc \<Rightarrow> position_trade \<times> lc) \<Rightarrow> (dbl \<times> market) list
    \<Rightarrow> position_trade \<times> lc \<Rightarrow> (position_trade \<times> lc) option" where
  "watch again dl u hook [] s = Some s"
| "watch again dl u hook (now # nows) s = Option.bind (watch_step again dl u hook now s) (watch again dl u hook nows)"

definition idle_orders :: "market \<Rightarrow> lc \<Rightarrow> bool" where
  "idle_orders m w \<longleftrightarrow> (\<forall>od \<in> snd ` set (lc_orders w). \<not> fst (handleOrder od (w\<lparr>lc_market := m\<rparr>)))"

definition target_reached :: "int \<Rightarrow> dbl \<Rightarrow> market \<Rightarrow> bool" where
  "target_reached d tp m \<longleftrightarrow> 0 < tp \<and> (0 < d \<and> tp \<le> closeExecPrice m d \<or> d < 0 \<and> closeExecPrice m d \<le> tp)"

lemma handleOrder_idle: "\<not> fst (handleOrder od w) \<Longrightarrow> handleOrder od w = (False, [], w)"
  by (auto simp: handleOrder_def handleLimitOrder_def handleStopOrder_def handleStopLimitOrder_def handleTakeProfitOrder_def
    handleTakeProfitLimitOrder_def Let_def split_beta split: if_splits)

lemma handleOrder_done: "lc_market w = lc_market w' \<Longrightarrow> fst (handleOrder od w) = fst (handleOrder od w')"
  by (auto simp: handleOrder_def handleLimitOrder_def handleStopOrder_def handleStopLimitOrder_def handleTakeProfitOrder_def
    handleTakeProfitLimitOrder_def Let_def split_beta)

lemma update_orders_idle: "\<forall>od \<in> snd ` set ods. \<not> fst (handleOrder od w) \<Longrightarrow> update_orders ods w = ([], [], w)"
  by (induction ods) (auto simp: handleOrder_idle)

lemma lc_update_idle:
  assumes "\<forall>od \<in> snd ` set (lc_orders w). \<not> fst (handleOrder od w)"
  shows "\<exists>a. lc_update dl w = ([], w\<lparr>lc_account := a\<rparr>)"
  using update_orders_idle [OF assms] by (auto simp: lc_update_def Let_def)

text \<open>What a trade with a stop-loss on the exchange keeps while it is watched.\<close>

lemma watch_step_kept:
  assumes "idle_orders (snd now) w" and "pt_isActive t" and "\<not> target_reached (tr_direction t) (tr_takeProfitPrice t) (snd now)"
    and "pt_positionStopPrice t \<noteq> 0" and "\<And>w. hook t w = (t, w)"
  shows "\<exists>w'. watch_step True dl u hook now (t, w) = Some (t, w') \<and> lc_positions w' = lc_positions w \<and> lc_orders w' = lc_orders w"
proof -
  define v where "v = w\<lparr>lc_now := fst now, lc_market := snd now\<rparr>"
  have "\<forall>od \<in> snd ` set (lc_orders v). \<not> fst (handleOrder od v)"
    using assms(1) handleOrder_done [of "w\<lparr>lc_market := snd now\<rparr>" v] by (simp add: idle_orders_def v_def)
  then obtain a where "lc_update dl v = ([], v\<lparr>lc_account := a\<rparr>)" using lc_update_idle by blast
  moreover have "pt_process (local_proxy u) hook t (v\<lparr>lc_account := a\<rparr>) = (t, v\<lparr>lc_account := a\<rparr>)"
    using assms(2-5) by (auto simp: pt_process_def local_proxy_def target_reached_def v_def)
  ultimately show ?thesis by (simp add: watch_step_def lc_enter_def v_def pt_deliver_def)
qed

lemma watch_kept:
  assumes "\<forall>now \<in> set nows. idle_orders (snd now) w \<and> \<not> target_reached (tr_direction t) (tr_takeProfitPrice t) (snd now)"
    and "pt_isActive t" and "pt_positionStopPrice t \<noteq> 0" and "\<And>w. hook t w = (t, w)"
  shows "\<exists>w'. watch True dl u hook nows (t, w) = Some (t, w') \<and> lc_positions w' = lc_positions w"
  using assms(1)
proof (induction nows arbitrary: w)
  case (Cons now nows)
  then obtain w' where w': "watch_step True dl u hook now (t, w) = Some (t, w')" "lc_positions w' = lc_positions w" "lc_orders w' = lc_orders w"
    using watch_step_kept [of now w t hook dl u] assms(2-4) by auto
  have "idle_orders m w' \<longleftrightarrow> idle_orders m w" for m
    using handleOrder_done [of "w'\<lparr>lc_market := m\<rparr>" "w\<lparr>lc_market := m\<rparr>"] w'(3) by (simp add: idle_orders_def)
  with Cons.IH [of w'] Cons.prems w' show ?case by auto
qed simp

text \<open>
  C5: Moving the stop-loss of a trade to the exchange takes the mutex of the connector for good. With a mutex that does not let
  the call in again, the next update of the connector does not return, nor does any other of its operations. With one that does, the
  stop-loss is lost: along any times and prices of the market that reach no take-profit and trigger no waiting order, and as long
  as the strategy's own hook leaves the trade alone, the trade stays open and its position unchanged, however far the stop is crossed.
\<close>

theorem distant_stop_ignored:
  assumes "pos_ready w" and "pos_fresh t" and "0 < q" and "0 < openExecPrice (lc_market w) d" and "0 < stop"
    and "pt_open (local_proxy u) d ORDER_MARKET price q tp sl t w = (t1, w1)"
    and "pt_modifyStopLoss (local_proxy u) stop MOD_DISTANT t1 w1 = (t2, w2)"
    and "\<And>w. hook t2 w = (t2, w)"
    and "\<forall>now \<in> set nows. idle_orders (snd now) w \<and> \<not> target_reached d tp (snd now)"
  shows "tr_stopLossPrice t2 = stop \<and> pt_isActive t2 \<and> lc_enter False f w2 = None
    \<and> (nows \<noteq> [] \<longrightarrow> watch False dl u hook nows (t2, w2) = None)
    \<and> (\<exists>w3. watch True dl u hook nows (t2, w2) = Some (t2, w3) \<and> lc_positions w3 = lc_positions w2)"
proof -
  obtain i where o: "isValid i" "holds d q (openExecPrice (lc_market w) d) i t1" "pos_ready w1" "connector_holds d q i w1"
    "lc_orders w1 = lc_orders w" "tr_takeProfitPrice t1 = tp"
    by (rule open_holds [OF assms(1-4,6)])
  obtain w2' where m: "lc_modifyPosition i stop 0 w1 = (RET_OK, [], w2')" "lc_orders w2' = lc_orders w1" "lc_locked w2'"
    using o(3,4) assms(5) by (auto simp: lc_modifyPosition_def connector_holds_def pos_ready_def Let_def setPosition_def findPosition_def)
  have "t2 = ((on_stats (\<lambda>s. s\<lparr>ts_stopOrderType := ORDER_STOP\<rparr>) t1)\<lparr>pt_positionStopPrice := stop\<rparr>)\<lparr>tr_stopLossPrice := stop\<rparr>"
    and w2: "w2 = w2'"
    using assms(5,7) o(1,2) m(1) by (simp_all add: pt_modifyStopLoss_def holds_def pt_modify_def local_proxy_def Let_def split: if_splits)
  then have t2: "tr_stopLossPrice t2 = stop" "pt_isActive t2" "pt_positionStopPrice t2 = stop" "tr_takeProfitPrice t2 = tp" "tr_direction t2 = d"
    using o(2,6) by (simp_all add: holds_def pt_isActive_def)
  have "idle_orders k w2 \<longleftrightarrow> idle_orders k w" for k
    using handleOrder_done [of "w2\<lparr>lc_market := k\<rparr>" "w\<lparr>lc_market := k\<rparr>"] w2 m(2) o(5) by (simp add: idle_orders_def)
  then have "\<exists>w3. watch True dl u hook nows (t2, w2) = Some (t2, w3) \<and> lc_positions w3 = lc_positions w2"
    using assms(5,8,9) t2 by (intro watch_kept) auto
  moreover have "nows \<noteq> [] \<Longrightarrow> watch False dl u hook nows (t2, w2) = None"
    using w2 m(3) by (cases nows) (simp_all add: watch_step_def lc_enter_def)
  ultimately show ?thesis using t2 w2 m(3) by (simp add: lc_enter_def)
qed

text \<open>A trade bought at 100 with the stop-loss 90 and the take-profit 150 outlives a fall to 10 with a sell limit order waiting at 120.\<close>

definition waiting_lc :: lc where
  "waiting_lc = snd (snd (lc_createOrder ((sample_order SHORT 1)\<lparr>or_orderType := ORDER_LIMIT, or_orderPrice := 120\<rparr>) sample_pos_lc))"

definition falling :: "(dbl \<times> market) list" where
  "falling = map (\<lambda>p. (p, setPrice p (p + 1) p (lc_market sample_pos_lc))) [95, 89, 50, 10]"

theorem distant_stop_ignored_witness:
  "let (t1, w1) = pt_open (local_proxy (-1000)) LONG ORDER_MARKET 0 2 150 0 (pt_init 60 new_position_trade) waiting_lc;
       (t2, w2) = pt_modifyStopLoss (local_proxy (-1000)) 90 MOD_DISTANT t1 w1
   in watch False no_dates (-1000) (\<lambda>t w. (t, w)) falling (t2, w2) = None
     \<and> (\<exists>w3. watch True no_dates (-1000) (\<lambda>t w. (t, w)) falling (t2, w2) = Some (t2, w3)) \<and> pt_isActive t2"
proof -
  obtain t1 w1 where o: "pt_open (local_proxy (-1000)) LONG ORDER_MARKET 0 2 150 0 (pt_init 60 new_position_trade) waiting_lc = (t1, w1)"
    by fastforce
  obtain t2 w2 where c: "pt_modifyStopLoss (local_proxy (-1000)) 90 MOD_DISTANT t1 w1 = (t2, w2)" by fastforce
  have r: "pos_ready waiting_lc" using sample_pos_ready
    by (simp add: waiting_lc_def lc_createOrder_def sample_order_def fresh_uuid_def Let_def pos_ready_def)
  have p: "openExecPrice (lc_market waiting_lc) LONG = 100" by code_simp
  have n: "\<forall>now \<in> set falling. idle_orders (snd now) waiting_lc \<and> \<not> target_reached LONG 150 (snd now)" "falling \<noteq> []"
    by code_simp+
  from distant_stop_ignored [OF r pos_fresh_init _ _ _ o c _ n(1), of "\<lambda>t w. (t, w)" id no_dates] n(2) p
  show ?thesis by (auto simp: o c)
qed

end
