(* ===== verification/Any_Trade.thy ===== *)
theory Any_Trade
  imports Margin_Trade Ind_Margin_Trade Position_Trade
begin

text \<open>
  \<^verbatim>\<open>strategies/src/trade/assettrade.cpp\<close>, whose operations are not implemented, and the virtual functions of
  \<^verbatim>\<open>trade.h\<close>: a trade of any kind, with a case for the override of each kind.
\<close>

section \<open>Asset trades\<close>

record asset_trade = trade +
  at_buyState :: trade_state
  at_stopState :: trade_state
  at_limitState :: trade_state

definition new_asset_trade :: asset_trade where
  "new_asset_trade = trade.extend (new_trade TYPE_ASSET (-1))
     \<lparr>at_buyState = STATE_UNDEFINED, at_stopState = STATE_UNDEFINED, at_limitState = STATE_UNDEFINED\<rparr>"

definition at_init :: "dbl \<Rightarrow> asset_trade \<Rightarrow> asset_trade" where
  "at_init timeframe t = init_trade timeframe t"

definition at_open :: "int \<Rightarrow> order_type \<Rightarrow> dbl \<Rightarrow> dbl \<Rightarrow> dbl \<Rightarrow> dbl \<Rightarrow> asset_trade \<Rightarrow> asset_trade" where
  "at_open direction orderType orderPrice quantity takeProfitPrice stopLossPrice t =
     t\<lparr>tr_direction := direction, tr_orderQuantity := quantity, tr_takeProfitPrice := takeProfitPrice,
       tr_stopLossPrice := stopLossPrice\<rparr>"

definition at_close :: "exit_reason \<Rightarrow> asset_trade \<Rightarrow> asset_trade" where
  "at_close reason t = t\<lparr>tr_filledExitQuantity := tr_orderQuantity t\<rparr>"

definition at_isCanceled :: "asset_trade \<Rightarrow> bool" where
  "at_isCanceled t =
     (if at_buyState t = STATE_REJECTED then True
      else if at_buyState t = STATE_CANCELED \<and> tr_filledEntryQuantity t \<le> 0 then True
      else if at_stopState t = STATE_CANCELED \<and> tr_filledExitQuantity t \<le> 0 then True
      else if at_limitState t = STATE_CANCELED \<and> tr_filledExitQuantity t \<le> 0 then True
      else False)"

definition at_isOpening :: "asset_trade \<Rightarrow> bool" where
  "at_isOpening t \<longleftrightarrow> at_buyState t = STATE_OPENED \<or> at_buyState t = STATE_PARTIALLY_FILLED"

definition at_stateToStr :: "asset_trade \<Rightarrow> string" where
  "at_stateToStr t =
     (if at_buyState t = STATE_NEW then ''new''
      else if at_buyState t = STATE_OPENED then ''opened''
      else if at_buyState t = STATE_REJECTED then ''rejected''
      else if at_buyState t = STATE_REJECTED \<and> tr_filledEntryQuantity t > tr_filledExitQuantity t then ''problem''
      else if tr_filledEntryQuantity t < tr_filledExitQuantity t
          \<and> (at_buyState t = STATE_PARTIALLY_FILLED \<or> at_buyState t = STATE_OPENED) then ''filling''
      else if tr_filledEntryQuantity t > 0 \<and> tr_filledExitQuantity t < tr_filledEntryQuantity t
          \<and> at_stopState t \<noteq> STATE_FILLED \<and> at_limitState t \<noteq> STATE_FILLED then ''closing''
      else if tr_filledEntryQuantity t > 0 \<and> tr_filledExitQuantity t \<ge> tr_filledEntryQuantity t then ''closed''
      else if tr_filledEntryQuantity t \<ge> tr_orderQuantity t then ''filled''
      else ''waiting'')"

section \<open>A trade of any kind\<close>

datatype any_trade = AssetTrade asset_trade | MarginTrade margin_trade | IndMarginTrade ind_trade | PositionTrade position_trade

text \<open>The part of the base class.\<close>

fun vt_base :: "any_trade \<Rightarrow> trade" where
  "vt_base (AssetTrade t) = trade.truncate t"
| "vt_base (MarginTrade t) = trade.truncate t"
| "vt_base (IndMarginTrade t) = trade.truncate t"
| "vt_base (PositionTrade t) = trade.truncate t"

fun vt_type :: "any_trade \<Rightarrow> trade_type" where
  "vt_type (AssetTrade t) = TYPE_ASSET"
| "vt_type (MarginTrade t) = TYPE_MARGIN"
| "vt_type (IndMarginTrade t) = TYPE_IND_MARGIN"
| "vt_type (PositionTrade t) = TYPE_POSITION"

fun vt_init :: "dbl \<Rightarrow> any_trade \<Rightarrow> any_trade" where
  "vt_init tf (AssetTrade t) = AssetTrade (at_init tf t)"
| "vt_init tf (MarginTrade t) = MarginTrade (mt_init tf t)"
| "vt_init tf (IndMarginTrade t) = IndMarginTrade (it_init tf t)"
| "vt_init tf (PositionTrade t) = PositionTrade (pt_init tf t)"

fun vt_setId :: "int \<Rightarrow> any_trade \<Rightarrow> any_trade" where
  "vt_setId i (AssetTrade t) = AssetTrade (t\<lparr>tr_id := i\<rparr>)"
| "vt_setId i (MarginTrade t) = MarginTrade (t\<lparr>tr_id := i\<rparr>)"
| "vt_setId i (IndMarginTrade t) = IndMarginTrade (t\<lparr>tr_id := i\<rparr>)"
| "vt_setId i (PositionTrade t) = PositionTrade (t\<lparr>tr_id := i\<rparr>)"

fun vt_isActive :: "any_trade \<Rightarrow> bool" where
  "vt_isActive (AssetTrade t) = False"
| "vt_isActive (MarginTrade t) = mt_isActive t"
| "vt_isActive (IndMarginTrade t) = it_isActive t"
| "vt_isActive (PositionTrade t) = pt_isActive t"

fun vt_isOpened :: "any_trade \<Rightarrow> bool" where
  "vt_isOpened (AssetTrade t) = False"
| "vt_isOpened (MarginTrade t) = mt_isOpened t"
| "vt_isOpened (IndMarginTrade t) = it_isOpened t"
| "vt_isOpened (PositionTrade t) = pt_isOpened t"

fun vt_isCanceled :: "any_trade \<Rightarrow> bool" where
  "vt_isCanceled (AssetTrade t) = at_isCanceled t"
| "vt_isCanceled (MarginTrade t) = mt_isCanceled t"
| "vt_isCanceled (IndMarginTrade t) = it_isCanceled t"
| "vt_isCanceled (PositionTrade t) = pt_isCanceled t"

fun vt_isOpening :: "any_trade \<Rightarrow> bool" where
  "vt_isOpening (AssetTrade t) = at_isOpening t"
| "vt_isOpening (MarginTrade t) = mt_isOpening t"
| "vt_isOpening (IndMarginTrade t) = it_isOpening t"
| "vt_isOpening (PositionTrade t) = pt_isOpening t"

fun vt_isClosing :: "any_trade \<Rightarrow> bool" where
  "vt_isClosing (AssetTrade t) = False"
| "vt_isClosing (MarginTrade t) = mt_isClosing t"
| "vt_isClosing (IndMarginTrade t) = it_isClosing t"
| "vt_isClosing (PositionTrade t) = pt_isClosing t"

fun vt_isClosed :: "any_trade \<Rightarrow> bool" where
  "vt_isClosed (AssetTrade t) = False"
| "vt_isClosed (MarginTrade t) = mt_isClosed t"
| "vt_isClosed (IndMarginTrade t) = it_isClosed t"
| "vt_isClosed (PositionTrade t) = pt_isClosed t"

section \<open>Signals\<close>

fun vt_isTargetOrder :: "any_trade \<Rightarrow> string \<Rightarrow> string \<Rightarrow> bool" where
  "vt_isTargetOrder (AssetTrade t) orderId refId = False"
| "vt_isTargetOrder (MarginTrade t) orderId refId = mt_isTargetOrder t orderId refId"
| "vt_isTargetOrder (IndMarginTrade t) orderId refId = it_isTargetOrder t orderId refId"
| "vt_isTargetOrder (PositionTrade t) orderId refId = pt_isTargetOrder t orderId refId"

fun vt_isTargetPosition :: "any_trade \<Rightarrow> string \<Rightarrow> string \<Rightarrow> bool" where
  "vt_isTargetPosition (AssetTrade t) positionId refId = False"
| "vt_isTargetPosition (MarginTrade t) positionId refId = mt_isTargetPosition t positionId refId"
| "vt_isTargetPosition (IndMarginTrade t) positionId refId = it_isTargetPosition t positionId refId"
| "vt_isTargetPosition (PositionTrade t) positionId refId = pt_isTargetPosition t positionId refId"

fun vt_orderSignal :: "market \<Rightarrow> dbl \<Rightarrow> order_signal \<Rightarrow> any_trade \<Rightarrow> any_trade" where
  "vt_orderSignal m u sg (AssetTrade t) = AssetTrade t"
| "vt_orderSignal m u sg (MarginTrade t) = MarginTrade (mt_orderSignal sg t)"
| "vt_orderSignal m u sg (IndMarginTrade t) = IndMarginTrade (it_orderSignal m u sg t)"
| "vt_orderSignal m u sg (PositionTrade t) = PositionTrade (pt_orderSignal sg t)"

fun vt_positionSignal :: "position_signal \<Rightarrow> any_trade \<Rightarrow> any_trade" where
  "vt_positionSignal ps (AssetTrade t) = AssetTrade t"
| "vt_positionSignal ps (MarginTrade t) = MarginTrade (mt_positionSignal ps t)"
| "vt_positionSignal ps (IndMarginTrade t) = IndMarginTrade (it_positionSignal ps t)"
| "vt_positionSignal ps (PositionTrade t) = PositionTrade (pt_positionSignal ps t)"

lemma at_canceled_or_active: "vt_isClosed t \<Longrightarrow> \<not> vt_isActive t" "vt_isCanceled t \<Longrightarrow> \<not> vt_isActive t"
  by (cases t; simp add: mt.closed_not_active it.closed_not_active pt.closed_not_active
    mt.canceled_not_active it.canceled_not_active pt.canceled_not_active)+

interpretation vt: trade_impl vt_isTargetOrder "vt_orderSignal m u" vt_isTargetPosition vt_positionSignal
  vt_isActive vt_isClosed vt_isCanceled for m u
proof
  show "vt_orderSignal m u s t = t" if "\<not> vt_isTargetOrder t (or_orderId s) (or_refId s)" for s t
    using that by (cases t) (simp_all add: mt.order_not_target it.order_not_target pt.order_not_target)
  show "vt_positionSignal p t = t" if "\<not> vt_isTargetPosition t (po_positionId p) (po_refOrderId p)" for p t
    using that by (cases t) (simp_all add: mt.position_not_target it.position_not_target pt.position_not_target)
qed (use at_canceled_or_active in auto)

section \<open>Operations\<close>

definition lift_op :: "('t \<Rightarrow> any_trade) \<Rightarrow> 't \<times> 'w \<Rightarrow> any_trade \<times> 'w" where
  "lift_op C = (\<lambda>(t, w). (C t, w))"

fun vt_open :: "'w proxy \<Rightarrow> int \<Rightarrow> order_type \<Rightarrow> dbl \<Rightarrow> dbl \<Rightarrow> dbl \<Rightarrow> dbl \<Rightarrow> any_trade \<Rightarrow> 'w \<Rightarrow> any_trade \<times> 'w" where
  "vt_open px d ty p q tp sl (AssetTrade t) w = (AssetTrade (at_open d ty p q tp sl t), w)"
| "vt_open px d ty p q tp sl (MarginTrade t) w = lift_op MarginTrade (mt_open px d ty p q tp sl t w)"
| "vt_open px d ty p q tp sl (IndMarginTrade t) w = lift_op IndMarginTrade (it_open px d ty p q tp sl t w)"
| "vt_open px d ty p q tp sl (PositionTrade t) w = lift_op PositionTrade (pt_open px d ty p q tp sl t w)"

fun vt_cancelOpen :: "'w proxy \<Rightarrow> any_trade \<Rightarrow> 'w \<Rightarrow> any_trade \<times> 'w" where
  "vt_cancelOpen px (AssetTrade t) w = (AssetTrade t, w)"
| "vt_cancelOpen px (MarginTrade t) w = lift_op MarginTrade (mt_cancelOpen px t w)"
| "vt_cancelOpen px (IndMarginTrade t) w = lift_op IndMarginTrade (it_cancelOpen px t w)"
| "vt_cancelOpen px (PositionTrade t) w = lift_op PositionTrade (pt_cancelOpen px t w)"

fun vt_close :: "'w proxy \<Rightarrow> exit_reason \<Rightarrow> any_trade \<Rightarrow> 'w \<Rightarrow> any_trade \<times> 'w" where
  "vt_close px reason (AssetTrade t) w = (AssetTrade (at_close reason t), w)"
| "vt_close px reason (MarginTrade t) w = lift_op MarginTrade (mt_close px reason t w)"
| "vt_close px reason (IndMarginTrade t) w = lift_op IndMarginTrade (it_close px reason t w)"
| "vt_close px reason (PositionTrade t) w = lift_op PositionTrade (pt_close px reason t w)"

fun vt_modifyTakeProfit :: "'w proxy \<Rightarrow> dbl \<Rightarrow> modifier_type \<Rightarrow> any_trade \<Rightarrow> 'w \<Rightarrow> any_trade \<times> 'w" where
  "vt_modifyTakeProfit px price md (AssetTrade t) w = (AssetTrade t, w)"
| "vt_modifyTakeProfit px price md (MarginTrade t) w = lift_op MarginTrade (mt_modifyTakeProfit px price md t w)"
| "vt_modifyTakeProfit px price md (IndMarginTrade t) w = lift_op IndMarginTrade (it_modifyTakeProfit px price md t w)"
| "vt_modifyTakeProfit px price md (PositionTrade t) w = lift_op PositionTrade (pt_modifyTakeProfit px price md t w)"

fun vt_modifyStopLoss :: "'w proxy \<Rightarrow> dbl \<Rightarrow> modifier_type \<Rightarrow> any_trade \<Rightarrow> 'w \<Rightarrow> any_trade \<times> 'w" where
  "vt_modifyStopLoss px price md (AssetTrade t) w = (AssetTrade t, w)"
| "vt_modifyStopLoss px price md (MarginTrade t) w = lift_op MarginTrade (mt_modifyStopLoss px price md t w)"
| "vt_modifyStopLoss px price md (IndMarginTrade t) w = lift_op IndMarginTrade (it_modifyStopLoss px price md t w)"
| "vt_modifyStopLoss px price md (PositionTrade t) w = lift_op PositionTrade (pt_modifyStopLoss px price md t w)"

text \<open>The callback \<^verbatim>\<open>updateTrade\<close> of the strategy, for the two kinds of trades that call it.\<close>

record 'w strategy_hooks =
  sh_updateInd :: "ind_trade \<Rightarrow> 'w \<Rightarrow> ind_trade \<times> 'w"
  sh_updatePosition :: "position_trade \<Rightarrow> 'w \<Rightarrow> position_trade \<times> 'w"

fun vt_process :: "'w proxy \<Rightarrow> 'w strategy_hooks \<Rightarrow> any_trade \<Rightarrow> 'w \<Rightarrow> any_trade \<times> 'w" where
  "vt_process px hk (AssetTrade t) w = (AssetTrade t, w)"
| "vt_process px hk (MarginTrade t) w = lift_op MarginTrade (mt_process px t w)"
| "vt_process px hk (IndMarginTrade t) w = lift_op IndMarginTrade (it_process px (sh_updateInd hk) t w)"
| "vt_process px hk (PositionTrade t) w = lift_op PositionTrade (pt_process px (sh_updatePosition hk) t w)"

text \<open>No override of \<^verbatim>\<open>updateStats\<close> adds anything to the base class.\<close>

fun vt_updateStats :: "dbl \<Rightarrow> dbl \<Rightarrow> any_trade \<Rightarrow> any_trade" where
  "vt_updateStats p ts (AssetTrade t) = AssetTrade (updateStats p ts t)"
| "vt_updateStats p ts (MarginTrade t) = MarginTrade (updateStats p ts t)"
| "vt_updateStats p ts (IndMarginTrade t) = IndMarginTrade (updateStats p ts t)"
| "vt_updateStats p ts (PositionTrade t) = PositionTrade (updateStats p ts t)"

definition vt_canDelete :: "any_trade \<Rightarrow> bool" where
  "vt_canDelete t = tr_canDelete (vt_isClosed t) (vt_isCanceled t)"

abbreviation vt_id :: "any_trade \<Rightarrow> int" where "vt_id t \<equiv> tr_id (vt_base t)"
abbreviation vt_direction :: "any_trade \<Rightarrow> int" where "vt_direction t \<equiv> tr_direction (vt_base t)"

end
