(* ===== verification/Trade_Pool.thy ===== *)
theory Trade_Pool
  imports Any_Trade
begin

text \<open>
  The trades of \<^verbatim>\<open>strategies/src/connector/traderproxy.cpp\<close>: the pools of free trades of each kind and the identifiers of new
  trades. An empty pool is filled with a hundred new trades before the last one is taken.
\<close>

record pool =
  pl_nextTradeId :: int
  pl_free :: "trade_type \<Rightarrow> any_trade list"

fun new_any_trade :: "trade_type \<Rightarrow> any_trade" where
  "new_any_trade TYPE_ASSET = AssetTrade new_asset_trade"
| "new_any_trade TYPE_MARGIN = MarginTrade new_margin_trade"
| "new_any_trade TYPE_IND_MARGIN = IndMarginTrade new_ind_trade"
| "new_any_trade TYPE_POSITION = PositionTrade new_position_trade"

definition TRADE_BUCKET :: nat where "TRADE_BUCKET = 100"

definition new_pool :: pool where
  "new_pool = \<lparr>pl_nextTradeId = 1, pl_free = (\<lambda>ty. replicate TRADE_BUCKET (new_any_trade ty))\<rparr>"

definition take_free :: "trade_type \<Rightarrow> pool \<Rightarrow> any_trade \<times> pool" where
  "take_free ty p =
     (let free = (if pl_free p ty = [] then replicate TRADE_BUCKET (new_any_trade ty) else pl_free p ty)
      in (last free, p\<lparr>pl_free := (pl_free p)(ty := butlast free)\<rparr>))"

definition can_create :: "market \<Rightarrow> trade_type \<Rightarrow> bool" where
  "can_create m ty =
     (case ty of
        TYPE_ASSET \<Rightarrow> hasSpot m
      | TYPE_MARGIN \<Rightarrow> hasMargin m
      | TYPE_IND_MARGIN \<Rightarrow> hasMargin m \<and> indivisiblePosition m
      | TYPE_POSITION \<Rightarrow> hasPosition m)"

definition createTrade :: "market option \<Rightarrow> trade_type \<Rightarrow> dbl \<Rightarrow> pool \<Rightarrow> any_trade option \<times> pool" where
  "createTrade market ty timeframe p =
     (case market of
        None \<Rightarrow> (None, p)
      | Some m \<Rightarrow>
          if can_create m ty then
            (let (t, p) = take_free ty p
             in (Some (vt_setId (pl_nextTradeId p) (vt_init timeframe t)), p\<lparr>pl_nextTradeId := pl_nextTradeId p + 1\<rparr>))
          else (None, p))"

definition freeTrade :: "any_trade \<Rightarrow> pool \<Rightarrow> pool" where
  "freeTrade t p =
     (let t = vt_init 0 t in p\<lparr>pl_free := (pl_free p)(vt_type t := pl_free p (vt_type t) @ [t])\<rparr>)"

section \<open>Properties\<close>

lemma vt_type_init [simp]: "vt_type (vt_init tf t) = vt_type t" "vt_type (vt_setId i t) = vt_type t"
  by (cases t; simp)+

lemma vt_type_new [simp]: "vt_type (new_any_trade ty) = ty"
  by (cases ty) simp_all

lemma vt_id_set [simp]: "vt_id (vt_setId i t) = i"
  by (cases t) (simp_all add: trade.defs)

text \<open>Every pool holds trades of its kind.\<close>

definition pool_ok :: "pool \<Rightarrow> bool" where
  "pool_ok p \<longleftrightarrow> (\<forall>ty. \<forall>t\<in>set (pl_free p ty). vt_type t = ty)"

lemma pool_ok_new: "pool_ok new_pool"
  by (simp add: pool_ok_def new_pool_def)

lemma take_free_ok:
  assumes "pool_ok p" and "take_free ty p = (t, p')"
  shows "pool_ok p'" "vt_type t = ty" "pl_nextTradeId p' = pl_nextTradeId p"
proof -
  define free where "free = (if pl_free p ty = [] then replicate TRADE_BUCKET (new_any_trade ty) else pl_free p ty)"
  have f: "free \<noteq> []" "\<forall>t\<in>set free. vt_type t = ty"
    using assms(1) by (auto simp: free_def TRADE_BUCKET_def pool_ok_def)
  have t: "t = last free" "p' = p\<lparr>pl_free := (pl_free p)(ty := butlast free)\<rparr>"
    using assms(2) by (auto simp: take_free_def Let_def free_def)
  then show "pool_ok p'" "vt_type t = ty" "pl_nextTradeId p' = pl_nextTradeId p"
    using assms(1) f by (auto simp: pool_ok_def dest: in_set_butlastD)
qed

lemma createTrade_ok:
  assumes "pool_ok p" and "createTrade mk ty tf p = (Some t, p')"
  shows "pool_ok p'" "vt_type t = ty" "vt_id t = pl_nextTradeId p" "pl_nextTradeId p' = pl_nextTradeId p + 1"
proof -
  obtain m t0 p0 where c: "take_free ty p = (t0, p0)" "t = vt_setId (pl_nextTradeId p0) (vt_init tf t0)"
    "p' = p0\<lparr>pl_nextTradeId := pl_nextTradeId p0 + 1\<rparr>"
    using assms(2) by (auto simp: createTrade_def split: option.splits if_splits prod.splits)
  note k = take_free_ok [OF assms(1) c(1)]
  show "pool_ok p'" "vt_type t = ty" "vt_id t = pl_nextTradeId p" "pl_nextTradeId p' = pl_nextTradeId p + 1"
    using k by (simp_all add: c(2,3) pool_ok_def)
qed

lemma freeTrade_ok: "pool_ok p \<Longrightarrow> pool_ok (freeTrade t p)"
  by (auto simp: freeTrade_def pool_ok_def Let_def)

text \<open>The part of a trade that \<^verbatim>\<open>init\<close> leaves as it is, besides its kind.\<close>

fun vt_operations :: "any_trade \<Rightarrow> int list" where
  "vt_operations (AssetTrade t) = tr_operations t"
| "vt_operations (MarginTrade t) = tr_operations t"
| "vt_operations (IndMarginTrade t) = tr_operations t"
| "vt_operations (PositionTrade t) = tr_operations t"

fun vt_set_operations :: "int list \<Rightarrow> any_trade \<Rightarrow> any_trade" where
  "vt_set_operations os (AssetTrade t) = AssetTrade (t\<lparr>tr_operations := os\<rparr>)"
| "vt_set_operations os (MarginTrade t) = MarginTrade (t\<lparr>tr_operations := os\<rparr>)"
| "vt_set_operations os (IndMarginTrade t) = IndMarginTrade (t\<lparr>tr_operations := os\<rparr>)"
| "vt_set_operations os (PositionTrade t) = PositionTrade (t\<lparr>tr_operations := os\<rparr>)"

definition vt_base_type_ok :: "any_trade \<Rightarrow> bool" where
  "vt_base_type_ok t \<longleftrightarrow> tr_type (vt_base t) = vt_type t"

text \<open>
  A trade taken from the pool is as a new one whatever it did before, except for the operations attached to it:
  \<^verbatim>\<open>init\<close> does not remove them, so that a recycled trade runs those of the trade before it.
\<close>

theorem recycle_fresh:
  assumes "vt_base_type_ok t" and "vt_type t \<noteq> TYPE_ASSET"
  shows "vt_init tf t = vt_set_operations (vt_operations t) (vt_init tf (new_any_trade (vt_type t)))"
proof (cases t)
  case (AssetTrade t')
  with assms(2) show ?thesis by simp
next
  case (MarginTrade t')
  with assms(1) show ?thesis
    by (cases t') (simp add: vt_base_type_ok_def mt_init_def init_trade_def new_margin_trade_def new_trade_def trade.defs reset_leg_def
      reset_stop_def reset_limit_def new_leg_def new_stop_leg_def new_limit_leg_def)
next
  case (IndMarginTrade t')
  with assms(1) show ?thesis
    by (cases t') (simp add: vt_base_type_ok_def it_init_def init_trade_def new_ind_trade_def new_trade_def trade.defs reset_leg_def
      reset_stop_def reset_limit_def new_leg_def new_stop_leg_def new_limit_leg_def)
next
  case (PositionTrade t')
  with assms(1) show ?thesis
    by (cases t') (simp add: vt_base_type_ok_def pt_init_def init_trade_def new_position_trade_def new_trade_def trade.defs)
qed

theorem recycle_fresh_witness:
  "vt_operations (vt_init 60 (PositionTrade (held_trade\<lparr>tr_operations := [7]\<rparr>))) = [7]"
proof -
  have h: "vt_base_type_ok (PositionTrade (held_trade\<lparr>tr_operations := [7]\<rparr>))"
    "vt_type (PositionTrade (held_trade\<lparr>tr_operations := [7]\<rparr>)) \<noteq> TYPE_ASSET"
    by (simp_all add: vt_base_type_ok_def held_trade_defs)
  show ?thesis by (subst recycle_fresh [OF h]) simp
qed

end
