(* ===== verification/Trade_Frames.thy ===== *)
theory Trade_Frames
  imports Any_Trade
begin

text \<open>
  What the operations of a trade leave as it is: its identifier, its entry timeout, and after \<^verbatim>\<open>open\<close> its direction.
\<close>

section \<open>Identifier, direction and entry timeout\<close>

abbreviation vt_entryTimeout :: "any_trade \<Rightarrow> dbl" where "vt_entryTimeout t \<equiv> tr_entryTimeout (vt_base t)"

lemma updateStats_key [simp]:
  "tr_id (updateStats p ts t) = tr_id t"
  "tr_direction (updateStats p ts t) = tr_direction t"
  "tr_entryTimeout (updateStats p ts t) = tr_entryTimeout t"
  by (simp_all add: updateStats_def Let_def)

subsubsection \<open>Margin\<close>

lemma mt_orderSignal_key [simp]:
  "tr_id (mt_orderSignal sg t) = tr_id t"
  "tr_direction (mt_orderSignal sg t) = tr_direction t"
  "tr_entryTimeout (mt_orderSignal sg t) = tr_entryTimeout t"
  by (simp_all add: mt_orderSignal_def mt_entrySignal_def mt_limitSignal_def mt_stopSignal_def mt_exitFill_def Let_def
    if_distrib [of tr_id] if_distrib [of tr_direction] if_distrib [of tr_entryTimeout] cong: if_cong split del: if_split split: order_event.splits)

lemma mt_positionSignal_key [simp]:
  "mt_positionSignal ps t = t"
  by (simp_all add: mt_positionSignal_def split: position_event.splits)

lemma mt_deliver_key [simp]:
  "tr_id (mt_deliver sigs t) = tr_id t"
  "tr_direction (mt_deliver sigs t) = tr_direction t"
  "tr_entryTimeout (mt_deliver sigs t) = tr_entryTimeout t"
  unfolding mt_deliver_def by (induction sigs arbitrary: t) (auto simp: deliver_one_def split: signal.splits)

lemma mt_create_key [simp]:
  "tr_id (fst (snd (mt_create px od t w))) = tr_id t"
  "tr_direction (fst (snd (mt_create px od t w))) = tr_direction t"
  "tr_entryTimeout (fst (snd (mt_create px od t w))) = tr_entryTimeout t"
  "tr_id (fst (snd (mt_cancel px i t w))) = tr_id t"
  "tr_direction (fst (snd (mt_cancel px i t w))) = tr_direction t"
  "tr_entryTimeout (fst (snd (mt_cancel px i t w))) = tr_entryTimeout t"
  by (simp_all add: mt_create_def mt_cancel_def split_beta Let_def)

lemma mt_cancel_leg_key [simp]:
  "tr_id (fst (mt_cancel_entry px tw)) = tr_id (fst tw)"
  "tr_direction (fst (mt_cancel_entry px tw)) = tr_direction (fst tw)"
  "tr_entryTimeout (fst (mt_cancel_entry px tw)) = tr_entryTimeout (fst tw)"
  "tr_id (fst (mt_cancel_stop px tw)) = tr_id (fst tw)"
  "tr_direction (fst (mt_cancel_stop px tw)) = tr_direction (fst tw)"
  "tr_entryTimeout (fst (mt_cancel_stop px tw)) = tr_entryTimeout (fst tw)"
  "tr_id (fst (mt_cancel_limit px tw)) = tr_id (fst tw)"
  "tr_direction (fst (mt_cancel_limit px tw)) = tr_direction (fst tw)"
  "tr_entryTimeout (fst (mt_cancel_limit px tw)) = tr_entryTimeout (fst tw)"
  by (simp_all add: mt_cancel_entry_def mt_cancel_stop_def mt_cancel_limit_def split_beta Let_def)

lemma mt_close_key [simp]:
  "tr_id (fst (mt_close px reason t w)) = tr_id t" "tr_direction (fst (mt_close px reason t w)) = tr_direction t"
  "tr_entryTimeout (fst (mt_close px reason t w)) = tr_entryTimeout t"
  by (simp_all add: mt_close_def split_beta Let_def)

lemma mt_ops_key [simp]:
  "tr_id (fst (mt_cancelOpen px t w)) = tr_id t" "tr_direction (fst (mt_cancelOpen px t w)) = tr_direction t"
  "tr_entryTimeout (fst (mt_cancelOpen px t w)) = tr_entryTimeout t"
  "tr_id (fst (mt_process px t w)) = tr_id t" "tr_direction (fst (mt_process px t w)) = tr_direction t"
  "tr_entryTimeout (fst (mt_process px t w)) = tr_entryTimeout t"
  by (simp_all add: mt_cancelOpen_def mt_process_def Let_def)

subsubsection \<open>Indivisible margin\<close>

lemma it_fees_key [simp]:
  "tr_id (it_entryFees m u sg f t) = tr_id t"
  "tr_direction (it_entryFees m u sg f t) = tr_direction t"
  "tr_entryTimeout (it_entryFees m u sg f t) = tr_entryTimeout t"
  "tr_id (snd (it_updateExitFees m u sg a b c t)) = tr_id t"
  "tr_direction (snd (it_updateExitFees m u sg a b c t)) = tr_direction t"
  "tr_entryTimeout (snd (it_updateExitFees m u sg a b c t)) = tr_entryTimeout t"
  "tr_id (snd (it_updateExitQty m sg q t)) = tr_id t"
  "tr_direction (snd (it_updateExitQty m sg q t)) = tr_direction t"
  "tr_entryTimeout (snd (it_updateExitQty m sg q t)) = tr_entryTimeout t"
  "tr_id (it_updateExitStats sg t) = tr_id t"
  "tr_direction (it_updateExitStats sg t) = tr_direction t"
  "tr_entryTimeout (it_updateExitStats sg t) = tr_entryTimeout t"
  by (simp_all add: it_entryFees_def it_updateExitFees_def it_updateExitQty_def it_updateExitStats_def Let_def
    if_distrib [of tr_id] if_distrib [of tr_direction] if_distrib [of tr_entryTimeout] cong: if_cong split del: if_split)

lemma it_fill_key [simp]:
  "tr_id (it_limitFill m u sg t) = tr_id t"
  "tr_direction (it_limitFill m u sg t) = tr_direction t"
  "tr_entryTimeout (it_limitFill m u sg t) = tr_entryTimeout t"
  "tr_id (it_stopFill m u sg t) = tr_id t"
  "tr_direction (it_stopFill m u sg t) = tr_direction t"
  "tr_entryTimeout (it_stopFill m u sg t) = tr_entryTimeout t"
  by (simp_all add: it_limitFill_def it_stopFill_def Let_def split_beta if_distrib [of tr_id] if_distrib [of tr_direction] if_distrib [of tr_entryTimeout] cong: if_cong split del: if_split)

lemma it_traded_key [simp]:
  "tr_id (it_entryTraded m u sg t) = tr_id t"
  "tr_direction (it_entryTraded m u sg t) = tr_direction t"
  "tr_entryTimeout (it_entryTraded m u sg t) = tr_entryTimeout t"
  "tr_id (it_limitTraded m u sg t) = tr_id t"
  "tr_direction (it_limitTraded m u sg t) = tr_direction t"
  "tr_entryTimeout (it_limitTraded m u sg t) = tr_entryTimeout t"
  "tr_id (it_stopTraded m u sg t) = tr_id t"
  "tr_direction (it_stopTraded m u sg t) = tr_direction t"
  "tr_entryTimeout (it_stopTraded m u sg t) = tr_entryTimeout t"
  by (simp_all add: it_entryTraded_def it_limitTraded_def it_stopTraded_def Let_def
    if_distrib [of tr_id] if_distrib [of tr_direction] if_distrib [of tr_entryTimeout] cong: if_cong split del: if_split)

lemma it_orderSignal_key [simp]:
  "tr_id (it_orderSignal m u sg t) = tr_id t"
  "tr_direction (it_orderSignal m u sg t) = tr_direction t"
  "tr_entryTimeout (it_orderSignal m u sg t) = tr_entryTimeout t"
  by (simp_all add: it_orderSignal_def it_entrySignal_def it_limitSignal_def it_stopSignal_def Let_def split: order_event.splits)

lemma it_deliver_key [simp]:
  "tr_id (it_deliver m u sigs t) = tr_id t"
  "tr_direction (it_deliver m u sigs t) = tr_direction t"
  "tr_entryTimeout (it_deliver m u sigs t) = tr_entryTimeout t"
  unfolding it_deliver_def by (induction sigs arbitrary: t) (auto simp: deliver_one_def split: signal.splits)

lemma it_create_key [simp]:
  "tr_id (fst (snd (it_create px od t w))) = tr_id t"
  "tr_direction (fst (snd (it_create px od t w))) = tr_direction t"
  "tr_entryTimeout (fst (snd (it_create px od t w))) = tr_entryTimeout t"
  "tr_id (fst (snd (it_cancel px i t w))) = tr_id t"
  "tr_direction (fst (snd (it_cancel px i t w))) = tr_direction t"
  "tr_entryTimeout (fst (snd (it_cancel px i t w))) = tr_entryTimeout t"
  by (simp_all add: it_create_def it_cancel_def split_beta Let_def)

lemma it_cancel_leg_key [simp]:
  "tr_id (fst (it_cancel_entry px tw)) = tr_id (fst tw)"
  "tr_direction (fst (it_cancel_entry px tw)) = tr_direction (fst tw)"
  "tr_entryTimeout (fst (it_cancel_entry px tw)) = tr_entryTimeout (fst tw)"
  "tr_id (fst (it_cancel_stop px tw)) = tr_id (fst tw)"
  "tr_direction (fst (it_cancel_stop px tw)) = tr_direction (fst tw)"
  "tr_entryTimeout (fst (it_cancel_stop px tw)) = tr_entryTimeout (fst tw)"
  "tr_id (fst (it_cancel_limit px tw)) = tr_id (fst tw)"
  "tr_direction (fst (it_cancel_limit px tw)) = tr_direction (fst tw)"
  "tr_entryTimeout (fst (it_cancel_limit px tw)) = tr_entryTimeout (fst tw)"
  by (simp_all add: it_cancel_entry_def it_cancel_stop_def it_cancel_limit_def split_beta Let_def)

text \<open>What the callbacks of the strategy keep.\<close>

definition hooks_ok :: "'w strategy_hooks \<Rightarrow> bool" where
  "hooks_ok hk \<longleftrightarrow> (\<forall>t w. tr_id (fst (sh_updateInd hk t w)) = tr_id t) \<and> (\<forall>t w. tr_id (fst (sh_updatePosition hk t w)) = tr_id t)
     \<and> (\<forall>t w. tr_direction (fst (sh_updateInd hk t w)) = tr_direction t)
     \<and> (\<forall>t w. tr_direction (fst (sh_updatePosition hk t w)) = tr_direction t)
     \<and> (\<forall>t w. tr_entryTimeout (fst (sh_updateInd hk t w)) = tr_entryTimeout t)
     \<and> (\<forall>t w. tr_entryTimeout (fst (sh_updatePosition hk t w)) = tr_entryTimeout t)"

lemma it_close_key [simp]:
  "tr_id (fst (it_close px reason t w)) = tr_id t" "tr_direction (fst (it_close px reason t w)) = tr_direction t"
  "tr_entryTimeout (fst (it_close px reason t w)) = tr_entryTimeout t"
  by (simp_all add: it_close_def split_beta Let_def)

lemma it_ops_key [simp]:
  "tr_id (fst (it_cancelOpen px t w)) = tr_id t" "tr_direction (fst (it_cancelOpen px t w)) = tr_direction t"
  "tr_entryTimeout (fst (it_cancelOpen px t w)) = tr_entryTimeout t"
  "hooks_ok hk \<Longrightarrow> tr_id (fst (it_process px (sh_updateInd hk) t w)) = tr_id t" "hooks_ok hk \<Longrightarrow> tr_direction (fst (it_process px (sh_updateInd hk) t w)) = tr_direction t"
  "hooks_ok hk \<Longrightarrow> tr_entryTimeout (fst (it_process px (sh_updateInd hk) t w)) = tr_entryTimeout t"
  by (simp_all add: it_cancelOpen_def it_process_def Let_def hooks_ok_def split_beta)

subsubsection \<open>Position\<close>

lemma pt_steps_key [simp]:
  "tr_id (pt_updateRealizedPnl t) = tr_id t"
  "tr_direction (pt_updateRealizedPnl t) = tr_direction t"
  "tr_entryTimeout (pt_updateRealizedPnl t) = tr_entryTimeout t"
  "tr_id (pt_amend sg t) = tr_id t"
  "tr_direction (pt_amend sg t) = tr_direction t"
  "tr_entryTimeout (pt_amend sg t) = tr_entryTimeout t"
  "tr_id (pt_entryDone t) = tr_id t"
  "tr_direction (pt_entryDone t) = tr_direction t"
  "tr_entryTimeout (pt_entryDone t) = tr_entryTimeout t"
  "tr_id (pt_exitStamp sg t) = tr_id t"
  "tr_direction (pt_exitStamp sg t) = tr_direction t"
  "tr_entryTimeout (pt_exitStamp sg t) = tr_entryTimeout t"
  by (simp_all add: pt_updateRealizedPnl_def pt_amend_def pt_entryDone_def pt_exitStamp_def Let_def)

lemma pt_change_key [simp]:
  "tr_id (pt_decrease sg q t) = tr_id t"
  "tr_direction (pt_decrease sg q t) = tr_direction t"
  "tr_entryTimeout (pt_decrease sg q t) = tr_entryTimeout t"
  "tr_id (pt_increase sg q t) = tr_id t"
  "tr_direction (pt_increase sg q t) = tr_direction t"
  "tr_entryTimeout (pt_increase sg q t) = tr_entryTimeout t"
  by (simp_all add: pt_decrease_def pt_increase_def Let_def if_distrib [of tr_id] if_distrib [of tr_direction] if_distrib [of tr_entryTimeout] cong: if_cong split del: if_split)

lemma pt_events_key [simp]:
  "tr_id (pt_opened sg t) = tr_id t"
  "tr_direction (pt_opened sg t) = tr_direction t"
  "tr_entryTimeout (pt_opened sg t) = tr_entryTimeout t"
  "tr_id (pt_updated sg t) = tr_id t"
  "tr_direction (pt_updated sg t) = tr_direction t"
  "tr_entryTimeout (pt_updated sg t) = tr_entryTimeout t"
  "tr_id (pt_deleted sg t) = tr_id t"
  "tr_direction (pt_deleted sg t) = tr_direction t"
  "tr_entryTimeout (pt_deleted sg t) = tr_entryTimeout t"
  by (simp_all add: pt_opened_def pt_updated_def pt_deleted_def Let_def if_distrib [of tr_id] if_distrib [of tr_direction] if_distrib [of tr_entryTimeout] cong: if_cong split del: if_split)

lemma pt_signal_key [simp]:
  "tr_id (pt_positionSignal ps t) = tr_id t"
  "tr_direction (pt_positionSignal ps t) = tr_direction t"
  "tr_entryTimeout (pt_positionSignal ps t) = tr_entryTimeout t"
  "tr_id (pt_orderSignal sg t) = tr_id t"
  "tr_direction (pt_orderSignal sg t) = tr_direction t"
  "tr_entryTimeout (pt_orderSignal sg t) = tr_entryTimeout t"
  by (simp_all add: pt_positionSignal_def pt_orderSignal_def Let_def if_distrib [of tr_id] if_distrib [of tr_direction] if_distrib [of tr_entryTimeout] cong: if_cong
    split: position_event.splits order_event.splits split del: if_split)

lemma pt_deliver_key [simp]:
  "tr_id (pt_deliver sigs t) = tr_id t"
  "tr_direction (pt_deliver sigs t) = tr_direction t"
  "tr_entryTimeout (pt_deliver sigs t) = tr_entryTimeout t"
  unfolding pt_deliver_def by (induction sigs arbitrary: t) (auto simp: deliver_one_def split: signal.splits)

lemma pt_cancel_key [simp]:
  "tr_id (fst (snd (pt_cancel px i t w))) = tr_id t"
  "tr_direction (fst (snd (pt_cancel px i t w))) = tr_direction t"
  "tr_entryTimeout (fst (snd (pt_cancel px i t w))) = tr_entryTimeout t"
  by (simp_all add: pt_cancel_def split_beta Let_def)

lemma pt_close_key [simp]:
  "tr_id (fst (pt_close px reason t w)) = tr_id t" "tr_direction (fst (pt_close px reason t w)) = tr_direction t"
  "tr_entryTimeout (fst (pt_close px reason t w)) = tr_entryTimeout t"
  by (simp_all add: pt_close_def split_beta Let_def)

lemma pt_ops_key [simp]:
  "tr_id (fst (pt_cancelOpen px t w)) = tr_id t" "tr_direction (fst (pt_cancelOpen px t w)) = tr_direction t"
  "tr_entryTimeout (fst (pt_cancelOpen px t w)) = tr_entryTimeout t"
  "hooks_ok hk \<Longrightarrow> tr_id (fst (pt_process px (sh_updatePosition hk) t w)) = tr_id t" "hooks_ok hk \<Longrightarrow> tr_direction (fst (pt_process px (sh_updatePosition hk) t w)) = tr_direction t"
  "hooks_ok hk \<Longrightarrow> tr_entryTimeout (fst (pt_process px (sh_updatePosition hk) t w)) = tr_entryTimeout t"
  by (simp_all add: pt_cancelOpen_def pt_process_def Let_def split_beta hooks_ok_def split_beta)

subsubsection \<open>Any trade\<close>

lemma vt_id_base:
  "vt_id (AssetTrade t1) = tr_id t1" "vt_id (MarginTrade t2) = tr_id t2" "vt_id (IndMarginTrade t3) = tr_id t3"
  "vt_id (PositionTrade t4) = tr_id t4"
  by (simp_all add: trade.defs)

lemma vt_dir_base:
  "vt_direction (AssetTrade t1) = tr_direction t1" "vt_direction (MarginTrade t2) = tr_direction t2" "vt_direction (IndMarginTrade t3) = tr_direction t3"
  "vt_entryTimeout (AssetTrade t1) = tr_entryTimeout t1" "vt_entryTimeout (MarginTrade t2) = tr_entryTimeout t2" "vt_entryTimeout (IndMarginTrade t3) = tr_entryTimeout t3"
  "vt_direction (PositionTrade t4) = tr_direction t4"
  "vt_entryTimeout (PositionTrade t4) = tr_entryTimeout t4"
  by (simp_all add: trade.defs)

lemma vt_timeout_base:
  "vt_entryTimeout (AssetTrade t1) = tr_entryTimeout t1" "vt_entryTimeout (MarginTrade t2) = tr_entryTimeout t2"
  "vt_entryTimeout (IndMarginTrade t3) = tr_entryTimeout t3" "vt_entryTimeout (PositionTrade t4) = tr_entryTimeout t4"
  by (simp_all add: trade.defs)

lemma vt_ops_id [simp]:
  "vt_id (vt_updateStats p ts t) = vt_id t"
  "vt_id (vt_orderSignal m u sg t) = vt_id t"
  "vt_id (vt_positionSignal ps t) = vt_id t"
  "vt_id (fst (vt_cancelOpen px t w)) = vt_id t"
  "vt_id (fst (vt_close px reason t w)) = vt_id t"
  "hooks_ok hk \<Longrightarrow> vt_id (fst (vt_process px hk t w)) = vt_id t"
  by (cases t; simp del: vt_base.simps add: vt_id_base lift_op_def split_beta at_close_def)+

lemma vt_ops_dir [simp]:
  "vt_direction (vt_updateStats p ts t) = vt_direction t"
  "vt_direction (vt_orderSignal m u sg t) = vt_direction t"
  "vt_direction (vt_positionSignal ps t) = vt_direction t"
  "vt_direction (fst (vt_cancelOpen px t w)) = vt_direction t"
  "vt_direction (fst (vt_close px reason t w)) = vt_direction t"
  "hooks_ok hk \<Longrightarrow> vt_direction (fst (vt_process px hk t w)) = vt_direction t"
  by (cases t; simp del: vt_base.simps add: vt_dir_base lift_op_def split_beta at_close_def)+

lemma vt_ops_timeout [simp]:
  "vt_entryTimeout (vt_updateStats p ts t) = vt_entryTimeout t"
  "vt_entryTimeout (vt_orderSignal m u sg t) = vt_entryTimeout t"
  "vt_entryTimeout (vt_positionSignal ps t) = vt_entryTimeout t"
  "vt_entryTimeout (fst (vt_cancelOpen px t w)) = vt_entryTimeout t"
  "vt_entryTimeout (fst (vt_close px reason t w)) = vt_entryTimeout t"
  "hooks_ok hk \<Longrightarrow> vt_entryTimeout (fst (vt_process px hk t w)) = vt_entryTimeout t"
  by (cases t; simp del: vt_base.simps add: vt_timeout_base lift_op_def split_beta at_close_def)+

lemma mt_open_key [simp]:
  "tr_id (fst (mt_open px d ty p q tp sl t w)) = tr_id t"
  "tr_direction (fst (mt_open px d ty p q tp sl t w)) = d"
  "tr_entryTimeout (fst (mt_open px d ty p q tp sl t w)) = tr_entryTimeout t"
  "tr_id (fst (mt_modifyTakeProfit px p md t w)) = tr_id t"
  "tr_direction (fst (mt_modifyTakeProfit px p md t w)) = tr_direction t"
  "tr_entryTimeout (fst (mt_modifyTakeProfit px p md t w)) = tr_entryTimeout t"
  "tr_id (fst (mt_modifyStopLoss px p md t w)) = tr_id t"
  "tr_direction (fst (mt_modifyStopLoss px p md t w)) = tr_direction t"
  "tr_entryTimeout (fst (mt_modifyStopLoss px p md t w)) = tr_entryTimeout t"
  by (simp_all add: mt_open_def mt_modifyTakeProfit_def mt_modifyStopLoss_def split_beta Let_def)

lemma it_open_key [simp]:
  "tr_id (fst (it_open px d ty p q tp sl t w)) = tr_id t"
  "tr_direction (fst (it_open px d ty p q tp sl t w)) = d"
  "tr_entryTimeout (fst (it_open px d ty p q tp sl t w)) = tr_entryTimeout t"
  "tr_id (fst (it_modifyTakeProfit px p md t w)) = tr_id t"
  "tr_direction (fst (it_modifyTakeProfit px p md t w)) = tr_direction t"
  "tr_entryTimeout (fst (it_modifyTakeProfit px p md t w)) = tr_entryTimeout t"
  "tr_id (fst (it_modifyStopLoss px p md t w)) = tr_id t"
  "tr_direction (fst (it_modifyStopLoss px p md t w)) = tr_direction t"
  "tr_entryTimeout (fst (it_modifyStopLoss px p md t w)) = tr_entryTimeout t"
  by (simp_all add: it_open_def it_modifyTakeProfit_def it_modifyStopLoss_def split_beta Let_def)

lemma pt_send_key [simp]:
  "tr_id (fst (snd (pt_create px od t w))) = tr_id t"
  "tr_direction (fst (snd (pt_create px od t w))) = tr_direction t"
  "tr_entryTimeout (fst (snd (pt_create px od t w))) = tr_entryTimeout t"
  "tr_id (fst (snd (pt_modify px a b t w))) = tr_id t"
  "tr_direction (fst (snd (pt_modify px a b t w))) = tr_direction t"
  "tr_entryTimeout (fst (snd (pt_modify px a b t w))) = tr_entryTimeout t"
  by (simp_all add: pt_create_def pt_modify_def split_beta Let_def)

lemma pt_open_key [simp]:
  "tr_id (fst (pt_open px d ty p q tp sl t w)) = tr_id t"
  "tr_direction (fst (pt_open px d ty p q tp sl t w)) = d"
  "tr_entryTimeout (fst (pt_open px d ty p q tp sl t w)) = tr_entryTimeout t"
  "tr_id (fst (pt_modifyTakeProfit px p md t w)) = tr_id t"
  "tr_direction (fst (pt_modifyTakeProfit px p md t w)) = tr_direction t"
  "tr_entryTimeout (fst (pt_modifyTakeProfit px p md t w)) = tr_entryTimeout t"
  "tr_id (fst (pt_modifyStopLoss px p md t w)) = tr_id t"
  "tr_direction (fst (pt_modifyStopLoss px p md t w)) = tr_direction t"
  "tr_entryTimeout (fst (pt_modifyStopLoss px p md t w)) = tr_entryTimeout t"
  by (simp_all add: pt_open_def pt_modifyTakeProfit_def pt_modifyStopLoss_def split_beta Let_def)

lemma vt_open_id [simp]:
  "vt_id (fst (vt_open px d ty p q tp sl t w)) = vt_id t"
  "vt_id (fst (vt_modifyTakeProfit px p md t w)) = vt_id t"
  "vt_id (fst (vt_modifyStopLoss px p md t w)) = vt_id t"
  by (cases t; simp del: vt_base.simps add: vt_id_base lift_op_def split_beta at_open_def)+

lemma vt_open_dir [simp]:
  "vt_direction (fst (vt_open px d ty p q tp sl t w)) = d"
  "vt_direction (fst (vt_modifyTakeProfit px p md t w)) = vt_direction t"
  "vt_direction (fst (vt_modifyStopLoss px p md t w)) = vt_direction t"
  by (cases t; simp del: vt_base.simps add: vt_dir_base lift_op_def split_beta at_open_def)+

lemma vt_open_timeout [simp]:
  "vt_entryTimeout (fst (vt_open px d ty p q tp sl t w)) = vt_entryTimeout t"
  "vt_entryTimeout (fst (vt_modifyTakeProfit px p md t w)) = vt_entryTimeout t"
  "vt_entryTimeout (fst (vt_modifyStopLoss px p md t w)) = vt_entryTimeout t"
  by (cases t; simp del: vt_base.simps add: vt_timeout_base lift_op_def split_beta at_open_def)+

end
