(* ===== verification/Trade_Statistics.thy ===== *)
theory Trade_Statistics
  imports Any_Trade Local_State
begin

text \<open>
  \<^verbatim>\<open>strategies/include/siis/statistics/statistics.h\<close> and \<^verbatim>\<open>strategies/src/statistics/statistics.cpp\<close>: the statistics of a
  strategy, those of all strategies and the samplers. The square root of O3D is an argument.
\<close>

section \<open>Samplers\<close>

record sampler =
  sp_name :: string
  sp_samples :: "dbl list"
  sp_minValue :: dbl
  sp_maxValue :: dbl
  sp_cumulated :: dbl
  sp_avg :: dbl
  sp_stdDev :: dbl

definition new_sampler :: "string \<Rightarrow> sampler" where
  "new_sampler name = \<lparr>sp_name = name, sp_samples = [], sp_minValue = 0, sp_maxValue = 0, sp_cumulated = 0, sp_avg = 0,
     sp_stdDev = 0\<rparr>"

definition average :: "dbl list \<Rightarrow> dbl" where
  "average samples =
     (let avg = foldl (+) 0 samples in if length samples > 0 then avg / of_nat (length samples) else avg)"

definition stdDeviation :: "(dbl \<Rightarrow> dbl) \<Rightarrow> dbl list \<Rightarrow> dbl" where
  "stdDeviation root2 samples =
     (if length samples < 2 then 0
      else
        let avg = average samples;
            sqrSum = foldl (\<lambda>s x. s + (x - avg) * (x - avg)) 0 samples
        in root2 (sqrSum / (of_nat (length samples) - 1)))"

text \<open>The sample is appended before the test for the first one, so that the bounds start from 0.\<close>

definition addSample :: "dbl \<Rightarrow> sampler \<Rightarrow> sampler" where
  "addSample value s =
     (let s = s\<lparr>sp_samples := sp_samples s @ [value], sp_cumulated := sp_cumulated s + value\<rparr>
      in if length (sp_samples s) > 0
         then s\<lparr>sp_maxValue := max (sp_maxValue s) value, sp_minValue := min (sp_minValue s) value\<rparr>
         else s\<lparr>sp_minValue := value, sp_maxValue := value\<rparr>)"

definition finalize_sampler :: "(dbl \<Rightarrow> dbl) \<Rightarrow> sampler \<Rightarrow> sampler" where
  "finalize_sampler root2 s = s\<lparr>sp_avg := average (sp_samples s), sp_stdDev := stdDeviation root2 (sp_samples s)\<rparr>"

section \<open>Statistics of a strategy and of all\<close>

record trade_results =
  rs_direction :: int
  rs_entryPrice :: dbl
  rs_exitPrice :: dbl
  rs_entryTimestamp :: dbl
  rs_exitTimestamp :: dbl
  rs_bestPrice :: dbl
  rs_worstPrice :: dbl
  rs_profitLossPct :: dbl
  rs_profitLoss :: dbl

text \<open>The fields that both kinds of statistics declare.\<close>

record base_stats =
  st_unrealizedPerformance :: dbl
  st_performance :: dbl
  st_maxAdjacentWin :: int
  st_maxAdjacentLoss :: int
  st_worst :: dbl
  st_best :: dbl
  st_maxDrawDownRate :: dbl
  st_maxDrawDown :: dbl
  st_succeedTrades :: int
  st_failedTrades :: int
  st_roeTrades :: int
  st_totalTrades :: int
  st_canceledTrades :: int
  st_openTrades :: int
  st_activeTrades :: int
  st_stopLossInLoss :: int
  st_takeProfitInLoss :: int
  st_stopLossInGain :: int
  st_takeProfitInGain :: int
  st_tradesResults :: "trade_results list"

definition new_base_stats :: base_stats where
  "new_base_stats = \<lparr>st_unrealizedPerformance = 0, st_performance = 0, st_maxAdjacentWin = 0, st_maxAdjacentLoss = 0,
     st_worst = 0, st_best = 0, st_maxDrawDownRate = 0, st_maxDrawDown = 0, st_succeedTrades = 0, st_failedTrades = 0,
     st_roeTrades = 0, st_totalTrades = 0, st_canceledTrades = 0, st_openTrades = 0, st_activeTrades = 0,
     st_stopLossInLoss = 0, st_takeProfitInLoss = 0, st_stopLossInGain = 0, st_takeProfitInGain = 0, st_tradesResults = []\<rparr>"

record statistics = base_stats +
  st_prevDir :: int
  st_dailyStartTimestamp :: dbl
  st_dailyPerformance :: dbl

definition new_statistics :: statistics where
  "new_statistics = base_stats.extend new_base_stats \<lparr>st_prevDir = 0, st_dailyStartTimestamp = 0, st_dailyPerformance = 0\<rparr>"

definition trade_to_results :: "trade \<Rightarrow> trade_results" where
  "trade_to_results t =
     \<lparr>rs_direction = tr_direction t, rs_entryPrice = tr_entryPrice t, rs_exitPrice = tr_exitPrice t,
      rs_entryTimestamp = ts_firstRealizedEntryTimestamp (tr_stats t),
      rs_exitTimestamp = ts_lastRealizedExitTimestamp (tr_stats t),
      rs_bestPrice = ts_bestPrice (tr_stats t), rs_worstPrice = ts_worstPrice (tr_stats t),
      rs_profitLossPct = tr_profitLossRate t, rs_profitLoss = ts_unrealizedProfitLoss (tr_stats t)\<rparr>"

definition stats_addTrade :: "trade \<Rightarrow> 'a base_stats_scheme \<Rightarrow> 'a base_stats_scheme" where
  "stats_addTrade t s =
     (if tr_exitPrice t \<le> 0 then s else s\<lparr>st_tradesResults := st_tradesResults s @ [trade_to_results t]\<rparr>)"

record stat_token =
  tk_maxTimeToRecover :: dbl
  tk_estimateProfitPerMonth :: dbl
  tk_avgWinLossRate :: dbl
  tk_sharpeRatio :: dbl
  tk_sortinoRatio :: dbl
  tk_ulcerIndex :: dbl
  tk_samplers :: "sampler list"

definition new_stat_token :: stat_token where
  "new_stat_token = \<lparr>tk_maxTimeToRecover = 0, tk_estimateProfitPerMonth = 0, tk_avgWinLossRate = 0, tk_sharpeRatio = 1,
     tk_sortinoRatio = 1, tk_ulcerIndex = 0, tk_samplers = []\<rparr>"

record global_stats = base_stats +
  gs_longestFlatPeriod :: dbl
  gs_avgTimeInMarket :: dbl
  gs_numTradedDays :: int
  gs_avgTradePerDay :: dbl
  gs_avgTradePerDayIncWe :: dbl
  gs_currency :: stat_token
  gs_percent :: stat_token

text \<open>\<^verbatim>\<open>reset\<close> sets every field.\<close>

definition gs_reset :: global_stats where
  "gs_reset = base_stats.extend new_base_stats \<lparr>gs_longestFlatPeriod = 0, gs_avgTimeInMarket = 0, gs_numTradedDays = 0,
     gs_avgTradePerDay = 0, gs_avgTradePerDayIncWe = 0, gs_currency = new_stat_token, gs_percent = new_stat_token\<rparr>"

definition gs_add :: "statistics \<Rightarrow> global_stats \<Rightarrow> global_stats" where
  "gs_add s g =
     g\<lparr>st_unrealizedPerformance := st_unrealizedPerformance g + st_unrealizedPerformance s,
       st_performance := st_performance g + st_performance s,
       st_maxAdjacentWin := max (st_maxAdjacentWin s) (st_maxAdjacentWin g),
       st_maxAdjacentLoss := max (st_maxAdjacentLoss s) (st_maxAdjacentLoss g),
       st_worst := min (st_worst s) (st_worst g), st_best := max (st_best s) (st_best g),
       st_maxDrawDownRate := max (st_maxDrawDownRate s) (st_maxDrawDownRate g),
       st_maxDrawDown := max (st_maxDrawDown s) (st_maxDrawDown g),
       st_succeedTrades := st_succeedTrades g + st_succeedTrades s, st_failedTrades := st_failedTrades g + st_failedTrades s,
       st_roeTrades := st_roeTrades g + st_roeTrades s, st_totalTrades := st_totalTrades g + st_totalTrades s,
       st_canceledTrades := st_canceledTrades g + st_canceledTrades s, st_openTrades := st_openTrades g + st_openTrades s,
       st_activeTrades := st_activeTrades g + st_activeTrades s,
       st_stopLossInLoss := st_stopLossInLoss g + st_stopLossInLoss s,
       st_takeProfitInLoss := st_takeProfitInLoss g + st_takeProfitInLoss s,
       st_stopLossInGain := st_stopLossInGain g + st_stopLossInGain s,
       st_takeProfitInGain := st_takeProfitInGain g + st_takeProfitInGain s,
       st_tradesResults := st_tradesResults g @ st_tradesResults s\<rparr>"

section \<open>The results of a run\<close>

text \<open>The local variables of \<^verbatim>\<open>computeStats\<close>, and the fields its loop writes.\<close>

record cstats =
  cs_timeInMarket :: "dbl list"
  cs_profitMonthPct :: "dbl list"
  cs_profitMonth :: "dbl list"
  cs_sqrPct :: "dbl list"
  cs_sqr :: "dbl list"
  cs_firstTradeTs :: dbl
  cs_lastTradeTs :: dbl
  cs_anyPnl :: sampler
  cs_anyPnlPct :: sampler
  cs_winPnl :: sampler
  cs_winPnlPct :: sampler
  cs_loosePnl :: sampler
  cs_loosePnlPct :: sampler
  cs_mfe :: sampler
  cs_mae :: sampler
  cs_etd :: sampler
  cs_eef :: sampler
  cs_xef :: sampler
  cs_tef :: sampler
  cs_cumPnlPct :: dbl
  cs_cumPnl :: dbl
  cs_maxPnlPct :: dbl
  cs_maxPnl :: dbl
  cs_maxPnlPctTs :: dbl
  cs_maxPnlTs :: dbl
  cs_prev :: "trade_results option"
  cs_recoverPct :: dbl
  cs_recover :: dbl
  cs_longestFlat :: dbl

definition cs_init :: "global_stats \<Rightarrow> cstats" where
  "cs_init g = \<lparr>cs_timeInMarket = [], cs_profitMonthPct = [0], cs_profitMonth = [0], cs_sqrPct = [], cs_sqr = [],
     cs_firstTradeTs = 0, cs_lastTradeTs = 0, cs_anyPnl = new_sampler ''trade-pnl'', cs_anyPnlPct = new_sampler ''trade-pnl'',
     cs_winPnl = new_sampler ''winning-pnl'', cs_winPnlPct = new_sampler ''winning-pnl'',
     cs_loosePnl = new_sampler ''loosing-pnl'', cs_loosePnlPct = new_sampler ''loosing-pnl'',
     cs_mfe = new_sampler ''mfe'', cs_mae = new_sampler ''mae'', cs_etd = new_sampler ''etd'',
     cs_eef = new_sampler ''entry-efficiency'', cs_xef = new_sampler ''exit-efficiency'', cs_tef = new_sampler ''total-efficiency'',
     cs_cumPnlPct = 0, cs_cumPnl = 0, cs_maxPnlPct = 0, cs_maxPnl = 0, cs_maxPnlPctTs = 0, cs_maxPnlTs = 0, cs_prev = None,
     cs_recoverPct = tk_maxTimeToRecover (gs_percent g), cs_recover = tk_maxTimeToRecover (gs_currency g),
     cs_longestFlat = gs_longestFlatPeriod g\<rparr>"

definition cs_cumulate :: "trade_results \<Rightarrow> cstats \<Rightarrow> cstats" where
  "cs_cumulate t c =
     c\<lparr>cs_anyPnlPct := addSample (rs_profitLossPct t) (cs_anyPnlPct c), cs_anyPnl := addSample (rs_profitLoss t) (cs_anyPnl c),
       cs_cumPnlPct := cs_cumPnlPct c + rs_profitLossPct t, cs_cumPnl := cs_cumPnl c + rs_profitLoss t\<rparr>"

definition cs_recovers :: "trade_results \<Rightarrow> cstats \<Rightarrow> cstats" where
  "cs_recovers t c =
     (let c = (if cs_cumPnlPct c \<ge> cs_maxPnlPct c then
                 (let c = c\<lparr>cs_maxPnlPct := cs_cumPnlPct c\<rparr>;
                      c = (if cs_maxPnlPctTs c > 0
                           then c\<lparr>cs_recoverPct := max (cs_recoverPct c) (rs_exitTimestamp t - cs_maxPnlPctTs c)\<rparr> else c)
                  in c\<lparr>cs_maxPnlPctTs := rs_exitTimestamp t\<rparr>)
               else c)
      in if cs_cumPnl c \<ge> cs_maxPnl c then
           (let c = c\<lparr>cs_maxPnl := cs_cumPnl c\<rparr>;
                c = (if cs_maxPnlTs c > 0
                     then c\<lparr>cs_recover := max (cs_recover c) (rs_exitTimestamp t - cs_maxPnlTs c)\<rparr> else c)
            in c\<lparr>cs_maxPnlTs := rs_exitTimestamp t\<rparr>)
         else c)"

definition elapsed_months :: "date_lib \<Rightarrow> dbl \<Rightarrow> dbl \<Rightarrow> int" where
  "elapsed_months dl ts prev = min 999 (to_int32 ((baseTime dl ts TF_MONTH - baseTime dl prev TF_MONTH) / TF_MONTH))"

definition cs_flat :: "date_lib \<Rightarrow> trade_results \<Rightarrow> cstats \<Rightarrow> cstats" where
  "cs_flat dl t c =
     (case cs_prev c of
        None \<Rightarrow> c
      | Some p \<Rightarrow>
          (let c = c\<lparr>cs_longestFlat := max (cs_longestFlat c) (rs_entryTimestamp t - rs_exitTimestamp p)\<rparr>;
               n = elapsed_months dl (rs_entryTimestamp t) (rs_entryTimestamp p)
           in c\<lparr>cs_profitMonthPct := cs_profitMonthPct c @ replicate (nat n) 0,
                cs_profitMonth := cs_profitMonth c @ replicate (nat n) 0\<rparr>))"

definition add_back :: "dbl \<Rightarrow> dbl list \<Rightarrow> dbl list" where
  "add_back x xs = butlast xs @ [last xs + x]"

definition cs_winloss :: "trade_results \<Rightarrow> cstats \<Rightarrow> cstats" where
  "cs_winloss t c =
     (let c = c\<lparr>cs_timeInMarket := cs_timeInMarket c @ [rs_exitTimestamp t - rs_entryTimestamp t]\<rparr>;
          c = (if cs_firstTradeTs c = 0 then c\<lparr>cs_firstTradeTs := rs_entryTimestamp t\<rparr> else c);
          c = c\<lparr>cs_lastTradeTs := rs_entryTimestamp t\<rparr>;
          c = (if rs_profitLossPct t > 0 then c\<lparr>cs_winPnlPct := addSample (rs_profitLossPct t) (cs_winPnlPct c)\<rparr>
               else if rs_profitLossPct t < 0 then c\<lparr>cs_loosePnlPct := addSample (rs_profitLossPct t) (cs_loosePnlPct c)\<rparr>
               else c)
      in if rs_profitLoss t > 0 then c\<lparr>cs_winPnl := addSample (rs_profitLoss t) (cs_winPnl c)\<rparr>
         else if rs_profitLoss t < 0 then c\<lparr>cs_loosePnl := addSample (rs_profitLoss t) (cs_loosePnl c)\<rparr>
         else c)"

definition cs_squares :: "trade_results \<Rightarrow> cstats \<Rightarrow> cstats" where
  "cs_squares t c =
     c\<lparr>cs_profitMonthPct := add_back (rs_profitLossPct t) (cs_profitMonthPct c),
       cs_profitMonth := add_back (rs_profitLoss t) (cs_profitMonth c),
       cs_sqrPct := cs_sqrPct c @ [(cs_cumPnlPct c - cs_maxPnlPct c) * (cs_cumPnlPct c - cs_maxPnlPct c)],
       cs_sqr := cs_sqr c @ [(cs_cumPnl c - cs_maxPnl c) * (cs_cumPnl c - cs_maxPnl c)]\<rparr>"

definition cs_excursions :: "trade_results \<Rightarrow> cstats \<Rightarrow> cstats" where
  "cs_excursions t c =
     (let d = of_int (rs_direction t); e = rs_entryPrice t; x = rs_exitPrice t; b = rs_bestPrice t; w = rs_worstPrice t
      in c\<lparr>cs_mfe := addSample (d * (b - e) / e) (cs_mfe c), cs_mae := addSample (d * (w - e) / e) (cs_mae c),
           cs_etd := addSample (d * (x - b) / b) (cs_etd c), cs_eef := addSample ((b - e) / (b - w)) (cs_eef c),
           cs_xef := addSample ((x - w) / (b - w)) (cs_xef c), cs_tef := addSample ((x - e) / (b - w)) (cs_tef c)\<rparr>)"

definition cs_trade :: "date_lib \<Rightarrow> trade_results \<Rightarrow> cstats \<Rightarrow> cstats" where
  "cs_trade dl t c =
     (cs_excursions t (cs_squares t (cs_winloss t (cs_flat dl t (cs_recovers t (cs_cumulate t c))))))\<lparr>cs_prev := Some t\<rparr>"

text \<open>\<^verbatim>\<open>std::sort\<close> by the time of exit; among equal times the order of the library is one of several.\<close>

definition cs_loop :: "date_lib \<Rightarrow> global_stats \<Rightarrow> cstats" where
  "cs_loop dl g = fold (cs_trade dl) (sort_key rs_exitTimestamp (st_tradesResults g)) (cs_init g)"

text \<open>The drawdown of each month. The month of the first sample is kept in a 32 bit integer and never updated.\<close>

definition month_sample :: "date_lib \<Rightarrow> account_sample \<Rightarrow> int \<times> dbl list \<times> dbl list \<Rightarrow> int \<times> dbl list \<times> dbl list" where
  "month_sample dl s = (\<lambda>(prev, pct, cur).
     let prev = (if prev = 0 then to_int32 (baseTime dl (sm_timestamp s) TF_MONTH) else prev);
         n = to_int32 ((baseTime dl (sm_timestamp s) TF_MONTH - of_int prev) / TF_MONTH);
         pct = pct @ replicate (nat n) 0;
         cur = cur @ replicate (nat n) 0
     in (prev, butlast pct @ [max (last pct) (sm_drawDownRate s)], butlast cur @ [max (last cur) (sm_drawDown s)]))"

definition cs_months :: "date_lib \<Rightarrow> account_sample list \<Rightarrow> dbl list \<times> dbl list" where
  "cs_months dl samples = snd (fold (month_sample dl) samples (0, [0], [0]))"

definition cs_ratios :: "(dbl \<Rightarrow> dbl) \<Rightarrow> dbl list \<Rightarrow> dbl list \<Rightarrow> dbl list \<Rightarrow> stat_token \<Rightarrow> stat_token" where
  "cs_ratios root2 profit drawDown sqrs k =
     (let sd = stdDeviation root2 profit;
          k = (if sd \<noteq> 0 then k\<lparr>tk_sharpeRatio := tk_estimateProfitPerMonth k / sd\<rparr> else k);
          sd = stdDeviation root2 drawDown;
          k = (if sd \<noteq> 0 then k\<lparr>tk_sortinoRatio := tk_estimateProfitPerMonth k / sd\<rparr> else k)
      in k\<lparr>tk_ulcerIndex := root2 (average sqrs)\<rparr>)"

definition avg_win_loss :: "sampler \<Rightarrow> sampler \<Rightarrow> dbl" where
  "avg_win_loss win loose = (if sp_avg loose \<noteq> 0 then sp_avg win / - sp_avg loose else 1)"

definition computeStats :: "date_lib \<Rightarrow> (dbl \<Rightarrow> dbl) \<Rightarrow> account_sample list \<Rightarrow> global_stats \<Rightarrow> global_stats" where
  "computeStats dl root2 samples g =
     (let c = cs_loop dl g;
          fin = finalize_sampler root2;
          (ddPct, dd) = cs_months dl samples;
          days = to_int32 ((baseTime dl (cs_lastTradeTs c) TF_DAY - baseTime dl (cs_firstTradeTs c) TF_DAY) / TF_DAY + 1);
          perDay = of_nat (length (st_tradesResults g)) / of_int days;
          pct = (gs_percent g)\<lparr>tk_maxTimeToRecover := cs_recoverPct c,
                  tk_estimateProfitPerMonth := cs_cumPnlPct c * ((61 / 2) / of_int days)\<rparr>;
          cur = (gs_currency g)\<lparr>tk_maxTimeToRecover := cs_recover c,
                  tk_estimateProfitPerMonth := cs_cumPnl c * ((61 / 2) / of_int days)\<rparr>;
          (pct, cur) = (if length (cs_profitMonthPct c) > 1
                        then (cs_ratios root2 (cs_profitMonthPct c) ddPct (cs_sqrPct c) pct,
                              cs_ratios root2 (cs_profitMonth c) dd (cs_sqr c) cur)
                        else (pct, cur));
          pct = pct\<lparr>tk_samplers := tk_samplers pct @ map fin [cs_anyPnlPct c, cs_winPnlPct c, cs_loosePnlPct c, cs_mfe c,
                   cs_mae c, cs_etd c, cs_eef c, cs_xef c, cs_tef c],
                 tk_avgWinLossRate := avg_win_loss (fin (cs_winPnlPct c)) (fin (cs_loosePnlPct c))\<rparr>;
          cur = cur\<lparr>tk_samplers := tk_samplers cur @ map fin [cs_anyPnl c, cs_winPnl c, cs_loosePnl c],
                 tk_avgWinLossRate := avg_win_loss (fin (cs_winPnl c)) (fin (cs_loosePnl c))\<rparr>
      in g\<lparr>st_tradesResults := sort_key rs_exitTimestamp (st_tradesResults g), gs_longestFlatPeriod := cs_longestFlat c,
           gs_avgTimeInMarket := average (cs_timeInMarket c), gs_numTradedDays := days, gs_avgTradePerDayIncWe := perDay,
           gs_avgTradePerDay := perDay * (252 / 365), gs_percent := pct, gs_currency := cur\<rparr>)"

section \<open>Properties\<close>

subsection \<open>Samplers\<close>

lemma fold_addSample:
  "sp_samples (fold addSample xs (new_sampler n)) = xs" "sp_cumulated (fold addSample xs (new_sampler n)) = sum_list xs"
  "sp_maxValue (fold addSample xs (new_sampler n)) = Max (insert 0 (set xs))"
  "sp_minValue (fold addSample xs (new_sampler n)) = Min (insert 0 (set xs))"
proof -
  show s: "sp_samples (fold addSample xs (new_sampler n)) = xs" for xs
    by (induction xs rule: rev_induct) (simp_all add: addSample_def Let_def new_sampler_def)
  show "sp_cumulated (fold addSample xs (new_sampler n)) = sum_list xs"
    by (induction xs rule: rev_induct) (simp_all add: addSample_def Let_def new_sampler_def)
  show "sp_maxValue (fold addSample xs (new_sampler n)) = Max (insert 0 (set xs))"
    by (induction xs rule: rev_induct)
      (simp_all add: addSample_def Let_def new_sampler_def insert_commute [of 0] Max_insert max.commute)
  show "sp_minValue (fold addSample xs (new_sampler n)) = Min (insert 0 (set xs))"
    by (induction xs rule: rev_induct)
      (simp_all add: addSample_def Let_def new_sampler_def insert_commute [of 0] Min_insert min.commute)
qed

text \<open>
  The least value of a sampler that only got positive samples is 0, which is no sample: the first sample never sets the bounds,
  because it is appended before the test for an empty list.
\<close>

theorem sampler_min_zero:
  assumes "\<forall>x\<in>set xs. 0 < x"
  shows "sp_minValue (fold addSample xs (new_sampler n)) = 0"
proof -
  have "Min (insert 0 (set xs)) = 0" by (rule Min_eqI) (use assms in auto)
  then show ?thesis by (simp only: fold_addSample(4))
qed

theorem sampler_min_zero_witness: "sp_minValue (fold addSample [3, 5] (new_sampler ''mfe'')) = 0"
  by (rule sampler_min_zero) simp

subsection \<open>The loop over the trades\<close>

lemma cs_steps_frame [simp]:
  "cs_cumPnlPct (cs_recovers t c) = cs_cumPnlPct c" "cs_cumPnlPct (cs_flat dl t c) = cs_cumPnlPct c"
  "cs_cumPnlPct (cs_winloss t c) = cs_cumPnlPct c" "cs_cumPnlPct (cs_squares t c) = cs_cumPnlPct c"
  "cs_cumPnlPct (cs_excursions t c) = cs_cumPnlPct c"
  "cs_maxPnlPct (cs_cumulate t c) = cs_maxPnlPct c" "cs_maxPnlPct (cs_flat dl t c) = cs_maxPnlPct c"
  "cs_maxPnlPct (cs_winloss t c) = cs_maxPnlPct c" "cs_maxPnlPct (cs_squares t c) = cs_maxPnlPct c"
  "cs_maxPnlPct (cs_excursions t c) = cs_maxPnlPct c"
  "cs_sqrPct (cs_cumulate t c) = cs_sqrPct c" "cs_sqrPct (cs_recovers t c) = cs_sqrPct c" "cs_sqrPct (cs_flat dl t c) = cs_sqrPct c"
  "cs_sqrPct (cs_winloss t c) = cs_sqrPct c" "cs_sqrPct (cs_excursions t c) = cs_sqrPct c"
  "cs_profitMonthPct (cs_cumulate t c) = cs_profitMonthPct c" "cs_profitMonthPct (cs_recovers t c) = cs_profitMonthPct c"
  "cs_profitMonthPct (cs_winloss t c) = cs_profitMonthPct c" "cs_profitMonthPct (cs_excursions t c) = cs_profitMonthPct c"
  by (simp_all add: cs_cumulate_def cs_recovers_def cs_flat_def cs_winloss_def cs_squares_def cs_excursions_def Let_def split: option.splits)

lemma cs_trade_fields:
  "cs_cumPnlPct (cs_trade dl t c) = cs_cumPnlPct c + rs_profitLossPct t"
  "cs_maxPnlPct (cs_trade dl t c) = max (cs_maxPnlPct c) (cs_cumPnlPct c + rs_profitLossPct t)"
  "cs_sqrPct (cs_trade dl t c) = cs_sqrPct c @ [(max (cs_maxPnlPct c) (cs_cumPnlPct c + rs_profitLossPct t) - (cs_cumPnlPct c + rs_profitLossPct t))\<^sup>2]"
  "cs_profitMonthPct c \<noteq> [] \<Longrightarrow> cs_profitMonthPct (cs_trade dl t c) \<noteq> []"
  "cs_profitMonthPct c \<noteq> [] \<Longrightarrow> sum_list (cs_profitMonthPct (cs_trade dl t c)) = sum_list (cs_profitMonthPct c) + rs_profitLossPct t"
proof -
  have m: "cs_maxPnlPct (cs_recovers t (cs_cumulate t c)) = max (cs_maxPnlPct c) (cs_cumPnlPct c + rs_profitLossPct t)"
    by (simp add: cs_recovers_def cs_cumulate_def Let_def max_def)
  show "cs_cumPnlPct (cs_trade dl t c) = cs_cumPnlPct c + rs_profitLossPct t"
    by (simp add: cs_trade_def) (simp add: cs_cumulate_def)
  show "cs_maxPnlPct (cs_trade dl t c) = max (cs_maxPnlPct c) (cs_cumPnlPct c + rs_profitLossPct t)"
    by (simp add: cs_trade_def m)
  have s: "cs_sqrPct (cs_squares t c') = cs_sqrPct c' @ [(cs_maxPnlPct c' - cs_cumPnlPct c')\<^sup>2]" for c'
    by (simp add: cs_squares_def power2_eq_square algebra_simps)
  show "cs_sqrPct (cs_trade dl t c) = cs_sqrPct c @ [(max (cs_maxPnlPct c) (cs_cumPnlPct c + rs_profitLossPct t) - (cs_cumPnlPct c + rs_profitLossPct t))\<^sup>2]"
    by (simp add: cs_trade_def s m) (simp add: cs_cumulate_def)
  have f: "\<exists>n. cs_profitMonthPct (cs_flat dl t c') = cs_profitMonthPct c' @ replicate n 0" for c'
    by (auto simp: cs_flat_def Let_def intro: exI [of _ 0] split: option.splits)
  have b: "cs_profitMonthPct (cs_squares t c') = add_back (rs_profitLossPct t) (cs_profitMonthPct c')" for c'
    by (simp add: cs_squares_def)
  obtain n where n: "cs_profitMonthPct (cs_trade dl t c) = add_back (rs_profitLossPct t) (cs_profitMonthPct c @ replicate n 0)"
    using f [of "cs_recovers t (cs_cumulate t c)"] by (auto simp: cs_trade_def b)
  have ab: "sum_list (add_back x xs) = sum_list xs + x" if "xs \<noteq> []" for x xs
    using that by (cases xs rule: rev_cases) (simp_all add: add_back_def)
  show "cs_profitMonthPct (cs_trade dl t c) \<noteq> []" unfolding n by (simp add: add_back_def)
  show "sum_list (cs_profitMonthPct (cs_trade dl t c)) = sum_list (cs_profitMonthPct c) + rs_profitLossPct t"
    if "cs_profitMonthPct c \<noteq> []" using that unfolding n by (simp add: ab sum_list_replicate)
qed

text \<open>The total after \<open>k\<close> trades, and the peak so far.\<close>

definition total_after :: "dbl list \<Rightarrow> nat \<Rightarrow> dbl" where
  "total_after ps k = sum_list (take k ps)"

definition peak_at :: "dbl list \<Rightarrow> nat \<Rightarrow> dbl" where
  "peak_at ps k = Max (total_after ps ` {..k})"

lemma total_after_snoc [simp]:
  "k \<le> length ps \<Longrightarrow> total_after (ps @ [p]) k = total_after ps k" "total_after ps (length ps) = sum_list ps"
  by (simp_all add: total_after_def)

lemma peak_at_snoc [simp]: "k \<le> length ps \<Longrightarrow> peak_at (ps @ [p]) k = peak_at ps k"
  by (simp add: peak_at_def cong: image_cong_simp)

lemma peak_at_Suc: "peak_at ps (Suc k) = max (peak_at ps k) (total_after ps (Suc k))"
  by (simp add: peak_at_def atMost_Suc max.commute)

lemma cs_fold:
  assumes "c = fold (cs_trade dl) ts (cs_init g)" and "ps = map rs_profitLossPct ts"
  shows "cs_cumPnlPct c = sum_list ps \<and> cs_maxPnlPct c = peak_at ps (length ps)
    \<and> cs_sqrPct c = map (\<lambda>k. (peak_at ps k - total_after ps k)\<^sup>2) [1..<Suc (length ps)]
    \<and> cs_profitMonthPct c \<noteq> [] \<and> sum_list (cs_profitMonthPct c) = sum_list ps"
  using assms
proof (induction ts arbitrary: c ps rule: rev_induct)
  case Nil
  then show ?case by (simp add: cs_init_def peak_at_def total_after_def)
next
  case (snoc t ts)
  define c0 where "c0 = fold (cs_trade dl) ts (cs_init g)"
  define qs where "qs = map rs_profitLossPct ts"
  have IH: "cs_cumPnlPct c0 = sum_list qs" "cs_maxPnlPct c0 = peak_at qs (length qs)"
    "cs_sqrPct c0 = map (\<lambda>k. (peak_at qs k - total_after qs k)\<^sup>2) [1..<Suc (length qs)]" "cs_profitMonthPct c0 \<noteq> []"
    "sum_list (cs_profitMonthPct c0) = sum_list qs"
    using snoc.IH [OF c0_def qs_def] by simp_all
  have c: "c = cs_trade dl t c0" and ps: "ps = qs @ [rs_profitLossPct t]" using snoc.prems by (simp_all add: c0_def qs_def)
  have k: "total_after ps (Suc (length qs)) = sum_list qs + rs_profitLossPct t" by (simp add: ps total_after_def)
  have pk: "peak_at ps (Suc (length qs)) = max (peak_at qs (length qs)) (sum_list qs + rs_profitLossPct t)"
    by (simp add: peak_at_Suc k) (simp add: ps)
  have m: "map (\<lambda>k. (peak_at ps k - total_after ps k)\<^sup>2) [1..<Suc (length qs)] = cs_sqrPct c0"
    unfolding IH(3) by (rule map_cong [OF refl]) (auto simp: ps)
  show ?case
    unfolding c using IH(1,2,4,5) m pk k by (simp add: cs_trade_fields ps)
qed

text \<open>
  C30: The squares that \<^verbatim>\<open>computeStats\<close> averages for the Ulcer index are those of the fall of the cumulated profit below its peak so far,
  starting from 0, and the profits of the months add up to the whole profit.
\<close>

theorem drawdown_squares:
  assumes "ps = map rs_profitLossPct (sort_key rs_exitTimestamp (st_tradesResults g))"
  shows "cs_sqrPct (cs_loop dl g) = map (\<lambda>k. (peak_at ps k - total_after ps k)\<^sup>2) [1..<Suc (length ps)]
    \<and> sum_list (cs_profitMonthPct (cs_loop dl g)) = sum_list ps"
  using cs_fold [OF cs_loop_def assms] by simp

definition two_results :: global_stats where
  "two_results = gs_reset\<lparr>st_tradesResults :=
     [(trade_to_results (new_trade TYPE_MARGIN 60))\<lparr>rs_profitLossPct := - 1 / 4, rs_exitTimestamp := 200\<rparr>,
      (trade_to_results (new_trade TYPE_MARGIN 60))\<lparr>rs_profitLossPct := 1 / 2, rs_exitTimestamp := 100\<rparr>]\<rparr>"

theorem drawdown_squares_witness: "cs_sqrPct (cs_loop no_dates two_results) = [0, 1 / 16]"
proof -
  have s: "[1 / 2, - 1 / 4] = map rs_profitLossPct (sort_key rs_exitTimestamp (st_tradesResults two_results))"
    by (simp add: two_results_def trade_to_results_def)
  have "map (\<lambda>k. (peak_at [1 / 2, - 1 / 4] k - total_after [1 / 2, - 1 / 4] k)\<^sup>2) [1..<Suc (length [1 / 2, - 1 / 4 :: dbl])] = [0, 1 / 16]"
    by (simp add: upt_rec peak_at_def total_after_def atMost_Suc power2_eq_square)
  with drawdown_squares [OF s, of no_dates] show ?thesis by simp
qed

subsection \<open>The drawdown of the months\<close>

text \<open>
  The month of the first sample stays the reference of all: \<open>k\<close> samples of one month, \<open>n\<close> months later, append \<open>k * n\<close> months instead of \<open>n\<close>.
\<close>

theorem drawdown_months_repeat:
  assumes "prev \<noteq> 0" and "to_int32 ((baseTime dl (sm_timestamp s) TF_MONTH - of_int prev) / TF_MONTH) = int n"
    and "fold (month_sample dl) (replicate k s) (prev, pct, cur) = (prev', pct', cur')" and "pct \<noteq> []" and "cur \<noteq> []"
  shows "length pct' = length pct + k * n \<and> length cur' = length cur + k * n"
  using assms(3-5)
proof (induction k arbitrary: pct cur)
  case (Suc k)
  obtain pct1 cur1 where m: "month_sample dl s (prev, pct, cur) = (prev, pct1, cur1)" "length pct1 = length pct + n" "length cur1 = length cur + n"
    "pct1 \<noteq> []" "cur1 \<noteq> []"
    using assms(1,2) Suc.prems(2,3) by (simp add: month_sample_def Let_def)
  have "fold (month_sample dl) (replicate k s) (prev, pct1, cur1) = (prev', pct', cur')" using Suc.prems(1) m(1) by simp
  from Suc.IH [OF this m(4,5)] m(2,3) show ?case by simp
qed simp

definition month_dates :: date_lib where
  "month_dates = no_dates\<lparr>dl_toTimestamp := (\<lambda>d. 3 * TF_MONTH)\<rparr>"

theorem drawdown_months_repeat_witness:
  "let s = \<lparr>sm_timestamp = 0, sm_equity = 0, sm_profitLoss = 0, sm_drawDownRate = 0, sm_drawDown = 0\<rparr>
   in length (fst (snd (fold (month_sample month_dates) (replicate 2 s) (2592000, [0], [0])))) = 5"
proof -
  define s where "s = \<lparr>sm_timestamp = 0, sm_equity = 0, sm_profitLoss = 0, sm_drawDownRate = 0, sm_drawDown = 0\<rparr>"
  have b: "baseTime month_dates (sm_timestamp s) TF_MONTH = 3 * TF_MONTH"
    by (simp add: baseTime_def month_dates_def TF_defs Let_def)
  have n: "to_int32 ((baseTime month_dates (sm_timestamp s) TF_MONTH - of_int 2592000) / TF_MONTH) = int 2"
    unfolding b by (simp add: TF_defs to_int32_def trunc_dbl_def)
  obtain prev pct cur where f: "fold (month_sample month_dates) (replicate 2 s) (2592000, [0], [0]) = (prev, pct, cur)"
    by (metis prod_cases3)
  have "length pct = 5" using drawdown_months_repeat [OF _ n f] by simp
  then show ?thesis unfolding Let_def s_def [symmetric] f fst_conv snd_conv .
qed

end
