(* ===== verification/Strategy_Base.thy ===== *)
theory Strategy_Base
  imports Trade_Statistics "HOL-Library.Sublist"
begin

text \<open>
  \<^verbatim>\<open>strategies/include/siis/strategy.h\<close> and \<^verbatim>\<open>strategies/src/strategy.cpp\<close>: the life cycle of a strategy, the
  statistics of its closed trades, its trading sessions and its data sources. The virtual functions of the plugins and
  the values read from the JSON configuration are arguments.
\<close>

section \<open>State\<close>

datatype strategy_state = SG_NEW | SG_INITIALIZED | SG_PREPARED_MARKET_DATA | SG_READY | SG_RUNNING | SG_TERMINATED | SG_LAST

datatype source_type = SRC_TICK | SRC_OHLC_MID | SRC_OHLC_BID | SRC_OHLC_ASK | SRC_ORDER_BOOK

record data_source =
  ds_type :: source_type
  ds_timeframe :: dbl
  ds_depth :: int

record trading_session =
  sn_dayOfWeek :: int
  sn_fromTime :: dbl
  sn_toTime :: dbl

record strategy =
  sg_curState :: strategy_state
  sg_nextState :: strategy_state
  sg_stats :: statistics
  sg_dataSources :: "data_source list"
  sg_lastTimestamp :: dbl
  sg_processing :: bool
  sg_reversal :: bool
  sg_hedging :: bool
  sg_allowShort :: bool
  sg_maxTrades :: int
  sg_tradeDelay :: dbl
  sg_needUpdate :: bool
  sg_baseTimeframe :: dbl
  sg_tradeType :: trade_type
  sg_baseQuantity :: dbl
  sg_timezone :: dbl
  sg_sessionOffset :: dbl
  sg_sessionDuration :: dbl
  sg_sessions :: "trading_session list"

definition new_strategy :: strategy where
  "new_strategy = \<lparr>sg_curState = SG_NEW, sg_nextState = SG_INITIALIZED, sg_stats = new_statistics, sg_dataSources = [],
     sg_lastTimestamp = 0, sg_processing = False, sg_reversal = False, sg_hedging = False, sg_allowShort = True, sg_maxTrades = 1,
     sg_tradeDelay = 0, sg_needUpdate = False, sg_baseTimeframe = 0, sg_tradeType = TYPE_ASSET, sg_baseQuantity = 1,
     sg_timezone = 0, sg_sessionOffset = 0, sg_sessionDuration = 0, sg_sessions = []\<rparr>"

section \<open>The life cycle\<close>

definition setInitialized :: "strategy \<Rightarrow> strategy" where
  "setInitialized s =
     (if sg_nextState s = SG_INITIALIZED
      then s\<lparr>sg_curState := sg_nextState s, sg_nextState := SG_PREPARED_MARKET_DATA\<rparr> else s)"

definition setMarketDataPrepared :: "strategy \<Rightarrow> strategy" where
  "setMarketDataPrepared s =
     (if sg_nextState s = SG_PREPARED_MARKET_DATA
      then s\<lparr>sg_curState := sg_nextState s, sg_nextState := SG_READY\<rparr> else s)"

definition setReady :: "strategy \<Rightarrow> strategy" where
  "setReady s =
     (if sg_nextState s = SG_READY then s\<lparr>sg_curState := sg_nextState s, sg_nextState := SG_RUNNING\<rparr> else s)"

definition setRunning :: "strategy \<Rightarrow> strategy" where
  "setRunning s =
     (if sg_nextState s = SG_RUNNING
      then s\<lparr>sg_curState := sg_nextState s, sg_nextState := SG_TERMINATED, sg_processing := False\<rparr> else s)"

definition setTerminated :: "strategy \<Rightarrow> strategy" where
  "setTerminated s =
     (if sg_nextState s = SG_TERMINATED then s\<lparr>sg_curState := sg_nextState s, sg_nextState := SG_LAST\<rparr> else s)"

definition running :: "strategy \<Rightarrow> bool" where
  "running s \<longleftrightarrow> sg_curState s = SG_RUNNING"

text \<open>
  \<^verbatim>\<open>process\<close>: the virtual functions of the plugin run in order on the strategy and the state of the rest of the program.
\<close>

definition sg_process :: "(dbl \<Rightarrow> strategy \<times> 'w \<Rightarrow> strategy \<times> 'w) \<Rightarrow> (dbl \<Rightarrow> strategy \<times> 'w \<Rightarrow> strategy \<times> 'w)
    \<Rightarrow> (dbl \<Rightarrow> strategy \<times> 'w \<Rightarrow> strategy \<times> 'w) \<Rightarrow> (strategy \<times> 'w \<Rightarrow> strategy \<times> 'w) \<Rightarrow> dbl \<Rightarrow> strategy \<Rightarrow> 'w
    \<Rightarrow> strategy \<times> 'w" where
  "sg_process prep compute fin upd timestamp s w =
     (let (s, w) = upd (fin timestamp (compute timestamp (prep timestamp (s\<lparr>sg_processing := True\<rparr>, w))))
      in (s\<lparr>sg_lastTimestamp := timestamp, sg_processing := False\<rparr>, w))"

section \<open>Statistics\<close>

definition setActiveStats :: "dbl \<Rightarrow> dbl \<Rightarrow> dbl \<Rightarrow> int \<Rightarrow> int \<Rightarrow> statistics \<Rightarrow> statistics" where
  "setActiveStats perf ddRate dd pending actives s =
     (let s = s\<lparr>st_activeTrades := actives, st_openTrades := pending, st_unrealizedPerformance := perf\<rparr>;
          s = (if ddRate > st_maxDrawDownRate s then s\<lparr>st_maxDrawDownRate := ddRate\<rparr> else s)
      in if dd > st_maxDrawDown s then s\<lparr>st_maxDrawDown := dd\<rparr> else s)"

definition stop_reason :: "exit_reason \<Rightarrow> bool" where
  "stop_reason r \<longleftrightarrow> r = REASON_STOP_LOSS_MARKET \<or> r = REASON_STOP_LOSS_LIMIT"

definition profit_reason :: "exit_reason \<Rightarrow> bool" where
  "profit_reason r \<longleftrightarrow> r = REASON_TAKE_PROFIT_LIMIT \<or> r = REASON_TAKE_PROFIT_MARKET"

definition count_loss :: "exit_reason \<Rightarrow> statistics \<Rightarrow> statistics" where
  "count_loss reason s =
     (let s = s\<lparr>st_failedTrades := st_failedTrades s + 1\<rparr>;
          s = (if st_prevDir s \<le> 0 then s\<lparr>st_prevDir := st_prevDir s - 1\<rparr> else s\<lparr>st_prevDir := -1\<rparr>);
          s = s\<lparr>st_maxAdjacentLoss := max (st_maxAdjacentLoss s) (- st_prevDir s)\<rparr>
      in if stop_reason reason then s\<lparr>st_stopLossInLoss := st_stopLossInLoss s + 1\<rparr>
         else if profit_reason reason then s\<lparr>st_takeProfitInLoss := st_takeProfitInLoss s + 1\<rparr>
         else s)"

definition count_win :: "exit_reason \<Rightarrow> statistics \<Rightarrow> statistics" where
  "count_win reason s =
     (let s = s\<lparr>st_succeedTrades := st_succeedTrades s + 1\<rparr>;
          s = (if st_prevDir s \<ge> 0 then s\<lparr>st_prevDir := st_prevDir s + 1\<rparr> else s\<lparr>st_prevDir := 1\<rparr>);
          s = s\<lparr>st_maxAdjacentWin := max (st_maxAdjacentWin s) (st_prevDir s)\<rparr>
      in if stop_reason reason then s\<lparr>st_stopLossInGain := st_stopLossInGain s + 1\<rparr>
         else if profit_reason reason then s\<lparr>st_takeProfitInGain := st_takeProfitInGain s + 1\<rparr>
         else s)"

definition count_trade :: "market \<Rightarrow> dbl \<Rightarrow> exit_reason \<Rightarrow> statistics \<Rightarrow> statistics" where
  "count_trade m rpnl reason s =
     (if \<bar>rpnl * mk_mid m\<bar> < mk_spread m then s\<lparr>st_roeTrades := st_roeTrades s + 1, st_prevDir := 0\<rparr>
      else if rpnl < 0 then count_loss reason s
      else if rpnl > 0 then count_win reason s
      else s)"

definition daily_performance :: "date_lib \<Rightarrow> dbl \<Rightarrow> dbl \<Rightarrow> statistics \<Rightarrow> statistics" where
  "daily_performance dl now rpnl s =
     (let s = (if st_dailyStartTimestamp s = 0 then s\<lparr>st_dailyStartTimestamp := baseTime dl now TF_DAY\<rparr> else s);
          s = (if now - st_dailyStartTimestamp s \<ge> TF_DAY
               then s\<lparr>st_dailyStartTimestamp := baseTime dl now TF_DAY, st_dailyPerformance := 0\<rparr> else s)
      in s\<lparr>st_dailyPerformance := st_dailyPerformance s + rpnl\<rparr>)"

text \<open>The realized profit, net of the fees of the entry and of the exit.\<close>

definition net_rate :: "any_trade \<Rightarrow> dbl" where
  "net_rate t = tr_profitLossRate (vt_base t) - entryFeesRate (vt_base t) - exitFeesRate (vt_base t)"

definition addClosedTrade :: "date_lib \<Rightarrow> market \<Rightarrow> dbl \<Rightarrow> any_trade \<Rightarrow> statistics \<Rightarrow> statistics" where
  "addClosedTrade dl m now t s =
     (if vt_isCanceled t then s\<lparr>st_canceledTrades := st_canceledTrades s + 1\<rparr>
      else if vt_isClosed t then
        (let rpnl = net_rate t;
             s = s\<lparr>st_performance := st_performance s + rpnl\<rparr>;
             s = count_trade m rpnl (ts_exitReason (tr_stats (vt_base t))) s;
             s = s\<lparr>st_totalTrades := st_totalTrades s + 1, st_best := max (st_best s) rpnl, st_worst := min (st_worst s) rpnl\<rparr>;
             s = daily_performance dl now rpnl s
         in stats_addTrade (vt_base t) s)
      else s)"

section \<open>Trading sessions\<close>

definition day_of_week :: "string \<Rightarrow> int option" where
  "day_of_week s = map_of [(''any'', -2), (''dow'', -1), (''mon'', 1), (''tue'', 2), (''wed'', 3), (''thu'', 4), (''fri'', 5),
     (''sat'', 6), (''sun'', 7)] s"

definition sessions_on :: "int list \<Rightarrow> dbl \<Rightarrow> dbl \<Rightarrow> trading_session list" where
  "sessions_on days fromTime toTime = map (\<lambda>d. \<lparr>sn_dayOfWeek = d, sn_fromTime = fromTime, sn_toTime = toTime\<rparr>) days"

text \<open>\<open>sub\<close> and \<open>toInt32\<close> are operations of the O3D strings.\<close>

definition tradingSessionFromStr :: "(string \<Rightarrow> int \<Rightarrow> int option \<Rightarrow> string) \<Rightarrow> (string \<Rightarrow> int) \<Rightarrow> string option
    \<Rightarrow> trading_session list \<Rightarrow> trading_session list" where
  "tradingSessionFromStr sub toInt32 trading out =
     (case trading of
        None \<Rightarrow> out
      | Some v \<Rightarrow>
          if count_list v (CHR ''/'') \<noteq> 1 then out
          else
            let slash = find_char (CHR ''/'') v;
                dash = find_char (CHR ''-'') v;
                dow = sub v 0 (Some slash)
            in case day_of_week dow of
                 None \<Rightarrow> out
               | Some d \<Rightarrow>
                   let fromTime = durationFromStr sub toInt32 (sub v (slash + 1) (Some dash));
                       toTime = durationFromStr sub toInt32 (sub v (dash + 1) None)
                   in if dow = ''any'' then out @ sessions_on [1, 2, 3, 4, 5, 6, 7] fromTime toTime
                      else if dow = ''dow'' then out @ sessions_on [1, 2, 3, 4, 5] fromTime toTime
                      else out @ sessions_on [d] fromTime toTime)"

definition allowedTradingSession :: "date_lib \<Rightarrow> dbl \<Rightarrow> strategy \<Rightarrow> bool" where
  "allowedTradingSession dl timestamp s =
     (if sg_sessions s \<noteq> [] then
        (let today = dl_fromTime dl (timestamp + sg_timezone s * 3600);
             todayTime = of_int (dt_hour today * 3600 + dt_minute today * 60 + dt_second today)
         in if \<exists>n\<in>set (sg_sessions s). sn_dayOfWeek n = dl_getIsoDayOfWeek dl today \<and> sn_fromTime n \<le> todayTime \<and> todayTime \<le> sn_toTime n
            then True else False)
      else True)"

definition addTradingSession :: "int \<Rightarrow> dbl \<Rightarrow> dbl \<Rightarrow> strategy \<Rightarrow> strategy" where
  "addTradingSession dayOfWeek fromTime toTime s =
     s\<lparr>sg_sessions := sg_sessions s @ [\<lparr>sn_dayOfWeek = dayOfWeek, sn_fromTime = fromTime, sn_toTime = toTime\<rparr>]\<rparr>"

section \<open>Data sources and ranges\<close>

definition addDataSource :: "source_type \<Rightarrow> dbl \<Rightarrow> int \<Rightarrow> strategy \<Rightarrow> strategy" where
  "addDataSource ty timeframe depth s =
     (if \<exists>ds\<in>set (sg_dataSources s). ds_type ds = ty then s
      else s\<lparr>sg_dataSources := sg_dataSources s @ [\<lparr>ds_type = ty, ds_timeframe = timeframe, ds_depth = depth\<rparr>]\<rparr>)"

text \<open>What the JSON configuration of a strategy gives.\<close>

record basic_conf =
  bc_reversal :: bool
  bc_hedging :: bool
  bc_allowShort :: bool
  bc_maxTrades :: int
  bc_tradeDelay :: dbl
  bc_needUpdate :: bool
  bc_tradeType :: trade_type
  bc_baseTimeframe :: dbl
  bc_sessions :: "(dbl \<times> string \<times> string \<times> string option list) option"

definition initBasicsParameters :: "(string \<Rightarrow> int \<Rightarrow> int option \<Rightarrow> string) \<Rightarrow> (string \<Rightarrow> int) \<Rightarrow> basic_conf \<Rightarrow> strategy \<Rightarrow> strategy" where
  "initBasicsParameters sub toInt32 c s =
     (let s = s\<lparr>sg_reversal := bc_reversal c, sg_hedging := bc_hedging c, sg_allowShort := bc_allowShort c,
                sg_maxTrades := bc_maxTrades c, sg_tradeDelay := bc_tradeDelay c, sg_needUpdate := bc_needUpdate c,
                sg_tradeType := bc_tradeType c, sg_baseTimeframe := bc_baseTimeframe c\<rparr>;
          s = (case bc_sessions c of
                 None \<Rightarrow> s
               | Some (tz, offset, duration, trading) \<Rightarrow>
                   s\<lparr>sg_timezone := tz, sg_sessionOffset := durationFromStr sub toInt32 offset,
                     sg_sessionDuration := durationFromStr sub toInt32 duration,
                     sg_sessions := fold (tradingSessionFromStr sub toInt32) trading (sg_sessions s)\<rparr>)
      in if sg_baseTimeframe s \<le> 0 then addDataSource SRC_TICK 0 0 s
         else addDataSource SRC_OHLC_MID (sg_baseTimeframe s) 0 s)"

definition adjustHistoryDuration :: "market \<Rightarrow> dbl \<Rightarrow> dbl \<Rightarrow> dbl" where
  "adjustHistoryDuration m history toTs = history"

definition adjustOhlcFetchRange :: "market \<Rightarrow> dbl \<Rightarrow> int \<Rightarrow> dbl \<Rightarrow> dbl \<Rightarrow> int \<Rightarrow> dbl \<times> dbl \<times> int" where
  "adjustOhlcFetchRange m history depth fromTs toTs nLast =
     (if mk_type m = TYPE_CRYPTO then
        (if fromTs \<noteq> 0 \<and> toTs \<noteq> 0 then (fromTs, toTs, 0)
         else if fromTs = 0 \<and> toTs \<noteq> 0 then
           (if history > 0 then (toTs - history + 1, toTs, nLast) else (0, toTs, depth))
         else if fromTs \<noteq> 0 \<and> toTs = 0 then (fromTs, 0, 0)
         else (0, 0, depth))
      else if toTs > 0 \<and> history > 0 then (toTs - adjustHistoryDuration m history toTs, toTs, nLast)
      else (0, toTs, depth))"

section \<open>Properties\<close>

subsection \<open>Life cycle\<close>

text \<open>Only the five setters change the state. The plugins and the handler may call them in any order.\<close>

datatype lifecycle_call = Call_initialized | Call_prepared | Call_ready | Call_running | Call_terminated

primrec lifecycle_do :: "lifecycle_call \<Rightarrow> strategy \<Rightarrow> strategy" where
  "lifecycle_do Call_initialized s = setInitialized s"
| "lifecycle_do Call_prepared s = setMarketDataPrepared s"
| "lifecycle_do Call_ready s = setReady s"
| "lifecycle_do Call_running s = setRunning s"
| "lifecycle_do Call_terminated s = setTerminated s"

definition lifecycle_run :: "lifecycle_call list \<Rightarrow> strategy" where
  "lifecycle_run cs = fold lifecycle_do cs new_strategy"

text \<open>The order of the calls in a life cycle.\<close>

definition lifecycle :: "lifecycle_call list" where
  "lifecycle = [Call_initialized, Call_prepared, Call_ready, Call_running, Call_terminated]"

fun state_rank :: "strategy_state \<Rightarrow> nat" where
  "state_rank SG_NEW = 0"
| "state_rank SG_INITIALIZED = 1"
| "state_rank SG_PREPARED_MARKET_DATA = 2"
| "state_rank SG_READY = 3"
| "state_rank SG_RUNNING = 4"
| "state_rank SG_TERMINATED = 5"
| "state_rank SG_LAST = 6"

lemma state_rank_inject [simp]: "state_rank a = state_rank b \<longleftrightarrow> a = b"
  by (cases a; cases b; simp)

definition lifecycle_ok :: "strategy \<Rightarrow> bool" where
  "lifecycle_ok s \<longleftrightarrow> state_rank (sg_curState s) \<le> 5 \<and> state_rank (sg_nextState s) = Suc (state_rank (sg_curState s))"

lemmas setter_defs = setInitialized_def setMarketDataPrepared_def setReady_def setRunning_def setTerminated_def

text \<open>A call advances the state when it is the next one of the life cycle, and changes nothing otherwise.\<close>

lemma lifecycle_do_rank:
  assumes "lifecycle_ok s"
  shows "lifecycle_ok (lifecycle_do c s)"
    and "state_rank (sg_curState (lifecycle_do c s)) =
      (let r = state_rank (sg_curState s) in if r < 5 \<and> c = lifecycle ! r then Suc r else r)"
  using assms
  by (cases c; cases "sg_curState s"; cases "sg_nextState s"; simp add: lifecycle_ok_def setter_defs lifecycle_def)+

lemma lifecycle_run_snoc [simp]: "lifecycle_run (cs @ [c]) = lifecycle_do c (lifecycle_run cs)"
  by (simp add: lifecycle_run_def)

lemma lifecycle_run_ok: "lifecycle_ok (lifecycle_run cs)"
  by (induction cs rule: rev_induct) (simp_all add: lifecycle_do_rank, simp add: lifecycle_run_def lifecycle_ok_def new_strategy_def)

lemma lifecycle_take_Suc: "k < 5 \<Longrightarrow> take (Suc k) lifecycle = take k lifecycle @ [lifecycle ! k]"
  by (rule take_Suc_conv_app_nth) (simp add: lifecycle_def)

lemma subseq_snoc: "subseq (xs @ [x]) (ys @ [y]) \<longleftrightarrow> (if x = y then subseq xs ys else subseq (xs @ [x]) ys)"
proof (induction ys arbitrary: xs)
  case Nil
  show ?case by (cases xs) auto
next
  case (Cons z ys)
  show ?case using Cons.IH [of xs] Cons.IH [of "[]"] Cons.IH [of "tl xs"] by (cases xs) (auto simp del: subseq_append)
qed

lemma lifecycle_rank:
  "k \<le> 5 \<Longrightarrow> k \<le> state_rank (sg_curState (lifecycle_run cs)) \<longleftrightarrow> subseq (take k lifecycle) cs"
proof (induction cs arbitrary: k rule: rev_induct)
  case Nil
  then show ?case by (cases k) (simp_all add: lifecycle_run_def new_strategy_def lifecycle_take_Suc)
next
  case (snoc c cs)
  define r where "r = state_rank (sg_curState (lifecycle_run cs))"
  have n: "state_rank (sg_curState (lifecycle_run (cs @ [c]))) = (if r < 5 \<and> c = lifecycle ! r then Suc r else r)"
    by (simp add: lifecycle_do_rank(2) [OF lifecycle_run_ok] r_def Let_def)
  show ?case
  proof (cases k)
    case (Suc j)
    then have "subseq (take k lifecycle) (cs @ [c]) \<longleftrightarrow>
        (if lifecycle ! j = c then subseq (take j lifecycle) cs else subseq (take k lifecycle) cs)"
      using snoc.prems by (simp add: lifecycle_take_Suc subseq_snoc)
    also have "\<dots> \<longleftrightarrow> (if lifecycle ! j = c then j \<le> r else k \<le> r)"
      using snoc.IH [of j] snoc.IH [of k] snoc.prems Suc by (simp add: r_def)
    also have "\<dots> \<longleftrightarrow> k \<le> (if r < 5 \<and> c = lifecycle ! r then Suc r else r)"
      using Suc snoc.prems by (cases "j = r") auto
    finally show ?thesis unfolding n by simp
  qed simp
qed

text \<open>
  C22: Whatever calls of the five setters a strategy receives, it has reached a state exactly when the calls that lead
  to that state occur among them in the order of the life cycle: initialized, market data prepared, ready, running, terminated. More calls
  never take it back to an earlier state, one call advances it by one state at most, and the next state is always the successor.
\<close>

theorem lifecycle_order:
  shows "(\<forall>k\<le>5. k \<le> state_rank (sg_curState (lifecycle_run cs)) \<longleftrightarrow> subseq (take k lifecycle) cs)
    \<and> state_rank (sg_curState (lifecycle_run cs)) \<le> state_rank (sg_curState (lifecycle_run (cs @ ds)))
    \<and> state_rank (sg_curState (lifecycle_run (cs @ [c]))) \<le> Suc (state_rank (sg_curState (lifecycle_run cs)))
    \<and> state_rank (sg_nextState (lifecycle_run cs)) = Suc (state_rank (sg_curState (lifecycle_run cs)))"
proof (intro conjI)
  have ok: "lifecycle_ok (lifecycle_run cs)" by (rule lifecycle_run_ok)
  show "state_rank (sg_curState (lifecycle_run cs)) \<le> state_rank (sg_curState (lifecycle_run (cs @ ds)))"
    using lifecycle_rank [of "state_rank (sg_curState (lifecycle_run cs))"] ok
    by (simp add: lifecycle_ok_def) (metis lifecycle_rank list_emb_prefix order_refl)
  show "state_rank (sg_curState (lifecycle_run (cs @ [c]))) \<le> Suc (state_rank (sg_curState (lifecycle_run cs)))"
    by (simp add: lifecycle_do_rank(2) [OF ok] Let_def)
  show "state_rank (sg_nextState (lifecycle_run cs)) = Suc (state_rank (sg_curState (lifecycle_run cs)))"
    using ok by (simp add: lifecycle_ok_def)
qed (simp add: lifecycle_rank)

text \<open>
  The calls that make a strategy ready, with one that comes too early: a call to run it then works, and a second call to make it ready
  is too late.
\<close>

theorem lifecycle_order_witness:
  "let cs = [Call_initialized, Call_running, Call_prepared, Call_ready]
   in sg_curState (lifecycle_run cs) = SG_READY \<and> sg_curState (lifecycle_run (cs @ [Call_running, Call_ready])) = SG_RUNNING
     \<and> 3 \<le> state_rank (sg_curState (lifecycle_run cs)) \<and> \<not> 4 \<le> state_rank (sg_curState (lifecycle_run cs))"
proof -
  define cs where "cs = [Call_initialized, Call_running, Call_prepared, Call_ready]"
  have "subseq (take 3 lifecycle) cs" "\<not> subseq (take 4 lifecycle) cs" unfolding cs_def by code_simp+
  then have "3 \<le> state_rank (sg_curState (lifecycle_run cs))" "\<not> 4 \<le> state_rank (sg_curState (lifecycle_run cs))"
    using lifecycle_order [of cs "[]" Call_ready] by simp_all
  moreover have "sg_curState (lifecycle_run cs) = SG_READY" "sg_curState (lifecycle_run (cs @ [Call_running, Call_ready])) = SG_RUNNING"
    unfolding cs_def by code_simp+
  ultimately show ?thesis by (simp add: cs_def)
qed

subsection \<open>Closed trades\<close>

datatype outcome = Even | Loss | Win | Flat

definition outcome_of :: "market \<Rightarrow> dbl \<Rightarrow> outcome" where
  "outcome_of m r =
     (if \<bar>r * mk_mid m\<bar> < mk_spread m then Even else if r < 0 then Loss else if r > 0 then Win else Flat)"

text \<open>The length of the run of an outcome at the end of a list, and of its longest run.\<close>

definition trailing :: "'a \<Rightarrow> 'a list \<Rightarrow> nat" where
  "trailing x xs = length (takeWhile ((=) x) (rev xs))"

definition longest_run :: "'a \<Rightarrow> 'a list \<Rightarrow> nat" where
  "longest_run x xs = Max ((\<lambda>k. trailing x (take k xs)) ` {..length xs})"

lemma trailing_snoc [simp]: "trailing x [] = 0" "trailing x (xs @ [y]) = (if x = y then Suc (trailing x xs) else 0)"
  by (simp_all add: trailing_def)

lemma longest_run_snoc [simp]:
  "longest_run x [] = 0" "longest_run x (xs @ [y]) = max (longest_run x xs) (trailing x (xs @ [y]))"
proof -
  let ?f = "\<lambda>k. trailing x (take k (xs @ [y]))"
  have "?f ` {..length (xs @ [y])} = insert (trailing x (xs @ [y])) ((\<lambda>k. trailing x (take k xs)) ` {..length xs})"
    by (auto simp: atMost_Suc image_iff)
  then show "longest_run x (xs @ [y]) = max (longest_run x xs) (trailing x (xs @ [y]))"
    by (simp only: longest_run_def) (simp add: Max_insert max.commute)
qed (simp add: longest_run_def)

lemma count_trade_fields:
  "st_prevDir (count_trade m r reason s) =
     (case outcome_of m r of Even \<Rightarrow> 0 | Loss \<Rightarrow> (if st_prevDir s \<le> 0 then st_prevDir s - 1 else -1)
      | Win \<Rightarrow> (if st_prevDir s \<ge> 0 then st_prevDir s + 1 else 1) | Flat \<Rightarrow> st_prevDir s)"
  "st_maxAdjacentWin (count_trade m r reason s) =
     (if outcome_of m r = Win then max (st_maxAdjacentWin s) (if st_prevDir s \<ge> 0 then st_prevDir s + 1 else 1) else st_maxAdjacentWin s)"
  "st_maxAdjacentLoss (count_trade m r reason s) =
     (if outcome_of m r = Loss then max (st_maxAdjacentLoss s) (if st_prevDir s \<le> 0 then 1 - st_prevDir s else 1) else st_maxAdjacentLoss s)"
  "st_succeedTrades (count_trade m r reason s) = st_succeedTrades s + (if outcome_of m r = Win then 1 else 0)"
  "st_failedTrades (count_trade m r reason s) = st_failedTrades s + (if outcome_of m r = Loss then 1 else 0)"
  "st_roeTrades (count_trade m r reason s) = st_roeTrades s + (if outcome_of m r = Even then 1 else 0)"
  "st_performance (count_trade m r reason s) = st_performance s" "st_totalTrades (count_trade m r reason s) = st_totalTrades s"
  "st_best (count_trade m r reason s) = st_best s" "st_worst (count_trade m r reason s) = st_worst s"
  by (simp_all add: count_trade_def count_loss_def count_win_def outcome_of_def Let_def)

lemma daily_frame [simp]:
  "st_prevDir (daily_performance dl now r s) = st_prevDir s" "st_maxAdjacentWin (daily_performance dl now r s) = st_maxAdjacentWin s"
  "st_maxAdjacentLoss (daily_performance dl now r s) = st_maxAdjacentLoss s"
  "st_succeedTrades (daily_performance dl now r s) = st_succeedTrades s" "st_failedTrades (daily_performance dl now r s) = st_failedTrades s"
  "st_roeTrades (daily_performance dl now r s) = st_roeTrades s" "st_performance (daily_performance dl now r s) = st_performance s"
  "st_totalTrades (daily_performance dl now r s) = st_totalTrades s" "st_best (daily_performance dl now r s) = st_best s"
  "st_worst (daily_performance dl now r s) = st_worst s"
  by (simp_all add: daily_performance_def Let_def)

lemma stats_addTrade_frame [simp]:
  "st_prevDir (stats_addTrade t s) = st_prevDir s" "st_maxAdjacentWin (stats_addTrade t s') = st_maxAdjacentWin s'"
  "st_maxAdjacentLoss (stats_addTrade t s') = st_maxAdjacentLoss s'"
  "st_succeedTrades (stats_addTrade t s') = st_succeedTrades s'" "st_failedTrades (stats_addTrade t s') = st_failedTrades s'"
  "st_roeTrades (stats_addTrade t s') = st_roeTrades s'" "st_performance (stats_addTrade t s') = st_performance s'"
  "st_totalTrades (stats_addTrade t s') = st_totalTrades s'" "st_best (stats_addTrade t s') = st_best s'"
  "st_worst (stats_addTrade t s') = st_worst s'"
  by (simp_all add: stats_addTrade_def)

text \<open>The closed trades of a run, each with the market and the time of its closing.\<close>

type_synonym closing = "market \<times> dbl \<times> any_trade"

definition closed_trades :: "date_lib \<Rightarrow> closing list \<Rightarrow> statistics" where
  "closed_trades dl cls = fold (\<lambda>(m, now, t). addClosedTrade dl m now t) cls new_statistics"

definition rates :: "closing list \<Rightarrow> dbl list" where
  "rates cls = map (\<lambda>(m, now, t). net_rate t) cls"

definition outcomes :: "closing list \<Rightarrow> outcome list" where
  "outcomes cls = filter ((\<noteq>) Flat) (map (\<lambda>(m, now, t). outcome_of m (net_rate t)) cls)"

definition run_state :: "outcome list \<Rightarrow> int" where
  "run_state xs = (if trailing Win xs > 0 then int (trailing Win xs) else - int (trailing Loss xs))"

lemma run_state_snoc:
  "run_state [] = 0"
  "run_state (xs @ [Win]) = (if run_state xs \<ge> 0 then run_state xs + 1 else 1)"
  "run_state (xs @ [Loss]) = (if run_state xs \<le> 0 then run_state xs - 1 else -1)"
  "run_state (xs @ [Even]) = 0"
proof -
  have "trailing Win xs = 0 \<or> trailing Loss xs = 0"
    by (cases xs rule: rev_cases) auto
  then show "run_state (xs @ [Win]) = (if run_state xs \<ge> 0 then run_state xs + 1 else 1)"
    "run_state (xs @ [Loss]) = (if run_state xs \<le> 0 then run_state xs - 1 else -1)"
    by (auto simp: run_state_def)
qed (simp_all add: run_state_def)

text \<open>
  C21: The statistics of a run of closed trades: the performance is the sum of the net rates, the best and the worst are their extremes and 0,
  and the longest runs of wins and of losses are those of the list of outcomes, where a trade that moved less than the spread
  breaks a run and counts for neither side.
\<close>

theorem closed_trades_stats:
  assumes "\<forall>(m, now, t)\<in>set cls. vt_isClosed t \<and> \<not> vt_isCanceled t"
  shows "st_performance (closed_trades dl cls) = sum_list (rates cls)
    \<and> st_totalTrades (closed_trades dl cls) = int (length cls)
    \<and> st_best (closed_trades dl cls) = Max (insert 0 (set (rates cls))) \<and> st_worst (closed_trades dl cls) = Min (insert 0 (set (rates cls)))
    \<and> st_succeedTrades (closed_trades dl cls) = int (count_list (outcomes cls) Win)
    \<and> st_failedTrades (closed_trades dl cls) = int (count_list (outcomes cls) Loss)
    \<and> st_roeTrades (closed_trades dl cls) = int (count_list (outcomes cls) Even)
    \<and> st_maxAdjacentWin (closed_trades dl cls) = int (longest_run Win (outcomes cls))
    \<and> st_maxAdjacentLoss (closed_trades dl cls) = int (longest_run Loss (outcomes cls))
    \<and> st_prevDir (closed_trades dl cls) = run_state (outcomes cls)"
  using assms
proof (induction cls rule: rev_induct)
  case Nil
  then show ?case
    by (simp add: closed_trades_def rates_def outcomes_def new_statistics_def new_base_stats_def base_stats.defs run_state_snoc)
next
  case (snoc c cls)
  obtain m now t where c: "c = (m, now, t)" by (cases c)
  have t: "vt_isClosed t" "\<not> vt_isCanceled t" using snoc.prems by (simp_all add: c)
  define s where "s = closed_trades dl cls"
  have n: "closed_trades dl (cls @ [c]) = addClosedTrade dl m now t s" by (simp add: closed_trades_def c s_def)
  have r: "rates (cls @ [c]) = rates cls @ [net_rate t]" by (simp add: rates_def c)
  have o: "outcomes (cls @ [c]) = (if outcome_of m (net_rate t) = Flat then outcomes cls else outcomes cls @ [outcome_of m (net_rate t)])"
    by (simp add: outcomes_def c)
  have IH: "st_performance s = sum_list (rates cls)" "st_totalTrades s = int (length cls)" "st_best s = Max (insert 0 (set (rates cls)))"
    "st_worst s = Min (insert 0 (set (rates cls)))" "st_succeedTrades s = int (count_list (outcomes cls) Win)"
    "st_failedTrades s = int (count_list (outcomes cls) Loss)" "st_roeTrades s = int (count_list (outcomes cls) Even)"
    "st_maxAdjacentWin s = int (longest_run Win (outcomes cls))" "st_maxAdjacentLoss s = int (longest_run Loss (outcomes cls))"
    "st_prevDir s = run_state (outcomes cls)"
    using snoc by (simp_all add: s_def)
  have e: "Max (insert 0 (set (rates cls @ [net_rate t]))) = max (Max (insert 0 (set (rates cls)))) (net_rate t)"
    "Min (insert 0 (set (rates cls @ [net_rate t]))) = min (Min (insert 0 (set (rates cls)))) (net_rate t)"
    by (simp_all add: insert_commute [of 0] max.commute min.commute del: Max_insert Min_insert)
      (simp_all add: Max_insert Min_insert)
  have tr: "1 + int (trailing Win (outcomes cls)) = (if run_state (outcomes cls) \<ge> 0 then run_state (outcomes cls) + 1 else 1)"
    "1 + int (trailing Loss (outcomes cls)) = (if run_state (outcomes cls) \<le> 0 then 1 - run_state (outcomes cls) else 1)"
    using run_state_snoc(2,3) [of "outcomes cls"] by (simp_all add: run_state_def split: if_splits)
  show ?case
    unfolding n r o e
    by (cases "outcome_of m (net_rate t)")
      (simp_all add: addClosedTrade_def t Let_def count_trade_fields IH run_state_snoc tr of_nat_max)
qed

definition closing_at :: "dbl \<Rightarrow> closing" where
  "closing_at r = ((new_market TYPE_CRYPTO CONTRACT_SPOT UNIT_AMOUNT ''BTCEUR'' ''BTC/EUR'' ''BTC'' ''EUR'')\<lparr>mk_bid := 99, mk_ask := 101\<rparr>,
     60, PositionTrade (new_position_trade\<lparr>pt_exitState := STATE_FILLED, tr_profitLossRate := r\<rparr>))"

theorem closed_trades_stats_witness:
  "st_maxAdjacentWin (closed_trades no_dates (map closing_at [1 / 10, 1 / 5, 1 / 100, - 1 / 10, 1 / 2])) = 2
    \<and> st_roeTrades (closed_trades no_dates (map closing_at [1 / 10, 1 / 5, 1 / 100, - 1 / 10, 1 / 2])) = 1"
proof -
  let ?cls = "map closing_at [1 / 10, 1 / 5, 1 / 100, - 1 / 10, 1 / 2]"
  have "\<forall>(m, now, t)\<in>set ?cls. vt_isClosed t \<and> \<not> vt_isCanceled t"
    by (simp add: closing_at_def pt_isClosed_def pt_isCanceled_def new_position_trade_def trade.defs)
  moreover have "outcomes ?cls = [Win, Win, Even, Loss, Win]" by code_simp
  moreover have "longest_run Win [Win, Win, Even, Loss, Win] = 2" by code_simp
  ultimately show ?thesis using closed_trades_stats [of ?cls no_dates] by simp
qed

subsection \<open>Sessions\<close>

text \<open>
  A session read from a text of the configuration allows trading exactly on its days, within its hours: \<^verbatim>\<open>any\<close> is the whole week, \<^verbatim>\<open>dow\<close>
  Monday to Friday.
\<close>

theorem session_window:
  assumes "count_list v (CHR ''/'') = 1" and "dow = sub v 0 (Some (find_char (CHR ''/'') v))" and "day_of_week dow = Some d"
    and "fromTime = durationFromStr sub conv (sub v (find_char (CHR ''/'') v + 1) (Some (find_char (CHR ''-'') v)))"
    and "toTime = durationFromStr sub conv (sub v (find_char (CHR ''-'') v + 1) None)"
    and "today = dl_fromTime dl (timestamp + sg_timezone s * 3600)" and "dl_getIsoDayOfWeek dl today \<in> {1..7}"
    and "sg_sessions s = tradingSessionFromStr sub conv (Some v) []"
  shows "allowedTradingSession dl timestamp s \<longleftrightarrow>
     dl_getIsoDayOfWeek dl today \<in> (if dow = ''any'' then {1..7} else if dow = ''dow'' then {1..5} else {d})
     \<and> of_int (dt_hour today * 3600 + dt_minute today * 60 + dt_second today) \<in> {fromTime..toTime}"
proof -
  define days where "days = (if dow = ''any'' then [1, 2, 3, 4, 5, 6, 7] else if dow = ''dow'' then [1, 2, 3, 4, 5] else [d])"
  have s: "sg_sessions s = sessions_on days fromTime toTime"
    using assms(1,3,8) by (simp add: tradingSessionFromStr_def Let_def assms(2) [symmetric] assms(4,5) days_def)
  have "set days = (if dow = ''any'' then {1..7} else if dow = ''dow'' then {1..5} else {d})"
    by (auto simp: days_def)
  moreover have "sg_sessions s \<noteq> []" by (simp add: s sessions_on_def days_def)
  moreover have "(\<exists>n\<in>set (sg_sessions s). sn_dayOfWeek n = k \<and> sn_fromTime n \<le> x \<and> x \<le> sn_toTime n) \<longleftrightarrow> k \<in> set days \<and> x \<in> {fromTime..toTime}"
    for k x by (auto simp: s sessions_on_def)
  ultimately show ?thesis by (simp add: allowedTradingSession_def Let_def assms(6) [symmetric])
qed

text \<open>The substring and the conversion of the O3D strings, on the texts of the example.\<close>

definition plain_sub :: "string \<Rightarrow> int \<Rightarrow> int option \<Rightarrow> string" where
  "plain_sub s a b = (case b of None \<Rightarrow> drop (nat a) s | Some e \<Rightarrow> take (nat (e - a)) (drop (nat a) s))"

definition one_day :: date_lib where
  "one_day = no_dates\<lparr>dl_fromTime := (\<lambda>ts. (dl_new no_dates)\<lparr>dt_hour := 16, dt_minute := 0, dt_second := 0\<rparr>), dl_getIsoDayOfWeek := (\<lambda>d. 6)\<rparr>"

theorem session_window_witness:
  "\<not> allowedTradingSession one_day 0 (new_strategy\<lparr>sg_sessions := tradingSessionFromStr plain_sub parse_int (Some ''dow/15:30-21:30'') []\<rparr>)"
proof -
  let ?s = "new_strategy\<lparr>sg_sessions := tradingSessionFromStr plain_sub parse_int (Some ''dow/15:30-21:30'') []\<rparr>"
  have v: "count_list ''dow/15:30-21:30'' (CHR ''/'') = 1" "plain_sub ''dow/15:30-21:30'' 0 (Some (find_char (CHR ''/'') ''dow/15:30-21:30'')) = ''dow''"
    "day_of_week ''dow'' = Some (-1)"
    by code_simp+
  have d: "dl_getIsoDayOfWeek one_day x = 6" for x by (simp add: one_day_def)
  have "allowedTradingSession one_day 0 ?s \<longleftrightarrow>
     dl_getIsoDayOfWeek one_day (dl_fromTime one_day (0 + sg_timezone ?s * 3600)) \<in> (if ''dow'' = ''any'' then {1..7} else if ''dow'' = ''dow'' then {1..5} else {-1})
     \<and> of_int (dt_hour (dl_fromTime one_day (0 + sg_timezone ?s * 3600)) * 3600 + dt_minute (dl_fromTime one_day (0 + sg_timezone ?s * 3600)) * 60
         + dt_second (dl_fromTime one_day (0 + sg_timezone ?s * 3600)))
       \<in> {durationFromStr plain_sub parse_int (plain_sub ''dow/15:30-21:30'' (find_char (CHR ''/'') ''dow/15:30-21:30'' + 1) (Some (find_char (CHR ''-'') ''dow/15:30-21:30'')))..
          durationFromStr plain_sub parse_int (plain_sub ''dow/15:30-21:30'' (find_char (CHR ''-'') ''dow/15:30-21:30'' + 1) None)}"
    by (rule session_window [where sub = plain_sub and conv = parse_int and s = ?s and dl = one_day and timestamp = 0,
        OF v(1) v(2) [symmetric] v(3) refl refl refl]) (simp_all add: d)
  then show ?thesis by (simp add: d)
qed

end
