(* ===== verification/Trade_Manager.thy ===== *)
theory Trade_Manager
  imports Trade_Pool Trade_Frames Strategy_Base "HOL-Library.Sublist" "HOL-Library.Multiset"
begin

text \<open>
  \<^verbatim>\<open>strategies/src/trade/stdtrademanager.cpp\<close>: the list of the trades of a strategy. A pointer to a trade is its place in the list. The
  mutex is left out, the messages that \<^verbatim>\<open>process\<close> logs too.
\<close>

section \<open>Management\<close>

definition tm_addTrade :: "any_trade \<Rightarrow> any_trade list \<Rightarrow> any_trade list" where
  "tm_addTrade t ts = ts @ [t]"

text \<open>What \<^verbatim>\<open>process\<close> does with each trade, and whether the trade is to be removed.\<close>

definition tm_step :: "'w proxy \<Rightarrow> 'w strategy_hooks \<Rightarrow> dbl \<Rightarrow> any_trade \<Rightarrow> 'w \<Rightarrow> any_trade \<times> bool \<times> 'w" where
  "tm_step px hk timestamp t w =
     (let (t, w) = vt_process px hk t w;
          t = vt_updateStats (mk_last (px_market px w)) timestamp t;
          (t, w) = (if tr_isEntryTimeout (vt_isOpened t) (vt_base t) timestamp 0 then vt_cancelOpen px t w else (t, w))
      in (t, vt_canDelete t, w))"

fun tm_loop :: "'w proxy \<Rightarrow> 'w strategy_hooks \<Rightarrow> dbl \<Rightarrow> any_trade list \<Rightarrow> 'w \<Rightarrow> (any_trade \<times> bool) list \<times> 'w" where
  "tm_loop px hk timestamp [] w = ([], w)"
| "tm_loop px hk timestamp (t # ts) w =
     (let (t, del, w) = tm_step px hk timestamp t w;
          (rs, w) = tm_loop px hk timestamp ts w
      in ((t, del) # rs, w))"

text \<open>The removed trades go to the statistics of the strategy and back to the pool, in order.\<close>

definition tm_process :: "'w proxy \<Rightarrow> 'w strategy_hooks \<Rightarrow> date_lib \<Rightarrow> dbl \<Rightarrow> dbl
    \<Rightarrow> any_trade list \<Rightarrow> statistics \<Rightarrow> pool \<Rightarrow> 'w \<Rightarrow> any_trade list \<times> statistics \<times> pool \<times> 'w" where
  "tm_process px hk dl lastTimestamp timestamp ts st p w =
     (let (rs, w) = tm_loop px hk timestamp ts w;
          removed = map fst (filter snd rs)
      in (map fst (filter (Not \<circ> snd) rs), fold (addClosedTrade dl (px_market px w) lastTimestamp) removed st, fold freeTrade removed p, w))"

text \<open>A trade that is taken out of the list by hand: the pointer is its place.\<close>

definition tm_removeTrade :: "nat \<Rightarrow> any_trade list \<Rightarrow> pool \<Rightarrow> any_trade list \<times> pool" where
  "tm_removeTrade k ts p = (if k < length ts then (take k ts @ drop (Suc k) ts, freeTrade (ts ! k) p) else (ts, p))"

definition tm_terminate :: "any_trade list \<Rightarrow> pool \<Rightarrow> pool" where
  "tm_terminate ts p = fold freeTrade ts p"

section \<open>Queries\<close>

definition tm_hasTrades :: "any_trade list \<Rightarrow> bool" where
  "tm_hasTrades ts \<longleftrightarrow> ts \<noteq> []"

definition tm_hasTradesByDirection :: "int \<Rightarrow> any_trade list \<Rightarrow> bool" where
  "tm_hasTradesByDirection dir ts \<longleftrightarrow> (\<exists>t\<in>set ts. vt_direction t = dir)"

definition tm_hasTradeById :: "int \<Rightarrow> any_trade list \<Rightarrow> bool" where
  "tm_hasTradeById i ts \<longleftrightarrow> (\<exists>t\<in>set ts. vt_id t = i)"

definition tm_numTrades :: "any_trade list \<Rightarrow> int" where
  "tm_numTrades ts = int (length ts)"

definition tm_numActiveTrades :: "any_trade list \<Rightarrow> int" where
  "tm_numActiveTrades ts = foldl (\<lambda>n t. if vt_isClosed t \<or> vt_isClosing t then n - 1 else n) (int (length ts)) ts"

definition tm_getTrade :: "int \<Rightarrow> any_trade list \<Rightarrow> any_trade option" where
  "tm_getTrade i = find (\<lambda>t. vt_id t = i)"

definition tm_hasTradeByTimeframe :: "dbl \<Rightarrow> any_trade list \<Rightarrow> bool" where
  "tm_hasTradeByTimeframe tf ts \<longleftrightarrow> (\<exists>t\<in>set ts. tr_timeframe (vt_base t) = tf)"

definition tm_findTrade :: "dbl \<Rightarrow> any_trade list \<Rightarrow> any_trade option" where
  "tm_findTrade tf = find (\<lambda>t. tr_timeframe (vt_base t) = tf)"

record performance =
  pf_performance :: dbl
  pf_drawDownRate :: dbl
  pf_drawDown :: dbl
  pf_pending :: int
  pf_actives :: int

definition tm_performance_step :: "market \<Rightarrow> performance \<Rightarrow> any_trade \<Rightarrow> performance" where
  "tm_performance_step m pf t =
     (if vt_isActive t
      then pf\<lparr>pf_actives := pf_actives pf + 1,
              pf_drawDown := pf_drawDown pf + ts_unrealizedProfitLoss (tr_stats (vt_base t)),
              pf_performance := pf_performance pf + estimateProfitLossRate m (vt_base t)\<rparr>
      else pf\<lparr>pf_pending := pf_pending pf + 1\<rparr>)"

definition tm_computePerformance :: "market \<Rightarrow> any_trade list \<Rightarrow> performance" where
  "tm_computePerformance m ts =
     (let pf = foldl (tm_performance_step m)
                 \<lparr>pf_performance = 0, pf_drawDownRate = 0, pf_drawDown = 0, pf_pending = 0, pf_actives = 0\<rparr> ts;
          pf = (if pf_performance pf < 0 then pf\<lparr>pf_drawDownRate := - pf_performance pf\<rparr> else pf)
      in if pf_drawDown pf < 0 then pf\<lparr>pf_drawDown := - pf_drawDown pf\<rparr> else pf)"

section \<open>Closing\<close>

definition tm_close_one :: "'w proxy \<Rightarrow> any_trade \<Rightarrow> 'w \<Rightarrow> any_trade \<times> 'w" where
  "tm_close_one px t w =
     (if vt_isActive t then vt_close px REASON_CLOSE_MARKET t w
      else if \<not> vt_isActive t then vt_cancelOpen px t w
      else (t, w))"

fun tm_closeAll :: "'w proxy \<Rightarrow> any_trade list \<Rightarrow> 'w \<Rightarrow> int \<times> any_trade list \<times> 'w" where
  "tm_closeAll px [] w = (0, [], w)"
| "tm_closeAll px (t # ts) w =
     (let (t, w) = tm_close_one px t w;
          (n, ts, w) = tm_closeAll px ts w
      in (n + 1, t # ts, w))"

fun tm_closeAllByDirection :: "'w proxy \<Rightarrow> int \<Rightarrow> any_trade list \<Rightarrow> 'w \<Rightarrow> int \<times> any_trade list \<times> 'w" where
  "tm_closeAllByDirection px dir [] w = (0, [], w)"
| "tm_closeAllByDirection px dir (t # ts) w =
     (if vt_direction t \<noteq> dir then
        (let (n, ts, w) = tm_closeAllByDirection px dir ts w in (n, t # ts, w))
      else
        (let (t, w) = tm_close_one px t w;
             (n, ts, w) = tm_closeAllByDirection px dir ts w
         in (n + 1, t # ts, w)))"

section \<open>Signals\<close>

text \<open>Only the first trade that a signal targets gets it.\<close>

fun tm_onOrderSignal :: "market \<Rightarrow> dbl \<Rightarrow> order_signal \<Rightarrow> any_trade list \<Rightarrow> any_trade list" where
  "tm_onOrderSignal m u sg [] = []"
| "tm_onOrderSignal m u sg (t # ts) =
     (if vt_isTargetOrder t (or_orderId sg) (or_refId sg) then vt_orderSignal m u sg t # ts
      else t # tm_onOrderSignal m u sg ts)"

fun tm_onPositionSignal :: "position_signal \<Rightarrow> any_trade list \<Rightarrow> any_trade list" where
  "tm_onPositionSignal ps [] = []"
| "tm_onPositionSignal ps (t # ts) =
     (if vt_isTargetPosition t (po_positionId ps) (po_refOrderId ps) then vt_positionSignal ps t # ts
      else t # tm_onPositionSignal ps ts)"

section \<open>Identifiers\<close>

abbreviation ids :: "any_trade list \<Rightarrow> int list" where "ids ts \<equiv> map vt_id ts"

lemma tm_step_id: "hooks_ok hk \<Longrightarrow> tm_step px hk now t w = (t', del, w') \<Longrightarrow> vt_id t' = vt_id t \<and> del = vt_canDelete t'"
  by (auto simp: tm_step_def Let_def split_beta)

lemma tm_loop_ids:
  "hooks_ok hk \<Longrightarrow> tm_loop px hk now ts w = (rs, w') \<Longrightarrow> ids (map fst rs) = ids ts \<and> (\<forall>(t, del)\<in>set rs. del = vt_canDelete t)"
  by (induction ts arbitrary: rs w w') (fastforce simp: Let_def split_beta prod_eq_iff dest: tm_step_id)+

lemma tm_close_one_id [simp]: "vt_id (fst (tm_close_one px t w)) = vt_id t"
  by (simp add: tm_close_one_def)

lemma tm_closeAll_ids [simp]: "ids (fst (snd (tm_closeAll px ts w))) = ids ts"
  by (induction ts arbitrary: w) (simp_all add: Let_def split_beta)

lemma tm_closeAllByDirection_ids [simp]: "ids (fst (snd (tm_closeAllByDirection px dir ts w))) = ids ts"
  by (induction ts arbitrary: w) (simp_all add: Let_def split_beta)

lemma tm_signal_ids [simp]: "ids (tm_onOrderSignal m u sg ts) = ids ts" "ids (tm_onPositionSignal ps ts) = ids ts"
  by (induction ts) simp_all

lemma freeTrade_free: "pl_free (freeTrade t p) ty = pl_free p ty @ (if vt_type t = ty then [vt_init 0 t] else [])"
  by (simp add: freeTrade_def Let_def)

lemma freeTrades_free:
  "pl_free (fold freeTrade ts p) ty = pl_free p ty @ map (vt_init 0) (filter (\<lambda>t. vt_type t = ty) ts)"
  by (induction ts arbitrary: p) (simp_all add: freeTrade_free)

lemma freeTrades_ok: "pool_ok p \<Longrightarrow> pool_ok (fold freeTrade ts p)"
  by (induction ts arbitrary: p) (simp_all add: freeTrade_ok)

lemma freeTrades_next [simp]: "pl_nextTradeId (fold freeTrade ts p) = pl_nextTradeId p"
  by (induction ts arbitrary: p) (simp_all add: freeTrade_def Let_def)

lemma freeTrade_next [simp]: "pl_nextTradeId (freeTrade t p) = pl_nextTradeId p"
  by (simp add: freeTrade_def Let_def)

section \<open>Process\<close>

text \<open>
  C6: \<^verbatim>\<open>process\<close> takes out of the list exactly the trades that can be deleted, none of which is still in the market; the others stay in
  order. Each removed trade is counted in the statistics of the strategy, and its place is given back to the pool of its kind.
\<close>

theorem process_purges:
  assumes "hooks_ok hk" and "tm_process px hk dl lastTs now ts st p w = (ts', st', p', w')"
  shows "\<exists>removed. mset (ids ts') + mset (ids removed) = mset (ids ts) \<and> subseq (ids ts') (ids ts)
    \<and> (\<forall>t\<in>set ts'. \<not> vt_canDelete t) \<and> (\<forall>t\<in>set removed. vt_canDelete t \<and> \<not> vt_isActive t)
    \<and> st' = fold (addClosedTrade dl (px_market px w') lastTs) removed st
    \<and> (\<forall>ty. pl_free p' ty = pl_free p ty @ map (vt_init 0) (filter (\<lambda>t. vt_type t = ty) removed))"
proof -
  obtain rs where l: "tm_loop px hk now ts w = (rs, w')" by (cases "tm_loop px hk now ts w") (use assms(2) in \<open>auto simp: tm_process_def Let_def\<close>)
  note i = tm_loop_ids [OF assms(1) l]
  let ?removed = "map fst (filter snd rs)"
  have o: "ts' = map fst (filter (Not \<circ> snd) rs)" "st' = fold (addClosedTrade dl (px_market px w') lastTs) ?removed st"
    "p' = fold freeTrade ?removed p"
    using assms(2) by (auto simp: tm_process_def l Let_def)
  have "mset (ids (map fst rs)) = mset (ids ts') + mset (ids ?removed)"
    unfolding o(1) by (induction rs) auto
  then have "mset (ids ts') + mset (ids ?removed) = mset (ids ts)"
    using i by (metis (no_types, lifting))
  moreover have "subseq (ids ts') (ids (map fst rs))" unfolding o(1) by (intro subseq_map subseq_filter_left)
  moreover have "\<forall>t\<in>set ?removed. vt_canDelete t \<and> \<not> vt_isActive t"
    using i vt.deletable_not_active by (auto simp: vt_canDelete_def)
  moreover have "\<forall>t\<in>set ts'. \<not> vt_canDelete t" using i by (auto simp: o(1))
  moreover have "\<forall>ty. pl_free p' ty = pl_free p ty @ map (vt_init 0) (filter (\<lambda>t. vt_type t = ty) ?removed)"
    by (simp add: o(3) freeTrades_free)
  ultimately show ?thesis using i o(2) by (intro exI [of _ ?removed]) (simp del: map_map mset_map)
qed

text \<open>A closed position trade and one that was never opened.\<close>

definition no_hooks :: "nat strategy_hooks" where
  "no_hooks = \<lparr>sh_updateInd = Pair, sh_updatePosition = Pair\<rparr>"

lemma no_hooks_ok [simp]: "hooks_ok no_hooks"
  by (simp add: hooks_ok_def no_hooks_def)

definition two_trades :: "any_trade list" where
  "two_trades = [PositionTrade (new_position_trade\<lparr>tr_id := 1, pt_entryState := STATE_FILLED, pt_exitState := STATE_FILLED\<rparr>),
     PositionTrade (new_position_trade\<lparr>tr_id := 2, pt_entryOrderId := ''o''\<rparr>)]"

lemma two_trades_defs: "distinct (ids two_trades)" "hd two_trades \<in> set two_trades" "vt_canDelete (hd two_trades)"
  "\<not> vt_isOpened (hd two_trades)" "ids two_trades = [1, 2]"
  by (simp_all add: two_trades_def new_position_trade_def trade.defs vt_canDelete_def tr_canDelete_def pt_state_defs)

theorem process_purges_witness:
  "\<exists>removed. mset (ids (fst (tm_process demo_proxy no_hooks no_dates 0 60 two_trades new_statistics new_pool 0))) + mset (ids removed)
     = {#1, 2#} \<and> (\<forall>t\<in>set removed. \<not> vt_isActive t)"
proof -
  obtain ts' st' p' w' where r: "tm_process demo_proxy no_hooks no_dates 0 60 two_trades new_statistics new_pool 0 = (ts', st', p', w')"
    by (rule prod_cases4)
  from process_purges [OF no_hooks_ok r] show ?thesis unfolding r two_trades_defs(5) by auto
qed

lemma updateStats_on_stats: "updateStats p ts t = on_stats (\<lambda>_. tr_stats (updateStats p ts t)) t"
  by (simp add: on_stats_def updateStats_def Let_def)

lemma on_stats_state [simp]:
  "mt_isActive (on_stats f t1) = mt_isActive t1" "mt_isClosed (on_stats f t1) = mt_isClosed t1"
  "mt_isCanceled (on_stats f t1) = mt_isCanceled t1" "mt_isOpened (on_stats f t1) = mt_isOpened t1"
  "it_isActive (on_stats f t2) = it_isActive t2" "it_isClosed (on_stats f t2) = it_isClosed t2"
  "it_isCanceled (on_stats f t2) = it_isCanceled t2" "it_isOpened (on_stats f t2) = it_isOpened t2"
  "pt_isActive (on_stats f t3) = pt_isActive t3" "pt_isClosed (on_stats f t3) = pt_isClosed t3"
  "pt_isCanceled (on_stats f t3) = pt_isCanceled t3" "pt_isOpened (on_stats f t3) = pt_isOpened t3"
  "at_isCanceled (on_stats f t4) = at_isCanceled t4"
  by (simp_all add: mt_isActive_def mt_isClosed_def mt_isCanceled_def mt_isOpened_def it_state_defs pt_state_defs at_isCanceled_def on_stats_def)

lemma vt_updateStats_state [simp]:
  "vt_canDelete (vt_updateStats p ts t) = vt_canDelete t" "vt_isOpened (vt_updateStats p ts t) = vt_isOpened t"
proof -
  have u: "vt_updateStats p ts (AssetTrade t1) = AssetTrade (on_stats (\<lambda>_. tr_stats (updateStats p ts t1)) t1)"
    "vt_updateStats p ts (MarginTrade t2) = MarginTrade (on_stats (\<lambda>_. tr_stats (updateStats p ts t2)) t2)"
    "vt_updateStats p ts (IndMarginTrade t3) = IndMarginTrade (on_stats (\<lambda>_. tr_stats (updateStats p ts t3)) t3)"
    "vt_updateStats p ts (PositionTrade t4) = PositionTrade (on_stats (\<lambda>_. tr_stats (updateStats p ts t4)) t4)"
    for t1 t2 t3 t4 by (simp_all only: vt_updateStats.simps updateStats_on_stats [symmetric])
  show "vt_canDelete (vt_updateStats p ts t) = vt_canDelete t" "vt_isOpened (vt_updateStats p ts t) = vt_isOpened t"
    by (cases t; simp only: u vt_canDelete_def vt_isClosed.simps vt_isCanceled.simps vt_isOpened.simps on_stats_state)+
qed

lemma vt_process_idle: "\<not> vt_isActive t \<Longrightarrow> vt_process px hk t w = (t, w)"
  by (cases t) (simp_all add: lift_op_def mt_process_def it_process_def pt_process_def)

lemma over_removed:
  assumes "vt_canDelete t" and "\<not> vt_isOpened t"
  shows "snd (fst (let (t, del, w) = tm_step px hk now t w in ((t, del), w)))"
proof -
  have "\<not> vt_isActive t" using assms(1) vt.deletable_not_active by (auto simp: vt_canDelete_def)
  then have "vt_process px hk t w = (t, w)" by (rule vt_process_idle)
  with assms show ?thesis by (simp add: tm_step_def Let_def tr_isEntryTimeout_def)
qed

text \<open>C28: A trade that is over and has no entry order in the market does not survive the next \<^verbatim>\<open>process\<close>.\<close>

theorem over_leaves:
  assumes "hooks_ok hk" and "distinct (ids ts)" and "t \<in> set ts" and "vt_canDelete t" and "\<not> vt_isOpened t"
    and "tm_process px hk dl lastTs now ts st p w = (ts', st', p', w')"
  shows "vt_id t \<notin> set (ids ts')"
proof -
  obtain rs where l: "tm_loop px hk now ts w = (rs, w')" and o: "ts' = map fst (filter (Not \<circ> snd) rs)"
    using assms(6) by (cases "tm_loop px hk now ts w") (auto simp: tm_process_def Let_def)
  have "\<forall>r\<in>set rs. vt_id (fst r) = vt_id t \<longrightarrow> snd r" using l assms(2,3)
  proof (induction ts arbitrary: rs w w')
    case (Cons a ts)
    obtain a' del w1 where s: "tm_step px hk now a w = (a', del, w1)" by (cases "tm_step px hk now a w") auto
    obtain rs1 w2 where k: "tm_loop px hk now ts w1 = (rs1, w2)" by (cases "tm_loop px hk now ts w1") auto
    have r: "rs = (a', del) # rs1" using Cons.prems(1) by (simp add: s k)
    note i = tm_step_id [OF assms(1) s] and j = tm_loop_ids [OF assms(1) k]
    show ?case
    proof (cases "a = t")
      case True
      have "del" using over_removed [OF assms(4,5), of px hk now w] by (simp add: s True [symmetric])
      moreover have "vt_id t \<notin> vt_id ` fst ` set rs1"
        using j Cons.prems(2) True by (metis (no_types, lifting) distinct.simps(2) image_set list.simps(9))
      ultimately show ?thesis using r by (auto simp: image_iff)
    next
      case False
      then have "t \<in> set ts" "vt_id a' \<noteq> vt_id t" using Cons.prems(2,3) i by (auto simp del: vt_base.simps)
      with Cons.IH [OF k] Cons.prems(2) r show ?thesis by auto
    qed
  qed simp
  then show ?thesis by (auto simp: o)
qed

theorem over_leaves_witness:
  "1 \<notin> set (ids (fst (tm_process demo_proxy no_hooks no_dates 0 60 two_trades new_statistics new_pool 0)))"
proof -
  obtain ts' st' p' w' where r: "tm_process demo_proxy no_hooks no_dates 0 60 two_trades new_statistics new_pool 0 = (ts', st', p', w')"
    by (rule prod_cases4)
  have "vt_id (hd two_trades) = 1" by (simp add: two_trades_def trade.defs)
  with over_leaves [OF no_hooks_ok two_trades_defs(1-4) r] show ?thesis by (simp only: r fst_conv) simp
qed

section \<open>Signals\<close>

text \<open>
  C29: As long as no two trades share the identifiers of an order, handing its signal to the first target only is the same as telling all trades.
\<close>

theorem signal_reaches_all:
  assumes "length (filter (\<lambda>t. vt_isTargetOrder t (or_orderId sg) (or_refId sg)) ts) \<le> 1"
  shows "tm_onOrderSignal m u sg ts = map (vt_orderSignal m u sg) ts"
proof -
  have none: "map (vt_orderSignal m u sg) us = us" if "\<forall>t\<in>set us. \<not> vt_isTargetOrder t (or_orderId sg) (or_refId sg)" for us
    using that by (simp add: vt.order_not_target map_idI)
  show ?thesis using assms
  proof (induction ts)
    case (Cons t ts)
    show ?case
    proof (cases "vt_isTargetOrder t (or_orderId sg) (or_refId sg)")
      case True
      then have "\<forall>t\<in>set ts. \<not> vt_isTargetOrder t (or_orderId sg) (or_refId sg)" using Cons.prems True by (auto simp: filter_empty_conv)
      with True none show ?thesis by simp
    next
      case False
      with Cons show ?thesis by (simp add: vt.order_not_target)
    qed
  qed simp
qed

definition cancel_o :: order_signal where
  "cancel_o = order.extend ((new_order 0)\<lparr>or_orderId := ''o''\<rparr>) \<lparr>os_event = OS_CANCELED, os_completed = True\<rparr>"

theorem signal_reaches_all_witness:
  "map vt_isCanceled (tm_onOrderSignal (px_market demo_proxy 0) (-1) cancel_o two_trades) = [False, True]"
proof -
  have h: "length (filter (\<lambda>t. vt_isTargetOrder t (or_orderId cancel_o) (or_refId cancel_o)) two_trades) \<le> 1" by code_simp
  show ?thesis unfolding signal_reaches_all [OF h] by code_simp
qed

section \<open>Performance\<close>

lemma performance_fold:
  "pf_actives (foldl (tm_performance_step m) pf ts) = pf_actives pf + int (length (filter vt_isActive ts)) \<and>
   pf_pending (foldl (tm_performance_step m) pf ts) = pf_pending pf + int (length (filter (Not \<circ> vt_isActive) ts)) \<and>
   pf_drawDownRate (foldl (tm_performance_step m) pf ts) = pf_drawDownRate pf \<and>
   pf_drawDown (foldl (tm_performance_step m) pf ts)
     = pf_drawDown pf + (\<Sum>t\<leftarrow>filter vt_isActive ts. ts_unrealizedProfitLoss (tr_stats (vt_base t))) \<and>
   pf_performance (foldl (tm_performance_step m) pf ts)
     = pf_performance pf + (\<Sum>t\<leftarrow>filter vt_isActive ts. estimateProfitLossRate m (vt_base t))"
  by (induction ts arbitrary: pf) (auto simp: tm_performance_step_def)

text \<open>
  The trades are counted as active or pending, the performance is the sum of the rates of the active ones, the rate of the drawdown is
  the loss part of it. The drawdown itself is the magnitude of the unrealized result: an unrealized gain is reported as a drawdown too.
\<close>

theorem performance_sums:
  "(let pf = tm_computePerformance m ts;
        gain = (\<Sum>t\<leftarrow>filter vt_isActive ts. ts_unrealizedProfitLoss (tr_stats (vt_base t)));
        rate = (\<Sum>t\<leftarrow>filter vt_isActive ts. estimateProfitLossRate m (vt_base t))
    in pf_pending pf + pf_actives pf = tm_numTrades ts \<and> pf_actives pf = int (length (filter vt_isActive ts))
      \<and> pf_performance pf = rate \<and> pf_drawDownRate pf = max 0 (- rate) \<and> pf_drawDown pf = \<bar>gain\<bar>)"
  using performance_fold [of m _ ts] sum_length_filter_compl [of vt_isActive ts]
  by (auto simp: tm_computePerformance_def Let_def tm_numTrades_def comp_def max_def)

section \<open>Reachable states\<close>

text \<open>What a manager works on: its list, the pool of the proxy, the statistics of the strategy, and the rest of the system.\<close>

record 'w manager =
  mg_trades :: "any_trade list"
  mg_pool :: pool
  mg_stats :: statistics
  mg_world :: 'w

inductive mg_step :: "'w proxy \<Rightarrow> 'w strategy_hooks \<Rightarrow> date_lib \<Rightarrow> market \<Rightarrow> 'w manager \<Rightarrow> 'w manager \<Rightarrow> bool"
  for px :: "'w proxy" and hk :: "'w strategy_hooks" and dl :: date_lib and m :: market where
  open_trade: "createTrade (Some m) ty tf p = (Some t, p') \<Longrightarrow> vt_open px d oty op q tp sl t w = (t', w')
    \<Longrightarrow> mg_step px hk dl m \<lparr>mg_trades = ts, mg_pool = p, mg_stats = st, mg_world = w\<rparr>
          \<lparr>mg_trades = tm_addTrade t' ts, mg_pool = p', mg_stats = st, mg_world = w'\<rparr>"
| no_trade: "createTrade (Some m) ty tf p = (None, p')
    \<Longrightarrow> mg_step px hk dl m \<lparr>mg_trades = ts, mg_pool = p, mg_stats = st, mg_world = w\<rparr>
          \<lparr>mg_trades = ts, mg_pool = p', mg_stats = st, mg_world = w\<rparr>"
| process: "tm_process px hk dl lastTs now ts st p w = (ts', st', p', w')
    \<Longrightarrow> mg_step px hk dl m \<lparr>mg_trades = ts, mg_pool = p, mg_stats = st, mg_world = w\<rparr>
          \<lparr>mg_trades = ts', mg_pool = p', mg_stats = st', mg_world = w'\<rparr>"
| remove: "tm_removeTrade k ts p = (ts', p')
    \<Longrightarrow> mg_step px hk dl m \<lparr>mg_trades = ts, mg_pool = p, mg_stats = st, mg_world = w\<rparr>
          \<lparr>mg_trades = ts', mg_pool = p', mg_stats = st, mg_world = w\<rparr>"
| close_all: "tm_closeAll px ts w = (n, ts', w')
    \<Longrightarrow> mg_step px hk dl m \<lparr>mg_trades = ts, mg_pool = p, mg_stats = st, mg_world = w\<rparr>
          \<lparr>mg_trades = ts', mg_pool = p, mg_stats = st, mg_world = w'\<rparr>"
| close_direction: "tm_closeAllByDirection px dir ts w = (n, ts', w')
    \<Longrightarrow> mg_step px hk dl m \<lparr>mg_trades = ts, mg_pool = p, mg_stats = st, mg_world = w\<rparr>
          \<lparr>mg_trades = ts', mg_pool = p, mg_stats = st, mg_world = w'\<rparr>"
| take_profit: "k < length ts \<Longrightarrow> vt_modifyTakeProfit px price md (ts ! k) w = (t', w')
    \<Longrightarrow> mg_step px hk dl m \<lparr>mg_trades = ts, mg_pool = p, mg_stats = st, mg_world = w\<rparr>
          \<lparr>mg_trades = ts[k := t'], mg_pool = p, mg_stats = st, mg_world = w'\<rparr>"
| stop_loss: "k < length ts \<Longrightarrow> vt_modifyStopLoss px price md (ts ! k) w = (t', w')
    \<Longrightarrow> mg_step px hk dl m \<lparr>mg_trades = ts, mg_pool = p, mg_stats = st, mg_world = w\<rparr>
          \<lparr>mg_trades = ts[k := t'], mg_pool = p, mg_stats = st, mg_world = w'\<rparr>"
| order_signal: "mg_step px hk dl m \<lparr>mg_trades = ts, mg_pool = p, mg_stats = st, mg_world = w\<rparr>
          \<lparr>mg_trades = tm_onOrderSignal m u sg ts, mg_pool = p, mg_stats = st, mg_world = w'\<rparr>"
| position_signal: "mg_step px hk dl m \<lparr>mg_trades = ts, mg_pool = p, mg_stats = st, mg_world = w\<rparr>
          \<lparr>mg_trades = tm_onPositionSignal ps ts, mg_pool = p, mg_stats = st, mg_world = w'\<rparr>"

definition mg_init :: "statistics \<Rightarrow> 'w \<Rightarrow> 'w manager" where
  "mg_init st w = \<lparr>mg_trades = [], mg_pool = new_pool, mg_stats = st, mg_world = w\<rparr>"

inductive mg_reach :: "'w proxy \<Rightarrow> 'w strategy_hooks \<Rightarrow> date_lib \<Rightarrow> market \<Rightarrow> 'w manager \<Rightarrow> 'w manager \<Rightarrow> bool"
  for px :: "'w proxy" and hk :: "'w strategy_hooks" and dl :: date_lib and m :: market and s0 :: "'w manager" where
  start: "mg_reach px hk dl m s0 s0"
| step: "mg_reach px hk dl m s0 s \<Longrightarrow> mg_step px hk dl m s s' \<Longrightarrow> mg_reach px hk dl m s0 s'"

definition ids_ok :: "int list \<Rightarrow> pool \<Rightarrow> bool" where
  "ids_ok is p \<longleftrightarrow> distinct is \<and> pool_ok p \<and> 0 < pl_nextTradeId p \<and> (\<forall>i\<in>set is. 0 < i \<and> i < pl_nextTradeId p)"

definition mg_ok :: "'w manager \<Rightarrow> bool" where
  "mg_ok s \<longleftrightarrow> ids_ok (ids (mg_trades s)) (mg_pool s)"

lemma distinct_subseq: "subseq xs ys \<Longrightarrow> distinct ys \<Longrightarrow> distinct xs"
  by (induction rule: list_emb.induct) (auto dest: list_emb_set)

lemma set_subseq: "subseq xs ys \<Longrightarrow> set xs \<subseteq> set ys"
  by (auto dest: list_emb_set)

lemma ids_ok_subseq: "ids_ok is p \<Longrightarrow> subseq js is \<Longrightarrow> pl_nextTradeId p' = pl_nextTradeId p \<Longrightarrow> pool_ok p' \<Longrightarrow> ids_ok js p'"
  unfolding ids_ok_def using distinct_subseq [of js "is"] set_subseq [of js "is"] by auto

lemma ids_ok_pool: "ids_ok is p \<Longrightarrow> pool_ok p"
  by (simp add: ids_ok_def)

lemma ids_update: "k < length ts \<Longrightarrow> vt_id t' = vt_id (ts ! k) \<Longrightarrow> ids (ts[k := t']) = ids ts"
  by (simp add: map_update list_update_same_conv del: vt_base.simps)

lemma process_ids:
  assumes "hooks_ok hk" and "tm_process px hk dl lastTs now ts st p w = (ts', st', p', w')"
  shows "subseq (ids ts') (ids ts)" "pl_nextTradeId p' = pl_nextTradeId p" "pool_ok p \<Longrightarrow> pool_ok p'"
proof -
  obtain rs where l: "tm_loop px hk now ts w = (rs, w')" and o: "ts' = map fst (filter (Not \<circ> snd) rs)"
    and p: "p' = fold freeTrade (map fst (filter snd rs)) p"
    using assms(2) by (cases "tm_loop px hk now ts w") (auto simp: tm_process_def Let_def)
  have "subseq (ids ts') (ids (map fst rs))" unfolding o(1) by (intro subseq_map subseq_filter_left)
  moreover have "ids (map fst rs) = ids ts" using tm_loop_ids [OF assms(1) l] by blast
  ultimately show "subseq (ids ts') (ids ts)" by simp
  show "pl_nextTradeId p' = pl_nextTradeId p" "pool_ok p \<Longrightarrow> pool_ok p'" by (simp_all add: p freeTrades_ok)
qed

lemma removeTrade_ids:
  assumes "tm_removeTrade k ts p = (ts', p')"
  shows "subseq (ids ts') (ids ts)" "pl_nextTradeId p' = pl_nextTradeId p" "pool_ok p \<Longrightarrow> pool_ok p'"
proof -
  have "subseq (take k ts @ drop (Suc k) ts) (take k ts @ drop k ts)"
    by (intro list_emb_append_mono subseq_order.order_refl) (metis drop_drop list_emb_append2 plus_1_eq_Suc append_take_drop_id subseq_order.order_refl)
  then show "subseq (ids ts') (ids ts)" using assms by (auto simp: tm_removeTrade_def intro!: subseq_map split: if_splits)
qed (use assms in \<open>auto simp: tm_removeTrade_def freeTrade_ok split: if_splits\<close>)

lemma mg_step_ok: "mg_step px hk dl m s s' \<Longrightarrow> hooks_ok hk \<Longrightarrow> mg_ok s \<Longrightarrow> mg_ok s'"
proof (induction rule: mg_step.induct)
  case (open_trade ty tf p t p' d oty op q tp sl w t' w' ts st)
  have "vt_id t' = vt_id t" using open_trade(2) vt_open_id(1) [of px d oty op q tp sl t w] by simp
  with open_trade createTrade_ok [OF _ open_trade(1)] show ?case
    by (auto simp: mg_ok_def ids_ok_def tm_addTrade_def simp del: vt_base.simps)
next
  case (no_trade ty tf p p' ts st w)
  then show ?case by (auto simp: mg_ok_def createTrade_def split: if_splits prod.splits)
next
  case (process lastTs now ts st p w ts' st' p' w')
  with process_ids [OF process(2,1)] show ?case by (auto simp: mg_ok_def intro: ids_ok_subseq dest: ids_ok_pool)
next
  case (remove k ts p ts' p' st w)
  with removeTrade_ids [OF remove(1)] show ?case by (auto simp: mg_ok_def intro: ids_ok_subseq dest: ids_ok_pool)
next
  case (close_all ts w n ts' w' p st)
  with tm_closeAll_ids [of px ts w] show ?case by (simp add: mg_ok_def)
next
  case (close_direction dir ts w n ts' w' p st)
  with tm_closeAllByDirection_ids [of px dir ts w] show ?case by (simp add: mg_ok_def)
next
  case (take_profit k ts price md w t' w' p st)
  with vt_open_id(2) [of px price md "ts ! k" w] show ?case by (simp add: mg_ok_def ids_update)
next
  case (stop_loss k ts price md w t' w' p st)
  with vt_open_id(3) [of px price md "ts ! k" w] show ?case by (simp add: mg_ok_def ids_update)
qed (simp_all add: mg_ok_def)

text \<open>
  C7: In every state that a manager reaches, its trades have distinct identifiers, positive and below the next one, and the free trades of
  the pools are of the kind of their pool.
\<close>

theorem trade_ids_distinct:
  assumes "hooks_ok hk" and "mg_reach px hk dl m (mg_init st w) s"
  shows "distinct (ids (mg_trades s)) \<and> (\<forall>i\<in>set (ids (mg_trades s)). 0 < i \<and> i < pl_nextTradeId (mg_pool s))
    \<and> (\<forall>ty. \<forall>t\<in>set (pl_free (mg_pool s) ty). vt_type t = ty)"
proof -
  have "mg_ok s" using assms(2)
  proof (induction rule: mg_reach.induct)
    case start
    then show ?case by (simp add: mg_ok_def mg_init_def ids_ok_def pool_ok_new) (simp add: new_pool_def)
  qed (rule mg_step_ok [OF _ assms(1)])
  then show ?thesis
    by (auto simp: mg_ok_def ids_ok_def pool_ok_def)
qed

definition position_market :: market where
  "position_market = (px_market demo_proxy 0)\<lparr>mk_tradeCaps := TRADE_POSITION\<rparr>"

theorem trade_ids_distinct_witness:
  "\<exists>s. mg_reach demo_proxy no_hooks no_dates position_market (mg_init new_statistics 0) s \<and> length (mg_trades s) = 1
     \<and> (\<forall>i\<in>set (ids (mg_trades s)). 0 < i \<and> i < pl_nextTradeId (mg_pool s))"
proof -
  have "can_create position_market TYPE_POSITION" by (simp add: can_create_def hasPosition_def position_market_def TRADE_POSITION_def)
  then obtain t p' where c: "createTrade (Some position_market) TYPE_POSITION 60 new_pool = (Some t, p')"
    by (auto simp: createTrade_def Let_def split_beta)
  obtain t' w' where o: "vt_open demo_proxy LONG ORDER_MARKET 0 1 0 0 t 0 = (t', w')" by fastforce
  let ?s = "\<lparr>mg_trades = tm_addTrade t' [], mg_pool = p', mg_stats = new_statistics, mg_world = w'\<rparr>"
  have r: "mg_reach demo_proxy no_hooks no_dates position_market (mg_init new_statistics 0) ?s"
    unfolding mg_init_def by (rule mg_reach.step [OF mg_reach.start mg_step.open_trade [OF c o]])
  with trade_ids_distinct [OF no_hooks_ok r] show ?thesis by (intro exI [of _ ?s]) (simp add: tm_addTrade_def)
qed

end
