(* ===== verification/Trade_Signal.thy ===== *)
theory Trade_Signal
  imports Trade_Base
begin

text \<open>
  \<^verbatim>\<open>strategies/include/siis/trade/tradesignal.h\<close> and the rules for entries and exits of a strategy, in
  \<^verbatim>\<open>strategies/src/trade/\<close>: \<^verbatim>\<open>entryexit.cpp\<close>, the base of \<^verbatim>\<open>entry.cpp\<close>, \<^verbatim>\<open>stoploss.cpp\<close>, \<^verbatim>\<open>takeprofit.cpp\<close>,
  \<^verbatim>\<open>breakeven.cpp\<close> and \<^verbatim>\<open>dynamicstoploss.cpp\<close>. The string functions of O3D are the fields of a record; a configuration
  is the texts found in it.
\<close>

section \<open>Signals\<close>

datatype signal_type = SN_NONE | SN_ENTRY | SN_EXIT

record trade_signal =
  sn_type :: signal_type
  sn_timeframe :: dbl
  sn_timestamp :: dbl
  sn_direction :: int
  sn_orderType :: order_type
  sn_price :: dbl
  sn_limitPrice :: dbl
  sn_stopPrice :: dbl
  sn_stopLossPrice :: dbl
  sn_takeProfitPrice :: dbl
  sn_entryTimeout :: dbl

definition new_signal :: "dbl \<Rightarrow> dbl \<Rightarrow> trade_signal" where
  "new_signal timeframe timestamp =
     \<lparr>sn_type = SN_NONE, sn_timeframe = timeframe, sn_timestamp = timestamp, sn_direction = 0, sn_orderType = ORDER_MARKET,
      sn_price = 0, sn_limitPrice = 0, sn_stopPrice = 0, sn_stopLossPrice = 0, sn_takeProfitPrice = 0, sn_entryTimeout = 0\<rparr>"

definition sn_reset :: "trade_signal \<Rightarrow> trade_signal" where
  "sn_reset s = s\<lparr>sn_type := SN_NONE, sn_direction := 0, sn_orderType := ORDER_MARKET, sn_price := 0, sn_limitPrice := 0,
     sn_stopPrice := 0, sn_stopLossPrice := 0, sn_takeProfitPrice := 0, sn_entryTimeout := 0\<rparr>"

definition sn_valid :: "trade_signal \<Rightarrow> bool" where
  "sn_valid s \<longleftrightarrow> sn_type s \<noteq> SN_NONE"

definition sn_takeProfitRate :: "trade_signal \<Rightarrow> dbl" where
  "sn_takeProfitRate s =
     (if sn_price s > 0 \<and> sn_takeProfitPrice s > 0
      then of_int (sn_direction s) * (sn_takeProfitPrice s - sn_price s) / sn_price s else 0)"

definition sn_stopLossRate :: "trade_signal \<Rightarrow> dbl" where
  "sn_stopLossRate s =
     (if sn_price s > 0 \<and> sn_stopLossPrice s > 0
      then of_int (sn_direction s) * (sn_price s - sn_stopLossPrice s) / sn_price s else 0)"

definition sn_riskReward :: "trade_signal \<Rightarrow> dbl" where
  "sn_riskReward s =
     (if sn_price s > 0 \<and> sn_stopLossPrice s > 0 \<and> sn_takeProfitPrice s > 0 then sn_stopLossRate s / sn_takeProfitRate s else 0)"

definition sn_distanceFromStop :: "trade_signal \<Rightarrow> dbl" where
  "sn_distanceFromStop s =
     (if sn_price s > 0 \<and> sn_stopLossPrice s > 0 then of_int (sn_direction s) * (sn_price s - sn_stopLossPrice s) else 0)"

definition sn_distanceFromTakeProfit :: "trade_signal \<Rightarrow> dbl" where
  "sn_distanceFromTakeProfit s =
     (if sn_price s > 0 \<and> sn_takeProfitPrice s > 0 then of_int (sn_direction s) * (sn_takeProfitPrice s - sn_price s) else 0)"

definition sn_revert :: "trade_signal \<Rightarrow> trade_signal" where
  "sn_revert s = s\<lparr>sn_takeProfitPrice := sn_stopLossPrice s, sn_stopLossPrice := sn_takeProfitPrice s, sn_direction := - sn_direction s\<rparr>"

definition sn_equivRevert :: "dbl \<Rightarrow> trade_signal \<Rightarrow> trade_signal" where
  "sn_equivRevert ratio s =
     (let s = sn_revert s;
          profit = sn_distanceFromTakeProfit s
      in if sn_direction s > 0 then s\<lparr>sn_stopLossPrice := sn_price s - profit * ratio\<rparr>
         else if sn_direction s < 0 then s\<lparr>sn_stopLossPrice := sn_price s + profit * ratio\<rparr>
         else s)"

section \<open>The base of the rules\<close>

record str_lib =
  sl_endsWith :: "string \<Rightarrow> string \<Rightarrow> bool"
  sl_trimRight :: "string \<Rightarrow> string \<Rightarrow> string"
  sl_toDouble :: "string \<Rightarrow> dbl"
  sl_toInt32 :: "string \<Rightarrow> int"

record entry_exit =
  ee_priceType :: PriceType
  ee_timeframe :: dbl
  ee_distance :: dbl
  ee_distanceType :: DistanceType
  ee_adjustPolicy :: AdjustPolicy
  ee_offset :: dbl
  ee_offsetType :: DistanceType
  ee_consolidated :: bool
  ee_lastClosedTimestamp :: dbl

definition new_entry_exit :: entry_exit where
  "new_entry_exit = \<lparr>ee_priceType = PRICE_NONE, ee_timeframe = 0, ee_distance = 0, ee_distanceType = DIST_NONE,
     ee_adjustPolicy = ADJ_NONE, ee_offset = 0, ee_offsetType = DIST_NONE, ee_consolidated = False, ee_lastClosedTimestamp = 0\<rparr>"

record ee_conf =
  ec_type :: "string option"
  ec_timeframe :: "string option"
  ec_distance :: "string option"
  ec_offset :: "string option"

definition fixed_price_type :: "string \<Rightarrow> PriceType option" where
  "fixed_price_type s =
     (if s = ''fixed'' then Some PRICE_FIXED
      else if s = ''fixed-pct'' then Some PRICE_FIXED
      else if s = ''fixed-dist'' then Some PRICE_FIXED
      else if s = ''custom'' then Some PRICE_CUSTOM
      else None)"

text \<open>A distance in percents, in pips, or as a price.\<close>

definition parse_distance :: "str_lib \<Rightarrow> market \<Rightarrow> string \<Rightarrow> dbl \<times> DistanceType" where
  "parse_distance L m s =
     (if sl_endsWith L s ''%'' then (sl_toDouble L (sl_trimRight L s ''%'') * (1 / 100), DIST_PERCENTIL)
      else if sl_endsWith L s ''pip'' then (sl_toDouble L (sl_trimRight L s ''pip'') * mk_onePipMean m, DIST_PRICE)
      else if sl_endsWith L s ''pips'' then (sl_toDouble L (sl_trimRight L s ''pips'') * mk_onePipMean m, DIST_PRICE)
      else (sl_toDouble L s, DIST_PRICE))"

definition ee_set_policy :: "'a entry_exit_scheme \<Rightarrow> 'a entry_exit_scheme" where
  "ee_set_policy e =
     e\<lparr>ee_adjustPolicy :=
         (if ee_priceType e = PRICE_CUSTOM then ADJ_CUSTOM
          else if ee_timeframe e > 0 \<and> ee_distance e > 0 then ADJ_CLOSE
          else if ee_timeframe e = 0 \<and> ee_distance e > 0 then ADJ_PRICE
          else ADJ_NONE)\<rparr>"

definition ee_read_timing :: "str_lib \<Rightarrow> market \<Rightarrow> ee_conf \<Rightarrow> 'a entry_exit_scheme \<Rightarrow> 'a entry_exit_scheme" where
  "ee_read_timing L m c e =
     (let e = (case ec_timeframe c of None \<Rightarrow> e | Some s \<Rightarrow> e\<lparr>ee_timeframe := timeframeFromStr (sl_toInt32 L) s\<rparr>);
          e = (case ec_distance c of None \<Rightarrow> e
               | Some s \<Rightarrow> e\<lparr>ee_distance := fst (parse_distance L m s), ee_distanceType := snd (parse_distance L m s)\<rparr>)
      in ee_set_policy e)"

definition ee_init :: "str_lib \<Rightarrow> market \<Rightarrow> ee_conf \<Rightarrow> 'a entry_exit_scheme \<Rightarrow> 'a entry_exit_scheme" where
  "ee_init L m c e =
     (let e = (case Option.bind (ec_type c) fixed_price_type of None \<Rightarrow> e | Some p \<Rightarrow> e\<lparr>ee_priceType := p\<rparr>);
          e = ee_read_timing L m c e
      in case ec_offset c of None \<Rightarrow> e
         | Some s \<Rightarrow> e\<lparr>ee_offset := fst (parse_distance L m s), ee_offsetType := snd (parse_distance L m s)\<rparr>)"

definition ee_update :: "date_lib \<Rightarrow> dbl \<Rightarrow> dbl \<Rightarrow> 'a entry_exit_scheme \<Rightarrow> 'a entry_exit_scheme" where
  "ee_update dl timestamp lastTimestamp e =
     (if ee_timeframe e \<le> 0 then e
      else if baseTime dl timestamp (ee_timeframe e) > ee_lastClosedTimestamp e
      then e\<lparr>ee_consolidated := True, ee_lastClosedTimestamp := timestamp\<rparr>
      else e\<lparr>ee_consolidated := False\<rparr>)"

definition ee_isConsolidated :: "'a entry_exit_scheme \<Rightarrow> bool" where
  "ee_isConsolidated e = (if ee_timeframe e > 0 then ee_consolidated e else True)"

section \<open>Initial stop-loss and take-profit\<close>

definition sl_updateSignal :: "'a entry_exit_scheme \<Rightarrow> trade_signal \<Rightarrow> trade_signal" where
  "sl_updateSignal e s =
     (case ee_distanceType e of
        DIST_PERCENTIL \<Rightarrow>
          (if sn_direction s > 0 then
             (if sn_stopLossPrice s \<le> 0 \<or> sn_stopLossRate s > ee_distance e
              then s\<lparr>sn_stopLossPrice := sn_price s * (1 - ee_distance e)\<rparr> else s)
           else if sn_direction s < 0 then
             (if sn_stopLossPrice s \<le> 0 \<or> sn_stopLossRate s > ee_distance e
              then s\<lparr>sn_stopLossPrice := sn_price s * (1 + ee_distance e)\<rparr> else s)
           else s)
      | DIST_PRICE \<Rightarrow>
          (if sn_direction s > 0 then
             (if sn_stopLossPrice s \<le> 0 \<or> sn_distanceFromStop s > ee_distance e
              then s\<lparr>sn_stopLossPrice := sn_price s - ee_distance e\<rparr> else s)
           else if sn_direction s < 0 then
             (if sn_stopLossPrice s \<le> 0 \<or> sn_distanceFromStop s > ee_distance e
              then s\<lparr>sn_stopLossPrice := sn_price s + ee_distance e\<rparr> else s)
           else s)
      | DIST_NONE \<Rightarrow> s)"

definition tp_updateSignal :: "'a entry_exit_scheme \<Rightarrow> trade_signal \<Rightarrow> trade_signal" where
  "tp_updateSignal e s =
     (case ee_distanceType e of
        DIST_PERCENTIL \<Rightarrow>
          (if sn_direction s > 0 then
             (if sn_takeProfitPrice s \<le> 0 \<or> sn_takeProfitRate s > ee_distance e
              then s\<lparr>sn_takeProfitPrice := sn_price s * (1 + ee_distance e)\<rparr> else s)
           else if sn_direction s < 0 then
             (if sn_takeProfitPrice s \<le> 0 \<or> sn_takeProfitRate s > ee_distance e
              then s\<lparr>sn_takeProfitPrice := sn_price s * (1 - ee_distance e)\<rparr> else s)
           else s)
      | DIST_PRICE \<Rightarrow>
          (if sn_direction s > 0 then
             (if sn_takeProfitPrice s \<le> 0 \<or> sn_distanceFromTakeProfit s > ee_distance e
              then s\<lparr>sn_takeProfitPrice := sn_price s + ee_distance e\<rparr> else s)
           else if sn_direction s < 0 then
             (if sn_takeProfitPrice s \<le> 0 \<or> sn_distanceFromTakeProfit s > ee_distance e
              then s\<lparr>sn_takeProfitPrice := sn_price s - ee_distance e\<rparr> else s)
           else s)
      | DIST_NONE \<Rightarrow> s)"

section \<open>Entry\<close>

record trade_entry = entry_exit +
  en_timeout :: dbl
  en_maxSpread :: dbl

text \<open>The constructor leaves the timeout as it finds it.\<close>

definition new_trade_entry :: "dbl \<Rightarrow> trade_entry" where
  "new_trade_entry undef = entry_exit.extend new_entry_exit \<lparr>en_timeout = undef, en_maxSpread = 0\<rparr>"

record entry_conf = ee_conf +
  ec_maxSpread :: "(dbl + string) option"
  ec_timeout :: "string option"

definition entry_price_type :: "string \<Rightarrow> PriceType option" where
  "entry_price_type s =
     (case fixed_price_type s of
        Some p \<Rightarrow> Some p
      | None \<Rightarrow>
          if s = ''last'' then Some PRICE_LAST
          else if s = ''best+1'' then Some PRICE_BEST1
          else if s = ''best+2'' then Some PRICE_BEST2
          else None)"

text \<open>The spread in pips, with the plural, is computed and dropped.\<close>

definition parse_spread :: "str_lib \<Rightarrow> market \<Rightarrow> dbl + string \<Rightarrow> dbl \<Rightarrow> dbl" where
  "parse_spread L m v old =
     (case v of
        Inl x \<Rightarrow> x
      | Inr s \<Rightarrow>
          if sl_endsWith L s ''pip'' then sl_toDouble L (sl_trimRight L s ''pip'') * mk_onePipMean m
          else if sl_endsWith L s ''pips'' then old
          else sl_toDouble L s)"

definition en_init :: "str_lib \<Rightarrow> market \<Rightarrow> entry_conf \<Rightarrow> trade_entry \<Rightarrow> trade_entry" where
  "en_init L m c e =
     (let e = (case Option.bind (ec_type c) entry_price_type of None \<Rightarrow> e | Some p \<Rightarrow> e\<lparr>ee_priceType := p\<rparr>);
          e = ee_read_timing L m (ee_conf.truncate c) e;
          e = (case ec_maxSpread c of None \<Rightarrow> e | Some v \<Rightarrow> e\<lparr>en_maxSpread := parse_spread L m v (en_maxSpread e)\<rparr>)
      in case ec_timeout c of None \<Rightarrow> e | Some s \<Rightarrow> e\<lparr>en_timeout := timeframeFromStr (sl_toInt32 L) s\<rparr>)"

definition limit_at :: "dbl \<Rightarrow> dbl \<Rightarrow> trade_signal \<Rightarrow> trade_signal" where
  "limit_at longPrice shortPrice s =
     (if sn_direction s > 0 then s\<lparr>sn_orderType := ORDER_LIMIT, sn_price := longPrice\<rparr>
      else if sn_direction s < 0 then s\<lparr>sn_orderType := ORDER_LIMIT, sn_price := shortPrice\<rparr>
      else s)"

definition en_updateSignal :: "trade_entry \<Rightarrow> market \<Rightarrow> trade_signal \<Rightarrow> trade_signal" where
  "en_updateSignal e m s =
     (case ee_priceType e of
        PRICE_LAST \<Rightarrow> s\<lparr>sn_orderType := ORDER_MARKET, sn_price := openExecPrice m (sn_direction s)\<rparr>
      | PRICE_BEST1 \<Rightarrow> limit_at (mk_bid m) (mk_ask m) s
      | PRICE_BEST2 \<Rightarrow> limit_at (mk_bid m - mk_spread m) (mk_ask m + mk_spread m) s
      | PRICE_FIXED \<Rightarrow>
          (case ee_distanceType e of
             DIST_PERCENTIL \<Rightarrow> limit_at (mk_bid m * (1 - ee_distance e)) (mk_ask m * (1 + ee_distance e)) s
           | DIST_PRICE \<Rightarrow> limit_at (mk_bid m - ee_distance e) (mk_ask m + ee_distance e) s
           | DIST_NONE \<Rightarrow> s)
      | _ \<Rightarrow> s)"

definition en_checkMaxSpread :: "trade_entry \<Rightarrow> market \<Rightarrow> bool" where
  "en_checkMaxSpread e m = (if en_maxSpread e > 0 then mk_spread m \<le> en_maxSpread e else True)"

section \<open>Breakeven\<close>

text \<open>
  The rules that move a stop-loss give the price that they pass to \<^verbatim>\<open>modifyStopLoss\<close>, with the previous mode,
  and none where they do not call it.
\<close>

definition be_offset_price :: "'a entry_exit_scheme \<Rightarrow> 'b trade_scheme \<Rightarrow> dbl option" where
  "be_offset_price e t =
     (if ee_offset e = 0 then Some (tr_entryPrice t)
      else case ee_offsetType e of
        DIST_PERCENTIL \<Rightarrow>
          (if tr_direction t > 0 then Some (tr_entryPrice t * (1 + ee_offset e))
           else if tr_direction t < 0 then Some (tr_entryPrice t * (1 - ee_offset e)) else None)
      | DIST_PRICE \<Rightarrow>
          (if tr_direction t > 0 then Some (tr_entryPrice t + ee_offset e)
           else if tr_direction t < 0 then Some (tr_entryPrice t - ee_offset e) else None)
      | DIST_NONE \<Rightarrow> None)"

definition ee_applies :: "'a entry_exit_scheme \<Rightarrow> bool" where
  "ee_applies e \<longleftrightarrow> ee_adjustPolicy e = ADJ_PRICE \<or> ee_adjustPolicy e = ADJ_CLOSE \<and> ee_consolidated e"

definition be_stop :: "'a entry_exit_scheme \<Rightarrow> market \<Rightarrow> 'b trade_scheme \<Rightarrow> dbl option" where
  "be_stop e m t =
     (if ee_applies e then
        (case ee_distanceType e of
           DIST_PERCENTIL \<Rightarrow>
             (if tr_direction t > 0 then
                (if estimateProfitLossRate m t > ee_distance e \<and> tr_stopLossPrice t < tr_entryPrice t then be_offset_price e t else None)
              else if tr_direction t < 0 then
                (if estimateProfitLossRate m t > ee_distance e \<and> tr_stopLossPrice t > tr_entryPrice t then be_offset_price e t else None)
              else None)
         | DIST_PRICE \<Rightarrow>
             (if tr_direction t > 0 then
                (if deltaPrice m t \<ge> ee_distance e \<and> tr_stopLossPrice t < tr_entryPrice t then be_offset_price e t else None)
              else if tr_direction t < 0 then
                (if deltaPrice m t \<le> - ee_distance e \<and> tr_stopLossPrice t > tr_entryPrice t then be_offset_price e t else None)
              else None)
         | DIST_NONE \<Rightarrow> None)
      else None)"

definition be_triggerPrice :: "'a entry_exit_scheme \<Rightarrow> dbl \<Rightarrow> int \<Rightarrow> dbl" where
  "be_triggerPrice e price direction =
     (case ee_distanceType e of
        DIST_PERCENTIL \<Rightarrow> price + of_int direction * price * ee_distance e
      | DIST_PRICE \<Rightarrow> price + of_int direction * ee_distance e
      | DIST_NONE \<Rightarrow> 0)"

section \<open>Dynamic stop-loss\<close>

record dynamic_stop = entry_exit +
  ds_breakevenDistance :: dbl
  ds_breakevenPriceType :: PriceType
  ds_breakevenDistanceType :: DistanceType

definition new_dynamic_stop :: dynamic_stop where
  "new_dynamic_stop = entry_exit.extend new_entry_exit
     \<lparr>ds_breakevenDistance = 0, ds_breakevenPriceType = PRICE_NONE, ds_breakevenDistanceType = DIST_NONE\<rparr>"

definition ds_init :: "str_lib \<Rightarrow> market \<Rightarrow> ee_conf \<Rightarrow> ee_conf \<Rightarrow> dynamic_stop \<Rightarrow> dynamic_stop" where
  "ds_init L m dynamicConf breakevenConf d =
     (let d = ee_init L m dynamicConf d;
          d = (case Option.bind (ec_type breakevenConf) fixed_price_type of None \<Rightarrow> d | Some p \<Rightarrow> d\<lparr>ds_breakevenPriceType := p\<rparr>)
      in case ec_distance breakevenConf of None \<Rightarrow> d
         | Some s \<Rightarrow> d\<lparr>ds_breakevenDistance := fst (parse_distance L m s), ds_breakevenDistanceType := snd (parse_distance L m s)\<rparr>)"

definition distanceFromPercentile :: "'b trade_scheme \<Rightarrow> dbl \<Rightarrow> dbl" where
  "distanceFromPercentile t closePrice =
     (if tr_stopLossPrice t > 0 then of_int (tr_direction t) * (closePrice - tr_stopLossPrice t) / tr_stopLossPrice t else 0)"

definition distanceFromPrice :: "'b trade_scheme \<Rightarrow> dbl \<Rightarrow> dbl" where
  "distanceFromPrice t closePrice =
     (if tr_stopLossPrice t > 0 then of_int (tr_direction t) * (closePrice - tr_stopLossPrice t) else 0)"

definition fixed_stop :: "'b trade_scheme \<Rightarrow> dbl \<Rightarrow> dbl \<Rightarrow> dbl \<Rightarrow> dbl" where
  "fixed_stop t longStop shortStop closePrice =
     (if tr_direction t > 0 then (if longStop > tr_stopLossPrice t \<and> longStop < closePrice then longStop else 0)
      else if tr_direction t < 0 then (if shortStop < tr_stopLossPrice t \<and> shortStop > closePrice then shortStop else 0)
      else 0)"

definition stopFixedDistancePercentile :: "'b trade_scheme \<Rightarrow> dbl \<Rightarrow> dbl \<Rightarrow> dbl" where
  "stopFixedDistancePercentile t distance closePrice = fixed_stop t (closePrice * (1 - distance)) (closePrice * (1 + distance)) closePrice"

definition stopFixedDistancePrice :: "'b trade_scheme \<Rightarrow> dbl \<Rightarrow> dbl \<Rightarrow> dbl" where
  "stopFixedDistancePrice t distance closePrice = fixed_stop t (closePrice - distance) (closePrice + distance) closePrice"

definition ds_in_profit :: "dynamic_stop \<Rightarrow> market \<Rightarrow> 'b trade_scheme \<Rightarrow> bool" where
  "ds_in_profit d m t =
     (if ds_breakevenDistance d > 0 then
        (case ds_breakevenDistanceType d of
           DIST_PERCENTIL \<Rightarrow> \<not> estimateProfitLossRate m t \<le> ds_breakevenDistance d
         | DIST_PRICE \<Rightarrow> \<not> deltaPrice m t \<le> of_int (tr_direction t) * ds_breakevenDistance d
         | DIST_NONE \<Rightarrow> True)
      else \<not> estimateProfitLossRate m t \<le> 0)"

definition ds_checkMinDistance :: "dynamic_stop \<Rightarrow> market \<Rightarrow> 'b trade_scheme \<Rightarrow> bool" where
  "ds_checkMinDistance d m t =
     (case ee_distanceType d of
        DIST_PERCENTIL \<Rightarrow> distanceFromPercentile t (closeExecPrice m (tr_direction t)) > ee_distance d
      | DIST_PRICE \<Rightarrow> distanceFromPrice t (closeExecPrice m (tr_direction t)) \<ge> ee_distance d
      | DIST_NONE \<Rightarrow> False)"

definition ds_stop :: "dynamic_stop \<Rightarrow> market \<Rightarrow> 'b trade_scheme \<Rightarrow> dbl option" where
  "ds_stop d m t =
     (if \<not> ds_in_profit d m t then None
      else if ee_applies d then
        (let closePrice = closeExecPrice m (tr_direction t);
             moved = (\<lambda>p. if p > 0 then Some p else None)
         in case ee_distanceType d of
              DIST_PERCENTIL \<Rightarrow>
                (if distanceFromPercentile t closePrice > ee_distance d
                 then moved (stopFixedDistancePercentile t (ee_distance d) closePrice) else None)
            | DIST_PRICE \<Rightarrow>
                (if distanceFromPrice t closePrice \<ge> ee_distance d
                 then moved (stopFixedDistancePrice t (ee_distance d) closePrice) else None)
            | DIST_NONE \<Rightarrow> None)
      else None)"

text \<open>The effect of a rule on a trade.\<close>

definition move_stop :: "(dbl \<Rightarrow> modifier_type \<Rightarrow> 't \<Rightarrow> 'w \<Rightarrow> 't \<times> 'w) \<Rightarrow> dbl option \<Rightarrow> 't \<Rightarrow> 'w \<Rightarrow> 't \<times> 'w" where
  "move_stop modify stop t w = (case stop of None \<Rightarrow> (t, w) | Some p \<Rightarrow> modify p MOD_PREVIOUS t w)"

end
