(* ===== verification/Trade_Exits.thy ===== *)
theory Trade_Exits
  imports Trade_Signal Trade_Frames
begin

text \<open>
  What the rules of \<^verbatim>\<open>Trade_Signal\<close> do to the trades of the strategy: the ratchet of the dynamic stop-loss, the breakeven, the distance
  of the initial exits, the side of limit entries.
\<close>

section \<open>Moving the stop-loss\<close>

lemma it_modifyStopLoss_cases:
  "tr_stopLossPrice (fst (it_modifyStopLoss px p md t w)) \<in> {tr_stopLossPrice t, p}"
  by (simp add: it_modifyStopLoss_def split_beta Let_def)

lemma pt_modifyStopLoss_cases:
  "tr_stopLossPrice (fst (pt_modifyStopLoss px p md t w)) \<in> {tr_stopLossPrice t, p}"
  by (simp add: pt_modifyStopLoss_def split_beta Let_def)

lemma mt_modifyStopLoss_cases:
  "tr_stopLossPrice (fst (mt_modifyStopLoss px p md t w)) \<in> {tr_stopLossPrice t, p}"
  by (simp add: mt_modifyStopLoss_def split_beta Let_def)

text \<open>A way to move the stop-loss of a trade: it sets the price it is given, or refuses and leaves the old one.\<close>

locale stop_mover =
  fixes modify :: "dbl \<Rightarrow> modifier_type \<Rightarrow> 'a trade_scheme \<Rightarrow> 'w \<Rightarrow> 'a trade_scheme \<times> 'w"
  assumes direction_kept: "tr_direction (fst (modify p md t w)) = tr_direction t"
    and stop_set: "tr_stopLossPrice (fst (modify p md t w)) \<in> {tr_stopLossPrice t, p}"

interpretation ism: stop_mover "it_modifyStopLoss px" for px by unfold_locales (simp, rule it_modifyStopLoss_cases)
interpretation psm: stop_mover "pt_modifyStopLoss px" for px by unfold_locales (simp, rule pt_modifyStopLoss_cases)
interpretation msm: stop_mover "mt_modifyStopLoss px" for px by unfold_locales (simp, rule mt_modifyStopLoss_cases)

section \<open>The ratchet\<close>

text \<open>The price that the dynamic stop-loss asks for.\<close>

lemma ds_stop_beyond:
  assumes "ds_stop d m t = Some p"
  shows "0 < p" and "tr_direction t > 0 \<Longrightarrow> tr_stopLossPrice t < p \<and> p < closeExecPrice m (tr_direction t)"
    and "\<not> tr_direction t > 0 \<Longrightarrow> p < tr_stopLossPrice t \<and> closeExecPrice m (tr_direction t) < p"
  using assms by (auto simp: ds_stop_def stopFixedDistancePercentile_def stopFixedDistancePrice_def fixed_stop_def Let_def
    split: if_splits DistanceType.splits)

text \<open>The stop-loss of a trade after each of a sequence of updates, with what each finds: the rule, the market and the system.\<close>

fun trail :: "(dbl \<Rightarrow> modifier_type \<Rightarrow> 'a trade_scheme \<Rightarrow> 'w \<Rightarrow> 'a trade_scheme \<times> 'w) \<Rightarrow> (dynamic_stop \<times> market \<times> 'w) list
    \<Rightarrow> 'a trade_scheme \<Rightarrow> dbl list" where
  "trail modify [] t = [tr_stopLossPrice t]"
| "trail modify ((d, m, w) # us) t = tr_stopLossPrice t # trail modify us (fst (move_stop modify (ds_stop d m t) t w))"

context stop_mover
begin

lemma move_stop_step:
  fixes t :: "'a trade_scheme" and d :: dynamic_stop and m :: market and w :: 'w
  defines "t' \<equiv> fst (move_stop modify (ds_stop d m t) t w)"
  shows "tr_direction t' = tr_direction t"
    and "if tr_direction t > 0 then tr_stopLossPrice t \<le> tr_stopLossPrice t' else tr_stopLossPrice t' \<le> tr_stopLossPrice t"
proof -
  consider "t' = t" | p where "ds_stop d m t = Some p" "t' = fst (modify p MOD_PREVIOUS t w)"
    by (cases "ds_stop d m t") (simp_all add: t'_def move_stop_def)
  note c = this
  show "tr_direction t' = tr_direction t" by (cases rule: c) (simp_all add: direction_kept)
  show "if tr_direction t > 0 then tr_stopLossPrice t \<le> tr_stopLossPrice t' else tr_stopLossPrice t' \<le> tr_stopLossPrice t"
  proof (cases rule: c)
    case (2 p)
    have "tr_stopLossPrice t' \<in> {tr_stopLossPrice t, p}" using stop_set [of p MOD_PREVIOUS t w] by (simp add: 2(2))
    with ds_stop_beyond(2,3) [OF 2(1)] show ?thesis by auto
  qed simp
qed

lemma trail_head: "trail modify us t \<noteq> []" "hd (trail modify us t) = tr_stopLossPrice t"
  by (cases us; auto)+

lemma ratchet:
  "if tr_direction t > 0 then sorted (trail modify us t) else sorted_wrt (\<ge>) (trail modify us t)"
proof (induction us arbitrary: t)
  case (Cons u us)
  obtain d m w where u: "u = (d, m, w)" by (cases u)
  let ?t = "fst (move_stop modify (ds_stop d m t) t w)"
  obtain xs where xs: "trail modify us ?t = tr_stopLossPrice ?t # xs" using trail_head [of us ?t] by (metis list.collapse)
  show ?case using Cons.IH [of ?t] move_stop_step(1) [of d m t w] move_stop_step(2) [of t d m w] unfolding u
    by (cases "tr_direction t > 0") (auto simp: xs)
qed simp

end

text \<open>
  C15: Whatever the markets become and whatever the rule is set to, the dynamic stop-loss of a trade only moves in favour of it: a long one never
  goes down and a short one never up.
\<close>

theorem trailing_ratchet:
  "(if tr_direction it > 0 then sorted (trail (it_modifyStopLoss px) us it) else sorted_wrt (\<ge>) (trail (it_modifyStopLoss px) us it))
   \<and> (if tr_direction pt > 0 then sorted (trail (pt_modifyStopLoss px) us pt) else sorted_wrt (\<ge>) (trail (pt_modifyStopLoss px) us pt))"
  by (simp add: ism.ratchet psm.ratchet)

text \<open>
  A dynamic stop-loss that waits for a distance in price works on a short trade only as long as the trade has not reached it.
\<close>

theorem dynamic_short_inverted:
  assumes "tr_direction t = SHORT" and "0 < tr_entryPrice t" and "0 < ds_breakevenDistance d" and "ds_breakevenDistanceType d = DIST_PRICE"
    and "ds_breakevenDistance d \<le> tr_entryPrice t - closeExecPrice m SHORT"
  shows "ds_stop d m t = None"
  using assms by (simp add: ds_stop_def ds_in_profit_def deltaPrice_def SHORT_def)

definition short_trade :: position_trade where
  "short_trade = new_position_trade\<lparr>tr_direction := SHORT, tr_entryPrice := 100, tr_stopLossPrice := 110\<rparr>"

definition rule_market :: "dbl \<Rightarrow> dbl \<Rightarrow> market" where
  "rule_market bid ask = (new_market TYPE_CRYPTO CONTRACT_SPOT UNIT_AMOUNT ''BTCEUR'' ''BTC/EUR'' ''BTC'' ''EUR'')\<lparr>mk_bid := bid, mk_ask := ask\<rparr>"

definition short_rule :: dynamic_stop where
  "short_rule = new_dynamic_stop\<lparr>ee_distance := 5, ee_distanceType := DIST_PRICE, ee_adjustPolicy := ADJ_PRICE,
     ds_breakevenDistance := 10, ds_breakevenDistanceType := DIST_PRICE\<rparr>"

theorem dynamic_short_inverted_witness: "ds_stop short_rule (rule_market 79 80) short_trade = None"
proof -
  have h: "tr_direction short_trade = SHORT" "0 < tr_entryPrice short_trade" "0 < ds_breakevenDistance short_rule"
    "ds_breakevenDistanceType short_rule = DIST_PRICE"
    "ds_breakevenDistance short_rule \<le> tr_entryPrice short_trade - closeExecPrice (rule_market 79 80) SHORT"
    by code_simp+
  show ?thesis by (rule dynamic_short_inverted [OF h])
qed

section \<open>Breakeven\<close>

text \<open>
  C16: The stop-loss at breakeven, with an offset that is not negative, is never on the losing side of the entry, and once it is there
  the rule does not touch it any more.
\<close>

theorem breakeven_once:
  assumes "be_stop e m t = Some p" and "0 \<le> ee_offset e" and "0 < tr_entryPrice t"
    and "tr_direction t' = tr_direction t" and "tr_entryPrice t' = tr_entryPrice t" and "tr_stopLossPrice t' = p"
  shows "0 \<le> of_int (tr_direction t) * (p - tr_entryPrice t) \<and> be_stop e m' t' = None"
proof -
  have "tr_direction t > 0 \<and> tr_entryPrice t \<le> p \<or> tr_direction t < 0 \<and> p \<le> tr_entryPrice t"
    using assms(1-3)
    by (auto simp: be_stop_def be_offset_price_def mult_le_cancel_left1 mult_le_cancel_left2 split: if_splits DistanceType.splits)
  then show ?thesis
    using assms(4-6) by (auto simp: be_stop_def zero_le_mult_iff split: DistanceType.splits)
qed

theorem breakeven_once_witness:
  "be_stop (new_entry_exit\<lparr>ee_distance := 10, ee_distanceType := DIST_PRICE, ee_adjustPolicy := ADJ_PRICE\<rparr>)
     (rule_market 1 1) (short_trade\<lparr>tr_stopLossPrice := 100\<rparr>) = None"
proof -
  let ?e = "new_entry_exit\<lparr>ee_distance := 10, ee_distanceType := DIST_PRICE, ee_adjustPolicy := ADJ_PRICE\<rparr>"
  let ?t = "short_trade\<lparr>tr_stopLossPrice := 100\<rparr>"
  have h: "be_stop ?e (rule_market 79 80) short_trade = Some 100" "0 \<le> ee_offset ?e" "0 < tr_entryPrice short_trade"
    "tr_direction ?t = tr_direction short_trade" "tr_entryPrice ?t = tr_entryPrice short_trade" "tr_stopLossPrice ?t = 100"
    by code_simp+
  show ?thesis by (rule breakeven_once [OF h, THEN conjunct2])
qed

section \<open>Initial exits\<close>

definition stop_gap :: "'a entry_exit_scheme \<Rightarrow> trade_signal \<Rightarrow> dbl" where
  "stop_gap e s = (if ee_distanceType e = DIST_PERCENTIL then sn_stopLossRate s else sn_distanceFromStop s)"

definition stop_target :: "'a entry_exit_scheme \<Rightarrow> trade_signal \<Rightarrow> dbl" where
  "stop_target e s = (if ee_distanceType e = DIST_PERCENTIL then sn_price s * (1 - of_int (sn_direction s) * ee_distance e)
     else sn_price s - of_int (sn_direction s) * ee_distance e)"

lemma sl_update_eq:
  assumes "sn_direction s = LONG \<or> sn_direction s = SHORT" and "ee_distanceType e \<noteq> DIST_NONE"
  shows "sl_updateSignal e s
    = (if sn_stopLossPrice s \<le> 0 \<or> ee_distance e < stop_gap e s then s\<lparr>sn_stopLossPrice := stop_target e s\<rparr> else s)"
  using assms by (cases "ee_distanceType e") (auto simp: sl_updateSignal_def stop_gap_def stop_target_def LONG_def SHORT_def)

lemma stop_target:
  assumes "0 < sn_price s" and "sn_direction s = LONG \<or> sn_direction s = SHORT" and "0 < ee_distance e"
    and "ee_distanceType e = DIST_PERCENTIL \<and> ee_distance e < 1 \<or> ee_distanceType e = DIST_PRICE \<and> ee_distance e < sn_price s"
  shows "0 < stop_target e s" and "stop_gap e (s\<lparr>sn_stopLossPrice := stop_target e s\<rparr>) = ee_distance e"
proof -
  show p: "0 < stop_target e s"
    using assms by (auto simp: stop_target_def LONG_def SHORT_def intro!: mult_pos_pos)
  have "sn_price s * (1 - d * ee_distance e) = sn_price s - sn_price s * d * ee_distance e" for d by (simp add: algebra_simps)
  with p show "stop_gap e (s\<lparr>sn_stopLossPrice := stop_target e s\<rparr>) = ee_distance e"
    using assms by (auto simp: stop_gap_def stop_target_def sn_stopLossRate_def sn_distanceFromStop_def LONG_def SHORT_def)
qed

text \<open>
  C35: The stop-loss of a signal is set, or pulled in, so that it is at most the distance of the rule away from the entry; to
  apply the rule again, as the strategies do, changes nothing.
\<close>

theorem signal_stop_bound:
  assumes "0 < sn_price s" and "sn_direction s = LONG \<or> sn_direction s = SHORT" and "0 < ee_distance e"
    and "ee_distanceType e = DIST_PERCENTIL \<and> ee_distance e < 1 \<or> ee_distanceType e = DIST_PRICE \<and> ee_distance e < sn_price s"
  shows "0 < sn_stopLossPrice (sl_updateSignal e s) \<and> stop_gap e (sl_updateSignal e s) \<le> ee_distance e
    \<and> (if 0 < sn_stopLossPrice s \<and> stop_gap e s \<le> ee_distance e then sl_updateSignal e s = s
        else stop_gap e (sl_updateSignal e s) = ee_distance e)
    \<and> sl_updateSignal e (sl_updateSignal e s) = sl_updateSignal e s"
proof -
  let ?t = "s\<lparr>sn_stopLossPrice := stop_target e s\<rparr>"
  have t: "0 < stop_target e s" "stop_gap e ?t = ee_distance e" by (rule stop_target [OF assms])+
  have u: "sl_updateSignal e s = (if sn_stopLossPrice s \<le> 0 \<or> ee_distance e < stop_gap e s then ?t else s)"
    "sl_updateSignal e ?t = ?t"
    using t assms(2,4) sl_update_eq [of s e] sl_update_eq [of ?t e] by auto
  then show ?thesis using t by (auto simp: not_le not_less)
qed

theorem signal_stop_bound_witness:
  "stop_gap (new_entry_exit\<lparr>ee_distance := 1 / 20, ee_distanceType := DIST_PERCENTIL\<rparr>)
     (sl_updateSignal (new_entry_exit\<lparr>ee_distance := 1 / 20, ee_distanceType := DIST_PERCENTIL\<rparr>)
        ((new_signal 60 0)\<lparr>sn_direction := LONG, sn_price := 100, sn_stopLossPrice := 80\<rparr>)) \<le> 1 / 20"
proof -
  let ?e = "new_entry_exit\<lparr>ee_distance := 1 / 20, ee_distanceType := DIST_PERCENTIL\<rparr>"
  let ?s = "(new_signal 60 0)\<lparr>sn_direction := LONG, sn_price := 100, sn_stopLossPrice := 80\<rparr>"
  have h: "0 < sn_price ?s" "sn_direction ?s = LONG \<or> sn_direction ?s = SHORT" "0 < ee_distance ?e"
    "ee_distanceType ?e = DIST_PERCENTIL \<and> ee_distance ?e < 1 \<or> ee_distanceType ?e = DIST_PRICE \<and> ee_distance ?e < sn_price ?s"
    by simp_all
  from signal_stop_bound [OF h] show ?thesis by simp
qed

section \<open>Entries\<close>

text \<open>
  A limit entry is on the own side of the book: a long one at the bid or below, a short one at the ask or above.
\<close>

theorem limit_entry_side:
  assumes "mk_bid m \<le> mk_ask m" and "0 \<le> mk_bid m" and "0 \<le> ee_distance e" and "sn_orderType s = ORDER_MARKET"
    and "sn_orderType (en_updateSignal e m s) = ORDER_LIMIT"
  shows "sn_direction s > 0 \<and> sn_price (en_updateSignal e m s) \<le> mk_bid m
    \<or> sn_direction s < 0 \<and> mk_ask m \<le> sn_price (en_updateSignal e m s)"
proof -
  have "0 \<le> mk_bid m * ee_distance e" "0 \<le> mk_ask m * ee_distance e" using assms(1-3) by (simp_all add: mult_nonneg_nonneg)
  then show ?thesis using assms
    by (auto simp: en_updateSignal_def limit_at_def mk_spread_def algebra_simps split: PriceType.splits DistanceType.splits if_splits)
qed

theorem limit_entry_side_witness:
  "sn_price (en_updateSignal ((new_trade_entry 0)\<lparr>ee_priceType := PRICE_BEST2\<rparr>) (rule_market 79 80)
     ((new_signal 60 0)\<lparr>sn_direction := LONG\<rparr>)) \<le> 79"
proof -
  let ?e = "(new_trade_entry 0)\<lparr>ee_priceType := PRICE_BEST2\<rparr>" and ?s = "(new_signal 60 0)\<lparr>sn_direction := LONG\<rparr>"
  have h: "mk_bid (rule_market 79 80) \<le> mk_ask (rule_market 79 80)" "0 \<le> mk_bid (rule_market 79 80)" "0 \<le> ee_distance ?e"
    "sn_orderType ?s = ORDER_MARKET" "sn_orderType (en_updateSignal ?e (rule_market 79 80) ?s) = ORDER_LIMIT"
    by code_simp+
  have "mk_bid (rule_market 79 80) = 79" "\<not> sn_direction ?s < 0" by code_simp+
  with limit_entry_side [OF h] show ?thesis by simp
qed

section \<open>Consolidation\<close>

text \<open>The timestamps of the updates that find the timeframe closed.\<close>

fun closes :: "date_lib \<Rightarrow> 'a entry_exit_scheme \<Rightarrow> dbl list \<Rightarrow> dbl list" where
  "closes dl e [] = []"
| "closes dl e (t # ts) =
     (let e = ee_update dl t 0 e in (if ee_consolidated e then [t] else []) @ closes dl e ts)"

text \<open>
  With a timeframe, a rule is consolidated once for each bar: every closing is in a bar that begins after the closing before, and no
  update in a bar that begins after the last closing is missed.
\<close>

theorem consolidated_once:
  assumes "0 < ee_timeframe e" and "sorted ts" and "\<forall>t\<in>set ts. ee_lastClosedTimestamp e \<le> t"
  shows "sorted_wrt (\<lambda>a b. a < baseTime dl b (ee_timeframe e)) (ee_lastClosedTimestamp e # closes dl e ts)"
  using assms
proof (induction ts arbitrary: e)
  case (Cons t ts)
  show ?case
  proof (cases "baseTime dl t (ee_timeframe e) > ee_lastClosedTimestamp e")
    case True
    let ?e = "e\<lparr>ee_consolidated := True, ee_lastClosedTimestamp := t\<rparr>"
    have "sorted_wrt (\<lambda>a b. a < baseTime dl b (ee_timeframe ?e)) (ee_lastClosedTimestamp ?e # closes dl ?e ts)"
      by (rule Cons.IH) (use Cons.prems in auto)
    with True Cons.prems show ?thesis by (force simp: ee_update_def Let_def)
  next
    case False
    let ?e = "e\<lparr>ee_consolidated := False\<rparr>"
    have "sorted_wrt (\<lambda>a b. a < baseTime dl b (ee_timeframe ?e)) (ee_lastClosedTimestamp ?e # closes dl ?e ts)"
      by (rule Cons.IH) (use Cons.prems in auto)
    with False Cons.prems show ?thesis by (simp add: ee_update_def Let_def)
  qed
qed simp

theorem consolidated_once_witness:
  "closes no_dates (new_entry_exit\<lparr>ee_timeframe := 300\<rparr>) [310, 400, 599, 600, 950] = [310, 600, 950]
   \<and> sorted_wrt (\<lambda>a b. a < baseTime no_dates b 300) [0, 310, 600, 950]"
proof -
  let ?e = "new_entry_exit\<lparr>ee_timeframe := 300\<rparr>"
  have h: "0 < ee_timeframe ?e" "sorted [310, 400, 599, 600, 950 :: dbl]"
    "\<forall>t\<in>set [310, 400, 599, 600, 950]. ee_lastClosedTimestamp ?e \<le> t"
    by (simp_all add: new_entry_exit_def)
  have c: "closes no_dates ?e [310, 400, 599, 600, 950] = [310, 600, 950]" by code_simp
  have "ee_lastClosedTimestamp ?e = 0" "ee_timeframe ?e = 300" by (simp_all add: new_entry_exit_def)
  with consolidated_once [OF h, of no_dates] show ?thesis unfolding c by simp
qed

end
