(* ===== verification/Strategy_Engine.thy ===== *)
theory Strategy_Engine
  imports Trade_Manager Trade_Exits
begin

text \<open>
  The engine that the plugins under \<^verbatim>\<open>strategies/src/strategies/\<close> share, line by line as in \<^verbatim>\<open>maadx/maadx.cpp\<close>, \<^verbatim>\<open>pullback/pullback.cpp\<close> and
  three more: \<^verbatim>\<open>compute\<close>, \<^verbatim>\<open>updateTrade\<close>, \<^verbatim>\<open>orderEntry\<close>, \<^verbatim>\<open>updateStats\<close>, the life of the plugin. The state of a plugin extends the record; what its
  analysers do and how it finds its signal are arguments. The messages of the log are left out.
\<close>

section \<open>State\<close>

record engine =
  eg_strategy :: strategy
  eg_trades :: "any_trade list"
  eg_pool :: pool
  eg_lastSignal :: trade_signal
  eg_entry :: trade_entry
  eg_stopLoss :: entry_exit
  eg_takeProfit :: entry_exit
  eg_breakeven :: entry_exit
  eg_dynamicStop :: dynamic_stop
  eg_minProfit :: dbl

text \<open>What a plugin reads and answers: market data.\<close>

datatype market_data = Md_ticks "tick list" | Md_bars dbl ohlc_type "ohlc list"

text \<open>
  The code that a plugin adds: what its analysers do with market data and when they run, its signal, the hooks of its \<^verbatim>\<open>updateTrade\<close>, whether it
  lets an entry in that passed the other conditions, and what it sets in a trade before the trade opens.
\<close>

record ('w, 'e) plugin_code =
  pc_data :: "market_data \<Rightarrow> 'e \<Rightarrow> 'e"
  pc_prepare :: "dbl \<Rightarrow> 'e \<Rightarrow> 'e"
  pc_analysers :: "dbl \<Rightarrow> dbl \<Rightarrow> 'e \<Rightarrow> 'e"
  pc_computeSignal :: "dbl \<Rightarrow> market \<Rightarrow> 'e \<Rightarrow> trade_signal \<times> 'e"
  pc_hooks :: "'w proxy \<Rightarrow> 'e \<Rightarrow> 'w strategy_hooks"
  pc_accepts :: "trade_signal \<Rightarrow> 'e \<Rightarrow> bool"
  pc_created :: "'e \<Rightarrow> any_trade \<Rightarrow> any_trade"

abbreviation eg_now :: "'x engine_scheme \<Rightarrow> dbl" where "eg_now e \<equiv> sg_lastTimestamp (eg_strategy e)"

definition eg_set_stats :: "statistics \<Rightarrow> 'x engine_scheme \<Rightarrow> 'x engine_scheme" where
  "eg_set_stats st e = e\<lparr>eg_strategy := (eg_strategy e)\<lparr>sg_stats := st\<rparr>\<rparr>"

section \<open>Trades\<close>

text \<open>\<^verbatim>\<open>updateTrade\<close>: the breakeven, then the dynamic stop-loss, on what the breakeven has left.\<close>

definition eg_updateTrade :: "'w proxy \<Rightarrow> (dbl \<Rightarrow> modifier_type \<Rightarrow> 'a trade_scheme \<Rightarrow> 'w \<Rightarrow> 'a trade_scheme \<times> 'w)
    \<Rightarrow> 'x engine_scheme \<Rightarrow> 'a trade_scheme \<Rightarrow> 'w \<Rightarrow> 'a trade_scheme \<times> 'w" where
  "eg_updateTrade px modify e t w =
     (let (t, w) = move_stop modify (be_stop (eg_breakeven e) (px_market px w) t) t w
      in move_stop modify (ds_stop (eg_dynamicStop e) (px_market px w) t) t w)"

definition eg_hooks :: "'w proxy \<Rightarrow> 'x engine_scheme \<Rightarrow> 'w strategy_hooks" where
  "eg_hooks px e = \<lparr>sh_updateInd = eg_updateTrade px (it_modifyStopLoss px) e,
     sh_updatePosition = eg_updateTrade px (pt_modifyStopLoss px) e\<rparr>"

text \<open>The parts that most of the plugins share.\<close>

definition eg_standard :: "(market_data \<Rightarrow> 'x engine_scheme \<Rightarrow> 'x engine_scheme) \<Rightarrow> (dbl \<Rightarrow> 'x engine_scheme \<Rightarrow> 'x engine_scheme)
    \<Rightarrow> (dbl \<Rightarrow> dbl \<Rightarrow> 'x engine_scheme \<Rightarrow> 'x engine_scheme)
    \<Rightarrow> (dbl \<Rightarrow> market \<Rightarrow> 'x engine_scheme \<Rightarrow> trade_signal \<times> 'x engine_scheme) \<Rightarrow> ('w, 'x engine_scheme) plugin_code" where
  "eg_standard data prep analysers computeSignal =
     \<lparr>pc_data = data, pc_prepare = prep, pc_analysers = analysers, pc_computeSignal = computeSignal, pc_hooks = eg_hooks,
      pc_accepts = \<lambda>_ _. True, pc_created = \<lambda>_ t. t\<rparr>"

definition eg_orderEntry :: "'w proxy \<Rightarrow> ('w, 'x engine_scheme) plugin_code \<Rightarrow> dbl \<Rightarrow> int \<Rightarrow> order_type \<Rightarrow> dbl \<Rightarrow> dbl \<Rightarrow> dbl \<Rightarrow> 'x engine_scheme \<Rightarrow> 'w
    \<Rightarrow> 'x engine_scheme \<times> 'w" where
  "eg_orderEntry px pc timeframe direction orderType price takeProfitPrice stopLossPrice e w =
     (let s = eg_strategy e;
          (t, p) = createTrade (Some (px_market px w)) (sg_tradeType s) timeframe (eg_pool e)
      in case t of
           None \<Rightarrow> (e\<lparr>eg_pool := p\<rparr>, w)
         | Some t \<Rightarrow>
             (let (t, w) = vt_open px direction orderType price (sg_baseQuantity s) takeProfitPrice stopLossPrice (pc_created pc e t) w
              in (e\<lparr>eg_pool := p, eg_trades := tm_addTrade t (eg_trades e)\<rparr>, w)))"

text \<open>\<^verbatim>\<open>orderExit\<close>, of a trade by its place: it frees the trade and leaves it in the list.\<close>

definition eg_orderExit :: "'w proxy \<Rightarrow> nat \<Rightarrow> dbl \<Rightarrow> 'x engine_scheme \<Rightarrow> 'w \<Rightarrow> 'x engine_scheme \<times> 'w" where
  "eg_orderExit px k price e w =
     (if k < length (eg_trades e) \<and> \<not> price > 0 then
        (let (t, w) = vt_close px REASON_CLOSE_MARKET (eg_trades e ! k) w
         in (e\<lparr>eg_trades := (eg_trades e)[k := vt_init 0 t], eg_pool := freeTrade t (eg_pool e)\<rparr>, w))
      else (e, w))"

section \<open>Processing\<close>

text \<open>The part of \<^verbatim>\<open>compute\<close> before the signal: the analysers and the consolidation of the rules.\<close>

definition eg_prepare :: "date_lib \<Rightarrow> ('w, 'x engine_scheme) plugin_code \<Rightarrow> dbl \<Rightarrow> dbl
    \<Rightarrow> 'x engine_scheme \<Rightarrow> 'x engine_scheme" where
  "eg_prepare dl pc handlerTime timestamp e =
     (let e = pc_analysers pc timestamp (eg_now e) e;
          e = e\<lparr>eg_breakeven := ee_update dl handlerTime (eg_now e) (eg_breakeven e)\<rparr>
      in e\<lparr>eg_dynamicStop := ee_update dl handlerTime (eg_now e) (eg_dynamicStop e)\<rparr>)"

text \<open>A signal against the trades of the other side closes them first, when the strategy reverses.\<close>

definition eg_reverse :: "'w proxy \<Rightarrow> trade_signal \<Rightarrow> 'x engine_scheme \<Rightarrow> 'w \<Rightarrow> int \<times> 'x engine_scheme \<times> 'w" where
  "eg_reverse px sn e w =
     (if sn_type sn = SN_ENTRY \<and> sg_reversal (eg_strategy e) \<and> tm_hasTradesByDirection (- sn_direction sn) (eg_trades e)
      then (let (n, ts, w) = tm_closeAllByDirection px (- sn_direction sn) (eg_trades e) w in (n, e\<lparr>eg_trades := ts\<rparr>, w))
      else (0, e, w))"

definition eg_manage :: "'w proxy \<Rightarrow> date_lib \<Rightarrow> ('w, 'x engine_scheme) plugin_code \<Rightarrow> dbl \<Rightarrow> 'x engine_scheme \<Rightarrow> 'w \<Rightarrow> 'x engine_scheme \<times> 'w" where
  "eg_manage px dl pc timestamp e w =
     (let (ts, st, p, w) = tm_process px (pc_hooks pc px e) dl (eg_now e) timestamp (eg_trades e) (sg_stats (eg_strategy e)) (eg_pool e) w
      in (eg_set_stats st (e\<lparr>eg_trades := ts, eg_pool := p\<rparr>), w))"

definition eg_doOrder :: "date_lib \<Rightarrow> ('w, 'x engine_scheme) plugin_code \<Rightarrow> dbl \<Rightarrow> trade_signal \<Rightarrow> int \<Rightarrow> 'x engine_scheme \<Rightarrow> bool" where
  "eg_doOrder dl pc timestamp sn numClosed e =
     (let s = eg_strategy e
      in if sn_direction sn < 0 \<and> \<not> sg_allowShort s then False
         else if \<not> pc_accepts pc sn e then False
         else if tm_numTrades (eg_trades e) \<ge> sg_maxTrades s \<and> numClosed < 1 then False
         else if sg_sessions s \<noteq> [] \<and> \<not> allowedTradingSession dl timestamp s then False
         else True)"

definition eg_enter :: "'w proxy \<Rightarrow> date_lib \<Rightarrow> ('w, 'x engine_scheme) plugin_code \<Rightarrow> dbl \<Rightarrow> trade_signal \<Rightarrow> int \<Rightarrow> 'x engine_scheme \<Rightarrow> 'w \<Rightarrow> 'x engine_scheme \<times> 'w" where
  "eg_enter px dl pc timestamp sn numClosed e w =
     (if sn_type sn = SN_ENTRY then
        (let e = e\<lparr>eg_lastSignal := sn\<rparr>
         in if eg_doOrder dl pc timestamp sn numClosed e
            then eg_orderEntry px pc (sn_timeframe sn) (sn_direction sn) (sn_orderType sn) (sn_price sn) (sn_takeProfitPrice sn)
                   (sn_stopLossPrice sn) e w
            else (e, w))
      else (e, w))"

definition eg_compute :: "'w proxy \<Rightarrow> date_lib \<Rightarrow> ('w, 'x engine_scheme) plugin_code \<Rightarrow> dbl \<Rightarrow> dbl \<Rightarrow> 'x engine_scheme \<Rightarrow> 'w
    \<Rightarrow> 'x engine_scheme \<times> 'w" where
  "eg_compute px dl pc handlerTime timestamp e w =
     (let e = eg_prepare dl pc handlerTime timestamp e;
          (sn, e) = pc_computeSignal pc timestamp (px_market px w) e;
          (numClosed, e, w) = eg_reverse px sn e w;
          (e, w) = eg_manage px dl pc timestamp e w
      in eg_enter px dl pc timestamp sn numClosed e w)"

definition eg_updateStats :: "market \<Rightarrow> 'x engine_scheme \<Rightarrow> 'x engine_scheme" where
  "eg_updateStats m e =
     (let pf = tm_computePerformance m (eg_trades e)
      in eg_set_stats (setActiveStats (pf_performance pf) (pf_drawDownRate pf) (pf_drawDown pf) (pf_pending pf) (pf_actives pf)
           (sg_stats (eg_strategy e))) e)"

text \<open>What the plugins check of a signal in the end.\<close>

definition check_signal :: "market \<Rightarrow> 'x engine_scheme \<Rightarrow> trade_signal \<Rightarrow> trade_signal" where
  "check_signal m e s =
     (let s = (if \<not> en_checkMaxSpread (eg_entry e) m then sn_reset s else s)
      in if eg_minProfit e > 0 \<and> sn_takeProfitRate s < eg_minProfit e then sn_reset s else s)"

text \<open>\<^verbatim>\<open>Strategy::process\<close> with the overrides of a plugin: \<^verbatim>\<open>finalize\<close> is empty, \<^verbatim>\<open>prepare\<close> runs that of the analysers.\<close>

definition eg_process :: "'w proxy \<Rightarrow> date_lib \<Rightarrow> ('w, 'x engine_scheme) plugin_code \<Rightarrow> dbl \<Rightarrow> dbl \<Rightarrow> 'x engine_scheme \<Rightarrow> 'w
    \<Rightarrow> 'x engine_scheme \<times> 'w" where
  "eg_process px dl pc handlerTime timestamp e w =
     (let e = e\<lparr>eg_strategy := (eg_strategy e)\<lparr>sg_processing := True\<rparr>\<rparr>;
          (e, w) = eg_compute px dl pc handlerTime timestamp (pc_prepare pc timestamp e) w;
          e = eg_updateStats (px_market px w) e
      in (e\<lparr>eg_strategy := (eg_strategy e)\<lparr>sg_lastTimestamp := timestamp, sg_processing := False\<rparr>\<rparr>, w))"

definition eg_onOrderSignal :: "market \<Rightarrow> dbl \<Rightarrow> order_signal \<Rightarrow> 'x engine_scheme \<Rightarrow> 'x engine_scheme" where
  "eg_onOrderSignal m u sg e = e\<lparr>eg_trades := tm_onOrderSignal m u sg (eg_trades e)\<rparr>"

definition eg_onPositionSignal :: "position_signal \<Rightarrow> 'x engine_scheme \<Rightarrow> 'x engine_scheme" where
  "eg_onPositionSignal ps e = e\<lparr>eg_trades := tm_onPositionSignal ps (eg_trades e)\<rparr>"

section \<open>Life\<close>

definition eg_finalizeMarketData :: "'x engine_scheme \<Rightarrow> 'x engine_scheme" where
  "eg_finalizeMarketData e = e\<lparr>eg_trades := [], eg_strategy := setRunning (setReady (eg_strategy e))\<rparr>"

definition eg_terminate :: "'x engine_scheme \<Rightarrow> 'x engine_scheme" where
  "eg_terminate e = e\<lparr>eg_pool := tm_terminate (eg_trades e) (eg_pool e), eg_trades := [], eg_strategy := setTerminated (eg_strategy e)\<rparr>"

text \<open>
  The range of history that \<^verbatim>\<open>prepareMarketData\<close> reads for an analyser with a depth: from, to, and the number of last bars.
\<close>

definition eg_fetchRange :: "market \<Rightarrow> dbl \<Rightarrow> dbl \<Rightarrow> dbl \<Rightarrow> int \<Rightarrow> (dbl \<times> dbl \<times> int) option" where
  "eg_fetchRange m fromTs history timeframe depth =
     (if depth \<le> 0 then None
      else
        let dstTs = fromTs - 1;
            (srcTs, lastN) =
              (if history > 0 then (fromTs - 1 - history, 0)
               else if timeframe > 0 then (fromTs - 1 - timeframe * of_int depth, 0)
               else (0, depth))
        in Some (adjustOhlcFetchRange m history depth srcTs dstTs lastN))"

section \<open>The trades of a plugin\<close>

text \<open>What a trade keeps from its entry on.\<close>

abbreviation vt_key :: "any_trade \<Rightarrow> int \<times> int \<times> dbl" where "vt_key t \<equiv> (vt_id t, vt_direction t, vt_entryTimeout t)"

abbreviation keys :: "any_trade list \<Rightarrow> (int \<times> int \<times> dbl) list" where "keys ts \<equiv> map vt_key ts"

lemma move_stop_key [simp]:
  "tr_id (fst (move_stop (it_modifyStopLoss px) s t w)) = tr_id t"
  "tr_direction (fst (move_stop (it_modifyStopLoss px) s t w)) = tr_direction t"
  "tr_entryTimeout (fst (move_stop (it_modifyStopLoss px) s t w)) = tr_entryTimeout t"
  "tr_id (fst (move_stop (pt_modifyStopLoss px) s t' w)) = tr_id t'"
  "tr_direction (fst (move_stop (pt_modifyStopLoss px) s t' w)) = tr_direction t'"
  "tr_entryTimeout (fst (move_stop (pt_modifyStopLoss px) s t' w)) = tr_entryTimeout t'"
  by (simp_all add: move_stop_def split: option.split)

lemma eg_hooks_ok [simp]: "hooks_ok (eg_hooks px e)"
  by (simp add: hooks_ok_def eg_hooks_def eg_updateTrade_def split_beta)

lemma tm_step_key: "hooks_ok hk \<Longrightarrow> vt_key (fst (tm_step px hk now t w)) = vt_key t"
  by (simp add: tm_step_def Let_def split_beta del: vt_base.simps)

lemma tm_loop_keys: "hooks_ok hk \<Longrightarrow> keys (map fst (fst (tm_loop px hk now ts w))) = keys ts"
  by (induction ts arbitrary: w) (simp_all add: Let_def split_beta tm_step_key [simplified] del: vt_base.simps)

lemma tm_process_keys: "hooks_ok hk \<Longrightarrow> subseq (keys (fst (tm_process px hk dl lastTs now ts st p w))) (keys ts)"
  using tm_loop_keys [of hk px now ts w]
  by (simp add: tm_process_def Let_def split_beta del: vt_base.simps)
    (metis (no_types, lifting) map_map subseq_filter_left subseq_map)

lemma tm_close_one_key [simp]:
  "vt_direction (fst (tm_close_one px t w)) = vt_direction t" "vt_entryTimeout (fst (tm_close_one px t w)) = vt_entryTimeout t"
  by (simp_all add: tm_close_one_def del: vt_base.simps)

lemma tm_closeAllByDirection_keys [simp]: "keys (fst (snd (tm_closeAllByDirection px dir ts w))) = keys ts"
  by (induction ts arbitrary: w) (simp_all add: Let_def split_beta del: vt_base.simps)

lemma tm_signal_keys [simp]: "keys (tm_onOrderSignal m u sg ts) = keys ts" "keys (tm_onPositionSignal ps ts) = keys ts"
  by (induction ts) (simp_all del: vt_base.simps)

lemma vt_init_timeout [simp]: "vt_entryTimeout (vt_setId i (vt_init tf t)) = 0"
  by (cases t) (simp_all add: trade.defs init_trade_def at_init_def mt_init_def it_init_def pt_init_def reset_leg_def reset_stop_def reset_limit_def)

lemma createTrade_key: "createTrade mk ty tf p = (Some t, p') \<Longrightarrow> vt_entryTimeout t = 0"
  by (auto simp: createTrade_def simp del: vt_base.simps split: option.splits if_splits prod.splits)

text \<open>The settings that decide on entries.\<close>

definition eg_config :: "'x engine_scheme \<Rightarrow> strategy" where
  "eg_config e = (eg_strategy e)\<lparr>sg_stats := new_statistics, sg_processing := False, sg_lastTimestamp := 0\<rparr>"

lemma eg_config_fields:
  assumes "eg_config e' = eg_config e"
  shows "sg_allowShort (eg_strategy e') = sg_allowShort (eg_strategy e)" "sg_reversal (eg_strategy e') = sg_reversal (eg_strategy e)"
    "sg_maxTrades (eg_strategy e') = sg_maxTrades (eg_strategy e)" "sg_sessions (eg_strategy e') = sg_sessions (eg_strategy e)"
    "sg_timezone (eg_strategy e') = sg_timezone (eg_strategy e)" "sg_sessionDuration (eg_strategy e') = sg_sessionDuration (eg_strategy e)"
    "sg_sessionOffset (eg_strategy e') = sg_sessionOffset (eg_strategy e)"
  using assms by (auto simp: eg_config_def dest: arg_cong [of _ _ sg_allowShort] arg_cong [of _ _ sg_reversal]
    arg_cong [of _ _ sg_maxTrades] arg_cong [of _ _ sg_sessions] arg_cong [of _ _ sg_timezone]
    arg_cong [of _ _ sg_sessionDuration] arg_cong [of _ _ sg_sessionOffset])

text \<open>The timeouts that a plugin gives to the trades it opens.\<close>

definition pc_timeouts :: "('w, 'e) plugin_code \<Rightarrow> dbl set" where
  "pc_timeouts pc = {q. \<exists>e t. vt_entryTimeout t = 0 \<and> q = vt_entryTimeout (pc_created pc e t)}"

lemma orderEntry_keys:
  "(case eg_orderEntry px pc tf d oty op tp sl e w of (e', w') \<Rightarrow>
     eg_config e' = eg_config e \<and> (keys (eg_trades e') = keys (eg_trades e) \<or> (\<exists>i q. q \<in> pc_timeouts pc \<and> keys (eg_trades e') = keys (eg_trades e) @ [(i, d, q)])))"
proof (cases "createTrade (Some (px_market px w)) (sg_tradeType (eg_strategy e)) tf (eg_pool e)")
  case (Pair t p)
  then show ?thesis using createTrade_key
    by (cases t) (fastforce simp: eg_orderEntry_def pc_timeouts_def Let_def split_beta eg_config_def tm_addTrade_def simp del: vt_base.simps)+
qed

lemma exits_signal [simp]:
  "sn_type (en_updateSignal en m s) = sn_type s" "sn_direction (en_updateSignal en m s) = sn_direction s"
  "sn_type (tp_updateSignal e s) = sn_type s" "sn_direction (tp_updateSignal e s) = sn_direction s"
  "sn_type (sl_updateSignal e s) = sn_type s" "sn_direction (sl_updateSignal e s) = sn_direction s"
  by (simp_all add: en_updateSignal_def limit_at_def tp_updateSignal_def sl_updateSignal_def split: PriceType.split DistanceType.split)

lemma check_signal_valid: "sn_valid (check_signal m e s) \<Longrightarrow> check_signal m e s = s"
  by (auto simp: check_signal_def Let_def sn_valid_def sn_reset_def split: if_splits)

section \<open>Runs\<close>

text \<open>What reaches a plugin, with the rest of the system as the plugin finds it.\<close>

datatype 'w eg_event = Ev_data market_data | Ev_process dbl dbl 'w | Ev_order market dbl order_signal | Ev_position position_signal

definition eg_event :: "'w proxy \<Rightarrow> date_lib \<Rightarrow> ('w, 'x engine_scheme) plugin_code \<Rightarrow> 'w eg_event \<Rightarrow> 'x engine_scheme
    \<Rightarrow> 'x engine_scheme" where
  "eg_event px dl pc ev e =
     (case ev of
        Ev_data md \<Rightarrow> pc_data pc md e
      | Ev_process handlerTime timestamp w \<Rightarrow> fst (eg_process px dl pc handlerTime timestamp e w)
      | Ev_order m u sg \<Rightarrow> eg_onOrderSignal m u sg e
      | Ev_position ps \<Rightarrow> eg_onPositionSignal ps e)"

definition eg_run :: "'w proxy \<Rightarrow> date_lib \<Rightarrow> ('w, 'x engine_scheme) plugin_code \<Rightarrow> 'w eg_event list \<Rightarrow> 'x engine_scheme
    \<Rightarrow> 'x engine_scheme" where
  "eg_run px dl pc evs e = fold (eg_event px dl pc) evs e"

text \<open>What a plugin promises to the engine: its analysers, fed with data or processed, and the search for its signal are about its own state.\<close>

definition eg_core :: "'x engine_scheme \<Rightarrow> strategy \<times> any_trade list \<times> pool" where
  "eg_core e = (eg_strategy e, eg_trades e, eg_pool e)"

locale plugin =
  fixes pc :: "('w, 'x engine_scheme) plugin_code"
  assumes data_core: "eg_core (pc_data pc md e) = eg_core e"
    and prep_core: "eg_core (pc_prepare pc ts e) = eg_core e"
    and analysers_core: "eg_core (pc_analysers pc ts now e) = eg_core e"
    and signal_core: "eg_core (snd (pc_computeSignal pc ts m e)) = eg_core e"
    and hooks: "hooks_ok (pc_hooks pc px e)"
begin

lemma compute_entry:
  "\<exists>ks (n::int) (sn::trade_signal) i q. let e' = fst (eg_compute px dl pc handlerTime timestamp e w); s = eg_strategy e
    in eg_config e' = eg_config e \<and> subseq ks (keys (eg_trades e)) \<and> (n = 0 \<or> sg_reversal s)
      \<and> (keys (eg_trades e') = ks
         \<or> q \<in> pc_timeouts pc \<and> keys (eg_trades e') = ks @ [(i, sn_direction sn, q)] \<and> (sn_direction sn < 0 \<longrightarrow> sg_allowShort s)
           \<and> (int (length ks) < sg_maxTrades s \<or> 1 \<le> n) \<and> (sg_sessions s = [] \<or> allowedTradingSession dl timestamp s))"
proof -
  define e1 where "e1 = eg_prepare dl pc handlerTime timestamp e"
  obtain sn e2 where cs: "pc_computeSignal pc timestamp (px_market px w) e1 = (sn, e2)" by fastforce
  obtain n e3 w3 where rv: "eg_reverse px sn e2 w = (n, e3, w3)" by (metis prod_cases3)
  obtain e4 w4 where mg: "eg_manage px dl pc timestamp e3 w3 = (e4, w4)" by fastforce
  define e5 where "e5 = fst (eg_enter px dl pc timestamp sn n e4 w4)"
  have r: "fst (eg_compute px dl pc handlerTime timestamp e w) = e5"
    by (simp add: eg_compute_def Let_def e1_def [symmetric] cs rv mg e5_def)
  have c1: "eg_core e1 = eg_core e" using analysers_core by (simp add: e1_def eg_prepare_def Let_def eg_core_def)
  have c2: "eg_core e2 = eg_core e1" using signal_core [of timestamp "px_market px w" e1] by (simp add: cs)
  have s3: "eg_strategy e3 = eg_strategy e2" "n = 0 \<or> sg_reversal (eg_strategy e2)"
    using rv by (auto simp: eg_reverse_def Let_def split: if_splits prod.splits)
  have k3: "keys (eg_trades e3) = keys (eg_trades e2)"
    using arg_cong [OF rv, of "keys \<circ> eg_trades \<circ> fst \<circ> snd"]
    by (simp add: eg_reverse_def Let_def split_beta del: vt_base.simps split: if_splits)
  have s4: "eg_config e4 = eg_config e3"
    using mg by (auto simp: eg_manage_def Let_def eg_set_stats_def eg_config_def split: prod.splits)
  have k4: "subseq (keys (eg_trades e4)) (keys (eg_trades e3))"
    using mg tm_process_keys [OF hooks, of px px e3 dl "eg_now e3" timestamp "eg_trades e3" "sg_stats (eg_strategy e3)" "eg_pool e3" w3]
    by (auto simp: eg_manage_def Let_def eg_set_stats_def split: prod.splits)
  have s: "eg_strategy e2 = eg_strategy e" "eg_trades e2 = eg_trades e" using c1 c2 by (simp_all add: eg_core_def)
  have g: "eg_config e4 = eg_config e" using s4 s3(1) s(1) by (simp add: eg_config_def)
  note f = eg_config_fields [OF g]
  note a = orderEntry_keys [where px = px and pc = pc and tf = "sn_timeframe sn" and d = "sn_direction sn" and oty = "sn_orderType sn" and op = "sn_price sn"
      and tp = "sn_takeProfitPrice sn" and sl = "sn_stopLossPrice sn" and e = "e4\<lparr>eg_lastSignal := sn\<rparr>" and w = w4]
  have ks: "subseq (keys (eg_trades e4)) (keys (eg_trades e))" using k4 k3 s(2) by simp
  have "eg_config e5 = eg_config e \<and> (keys (eg_trades e5) = keys (eg_trades e4)
      \<or> (\<exists>i q. q \<in> pc_timeouts pc \<and> keys (eg_trades e5) = keys (eg_trades e4) @ [(i, sn_direction sn, q)]) \<and> eg_doOrder dl pc timestamp sn n (e4\<lparr>eg_lastSignal := sn\<rparr>))"
    using a g by (auto simp: e5_def eg_enter_def Let_def eg_config_def split: if_splits prod.splits simp del: vt_base.simps)
  then have r5: "eg_config e5 = eg_config e" "keys (eg_trades e5) = keys (eg_trades e4)
      \<or> (\<exists>i q. q \<in> pc_timeouts pc \<and> keys (eg_trades e5) = keys (eg_trades e4) @ [(i, sn_direction sn, q)]) \<and> eg_doOrder dl pc timestamp sn n (e4\<lparr>eg_lastSignal := sn\<rparr>)"
    by blast+
  have d: "eg_doOrder dl pc timestamp sn n (e4\<lparr>eg_lastSignal := sn\<rparr>) \<longleftrightarrow>
      (sn_direction sn < 0 \<longrightarrow> sg_allowShort (eg_strategy e)) \<and> (int (length (eg_trades e4)) < sg_maxTrades (eg_strategy e) \<or> 1 \<le> n)
      \<and> (sg_sessions (eg_strategy e) = [] \<or> allowedTradingSession dl timestamp (eg_strategy e))
      \<and> pc_accepts pc sn (e4\<lparr>eg_lastSignal := sn\<rparr>)"
    by (auto simp: eg_doOrder_def Let_def f tm_numTrades_def allowedTradingSession_def)
  have n: "n = 0 \<or> sg_reversal (eg_strategy e)" using s3(2) s(1) by simp
  from r5(2) show ?thesis
  proof
    assume "keys (eg_trades e5) = keys (eg_trades e4)"
    with ks n r5(1) show ?thesis unfolding r Let_def by blast
  next
    assume "(\<exists>i q. q \<in> pc_timeouts pc \<and> keys (eg_trades e5) = keys (eg_trades e4) @ [(i, sn_direction sn, q)]) \<and> eg_doOrder dl pc timestamp sn n (e4\<lparr>eg_lastSignal := sn\<rparr>)"
    then obtain i q where i: "q \<in> pc_timeouts pc" "keys (eg_trades e5) = keys (eg_trades e4) @ [(i, sn_direction sn, q)]"
      and "eg_doOrder dl pc timestamp sn n (e4\<lparr>eg_lastSignal := sn\<rparr>)" by blast
    then have g5: "(sn_direction sn < 0 \<longrightarrow> sg_allowShort (eg_strategy e)) \<and> (int (length (keys (eg_trades e4))) < sg_maxTrades (eg_strategy e) \<or> 1 \<le> n)
      \<and> (sg_sessions (eg_strategy e) = [] \<or> allowedTradingSession dl timestamp (eg_strategy e))"
      by (simp add: d)
    show ?thesis unfolding r Let_def
      by (rule exI [of _ "keys (eg_trades e4)"], rule exI [of _ n], rule exI [of _ sn], rule exI [of _ i], rule exI [of _ q]) (use ks n r5(1) i g5 in blast)
  qed
qed

lemma process_entry:
  fixes e :: "'x engine_scheme" and w :: 'w and px :: "'w proxy" and dl :: date_lib and handlerTime timestamp :: dbl
  defines "e' \<equiv> fst (eg_process px dl pc handlerTime timestamp e w)"
  obtains "eg_config e' = eg_config e" "subseq (keys (eg_trades e')) (keys (eg_trades e))"
  | ks d i q where "eg_config e' = eg_config e" "subseq ks (keys (eg_trades e))" "keys (eg_trades e') = ks @ [(i, d, q)]" "q \<in> pc_timeouts pc"
      "d < 0 \<longrightarrow> sg_allowShort (eg_strategy e)" "int (length ks) < sg_maxTrades (eg_strategy e) \<or> sg_reversal (eg_strategy e)"
      "sg_sessions (eg_strategy e) = [] \<or> allowedTradingSession dl timestamp (eg_strategy e)"
proof -
  define e0 where "e0 = pc_prepare pc timestamp (e\<lparr>eg_strategy := (eg_strategy e)\<lparr>sg_processing := True\<rparr>\<rparr>)"
  have c: "eg_core e0 = eg_core (e\<lparr>eg_strategy := (eg_strategy e)\<lparr>sg_processing := True\<rparr>\<rparr>)" by (simp add: e0_def prep_core)
  then have g0: "eg_config e0 = eg_config e" "eg_trades e0 = eg_trades e" by (simp_all add: eg_core_def eg_config_def)
  note f = eg_config_fields [OF g0(1)]
  have a: "allowedTradingSession dl timestamp (eg_strategy e0) = allowedTradingSession dl timestamp (eg_strategy e)"
    by (simp add: allowedTradingSession_def f)
  define e1 where "e1 = fst (eg_compute px dl pc handlerTime timestamp e0 w)"
  have e': "eg_config e' = eg_config e1" "keys (eg_trades e') = keys (eg_trades e1)"
    by (simp_all add: e'_def e1_def e0_def eg_process_def Let_def split_beta eg_updateStats_def eg_set_stats_def eg_config_def)
  obtain ks n sn i q where g: "eg_config e1 = eg_config e0" "subseq ks (keys (eg_trades e0))" "n = (0::int) \<or> sg_reversal (eg_strategy e0)"
    and r: "keys (eg_trades e1) = ks \<or> q \<in> pc_timeouts pc \<and> keys (eg_trades e1) = ks @ [(i, sn_direction (sn::trade_signal), q)]
         \<and> (sn_direction sn < 0 \<longrightarrow> sg_allowShort (eg_strategy e0)) \<and> (int (length ks) < sg_maxTrades (eg_strategy e0) \<or> 1 \<le> n)
         \<and> (sg_sessions (eg_strategy e0) = [] \<or> allowedTradingSession dl timestamp (eg_strategy e0))"
    using compute_entry [of px dl handlerTime timestamp e0 w] unfolding Let_def e1_def [symmetric] by blast
  from r show thesis
  proof (elim disjE conjE)
    assume "keys (eg_trades e1) = ks"
    then show thesis using that(1) e' g g0 by simp
  qed (rule that(2) [of ks i "sn_direction sn" q]; use e' g g0 f a in \<open>auto simp del: vt_base.simps\<close>)+
qed

lemma event_cases:
  fixes e :: "'x engine_scheme" and px :: "'w proxy" and dl :: date_lib and ev :: "'w eg_event"
  defines "e' \<equiv> eg_event px dl pc ev e"
  obtains "eg_config e' = eg_config e" "subseq (keys (eg_trades e')) (keys (eg_trades e))"
  | ks d i q where "eg_config e' = eg_config e" "subseq ks (keys (eg_trades e))" "keys (eg_trades e') = ks @ [(i, d, q)]" "q \<in> pc_timeouts pc"
      "d < 0 \<longrightarrow> sg_allowShort (eg_strategy e)" "int (length ks) < sg_maxTrades (eg_strategy e) \<or> sg_reversal (eg_strategy e)"
proof (cases ev)
  case (Ev_process h t w)
  then show thesis using that by (cases rule: process_entry [of px dl h t e w]) (auto simp: e'_def eg_event_def)
next
  case (Ev_data md)
  then show thesis using that(1) data_core [of md e] by (simp add: e'_def eg_event_def eg_core_def eg_config_def)
qed (use that(1) in \<open>simp_all add: e'_def eg_event_def eg_onOrderSignal_def eg_onPositionSignal_def eg_config_def\<close>)

lemma run_inv:
  assumes "\<And>ks d i q. P (ks :: (int \<times> int \<times> dbl) list) \<Longrightarrow> d < 0 \<longrightarrow> sg_allowShort (eg_strategy e)
      \<Longrightarrow> int (length ks) < sg_maxTrades (eg_strategy e) \<or> sg_reversal (eg_strategy e) \<Longrightarrow> q \<in> pc_timeouts pc \<Longrightarrow> P (ks @ [(i, d, q)])"
    and "\<And>ks ks'. P ks \<Longrightarrow> subseq ks' ks \<Longrightarrow> P ks'" and "P (keys (eg_trades e))"
  shows "P (keys (eg_trades (eg_run px dl pc evs e)))"
  using assms
proof (induction evs arbitrary: e)
  case (Cons ev evs)
  let ?e = "eg_event px dl pc ev e"
  have "eg_config ?e = eg_config e \<and> P (keys (eg_trades ?e))"
  proof (cases rule: event_cases [of px dl ev e])
    case 1
    then show ?thesis using Cons.prems(2) [OF Cons.prems(3) 1(2)] by blast
  next
    case (2 ks d i q)
    then show ?thesis using Cons.prems(1) [OF Cons.prems(2) [OF Cons.prems(3) 2(2)] 2(5,6,4), of i] by (simp only: simp_thms)
  qed
  then have c: "eg_config ?e = eg_config e" and "P (keys (eg_trades ?e))" by blast+
  with Cons.IH [of ?e] Cons.prems(1,2) show ?case
    by (simp add: eg_run_def eg_config_fields [OF c])
qed (simp add: eg_run_def)

text \<open>A step whose signal is not an entry opens nothing.\<close>

lemma process_silent:
  assumes "\<And>ts m e. Q e \<Longrightarrow> sn_type (fst (pc_computeSignal pc ts m e)) \<noteq> SN_ENTRY"
    and "\<And>b. Q (eg_prepare dl pc h t (pc_prepare pc t (e\<lparr>eg_strategy := (eg_strategy e)\<lparr>sg_processing := b\<rparr>\<rparr>)))"
  shows "subseq (keys (eg_trades (fst (eg_process px dl pc h t e w)))) (keys (eg_trades e))"
proof -
  define e0 where "e0 = e\<lparr>eg_strategy := (eg_strategy e)\<lparr>sg_processing := True\<rparr>\<rparr>"
  define e1 where "e1 = eg_prepare dl pc h t (pc_prepare pc t e0)"
  obtain sn e2 where cs: "pc_computeSignal pc t (px_market px w) e1 = (sn, e2)" by fastforce
  have n: "sn_type sn \<noteq> SN_ENTRY" using assms(1) [OF assms(2), of t "px_market px w" True] cs by (simp add: e1_def e0_def)
  obtain e4 w4 where mg: "eg_manage px dl pc t e2 w = (e4, w4)" by fastforce
  have c: "eg_compute px dl pc h t (pc_prepare pc t e0) w = (e4, w4)"
    using n by (simp add: eg_compute_def Let_def e1_def [symmetric] cs eg_reverse_def mg eg_enter_def)
  have t: "eg_trades e2 = eg_trades e"
    using signal_core [of t "px_market px w" e1] analysers_core prep_core [of t e0] cs
    by (simp add: e1_def e0_def eg_prepare_def Let_def eg_core_def)
  have "subseq (keys (eg_trades e4)) (keys (eg_trades e2))"
    using mg tm_process_keys [OF hooks, of px px e2 dl "eg_now e2" t "eg_trades e2" "sg_stats (eg_strategy e2)" "eg_pool e2" w]
    by (auto simp: eg_manage_def Let_def eg_set_stats_def split: prod.splits)
  then show ?thesis using t
    by (simp add: eg_process_def Let_def e0_def [symmetric] c eg_updateStats_def eg_set_stats_def)
qed

lemma run_no_short:
  assumes "\<not> sg_allowShort (eg_strategy e)" and "eg_trades e = []" and "t \<in> set (eg_trades (eg_run px dl pc evs e))"
  shows "0 \<le> vt_direction t"
proof -
  have "\<forall>k\<in>set (keys (eg_trades (eg_run px dl pc evs e))). 0 \<le> fst (snd k)"
    by (rule run_inv) (use assms(1,2) in \<open>auto dest: set_subseq\<close>)
  with assms(3) show ?thesis by auto
qed

lemma run_max_trades:
  assumes "\<not> sg_reversal (eg_strategy e)" and "eg_trades e = []" and "0 \<le> sg_maxTrades (eg_strategy e)"
  shows "tm_numTrades (eg_trades (eg_run px dl pc evs e)) \<le> sg_maxTrades (eg_strategy e)"
proof -
  have "int (length (keys (eg_trades (eg_run px dl pc evs e)))) \<le> sg_maxTrades (eg_strategy e)"
    by (rule run_inv) (use assms in \<open>auto dest: list_emb_length\<close>)
  then show ?thesis by (simp add: tm_numTrades_def)
qed

lemma run_no_timeout:
  assumes "pc_timeouts pc \<subseteq> {0}" and "eg_trades e = []" and "t \<in> set (eg_trades (eg_run px dl pc evs e))"
  shows "\<not> tr_isEntryTimeout opened (vt_base t) timestamp 0"
proof -
  have "\<forall>k\<in>set (keys (eg_trades (eg_run px dl pc evs e))). snd (snd k) = 0"
    by (rule run_inv) (use assms(1,2) in \<open>auto dest: set_subseq\<close>)
  with assms(3) show ?thesis by (auto simp: tr_isEntryTimeout_def simp del: vt_base.simps)
qed

lemma closed_session:
  assumes "sg_sessions (eg_strategy e) \<noteq> []" and "\<not> allowedTradingSession dl timestamp (eg_strategy e)"
  shows "subseq (ids (eg_trades (fst (eg_process px dl pc handlerTime timestamp e w)))) (ids (eg_trades e))"
proof (cases rule: process_entry [where px = px and dl = dl and handlerTime = handlerTime and timestamp = timestamp and e = e and w = w])
  case 1
  then show ?thesis using subseq_map [OF 1(2), of fst] by (simp add: comp_def del: vt_base.simps)
qed (use assms in simp)

end

section \<open>Standard plugins\<close>

lemma eg_standard_simps [simp]:
  "pc_data (eg_standard data prep analysers computeSignal) = data" "pc_prepare (eg_standard data prep analysers computeSignal) = prep"
  "pc_analysers (eg_standard data prep analysers computeSignal) = analysers"
  "pc_computeSignal (eg_standard data prep analysers computeSignal) = computeSignal"
  "pc_hooks (eg_standard data prep analysers computeSignal) = eg_hooks" "pc_accepts (eg_standard data prep analysers computeSignal) sn e"
  "pc_created (eg_standard data prep analysers computeSignal) e t = t"
  by (simp_all add: eg_standard_def)

lemma standard_timeouts [simp]: "pc_timeouts (eg_standard data prep analysers computeSignal) \<subseteq> {0}"
  by (auto simp: pc_timeouts_def simp del: vt_base.simps)

lemma standard_plugin:
  assumes "\<And>md e. eg_core (data md e) = eg_core e" "\<And>ts e. eg_core (prep ts e) = eg_core e" "\<And>ts now e. eg_core (analysers ts now e) = eg_core e"
    and "\<And>ts m e. eg_core (snd (computeSignal ts m e)) = eg_core e"
  shows "plugin (eg_standard data prep analysers computeSignal)"
  by unfold_locales (simp_all add: assms)

end
