(* ===== verification/Indicators.thy ===== *)
theory Indicators
  imports Ohlc_Ring Common
begin

text \<open>
  The indicators computed in this repository from the bars of an analyser: \<^verbatim>\<open>dataarray.h\<close> and \<^verbatim>\<open>dataarray.cpp\<close>,
  \<^verbatim>\<open>indicators/price\<close>, \<^verbatim>\<open>indicators/volume\<close> and \<^verbatim>\<open>indicators/pivotpoint\<close> under \<^verbatim>\<open>strategies/\<close>. A data array is the list of its
  values; what indexes it out of its range is \<open>None\<close>. The indicators that call TA-Lib are not here.
\<close>

section \<open>Data arrays\<close>

type_synonym data_array = "dbl list"

definition da_last :: "data_array \<Rightarrow> dbl" where
  "da_last a = (if length a < 1 then 0 else a ! (length a - 1))"

definition da_prev :: "data_array \<Rightarrow> dbl" where
  "da_prev a = (if length a < 2 then 0 else a ! (length a - 2))"

text \<open>\<^verbatim>\<open>at\<close> and \<^verbatim>\<open>set\<close> count from the end with a negative index, and throw \<^verbatim>\<open>E_IndexOutOfRange\<close>.\<close>

definition da_index :: "data_array \<Rightarrow> int \<Rightarrow> nat option" where
  "da_index a n =
     (if n \<ge> int (length a) then None
      else if n < 0 then (let n = int (length a) + n in if n < 0 then None else Some (nat n))
      else Some (nat n))"

definition da_at :: "data_array \<Rightarrow> int \<Rightarrow> dbl option" where
  "da_at a n = map_option (\<lambda>k. a ! k) (da_index a n)"

definition da_set :: "int \<Rightarrow> dbl \<Rightarrow> data_array \<Rightarrow> data_array option" where
  "da_set n v a = map_option (\<lambda>k. a[k := v]) (da_index a n)"

definition cross_at :: "dbl \<Rightarrow> dbl \<Rightarrow> dbl \<Rightarrow> dbl \<Rightarrow> int" where
  "cross_at prev cur prevRef curRef =
     (if prev > prevRef \<and> cur < curRef then -1 else if prev < prevRef \<and> cur > curRef then 1 else 0)"

definition da_cross :: "data_array \<Rightarrow> data_array \<Rightarrow> int" where
  "da_cross a b = (if length a < 2 \<or> length b < 2 then 0 else cross_at (da_prev a) (da_last a) (da_prev b) (da_last b))"

definition da_crossValue :: "data_array \<Rightarrow> dbl \<Rightarrow> int" where
  "da_crossValue a value = (if length a < 2 then 0 else cross_at (da_prev a) (da_last a) value value)"

section \<open>Price\<close>

datatype price_method = PR_CLOSE | PR_HLC | PR_OHLC | PR_HL

definition price_method_from_str :: "string \<Rightarrow> price_method" where
  "price_method_from_str s =
     (if s = ''CLOSE'' \<or> s = ''close'' then PR_CLOSE
      else if s = ''OHLC'' \<or> s = ''ohlc'' \<or> s = ''OHLC4'' \<or> s = ''ohlc4'' then PR_OHLC
      else if s = ''HLC'' \<or> s = ''hlc'' \<or> s = ''HLC3'' \<or> s = ''hlc3'' then PR_HLC
      else if s = ''HL'' \<or> s = ''hl'' \<or> s = ''HL2'' \<or> s = ''hl2'' then PR_HL
      else PR_CLOSE)"

record price_ind =
  pr_method :: price_method
  pr_open :: data_array
  pr_high :: data_array
  pr_low :: data_array
  pr_close :: data_array
  pr_price :: data_array
  pr_timestamp :: data_array
  pr_consolidated :: bool
  pr_lastClosed :: dbl
  pr_prev :: dbl
  pr_last :: dbl
  pr_lastTimestamp :: dbl

text \<open>What an array of O3D holds when it is constructed with a size is a parameter.\<close>

definition new_price :: "(nat \<Rightarrow> data_array) \<Rightarrow> price_method \<Rightarrow> price_ind" where
  "new_price newArray m = \<lparr>pr_method = m, pr_open = newArray 20, pr_high = newArray 20, pr_low = newArray 20, pr_close = newArray 20,
     pr_price = newArray 20, pr_timestamp = newArray 20, pr_consolidated = False, pr_lastClosed = 0, pr_prev = 0, pr_last = 0,
     pr_lastTimestamp = 0\<rparr>"

definition bar_price :: "price_method \<Rightarrow> ohlc \<Rightarrow> dbl" where
  "bar_price m b =
     (case m of
        PR_CLOSE \<Rightarrow> o_close b
      | PR_HLC \<Rightarrow> (o_high b + o_low b + o_close b) * (1 / 3)
      | PR_OHLC \<Rightarrow> (o_open b + o_high b + o_low b + o_close b) * (1 / 4)
      | PR_HL \<Rightarrow> (o_high b + o_low b) * (1 / 2))"

text \<open>\<^verbatim>\<open>compute\<close> reads the bars of the ring, oldest first. The last index of no bars is out of the arrays.\<close>

definition pr_compute :: "ohlc list \<Rightarrow> price_ind \<Rightarrow> price_ind option" where
  "pr_compute bars p =
     (if bars = [] then None
      else
        let p = p\<lparr>pr_prev := pr_last p, pr_open := map o_open bars, pr_high := map o_high bars, pr_low := map o_low bars,
                  pr_close := map o_close bars, pr_price := map (bar_price (pr_method p)) bars, pr_timestamp := map o_ts bars,
                  pr_consolidated := False\<rparr>;
            cur = last bars;
            p = (if length bars > 1 \<and> o_ts cur > pr_lastClosed p
                 then p\<lparr>pr_consolidated := True, pr_lastClosed := o_ts cur\<rparr> else p)
        in Some (p\<lparr>pr_last := da_last (pr_price p), pr_lastTimestamp := da_last (pr_timestamp p)\<rparr>))"

definition set_last :: "dbl \<Rightarrow> data_array \<Rightarrow> data_array" where
  "set_last v a = a[length a - 1 := v]"

definition pr_computeLast :: "ohlc option \<Rightarrow> price_ind \<Rightarrow> price_ind option" where
  "pr_computeLast cur p =
     (let p = p\<lparr>pr_prev := pr_last p\<rparr>
      in case cur of
           None \<Rightarrow> Some p
         | Some b \<Rightarrow>
             if pr_price p = [] then None
             else
               let p = p\<lparr>pr_consolidated := False, pr_timestamp := set_last (o_ts b) (pr_timestamp p),
                         pr_open := set_last (o_open b) (pr_open p), pr_high := set_last (o_high b) (pr_high p),
                         pr_low := set_last (o_low b) (pr_low p), pr_close := set_last (o_close b) (pr_close p),
                         pr_price := set_last (bar_price (pr_method p) b) (pr_price p)\<rparr>;
                   p = (if o_ts b > pr_lastClosed p then p\<lparr>pr_consolidated := True, pr_lastClosed := o_ts b\<rparr> else p)
               in Some (p\<lparr>pr_last := da_last (pr_price p), pr_lastTimestamp := da_last (pr_timestamp p)\<rparr>))"

definition pr_computeMinimalist :: "ohlc list \<Rightarrow> ohlc option \<Rightarrow> nat \<Rightarrow> price_ind \<Rightarrow> price_ind option" where
  "pr_computeMinimalist bars current numBars p = (if numBars = 1 then pr_computeLast current p else pr_compute bars p)"

text \<open>The crossing of a price by the prices of the last two updates.\<close>

definition pr_cross :: "price_ind \<Rightarrow> dbl \<Rightarrow> int" where
  "pr_cross p price = cross_at (pr_prev p) (pr_last p) price price"

section \<open>Volume\<close>

record volume_ind =
  vo_volume :: data_array
  vo_prev :: dbl
  vo_last :: dbl
  vo_lastTimestamp :: dbl

definition new_volume :: "(nat \<Rightarrow> data_array) \<Rightarrow> volume_ind" where
  "new_volume newArray = \<lparr>vo_volume = newArray 20, vo_prev = 0, vo_last = 0, vo_lastTimestamp = 0\<rparr>"

definition vo_compute :: "ohlc list \<Rightarrow> volume_ind \<Rightarrow> volume_ind option" where
  "vo_compute bars v =
     (if bars = [] then None
      else
        let v = v\<lparr>vo_prev := vo_last v, vo_volume := map o_vol bars\<rparr>
        in Some (v\<lparr>vo_last := da_last (vo_volume v), vo_lastTimestamp := o_ts (last bars)\<rparr>))"

definition vo_computeLast :: "ohlc option \<Rightarrow> volume_ind \<Rightarrow> volume_ind option" where
  "vo_computeLast cur v =
     (let v = v\<lparr>vo_prev := vo_last v\<rparr>
      in case cur of
           None \<Rightarrow> Some v
         | Some b \<Rightarrow>
             if vo_volume v = [] then None
             else
               let v = v\<lparr>vo_volume := set_last (o_vol b) (vo_volume v)\<rparr>
               in Some (v\<lparr>vo_last := da_last (vo_volume v), vo_lastTimestamp := o_ts b\<rparr>))"

definition vo_computeMinimalist :: "ohlc list \<Rightarrow> ohlc option \<Rightarrow> nat \<Rightarrow> volume_ind \<Rightarrow> volume_ind option" where
  "vo_computeMinimalist bars current numBars v = (if numBars = 1 then vo_computeLast current v else vo_compute bars v)"

section \<open>Pivot points\<close>

datatype pivot_method = PV_CLASSICAL | PV_CLASSICAL_OHLC | PV_CLASSICAL_OHL | PV_CAMARILLA | PV_WOODIE

definition pivot_method_from_str :: "string \<Rightarrow> pivot_method" where
  "pivot_method_from_str s =
     (if s = ''CLASSICAL'' \<or> s = ''classical'' then PV_CLASSICAL
      else if s = ''CLASSICAL_OHLC'' \<or> s = ''classical_ohlc'' then PV_CLASSICAL_OHLC
      else if s = ''CLASSICAL_OHL'' \<or> s = ''classical_ohl'' then PV_CLASSICAL_OHL
      else if s = ''CAMARILLA'' \<or> s = ''camarilla'' then PV_CLASSICAL
      else if s = ''WOODIE'' \<or> s = ''woodie'' then PV_WOODIE
      else PV_CLASSICAL)"

text \<open>
  The values of one index, from the bar before: the pivot, three supports and three resistances. The values of the first index are not a number,
  \<open>None\<close>, except for the pivot of Camarilla, which is the close of the bar itself; the others leave it as it was.
\<close>

record pivot_levels =
  pl_pivot :: dbl
  pl_support :: "dbl list"
  pl_resistance :: "dbl list"

definition pv_pivot :: "pivot_method \<Rightarrow> dbl \<Rightarrow> dbl \<Rightarrow> dbl \<Rightarrow> dbl \<Rightarrow> dbl" where
  "pv_pivot m opn high low close =
     (case m of
        PV_CLASSICAL \<Rightarrow> (high + low + close) * (1 / 3)
      | PV_CLASSICAL_OHLC \<Rightarrow> (opn + high + low + close) * (1 / 4)
      | PV_CLASSICAL_OHL \<Rightarrow> (opn + high + low) * (1 / 3)
      | PV_CAMARILLA \<Rightarrow> close
      | PV_WOODIE \<Rightarrow> (high + low + 2 * close) * (1 / 4))"

definition pv_levels :: "pivot_method \<Rightarrow> dbl \<Rightarrow> dbl \<Rightarrow> dbl \<Rightarrow> dbl \<Rightarrow> dbl \<Rightarrow> pivot_levels" where
  "pv_levels m opn high low close nextClose =
     (if m = PV_CAMARILLA then
        \<lparr>pl_pivot = nextClose,
         pl_support = [close - (high - low) * (11 / 120), close - (high - low) * (11 / 60), close - (high - low) * (11 / 40)],
         pl_resistance = [close + (high - low) * (11 / 120), close + (high - low) * (11 / 60), close + (high - low) * (11 / 40)]\<rparr>
      else
        let pivot = pv_pivot m opn high low close
        in \<lparr>pl_pivot = pivot,
            pl_support = [2 * pivot - high, pivot - (high - low), low - 2 * (high - pivot)],
            pl_resistance = [2 * pivot - low, pivot + (high - low), high + 2 * (pivot - low)]\<rparr>)"

definition pv_compute :: "pivot_method \<Rightarrow> data_array \<Rightarrow> data_array \<Rightarrow> data_array \<Rightarrow> data_array \<Rightarrow> pivot_levels option list" where
  "pv_compute m opn high low close =
     (let size = length high
      in if size = 0 then []
         else None # map (\<lambda>i. Some (pv_levels m (opn ! i) (high ! i) (low ! i) (close ! i) (close ! (i + 1)))) [0..<size - 1])"

text \<open>The last value of a support or resistance, where it is a number.\<close>

definition pv_last :: "pivot_levels option list \<Rightarrow> pivot_levels option" where
  "pv_last ls = (if ls = [] then None else last ls)"

section \<open>Properties\<close>

text \<open>
  The minimalist computation on an update of the current bar is the full computation on the bars as they are now.
\<close>

theorem price_minimalist:
  assumes "pr_compute (bars @ [b]) p0 = Some p" and "bars \<noteq> []"
  shows "pr_computeMinimalist (bars @ [b']) (Some b') 1 p = pr_compute (bars @ [b']) p"
proof -
  have p: "pr_method p = pr_method p0" "pr_open p = map o_open (bars @ [b])" "pr_high p = map o_high (bars @ [b])"
    "pr_low p = map o_low (bars @ [b])" "pr_close p = map o_close (bars @ [b])"
    "pr_price p = map (bar_price (pr_method p0)) (bars @ [b])" "pr_timestamp p = map o_ts (bars @ [b])"
    using assms(1) by (auto simp: pr_compute_def Let_def)
  have u: "set_last (f b') (map f (bars @ [b])) = map f (bars @ [b'])" for f :: "ohlc \<Rightarrow> dbl"
    by (simp add: set_last_def list_update_append)
  show ?thesis using assms(2)
    by (simp add: pr_computeMinimalist_def pr_computeLast_def pr_compute_def Let_def p u del: map_append)
qed

theorem price_minimalist_witness:
  "(case pr_compute [zero_ohlc, zero_ohlc] (new_price (\<lambda>_. []) PR_CLOSE) of
      None \<Rightarrow> False
    | Some p \<Rightarrow> pr_computeMinimalist [zero_ohlc, zero_ohlc\<lparr>o_close := 5\<rparr>] (Some (zero_ohlc\<lparr>o_close := 5\<rparr>)) 1 p
        = pr_compute [zero_ohlc, zero_ohlc\<lparr>o_close := 5\<rparr>] p)"
proof -
  obtain p where p: "pr_compute ([zero_ohlc] @ [zero_ohlc]) (new_price (\<lambda>_. []) PR_CLOSE) = Some p"
    by (simp add: pr_compute_def Let_def)
  from price_minimalist [OF p, of "zero_ohlc\<lparr>o_close := 5\<rparr>"] p show ?thesis by simp
qed

text \<open>
  Of a bar that is in order the pivot points are in order, from the third support up to the third resistance, the second levels at
  the same distance of the pivot, whatever the method. The pivot array holds that pivot, except for Camarilla, where it holds the close of the
  bar after it.
\<close>

theorem pivot_order:
  assumes "low \<le> opn" "opn \<le> high" "low \<le> close" "close \<le> high"
  shows "(let l = pv_levels m opn high low close nextClose; mid = pv_pivot m opn high low close
    in sorted (rev (pl_support l) @ [mid] @ pl_resistance l)
       \<and> pl_pivot l = (if m = PV_CAMARILLA then nextClose else mid)
       \<and> pl_resistance l ! 1 - mid = mid - pl_support l ! 1)"
  using assms by (cases m) (auto simp: pv_levels_def pv_pivot_def Let_def field_simps)

theorem pivot_order_witness:
  "sorted (rev (pl_support (pv_levels PV_WOODIE 100 110 90 105 0)) @ [pv_pivot PV_WOODIE 100 110 90 105]
     @ pl_resistance (pv_levels PV_WOODIE 100 110 90 105 0))"
  using pivot_order [of 90 100 110 105 PV_WOODIE 0] by (simp add: Let_def)

end
