(* ===== verification/Analyser.thy ===== *)
theory Analyser
  imports Timeframe_Gen Indicators
begin

text \<open>
  The analysers of a series of bars, \<^verbatim>\<open>strategies/src/analysers/\<close>: \<^verbatim>\<open>analyser.cpp\<close> and \<^verbatim>\<open>timeframebaranalyser.cpp\<close>. An
  analyser makes its bars from the ticks with a generator, keeps them in a ring and computes its indicators when the strategy processes.
  The analysers of the plugins extend the record; their \<^verbatim>\<open>compute\<close> and \<^verbatim>\<open>updateTick\<close> are arguments.
\<close>

record tf_analyser =
  an_timeframe :: dbl
  an_depth :: int
  an_history :: dbl
  an_updateAtClose :: bool
  an_nextTimestamp :: dbl
  an_numLastBars :: nat
  an_gen :: tf_gen
  an_ring :: ohlc_ring
  an_price :: price_ind
  an_volume :: volume_ind

definition new_tf_analyser :: "(nat \<Rightarrow> data_array) \<Rightarrow> dbl \<Rightarrow> dbl \<Rightarrow> int \<Rightarrow> dbl \<Rightarrow> price_method \<Rightarrow> tf_analyser" where
  "new_tf_analyser newArray timeframe sourceTimeframe depth history priceMethod =
     \<lparr>an_timeframe = timeframe, an_depth = depth, an_history = history, an_updateAtClose = False, an_nextTimestamp = 0, an_numLastBars = 0,
      an_gen = new_tf_gen sourceTimeframe timeframe TYPE_MID, an_ring = new_ring (nat depth), an_price = new_price newArray priceMethod,
      an_volume = new_volume newArray\<rparr>"

definition an_isNeedUpdate :: "dbl \<Rightarrow> 'a tf_analyser_scheme \<Rightarrow> bool" where
  "an_isNeedUpdate timestamp a \<longleftrightarrow> timestamp \<ge> an_nextTimestamp a"

definition an_lastPrice :: "'a tf_analyser_scheme \<Rightarrow> dbl" where
  "an_lastPrice a = da_last (pr_close (an_price a))"

definition an_onTickUpdate :: "date_lib \<Rightarrow> (tick \<Rightarrow> bool \<Rightarrow> ohlc_ring \<Rightarrow> 'a tf_analyser_scheme \<Rightarrow> 'a tf_analyser_scheme) \<Rightarrow> tick list
    \<Rightarrow> 'a tf_analyser_scheme \<Rightarrow> 'a tf_analyser_scheme" where
  "an_onTickUpdate dl updateTick ticks a =
     (let (n, g, r, a) = tf_genFromTicksAnalyser dl updateTick ticks (an_gen a) (an_ring a) a;
          a = a\<lparr>an_gen := g, an_ring := r, an_numLastBars := an_numLastBars a + n\<rparr>
      in if ticks \<noteq> [] \<and> has_bar g then a\<lparr>an_numLastBars := an_numLastBars a + 1\<rparr> else a)"

definition an_onOhlcUpdate :: "dbl \<Rightarrow> ohlc list \<Rightarrow> 'a tf_analyser_scheme \<Rightarrow> 'a tf_analyser_scheme" where
  "an_onOhlcUpdate timeframe bars a =
     (if timeframe = g_fromTf (an_gen a) then
        (let (n, g, r) = tf_genFromOhlc bars (an_gen a) (an_ring a)
         in a\<lparr>an_gen := g, an_ring := r, an_numLastBars := an_numLastBars a + n\<rparr>)
      else if timeframe = g_toTf (an_gen a) then
        a\<lparr>an_ring := foldl rb_put (an_ring a) bars, an_numLastBars := an_numLastBars a + length bars\<rparr>
      else a)"

text \<open>
  \<^verbatim>\<open>process\<close>: \<open>None\<close> where it reads the first bar of an empty ring or a price out of an array.
\<close>

definition an_process :: "(dbl \<Rightarrow> dbl \<Rightarrow> 'a tf_analyser_scheme \<Rightarrow> 'a tf_analyser_scheme) \<Rightarrow> dbl \<Rightarrow> 'a tf_analyser_scheme
    \<Rightarrow> 'a tf_analyser_scheme option" where
  "an_process compute timestamp a =
     (let bars = contents (an_ring a)
      in if int (length bars) < an_depth a then Some a
         else if bars = [] then None
         else if o_ts (hd bars) \<le> 0 then Some a
         else
           let current = map_option (elt (an_ring a)) (g_cur (an_gen a))
           in case (pr_computeMinimalist bars current (an_numLastBars a) (an_price a),
                    vo_computeMinimalist bars current (an_numLastBars a) (an_volume a)) of
                (Some p, Some v) \<Rightarrow>
                  (let a = a\<lparr>an_price := p, an_volume := v\<rparr>;
                       lastInput = pr_lastTimestamp (an_price a);
                       a = compute timestamp lastInput a;
                       a = a\<lparr>an_nextTimestamp := (if pr_consolidated (an_price a) then lastInput + an_timeframe a else lastInput)\<rparr>
                   in Some (a\<lparr>an_numLastBars := 0\<rparr>))
              | _ \<Rightarrow> None)"

text \<open>An analyser that cannot process stays as it is here.\<close>

definition processed :: "(dbl \<Rightarrow> dbl \<Rightarrow> 'a tf_analyser_scheme \<Rightarrow> 'a tf_analyser_scheme) \<Rightarrow> dbl \<Rightarrow> 'a tf_analyser_scheme
    \<Rightarrow> 'a tf_analyser_scheme" where
  "processed compute timestamp a = (case an_process compute timestamp a of None \<Rightarrow> a | Some a' \<Rightarrow> a')"

text \<open>The move of the close over the last bar, when it is consolidated.\<close>

definition close_move :: "price_ind \<Rightarrow> int" where
  "close_move p =
     (if pr_consolidated p then
        (if da_last (pr_close p) > da_prev (pr_close p) then 1
         else if da_last (pr_close p) < da_prev (pr_close p) then -1 else 0)
      else 0)"

text \<open>The analysers that leave \<^verbatim>\<open>updateTick\<close> as it is.\<close>

definition no_updateTick :: "tick \<Rightarrow> bool \<Rightarrow> ohlc_ring \<Rightarrow> 'a \<Rightarrow> 'a" where
  "no_updateTick tick fin r a = a"

text \<open>Bars reach the analysers with the number of their type where the timeframe belongs.\<close>

definition ohlc_type_number :: "ohlc_type \<Rightarrow> dbl" where
  "ohlc_type_number ty = (case ty of TYPE_LAST \<Rightarrow> 0 | TYPE_MID \<Rightarrow> 1 | TYPE_BID \<Rightarrow> 2 | TYPE_ASK \<Rightarrow> 3)"

section \<open>The indicators follow the bars\<close>

text \<open>What the hooks of a plugin promise: they work on the state of the plugin.\<close>

locale analyser_hooks =
  fixes updateTick :: "tick \<Rightarrow> bool \<Rightarrow> ohlc_ring \<Rightarrow> 'a tf_analyser_scheme \<Rightarrow> 'a tf_analyser_scheme"
    and compute :: "dbl \<Rightarrow> dbl \<Rightarrow> 'a tf_analyser_scheme \<Rightarrow> 'a tf_analyser_scheme"
  assumes tick_base: "tf_analyser.truncate (updateTick t fin r a) = tf_analyser.truncate a"
    and compute_base: "tf_analyser.truncate (compute ts now a) = tf_analyser.truncate a"

definition price_of :: "price_ind \<Rightarrow> volume_ind \<Rightarrow> ohlc list \<Rightarrow> bool" where
  "price_of p v bars \<longleftrightarrow> vo_volume v = map o_vol bars \<and> pr_open p = map o_open bars \<and> pr_high p = map o_high bars \<and> pr_low p = map o_low bars \<and> pr_close p = map o_close bars
     \<and> pr_price p = map (bar_price (pr_method p)) bars \<and> pr_timestamp p = map o_ts bars"

text \<open>Either the arrays are those of the bars up to the current one, or enough bars came to compute all of them.\<close>

definition an_synced :: "'a tf_analyser_scheme \<Rightarrow> bool" where
  "an_synced a \<longleftrightarrow>
     (\<exists>bars. price_of (an_price a) (an_volume a) bars
        \<and> (an_numLastBars a = 1 \<longrightarrow> bars \<noteq> [] \<and> (\<exists>b. contents (an_ring a) = butlast bars @ [b]) \<and> has_bar (an_gen a))
        \<and> (an_numLastBars a = 0 \<longrightarrow> contents (an_ring a) = bars))
     \<or> rb_size (an_ring a) + (if rb_size (an_ring a) = 0 then 0 else 1) \<le> an_numLastBars a"

definition an_ok :: "'a tf_analyser_scheme \<Rightarrow> bool" where
  "an_ok a \<longleftrightarrow> (\<exists>B. gen_rel (an_gen a) (an_ring a) B) \<and> an_synced a"

lemma truncate_fields:
  assumes "tf_analyser.truncate a = tf_analyser.truncate b"
  shows "an_timeframe a = an_timeframe b" "an_depth a = an_depth b" "an_numLastBars a = an_numLastBars b" "an_gen a = an_gen b"
    "an_ring a = an_ring b" "an_price a = an_price b" "an_volume a = an_volume b"
  using assms by (simp_all add: tf_analyser.truncate_def)

lemma full_compute:
  assumes "bars \<noteq> []"
  shows "\<exists>p' v'. pr_compute bars p = Some p' \<and> vo_compute bars v = Some v' \<and> price_of p' v' bars
    \<and> pr_last p' = bar_price (pr_method p') (last bars)"
  using assms by (simp add: pr_compute_def vo_compute_def Let_def price_of_def da_last_def last_conv_nth)

lemma last_compute:
  assumes "price_of p v bars" and "bars \<noteq> []"
  shows "\<exists>p' v'. pr_computeLast (Some b) p = Some p' \<and> vo_computeLast (Some b) v = Some v' \<and> price_of p' v' (butlast bars @ [b])
    \<and> pr_last p' = bar_price (pr_method p') b"
proof -
  have u: "set_last (f b) (map f bars) = map f (butlast bars @ [b])" for f :: "ohlc \<Rightarrow> dbl"
    using assms(2) by (cases bars rule: rev_cases) (simp_all add: set_last_def list_update_append)
  have l: "da_last (map f (butlast bars @ [b])) = f b" for f :: "ohlc \<Rightarrow> dbl" by (simp add: da_last_def nth_append)
  have n: "pr_price p \<noteq> []" "vo_volume v \<noteq> []" using assms by (simp_all add: price_of_def)
  show ?thesis using assms(1) n
    by (simp add: pr_computeLast_def vo_computeLast_def Let_def price_of_def u l del: map_append)
qed

lemma hist_run_amend:
  assumes "hist_run (tf_body lib g) ts l op B = (0, l', op', B')" and "op \<longrightarrow> B \<noteq> []"
  shows "B' = B \<or> B \<noteq> [] \<and> (\<exists>b. B' = butlast B @ [b])"
  using assms
proof (induction ts arbitrary: l op B)
  case (Cons t ts)
  obtain isNew B1 where b: "tf_body lib g t op B = (isNew, B1)" by fastforce
  show ?case
  proof (cases "t_ts t \<le> l")
    case False
    then have r: "hist_run (tf_body lib g) ts (t_ts t) True B1 = (0, l', op', B')" and "\<not> isNew"
      using Cons.prems(1) b by (auto split: prod.splits if_splits)
    then have "op" "B1 = butlast B @ [last B1]" using b by (auto simp: tf_body_def hist_write_def Let_def split: if_splits)
    with Cons.IH [OF r] Cons.prems(2) show ?thesis by (metis butlast_snoc snoc_eq_iff_butlast)
  qed (use Cons in simp)
qed simp

lemma hist_run_facts:
  assumes "hist_run (tf_body lib g) ts l op B = (n, l', op', B')" and "op \<longrightarrow> B \<noteq> []"
  shows "length B' = length B + n" "op \<longrightarrow> op'" "0 < n \<longrightarrow> op' \<and> ts \<noteq> []" "\<not> op' \<longrightarrow> B' = B"
proof -
  have "length B' = length B + n \<and> (op \<longrightarrow> op') \<and> (0 < n \<longrightarrow> op' \<and> ts \<noteq> []) \<and> (\<not> op' \<longrightarrow> B' = B)"
    using assms
  proof (induction ts arbitrary: l op B n)
    case (Cons t ts)
    obtain isNew B1 where b: "tf_body lib g t op B = (isNew, B1)" by fastforce
    show ?case
    proof (cases "t_ts t \<le> l")
      case False
      obtain m where r: "hist_run (tf_body lib g) ts (t_ts t) True B1 = (m, l', op', B')" "n = (if isNew then m + 1 else m)"
        using Cons.prems(1) b False by (auto split: prod.splits)
      have "length B1 = length B + (if isNew then 1 else 0)" "B1 \<noteq> []"
        using b Cons.prems(2) by (auto simp: tf_body_def hist_write_def Let_def split: if_splits)
      with Cons.IH [OF r(1)] r(2) show ?thesis by auto
    qed (use Cons in auto)
  qed simp
  then show "length B' = length B + n" "op \<longrightarrow> op'" "0 < n \<longrightarrow> op' \<and> ts \<noteq> []" "\<not> op' \<longrightarrow> B' = B" by blast+
qed

datatype an_event = An_ticks "tick list" | An_process dbl

fun an_run :: "date_lib \<Rightarrow> (tick \<Rightarrow> bool \<Rightarrow> ohlc_ring \<Rightarrow> 'a tf_analyser_scheme \<Rightarrow> 'a tf_analyser_scheme)
    \<Rightarrow> (dbl \<Rightarrow> dbl \<Rightarrow> 'a tf_analyser_scheme \<Rightarrow> 'a tf_analyser_scheme) \<Rightarrow> an_event list \<Rightarrow> 'a tf_analyser_scheme
    \<Rightarrow> 'a tf_analyser_scheme option" where
  "an_run dl updateTick compute [] a = Some a"
| "an_run dl updateTick compute (An_ticks ticks # es) a = an_run dl updateTick compute es (an_onTickUpdate dl updateTick ticks a)"
| "an_run dl updateTick compute (An_process ts # es) a =
     Option.bind (an_process compute ts a) (an_run dl updateTick compute es)"

context analyser_hooks
begin

lemma loop_base:
  "gen_loop_analyser step updateTick ts g r a = (n, g', r', a') \<Longrightarrow> tf_analyser.truncate a' = tf_analyser.truncate a"
proof (induction ts arbitrary: g r a n)
  case (Cons t ts)
  obtain b g1 r1 where s: "step t g r = (b, g1, r1)" by (metis prod_cases3)
  obtain m g2 r2 a2 where l: "gen_loop_analyser step updateTick ts g1 r1 (updateTick t b r1 a) = (m, g2, r2, a2)" by (metis prod_cases4)
  have "g2 = g'" "r2 = r'" "a2 = a'" using Cons.prems s l by simp_all
  with Cons.IH [of g1 r1 "updateTick t b r1 a" m] l show ?case by (simp add: tick_base)
qed simp

lemma loop_parts: "gen_loop_analyser step upd ts g r a = (n, g', r', a') \<Longrightarrow> gen_loop step ts g r = (n, g', r')"
  using gen_loop_analyser_eq [of step upd ts g r a] by simp

lemma ticks_parts:
  fixes a :: "'a tf_analyser_scheme"
  obtains n g r a' where "tf_genFromTicksAnalyser dl updateTick ticks (an_gen a) (an_ring a) a = (n, g, r, a')"
    "gen_loop (tf_step dl) ticks ((an_gen a)\<lparr>g_numLast := 0\<rparr>) (an_ring a) = (n, g, r)" "tf_analyser.truncate a' = tf_analyser.truncate a"
proof -
  obtain n g r a' where t: "tf_genFromTicksAnalyser dl updateTick ticks (an_gen a) (an_ring a) a = (n, g, r, a')" by (metis prod_cases4)
  have "tf_genFromTicks dl ticks (an_gen a) (an_ring a) = (n, g, r)"
    using t by (cases "g_type (an_gen a)")
      (auto simp: tf_genFromTicksAnalyser_def tf_genFromTicks_def Let_def dest: loop_parts)
  moreover have "tf_analyser.truncate a' = tf_analyser.truncate a"
    using t by (cases "g_type (an_gen a)") (auto simp: tf_genFromTicksAnalyser_def Let_def dest: loop_base)
  ultimately show thesis using that t by (simp add: tf_genFromTicks_loop)
qed

lemma ticks_ok:
  assumes "an_ok a"
  shows "an_ok (an_onTickUpdate dl updateTick ticks a)"
    and "an_depth (an_onTickUpdate dl updateTick ticks a) = an_depth a"
proof -
  obtain n g r a' where t: "tf_genFromTicksAnalyser dl updateTick ticks (an_gen a) (an_ring a) a = (n, g, r, a')"
    and l: "gen_loop (tf_step dl) ticks ((an_gen a)\<lparr>g_numLast := 0\<rparr>) (an_ring a) = (n, g, r)"
    and b: "tf_analyser.truncate a' = tf_analyser.truncate a"
    by (rule ticks_parts)
  note f = truncate_fields [OF b]
  define a1 where "a1 = an_onTickUpdate dl updateTick ticks a"
  have a1: "an_gen a1 = g" "an_ring a1 = r" "an_price a1 = an_price a" "an_depth a1 = an_depth a" "an_volume a1 = an_volume a"
    "an_numLastBars a1 = an_numLastBars a + n + (if ticks \<noteq> [] \<and> has_bar g then 1 else 0)"
    using f by (simp_all add: a1_def an_onTickUpdate_def t Let_def)
  show "an_depth (an_onTickUpdate dl updateTick ticks a) = an_depth a" using a1(4) by (simp add: a1_def)
  obtain B where B: "gen_rel (an_gen a) (an_ring a) B" and sy: "an_synced a" using assms by (auto simp: an_ok_def)
  have B0: "gen_rel ((an_gen a)\<lparr>g_numLast := 0\<rparr>) (an_ring a) B" using B by (simp add: gen_rel_def has_bar_def)
  obtain B' where h: "hist_run (tf_body dl ((an_gen a)\<lparr>g_numLast := 0\<rparr>)) ticks (g_lastTs (an_gen a)) (has_bar (an_gen a)) B
      = (n, g_lastTs g, has_bar g, B')" and B': "gen_rel g r B'" "length (rb_data r) = length (rb_data (an_ring a))"
    using tf.loop_refines [OF B0 l] by (auto simp: has_bar_def)
  have op: "has_bar (an_gen a) \<longrightarrow> B \<noteq> []" using B by (simp add: gen_rel_def)
  note hf = hist_run_facts [OF h op]
  have "ring_ok r" using B'(1) by (simp add: gen_rel_def)
  from ring_okD(1) [OF this] have cap: "0 < length (rb_data r)" by linarith
  have c: "contents (an_ring a) = take_last (length (rb_data r)) B" "contents r = take_last (length (rb_data r)) B'"
    using B B' by (simp_all add: gen_rel_def)
  have sz: "rb_size r = min (length (rb_data r)) (length B + n)" "rb_size (an_ring a) = min (length (rb_data r)) (length B)"
    using arg_cong [OF c(1), of length] arg_cong [OF c(2), of length] hf(1) by simp_all
  have am: "contents r = contents (an_ring a) \<or> contents (an_ring a) \<noteq> [] \<and> (\<exists>b. contents r = butlast (contents (an_ring a)) @ [b])" if "n = 0"
    using hist_run_amend [OF h [unfolded that] op] cap c
    by (auto simp: butlast_take_last_snoc)
  have "an_synced a1"
  proof (cases "rb_size (an_ring a) + (if rb_size (an_ring a) = 0 then 0 else 1) \<le> an_numLastBars a")
    case True
    then have "rb_size r + (if rb_size r = 0 then 0 else 1) \<le> an_numLastBars a1"
      using hf(3) cap by (cases "B = []") (auto simp: a1(6) sz min_def split: if_splits)
    then show ?thesis by (simp add: an_synced_def a1(2))
  next
    case False
    then obtain bars where bars: "price_of (an_price a) (an_volume a) bars"
      "an_numLastBars a = 1 \<longrightarrow> bars \<noteq> [] \<and> (\<exists>b. contents (an_ring a) = butlast bars @ [b]) \<and> has_bar (an_gen a)"
      "an_numLastBars a = 0 \<longrightarrow> contents (an_ring a) = bars"
      using sy by (auto simp: an_synced_def)
    have "an_synced a1" if "2 \<le> an_numLastBars a1"
      unfolding an_synced_def using bars(1) that by (intro disjI1 exI [of _ bars]) (auto simp: a1(3,5))
    moreover have "an_synced a1" if "n = 0" "\<not> (ticks \<noteq> [] \<and> has_bar g)"
    proof -
      have "contents r = contents (an_ring a)" "has_bar (an_gen a) \<longrightarrow> has_bar g" using that h hf(2,4) c by auto
      with bars that show ?thesis unfolding an_synced_def by (intro disjI1 exI [of _ bars]) (auto simp: a1)
    qed
    moreover have "an_synced a1" if "n = 0" "ticks \<noteq> [] \<and> has_bar g" "an_numLastBars a = 0"
    proof -
      have "B' \<noteq> []" using B'(1) that(2) by (simp add: gen_rel_def)
      then have "contents r \<noteq> []" using c(2) cap by simp
      then have "bars \<noteq> []" "\<exists>b. contents r = butlast bars @ [b]"
        using am [OF that(1)] bars(3) that(3) by (auto intro: exI [of _ "last bars"])
      with bars(1) that show ?thesis unfolding an_synced_def by (intro disjI1 exI [of _ bars]) (simp add: a1)
    qed
    ultimately show ?thesis using hf(3) by (cases "n = 0") (fastforce simp: a1(6))+
  qed
  then show "an_ok (an_onTickUpdate dl updateTick ticks a)" using B'(1) by (auto simp: an_ok_def a1_def [symmetric] a1)
qed

lemma process_ok:
  assumes "an_ok a" and "0 < an_depth a"
  shows "\<exists>a'. an_process compute ts a = Some a' \<and> an_ok a' \<and> an_depth a' = an_depth a
    \<and> (a' = a \<and> (int (length (contents (an_ring a))) < an_depth a \<or> o_ts (hd (contents (an_ring a))) \<le> 0)
       \<or> contents (an_ring a) \<noteq> [] \<and> contents (an_ring a') = contents (an_ring a) \<and> price_of (an_price a') (an_volume a') (contents (an_ring a'))
         \<and> pr_last (an_price a') = bar_price (pr_method (an_price a')) (last (contents (an_ring a'))))"
proof -
  define bars where "bars = contents (an_ring a)"
  obtain B where B: "gen_rel (an_gen a) (an_ring a) B" and sy: "an_synced a" using assms(1) by (auto simp: an_ok_def)
  show ?thesis
  proof (cases "int (length bars) < an_depth a \<or> o_ts (hd bars) \<le> 0")
    case True
    have "bars \<noteq> []" if "\<not> int (length bars) < an_depth a" using that assms(2) by auto
    then have "an_process compute ts a = Some a" using True by (auto simp: an_process_def Let_def bars_def [symmetric])
    then show ?thesis using assms(1) True by (auto simp: bars_def)
  next
    case False
    have ne: "bars \<noteq> []" using False assms(2) by auto
    then have rs: "0 < rb_size (an_ring a)" by (metis bars_def length_contents length_greater_0_conv)
    let ?current = "map_option (elt (an_ring a)) (g_cur (an_gen a))"
    have "\<exists>p v. pr_computeMinimalist bars ?current (an_numLastBars a) (an_price a) = Some p
        \<and> vo_computeMinimalist bars ?current (an_numLastBars a) (an_volume a) = Some v \<and> price_of p v bars
        \<and> pr_last p = bar_price (pr_method p) (last bars)"
    proof (cases "an_numLastBars a = 1")
      case True
      with sy rs obtain old b where o: "price_of (an_price a) (an_volume a) old" "old \<noteq> []" "bars = butlast old @ [b]" "has_bar (an_gen a)"
        unfolding an_synced_def bars_def by (auto split: if_splits)
      have "ring_ok (an_ring a)" "g_cur (an_gen a) = Some (newest (an_ring a))" using B o(4) by (auto simp: gen_rel_def)
      then have "?current = Some b" using contents_newest(1) [OF _ rs] o(3) by (simp add: bars_def [symmetric])
      with last_compute [OF o(1,2), of b] o(3) True show ?thesis by (auto simp: pr_computeMinimalist_def vo_computeMinimalist_def)
    qed (use full_compute [OF ne, of "an_price a" "an_volume a"] in \<open>auto simp: pr_computeMinimalist_def vo_computeMinimalist_def\<close>)
    then obtain p v where p: "pr_computeMinimalist bars ?current (an_numLastBars a) (an_price a) = Some p"
      "vo_computeMinimalist bars ?current (an_numLastBars a) (an_volume a) = Some v" "price_of p v bars"
      "pr_last p = bar_price (pr_method p) (last bars)"
      by blast
    define a1 where "a1 = compute ts (pr_lastTimestamp p) (a\<lparr>an_price := p, an_volume := v\<rparr>)"
    note f = truncate_fields [OF compute_base [of ts "pr_lastTimestamp p" "a\<lparr>an_price := p, an_volume := v\<rparr>"], folded a1_def]
    define a' where "a' = (a1\<lparr>an_nextTimestamp := if pr_consolidated (an_price a1) then pr_lastTimestamp p + an_timeframe a1 else pr_lastTimestamp p\<rparr>)
      \<lparr>an_numLastBars := 0\<rparr>"
    have r: "an_process compute ts a = Some a'" using False ne p(1,2)
      by (simp add: an_process_def Let_def bars_def [symmetric] a'_def a1_def)
    have "an_ring a' = an_ring a" "an_gen a' = an_gen a" "an_price a' = p" "an_volume a' = v" "an_depth a' = an_depth a" "an_numLastBars a' = 0"
      using f by (simp_all add: a'_def)
    then show ?thesis using r p(3,4) B ne
      by (auto simp: an_ok_def an_synced_def bars_def)
  qed
qed

lemma run_ok:
  "an_ok a \<Longrightarrow> 0 < an_depth a \<Longrightarrow> \<exists>a'. an_run dl updateTick compute es a = Some a' \<and> an_ok a' \<and> an_depth a' = an_depth a"
proof (induction es arbitrary: a)
  case (Cons e es)
  show ?case
  proof (cases e)
    case (An_ticks ticks)
    with Cons.IH [OF ticks_ok(1) [OF Cons.prems(1)]] ticks_ok(2) [OF Cons.prems(1)] Cons.prems(2) show ?thesis by simp
  next
    case (An_process ts)
    obtain a1 where "an_process compute ts a = Some a1" "an_ok a1" "an_depth a1 = an_depth a" using process_ok [OF Cons.prems] by blast
    with Cons.IH [of a1] Cons.prems(2) An_process show ?thesis by simp
  qed
qed simp

text \<open>The timeframe of an analyser never changes.\<close>

lemma timeframe_kept:
  "an_timeframe (processed compute ts a) = an_timeframe a" "an_timeframe (an_onTickUpdate dl updateTick ticks a) = an_timeframe a"
  "an_timeframe (an_onOhlcUpdate tf bars a) = an_timeframe a"
proof -
  have c: "an_timeframe (compute ts now b) = an_timeframe b" for now and b :: "'a tf_analyser_scheme"
    using truncate_fields(1) [OF compute_base] .
  show "an_timeframe (processed compute ts a) = an_timeframe a"
    by (simp add: processed_def an_process_def Let_def c split: option.split)
  obtain n g r a' where "tf_genFromTicksAnalyser dl updateTick ticks (an_gen a) (an_ring a) a = (n, g, r, a')"
    "tf_analyser.truncate a' = tf_analyser.truncate a"
    by (rule ticks_parts)
  then show "an_timeframe (an_onTickUpdate dl updateTick ticks a) = an_timeframe a"
    using truncate_fields(1) by (simp add: an_onTickUpdate_def Let_def) blast
  show "an_timeframe (an_onOhlcUpdate tf bars a) = an_timeframe a"
    by (simp add: an_onOhlcUpdate_def Let_def split: prod.split)
qed

end

lemma an_ok_new: "2 \<le> depth \<Longrightarrow> an_ok (tf_analyser.extend (new_tf_analyser newArray tf src depth history m) x)"
  by (auto simp: an_ok_def an_synced_def new_tf_analyser_def tf_analyser.defs new_ring_def
    intro!: exI [of _ "[]"] gen_rel_new [unfolded new_ring_def])

end
