(* ===== verification/Volume_Indicators.thy ===== *)
theory Volume_Indicators
  imports Indicators "HOL-Library.Multiset"
begin

text \<open>
  The indicators fed tick by tick, under \<^verbatim>\<open>strategies/src/indicators/\<close>: the volume weighted average price (\<^verbatim>\<open>vwap/vwap.cpp\<close>), the
  cumulative volume delta (\<^verbatim>\<open>cumulativevolumedelta/cvd.cpp\<close>) and the volume profile (\<^verbatim>\<open>volumeprofile/volumeprofile.cpp\<close>). The square
  root is a parameter, and so is what an array of O3D holds when it is constructed with a size, \<open>newArray\<close>, and an element that is not
  written yet, \<open>undef\<close>.
\<close>

section \<open>Volume weighted average price\<close>

record vwap_data =
  vd_vwap :: data_array
  vd_plus :: "data_array list"
  vd_minus :: "data_array list"

text \<open>There are three arrays on each side; more deviations are written out of the vector.\<close>

definition vd_new :: "(nat \<Rightarrow> data_array) \<Rightarrow> dbl \<Rightarrow> int \<Rightarrow> vwap_data option" where
  "vd_new newArray undef numStdDev =
     (if numStdDev > 3 then None
      else
        let arrays = map (\<lambda>i. if int i < numStdDev then [undef] else newArray 256) [0..<3]
        in Some \<lparr>vd_vwap = [undef], vd_plus = arrays, vd_minus = arrays\<rparr>)"

definition vd_stdDevAt :: "int \<Rightarrow> vwap_data \<Rightarrow> data_array option" where
  "vd_stdDevAt stdDev d =
     (if stdDev = 0 then None
      else if stdDev > 0 then
        (if stdDev \<ge> int (length (vd_minus d)) then None else Some (vd_plus d ! nat (stdDev - 1)))
      else if - stdDev \<ge> int (length (vd_minus d)) then None
      else Some (vd_minus d ! nat (- stdDev - 1)))"

record vwap =
  vw_tf :: dbl
  vw_numStdDev :: int
  vw_sessionOffset :: dbl
  vw_sessionDuration :: dbl
  vw_historySize :: int
  vw_sessionFilter :: bool
  vw_current :: "vwap_data option"
  vw_open :: dbl
  vw_pvs :: dbl
  vw_volumes :: dbl
  vw_volume_dev :: dbl
  vw_dev2 :: dbl
  vw_vwap :: "vwap_data list"
  vw_prev :: dbl
  vw_last :: dbl
  vw_lastTimestamp :: dbl

definition new_vwap :: "dbl \<Rightarrow> int \<Rightarrow> int \<Rightarrow> bool \<Rightarrow> vwap" where
  "new_vwap vwapTimeframe historySize numStdDev sessionFilter =
     \<lparr>vw_tf = vwapTimeframe, vw_numStdDev = numStdDev, vw_sessionOffset = 0, vw_sessionDuration = 0, vw_historySize = historySize,
      vw_sessionFilter = sessionFilter, vw_current = None, vw_open = 0, vw_pvs = 0, vw_volumes = 0, vw_volume_dev = 0, vw_dev2 = 0,
      vw_vwap = [], vw_prev = 0, vw_last = 0, vw_lastTimestamp = 0\<rparr>"

definition vw_setSession :: "dbl \<Rightarrow> dbl \<Rightarrow> vwap \<Rightarrow> vwap" where
  "vw_setSession sessionOffset sessionDuration v =
     (let v = v\<lparr>vw_sessionOffset := sessionOffset\<rparr>
      in if sessionDuration > 0 then v\<lparr>vw_sessionDuration := sessionDuration\<rparr> else v\<lparr>vw_sessionDuration := vw_tf v\<rparr>)"

definition vw_previous :: "int \<Rightarrow> vwap \<Rightarrow> vwap_data option" where
  "vw_previous n v =
     (let size = int (length (vw_vwap v))
      in if n \<ge> size then None
         else if n < 0 then (let n = size + n in if n < 0 then None else Some (vw_vwap v ! nat n))
         else Some (vw_vwap v ! nat n))"

definition vw_vwapAt :: "int \<Rightarrow> vwap \<Rightarrow> dbl option" where
  "vw_vwapAt n v =
     (if n > -1 then Some (case vw_current v of None \<Rightarrow> 0 | Some d \<Rightarrow> da_last (vd_vwap d))
      else map_option (\<lambda>d. da_last (vd_vwap d)) (vw_previous n v))"

definition vw_finalize :: "vwap \<Rightarrow> vwap" where
  "vw_finalize v =
     (case vw_current v of
        None \<Rightarrow> v
      | Some d \<Rightarrow>
          (let v = (if vw_historySize v > 0
                    then let vs = vw_vwap v @ [d]
                         in v\<lparr>vw_vwap := (if int (length vs) > vw_historySize v then tl vs else vs)\<rparr>
                    else v)
           in v\<lparr>vw_pvs := 0, vw_volumes := 0, vw_volume_dev := 0, vw_dev2 := 0, vw_current := None\<rparr>))"

text \<open>The first \<open>n\<close> arrays, with \<open>f\<close> applied to each at its index.\<close>

definition on_bands :: "int \<Rightarrow> (nat \<Rightarrow> data_array \<Rightarrow> data_array) \<Rightarrow> data_array list \<Rightarrow> data_array list" where
  "on_bands n f as = map (\<lambda>(i, a). if int i < n then f i a else a) (enumerate 0 as)"

definition repeat_last :: "data_array \<Rightarrow> data_array" where
  "repeat_last a = a @ [da_last a]"

text \<open>The ticks that \<^verbatim>\<open>update\<close> ignores, of a session that opens at a time.\<close>

definition out_of_session :: "bool \<Rightarrow> dbl \<Rightarrow> dbl \<Rightarrow> dbl \<Rightarrow> dbl \<Rightarrow> dbl \<Rightarrow> bool" where
  "out_of_session sessionFilter tf sessionOffset sessionDuration openTimestamp timestamp =
     (if sessionFilter \<and> tf = TF_DAY \<and> (sessionOffset > 0 \<or> sessionDuration > 0) then
        (if timestamp < openTimestamp then True
         else timestamp \<ge> openTimestamp + (if sessionDuration > 0 then sessionDuration else tf))
      else False)"

definition vw_roll :: "tick \<Rightarrow> bool \<Rightarrow> vwap \<Rightarrow> vwap" where
  "vw_roll tick fin v =
     (if vw_open v > 0 \<and> t_ts tick \<ge> vw_open v + vw_tf v then vw_finalize v
      else if fin then
        (case vw_current v of
           None \<Rightarrow> v
         | Some d \<Rightarrow> v\<lparr>vw_current := Some \<lparr>vd_vwap = repeat_last (vd_vwap d), vd_plus = on_bands (vw_numStdDev v) (\<lambda>_. repeat_last) (vd_plus d),
                                        vd_minus = on_bands (vw_numStdDev v) (\<lambda>_. repeat_last) (vd_minus d)\<rparr>\<rparr>)
      else v)"

definition vw_begin :: "date_lib \<Rightarrow> (nat \<Rightarrow> data_array) \<Rightarrow> dbl \<Rightarrow> tick \<Rightarrow> vwap \<Rightarrow> vwap option" where
  "vw_begin dl newArray undef tick v =
     (case vw_current v of
        Some d \<Rightarrow> Some v
      | None \<Rightarrow>
          (let v = v\<lparr>vw_open := baseTime dl (t_ts tick) (vw_tf v)\<rparr>;
               v = (if vw_tf v = TF_DAY \<and> vw_sessionFilter v then v\<lparr>vw_open := vw_open v + vw_sessionOffset v\<rparr> else v)
           in map_option (\<lambda>d. v\<lparr>vw_current := Some d\<rparr>) (vd_new newArray undef (vw_numStdDev v))))"

definition vw_cumulate :: "(dbl \<Rightarrow> dbl) \<Rightarrow> tick \<Rightarrow> vwap_data \<Rightarrow> vwap \<Rightarrow> vwap" where
  "vw_cumulate rt tick d v =
     (if t_vol tick > 0 then
        (let v = v\<lparr>vw_pvs := vw_pvs v + t_last tick * t_vol tick, vw_volumes := vw_volumes v + t_vol tick\<rparr>;
             mean = vw_pvs v / vw_volumes v;
             v = v\<lparr>vw_last := mean, vw_volume_dev := vw_volume_dev v + t_last tick * t_last tick * t_vol tick\<rparr>;
             v = v\<lparr>vw_dev2 := max (vw_volume_dev v / vw_volumes v - mean * mean) 0\<rparr>;
             stdDev = rt (vw_dev2 v)
         in v\<lparr>vw_current := Some \<lparr>vd_vwap = set_last mean (vd_vwap d),
                vd_plus = on_bands (vw_numStdDev v) (\<lambda>i. set_last (mean + (of_nat i + 1) * stdDev)) (vd_plus d),
                vd_minus = on_bands (vw_numStdDev v) (\<lambda>i. set_last (mean - (of_nat i + 1) * stdDev)) (vd_minus d)\<rparr>\<rparr>)
      else v)"

definition vw_update :: "date_lib \<Rightarrow> (nat \<Rightarrow> data_array) \<Rightarrow> (dbl \<Rightarrow> dbl) \<Rightarrow> dbl \<Rightarrow> tick \<Rightarrow> bool \<Rightarrow> vwap \<Rightarrow> vwap option" where
  "vw_update dl newArray rt undef tick fin v =
     (let v = v\<lparr>vw_prev := vw_last v\<rparr>;
          v = vw_roll tick fin v
      in if out_of_session (vw_sessionFilter v) (vw_tf v) (vw_sessionOffset v) (vw_sessionDuration v) (vw_open v) (t_ts tick) then Some v
         else
           case vw_begin dl newArray undef tick v of
             None \<Rightarrow> None
           | Some v \<Rightarrow>
               (case vw_current v of
                  None \<Rightarrow> None
                | Some d \<Rightarrow> Some ((vw_cumulate rt tick d v)\<lparr>vw_lastTimestamp := t_ts tick\<rparr>)))"

section \<open>Cumulative volume delta\<close>

record cvd =
  cv_tf :: dbl
  cv_sessionOffset :: dbl
  cv_sessionDuration :: dbl
  cv_depth :: nat
  cv_sessionFilter :: bool
  cv_open :: dbl
  cv_prevTickPrice :: dbl
  cv_prevTickDir :: int
  cv_tmp :: dbl
  cv_cvd :: "dbl list"
  cv_prev :: dbl
  cv_last :: dbl
  cv_lastTimestamp :: dbl

definition new_cvd :: "dbl \<Rightarrow> nat \<Rightarrow> bool \<Rightarrow> cvd" where
  "new_cvd cvdTimeframe depth sessionFilter =
     \<lparr>cv_tf = cvdTimeframe, cv_sessionOffset = 0, cv_sessionDuration = 0, cv_depth = depth, cv_sessionFilter = sessionFilter, cv_open = 0,
      cv_prevTickPrice = 0, cv_prevTickDir = 0, cv_tmp = 0, cv_cvd = [0], cv_prev = 0, cv_last = 0, cv_lastTimestamp = 0\<rparr>"

definition cv_setSession :: "dbl \<Rightarrow> dbl \<Rightarrow> cvd \<Rightarrow> cvd" where
  "cv_setSession sessionOffset sessionDuration c =
     (let c = c\<lparr>cv_sessionOffset := sessionOffset\<rparr>
      in if sessionDuration > 0 then c\<lparr>cv_sessionDuration := sessionDuration\<rparr> else c\<lparr>cv_sessionDuration := cv_tf c\<rparr>)"

text \<open>The circular array keeps as many values as the depth; its last one is the current.\<close>

definition cv_finalize :: "cvd \<Rightarrow> cvd" where
  "cv_finalize c = c\<lparr>cv_cvd := take_last (cv_depth c) (cv_cvd c @ [da_last (cv_cvd c)])\<rparr>"

definition cv_delta :: "tick \<Rightarrow> cvd \<Rightarrow> dbl \<times> cvd" where
  "cv_delta tick c =
     (if t_bos tick < 0 then (- t_vol tick, c\<lparr>cv_prevTickDir := -1\<rparr>)
      else if t_bos tick > 0 then (t_vol tick, c\<lparr>cv_prevTickDir := 1\<rparr>)
      else if cv_prevTickPrice c \<noteq> 0 then
        (if t_last tick > cv_prevTickPrice c then (t_vol tick + cv_tmp c, c\<lparr>cv_tmp := 0\<rparr>)
         else if t_last tick < cv_prevTickPrice c then (- t_vol tick - cv_tmp c, c\<lparr>cv_tmp := 0\<rparr>)
         else (0, c\<lparr>cv_tmp := cv_tmp c + t_vol tick\<rparr>))
      else (0, c))"

definition cv_session :: "date_lib \<Rightarrow> tick \<Rightarrow> cvd \<Rightarrow> cvd" where
  "cv_session dl tick c =
     (if t_ts tick > cv_open c + cv_tf c then
        (let c = c\<lparr>cv_cvd := set_last 0 (cv_cvd c), cv_open := baseTime dl (t_ts tick) (cv_tf c)\<rparr>
         in if cv_tf c = TF_DAY \<and> cv_sessionFilter c then c\<lparr>cv_open := cv_open c + cv_sessionOffset c\<rparr> else c)
      else c)"

definition cv_update :: "date_lib \<Rightarrow> tick \<Rightarrow> bool \<Rightarrow> cvd \<Rightarrow> cvd" where
  "cv_update dl tick fin c =
     (let c = c\<lparr>cv_prev := cv_last c\<rparr>;
          c = (if fin then cv_finalize c else c);
          c = cv_session dl tick c
      in if out_of_session (cv_sessionFilter c) (cv_tf c) (cv_sessionOffset c) (cv_sessionDuration c) (cv_open c) (t_ts tick) then c
         else
           let (delta, c) = cv_delta tick c;
               c = c\<lparr>cv_prevTickPrice := t_last tick, cv_cvd := set_last (da_last (cv_cvd c) + delta) (cv_cvd c)\<rparr>
           in c\<lparr>cv_last := da_last (cv_cvd c), cv_lastTimestamp := t_ts tick\<rparr>)"

section \<open>Volume profile\<close>

text \<open>
  The volumes of bids and asks at each price, in the order in which their bins were made: the code keeps them in a hash map and sorts what it reads.
\<close>

type_synonym vp_bins = "(dbl \<times> dbl \<times> dbl) list"

record vp_data =
  vp_timestamp :: dbl
  vp_timeframe :: dbl
  vp_sensibility :: dbl
  vp_valPrice :: dbl
  vp_vahPrice :: dbl
  vp_pocPrice :: dbl
  vp_pocVolume :: dbl
  vp_bins :: vp_bins
  vp_peaks :: data_array
  vp_valleys :: data_array

definition new_vp_data :: "(nat \<Rightarrow> data_array) \<Rightarrow> vp_data" where
  "new_vp_data newArray = \<lparr>vp_timestamp = 0, vp_timeframe = 0, vp_sensibility = 1, vp_valPrice = 0, vp_vahPrice = 0, vp_pocPrice = 0, vp_pocVolume = 0,
     vp_bins = [], vp_peaks = newArray 256, vp_valleys = newArray 256\<rparr>"

record volume_profile =
  vp_tf :: dbl
  vp_sessionOffset :: dbl
  vp_sessionDuration :: dbl
  vp_tickSize :: dbl
  vp_pricePrecision :: int
  vp_historySize :: int
  vp_sens :: dbl
  vp_valueAreaSize :: dbl
  vp_computePeaks :: bool
  vp_tickScale :: dbl
  vp_sessionFilter :: bool
  vp_current :: "vp_data option"
  vp_open :: dbl
  vp_minPrice :: dbl
  vp_maxPrice :: dbl
  vp_history :: "vp_data list"
  vp_lastTimestamp :: dbl

definition new_volume_profile :: "dbl \<Rightarrow> int \<Rightarrow> dbl \<Rightarrow> dbl \<Rightarrow> bool \<Rightarrow> dbl \<Rightarrow> bool \<Rightarrow> volume_profile" where
  "new_volume_profile timeframe historySize sensibility valueAreaSize computePeaks tickScale sessionFilter =
     \<lparr>vp_tf = timeframe, vp_sessionOffset = 0, vp_sessionDuration = 0, vp_tickSize = 1, vp_pricePrecision = 1, vp_historySize = historySize,
      vp_sens = sensibility, vp_valueAreaSize = valueAreaSize, vp_computePeaks = computePeaks, vp_tickScale = tickScale,
      vp_sessionFilter = sessionFilter, vp_current = None, vp_open = 0, vp_minPrice = 0, vp_maxPrice = 0, vp_history = [],
      vp_lastTimestamp = 0\<rparr>"

definition vp_init :: "int \<Rightarrow> dbl \<Rightarrow> volume_profile \<Rightarrow> volume_profile" where
  "vp_init pricePrecision tickSize v =
     (let pricePrecision = (if pricePrecision = 0 then 8 else pricePrecision);
          tickSize = (if tickSize = 0 then 1 / 100000000 else tickSize)
      in v\<lparr>vp_pricePrecision := pricePrecision, vp_tickSize := tickSize * vp_tickScale v\<rparr>)"

definition vp_adjustPrice :: "volume_profile \<Rightarrow> dbl \<Rightarrow> dbl" where
  "vp_adjustPrice v price = Prelude.truncate (of_int (c_round (price / vp_tickSize v)) * vp_tickSize v) (vp_pricePrecision v)"

definition vp_basePrice :: "volume_profile \<Rightarrow> dbl \<Rightarrow> dbl" where
  "vp_basePrice v price = of_int (to_int32 (price / vp_sens v)) * vp_sens v"

definition vp_create :: "(nat \<Rightarrow> data_array) \<Rightarrow> dbl \<Rightarrow> dbl \<Rightarrow> volume_profile \<Rightarrow> volume_profile" where
  "vp_create newArray timestamp price v =
     (let baseprice = vp_basePrice v (vp_adjustPrice v price);
          centered = baseprice + vp_sens v * (1 / 2)
      in v\<lparr>vp_minPrice := baseprice, vp_maxPrice := baseprice,
           vp_current := Some ((new_vp_data newArray)\<lparr>vp_timestamp := timestamp, vp_sensibility := vp_sens v, vp_bins := [(centered, 0, 0)]\<rparr>)\<rparr>)"

text \<open>\<^verbatim>\<open>setAt\<close> gives the price of the bin, which is made where there is none.\<close>

definition vp_ensure :: "dbl \<Rightarrow> vp_bins \<Rightarrow> vp_bins" where
  "vp_ensure k bins = (if k \<in> fst ` set bins then bins else bins @ [(k, 0, 0)])"

definition vp_setAt :: "dbl \<Rightarrow> volume_profile \<Rightarrow> vp_data \<Rightarrow> dbl \<times> volume_profile \<times> vp_data" where
  "vp_setAt price v d =
     (let baseprice = vp_basePrice v (vp_adjustPrice v price);
          centered = baseprice + vp_sens v * (1 / 2);
          d' = d\<lparr>vp_bins := vp_ensure centered (vp_bins d)\<rparr>
      in if baseprice < vp_minPrice v then (centered, v\<lparr>vp_minPrice := baseprice\<rparr>, d')
         else if baseprice > vp_maxPrice v then (centered, v\<lparr>vp_maxPrice := baseprice\<rparr>, d')
         else (centered, v, d'))"

fun vp_addAt :: "dbl \<Rightarrow> dbl \<Rightarrow> dbl \<Rightarrow> vp_bins \<Rightarrow> vp_bins" where
  "vp_addAt k bid ask [] = []"
| "vp_addAt k bid ask ((p, b, a) # bins) = (if p = k then (p, b + bid, a + ask) # bins else (p, b, a) # vp_addAt k bid ask bins)"

definition vp_volumeAt :: "dbl \<Rightarrow> vp_bins \<Rightarrow> dbl" where
  "vp_volumeAt k bins = (case map_of bins k of None \<Rightarrow> 0 | Some (b, a) \<Rightarrow> b + a)"

definition vp_updatePoc :: "dbl \<Rightarrow> vp_data \<Rightarrow> vp_data" where
  "vp_updatePoc k d =
     (let volAtPrice = vp_volumeAt k (vp_bins d)
      in if volAtPrice > vp_pocVolume d then d\<lparr>vp_pocVolume := volAtPrice, vp_pocPrice := k\<rparr> else d)"

definition vp_add :: "dbl \<Rightarrow> dbl \<Rightarrow> dbl \<Rightarrow> volume_profile \<Rightarrow> vp_data \<Rightarrow> volume_profile" where
  "vp_add price bid ask v d =
     (let (k, v, d) = vp_setAt price v d;
          d = d\<lparr>vp_bins := vp_addAt k bid ask (vp_bins d)\<rparr>
      in v\<lparr>vp_current := Some (vp_updatePoc k d)\<rparr>)"

subsection \<open>Peaks, valleys and the value area\<close>

definition bin_volumes :: "vp_bins \<Rightarrow> (dbl \<times> dbl) list" where
  "bin_volumes bins = map (\<lambda>(p, b, a). (p, b + a)) bins"

text \<open>The vector is given its size before the bins are pushed behind: as many pairs of zeros come with them.\<close>

definition vp_merged :: "vp_data \<Rightarrow> (dbl \<times> dbl) list" where
  "vp_merged d = sort_key fst (replicate (length (vp_bins d)) (0, 0) @ bin_volumes (vp_bins d))"

text \<open>The walk of \<^verbatim>\<open>computeValueArea\<close> from the point of control to both sides.\<close>

function va_walk :: "(dbl \<times> dbl) list \<Rightarrow> dbl \<Rightarrow> dbl \<Rightarrow> int \<Rightarrow> int \<Rightarrow> dbl \<Rightarrow> dbl \<Rightarrow> dbl \<times> dbl" where
  "va_walk ms inArea summed left right infPrice supPrice =
     (let maxIndex = int (length ms) - 1
      in if summed < inArea then
           if left < 0 \<and> right > maxIndex then (infPrice, supPrice)
           else if left \<ge> 0 \<and> (right \<le> maxIndex \<and> snd (ms ! nat left) > snd (ms ! nat right) \<or> right > maxIndex) then
             va_walk ms inArea (summed + snd (ms ! nat left)) (left - 1) right (fst (ms ! nat left)) supPrice
           else if right \<le> maxIndex then
             va_walk ms inArea (summed + snd (ms ! nat right)) left (right + 1) infPrice (fst (ms ! nat right))
           else (infPrice, supPrice)
         else (infPrice, supPrice))"
  by pat_completeness auto

termination
  by (relation "measure (\<lambda>(ms, inArea, summed, left, right, infPrice, supPrice). nat (left + 1) + nat (int (length ms) - right))") auto

definition poc_index :: "(dbl \<times> dbl) list \<Rightarrow> dbl \<Rightarrow> int" where
  "poc_index ms pocPrice = foldl (\<lambda>idx i. if fst (ms ! i) = pocPrice then int i else idx) (-1) [0..<length ms]"

definition vp_computeValueArea :: "(dbl \<times> dbl) list \<Rightarrow> dbl \<Rightarrow> dbl \<Rightarrow> dbl \<times> dbl" where
  "vp_computeValueArea ms pocPrice valueAreaSize =
     (if ms = [] then (0, 0)
      else
        let pocIdx = poc_index ms pocPrice;
            sumVols = foldl (\<lambda>s x. s + (snd x + snd x)) 0 ms
        in if pocIdx < 0 then (0, 0)
           else
             let inArea = sumVols * valueAreaSize * (1 / 100);
                 (infPrice, supPrice) =
                   va_walk ms inArea (snd (ms ! nat pocIdx)) (pocIdx - 1) (pocIdx + 1) pocPrice pocPrice
             in (min supPrice infPrice, max supPrice infPrice))"

text \<open>The indexes of the peaks of a height, those closer than the least distance replaced by the higher one; the valleys are those of the negated weights.\<close>

definition peak_step :: "dbl list \<Rightarrow> dbl \<Rightarrow> int \<Rightarrow> nat list \<Rightarrow> nat \<Rightarrow> nat list" where
  "peak_step ws minHeight minDistance idx i =
     (if ws ! i > ws ! (i - 1) \<and> ws ! i > ws ! (i + 1) \<and> ws ! i \<ge> minHeight then
        (if idx \<noteq> [] then
           (if \<bar>int i - int (last idx)\<bar> \<ge> minDistance then idx @ [i]
            else if ws ! i > ws ! last idx then butlast idx @ [i]
            else idx)
         else [i])
      else idx)"

definition findPeaks :: "dbl list \<Rightarrow> dbl \<Rightarrow> int \<Rightarrow> nat list" where
  "findPeaks ws minHeight minDistance = foldl (peak_step ws minHeight minDistance) [] [1..<length ws - 1]"

text \<open>The weights are written into a new array, whose size the loops then read.\<close>

definition findPeaksAndValleys :: "(nat \<Rightarrow> data_array) \<Rightarrow> (dbl \<times> dbl) list \<Rightarrow> dbl \<Rightarrow> nat list \<times> nat list" where
  "findPeaksAndValleys newArray ms pocVolume =
     (let ws = take (length (newArray (length ms))) (map snd ms);
          minHeight = pocVolume * (1 / 4);
          minDistance = max 2 (int (length ws) div 6)
      in (findPeaks ws minHeight minDistance, findPeaks (map uminus ws) (- minHeight) minDistance))"

text \<open>
  \<^verbatim>\<open>finalize\<close> stores as many prices as there are peaks, the first ones of the vector, and assigns the value area to a temporary pair.
\<close>

definition vp_finalize :: "(nat \<Rightarrow> data_array) \<Rightarrow> volume_profile \<Rightarrow> volume_profile" where
  "vp_finalize newArray v =
     (case vp_current v of
        None \<Rightarrow> v
      | Some d \<Rightarrow>
          (let d = (if vp_timeframe d \<le> 0
                    then d\<lparr>vp_timeframe := (if vp_tf v > 0 then vp_tf v else vp_lastTimestamp v - vp_timestamp d)\<rparr> else d);
               d = (if vp_computePeaks v then
                      (let ms = vp_merged d; (peaksIdx, valleysIdx) = findPeaksAndValleys newArray ms (vp_pocVolume d)
                       in d\<lparr>vp_peaks := vp_peaks d @ map (\<lambda>i. fst (ms ! i)) [0..<length peaksIdx],
                            vp_valleys := vp_valleys d @ map (\<lambda>i. fst (ms ! i)) [0..<length valleysIdx]\<rparr>)
                    else d);
               vs = vp_history v @ [d]
           in v\<lparr>vp_history := (if int (length vs) > vp_historySize v then tl vs else vs), vp_current := None\<rparr>))"

definition vp_pocPrice0 :: "volume_profile \<Rightarrow> dbl" where
  "vp_pocPrice0 v = (case vp_current v of None \<Rightarrow> 0 | Some d \<Rightarrow> vp_pocPrice d)"

definition vp_begin :: "date_lib \<Rightarrow> (nat \<Rightarrow> data_array) \<Rightarrow> tick \<Rightarrow> volume_profile \<Rightarrow> volume_profile" where
  "vp_begin dl newArray tick v =
     (case vp_current v of
        Some d \<Rightarrow> v
      | None \<Rightarrow>
          (let v = v\<lparr>vp_open := (if vp_tf v > 0 then baseTime dl (t_ts tick) (vp_tf v) else t_ts tick)\<rparr>;
               v = (if vp_tf v = TF_DAY \<and> vp_sessionFilter v then v\<lparr>vp_open := vp_open v + vp_sessionOffset v\<rparr> else v)
           in vp_create newArray (vp_open v) (t_last tick) v))"

definition vp_update :: "date_lib \<Rightarrow> (nat \<Rightarrow> data_array) \<Rightarrow> tick \<Rightarrow> bool \<Rightarrow> volume_profile \<Rightarrow> volume_profile" where
  "vp_update dl newArray tick fin v =
     (let v = (if fin then vp_finalize newArray v else v);
          v = vp_begin dl newArray tick v
      in if out_of_session (vp_sessionFilter v) (vp_tf v) (vp_sessionOffset v) (vp_sessionDuration v) (vp_open v) (t_ts tick) then v
         else
           case vp_current v of
             None \<Rightarrow> v
           | Some d \<Rightarrow>
               (let v = (if t_bos tick < 0 then vp_add (t_last tick) (t_vol tick) 0 v d
                         else if t_bos tick > 0 then vp_add (t_last tick) 0 (t_vol tick) v d
                         else vp_add (t_last tick) (t_vol tick * (1 / 2)) (t_vol tick * (1 / 2)) v d)
                in v\<lparr>vp_lastTimestamp := t_ts tick\<rparr>))"

section \<open>The volume profile of a session\<close>

abbreviation prices :: "vp_bins \<Rightarrow> dbl list" where "prices bins \<equiv> map fst bins"

abbreviation total :: "vp_bins \<Rightarrow> dbl" where "total bins \<equiv> sum_list (map snd (bin_volumes bins))"

lemma addAt_prices [simp]: "prices (vp_addAt k b a bins) = prices bins"
  by (induction bins rule: vp_addAt.induct) auto

lemma ensure_prices: "k \<in> set (prices (vp_ensure k bins))" "distinct (prices bins) \<Longrightarrow> distinct (prices (vp_ensure k bins))"
  by (auto simp: vp_ensure_def)

lemma ensure_total [simp]: "total (vp_ensure k bins) = total bins"
  by (simp add: vp_ensure_def bin_volumes_def)

lemma ensure_volumeAt [simp]: "vp_volumeAt p (vp_ensure k bins) = vp_volumeAt p bins"
  by (auto simp: vp_ensure_def vp_volumeAt_def map_add_def image_iff split: option.splits dest: map_of_SomeD)

lemma addAt_total: "k \<in> set (prices bins) \<Longrightarrow> total (vp_addAt k b a bins) = total bins + (b + a)"
  by (induction k b a bins rule: vp_addAt.induct) (auto simp: bin_volumes_def)

lemma addAt_volumeAt:
  "k \<in> set (prices bins) \<Longrightarrow> vp_volumeAt p (vp_addAt k b a bins) = vp_volumeAt p bins + (if p = k then b + a else 0)"
  by (induction k b a bins rule: vp_addAt.induct) (auto simp: vp_volumeAt_def rev_image_eqI split: if_splits)

text \<open>The point of control is the greatest volume, at a price that has it.\<close>

definition poc_ok :: "vp_data \<Rightarrow> bool" where
  "poc_ok d \<longleftrightarrow> distinct (prices (vp_bins d)) \<and> (\<forall>p. vp_volumeAt p (vp_bins d) \<le> vp_pocVolume d) \<and> 0 \<le> vp_pocVolume d
     \<and> (0 < vp_pocVolume d \<longrightarrow> vp_volumeAt (vp_pocPrice d) (vp_bins d) = vp_pocVolume d)"

lemma vp_add_ok:
  assumes "poc_ok d" and "0 \<le> b + a"
  shows "\<exists>d'. vp_current (vp_add price b a v d) = Some d' \<and> poc_ok d' \<and> total (vp_bins d') = total (vp_bins d) + (b + a)"
    and "vp_sessionFilter (vp_add price b a v d) = vp_sessionFilter v"
proof -
  define k where "k = vp_basePrice v (vp_adjustPrice v price) + vp_sens v * (1 / 2)"
  define v' where "v' = fst (snd (vp_setAt price v d))"
  have s: "vp_setAt price v d = (k, v', d\<lparr>vp_bins := vp_ensure k (vp_bins d)\<rparr>)" "vp_sessionFilter v' = vp_sessionFilter v"
    by (simp_all add: vp_setAt_def Let_def k_def v'_def)
  define bins where "bins = vp_ensure k (vp_bins d)"
  have k: "k \<in> set (prices bins)" "distinct (prices bins)"
    using assms(1) ensure_prices [where k = k and bins = "vp_bins d"] by (auto simp: bins_def poc_ok_def)
  have v: "vp_volumeAt p bins = vp_volumeAt p (vp_bins d)" for p by (simp add: bins_def)
  let ?d = "vp_updatePoc k (d\<lparr>vp_bins := vp_addAt k b a bins\<rparr>)"
  have c: "vp_current (vp_add price b a v d) = Some ?d" by (simp add: vp_add_def s bins_def)
  have t: "total (vp_bins ?d) = total (vp_bins d) + (b + a)"
    using addAt_total [OF k(1), of b a] by (simp add: vp_updatePoc_def Let_def bins_def)
  have "poc_ok ?d" using assms k(2)
    by (auto simp: poc_ok_def vp_updatePoc_def Let_def addAt_volumeAt [OF k(1)] v le_max_iff_disj
      intro: order_trans split: if_splits)
  with c t show "\<exists>d'. vp_current (vp_add price b a v d) = Some d' \<and> poc_ok d' \<and> total (vp_bins d') = total (vp_bins d) + (b + a)" by blast
  show "vp_sessionFilter (vp_add price b a v d) = vp_sessionFilter v" by (simp add: vp_add_def s)
qed

lemma out_of_session_off [simp]: "\<not> out_of_session False tf off dur o' ts"
  by (simp add: out_of_session_def)

lemma vp_update_ok:
  assumes "\<not> vp_sessionFilter v" and "vp_current v = Some d" and "poc_ok d" and "0 \<le> t_vol t"
  shows "\<exists>d'. vp_current (vp_update dl newArray t False v) = Some d' \<and> poc_ok d' \<and> total (vp_bins d') = total (vp_bins d) + t_vol t"
    and "\<not> vp_sessionFilter (vp_update dl newArray t False v)"
  using assms vp_add_ok [OF assms(3), of "t_vol t" 0 "t_last t" v] vp_add_ok [OF assms(3), of 0 "t_vol t" "t_last t" v]
    vp_add_ok [OF assms(3), of "t_vol t * (1 / 2)" "t_vol t * (1 / 2)" "t_last t" v]
  by (auto simp: vp_update_def vp_begin_def Let_def)

lemma vp_updates_ok:
  "\<not> vp_sessionFilter v \<Longrightarrow> vp_current v = Some d \<Longrightarrow> poc_ok d \<Longrightarrow> \<forall>t\<in>set ts. 0 \<le> t_vol t \<Longrightarrow>
   \<exists>d'. vp_current (fold (\<lambda>t. vp_update dl newArray t False) ts v) = Some d' \<and> poc_ok d'
     \<and> total (vp_bins d') = total (vp_bins d) + sum_list (map t_vol ts)"
proof (induction ts arbitrary: v d)
  case (Cons t ts)
  obtain d1 where d1: "vp_current (vp_update dl newArray t False v) = Some d1" "poc_ok d1" "total (vp_bins d1) = total (vp_bins d) + t_vol t"
    using vp_update_ok(1) [OF Cons.prems(1,2,3)] Cons.prems(4) by (metis list.set_intros(1))
  have f: "\<not> vp_sessionFilter (vp_update dl newArray t False v)" using vp_update_ok(2) [OF Cons.prems(1,2,3)] Cons.prems(4) by simp
  show ?case using Cons.IH [OF f d1(1,2)] Cons.prems(4) d1(3) by (auto simp: add.assoc)
qed simp

text \<open>
  C39: Whatever ticks a profile without a session filter gets, the volumes of its bins add up to the volume traded, and the point of control
  is a price with the greatest volume.
\<close>

theorem poc_greatest:
  assumes "\<not> vp_sessionFilter v" and "vp_current v = None" and "ts \<noteq> []" and "\<forall>t\<in>set ts. 0 \<le> t_vol t"
  shows "\<exists>d. vp_current (fold (\<lambda>t. vp_update dl newArray t False) ts v) = Some d
    \<and> sum_list (map snd (bin_volumes (vp_bins d))) = sum_list (map t_vol ts)
    \<and> (\<forall>p. vp_volumeAt p (vp_bins d) \<le> vp_pocVolume d)
    \<and> (0 < vp_pocVolume d \<longrightarrow> vp_volumeAt (vp_pocPrice d) (vp_bins d) = vp_pocVolume d)"
proof -
  obtain t us where ts: "ts = t # us" using assms(3) by (cases ts) auto
  define v1 where "v1 = vp_begin dl newArray t v"
  obtain d where d: "vp_current v1 = Some d" "poc_ok d" "total (vp_bins d) = 0" and f: "\<not> vp_sessionFilter v1"
    using assms(1,2) by (auto simp: v1_def vp_begin_def vp_create_def Let_def poc_ok_def new_vp_data_def bin_volumes_def vp_volumeAt_def)
  have "vp_update dl newArray t False v = vp_update dl newArray t False v1"
    using d(1) assms(2) by (simp add: vp_update_def v1_def [symmetric]) (simp add: vp_begin_def)
  then have "fold (\<lambda>t. vp_update dl newArray t False) ts v = fold (\<lambda>t. vp_update dl newArray t False) ts v1" by (simp add: ts)
  with vp_updates_ok [OF f d(1,2) assms(4), of dl newArray] d(3) show ?thesis by (auto simp: poc_ok_def)
qed

section \<open>The value area\<close>

declare va_walk.simps [simp del]

abbreviation weight :: "(dbl \<times> dbl) list \<Rightarrow> dbl" where "weight ms \<equiv> sum_list (map snd ms)"

lemma weight_nonneg: "\<forall>m\<in>set ms. 0 \<le> snd m \<Longrightarrow> 0 \<le> weight ms"
  by (induction ms) auto

text \<open>A walk for more than there is goes to both ends.\<close>

lemma va_walk_all:
  assumes "\<forall>m\<in>set ms. 0 \<le> snd m" and "weight ms < inArea" and "-1 \<le> left" and "left < right" and "right \<le> int (length ms)"
    and "summed + weight (take (nat (left + 1)) ms) + weight (drop (nat right) ms) \<le> weight ms"
  shows "va_walk ms inArea summed left right infPrice supPrice
    = (if 0 \<le> left then fst (ms ! 0) else infPrice, if right < int (length ms) then fst (ms ! (length ms - 1)) else supPrice)"
  using assms
proof (induction ms inArea summed left right infPrice supPrice rule: va_walk.induct)
  case (1 ms inArea summed left right infPrice supPrice)
  have nn: "0 \<le> weight (take n ms)" "0 \<le> weight (drop n ms)" for n
    using "1.prems"(1) by (auto intro!: weight_nonneg dest: in_set_takeD in_set_dropD)
  have lt: "summed < inArea" using "1.prems"(2,6) nn(1) [of "nat (left + 1)"] nn(2) [of "nat right"] by linarith
  let ?L = "left \<ge> 0 \<and> (right \<le> int (length ms) - 1 \<and> snd (ms ! nat left) > snd (ms ! nat right) \<or> right > int (length ms) - 1)"
  show ?case
  proof (cases "left < 0 \<and> right > int (length ms) - 1")
    case True
    then show ?thesis by (subst va_walk.simps) (simp add: lt Let_def)
  next
    case ends: False
    show ?thesis
    proof (cases ?L)
      case True
      have "take (nat (left + 1)) ms = take (nat (left - 1 + 1)) ms @ [ms ! nat left]"
      proof -
        have "nat (left + 1) = Suc (nat left)" "nat left < length ms" using True "1.prems"(4,5) by linarith+
        then show ?thesis by (simp add: take_Suc_conv_app_nth)
      qed
      with "1.prems"(6) have s: "summed + snd (ms ! nat left) + weight (take (nat (left - 1 + 1)) ms) + weight (drop (nat right) ms) \<le> weight ms"
        by simp
      have "va_walk ms inArea summed left right infPrice supPrice
          = va_walk ms inArea (summed + snd (ms ! nat left)) (left - 1) right (fst (ms ! nat left)) supPrice"
        by (subst va_walk.simps, unfold Let_def if_P [OF lt] if_not_P [OF ends] if_P [OF True]) (rule refl)
      also have "\<dots> = (if 0 \<le> left - 1 then fst (ms ! 0) else fst (ms ! nat left),
          if right < int (length ms) then fst (ms ! (length ms - 1)) else supPrice)"
        by (rule "1.IH"(1) [OF refl lt ends True "1.prems"(1,2) _ _ "1.prems"(5) s]) (use True "1.prems"(4) in auto)
      also have "(if 0 \<le> left - 1 then fst (ms ! 0) else fst (ms ! nat left)) = fst (ms ! 0)" using True by (cases "left = 0") auto
      finally show ?thesis using True by simp
    next
      case False
      with ends have r: "right \<le> int (length ms) - 1" by linarith
      have "drop (nat right) ms = ms ! nat right # drop (nat (right + 1)) ms"
      proof -
        have "nat (right + 1) = Suc (nat right)" "nat right < length ms" using r "1.prems"(3,4) by linarith+
        then show ?thesis by (simp add: Cons_nth_drop_Suc)
      qed
      with "1.prems"(6) have s: "summed + snd (ms ! nat right) + weight (take (nat (left + 1)) ms) + weight (drop (nat (right + 1)) ms) \<le> weight ms"
        by simp
      have "va_walk ms inArea summed left right infPrice supPrice
          = va_walk ms inArea (summed + snd (ms ! nat right)) left (right + 1) infPrice (fst (ms ! nat right))"
        by (subst va_walk.simps, unfold Let_def if_P [OF lt] if_not_P [OF ends] if_not_P [OF False] if_P [OF r]) (rule refl)
      also have "\<dots> = (if 0 \<le> left then fst (ms ! 0) else infPrice,
          if right + 1 < int (length ms) then fst (ms ! (length ms - 1)) else fst (ms ! nat right))"
        by (rule "1.IH"(2) [OF refl lt ends False r "1.prems"(1,2,3) _ _ s]) (use r "1.prems"(4) in auto)
      also have "(if right + 1 < int (length ms) then fst (ms ! (length ms - 1)) else fst (ms ! nat right)) = fst (ms ! (length ms - 1))"
      proof (cases "right + 1 < int (length ms)")
        case False
        then have "right = int (length ms) - 1" using r by linarith
        then have "nat right = length ms - 1" by (simp add: nat_diff_distrib)
        then show ?thesis by simp
      qed simp
      finally show ?thesis using r by simp
    qed
  qed
qed

lemma poc_index_found:
  assumes "price \<in> fst ` set ms"
  obtains i where "poc_index ms price = int i" "i < length ms" "fst (ms ! i) = price"
proof -
  let ?f = "\<lambda>idx i. if fst (ms ! i) = price then int i else idx"
  have "foldl ?f (-1) [0..<n] = -1 \<and> (\<forall>i<n. fst (ms ! i) \<noteq> price) \<or> (\<exists>i<n. foldl ?f (-1) [0..<n] = int i \<and> fst (ms ! i) = price)" for n
    by (induction n) (auto simp: less_Suc_eq)
  from this [of "length ms"] assms that show thesis by (auto simp: poc_index_def in_set_conv_nth) (metis fst_conv)
qed

lemma doubled_weight: "foldl (\<lambda>s x. s + (snd x + snd x)) s ms = s + 2 * weight ms"
  by (induction ms arbitrary: s) (simp_all add: algebra_simps)

lemma weight_mset: "mset ms = mset ms' \<Longrightarrow> weight ms = weight ms'"
  by (metis mset_map sum_mset_sum_list)

lemma merged_facts:
  "set (vp_merged d) = (if vp_bins d = [] then {} else {(0, 0)}) \<union> set (bin_volumes (vp_bins d))"
  "sorted (map fst (vp_merged d))" "length (vp_merged d) = 2 * length (vp_bins d)" "weight (vp_merged d) = total (vp_bins d)"
proof -
  have "weight (vp_merged d) = weight (replicate (length (vp_bins d)) (0, 0) @ bin_volumes (vp_bins d))"
    by (rule weight_mset) (simp add: vp_merged_def)
  also have "\<dots> = total (vp_bins d)" by (simp add: sum_list_replicate)
  finally show "weight (vp_merged d) = total (vp_bins d)" .
qed (auto simp: vp_merged_def bin_volumes_def)

text \<open>
  The sum of the volumes counts every bin twice and the vector starts with empty pairs: the value area of more than half of the volume goes
  from zero to the highest price.
\<close>

theorem value_area_all:
  assumes "\<forall>(p, b, a)\<in>set (vp_bins d). 0 < p \<and> 0 \<le> b + a" and "0 < sum_list (map snd (bin_volumes (vp_bins d)))"
    and "pocPrice \<in> fst ` set (vp_bins d)" and "50 < valueAreaSize"
  shows "vp_computeValueArea (vp_merged d) pocPrice valueAreaSize = (0, Max (fst ` set (vp_bins d)))"
proof -
  define ms where "ms = vp_merged d"
  note m = merged_facts [of d, folded ms_def]
  have ne: "vp_bins d \<noteq> []" using assms(3) by auto
  have prices: "fst ` set ms = insert 0 (fst ` set (vp_bins d))" using ne by (auto simp: m(1) bin_volumes_def image_iff) force+
  have nonneg: "\<forall>x\<in>set ms. 0 \<le> snd x \<and> 0 \<le> fst x" using assms(1) by (auto simp: m(1) bin_volumes_def)
  obtain i where i: "poc_index ms pocPrice = int i" "i < length ms" "fst (ms ! i) = pocPrice"
    using poc_index_found [of pocPrice ms] assms(3) prices by auto
  have l: "0 < length ms" using i(2) by linarith
  have mono: "fst (ms ! j) \<le> fst (ms ! k)" if "j \<le> k" "k < length ms" for j k
    using sorted_nth_mono [OF m(2), of j k] that by simp
  obtain j where j: "j < length ms" "fst (ms ! j) = 0" using prices by (metis (no_types, lifting) image_iff in_set_conv_nth insertI1)
  have low: "fst (ms ! 0) = 0" using mono [of 0 j] j nonneg l nth_mem [of 0 ms] by (auto intro: order_antisym)
  have high: "fst (ms ! (length ms - 1)) = Max (fst ` set (vp_bins d))"
  proof -
    have "Max (fst ` set ms) = fst (ms ! (length ms - 1))"
    proof (rule Max_eqI)
      fix x assume "x \<in> fst ` set ms"
      then obtain k where k: "k < length ms" "x = fst (ms ! k)" by (auto simp only: image_iff in_set_conv_nth)
      with mono [of k "length ms - 1"] show "x \<le> fst (ms ! (length ms - 1))" by simp
    qed (use l in simp_all)
    moreover have "Max (fst ` set ms) = Max (fst ` set (vp_bins d))"
    proof -
      have "Max (fst ` set (vp_bins d)) \<in> fst ` set (vp_bins d)" using ne by (intro Max_in) auto
      then have "0 < Max (fst ` set (vp_bins d))" using assms(1) by auto
      then show ?thesis unfolding prices using ne by (subst Max_insert) auto
    qed
    ultimately show ?thesis by simp
  qed
  have "0 < pocPrice" using assms(1,3) by auto
  with i(3) low have i0: "0 < i" by (metis less_irrefl neq0_conv)
  define inArea where "inArea = foldl (\<lambda>s x. s + (snd x + snd x)) 0 ms * valueAreaSize * (1 / 100)"
  have w: "weight ms < inArea" unfolding inArea_def doubled_weight m(4) using assms(2,4) by (simp add: algebra_simps)
  have "ms = take i ms @ ms ! i # drop (Suc i) ms" using i(2) by (simp add: id_take_nth_drop)
  from arg_cong [OF this, of weight] have "snd (ms ! i) + weight (take i ms) + weight (drop (Suc i) ms) \<le> weight ms" by simp
  then have walk: "va_walk ms inArea (snd (ms ! i)) (int i - 1) (int i + 1) pocPrice pocPrice
      = (if 0 \<le> int i - 1 then fst (ms ! 0) else pocPrice, if int i + 1 < int (length ms) then fst (ms ! (length ms - 1)) else pocPrice)"
    by (intro va_walk_all) (use nonneg w i(2) in \<open>simp_all add: nat_add_distrib\<close>)
  have "(if int i + 1 < int (length ms) then fst (ms ! (length ms - 1)) else pocPrice) = fst (ms ! (length ms - 1))"
    using i(2,3) by (auto intro: arg_cong [of _ _ "\<lambda>k. fst (ms ! k)"])
  with walk i0 low high have "va_walk ms inArea (snd (ms ! i)) (int i - 1) (int i + 1) pocPrice pocPrice = (0, Max (fst ` set (vp_bins d)))"
    by simp
  moreover have "0 \<le> Max (fst ` set (vp_bins d))" using nonneg l high by (metis diff_less nth_mem zero_less_one)
  moreover have "vp_computeValueArea ms pocPrice valueAreaSize = (case va_walk ms inArea (snd (ms ! i)) (int i - 1) (int i + 1) pocPrice pocPrice of
      (infPrice, supPrice) \<Rightarrow> (min supPrice infPrice, max supPrice infPrice))"
    using l unfolding vp_computeValueArea_def Let_def i(1) inArea_def [symmetric] by simp
  ultimately show ?thesis by (simp add: ms_def)
qed

definition two_bins :: vp_data where
  "two_bins = (new_vp_data (\<lambda>_. []))\<lparr>vp_bins := [(99, 1, 1), (100, 30, 30), (101, 2, 3)]\<rparr>"

theorem value_area_all_witness: "vp_computeValueArea (vp_merged two_bins) 100 70 = (0, 101)"
proof -
  have "vp_computeValueArea (vp_merged two_bins) 100 70 = (0, Max (fst ` set (vp_bins two_bins)))"
    by (rule value_area_all) (simp_all add: two_bins_def bin_volumes_def)
  then show ?thesis by (simp add: two_bins_def)
qed

theorem poc_greatest_witness:
  "\<exists>d. vp_current (fold (\<lambda>t. vp_update no_dates (\<lambda>_. []) t False)
      [\<lparr>t_ts = 1, t_bid = 10, t_ask = 10, t_last = 10, t_vol = 5, t_bos = 1\<rparr>] (new_volume_profile 0 1 1 70 False 1 False)) = Some d
    \<and> vp_volumeAt (vp_pocPrice d) (vp_bins d) = 5"
proof -
  let ?t = "\<lparr>t_ts = 1, t_bid = 10, t_ask = 10, t_last = 10, t_vol = 5, t_bos = 1\<rparr>"
  let ?v = "new_volume_profile 0 1 1 70 False 1 False"
  have h: "\<not> vp_sessionFilter ?v" "vp_current ?v = None" "[?t] \<noteq> []" "\<forall>t\<in>set [?t]. 0 \<le> t_vol t" by (simp_all add: new_volume_profile_def)
  obtain d where d: "vp_current (fold (\<lambda>t. vp_update no_dates (\<lambda>_. []) t False) [?t] ?v) = Some d" "total (vp_bins d) = 5"
    "\<forall>p. vp_volumeAt p (vp_bins d) \<le> vp_pocVolume d" "0 < vp_pocVolume d \<longrightarrow> vp_volumeAt (vp_pocPrice d) (vp_bins d) = vp_pocVolume d"
    using poc_greatest [OF h, of no_dates "\<lambda>_. []"] by auto
  have "map_option vp_pocVolume (vp_current (fold (\<lambda>t. vp_update no_dates (\<lambda>_. []) t False) [?t] ?v)) = Some 5" by code_simp
  then have "vp_pocVolume d = 5" by (simp only: d(1) option.map option.inject)
  with d show ?thesis by auto
qed

section \<open>The volume weighted average price of a session\<close>

fun vw_run :: "date_lib \<Rightarrow> (nat \<Rightarrow> data_array) \<Rightarrow> (dbl \<Rightarrow> dbl) \<Rightarrow> dbl \<Rightarrow> (tick \<times> bool) list \<Rightarrow> vwap \<Rightarrow> vwap option" where
  "vw_run dl newArray rt undef [] v = Some v"
| "vw_run dl newArray rt undef ((t, fin) # xs) v = Option.bind (vw_update dl newArray rt undef t fin v) (vw_run dl newArray rt undef xs)"

text \<open>
  With a session filter the average never starts: a new one ignores every tick later than the length of a session after the epoch, before
  it would note the time of the session.
\<close>

theorem vwap_session_dead:
  assumes "vw_sessionFilter v" and "vw_tf v = TF_DAY" and "0 < vw_sessionDuration v" and "vw_current v = None"
    and "\<forall>(t, fin)\<in>set xs. vw_open v + vw_sessionDuration v \<le> t_ts t"
  shows "\<exists>v'. vw_run dl newArray rt undef xs v = Some v' \<and> vw_current v' = None \<and> vw_last v' = vw_last v \<and> vw_vwap v' = vw_vwap v"
  using assms
proof (induction xs arbitrary: v)
  case (Cons x xs)
  obtain t fin where x: "x = (t, fin)" by fastforce
  let ?v = "v\<lparr>vw_prev := vw_last v\<rparr>"
  have "vw_roll t fin ?v = ?v" using Cons.prems(4) by (simp add: vw_roll_def vw_finalize_def)
  then have u: "vw_update dl newArray rt undef t fin v = Some ?v"
    using Cons.prems x by (simp add: vw_update_def out_of_session_def)
  show ?case using Cons.IH [of ?v] Cons.prems by (simp add: x u)
qed simp

theorem vwap_session_dead_witness:
  "map_option vw_last (vw_run no_dates (\<lambda>_. []) id 0 [(\<lparr>t_ts = 1700000000, t_bid = 10, t_ask = 10, t_last = 10, t_vol = 5, t_bos = 1\<rparr>, False)]
     (vw_setSession 0 0 (new_vwap TF_DAY 7 3 True))) = Some 0"
proof -
  let ?v = "vw_setSession 0 0 (new_vwap TF_DAY 7 3 True)"
  let ?t = "\<lparr>t_ts = 1700000000, t_bid = 10, t_ask = 10, t_last = 10, t_vol = 5, t_bos = 1\<rparr> :: tick"
  have h: "vw_sessionFilter ?v" "vw_tf ?v = TF_DAY" "0 < vw_sessionDuration ?v" "vw_current ?v = None"
    "\<forall>(t, fin)\<in>set [(?t, False)]. vw_open ?v + vw_sessionDuration ?v \<le> t_ts t"
    by (simp_all add: vw_setSession_def new_vwap_def Let_def TF_DAY_def)
  have "vw_last ?v = 0" by (simp add: vw_setSession_def new_vwap_def Let_def)
  with vwap_session_dead [OF h, of no_dates "\<lambda>_. []" id 0] show ?thesis by auto
qed

text \<open>What the accumulators of a session hold.\<close>

abbreviation traded :: "tick list \<Rightarrow> tick list" where "traded ts \<equiv> filter (\<lambda>t. 0 < t_vol t) ts"

definition moment :: "(tick \<Rightarrow> dbl) \<Rightarrow> tick list \<Rightarrow> dbl" where
  "moment f ts = (\<Sum>t\<leftarrow>traded ts. f t * t_vol t)"

lemma moment_simps [simp]:
  "moment f [] = 0" "moment f (ts @ [t]) = moment f ts + (if 0 < t_vol t then f t * t_vol t else 0)"
  by (simp_all add: moment_def)

definition vw_holds :: "dbl \<Rightarrow> tick list \<Rightarrow> vwap \<Rightarrow> bool" where
  "vw_holds start ts v \<longleftrightarrow> vw_current v \<noteq> None \<and> vw_open v = start \<and> \<not> vw_sessionFilter v
     \<and> vw_pvs v = moment t_last ts \<and> vw_volumes v = moment (\<lambda>_. 1) ts \<and> vw_volume_dev v = moment (\<lambda>t. t_last t * t_last t) ts
     \<and> (traded ts \<noteq> [] \<longrightarrow> vw_last v = vw_pvs v / vw_volumes v
         \<and> vw_dev2 v = max (vw_volume_dev v / vw_volumes v - vw_last v * vw_last v) 0)"

lemma vw_cumulate_holds:
  assumes "vw_holds start ts v"
  shows "vw_holds start (ts @ [t]) (vw_cumulate rt t d v)"
  using assms by (auto simp: vw_holds_def vw_cumulate_def Let_def)

lemma vw_update_holds:
  assumes "vw_holds start ts v" and "t_ts t < start + vw_tf v"
  shows "\<exists>v'. vw_update dl newArray rt undef t fin v = Some v' \<and> vw_holds start (ts @ [t]) v' \<and> vw_tf v' = vw_tf v"
proof -
  obtain d where d: "vw_current v = Some d" using assms(1) by (auto simp: vw_holds_def)
  define v1 where "v1 = vw_roll t fin (v\<lparr>vw_prev := vw_last v\<rparr>)"
  have v1: "vw_holds start ts v1" "vw_tf v1 = vw_tf v" "vw_current v1 \<noteq> None" "\<not> vw_sessionFilter v1"
    using assms d by (auto simp: v1_def vw_roll_def vw_holds_def)
  obtain d1 where d1: "vw_current v1 = Some d1" using v1(3) by auto
  have u: "vw_update dl newArray rt undef t fin v = Some ((vw_cumulate rt t d1 v1)\<lparr>vw_lastTimestamp := t_ts t\<rparr>)"
    using v1(4) d1 by (simp add: vw_update_def Let_def v1_def [symmetric] vw_begin_def)
  have "vw_holds start (ts @ [t]) ((vw_cumulate rt t d1 v1)\<lparr>vw_lastTimestamp := t_ts t\<rparr>)"
    using vw_cumulate_holds [OF v1(1), of t rt d1] by (simp add: vw_holds_def)
  moreover have "vw_tf ((vw_cumulate rt t d1 v1)\<lparr>vw_lastTimestamp := t_ts t\<rparr>) = vw_tf v"
    by (simp add: vw_cumulate_def Let_def v1(2))
  ultimately show ?thesis using u by blast
qed

lemma vw_run_holds:
  "vw_holds start ts v \<Longrightarrow> \<forall>(t, fin)\<in>set xs. t_ts t < start + vw_tf v \<Longrightarrow>
   \<exists>v'. vw_run dl newArray rt undef xs v = Some v' \<and> vw_holds start (ts @ map fst xs) v'"
proof (induction xs arbitrary: v ts)
  case (Cons x xs)
  obtain t fin where x: "x = (t, fin)" by fastforce
  obtain v1 where v1: "vw_update dl newArray rt undef t fin v = Some v1" "vw_holds start (ts @ [t]) v1" "vw_tf v1 = vw_tf v"
    using vw_update_holds [OF Cons.prems(1), of t dl newArray rt undef fin] Cons.prems(2) x by auto
  show ?case using Cons.IH [OF v1(2)] Cons.prems(2) v1 by (simp add: x)
qed simp

text \<open>The variance that is computed from the moments is the mean of the squared distances.\<close>

lemma variance_moments:
  assumes "traded ts \<noteq> []" and "m = moment t_last ts / moment (\<lambda>_. 1) ts"
  shows "moment (\<lambda>t. t_last t * t_last t) ts / moment (\<lambda>_. 1) ts - m * m = moment (\<lambda>t. (t_last t - m) * (t_last t - m)) ts / moment (\<lambda>_. 1) ts"
    and "0 < moment (\<lambda>_. 1) ts"
proof -
  show W: "0 < moment (\<lambda>_. 1) ts"
  proof -
    obtain u us where tr: "traded ts = u # us" using assms(1) by (cases "traded ts") auto
    have p: "\<forall>t\<in>set (u # us). 0 < t_vol t" unfolding tr [symmetric] by simp
    have "0 \<le> (\<Sum>t\<leftarrow>us. t_vol t)" using p by (intro sum_list_nonneg) (auto intro: less_imp_le)
    moreover have "moment (\<lambda>_. 1) ts = t_vol u + (\<Sum>t\<leftarrow>us. t_vol t)" by (simp only: moment_def tr list.map sum_list.Cons mult_1)
    ultimately show ?thesis using p by simp
  qed
  have "moment (\<lambda>t. (t_last t - m) * (t_last t - m)) ts
      = moment (\<lambda>t. t_last t * t_last t) ts - 2 * m * moment t_last ts + m * m * moment (\<lambda>_. 1) ts"
    unfolding moment_def by (induction ts) (simp_all add: algebra_simps)
  moreover have "moment t_last ts = m * moment (\<lambda>_. 1) ts" using W assms(2) by simp
  ultimately have "moment (\<lambda>t. (t_last t - m) * (t_last t - m)) ts = moment (\<lambda>t. t_last t * t_last t) ts - m * m * moment (\<lambda>_. 1) ts"
    by (simp add: algebra_simps)
  then show "moment (\<lambda>t. t_last t * t_last t) ts / moment (\<lambda>_. 1) ts - m * m
      = moment (\<lambda>t. (t_last t - m) * (t_last t - m)) ts / moment (\<lambda>_. 1) ts"
    using W by (simp add: diff_divide_distrib)
qed

text \<open>
  C40: The ticks of one session, with or without bars ending between them, give the mean of their prices weighted by their volumes, and the
  weighted mean of the squared distances to it; that the code cuts off a negative variance changes nothing.
\<close>

theorem vwap_mean:
  assumes "\<not> vw_sessionFilter v" and "vw_current v = None" and "vw_numStdDev v \<le> 3" and "vw_pvs v = 0" "vw_volumes v = 0" "vw_volume_dev v = 0"
    and "ticks = map fst xs" and "traded ticks \<noteq> []" and "start = baseTime dl (t_ts (hd ticks)) (vw_tf v)"
    and "\<forall>t\<in>set ticks. t_ts t < start + vw_tf v"
    and "W = (\<Sum>t\<leftarrow>traded ticks. t_vol t)" and "m = (\<Sum>t\<leftarrow>traded ticks. t_last t * t_vol t) / W"
  shows "\<exists>v'. vw_run dl newArray rt undef xs v = Some v' \<and> vw_last v' = m
    \<and> vw_dev2 v' = (\<Sum>t\<leftarrow>traded ticks. (t_last t - m) * (t_last t - m) * t_vol t) / W \<and> 0 \<le> vw_dev2 v'"
proof -
  obtain t fin ys where xs: "xs = (t, fin) # ys" using assms(7,8) by (cases xs) auto
  define v0 where "v0 = v\<lparr>vw_prev := vw_last v\<rparr>"
  have "vw_roll t fin v0 = v0" using assms(2) by (simp add: v0_def vw_roll_def vw_finalize_def)
  moreover obtain d where d: "vd_new newArray undef (vw_numStdDev v) = Some d" using assms(3) by (auto simp: vd_new_def Let_def)
  define v1 where "v1 = v0\<lparr>vw_open := start, vw_current := Some d\<rparr>"
  have b: "vw_begin dl newArray undef t v0 = Some v1"
    using assms(1,2,9) d by (simp add: vw_begin_def v0_def v1_def assms(7) xs)
  ultimately have u: "vw_update dl newArray rt undef t fin v = Some ((vw_cumulate rt t d v1)\<lparr>vw_lastTimestamp := t_ts t\<rparr>)"
    using assms(1) by (simp add: vw_update_def Let_def v0_def [symmetric] v1_def) (simp add: v0_def)
  have "vw_holds start [] v1" using assms(1,4-6) by (simp add: vw_holds_def v1_def v0_def)
  from vw_cumulate_holds [OF this, of t rt d] have h: "vw_holds start [t] ((vw_cumulate rt t d v1)\<lparr>vw_lastTimestamp := t_ts t\<rparr>)"
    by (simp add: vw_holds_def)
  have tf: "vw_tf ((vw_cumulate rt t d v1)\<lparr>vw_lastTimestamp := t_ts t\<rparr>) = vw_tf v" by (simp add: vw_cumulate_def Let_def v1_def v0_def)
  have ys: "\<forall>(t', fin)\<in>set ys. t_ts t' < start + vw_tf ((vw_cumulate rt t d v1)\<lparr>vw_lastTimestamp := t_ts t\<rparr>)"
    using assms(10) unfolding tf by (auto simp: assms(7) xs)
  obtain v' where v': "vw_run dl newArray rt undef xs v = Some v'" "vw_holds start ticks v'"
    using vw_run_holds [OF h ys, of dl newArray rt undef] by (auto simp: xs u assms(7))
  have W: "W = moment (\<lambda>_. 1) ticks" "m = moment t_last ticks / moment (\<lambda>_. 1) ticks" by (simp_all add: assms(11,12) moment_def)
  note va = variance_moments [OF assms(8) W(2)]
  have sq: "moment (\<lambda>t. (t_last t - m) * (t_last t - m)) ticks = (\<Sum>t\<leftarrow>traded ticks. (t_last t - m) * (t_last t - m) * t_vol t)"
    by (simp add: moment_def)
  have "0 \<le> moment (\<lambda>t. (t_last t - m) * (t_last t - m)) ticks"
    unfolding moment_def by (intro sum_list_nonneg) auto
  then have "vw_last v' = m \<and> vw_dev2 v' = moment (\<lambda>t. (t_last t - m) * (t_last t - m)) ticks / moment (\<lambda>_. 1) ticks \<and> 0 \<le> vw_dev2 v'"
    using v'(2) assms(8) va W by (auto simp: vw_holds_def)
  then show ?thesis using v'(1) W(1) sq by auto
qed

theorem vwap_mean_witness:
  "map_option vw_last (vw_run no_dates (\<lambda>_. []) id 0
      [(\<lparr>t_ts = 90000, t_bid = 10, t_ask = 10, t_last = 10, t_vol = 1, t_bos = 1\<rparr>, False),
       (\<lparr>t_ts = 90010, t_bid = 20, t_ask = 20, t_last = 20, t_vol = 3, t_bos = 1\<rparr>, True)] (new_vwap TF_DAY 7 3 False)) = Some (35 / 2)"
proof -
  let ?a = "\<lparr>t_ts = 90000, t_bid = 10, t_ask = 10, t_last = 10, t_vol = 1, t_bos = 1\<rparr> :: tick"
  let ?b = "\<lparr>t_ts = 90010, t_bid = 20, t_ask = 20, t_last = 20, t_vol = 3, t_bos = 1\<rparr> :: tick"
  let ?v = "new_vwap TF_DAY 7 3 False"
  have base: "baseTime no_dates 90000 TF_DAY = 86400" by code_simp
  have v: "\<not> vw_sessionFilter ?v" "vw_current ?v = None" "vw_numStdDev ?v \<le> 3" "vw_pvs ?v = 0" "vw_volumes ?v = 0" "vw_volume_dev ?v = 0"
    by (simp_all add: new_vwap_def)
  have ts: "[?a, ?b] = map fst [(?a, False), (?b, True)]" "traded [?a, ?b] \<noteq> []"
    "86400 = baseTime no_dates (t_ts (hd [?a, ?b])) (vw_tf ?v)" "\<forall>t\<in>set [?a, ?b]. t_ts t < 86400 + vw_tf ?v"
    by (simp_all add: base new_vwap_def) (simp add: TF_DAY_def)
  have "4 = (\<Sum>t\<leftarrow>traded [?a, ?b]. t_vol t)" "35 / 2 = (\<Sum>t\<leftarrow>traded [?a, ?b]. t_last t * t_vol t) / 4" by simp_all
  from vwap_mean [OF v ts this, of "\<lambda>_. []" id 0] show ?thesis by auto
qed

section \<open>The volume delta of a session\<close>

definition signed_volume :: "tick \<Rightarrow> dbl" where
  "signed_volume t = of_int (sgn (t_bos t)) * t_vol t"

lemma set_last_last [simp]: "a \<noteq> [] \<Longrightarrow> da_last (set_last v a) = v" "set_last v a = [] \<longleftrightarrow> a = []"
  by (simp_all add: set_last_def da_last_def)

lemma da_last_eq: "a \<noteq> [] \<Longrightarrow> da_last a = last a"
  by (simp add: da_last_def last_conv_nth)

lemma cv_finalize_last: "0 < cv_depth c \<Longrightarrow> da_last (cv_cvd (cv_finalize c)) = da_last (cv_cvd c) \<and> cv_cvd (cv_finalize c) \<noteq> []
    \<and> length (cv_cvd (cv_finalize c)) \<le> cv_depth c"
  by (simp add: cv_finalize_def da_last_eq [of "take_last n a" for n a] last_take_last)

text \<open>
  Ticks of one session that say who traded them move the delta by the volume bought less the volume sold, over any number of bars, of which
  no more are kept than the depth.
\<close>

theorem cvd_flow:
  assumes "\<not> cv_sessionFilter c" and "cv_cvd c \<noteq> []" and "length (cv_cvd c) \<le> cv_depth c"
    and "\<forall>(t, fin)\<in>set xs. t_bos t \<noteq> 0 \<and> t_ts t \<le> cv_open c + cv_tf c"
  shows "(let c' = fold (\<lambda>(t, fin). cv_update dl t fin) xs c
    in da_last (cv_cvd c') = da_last (cv_cvd c) + (\<Sum>(t, fin)\<leftarrow>xs. signed_volume t) \<and> length (cv_cvd c') \<le> cv_depth c
       \<and> (xs \<noteq> [] \<longrightarrow> cv_last c' = da_last (cv_cvd c')))"
  using assms
proof (induction xs arbitrary: c)
  case (Cons x xs)
  obtain t fin where x: "x = (t, fin)" by fastforce
  define c1 where "c1 = (let c = c\<lparr>cv_prev := cv_last c\<rparr> in if fin then cv_finalize c else c)"
  have d: "0 < cv_depth c" using Cons.prems(2,3) by (cases "cv_cvd c") auto
  have c1: "cv_cvd c1 \<noteq> []" "length (cv_cvd c1) \<le> cv_depth c1" "da_last (cv_cvd c1) = da_last (cv_cvd c)" "\<not> cv_sessionFilter c1"
    "cv_open c1 = cv_open c" "cv_tf c1 = cv_tf c" "cv_depth c1 = cv_depth c"
    using Cons.prems d cv_finalize_last [of "c\<lparr>cv_prev := cv_last c\<rparr>"] by (auto simp: c1_def Let_def) (simp_all add: cv_finalize_def)
  have s: "cv_session dl t c1 = c1" using Cons.prems(4) x c1(5,6) by (auto simp: cv_session_def)
  have b: "t_bos t \<noteq> 0" using Cons.prems(4) x by simp
  define c2 where "c2 = cv_update dl t fin c"
  have "c2 = (let (delta, c) = cv_delta t c1; c = c\<lparr>cv_prevTickPrice := t_last t, cv_cvd := set_last (da_last (cv_cvd c) + delta) (cv_cvd c)\<rparr>
      in c\<lparr>cv_last := da_last (cv_cvd c), cv_lastTimestamp := t_ts t\<rparr>)"
    using c1(4) s by (simp add: c2_def cv_update_def Let_def c1_def [unfolded Let_def, symmetric])
  then have c2: "cv_cvd c2 \<noteq> []" "length (cv_cvd c2) \<le> cv_depth c2" "da_last (cv_cvd c2) = da_last (cv_cvd c) + signed_volume t"
    "\<not> cv_sessionFilter c2" "cv_open c2 = cv_open c" "cv_tf c2 = cv_tf c" "cv_depth c2 = cv_depth c" "cv_last c2 = da_last (cv_cvd c2)"
    using c1 b by (auto simp: cv_delta_def Let_def signed_volume_def set_last_def [of _ "cv_cvd c1"] da_last_def split: if_splits)
  have r: "fold (\<lambda>(t, fin). cv_update dl t fin) (x # xs) c = fold (\<lambda>(t, fin). cv_update dl t fin) xs c2" by (simp add: x c2_def)
  show ?case unfolding r using Cons.IH [OF c2(4,1,2)] Cons.prems(4) c2
    by (cases "xs = []") (auto simp: x Let_def)
qed simp

theorem cvd_flow_witness:
  "da_last (cv_cvd (fold (\<lambda>(t, fin). cv_update no_dates t fin)
      [(\<lparr>t_ts = 5, t_bid = 10, t_ask = 10, t_last = 10, t_vol = 7, t_bos = 1\<rparr>, False),
       (\<lparr>t_ts = 6, t_bid = 10, t_ask = 10, t_last = 10, t_vol = 3, t_bos = -1\<rparr>, True)] (new_cvd TF_DAY 5 False))) = 4"
proof -
  let ?xs = "[(\<lparr>t_ts = 5, t_bid = 10, t_ask = 10, t_last = 10, t_vol = 7, t_bos = 1\<rparr> :: tick, False),
       (\<lparr>t_ts = 6, t_bid = 10, t_ask = 10, t_last = 10, t_vol = 3, t_bos = -1\<rparr>, True)]"
  have h: "\<not> cv_sessionFilter (new_cvd TF_DAY 5 False)" "cv_cvd (new_cvd TF_DAY 5 False) \<noteq> []"
    "length (cv_cvd (new_cvd TF_DAY 5 False)) \<le> cv_depth (new_cvd TF_DAY 5 False)"
    "\<forall>(t, fin)\<in>set ?xs. t_bos t \<noteq> 0 \<and> t_ts t \<le> cv_open (new_cvd TF_DAY 5 False) + cv_tf (new_cvd TF_DAY 5 False)"
    by (simp_all add: new_cvd_def TF_DAY_def)
  show ?thesis using cvd_flow [OF h, of no_dates] by (simp add: Let_def signed_volume_def) (simp add: new_cvd_def da_last_def)
qed

end
