(* ===== verification/Ta_Indicators.thy ===== *)
theory Ta_Indicators
  imports Indicators
begin

text \<open>
  The indicators around TA-Lib: the weighted moving averages \<^verbatim>\<open>indicators/wma/wma.cpp\<close> and \<^verbatim>\<open>indicators/hma/hma.cpp\<close> with the loop of
  \<^verbatim>\<open>TA_WMA\<close> that they call (\<^verbatim>\<open>strategies/third/ta-lib/src/ta_func/ta_WMA.c\<close>), and \<^verbatim>\<open>bollinger.cpp\<close> and \<^verbatim>\<open>adx.cpp\<close> over the functions
  of a record. The square root is a parameter. A value that is not a number is \<open>None\<close>.
\<close>

section \<open>The weighted moving average of TA-Lib\<close>

text \<open>A period that is the least integer asks for the default one.\<close>

definition ta_period :: "int \<Rightarrow> int \<Rightarrow> int" where
  "ta_period dflt p = (if p = - (2 ^ 31) then dflt else p)"

text \<open>The sums of the first prices, plain and weighted.\<close>

primrec wma_start :: "dbl list \<Rightarrow> int \<Rightarrow> dbl \<Rightarrow> dbl \<Rightarrow> dbl \<times> dbl" where
  "wma_start [] i periodSub periodSum = (periodSub, periodSum)"
| "wma_start (x # xs) i periodSub periodSum = wma_start xs (i + 1) (periodSub + x) (periodSum + x * of_int i)"

text \<open>
  The divider \<^verbatim>\<open>(optInTimePeriod*(optInTimePeriod+1))>>1\<close> is computed on the 32-bit \<^verbatim>\<open>int\<close>: from the period 46341 on the product wraps around.
\<close>

definition wma_divider :: "nat \<Rightarrow> int" where
  "wma_divider period = drop_bit 1 (sint (word_of_nat (period * (period + 1)) :: 32 word))"

function wma_loop :: "dbl list \<Rightarrow> nat \<Rightarrow> nat \<Rightarrow> nat \<Rightarrow> dbl \<Rightarrow> dbl \<Rightarrow> dbl \<Rightarrow> dbl list" where
  "wma_loop inReal period inIdx trailingIdx periodSub periodSum trailingValue =
     (if inIdx < length inReal then
        (let tempReal = inReal ! inIdx;
             periodSub = periodSub + tempReal - trailingValue;
             periodSum = periodSum + tempReal * of_nat period
         in periodSum / of_int (wma_divider period)
            # wma_loop inReal period (inIdx + 1) (trailingIdx + 1) periodSub (periodSum - periodSub) (inReal ! trailingIdx))
      else [])"
  by pat_completeness auto

termination
  by (relation "measure (\<lambda>(inReal, period, inIdx, _). length inReal - inIdx)") auto

declare wma_loop.simps [simp del]

text \<open>The values from the index \<open>period - 1\<close> on: none of too few prices, \<open>None\<close> where the range check fails.\<close>

definition ta_wma :: "int \<Rightarrow> dbl list \<Rightarrow> dbl list option" where
  "ta_wma period inReal =
     (let period = ta_period 30 period
      in if inReal = [] \<or> period < 2 \<or> period > 100000 then None
         else if period - 1 > int (length inReal) - 1 then Some []
         else
           let n = nat period; (periodSub, periodSum) = wma_start (take (n - 1) inReal) 1 0 0
           in Some (wma_loop inReal n (n - 1) 0 periodSub periodSum 0))"

text \<open>What it computes: the mean of the last prices, the latest with the greatest weight.\<close>

definition weighted_mean :: "nat \<Rightarrow> (nat \<Rightarrow> dbl) \<Rightarrow> dbl" where
  "weighted_mean n f = (\<Sum>i<n. of_nat (i + 1) * f i) / of_nat (n * (n + 1) div 2)"

lemma wma_product_sint:
  assumes "k < 2 ^ 32"
  shows "sint (word_of_nat k :: 32 word) = (if k < 2 ^ 31 then int k else int k - 2 ^ 32)"
proof -
  have "int k div 2 ^ 31 \<in> {0, 1}" using assms by auto
  then have "bit (int k) 31 \<longleftrightarrow> \<not> k < 2 ^ 31" by (auto simp: bit_iff_odd)
  moreover have "take_bit 32 (int k) = int k" using assms by (simp add: take_bit_int_eq_self)
  ultimately show ?thesis
    by (simp add: sint_uint unsigned_of_nat signed_take_bit_eq_take_bit_minus flip: take_bit_of_nat)
qed

text \<open>The periods without a wrap-around.\<close>

definition WMA_MAX :: nat where "WMA_MAX = 46340"

lemma wma_divider_exact: "n \<le> WMA_MAX \<Longrightarrow> (of_int (wma_divider n) :: dbl) = of_nat (n * (n + 1) div 2)"
proof -
  assume "n \<le> WMA_MAX"
  then have "n * (n + 1) \<le> 46340 * 46341" unfolding WMA_MAX_def by (intro mult_mono) auto
  then have "wma_divider n = int (n * (n + 1)) div 2"
    unfolding wma_divider_def by (subst wma_product_sint) (auto simp: drop_bit_eq_div)
  then have "wma_divider n = int (n * (n + 1) div 2)" by (simp only: zdiv_int of_nat_numeral)
  then show ?thesis by (simp only: of_int_of_nat_eq)
qed

lemma wma_divider_negative:
  assumes "WMA_MAX < n" and "n < 65536"
  shows "wma_divider n < 0"
proof -
  define k where "k = n * (n + 1)"
  have "46341 * 46342 \<le> k" unfolding k_def using assms(1) unfolding WMA_MAX_def by (intro mult_mono) auto
  moreover have "k \<le> 65535 * 65536" unfolding k_def using assms(2) by (intro mult_mono) auto
  ultimately show ?thesis unfolding wma_divider_def k_def [symmetric] by (subst wma_product_sint) auto
qed

lemma wma_start_sums:
  "wma_start xs i s t = (s + (\<Sum>j<length xs. xs ! j), t + (\<Sum>j<length xs. (of_int i + of_nat j) * xs ! j))"
  by (induction xs arbitrary: i s t) (simp_all add: sum.lessThan_Suc_shift algebra_simps del: sum.lessThan_Suc)

lemma wma_loop_sums:
  assumes "0 < n" and "inIdx = n - 1 + k"
    and "s = (\<Sum>j<n - 1. xs ! (k + j)) + t" and "u = (\<Sum>j<n - 1. of_nat (j + 1) * xs ! (k + j))"
  shows "wma_loop xs n inIdx k s u t
    = map (\<lambda>k. (\<Sum>i<n. of_nat (i + 1) * xs ! (k + i)) / of_int (wma_divider n)) [k..<length xs + 1 - n]"
  using assms(2-)
proof (induction "length xs - inIdx" arbitrary: inIdx k s u t)
  case 0
  then show ?case using assms(1) by (subst wma_loop.simps) (auto simp: upt_conv_Nil)
next
  case (Suc d)
  obtain m where m: "n = Suc m" using assms(1) by (cases n) auto
  define x where "x = xs ! inIdx"
  define s' where "s' = s + x - t"
  define u' where "u' = u + x * of_nat n"
  have x: "x = xs ! (k + m)" using Suc.prems(1) m by (simp add: x_def add.commute)
  have s': "s' = (\<Sum>j<n. xs ! (k + j))" using Suc.prems(2) m x by (simp add: s'_def)
  have u': "u' = (\<Sum>j<n. of_nat (j + 1) * xs ! (k + j))" using Suc.prems(3) m x by (simp add: u'_def algebra_simps)
  have "u' - s' = (\<Sum>j<n. of_nat j * xs ! (k + j))"
    unfolding u' s' sum_subtractf [symmetric] by (rule sum.cong) (simp_all add: algebra_simps)
  also have "\<dots> = (\<Sum>j<m. of_nat (j + 1) * xs ! (k + 1 + j))"
    by (simp add: m sum.lessThan_Suc_shift del: sum.lessThan_Suc)
  finally have d: "u' - s' = (\<Sum>j<n - 1. of_nat (j + 1) * xs ! (k + 1 + j))" by (simp add: m)
  have sd: "s' = (\<Sum>j<n - 1. xs ! (k + 1 + j)) + xs ! k"
    unfolding s' by (simp add: m sum.lessThan_Suc_shift del: sum.lessThan_Suc)
  have lt: "inIdx < length xs" using Suc.hyps(2) by simp
  have IH: "wma_loop xs n (inIdx + 1) (k + 1) s' (u' - s') (xs ! k)
      = map (\<lambda>k. (\<Sum>i<n. of_nat (i + 1) * xs ! (k + i)) / of_int (wma_divider n)) [k + 1..<length xs + 1 - n]"
    by (rule Suc.hyps(1)) (use Suc.hyps(2) Suc.prems(1) sd d in simp_all)
  have "[k..<length xs + 1 - n] = k # [k + 1..<length xs + 1 - n]"
    using lt Suc.prems(1) m by (subst upt_conv_Cons) auto
  moreover have "wma_loop xs n inIdx k s u t = (\<Sum>j<n. of_nat (j + 1) * xs ! (k + j)) / of_int (wma_divider n) # wma_loop xs n (inIdx + 1) (k + 1) s' (u' - s') (xs ! k)"
    unfolding u' [symmetric] using lt by (subst wma_loop.simps) (simp only: Let_def s'_def u'_def x_def if_True)
  ultimately show ?case by (simp only: IH list.map)
qed

lemma ta_wma_sums:
  assumes "2 \<le> n" "n \<le> 100000" "n \<le> length xs"
  shows "ta_wma (int n) xs
    = Some (map (\<lambda>k. (\<Sum>i<n. of_nat (i + 1) * xs ! (k + i)) / of_int (wma_divider n)) [0..<length xs + 1 - n])"
proof -
  have st: "wma_start (take (n - 1) xs) 1 0 0 = ((\<Sum>j<n - 1. xs ! (0 + j)) + 0, \<Sum>j<n - 1. of_nat (j + 1) * xs ! (0 + j))"
    using assms by (simp add: wma_start_sums add.commute)
  have "wma_loop xs n (n - 1) 0 ((\<Sum>j<n - 1. xs ! (0 + j)) + 0) (\<Sum>j<n - 1. of_nat (j + 1) * xs ! (0 + j)) 0
      = map (\<lambda>k. (\<Sum>i<n. of_nat (i + 1) * xs ! (k + i)) / of_int (wma_divider n)) [0..<length xs + 1 - n]"
    by (rule wma_loop_sums) (use assms in auto)
  moreover have "xs \<noteq> []" "\<not> int n < 2" "\<not> 100000 < int n" "\<not> int (length xs) - 1 < int n - 1" "ta_period 30 (int n) = int n"
    using assms by (auto simp: ta_period_def)
  ultimately show ?thesis by (simp only: ta_wma_def Let_def nat_int st prod.case simp_thms if_False)
qed

lemma ta_wma_mean:
  assumes "2 \<le> n" "n \<le> WMA_MAX" "n \<le> length xs"
  shows "ta_wma (int n) xs = Some (map (\<lambda>k. weighted_mean n (\<lambda>i. xs ! (k + i))) [0..<length xs + 1 - n])"
  using ta_wma_sums [OF assms(1) _ assms(3)] assms(2) unfolding weighted_mean_def wma_divider_exact [OF assms(2)] by (simp add: WMA_MAX_def)

text \<open>With a period from 46341 to 65535, which the range check of the library accepts, the averages of positive prices are negative.\<close>

theorem wma_overflow:
  assumes "WMA_MAX < n" "n < 65536" "n \<le> length xs" and "\<forall>x\<in>set xs. 0 < x"
  shows "\<exists>out. ta_wma (int n) xs = Some out \<and> length out = length xs + 1 - n \<and> (\<forall>v\<in>set out. v < 0)"
proof -
  have n: "2 \<le> n" "n \<le> 100000" using assms(1,2) by (auto simp: WMA_MAX_def)
  have "(\<Sum>i<n. of_nat (i + 1) * xs ! (k + i)) / of_int (wma_divider n) < 0" if "k < length xs + 1 - n" for k
  proof (rule divide_pos_neg)
    show "0 < (\<Sum>i<n. of_nat (i + 1) * xs ! (k + i))"
      using that assms(3,4) n(1) by (intro sum_pos mult_pos_pos) (auto simp: lessThan_empty_iff)
    show "(of_int (wma_divider n) :: dbl) < 0" using wma_divider_negative [OF assms(1,2)] by simp
  qed
  then show ?thesis using ta_wma_sums [OF n assms(3)] by auto
qed

section \<open>Weighted moving average\<close>

record wma =
  wm_len :: int
  wm_wma :: "dbl option list"
  wm_prev :: "dbl option"
  wm_last :: "dbl option"

text \<open>
  An array with not a number in front. The arrays below get new values from the index of the look-back on; what is before it, which
  \<^verbatim>\<open>Wma\<close> leaves as it was allocated, is not a number here.
\<close>

definition nan_front :: "nat \<Rightarrow> dbl list \<Rightarrow> dbl option list" where
  "nan_front n xs = replicate n None @ map Some xs"

definition no_last :: "dbl option list \<Rightarrow> dbl option" where
  "no_last xs = (if xs = [] then None else last xs)"

definition wm_compute :: "data_array \<Rightarrow> wma \<Rightarrow> wma option" where
  "wm_compute price w =
     (if int (length price) \<le> wm_len w - 1 then Some w
      else
        case ta_wma (wm_len w) price of
          None \<Rightarrow> None
        | Some out \<Rightarrow>
            let w = w\<lparr>wm_prev := wm_last w, wm_wma := nan_front (nat (wm_len w - 1)) out\<rparr>
            in Some (w\<lparr>wm_last := no_last (wm_wma w)\<rparr>))"

section \<open>Hull moving average\<close>

record hma =
  hm_len :: int
  hm_hma :: "dbl option list"
  hm_prev :: "dbl option"
  hm_last :: "dbl option"

definition hm_sqrt :: "(dbl \<Rightarrow> dbl) \<Rightarrow> int \<Rightarrow> int" where
  "hm_sqrt rt len = to_int32 (rt (of_int len))"

definition hm_lookback :: "(dbl \<Rightarrow> dbl) \<Rightarrow> int \<Rightarrow> int" where
  "hm_lookback rt len = len - 1 + hm_sqrt rt len - 1"

text \<open>
  Twice the average of the half period less that of the period; the front, which the averages do not reach, repeats the first value that
  both have. \<open>None\<close> where an average of TA-Lib has no values or fails, or the front is longer than the array.
\<close>

definition hm_raw :: "int \<Rightarrow> int \<Rightarrow> data_array \<Rightarrow> data_array option" where
  "hm_raw N N_2 price =
     (case (ta_wma N_2 price, ta_wma N price) of
        (Some half, Some full) \<Rightarrow>
          if half = [] \<or> full = [] then None
          else
            let value_at = (\<lambda>i. 2 * half ! (i - nat (N_2 - 1)) - full ! (i - nat (N - 1)))
            in Some (map (\<lambda>i. if int i < N - 1 then value_at (nat (N - 1)) else value_at i) [0..<length price])
      | _ \<Rightarrow> None)"

definition hm_compute :: "(dbl \<Rightarrow> dbl) \<Rightarrow> data_array \<Rightarrow> hma \<Rightarrow> hma option" where
  "hm_compute rt price h =
     (if int (length price) \<le> hm_lookback rt (hm_len h) then Some h
      else
        let N = max 2 (hm_len h); N_2 = max 2 (hm_len h div 2); N_sqrt = max 2 (hm_sqrt rt (hm_len h))
        in case Option.bind (hm_raw N N_2 price) (ta_wma N_sqrt) of
             None \<Rightarrow> None
           | Some out \<Rightarrow>
               if out = [] \<or> int (length price) < N - 1 + (N_sqrt - 1) then None
               else
                 let front = nat (N - 1 + (N_sqrt - 1));
                     h = h\<lparr>hm_prev := hm_last h, hm_hma := nan_front front (drop (front - nat (N_sqrt - 1)) out)\<rparr>
                 in Some (h\<lparr>hm_last := no_last (hm_hma h)\<rparr>))"

text \<open>The mean of the last values up to an index, the latest with the greatest weight.\<close>

definition mean_upto :: "nat \<Rightarrow> (nat \<Rightarrow> dbl) \<Rightarrow> nat \<Rightarrow> dbl" where
  "mean_upto n f k = weighted_mean n (\<lambda>i. f (k + 1 - n + i))"

lemma weighted_mean_cong: "(\<And>i. i < n \<Longrightarrow> f i = g i) \<Longrightarrow> weighted_mean n f = weighted_mean n g"
  by (simp add: weighted_mean_def)

lemma ta_wma_upto:
  assumes "2 \<le> n" "n \<le> WMA_MAX" "n \<le> length xs"
  obtains out where "ta_wma (int n) xs = Some out" "length out = length xs + 1 - n"
    "\<And>i. n - 1 \<le> i \<Longrightarrow> i < length xs \<Longrightarrow> out ! (i - (n - 1)) = mean_upto n ((!) xs) i"
proof (rule that [OF ta_wma_mean [OF assms]])
  fix i
  assume i: "n - 1 \<le> i" "i < length xs"
  then have l: "i - (n - 1) < length xs + 1 - n" and e: "i + 1 - n = i - (n - 1)" using assms by auto
  from l show "map (\<lambda>k. weighted_mean n (\<lambda>i. xs ! (k + i))) [0..<length xs + 1 - n] ! (i - (n - 1)) = mean_upto n ((!) xs) i"
    unfolding mean_upto_def e by (simp del: Suc_eq_plus1)
qed simp

definition hull_of :: "nat \<Rightarrow> nat \<Rightarrow> (nat \<Rightarrow> dbl) \<Rightarrow> nat \<Rightarrow> dbl" where
  "hull_of half n f j = 2 * mean_upto half f j - mean_upto n f j"

lemma hm_raw_hull:
  assumes "2 \<le> half" "half \<le> n" "n \<le> WMA_MAX" "n \<le> length price"
  obtains raw where "hm_raw (int n) (int half) price = Some raw" "length raw = length price"
    "\<And>i. n - 1 \<le> i \<Longrightarrow> i < length price \<Longrightarrow> raw ! i = hull_of half n ((!) price) i"
proof -
  obtain xs where x: "ta_wma (int half) price = Some xs" "length xs = length price + 1 - half"
    "\<And>i. half - 1 \<le> i \<Longrightarrow> i < length price \<Longrightarrow> xs ! (i - (half - 1)) = mean_upto half ((!) price) i"
    using ta_wma_upto [of half price] assms by auto
  obtain ys where y: "ta_wma (int n) price = Some ys" "length ys = length price + 1 - n"
    "\<And>i. n - 1 \<le> i \<Longrightarrow> i < length price \<Longrightarrow> ys ! (i - (n - 1)) = mean_upto n ((!) price) i"
    using ta_wma_upto [of n price] assms by auto
  have ne: "xs \<noteq> []" "ys \<noteq> []" using x(2) y(2) assms by auto
  have n: "nat (int half - 1) = half - 1" "nat (int n - 1) = n - 1" using assms by auto
  show thesis
  proof (rule that)
    show "hm_raw (int n) (int half) price
        = Some (map (\<lambda>i. if int i < int n - 1 then 2 * xs ! (n - 1 - (half - 1)) - ys ! (n - 1 - (n - 1))
                         else 2 * xs ! (i - (half - 1)) - ys ! (i - (n - 1))) [0..<length price])"
      using ne by (simp add: hm_raw_def x(1) y(1) Let_def n)
  next
    fix i
    assume i: "n - 1 \<le> i" "i < length price"
    then have "half - 1 \<le> i" "\<not> int i < int n - 1" using assms by auto
    then show "map (\<lambda>i. if int i < int n - 1 then 2 * xs ! (n - 1 - (half - 1)) - ys ! (n - 1 - (n - 1))
        else 2 * xs ! (i - (half - 1)) - ys ! (i - (n - 1))) [0..<length price] ! i = hull_of half n ((!) price) i"
      using i x(3) [of i] y(3) [of i] by (simp add: hull_of_def)
  qed simp
qed

text \<open>
  C31: From the index on where it has values, the Hull average is the weighted mean of the last values of twice the average of the half period less
  that of the period, although the averages are computed by sums carried along and the front of the array is made up. The periods are those
  whose divider fits the 32-bit integer of the code, up to 46340; beyond, \<open>wma_overflow\<close> shows what becomes of the averages.
\<close>

theorem hma_hull:
  assumes "2 \<le> n" "n \<le> WMA_MAX" "hm_len h = int n" "s = nat (max 2 (hm_sqrt rt (int n)))" "s \<le> WMA_MAX"
    and "n + s - 2 < length price" and "half = max 2 (n div 2)"
  shows "\<exists>h'. hm_compute rt price h = Some h' \<and> length (hm_hma h') = length price \<and> (\<forall>i<n + s - 2. hm_hma h' ! i = None)
    \<and> (\<forall>i. n + s - 2 \<le> i \<and> i < length price \<longrightarrow> hm_hma h' ! i = Some (mean_upto s (hull_of half n ((!) price)) i))
    \<and> hm_last h' = Some (mean_upto s (hull_of half n ((!) price)) (length price - 1))"
proof -
  have s: "2 \<le> s" "int s = max 2 (hm_sqrt rt (int n))" using assms(4) by auto
  have half: "2 \<le> half" "half \<le> n" using assms(1,7) by auto
  have np: "n \<le> length price" using assms(1,6) s(1) by linarith
  obtain raw where r: "hm_raw (int n) (int half) price = Some raw" "length raw = length price"
    "\<And>i. n - 1 \<le> i \<Longrightarrow> i < length price \<Longrightarrow> raw ! i = hull_of half n ((!) price) i"
    using hm_raw_hull [OF half assms(2) np] by blast
  have sr: "s \<le> length raw" using assms(1,6) s(1) r(2) by linarith
  obtain out where o: "ta_wma (int s) raw = Some out" "length out = length raw + 1 - s"
    "\<And>i. s - 1 \<le> i \<Longrightarrow> i < length raw \<Longrightarrow> out ! (i - (s - 1)) = mean_upto s ((!) raw) i"
    using ta_wma_upto [OF s(1) assms(5) sr] by blast
  define hs where "hs = nan_front (n + s - 2) (drop (n - 1) out)"
  have l: "length hs = length price" using o(2) r(2) assms(1,6) s(1) by (simp add: hs_def nan_front_def)
  have v: "hs ! i = Some (mean_upto s (hull_of half n ((!) price)) i)" if "n + s - 2 \<le> i" "i < length price" for i
  proof -
    have k: "i - (n + s - 2) < length (drop (n - 1) out)" "n - 1 + (i - (n + s - 2)) = i - (s - 1)" "s - 1 \<le> i"
      using that o(2) r(2) assms(1) s(1) by auto
    have "hs ! i = Some (drop (n - 1) out ! (i - (n + s - 2)))"
      using that k(1) by (simp add: hs_def nan_front_def nth_append)
    also have "drop (n - 1) out ! (i - (n + s - 2)) = out ! (n - 1 + (i - (n + s - 2)))" by (rule nth_drop) (use k(1) in simp)
    also have "\<dots> = mean_upto s ((!) raw) i" unfolding k(2) by (rule o(3) [OF k(3)]) (use that r(2) in simp)
    also have "\<dots> = mean_upto s (hull_of half n ((!) price)) i"
      unfolding mean_upto_def [of s _ i] by (rule weighted_mean_cong, rule r(3)) (use that assms(1) s(1) in auto)
    finally show ?thesis .
  qed
  have ne: "hs \<noteq> []" "out \<noteq> []" using l o(2) r(2) sr assms(6) s(1) by auto
  have "hm_sqrt rt (int n) \<le> int s" using s(2) by linarith
  then have lb: "\<not> int (length price) \<le> hm_lookback rt (hm_len h)" using assms(6) s(1) by (simp add: hm_lookback_def assms(3))
  have N: "max 2 (hm_len h) = int n" "max 2 (hm_len h div 2) = int half" using assms(1,3,7) by (auto simp: max_def)
  have f: "nat (int n - 1 + (int s - 1)) = n + s - 2" "nat (int s - 1) = s - 1" "n + s - 2 - (s - 1) = n - 1"
    "\<not> int (length price) < int n - 1 + (int s - 1)"
    using assms(1,6) s(1) by auto
  have c: "hm_compute rt price h = Some (h\<lparr>hm_prev := hm_last h, hm_hma := hs, hm_last := no_last hs\<rparr>)"
    using lb ne(2) unfolding hm_compute_def
    by (simp only: if_False N s(2) [folded assms(3), symmetric] Let_def r(1) bind.bind_lunit o(1) option.case f simp_thms) (simp add: hs_def)
  have "no_last hs = Some (mean_upto s (hull_of half n ((!) price)) (length price - 1))"
    using v [of "length price - 1"] ne(1) l assms(6) by (simp add: no_last_def last_conv_nth)
  moreover have "\<forall>i<n + s - 2. hs ! i = None" by (simp add: hs_def nan_front_def nth_append)
  ultimately show ?thesis using l v unfolding c by auto
qed

theorem hma_hull_witness:
  "\<exists>h'. hm_compute (\<lambda>x. x / 2) [1, 2, 3, 4, 5, 6, 7] \<lparr>hm_len = 4, hm_hma = [], hm_prev = Some 0, hm_last = Some 0\<rparr> = Some h'
    \<and> hm_last h' = Some 7"
proof -
  have q: "2 = nat (max 2 (hm_sqrt (\<lambda>x. x / 2) (int 4)))" by (simp add: hm_sqrt_def to_int32_nonneg)
  have m: "4 \<le> WMA_MAX" "2 \<le> WMA_MAX" by (simp_all add: WMA_MAX_def)
  have e: "mean_upto 2 (hull_of 2 4 ((!) [1, 2, 3, 4, 5, 6, 7])) 6 = 7" by code_simp
  obtain h' where "hm_compute (\<lambda>x. x / 2) [1, 2, 3, 4, 5, 6, 7] \<lparr>hm_len = 4, hm_hma = [], hm_prev = Some 0, hm_last = Some 0\<rparr> = Some h'"
    "hm_last h' = Some (mean_upto 2 (hull_of 2 4 ((!) [1, 2, 3, 4, 5, 6, 7])) (length [1, 2, 3, 4, 5, 6, 7::dbl] - 1))"
    using hma_hull [of 4 "\<lparr>hm_len = 4, hm_hma = [], hm_prev = Some 0, hm_last = Some 0\<rparr>" 2 "\<lambda>x. x / 2" "[1, 2, 3, 4, 5, 6, 7]" 2, OF _ m(1) _ q m(2)]
    by force
  moreover have "length [1, 2, 3, 4, 5, 6, 7::dbl] - 1 = 6" by simp
  ultimately show ?thesis using e by metis
qed

text \<open>
  The crossing of an array with not a number, whose comparisons are false, and a value used as a number. An average that cannot be computed stays as
  it is here.
\<close>

definition nan_cross :: "data_array \<Rightarrow> dbl option list \<Rightarrow> int" where
  "nan_cross a b =
     (if length a < 2 \<or> length b < 2 then 0
      else case (b ! (length b - 2), b ! (length b - 1)) of
             (Some prevRef, Some curRef) \<Rightarrow> cross_at (da_prev a) (da_last a) prevRef curRef
           | _ \<Rightarrow> 0)"

definition above_nan :: "dbl \<Rightarrow> dbl option \<Rightarrow> bool" where
  "above_nan x v = (case v of None \<Rightarrow> False | Some y \<Rightarrow> x > y)"

definition below_nan :: "dbl \<Rightarrow> dbl option \<Rightarrow> bool" where
  "below_nan x v = (case v of None \<Rightarrow> False | Some y \<Rightarrow> x < y)"

definition hm_computed :: "(dbl \<Rightarrow> dbl) \<Rightarrow> data_array \<Rightarrow> hma \<Rightarrow> hma" where
  "hm_computed rt price h = (case hm_compute rt price h of None \<Rightarrow> h | Some h' \<Rightarrow> h')"

definition wm_computed :: "data_array \<Rightarrow> wma \<Rightarrow> wma" where
  "wm_computed price w = (case wm_compute price w of None \<Rightarrow> w | Some w' \<Rightarrow> w')"

section \<open>Bollinger bands and the directional index\<close>

record ta_lib =
  ta_bbands :: "data_array \<Rightarrow> data_array \<times> data_array \<times> data_array"
  ta_bbands_lookback :: nat
  ta_adx :: "data_array \<Rightarrow> data_array \<Rightarrow> data_array \<Rightarrow> data_array"
  ta_adx_lookback :: nat

record bollinger =
  bl_upper :: data_array
  bl_middle :: data_array
  bl_lower :: data_array
  bl_prevUpper :: dbl
  bl_lastUpper :: dbl
  bl_prevMiddle :: dbl
  bl_lastMiddle :: dbl
  bl_prevLower :: dbl
  bl_lastLower :: dbl

definition bl_compute :: "ta_lib \<Rightarrow> data_array \<Rightarrow> bollinger \<Rightarrow> bollinger" where
  "bl_compute ta price b =
     (if length price \<le> ta_bbands_lookback ta then b
      else
        let b = b\<lparr>bl_prevUpper := bl_lastUpper b, bl_prevMiddle := bl_lastMiddle b, bl_prevLower := bl_lastLower b\<rparr>;
            (u, m, l) = ta_bbands ta price;
            b = b\<lparr>bl_upper := u, bl_middle := m, bl_lower := l\<rparr>
        in b\<lparr>bl_lastUpper := da_last u, bl_lastMiddle := da_last m, bl_lastLower := da_last l\<rparr>)"

record adx =
  ax_adx :: data_array
  ax_prev :: dbl
  ax_last :: dbl

definition ax_compute :: "ta_lib \<Rightarrow> data_array \<Rightarrow> data_array \<Rightarrow> data_array \<Rightarrow> adx \<Rightarrow> adx" where
  "ax_compute ta high low close x =
     (if length high \<le> ta_adx_lookback ta then x
      else
        let x = x\<lparr>ax_prev := ax_last x, ax_adx := ta_adx ta high low close\<rparr>
        in x\<lparr>ax_last := da_last (ax_adx x)\<rparr>)"

end
