(* ===== verification/Pullback_Analysers.thy ===== *)
theory Pullback_Analysers
  imports Analyser Volume_Indicators Ta_Indicators
begin

text \<open>
  The analysers of the plugin \<^verbatim>\<open>strategies/src/strategies/pullback/\<close>: supports and resistances (\<^verbatim>\<open>pullbacksranalyser.cpp\<close>), Bollinger
  bands (\<^verbatim>\<open>pullbackbbanalyser.cpp\<close>), confirmation (\<^verbatim>\<open>pullbackconfanalyser.cpp\<close>) and session (\<^verbatim>\<open>pullbacksessionanalyser.cpp\<close>).
\<close>

section \<open>Supports and resistances\<close>

record sr_analyser = tf_analyser +
  sr_method :: pivot_method
  sr_pivots :: "pivot_levels option list"
  sr_breakoutDirection :: int
  sr_breakoutPrice :: dbl
  sr_srLevel :: int

text \<open>The last value of a level: zero of an empty array, \<open>None\<close> where it is not a number.\<close>

definition sr_support :: "nat \<Rightarrow> 'a sr_analyser_scheme \<Rightarrow> dbl option" where
  "sr_support i a = (if sr_pivots a = [] then Some 0 else map_option (\<lambda>l. pl_support l ! i) (pv_last (sr_pivots a)))"

definition sr_resistance :: "nat \<Rightarrow> 'a sr_analyser_scheme \<Rightarrow> dbl option" where
  "sr_resistance i a = (if sr_pivots a = [] then Some 0 else map_option (\<lambda>l. pl_resistance l ! i) (pv_last (sr_pivots a)))"

text \<open>One level of the loops that look for a break, down or up.\<close>

definition sr_down :: "dbl option \<Rightarrow> int \<Rightarrow> 'a sr_analyser_scheme \<Rightarrow> 'a sr_analyser_scheme" where
  "sr_down level srLevel a =
     (case level of
        None \<Rightarrow> a
      | Some x \<Rightarrow>
          if pr_cross (an_price a) x < 0 \<and> (sr_breakoutPrice a \<le> 0 \<or> x < sr_breakoutPrice a)
          then a\<lparr>sr_breakoutPrice := x, sr_breakoutDirection := -1, sr_srLevel := srLevel\<rparr> else a)"

definition sr_up :: "dbl option \<Rightarrow> int \<Rightarrow> 'a sr_analyser_scheme \<Rightarrow> 'a sr_analyser_scheme" where
  "sr_up level srLevel a =
     (case level of
        None \<Rightarrow> a
      | Some x \<Rightarrow>
          if pr_cross (an_price a) x > 0 \<and> (sr_breakoutPrice a \<le> 0 \<or> x > sr_breakoutPrice a)
          then a\<lparr>sr_breakoutPrice := x, sr_breakoutDirection := 1, sr_srLevel := srLevel\<rparr> else a)"

definition sr_compute :: "dbl \<Rightarrow> dbl \<Rightarrow> 'a sr_analyser_scheme \<Rightarrow> 'a sr_analyser_scheme" where
  "sr_compute timestamp lastTimestamp a =
     (let p = an_price a;
          a = (if pr_consolidated p then a\<lparr>sr_pivots := pv_compute (sr_method a) (pr_open p) (pr_high p) (pr_low p) (pr_close p)\<rparr> else a);
          a = a\<lparr>sr_breakoutPrice := 0, sr_breakoutDirection := 0, sr_srLevel := 0\<rparr>;
          a = fold (\<lambda>i a. sr_down (sr_resistance i a) (int i + 1) a) [2, 1, 0] a;
          a = fold (\<lambda>i a. sr_down (sr_support i a) (- int i - 1) a) [0, 1, 2] a;
          a = fold (\<lambda>i a. sr_up (sr_support i a) (- int i - 1) a) [2, 1, 0] a
      in fold (\<lambda>i a. sr_up (sr_resistance i a) (int i + 1) a) [0, 1, 2] a)"

section \<open>Bollinger bands\<close>

record bb_analyser = tf_analyser +
  bb_bollinger :: bollinger
  bb_adx :: adx
  bb_breakout :: int
  bb_integrate :: int
  bb_confirmation :: int
  bb_hasAdx :: bool

definition bb_compute :: "ta_lib \<Rightarrow> dbl \<Rightarrow> dbl \<Rightarrow> 'a bb_analyser_scheme \<Rightarrow> 'a bb_analyser_scheme" where
  "bb_compute ta timestamp lastTimestamp a =
     (let p = an_price a;
          a = a\<lparr>bb_confirmation := close_move p, bb_breakout := 0, bb_integrate := 0\<rparr>
      in if \<not> an_updateAtClose a \<or> pr_consolidated p then
           (let a = a\<lparr>bb_bollinger := bl_compute ta (pr_close p) (bb_bollinger a)\<rparr>;
                uc = da_cross (pr_close p) (bl_upper (bb_bollinger a));
                lc = da_cross (pr_close p) (bl_lower (bb_bollinger a));
                a = (if uc > 0 then a\<lparr>bb_breakout := 1\<rparr> else if uc < 0 then a\<lparr>bb_integrate := -1\<rparr> else a);
                a = (if lc < 0 then a\<lparr>bb_breakout := -1\<rparr> else if lc > 0 then a\<lparr>bb_integrate := 1\<rparr> else a)
            in if bb_hasAdx a then a\<lparr>bb_adx := ax_compute ta (pr_high p) (pr_low p) (pr_close p) (bb_adx a)\<rparr> else a)
         else a)"

definition bb_isPriceBelowLower :: "'a bb_analyser_scheme \<Rightarrow> bool" where
  "bb_isPriceBelowLower a =
     (if pr_last (an_price a) \<le> 0 \<or> da_last (bl_lower (bb_bollinger a)) \<le> 0 then False
      else pr_last (an_price a) < da_last (bl_lower (bb_bollinger a)))"

definition bb_isPriceAboveUpper :: "'a bb_analyser_scheme \<Rightarrow> bool" where
  "bb_isPriceAboveUpper a =
     (if pr_last (an_price a) \<le> 0 \<or> da_last (bl_upper (bb_bollinger a)) \<le> 0 then False
      else pr_last (an_price a) > da_last (bl_upper (bb_bollinger a)))"

definition bb_isPriceBelowUpper :: "'a bb_analyser_scheme \<Rightarrow> bool" where
  "bb_isPriceBelowUpper a =
     (if pr_last (an_price a) \<le> 0 \<or> da_last (bl_upper (bb_bollinger a)) \<le> 0 then False
      else pr_last (an_price a) < da_last (bl_upper (bb_bollinger a)))"

definition bb_isPriceAboveLower :: "'a bb_analyser_scheme \<Rightarrow> bool" where
  "bb_isPriceAboveLower a =
     (if pr_last (an_price a) \<le> 0 \<or> da_last (bl_lower (bb_bollinger a)) \<le> 0 then False
      else pr_last (an_price a) > da_last (bl_lower (bb_bollinger a)))"

definition bb_takeProfit :: "int \<Rightarrow> dbl \<Rightarrow> 'a bb_analyser_scheme \<Rightarrow> dbl" where
  "bb_takeProfit dir profitScale a =
     (let b = bb_bollinger a
      in if dir > 0 then pr_last (an_price a) + profitScale * (bl_lastMiddle b - bl_lastLower b)
         else if dir < 0 then pr_last (an_price a) - profitScale * (bl_lastUpper b - bl_lastMiddle b)
         else 0)"

definition bb_stopLoss :: "int \<Rightarrow> dbl \<Rightarrow> dbl \<Rightarrow> 'a bb_analyser_scheme \<Rightarrow> dbl" where
  "bb_stopLoss dir lossScale riskReward a =
     (let b = bb_bollinger a
      in if dir > 0 then pr_last (an_price a) - riskReward * lossScale * (bl_lastMiddle b - bl_lastLower b)
         else if dir < 0 then pr_last (an_price a) + riskReward * lossScale * (bl_lastUpper b - bl_lastMiddle b)
         else 0)"

section \<open>Confirmation and session\<close>

record conf_analyser = tf_analyser +
  cf_confirmation :: int

definition cf_compute :: "dbl \<Rightarrow> dbl \<Rightarrow> 'a conf_analyser_scheme \<Rightarrow> 'a conf_analyser_scheme" where
  "cf_compute timestamp lastTimestamp a = a\<lparr>cf_confirmation := close_move (an_price a)\<rparr>"

record session_analyser = tf_analyser +
  ss_vp :: volume_profile

definition ss_updateTick :: "date_lib \<Rightarrow> (nat \<Rightarrow> data_array) \<Rightarrow> tick \<Rightarrow> bool \<Rightarrow> ohlc_ring \<Rightarrow> 'a session_analyser_scheme
    \<Rightarrow> 'a session_analyser_scheme" where
  "ss_updateTick dl newArray tick fin r a = a\<lparr>ss_vp := vp_update dl newArray tick fin (ss_vp a)\<rparr>"

definition ss_compute :: "dbl \<Rightarrow> dbl \<Rightarrow> 'a session_analyser_scheme \<Rightarrow> 'a session_analyser_scheme" where
  "ss_compute timestamp lastTimestamp a = a"

lemma truncate_update [simp]:
  "tf_analyser.truncate (a\<lparr>sr_pivots := x\<rparr>) = tf_analyser.truncate a"
  "tf_analyser.truncate (a\<lparr>sr_breakoutPrice := y\<rparr>) = tf_analyser.truncate a"
  "tf_analyser.truncate (a\<lparr>sr_breakoutDirection := z\<rparr>) = tf_analyser.truncate a"
  "tf_analyser.truncate (a\<lparr>sr_srLevel := z\<rparr>) = tf_analyser.truncate a"
  "tf_analyser.truncate (b\<lparr>bb_bollinger := u\<rparr>) = tf_analyser.truncate b"
  "tf_analyser.truncate (b\<lparr>bb_adx := v\<rparr>) = tf_analyser.truncate b"
  "tf_analyser.truncate (b\<lparr>bb_breakout := z\<rparr>) = tf_analyser.truncate b"
  "tf_analyser.truncate (b\<lparr>bb_integrate := z\<rparr>) = tf_analyser.truncate b"
  "tf_analyser.truncate (b\<lparr>bb_confirmation := z\<rparr>) = tf_analyser.truncate b"
  "tf_analyser.truncate (c\<lparr>cf_confirmation := z\<rparr>) = tf_analyser.truncate c"
  "tf_analyser.truncate (d\<lparr>ss_vp := w\<rparr>) = tf_analyser.truncate d"
  by (simp_all add: tf_analyser.truncate_def)

lemma sr_break_base [simp]:
  "tf_analyser.truncate (sr_down level n a) = tf_analyser.truncate a" "tf_analyser.truncate (sr_up level n a) = tf_analyser.truncate a"
  by (simp_all add: sr_down_def sr_up_def split: option.split)

interpretation sr: analyser_hooks no_updateTick sr_compute
  by unfold_locales (simp_all add: no_updateTick_def sr_compute_def Let_def)

interpretation bb: analyser_hooks no_updateTick "bb_compute ta" for ta
  by unfold_locales (simp_all add: no_updateTick_def bb_compute_def Let_def)

interpretation cf: analyser_hooks no_updateTick cf_compute
  by unfold_locales (simp_all add: no_updateTick_def cf_compute_def)

interpretation ss: analyser_hooks "ss_updateTick dl newArray" ss_compute for dl newArray
  by unfold_locales (simp_all add: ss_updateTick_def ss_compute_def)

text \<open>
  C14: Whatever ticks an analyser of the plugin is given and however often it is asked to process between them, processing never fails, and when
  it is done the prices are those of the bars of the ring, although most of the time only the last one was written.
\<close>

theorem analyser_follows_bars:
  assumes "2 \<le> depth"
  shows "\<exists>a a'. an_run dl (ss_updateTick dl newArray) ss_compute es (tf_analyser.extend (new_tf_analyser newArray tf src depth history m) x) = Some a
    \<and> an_process ss_compute ts a = Some a'
    \<and> (a' = a \<and> (int (length (contents (an_ring a))) < depth \<or> o_ts (hd (contents (an_ring a))) \<le> 0)
       \<or> contents (an_ring a') = contents (an_ring a) \<and> pr_close (an_price a') = map o_close (contents (an_ring a'))
         \<and> pr_price (an_price a') = map (bar_price (pr_method (an_price a'))) (contents (an_ring a'))
         \<and> vo_volume (an_volume a') = map o_vol (contents (an_ring a'))
         \<and> pr_last (an_price a') = last (pr_price (an_price a')))"
proof -
  let ?a = "tf_analyser.extend (new_tf_analyser newArray tf src depth history m) x"
  have ok: "an_ok ?a" by (rule an_ok_new [OF assms])
  have d: "an_depth ?a = depth" by (simp add: new_tf_analyser_def tf_analyser.defs)
  obtain a where a: "an_run dl (ss_updateTick dl newArray) ss_compute es ?a = Some a" "an_ok a" "an_depth a = depth"
    using ss.run_ok [OF ok, where dl = dl and es = es] d assms by auto
  obtain a' where a': "an_process ss_compute ts a = Some a'" "a' = a \<and> (int (length (contents (an_ring a))) < an_depth a \<or> o_ts (hd (contents (an_ring a))) \<le> 0)
       \<or> contents (an_ring a) \<noteq> [] \<and> contents (an_ring a') = contents (an_ring a) \<and> price_of (an_price a') (an_volume a') (contents (an_ring a'))
         \<and> pr_last (an_price a') = bar_price (pr_method (an_price a')) (last (contents (an_ring a')))"
    using ss.process_ok [OF a(2), of ts] a(3) assms by auto
  show ?thesis
  proof (intro exI conjI, rule a(1), rule a'(1))
    show "a' = a \<and> (int (length (contents (an_ring a))) < depth \<or> o_ts (hd (contents (an_ring a))) \<le> 0)
       \<or> contents (an_ring a') = contents (an_ring a) \<and> pr_close (an_price a') = map o_close (contents (an_ring a'))
         \<and> pr_price (an_price a') = map (bar_price (pr_method (an_price a'))) (contents (an_ring a'))
         \<and> vo_volume (an_volume a') = map o_vol (contents (an_ring a'))
         \<and> pr_last (an_price a') = last (pr_price (an_price a'))"
      using a'(2) a(3) by (auto simp: price_of_def last_map)
  qed
qed

theorem analyser_follows_bars_witness:
  "\<exists>a'. an_process ss_compute 0 (tf_analyser.extend (new_tf_analyser (\<lambda>_. []) 60 0 2 0 PR_CLOSE) \<lparr>ss_vp = new_volume_profile 60 10 1 70 False 1 False\<rparr>) = Some a'"
  using analyser_follows_bars [of 2 no_dates "\<lambda>_. []" "[]" 60 0 0 PR_CLOSE "\<lparr>ss_vp = new_volume_profile 60 10 1 70 False 1 False\<rparr>" 0] by auto

section \<open>The break of a level\<close>

lemma sr_break_simps [simp]:
  "an_price (sr_down l n a) = an_price a" "sr_pivots (sr_down l n a) = sr_pivots a"
  "an_price (sr_up l n a) = an_price a" "sr_pivots (sr_up l n a) = sr_pivots a"
  "sr_support i (sr_down l n a) = sr_support i a" "sr_resistance i (sr_down l n a) = sr_resistance i a"
  "sr_support i (sr_up l n a) = sr_support i a" "sr_resistance i (sr_up l n a) = sr_resistance i a"
  by (simp_all add: sr_down_def sr_up_def sr_support_def sr_resistance_def split: option.split)

definition crossed :: "int \<Rightarrow> price_ind \<Rightarrow> (dbl option \<times> int) list \<Rightarrow> dbl set" where
  "crossed c p ls = {x. pr_cross p x = c \<and> Some x \<in> fst ` set ls}"

lemma crossed_simps [simp]:
  "crossed c p [] = {}"
  "crossed c p (ls @ [(l, n)]) = (case l of None \<Rightarrow> crossed c p ls | Some x \<Rightarrow> if pr_cross p x = c then insert x (crossed c p ls) else crossed c p ls)"
  by (auto simp: crossed_def split: option.split)

lemma crossed_finite: "finite (crossed c p ls)"
proof -
  have "crossed c p ls \<subseteq> the ` fst ` set ls" by (force simp: crossed_def image_iff)
  then show ?thesis by (rule finite_subset) simp
qed

lemma pr_cross_cases: "pr_cross p x < 0 \<longleftrightarrow> pr_cross p x = -1" "pr_cross p x > 0 \<longleftrightarrow> pr_cross p x = 1"
  by (simp_all add: pr_cross_def cross_at_def)

lemma down_scan:
  assumes "\<forall>(l, n)\<in>set ls. \<exists>x>0. l = Some x" and "sr_breakoutPrice a = 0"
  shows "let a' = fold (\<lambda>(l, n). sr_down l n) ls a; C = crossed (-1) (an_price a) ls
    in an_price a' = an_price a \<and> (if C = {} then sr_breakoutPrice a' = 0 \<and> sr_breakoutDirection a' = sr_breakoutDirection a
       else sr_breakoutPrice a' = Min C \<and> sr_breakoutDirection a' = -1 \<and> 0 < sr_breakoutPrice a')"
  using assms
proof (induction ls rule: rev_induct)
  case (snoc l ls)
  obtain x n where l: "l = (Some x, n)" "0 < x" using snoc.prems(1) by auto
  let ?a = "fold (\<lambda>(l, n). sr_down l n) ls a" and ?C = "crossed (-1) (an_price a) ls"
  have IH: "an_price ?a = an_price a" "?C = {} \<longrightarrow> sr_breakoutPrice ?a = 0 \<and> sr_breakoutDirection ?a = sr_breakoutDirection a"
    "?C \<noteq> {} \<longrightarrow> Min ?C = sr_breakoutPrice ?a \<and> sr_breakoutDirection ?a = -1 \<and> 0 < sr_breakoutPrice ?a"
    using snoc by (simp_all add: Let_def split: if_splits)
  have d: "sr_breakoutPrice (sr_down (Some x) n ?a) = (if pr_cross (an_price a) x = -1 \<and> (sr_breakoutPrice ?a \<le> 0 \<or> x < sr_breakoutPrice ?a) then x else sr_breakoutPrice ?a)"
    "sr_breakoutDirection (sr_down (Some x) n ?a) = (if pr_cross (an_price a) x = -1 \<and> (sr_breakoutPrice ?a \<le> 0 \<or> x < sr_breakoutPrice ?a) then -1 else sr_breakoutDirection ?a)"
    by (auto simp: sr_down_def IH(1) pr_cross_cases)
  show ?case using IH l(2) crossed_finite [of "-1" "an_price a" ls]
    by (cases "?C = {}"; cases "pr_cross (an_price a) x = -1") (simp_all add: l(1) Let_def d min_def)
qed simp

lemma up_scan:
  assumes "\<forall>(l, n)\<in>set ls. \<exists>x>0. l = Some x" and "sr_breakoutPrice a = 0"
  shows "let a' = fold (\<lambda>(l, n). sr_up l n) ls a; C = crossed 1 (an_price a) ls
    in an_price a' = an_price a \<and> (if C = {} then sr_breakoutPrice a' = 0 \<and> sr_breakoutDirection a' = sr_breakoutDirection a
       else sr_breakoutPrice a' = Max C \<and> sr_breakoutDirection a' = 1 \<and> 0 < sr_breakoutPrice a')"
  using assms
proof (induction ls rule: rev_induct)
  case (snoc l ls)
  obtain x n where l: "l = (Some x, n)" "0 < x" using snoc.prems(1) by auto
  let ?a = "fold (\<lambda>(l, n). sr_up l n) ls a" and ?C = "crossed 1 (an_price a) ls"
  have IH: "an_price ?a = an_price a" "?C = {} \<longrightarrow> sr_breakoutPrice ?a = 0 \<and> sr_breakoutDirection ?a = sr_breakoutDirection a"
    "?C \<noteq> {} \<longrightarrow> Max ?C = sr_breakoutPrice ?a \<and> sr_breakoutDirection ?a = 1 \<and> 0 < sr_breakoutPrice ?a"
    using snoc by (simp_all add: Let_def split: if_splits)
  have d: "sr_breakoutPrice (sr_up (Some x) n ?a) = (if pr_cross (an_price a) x = 1 \<and> (sr_breakoutPrice ?a \<le> 0 \<or> x > sr_breakoutPrice ?a) then x else sr_breakoutPrice ?a)"
    "sr_breakoutDirection (sr_up (Some x) n ?a) = (if pr_cross (an_price a) x = 1 \<and> (sr_breakoutPrice ?a \<le> 0 \<or> x > sr_breakoutPrice ?a) then 1 else sr_breakoutDirection ?a)"
    by (auto simp: sr_up_def IH(1) pr_cross_cases)
  show ?case using IH l(2) crossed_finite [of 1 "an_price a" ls]
    by (cases "?C = {}"; cases "pr_cross (an_price a) x = 1") (simp_all add: l(1) Let_def d max_def)
qed simp

lemma up_scan_none: "crossed 1 (an_price a) ls = {} \<Longrightarrow> fold (\<lambda>(l, n). sr_up l n) ls a = a"
proof (induction ls rule: rev_induct)
  case (snoc l ls)
  then show ?case by (cases l; cases "fst l") (auto simp: sr_up_def pr_cross_cases split: if_splits)
qed simp

definition sr_levels :: "'a sr_analyser_scheme \<Rightarrow> (dbl option \<times> int) list" where
  "sr_levels a = [(sr_resistance 2 a, 3), (sr_resistance 1 a, 2), (sr_resistance 0 a, 1), (sr_support 0 a, -1), (sr_support 1 a, -2), (sr_support 2 a, -3)]"

lemma sr_compute_scans:
  obtains a0 where "sr_compute ts now a = fold (\<lambda>(l, n). sr_up l n) (rev (sr_levels (sr_compute ts now a))) (fold (\<lambda>(l, n). sr_down l n) (sr_levels (sr_compute ts now a)) a0)"
    and "sr_breakoutPrice a0 = 0" "sr_breakoutDirection a0 = 0" "an_price a0 = an_price a"
proof -
  define p where "p = an_price a"
  define a0 where "a0 = (let a = (if pr_consolidated p then a\<lparr>sr_pivots := pv_compute (sr_method a) (pr_open p) (pr_high p) (pr_low p) (pr_close p)\<rparr> else a)
    in a\<lparr>sr_breakoutPrice := 0, sr_breakoutDirection := 0, sr_srLevel := 0\<rparr>)"
  have c: "sr_compute ts now a = fold (\<lambda>(l, n). sr_up l n) (rev (sr_levels a0)) (fold (\<lambda>(l, n). sr_down l n) (sr_levels a0) a0)"
    by (simp add: sr_compute_def Let_def a0_def p_def sr_levels_def)
  have "sr_levels (sr_compute ts now a) = sr_levels a0" by (simp add: c sr_levels_def)
  then show thesis by (intro that [of a0]) (use c in \<open>simp_all add: a0_def Let_def p_def\<close>)
qed

text \<open>
  C36: When the price of two updates crosses levels of the pivot points, the analyser finds the last of them on the way: the lowest of those that it
  falls through, the highest of those that it rises through, with that direction, and none when it crosses no level.
\<close>

theorem sr_breakout:
  assumes "a' = sr_compute ts now a" and "\<forall>(l, n)\<in>set (sr_levels a'). \<exists>x>0. l = Some x"
    and "prev = pr_prev (an_price a)" and "cur = pr_last (an_price a)"
    and "C = {x. Some x \<in> fst ` set (sr_levels a') \<and> min prev cur < x \<and> x < max prev cur}"
  shows "if C = {} then sr_breakoutDirection a' = 0 \<and> sr_breakoutPrice a' = 0
    else if cur < prev then sr_breakoutDirection a' = -1 \<and> sr_breakoutPrice a' = Min C
    else sr_breakoutDirection a' = 1 \<and> sr_breakoutPrice a' = Max C"
proof -
  obtain a0 where r: "a' = fold (\<lambda>(l, n). sr_up l n) (rev (sr_levels a')) (fold (\<lambda>(l, n). sr_down l n) (sr_levels a') a0)"
    and a0: "sr_breakoutPrice a0 = 0" "sr_breakoutDirection a0 = 0" "an_price a0 = an_price a"
    using sr_compute_scans [of ts now a] assms(1) by metis
  define a1 where "a1 = fold (\<lambda>(l, n). sr_down l n) (sr_levels a') a0"
  note dn = down_scan [OF assms(2) a0(1), folded a1_def, unfolded Let_def a0(2,3)]
  have lv: "\<forall>(l, n)\<in>set (rev (sr_levels a')). \<exists>x>0. l = Some x" using assms(2) by simp
  have ups: "crossed 1 (an_price a) (rev (sr_levels a')) = (if prev < cur then C else {})"
    and downs: "crossed (-1) (an_price a) (sr_levels a') = (if cur < prev then C else {})"
    by (auto simp: crossed_def assms(3-5) pr_cross_def cross_at_def)
  have p1: "an_price a1 = an_price a" using dn by blast
  show ?thesis
  proof (cases "cur < prev")
    case True
    then have "a' = a1" using r up_scan_none [of a1 "rev (sr_levels a')"] ups p1 by (simp add: a1_def)
    with dn downs True show ?thesis by auto
  next
    case False
    then have d1: "sr_breakoutPrice a1 = 0" "sr_breakoutDirection a1 = 0" using dn downs by auto
    have r1: "a' = fold (\<lambda>(l, n). sr_up l n) (rev (sr_levels a')) a1" using r by (simp only: a1_def)
    note up = up_scan [OF lv d1(1), folded r1, unfolded Let_def p1 d1(2) ups]
    show ?thesis
    proof (cases "prev < cur")
      case True
      with up False show ?thesis by auto
    next
      case same: False
      then have "C = {}" using False by (auto simp: assms(5))
      with up same show ?thesis by auto
    qed
  qed
qed

definition falling :: price_ind where
  "falling = (new_price (\<lambda>_. []) PR_CLOSE)\<lparr>pr_prev := 103, pr_last := 91\<rparr>"

definition pivots :: pivot_levels where
  "pivots = \<lparr>pl_pivot = 100, pl_support = [95, 90, 85], pl_resistance = [105, 110, 115]\<rparr>"

definition sr_example :: sr_analyser where
  "sr_example = tf_analyser.extend ((new_tf_analyser (\<lambda>_. []) 60 0 2 0 PR_CLOSE)\<lparr>an_price := falling\<rparr>)
     \<lparr>sr_method = PV_CLASSICAL, sr_pivots = [None, Some pivots], sr_breakoutDirection = 0, sr_breakoutPrice = 0, sr_srLevel = 0\<rparr>"

theorem sr_breakout_witness:
  "sr_breakoutDirection (sr_compute 0 0 sr_example) = -1 \<and> sr_breakoutPrice (sr_compute 0 0 sr_example) = 95"
proof -
  define a' where "a' = sr_compute 0 0 sr_example"
  have p: "pr_prev (an_price sr_example) = 103" "pr_last (an_price sr_example) = 91"
    by (simp_all add: sr_example_def falling_def tf_analyser.defs)
  have "sr_levels a' = [(Some 115, 3), (Some 110, 2), (Some 105, 1), (Some 95, -1), (Some 90, -2), (Some 85, -3)]"
    unfolding a'_def by code_simp
  then have l: "\<forall>(l, n)\<in>set (sr_levels a'). \<exists>x>0. l = Some x"
    and c: "{x. Some x \<in> fst ` set (sr_levels a') \<and> min 103 91 < x \<and> x < max 103 91} = {95}"
    by auto
  show ?thesis using sr_breakout [OF a'_def l refl refl refl, unfolded p c] by (simp add: a'_def [symmetric])
qed

end
