(* ===== verification/Pullback.thy ===== *)
theory Pullback
  imports Strategy_Engine Pullback_Analysers
begin

text \<open>
  The plugin \<^verbatim>\<open>strategies/src/strategies/pullback/pullback.cpp\<close>: it waits for the price to break out of a support or a resistance beyond the
  Bollinger bands, then to integrate back over that level, and enters on the pullback. There is at most one analyser of each kind; that of the session
  may be missing, the other ones are dereferenced without a test.
\<close>

section \<open>State\<close>

record pullback = engine +
  pb_session :: "session_analyser option"
  pb_sr :: sr_analyser
  pb_bb :: bb_analyser
  pb_conf :: conf_analyser
  pb_confirmAtClose :: bool
  pb_targetScale :: dbl
  pb_riskReward :: dbl
  pb_minAdx :: dbl
  pb_breakoutTimestamp :: dbl
  pb_breakoutDirection :: int
  pb_breakoutPrice :: dbl
  pb_integrateTimestamp :: dbl
  pb_integrateDirection :: int

definition ADX_MAX :: dbl where "ADX_MAX = 75"

section \<open>The analysers\<close>

definition pb_prepare :: "dbl \<Rightarrow> pullback \<Rightarrow> pullback" where
  "pb_prepare timestamp e = e"

definition pb_analysers :: "ta_lib \<Rightarrow> dbl \<Rightarrow> dbl \<Rightarrow> pullback \<Rightarrow> pullback" where
  "pb_analysers ta timestamp lastTimestamp e =
     e\<lparr>pb_session := map_option (processed ss_compute timestamp) (pb_session e),
       pb_sr := processed sr_compute timestamp (pb_sr e),
       pb_bb := processed (bb_compute ta) timestamp (pb_bb e),
       pb_conf := processed cf_compute timestamp (pb_conf e)\<rparr>"

definition pb_onTickUpdate :: "date_lib \<Rightarrow> (nat \<Rightarrow> data_array) \<Rightarrow> tick list \<Rightarrow> pullback \<Rightarrow> pullback" where
  "pb_onTickUpdate dl newArray ticks e =
     (if sg_baseTimeframe (eg_strategy e) = TF_TICK then
        e\<lparr>pb_session := map_option (an_onTickUpdate dl (ss_updateTick dl newArray) ticks) (pb_session e),
          pb_sr := an_onTickUpdate dl no_updateTick ticks (pb_sr e),
          pb_bb := an_onTickUpdate dl no_updateTick ticks (pb_bb e),
          pb_conf := an_onTickUpdate dl no_updateTick ticks (pb_conf e)\<rparr>
      else e)"

definition pb_onOhlcUpdate :: "dbl \<Rightarrow> ohlc_type \<Rightarrow> ohlc list \<Rightarrow> pullback \<Rightarrow> pullback" where
  "pb_onOhlcUpdate timeframe ohlcType bars e =
     (if sg_baseTimeframe (eg_strategy e) = timeframe then
        e\<lparr>pb_session := map_option (an_onOhlcUpdate (ohlc_type_number ohlcType) bars) (pb_session e),
          pb_sr := an_onOhlcUpdate (ohlc_type_number ohlcType) bars (pb_sr e),
          pb_bb := an_onOhlcUpdate (ohlc_type_number ohlcType) bars (pb_bb e),
          pb_conf := an_onOhlcUpdate (ohlc_type_number ohlcType) bars (pb_conf e)\<rparr>
      else e)"

definition pb_data :: "date_lib \<Rightarrow> (nat \<Rightarrow> data_array) \<Rightarrow> market_data \<Rightarrow> pullback \<Rightarrow> pullback" where
  "pb_data dl newArray md e =
     (case md of
        Md_ticks ticks \<Rightarrow> pb_onTickUpdate dl newArray ticks e
      | Md_bars timeframe ohlcType bars \<Rightarrow> pb_onOhlcUpdate timeframe ohlcType bars e)"

section \<open>The signal\<close>

definition pb_checkVp :: "int \<Rightarrow> int \<Rightarrow> int \<Rightarrow> pullback \<Rightarrow> bool" where
  "pb_checkVp direction vpUp vpDn e =
     (case pb_session e of
        None \<Rightarrow> True
      | Some s \<Rightarrow>
          if direction > 0 \<and> an_lastPrice (pb_conf e) \<le> vp_pocPrice0 (ss_vp s) then False
          else if direction < 0 \<and> an_lastPrice (pb_conf e) \<ge> vp_pocPrice0 (ss_vp s) then False
          else if direction > 0 then vpUp > vpDn
          else if direction < 0 then vpUp < vpDn
          else True)"

text \<open>The profiles that the price is above and below of.\<close>

definition pb_countVp :: "pullback \<Rightarrow> int \<times> int" where
  "pb_countVp e =
     (case pb_session e of
        None \<Rightarrow> (0, 0)
      | Some s \<Rightarrow>
          let price = an_lastPrice s
          in if price \<noteq> 0 then
               (int (length (filter (\<lambda>d. price > vp_pocPrice d) (vp_history (ss_vp s)))),
                int (length (filter (\<lambda>d. price < vp_pocPrice d) (vp_history (ss_vp s)))))
             else (0, 0))"

definition pb_adxSignal :: "pullback \<Rightarrow> bool" where
  "pb_adxSignal e =
     (if bb_hasAdx (pb_bb e) then ax_last (bb_adx (pb_bb e)) > pb_minAdx e \<and> ax_last (bb_adx (pb_bb e)) \<le> ADX_MAX else True)"

definition pb_breakout :: "dbl \<Rightarrow> pullback \<Rightarrow> pullback" where
  "pb_breakout timestamp e =
     (let broken = (\<lambda>d e. e\<lparr>pb_breakoutTimestamp := timestamp, pb_breakoutPrice := sr_breakoutPrice (pb_sr e), pb_breakoutDirection := d,
                             pb_integrateTimestamp := 0, pb_integrateDirection := 0\<rparr>);
          e = (if sr_breakoutDirection (pb_sr e) < 0 \<and> sr_breakoutPrice (pb_sr e) > 0 \<and> bb_isPriceBelowLower (pb_bb e) then broken (-1) e else e)
      in if sr_breakoutDirection (pb_sr e) > 0 \<and> sr_breakoutPrice (pb_sr e) > 0 \<and> bb_isPriceAboveUpper (pb_bb e) then broken 1 e else e)"

definition pb_integrate :: "dbl \<Rightarrow> pullback \<Rightarrow> pullback" where
  "pb_integrate timestamp e =
     (let e = (if sr_breakoutDirection (pb_sr e) > 0 \<and> sr_breakoutPrice (pb_sr e) > 0 \<and>
                  pb_breakoutDirection e < 0 \<and> pb_breakoutPrice e > 0 \<and> an_lastPrice (pb_sr e) \<ge> pb_breakoutPrice e
               then e\<lparr>pb_integrateTimestamp := timestamp, pb_integrateDirection := 1\<rparr> else e)
      in if sr_breakoutDirection (pb_sr e) < 0 \<and> sr_breakoutPrice (pb_sr e) > 0 \<and>
            pb_breakoutDirection e > 0 \<and> pb_breakoutPrice e > 0 \<and> an_lastPrice (pb_sr e) \<le> pb_breakoutPrice e
         then e\<lparr>pb_integrateTimestamp := timestamp, pb_integrateDirection := -1\<rparr> else e)"

definition pb_fill :: "int \<Rightarrow> market \<Rightarrow> pullback \<Rightarrow> trade_signal \<Rightarrow> trade_signal" where
  "pb_fill direction m e s =
     (let s = s\<lparr>sn_type := SN_ENTRY, sn_direction := direction\<rparr>;
          s = en_updateSignal (eg_entry e) m s;
          s = (if ee_adjustPolicy (eg_takeProfit e) = ADJ_CUSTOM
               then s\<lparr>sn_takeProfitPrice := bb_takeProfit direction (pb_targetScale e) (pb_bb e)\<rparr>
               else tp_updateSignal (eg_takeProfit e) s)
      in if ee_adjustPolicy (eg_stopLoss e) = ADJ_CUSTOM
         then s\<lparr>sn_stopLossPrice := bb_stopLoss direction (pb_targetScale e) (pb_riskReward e) (pb_bb e)\<rparr>
         else sl_updateSignal (eg_stopLoss e) s)"

text \<open>With the confirmation of the close of a bar or without it, one signal for each timeframe.\<close>

definition pb_confirm :: "bool \<Rightarrow> int \<Rightarrow> dbl \<Rightarrow> market \<Rightarrow> pullback \<Rightarrow> trade_signal \<Rightarrow> trade_signal" where
  "pb_confirm confirmed direction timestamp m e s =
     (if pb_confirmAtClose e then
        (if confirmed then
           (if sn_timestamp (eg_lastSignal e) + sn_timeframe (eg_lastSignal e) < timestamp then pb_fill direction m e s else s)
         else s)
      else if sn_timestamp (eg_lastSignal e) + sn_timeframe (eg_lastSignal e) < timestamp then pb_fill direction m e s else s)"

definition pb_entry :: "dbl \<Rightarrow> market \<Rightarrow> bool \<Rightarrow> int \<Rightarrow> int \<Rightarrow> pullback \<Rightarrow> trade_signal \<Rightarrow> trade_signal" where
  "pb_entry timestamp m adxSignal vpUp vpDn e s =
     (let s = (if pb_integrateDirection e > 0 \<and> bb_isPriceAboveLower (pb_bb e) \<and> pb_checkVp 1 vpUp vpDn e \<and> adxSignal
               then pb_confirm (cf_confirmation (pb_conf e) > 0) LONG timestamp m e s else s)
      in if pb_integrateDirection e < 0 \<and> bb_isPriceBelowUpper (pb_bb e) \<and> pb_checkVp (-1) vpUp vpDn e \<and> adxSignal
         then pb_confirm (cf_confirmation (pb_conf e) < 0) SHORT timestamp m e s else s)"

definition pb_expire :: "dbl \<Rightarrow> pullback \<Rightarrow> pullback" where
  "pb_expire timestamp e =
     (if pb_integrateTimestamp e > 0 \<and> timestamp - pb_integrateTimestamp e > an_timeframe (pb_sr e)
      then e\<lparr>pb_integrateTimestamp := 0, pb_integrateDirection := 0\<rparr> else e)"

definition pb_restart :: "pullback \<Rightarrow> pullback" where
  "pb_restart e = e\<lparr>pb_breakoutTimestamp := 0, pb_breakoutPrice := 0, pb_breakoutDirection := 0, pb_integrateTimestamp := 0,
     pb_integrateDirection := 0\<rparr>"

definition pb_computeSignal :: "dbl \<Rightarrow> market \<Rightarrow> pullback \<Rightarrow> trade_signal \<times> pullback" where
  "pb_computeSignal timestamp m e =
     (let (vpUp, vpDn) = pb_countVp e;
          adxSignal = pb_adxSignal e;
          e = pb_integrate timestamp (pb_breakout timestamp e);
          s = pb_entry timestamp m adxSignal vpUp vpDn e (new_signal (an_timeframe (pb_bb e)) timestamp);
          e = pb_expire timestamp e
      in if sn_valid s
         then (check_signal m e ((sl_updateSignal (eg_stopLoss e) s)\<lparr>sn_entryTimeout := en_timeout (eg_entry e)\<rparr>), pb_restart e)
         else (s, e))"

definition pb_code :: "date_lib \<Rightarrow> (nat \<Rightarrow> data_array) \<Rightarrow> ta_lib \<Rightarrow> ('w, pullback) plugin_code" where
  "pb_code dl newArray ta = eg_standard (pb_data dl newArray) pb_prepare (pb_analysers ta) pb_computeSignal"

definition pb_process :: "'w proxy \<Rightarrow> date_lib \<Rightarrow> (nat \<Rightarrow> data_array) \<Rightarrow> ta_lib \<Rightarrow> dbl \<Rightarrow> dbl \<Rightarrow> pullback \<Rightarrow> 'w \<Rightarrow> pullback \<times> 'w" where
  "pb_process px dl newArray ta = eg_process px dl (pb_code dl newArray ta)"

lemma pb_core [simp]:
  "eg_core (pb_prepare ts e) = eg_core e" "eg_core (pb_analysers ta ts now e) = eg_core e" "eg_core (pb_breakout ts e) = eg_core e"
  "eg_core (pb_integrate ts e) = eg_core e" "eg_core (pb_expire ts e) = eg_core e" "eg_core (pb_restart e) = eg_core e"
  "eg_core (pb_data dl newArray md e) = eg_core e"
  by (simp_all add: eg_core_def pb_data_def pb_onTickUpdate_def pb_onOhlcUpdate_def pb_prepare_def pb_analysers_def pb_breakout_def pb_integrate_def pb_expire_def pb_restart_def Let_def split: market_data.split)

lemma pb_signal_core [simp]: "eg_core (snd (pb_computeSignal ts m e)) = eg_core e"
  by (simp add: pb_computeSignal_def Let_def split_beta)

interpretation pb: plugin "pb_code dl newArray ta" for dl newArray ta
  unfolding pb_code_def by (rule standard_plugin) simp_all

section \<open>Breakout, integration, entry\<close>

lemma pb_fill_signal [simp]: "sn_type (pb_fill d m e s) = SN_ENTRY" "sn_direction (pb_fill d m e s) = d"
  by (simp_all add: pb_fill_def Let_def)

lemma pb_confirm_cases: "pb_confirm c d ts m e s = s \<or> pb_confirm c d ts m e s = pb_fill d m e s"
  by (simp add: pb_confirm_def)

lemma pb_entry_direction:
  assumes "sn_valid (pb_entry ts m adx up dn e (new_signal tf ts))"
  shows "pb_integrateDirection e > 0 \<and> sn_direction (pb_entry ts m adx up dn e (new_signal tf ts)) = LONG
    \<or> pb_integrateDirection e < 0 \<and> sn_direction (pb_entry ts m adx up dn e (new_signal tf ts)) = SHORT"
proof -
  have n: "\<not> sn_valid (new_signal tf ts)" by (simp add: sn_valid_def new_signal_def)
  have c: "sn_valid (pb_confirm c d ts m e (new_signal tf ts)) \<Longrightarrow> sn_direction (pb_confirm c d ts m e (new_signal tf ts)) = d" for c d
    using pb_confirm_cases [of c d ts m e "new_signal tf ts"] n by auto
  show ?thesis using assms n c by (auto simp: pb_entry_def Let_def split: if_splits)
qed

lemma computeSignal_cases:
  assumes "pb_computeSignal ts m e = (s, e')" and "e3 = pb_integrate ts (pb_breakout ts e)"
  shows "(e' = pb_restart (pb_expire ts e3) \<and> (sn_valid s \<longrightarrow> pb_integrateDirection e3 > 0 \<and> sn_direction s = LONG \<or> pb_integrateDirection e3 < 0 \<and> sn_direction s = SHORT))
    \<or> \<not> sn_valid s \<and> e' = pb_expire ts e3"
proof -
  define s0 where "s0 = pb_entry ts m (pb_adxSignal e) (fst (pb_countVp e)) (snd (pb_countVp e)) e3 (new_signal (an_timeframe (pb_bb e3)) ts)"
  have r: "(s, e') = (if sn_valid s0
      then (check_signal m (pb_expire ts e3) ((sl_updateSignal (eg_stopLoss (pb_expire ts e3)) s0)\<lparr>sn_entryTimeout := en_timeout (eg_entry (pb_expire ts e3))\<rparr>),
            pb_restart (pb_expire ts e3))
      else (s0, pb_expire ts e3))"
    using assms(1) by (auto simp: pb_computeSignal_def Let_def split_beta s0_def assms(2) [symmetric])
  show ?thesis
  proof (cases "sn_valid s0")
    case True
    have "sn_direction s = sn_direction s0" if "sn_valid s" using that r True by (auto dest: check_signal_valid)
    moreover have "pb_integrateDirection e3 > 0 \<and> sn_direction s0 = LONG \<or> pb_integrateDirection e3 < 0 \<and> sn_direction s0 = SHORT"
      using pb_entry_direction True unfolding s0_def by blast
    ultimately show ?thesis using r True by auto
  qed (use r in simp)
qed

text \<open>The calls of a plugin, with the time, the state and the signal of each; between them the analysers and the engine change what is theirs.\<close>

type_synonym pb_call = "dbl \<times> pullback \<times> trade_signal"

definition pb_step :: "pb_call list \<times> pullback \<Rightarrow> dbl \<times> market \<times> (pullback \<Rightarrow> pullback) \<Rightarrow> pb_call list \<times> pullback" where
  "pb_step = (\<lambda>(tr, e) (ts, m, feed). let e = feed e; (s, e') = pb_computeSignal ts m e in (tr @ [(ts, e, s)], e'))"

definition pb_calls :: "(dbl \<times> market \<times> (pullback \<Rightarrow> pullback)) list \<Rightarrow> pullback \<Rightarrow> pb_call list \<times> pullback" where
  "pb_calls xs e = foldl pb_step ([], e) xs"

definition machine :: "pullback \<Rightarrow> int \<times> dbl \<times> int \<times> dbl" where
  "machine e = (pb_breakoutDirection e, pb_breakoutPrice e, pb_integrateDirection e, pb_integrateTimestamp e)"

definition breaks :: "int \<Rightarrow> pb_call \<Rightarrow> bool" where
  "breaks d c = (case c of (ts, e, s) \<Rightarrow> 0 < d * sr_breakoutDirection (pb_sr e) \<and> 0 < sr_breakoutPrice (pb_sr e)
     \<and> (if d < 0 then bb_isPriceBelowLower (pb_bb e) else bb_isPriceAboveUpper (pb_bb e)))"

definition integrates :: "int \<Rightarrow> dbl \<Rightarrow> pb_call \<Rightarrow> bool" where
  "integrates d level c = (case c of (ts, e, s) \<Rightarrow> 0 < d * sr_breakoutDirection (pb_sr e)
     \<and> 0 \<le> of_int d * (an_lastPrice (pb_sr e) - level))"

definition call_level :: "pb_call \<Rightarrow> dbl" where
  "call_level c = sr_breakoutPrice (pb_sr (fst (snd c)))"

definition silent :: "pb_call list \<Rightarrow> nat \<Rightarrow> nat \<Rightarrow> bool" where
  "silent tr i n \<longleftrightarrow> (\<forall>k. i \<le> k \<and> k < n \<longrightarrow> \<not> sn_valid (snd (snd (tr ! k))))"

text \<open>What the machine remembers of the first \<open>n\<close> calls, with no signal up to call \<open>q\<close> since.\<close>

definition waits :: "pb_call list \<Rightarrow> int \<times> dbl \<times> int \<times> dbl \<Rightarrow> nat \<Rightarrow> nat \<Rightarrow> bool" where
  "waits tr mc n q = (case mc of (bd, bp, idir, its) \<Rightarrow>
     bd \<in> {-1, 0, 1} \<and> idir \<in> {-1, 0, 1}
     \<and> (bd \<noteq> 0 \<longrightarrow> (\<exists>i<n. breaks bd (tr ! i) \<and> bp = call_level (tr ! i) \<and> silent tr i q))
     \<and> (idir \<noteq> 0 \<longrightarrow> (\<exists>i j. i < j \<and> j < n \<and> breaks (- idir) (tr ! i) \<and> integrates idir (call_level (tr ! i)) (tr ! j) \<and> silent tr i q)))"

lemma waits_look:
  assumes "waits tr mc (length tr) (length tr)"
  shows "waits (tr @ [c]) mc (Suc (length tr)) (length tr)"
proof -
  have l: "(tr @ [c]) ! i = tr ! i" if "i < length tr" for i using that by (simp add: nth_append)
  have sl: "silent (tr @ [c]) i (length tr) = silent tr i (length tr)" for i unfolding silent_def using l by auto
  obtain bd bp idir its where mc: "mc = (bd, bp, idir, its)" by (cases mc)
  have "\<exists>i<Suc (length tr). breaks bd ((tr @ [c]) ! i) \<and> bp = call_level ((tr @ [c]) ! i) \<and> silent (tr @ [c]) i (length tr)" if ne: "bd \<noteq> 0"
  proof -
    obtain i where "i < length tr" "breaks bd (tr ! i)" "bp = call_level (tr ! i)" "silent tr i (length tr)"
      using assms ne by (auto simp: waits_def mc)
    then show ?thesis by (intro exI [of _ i]) (simp add: l sl)
  qed
  moreover have "\<exists>i j. i < j \<and> j < Suc (length tr) \<and> breaks (- idir) ((tr @ [c]) ! i)
      \<and> integrates idir (call_level ((tr @ [c]) ! i)) ((tr @ [c]) ! j) \<and> silent (tr @ [c]) i (length tr)" if ne: "idir \<noteq> 0"
  proof -
    obtain i j where "i < j" "j < length tr" "breaks (- idir) (tr ! i)" "integrates idir (call_level (tr ! i)) (tr ! j)" "silent tr i (length tr)"
      using assms ne by (auto simp: waits_def mc)
    then show ?thesis by (intro exI [of _ i] exI [of _ j]) (simp add: l sl)
  qed
  moreover have "bd \<in> {-1, 0, 1} \<and> idir \<in> {-1, 0, 1}" using assms by (simp add: waits_def mc)
  ultimately show ?thesis by (simp add: waits_def mc)
qed

lemma waits_breakout:
  assumes "waits tr (machine e) (Suc n) n" and "tr ! n = (ts, e, s)"
  shows "waits tr (machine (pb_breakout ts e)) (Suc n) n"
proof -
  have "silent tr n n" by (auto simp: silent_def)
  then have "waits tr (d, sr_breakoutPrice (pb_sr e), 0, 0) (Suc n) n" if "breaks d (tr ! n)" "d \<in> {-1, 1}" for d
    using that assms(2) by (auto simp: waits_def call_level_def intro!: exI [of _ n])
  moreover have "machine (pb_breakout ts e) = machine e
      \<or> (\<exists>d\<in>{-1, 1}. breaks d (tr ! n) \<and> machine (pb_breakout ts e) = (d, sr_breakoutPrice (pb_sr e), 0, 0))"
    by (auto simp: pb_breakout_def Let_def machine_def breaks_def assms(2))
  ultimately show ?thesis using assms(1) by auto
qed

lemma waits_integrate:
  assumes "waits tr (machine e) (Suc n) n" and "tr ! n = (ts, e0, s)" and "pb_sr e = pb_sr e0"
  shows "waits tr (machine (pb_integrate ts e)) (Suc n) n"
proof (cases "machine (pb_integrate ts e) = machine e")
  case False
  then obtain d where d: "d \<in> {-1, 1}" "machine (pb_integrate ts e) = (pb_breakoutDirection e, pb_breakoutPrice e, d, ts)"
    "pb_breakoutDirection e * d < 0" "0 < d * sr_breakoutDirection (pb_sr e)" "0 \<le> of_int d * (an_lastPrice (pb_sr e) - pb_breakoutPrice e)"
    by (auto simp: pb_integrate_def Let_def machine_def split: if_splits)
  then have "pb_breakoutDirection e = - d" using assms(1) by (auto simp: waits_def machine_def)
  then obtain i where i: "i < Suc n" "breaks (- d) (tr ! i)" "pb_breakoutPrice e = call_level (tr ! i)" "silent tr i n"
    using assms(1) d(1) by (auto simp: waits_def machine_def)
  have "i \<noteq> n" using i(2) d(1,4) by (auto simp: breaks_def assms(2,3))
  moreover have "integrates d (call_level (tr ! i)) (tr ! n)" using d i(3) by (simp add: integrates_def assms(2,3))
  ultimately have "\<exists>i j. i < j \<and> j < Suc n \<and> breaks (- d) (tr ! i) \<and> integrates d (call_level (tr ! i)) (tr ! j) \<and> silent tr i n"
    using i by (intro exI [of _ i] exI [of _ n]) auto
  then show ?thesis using assms(1) d(1) unfolding d(2) by (auto simp: waits_def machine_def)
qed (use assms(1) in simp)

lemma waits_expire: "waits tr (machine e) n q \<Longrightarrow> waits tr (machine (pb_expire ts e)) n q"
  by (auto simp: pb_expire_def waits_def machine_def)

lemma waits_restart: "waits tr (machine (pb_restart e)) n q"
  by (simp add: waits_def machine_def pb_restart_def)

lemma waits_silence: "waits tr mc n q \<Longrightarrow> \<not> sn_valid (snd (snd (tr ! q))) \<Longrightarrow> waits tr mc n (Suc q)"
  by (auto simp: waits_def silent_def less_Suc_eq split: prod.splits)

text \<open>What a signal in a direction at call \<open>n\<close> comes after.\<close>

definition grounded :: "pb_call list \<Rightarrow> int \<Rightarrow> nat \<Rightarrow> bool" where
  "grounded tr d n \<longleftrightarrow> (\<exists>i j. i < j \<and> j \<le> n \<and> breaks (- d) (tr ! i) \<and> integrates d (call_level (tr ! i)) (tr ! j)
     \<and> (\<forall>k. i \<le> k \<and> k < n \<longrightarrow> \<not> sn_valid (snd (snd (tr ! k)))))"

lemma pb_step_waits:
  assumes "waits tr (machine e) (length tr) (length tr)" and "\<forall>e. machine (feed e) = machine e"
    and "pb_step (tr, e) (ts, m, feed) = (tr', e')"
  shows "waits tr' (machine e') (length tr') (length tr')"
    and "\<exists>c. tr' = tr @ [c] \<and> (sn_valid (snd (snd c)) \<longrightarrow> sn_direction (snd (snd c)) \<in> {LONG, SHORT} \<and> grounded tr' (sn_direction (snd (snd c))) (length tr))"
proof -
  define e1 where "e1 = feed e"
  obtain s where cs: "pb_computeSignal ts m e1 = (s, e')" and tr': "tr' = tr @ [(ts, e1, s)]"
    using assms(3) by (auto simp: pb_step_def e1_def Let_def split: prod.splits)
  define n where "n = length tr"
  have at: "tr' ! n = (ts, e1, s)" by (simp add: tr' n_def)
  have "machine e1 = machine e" using assms(2) by (simp add: e1_def)
  then have "waits tr' (machine e1) (Suc n) n" using waits_look [OF assms(1), of "(ts, e1, s)"] by (simp add: tr' n_def)
  then have w2: "waits tr' (machine (pb_breakout ts e1)) (Suc n) n" by (rule waits_breakout [OF _ at])
  define e3 where "e3 = pb_integrate ts (pb_breakout ts e1)"
  have "pb_sr (pb_breakout ts e1) = pb_sr e1" by (simp add: pb_breakout_def Let_def)
  with waits_integrate [OF w2 at] have w3: "waits tr' (machine e3) (Suc n) n" by (simp add: e3_def)
  have e3: "pb_integrateDirection e3 \<in> {-1, 0, 1}" using w3 by (simp add: waits_def machine_def)
  have g: "grounded tr' (pb_integrateDirection e3) n" if ne: "pb_integrateDirection e3 \<noteq> 0"
  proof -
    obtain i j where "i < j" "j < Suc n" "breaks (- pb_integrateDirection e3) (tr' ! i)"
      "integrates (pb_integrateDirection e3) (call_level (tr' ! i)) (tr' ! j)" "silent tr' i n"
      using w3 ne by (auto simp: waits_def machine_def)
    then show ?thesis unfolding grounded_def silent_def by (intro exI [of _ i] exI [of _ j]) simp
  qed
  have len: "length tr' = Suc n" by (simp add: tr' n_def)
  note cc = computeSignal_cases [OF cs e3_def]
  show "waits tr' (machine e') (length tr') (length tr')"
    using cc waits_restart waits_silence [OF waits_expire [OF w3]] at unfolding len by auto
  have "sn_direction s \<in> {LONG, SHORT} \<and> grounded tr' (sn_direction s) n" if "sn_valid s"
  proof -
    have "sn_direction s = pb_integrateDirection e3 \<and> pb_integrateDirection e3 \<noteq> 0"
      using cc that e3 by (auto simp: LONG_def SHORT_def)
    then show ?thesis using e3 g by (auto simp: LONG_def SHORT_def)
  qed
  then show "\<exists>c. tr' = tr @ [c] \<and> (sn_valid (snd (snd c)) \<longrightarrow> sn_direction (snd (snd c)) \<in> {LONG, SHORT} \<and> grounded tr' (sn_direction (snd (snd c))) (length tr))"
    by (intro exI [of _ "(ts, e1, s)"]) (simp add: tr' n_def)
qed

text \<open>
  C10: Whatever the analysers report, every signal of the plugin has its own story: an earlier call at which the price broke through a level against the
  direction of the signal, beyond the band, and a later one at which a level broke in its direction with the price back at or over that level; and no
  signal was given from the first of these on.
\<close>

theorem pullback_story:
  assumes "pb_calls xs e = (tr, e')" and "\<forall>(ts, m, feed)\<in>set xs. \<forall>e. machine (feed e) = machine e"
    and "pb_breakoutDirection e = 0" and "pb_integrateDirection e = 0"
    and "n < length tr" and "tr ! n = (ts, e1, s)" and "sn_valid s"
  shows "sn_direction s \<in> {LONG, SHORT} \<and> (\<exists>i j. i < j \<and> j \<le> n \<and> breaks (- sn_direction s) (tr ! i)
    \<and> integrates (sn_direction s) (call_level (tr ! i)) (tr ! j) \<and> (\<forall>k. i \<le> k \<and> k < n \<longrightarrow> \<not> sn_valid (snd (snd (tr ! k)))))"
proof -
  have "waits tr (machine e') (length tr) (length tr) \<and> (\<forall>n<length tr. sn_valid (snd (snd (tr ! n)))
      \<longrightarrow> sn_direction (snd (snd (tr ! n))) \<in> {LONG, SHORT} \<and> grounded tr (sn_direction (snd (snd (tr ! n)))) n)"
    using assms(1,2)
  proof (induction xs arbitrary: tr e' rule: rev_induct)
    case Nil
    then show ?case using assms(3,4) by (auto simp: pb_calls_def waits_def machine_def)
  next
    case (snoc x xs)
    obtain ts m feed where x: "x = (ts, m, feed)" by (cases x)
    obtain tr0 e0 where c0: "pb_calls xs e = (tr0, e0)" by fastforce
    have st: "pb_step (tr0, e0) (ts, m, feed) = (tr, e')" using snoc.prems(1) c0 by (simp add: pb_calls_def x)
    have fd: "\<forall>e. machine (feed e) = machine e" using snoc.prems(2) by (simp add: x)
    have fs: "\<forall>(ts, m, feed)\<in>set xs. \<forall>e. machine (feed e) = machine e" using snoc.prems(2) by simp
    note IH = snoc.IH [OF c0 fs]
    have w: "waits tr0 (machine e0) (length tr0) (length tr0)" using IH by (rule conjunct1)
    obtain c where c: "tr = tr0 @ [c]" and new: "sn_valid (snd (snd c)) \<longrightarrow> sn_direction (snd (snd c)) \<in> {LONG, SHORT}
        \<and> grounded tr (sn_direction (snd (snd c))) (length tr0)"
      using pb_step_waits(2) [OF w fd st] by blast
    have old: "grounded tr d n" if gr: "grounded tr0 d n" and nl: "n < length tr0" for d n
    proof -
      obtain i j where ij: "i < j" "j \<le> n" "breaks (- d) (tr0 ! i)" "integrates d (call_level (tr0 ! i)) (tr0 ! j)"
        "\<forall>k. i \<le> k \<and> k < n \<longrightarrow> \<not> sn_valid (snd (snd (tr0 ! k)))"
        using gr unfolding grounded_def by blast
      then show ?thesis using nl unfolding grounded_def c by (intro exI [of _ i] exI [of _ j]) (simp add: nth_append)
    qed
    have "sn_direction (snd (snd (tr ! n))) \<in> {LONG, SHORT} \<and> grounded tr (sn_direction (snd (snd (tr ! n)))) n"
      if "n < length tr" "sn_valid (snd (snd (tr ! n)))" for n
    proof (cases "n = length tr0")
      case True
      have "tr ! n = c" by (simp add: c True)
      then show ?thesis using new that(2) by (simp only: True)
    next
      case False
      then have n: "n < length tr0" "tr ! n = tr0 ! n" using that(1) by (auto simp: c nth_append)
      then have "sn_direction (snd (snd (tr0 ! n))) \<in> {LONG, SHORT} \<and> grounded tr0 (sn_direction (snd (snd (tr0 ! n)))) n"
        using IH that(2) by simp
      then show ?thesis using old n by simp
    qed
    then show ?case using pb_step_waits(1) [OF w fd st] by blast
  qed
  then show ?thesis using assms(5-7) unfolding grounded_def by (metis snd_conv)
qed

text \<open>
  C23: Over any sequence of ticks, bars, steps and signals a plugin that starts without trades holds at most the maximal number of them unless it
  reverses, and no short trade when those are not allowed.
\<close>

theorem pullback_limits:
  assumes "eg_trades e = []" and "0 \<le> sg_maxTrades (eg_strategy e)"
  shows "(let e' = eg_run px dl (pb_code dl newArray ta) evs e
    in (sg_reversal (eg_strategy e) \<or> tm_numTrades (eg_trades e') \<le> sg_maxTrades (eg_strategy e))
       \<and> (sg_allowShort (eg_strategy e) \<or> (\<forall>t\<in>set (eg_trades e'). 0 \<le> vt_direction t)))"
  using pb.run_max_trades [OF _ assms, where px = px and dl = dl and evs = evs] pb.run_no_short [OF _ assms(1), where px = px and dl = dl and evs = evs]
  by (auto simp: Let_def)

text \<open>
  C24: Outside of the sessions of the strategy a plugin only loses trades: those after processing are among those before, in order.
\<close>

theorem pullback_closed_session:
  assumes "sg_sessions (eg_strategy e) \<noteq> []" and "\<not> allowedTradingSession dl timestamp (eg_strategy e)"
  shows "subseq (ids (eg_trades (fst (pb_process px dl newArray ta handlerTime timestamp e w)))) (ids (eg_trades e))"
  unfolding pb_process_def by (rule pb.closed_session [OF assms])

text \<open>
  The timeout for entries in the configuration has no effect: no trade of a plugin, opened or not, at no time, is ever late.
\<close>

theorem pullback_timeout_ignored:
  assumes "eg_trades e = []"
  shows "filter (\<lambda>t. tr_isEntryTimeout opened (vt_base t) timestamp 0)
    (eg_trades (eg_run px dl (pb_code dl newArray ta) evs e)) = []"
  by (simp only: filter_empty_conv) (intro ballI pb.run_no_timeout [OF _ assms], simp_all add: pb_code_def)

section \<open>An example\<close>

definition demo_ta :: ta_lib where
  "demo_ta = \<lparr>ta_bbands = \<lambda>p. (p, p, p), ta_bbands_lookback = 0, ta_adx = \<lambda>h l c. c, ta_adx_lookback = 0\<rparr>"

definition demo_bars :: "dbl \<Rightarrow> tf_analyser" where
  "demo_bars price = (new_tf_analyser (\<lambda>_. []) 60 0 2 0 PR_CLOSE)\<lparr>an_price := (new_price (\<lambda>_. []) PR_CLOSE)\<lparr>pr_close := [price, price], pr_last := price\<rparr>\<rparr>"

definition demo_sr :: "dbl \<Rightarrow> int \<Rightarrow> dbl \<Rightarrow> sr_analyser" where
  "demo_sr price d level = tf_analyser.extend (demo_bars price)
     \<lparr>sr_method = PV_CLASSICAL, sr_pivots = [], sr_breakoutDirection = d, sr_breakoutPrice = level, sr_srLevel = 0\<rparr>"

definition demo_bb :: "dbl \<Rightarrow> bb_analyser" where
  "demo_bb price = tf_analyser.extend (demo_bars price)
     \<lparr>bb_bollinger = \<lparr>bl_upper = [110], bl_middle = [105], bl_lower = [99], bl_prevUpper = 0, bl_lastUpper = 110, bl_prevMiddle = 0,
                      bl_lastMiddle = 105, bl_prevLower = 0, bl_lastLower = 99\<rparr>,
      bb_adx = \<lparr>ax_adx = [], ax_prev = 0, ax_last = 0\<rparr>, bb_breakout = 0, bb_integrate = 0, bb_confirmation = 0, bb_hasAdx = False\<rparr>"

definition demo_pullback :: pullback where
  "demo_pullback = \<lparr>eg_strategy = new_strategy\<lparr>sg_tradeType := TYPE_IND_MARGIN\<rparr>, eg_trades = [], eg_pool = new_pool, eg_lastSignal = new_signal 0 0,
     eg_entry = (new_trade_entry 0)\<lparr>ee_priceType := PRICE_LAST\<rparr>, eg_stopLoss = new_entry_exit, eg_takeProfit = new_entry_exit,
     eg_breakeven = new_entry_exit, eg_dynamicStop = new_dynamic_stop, eg_minProfit = 0,
     pb_session = None, pb_sr = demo_sr 100 0 0, pb_bb = demo_bb 100, pb_conf = tf_analyser.extend (demo_bars 100) \<lparr>cf_confirmation = 0\<rparr>,
     pb_confirmAtClose = False, pb_targetScale = 1, pb_riskReward = 1, pb_minAdx = 25, pb_breakoutTimestamp = 0, pb_breakoutDirection = 0,
     pb_breakoutPrice = 0, pb_integrateTimestamp = 0, pb_integrateDirection = 0\<rparr>"

definition demo_calls :: "(dbl \<times> market \<times> (pullback \<Rightarrow> pullback)) list" where
  "demo_calls = [(100, px_market demo_proxy 0, \<lambda>e. e\<lparr>pb_sr := demo_sr 98 (-1) 100, pb_bb := demo_bb 98\<rparr>),
     (110, px_market demo_proxy 0, \<lambda>e. e\<lparr>pb_sr := demo_sr 101 1 95, pb_bb := demo_bb 101\<rparr>)]"

theorem pullback_story_witness:
  "\<exists>i j. i < j \<and> j \<le> 1 \<and> breaks (-1) (fst (pb_calls demo_calls demo_pullback) ! i)
     \<and> integrates 1 (call_level (fst (pb_calls demo_calls demo_pullback) ! i)) (fst (pb_calls demo_calls demo_pullback) ! j)"
proof -
  obtain tr e' where c: "pb_calls demo_calls demo_pullback = (tr, e')" by fastforce
  have f: "\<forall>(ts, m, feed)\<in>set demo_calls. \<forall>e. machine (feed e) = machine e" by (simp add: demo_calls_def machine_def)
  have z: "pb_breakoutDirection demo_pullback = 0" "pb_integrateDirection demo_pullback = 0" by (simp_all add: demo_pullback_def)
  have v: "map (\<lambda>c. (sn_valid (snd (snd c)), sn_direction (snd (snd c)))) (fst (pb_calls demo_calls demo_pullback)) = [(False, 0), (True, 1)]"
    by code_simp
  from v have v': "map (\<lambda>c. (sn_valid (snd (snd c)), sn_direction (snd (snd c)))) tr = [(False, 0), (True, 1)]" by (simp add: c)
  from arg_cong [OF v', of length] have len: "length tr = 2" by (simp del: length_Suc_conv)
  obtain ts e1 s where t: "tr ! 1 = (ts, e1, s)" by (cases "tr ! 1")
  have "sn_valid s \<and> sn_direction s = 1" using arg_cong [OF v', of "\<lambda>l. l ! 1"] len t by simp
  with pullback_story [OF c f z _ t] len show ?thesis unfolding c by auto
qed

theorem pullback_limits_witness:
  "tm_numTrades (eg_trades (eg_run demo_proxy no_dates (pb_code no_dates (\<lambda>_. []) demo_ta) [Ev_process 0 60 0] demo_pullback)) \<le> 1"
proof -
  have h: "eg_trades demo_pullback = []" "0 \<le> sg_maxTrades (eg_strategy demo_pullback)" by (simp_all add: demo_pullback_def new_strategy_def)
  from pullback_limits [OF h, of demo_proxy no_dates "\<lambda>_. []" demo_ta "[Ev_process 0 60 0]"] show ?thesis
    by (simp add: Let_def) (simp add: demo_pullback_def new_strategy_def)
qed

theorem pullback_closed_session_witness:
  "subseq (ids (eg_trades (fst (pb_process demo_proxy one_day (\<lambda>_. []) demo_ta 0 0
     (demo_pullback\<lparr>eg_strategy := new_strategy\<lparr>sg_sessions := [\<lparr>sn_dayOfWeek = 1, sn_fromTime = 0, sn_toTime = 86399\<rparr>]\<rparr>\<rparr>) 0)))) []"
proof -
  let ?e = "demo_pullback\<lparr>eg_strategy := new_strategy\<lparr>sg_sessions := [\<lparr>sn_dayOfWeek = 1, sn_fromTime = 0, sn_toTime = 86399\<rparr>]\<rparr>\<rparr>"
  have h: "sg_sessions (eg_strategy ?e) \<noteq> []" "\<not> allowedTradingSession one_day 0 (eg_strategy ?e)"
    by (simp_all add: allowedTradingSession_def one_day_def)
  have "eg_trades ?e = []" by (simp add: demo_pullback_def)
  with pullback_closed_session [OF h, of demo_proxy "\<lambda>_. []" demo_ta 0 0] show ?thesis by simp
qed

theorem pullback_timeout_ignored_witness:
  "filter (\<lambda>t. tr_isEntryTimeout False (vt_base t) 1000000 0)
    (eg_trades (eg_run demo_proxy no_dates (pb_code no_dates (\<lambda>_. []) demo_ta) [Ev_process 0 60 0] demo_pullback)) = []"
  by (rule pullback_timeout_ignored) (simp add: demo_pullback_def)

end
