(* ===== verification/Composite_Profile.thy ===== *)
theory Composite_Profile
  imports Volume_Indicators
begin

text \<open>
  \<^verbatim>\<open>strategies/src/indicators/volumeprofile/compositevolumeprofile.cpp\<close>: the profile of the last sessions together. Its loops visit the bins
  of a hash map, in the order of the list here; the theorem does not depend on it.
\<close>

record composite =
  cp_tf :: dbl
  cp_length :: int
  cp_mergeCurrent :: bool
  cp_vp :: vp_data

definition new_composite :: "(nat \<Rightarrow> data_array) \<Rightarrow> dbl \<Rightarrow> int \<Rightarrow> bool \<Rightarrow> composite" where
  "new_composite newArray timeframe len mergeCurrent =
     \<lparr>cp_tf = timeframe, cp_length = len, cp_mergeCurrent = mergeCurrent, cp_vp = new_vp_data newArray\<rparr>"

definition cp_add :: "dbl \<times> dbl \<times> dbl \<Rightarrow> vp_data \<Rightarrow> vp_data" where
  "cp_add bin d =
     (let (k, bid, ask) = bin;
          d = d\<lparr>vp_bins := vp_ensure k (vp_bins d)\<rparr>;
          d = d\<lparr>vp_bins := vp_addAt k bid ask (vp_bins d)\<rparr>
      in if vp_volumeAt k (vp_bins d) > vp_pocVolume d
         then d\<lparr>vp_pocVolume := vp_volumeAt k (vp_bins d), vp_pocPrice := k\<rparr> else d)"

definition cp_merge :: "vp_data \<Rightarrow> vp_data \<Rightarrow> vp_data" where
  "cp_merge src d = fold cp_add (vp_bins src) d"

text \<open>\<^verbatim>\<open>composite\<close>, of the profile that was set: a length that is not positive reads out of the profiles.\<close>

definition cp_composite :: "volume_profile option \<Rightarrow> composite \<Rightarrow> composite option" where
  "cp_composite profile c =
     (case profile of
        None \<Rightarrow> Some c
      | Some v \<Rightarrow>
          if vp_history v = [] then Some c
          else
            let size = int (length (vp_history v)); beginIdx = max (size - cp_length c) 0
            in if beginIdx \<ge> size then None
               else
                 let firstVp = vp_history v ! nat beginIdx;
                     d = (cp_vp c)\<lparr>vp_bins := [], vp_peaks := [], vp_valleys := [], vp_timestamp := vp_timestamp firstVp,
                           vp_timeframe := cp_tf c * of_int (size - beginIdx), vp_sensibility := vp_sens v, vp_pocPrice := 0, vp_pocVolume := 0\<rparr>;
                     d = fold cp_merge (drop (nat beginIdx) (vp_history v)) d;
                     d = (case vp_current v of None \<Rightarrow> d | Some cur \<Rightarrow> if cp_mergeCurrent c then cp_merge cur d else d);
                     d = (if vp_timeframe d = 0
                          then d\<lparr>vp_timeframe := (if cp_mergeCurrent c then vp_lastTimestamp v - vp_timestamp d
                                                  else vp_timestamp (last (vp_history v)) - vp_timestamp d)\<rparr>
                          else d)
                 in Some (c\<lparr>cp_vp := d\<rparr>))"

section \<open>The volumes of the sessions together\<close>

definition bins_ok :: "vp_data \<Rightarrow> bool" where
  "bins_ok d \<longleftrightarrow> distinct (prices (vp_bins d)) \<and> (\<forall>(p, b, a)\<in>set (vp_bins d). 0 \<le> b + a)"

lemma volumeAt_Cons: "vp_volumeAt p ((k, b, a) # bins) = (if p = k then b + a else vp_volumeAt p bins)"
  by (simp add: vp_volumeAt_def)

lemma volumeAt_none: "p \<notin> set (prices bins) \<Longrightarrow> vp_volumeAt p bins = 0"
proof -
  assume "p \<notin> set (prices bins)"
  then have "map_of bins p = None" by (simp add: map_of_eq_None_iff)
  then show ?thesis by (simp add: vp_volumeAt_def)
qed

lemma cp_add_ok:
  assumes "poc_ok d" and "0 \<le> b + a"
  shows "poc_ok (cp_add (k, b, a) d)"
    and "vp_volumeAt p (vp_bins (cp_add (k, b, a) d)) = vp_volumeAt p (vp_bins d) + (if p = k then b + a else 0)"
proof -
  define bins where "bins = vp_ensure k (vp_bins d)"
  have k: "k \<in> set (prices bins)" "distinct (prices bins)"
    using assms(1) ensure_prices [where k = k and bins = "vp_bins d"] by (auto simp: bins_def poc_ok_def)
  have v: "vp_volumeAt p bins = vp_volumeAt p (vp_bins d)" for p by (simp add: bins_def)
  show "poc_ok (cp_add (k, b, a) d)" using assms k(2)
    by (auto simp: poc_ok_def cp_add_def Let_def bins_def [symmetric] addAt_volumeAt [OF k(1)] v le_max_iff_disj
      intro: order_trans split: if_splits)
  show "vp_volumeAt p (vp_bins (cp_add (k, b, a) d)) = vp_volumeAt p (vp_bins d) + (if p = k then b + a else 0)"
    by (simp add: cp_add_def Let_def bins_def [symmetric] addAt_volumeAt [OF k(1)] v)
qed

lemma cp_adds_ok:
  assumes "poc_ok d" and "distinct (prices bins)" and "\<forall>(p, b, a)\<in>set bins. 0 \<le> b + a"
  shows "poc_ok (fold cp_add bins d) \<and> (\<forall>p. vp_volumeAt p (vp_bins (fold cp_add bins d)) = vp_volumeAt p (vp_bins d) + vp_volumeAt p bins)"
  using assms
proof (induction bins arbitrary: d)
  case (Cons x bins)
  obtain k b a where x: "x = (k, b, a)" by (metis prod_cases3)
  have a: "poc_ok (cp_add x d)" "\<And>p. vp_volumeAt p (vp_bins (cp_add x d)) = vp_volumeAt p (vp_bins d) + (if p = k then b + a else 0)"
    using cp_add_ok(1) [OF Cons.prems(1), of b a k] cp_add_ok(2) [OF Cons.prems(1), of b a] Cons.prems(3) by (auto simp: x)
  have n: "vp_volumeAt k bins = 0" using Cons.prems(2) by (simp add: x volumeAt_none)
  have "poc_ok (fold cp_add bins (cp_add x d)) \<and> (\<forall>p. vp_volumeAt p (vp_bins (fold cp_add bins (cp_add x d)))
      = vp_volumeAt p (vp_bins (cp_add x d)) + vp_volumeAt p bins)"
    by (rule Cons.IH [OF a(1)]) (use Cons.prems in auto)
  then show ?case using a(2) n by (auto simp: x volumeAt_Cons)
qed (simp add: vp_volumeAt_def)

lemma cp_merges_ok:
  assumes "poc_ok d" and "\<forall>x\<in>set xs. bins_ok x"
  shows "poc_ok (fold cp_merge xs d)
    \<and> (\<forall>p. vp_volumeAt p (vp_bins (fold cp_merge xs d)) = vp_volumeAt p (vp_bins d) + (\<Sum>x\<leftarrow>xs. vp_volumeAt p (vp_bins x)))"
  using assms
proof (induction xs arbitrary: d)
  case (Cons x xs)
  have m: "poc_ok (cp_merge x d)" "\<And>p. vp_volumeAt p (vp_bins (cp_merge x d)) = vp_volumeAt p (vp_bins d) + vp_volumeAt p (vp_bins x)"
    using cp_adds_ok [OF Cons.prems(1), of "vp_bins x"] Cons.prems(2) by (simp_all add: cp_merge_def bins_ok_def)
  then show ?case using Cons.IH [OF m(1)] Cons.prems(2) by (simp add: add.assoc)
qed simp

text \<open>
  The composite of the last profiles has at every price the sum of their volumes, with that of the current one when it is merged, and its
  point of control is a price of the greatest sum.
\<close>

theorem composite_sums:
  assumes "vp_history v \<noteq> []" and "0 < cp_length c" and "\<forall>x\<in>set (vp_history v). bins_ok x" and "\<forall>x. vp_current v = Some x \<longrightarrow> bins_ok x"
    and "merged = take_last (nat (cp_length c)) (vp_history v) @ (if cp_mergeCurrent c then (case vp_current v of None \<Rightarrow> [] | Some x \<Rightarrow> [x]) else [])"
  shows "\<exists>c'. cp_composite (Some v) c = Some c' \<and> (\<forall>p. vp_volumeAt p (vp_bins (cp_vp c')) = (\<Sum>x\<leftarrow>merged. vp_volumeAt p (vp_bins x)))
    \<and> (\<forall>p. vp_volumeAt p (vp_bins (cp_vp c')) \<le> vp_pocVolume (cp_vp c'))
    \<and> (0 < vp_pocVolume (cp_vp c') \<longrightarrow> vp_volumeAt (vp_pocPrice (cp_vp c')) (vp_bins (cp_vp c')) = vp_pocVolume (cp_vp c'))"
proof -
  define size where "size = int (length (vp_history v))"
  define k where "k = max (size - cp_length c) 0"
  have k: "\<not> k \<ge> size" "nat k = length (vp_history v) - nat (cp_length c)"
    using assms(1,2) by (auto simp: k_def size_def max_def)
  define d0 where "d0 = (cp_vp c)\<lparr>vp_bins := [], vp_peaks := [], vp_valleys := [], vp_timestamp := vp_timestamp (vp_history v ! nat k),
    vp_timeframe := cp_tf c * of_int (size - k), vp_sensibility := vp_sens v, vp_pocPrice := 0, vp_pocVolume := 0\<rparr>"
  have p0: "poc_ok d0" "\<And>p. vp_volumeAt p (vp_bins d0) = 0" by (simp_all add: poc_ok_def d0_def vp_volumeAt_def)
  define d1 where "d1 = fold cp_merge merged d0"
  have t: "drop (nat k) (vp_history v) = take_last (nat (cp_length c)) (vp_history v)" by (simp add: take_last_def k(2))
  have d1: "d1 = (let d = fold cp_merge (drop (nat k) (vp_history v)) d0
      in case vp_current v of None \<Rightarrow> d | Some cur \<Rightarrow> if cp_mergeCurrent c then cp_merge cur d else d)"
    by (simp add: d1_def assms(5) t Let_def split: option.split)
  define cl where "cl = (if cp_mergeCurrent c then (case vp_current v of None \<Rightarrow> [] | Some x \<Rightarrow> [x]) else [])"
  have "cl = [] \<or> (\<exists>x. vp_current v = Some x \<and> cl = [x])" by (simp add: cl_def split: option.split)
  then have "\<forall>x\<in>set merged. bins_ok x"
    unfolding assms(5) cl_def [symmetric] set_append
    using assms(3,4) set_take_last [of "nat (cp_length c)" "vp_history v"] by auto
  then have m: "poc_ok d1" "\<And>p. vp_volumeAt p (vp_bins d1) = (\<Sum>x\<leftarrow>merged. vp_volumeAt p (vp_bins x))"
    using cp_merges_ok [OF p0(1), of merged] p0(2) by (simp_all add: d1_def)
  have "cp_composite (Some v) c = Some (c\<lparr>cp_vp := if vp_timeframe d1 = 0
      then d1\<lparr>vp_timeframe := (if cp_mergeCurrent c then vp_lastTimestamp v - vp_timestamp d1 else vp_timestamp (last (vp_history v)) - vp_timestamp d1)\<rparr>
      else d1\<rparr>)"
    using assms(1) k(1) unfolding d1 Let_def
    by (cases "vp_current v"; cases "cp_mergeCurrent c") (simp_all add: cp_composite_def Let_def size_def [symmetric] k_def [symmetric] d0_def del: of_int_diff)
  with m show ?thesis by (auto simp: poc_ok_def)
qed

theorem composite_sums_witness:
  "(let d = \<lambda>bins. (new_vp_data (\<lambda>_. []))\<lparr>vp_bins := bins\<rparr>;
        v = (new_volume_profile 60 10 1 70 False 1 False)\<lparr>vp_history := [d [(100, 1, 2)], d [(100, 1, 0), (101, 3, 3)]]\<rparr>
    in \<exists>c'. cp_composite (Some v) (new_composite (\<lambda>_. []) 60 2 False) = Some c' \<and> vp_volumeAt 100 (vp_bins (cp_vp c')) = 4)"
proof -
  let ?d = "\<lambda>bins. (new_vp_data (\<lambda>_. []))\<lparr>vp_bins := bins\<rparr>"
  let ?v = "(new_volume_profile 60 10 1 70 False 1 False)\<lparr>vp_history := [?d [(100, 1, 2)], ?d [(100, 1, 0), (101, 3, 3)]]\<rparr>"
  have h: "vp_history ?v = [?d [(100, 1, 2)], ?d [(100, 1, 0), (101, 3, 3)]]" "vp_current ?v = None"
    by (simp_all add: new_volume_profile_def)
  have c: "cp_length (new_composite (\<lambda>_. []) 60 2 False) = 2" "\<not> cp_mergeCurrent (new_composite (\<lambda>_. []) 60 2 False)" by (simp_all add: new_composite_def)
  show ?thesis
    using composite_sums [of ?v "new_composite (\<lambda>_. []) 60 2 False", OF _ _ _ _ refl, unfolded h c]
    by (simp add: Let_def bins_ok_def take_last_def) (auto simp: vp_volumeAt_def)
qed

end
