(* ===== verification/Bar_Imbalance.thy ===== *)
theory Bar_Imbalance
  imports Indicators
begin

text \<open>
  \<^verbatim>\<open>strategies/src/indicators/imbalance/barimbalance.cpp\<close>: the gaps between the bar before and the bar after another one, which later bars fill.
\<close>

record imbalance =
  im_barTimestamp :: dbl
  im_direction :: int
  im_lowPrice :: dbl
  im_highPrice :: dbl

record bar_imbalance =
  bi_depth :: int
  bi_minHeight :: dbl
  bi_imbalances :: "imbalance list"
  bi_found :: "imbalance list"
  bi_lastTimestamp :: dbl

definition new_bar_imbalance :: "int \<Rightarrow> dbl \<Rightarrow> bar_imbalance" where
  "new_bar_imbalance depth minHeight =
     \<lparr>bi_depth = depth, bi_minHeight = minHeight, bi_imbalances = [], bi_found = [], bi_lastTimestamp = 0\<rparr>"

text \<open>The gaps around one index, upward and downward.\<close>

definition bi_gaps :: "dbl \<Rightarrow> data_array \<Rightarrow> data_array \<Rightarrow> data_array \<Rightarrow> nat \<Rightarrow> imbalance list" where
  "bi_gaps minHeight timestamps high low k =
     (let prevHigh = high ! (k - 1); nextLow = low ! (k + 1); prevLow = low ! (k - 1); nextHigh = high ! (k + 1)
      in (if nextLow > prevHigh \<and> nextLow - prevHigh > minHeight
          then [\<lparr>im_barTimestamp = timestamps ! k, im_direction = 1, im_lowPrice = prevHigh, im_highPrice = nextLow\<rparr>] else [])
       @ (if nextHigh < prevLow \<and> prevLow - nextHigh > minHeight
          then [\<lparr>im_barTimestamp = timestamps ! k, im_direction = -1, im_lowPrice = prevLow, im_highPrice = nextHigh\<rparr>] else []))"

text \<open>The range of indexes of the last bars. The body of the loop over them reads the first index of the range every time.\<close>

definition bi_baseIdx :: "int \<Rightarrow> int \<Rightarrow> int \<Rightarrow> int" where
  "bi_baseIdx depth n numLastBars =
     (let baseIdx = max 1 (n - numLastBars - 1) in if n > depth then baseIdx + (n - depth) else baseIdx)"

definition bi_find :: "int \<Rightarrow> dbl \<Rightarrow> data_array \<Rightarrow> data_array \<Rightarrow> data_array \<Rightarrow> int \<Rightarrow> imbalance list" where
  "bi_find depth minHeight timestamps high low numLastBars =
     (if numLastBars > 1 then
        (let size = int (length timestamps); baseIdx = bi_baseIdx depth size numLastBars; endIdx = size - 2
         in concat (map (\<lambda>_. bi_gaps minHeight timestamps high low (nat baseIdx)) [baseIdx..endIdx - 1]))
      else [])"

text \<open>What the prices of a bar leave of an imbalance.\<close>

definition bi_reduce :: "dbl \<Rightarrow> dbl \<Rightarrow> imbalance \<Rightarrow> imbalance option" where
  "bi_reduce lowPrice highPrice im =
     (if lowPrice > im_lowPrice im \<and> highPrice < im_highPrice im then None
      else if lowPrice \<le> im_lowPrice im \<and> highPrice \<ge> im_highPrice im then None
      else if lowPrice \<le> im_lowPrice im \<and> highPrice > im_lowPrice im then
        (let im = im\<lparr>im_lowPrice := highPrice\<rparr> in if im_lowPrice im \<ge> im_highPrice im then None else Some im)
      else if highPrice \<ge> im_highPrice im \<and> lowPrice < im_highPrice im then
        (let im = im\<lparr>im_highPrice := lowPrice\<rparr> in if im_lowPrice im \<ge> im_highPrice im then None else Some im)
      else Some im)"

definition bi_updateImbalances :: "data_array \<Rightarrow> data_array \<Rightarrow> int \<Rightarrow> imbalance list \<Rightarrow> imbalance list" where
  "bi_updateImbalances high low numLastBars ims =
     (let i = nat (max 0 (int (length high) - numLastBars));
          highPrice = foldl max (high ! i) (drop (i + 1) high);
          lowPrice = foldl min (low ! i) (drop (i + 1) low)
      in List.map_filter (bi_reduce lowPrice highPrice) ims)"

definition bi_compute :: "dbl \<Rightarrow> data_array \<Rightarrow> data_array \<Rightarrow> data_array \<Rightarrow> int \<Rightarrow> bar_imbalance \<Rightarrow> bar_imbalance" where
  "bi_compute timestamp timestamps high low numLastBars b =
     (if numLastBars \<le> 0 then b
      else if length timestamps < 4 then b
      else
        let b = b\<lparr>bi_found := bi_find (bi_depth b) (bi_minHeight b) timestamps high low numLastBars\<rparr>;
            b = b\<lparr>bi_imbalances := bi_updateImbalances high low numLastBars (bi_imbalances b)\<rparr>
        in b\<lparr>bi_imbalances := bi_imbalances b @ bi_found b, bi_lastTimestamp := timestamp\<rparr>)"

section \<open>Properties\<close>

text \<open>
  A bar leaves of an upward imbalance exactly the prices it did not reach, and nothing when it fills it or lies inside of it; a downward one,
  whose bounds are the wrong way round, is dropped as soon as a bar touches it.
\<close>

theorem imbalance_reduce:
  assumes "lowPrice \<le> highPrice"
  shows "if im_lowPrice im < im_highPrice im then
      (case bi_reduce lowPrice highPrice im of
         None \<Rightarrow> im_lowPrice im < lowPrice \<and> highPrice < im_highPrice im \<or> lowPrice \<le> im_lowPrice im \<and> im_highPrice im \<le> highPrice
       | Some im' \<Rightarrow> {im_lowPrice im'<..<im_highPrice im'} = {im_lowPrice im<..<im_highPrice im} - {lowPrice..highPrice}
           \<and> im_lowPrice im' < im_highPrice im')
    else bi_reduce lowPrice highPrice im = (if lowPrice \<le> im_lowPrice im \<and> im_highPrice im \<le> highPrice then None else Some im)"
  using assms by (auto simp: bi_reduce_def Let_def)

theorem imbalance_reduce_witness:
  "{105<..<(110::dbl)} = {100<..<110} - {95..105}"
  using imbalance_reduce [of 95 105 "\<lparr>im_barTimestamp = 0, im_direction = 1, im_lowPrice = 100, im_highPrice = 110\<rparr>"]
  by (simp add: bi_reduce_def Let_def)

text \<open>
  With more bars than the depth no imbalance is ever found, unless more bars came at once than there are bars beyond the depth; and what is found
  is the gaps of one bar, as many times as bars were looked at.
\<close>

theorem imbalance_starved:
  assumes "1 < numLastBars" and "n = int (length timestamps)" and "k = bi_baseIdx depth n numLastBars"
  shows "bi_find depth minHeight timestamps high low numLastBars
      = concat (replicate (nat (n - 2 - k)) (bi_gaps minHeight timestamps high low (nat k)))
    \<and> (depth < n \<and> numLastBars + depth \<le> n + 1 \<longrightarrow> bi_find depth minHeight timestamps high low numLastBars = [])"
proof -
  have e: "bi_find depth minHeight timestamps high low numLastBars
      = concat (replicate (nat (n - 2 - k)) (bi_gaps minHeight timestamps high low (nat k)))"
    using assms(1) by (simp add: bi_find_def Let_def map_replicate_const assms(2,3))
  have "n - 2 \<le> k" if "depth < n" "numLastBars + depth \<le> n + 1" using that by (simp add: assms(3) bi_baseIdx_def Let_def)
  then show ?thesis unfolding e by simp
qed

theorem imbalance_starved_witness:
  "bi_find 3 0 [1, 2, 3, 4, 5] [10, 20, 30, 40, 50] [5, 15, 25, 35, 45] 2 = []"
  by (rule conjunct2 [OF imbalance_starved [of 2 _ "[1, 2, 3, 4, 5]", OF _ refl refl], THEN mp]) simp_all

end
