(* ===== verification/Data_Circular.thy ===== *)
theory Data_Circular
  imports Indicators
begin

text \<open>
  \<^verbatim>\<open>strategies/include/siis/datacircular.h\<close>: the circular array of doubles. A pointer into it is an index. The cumulative volume delta and
  the session analysers use it as the list of its values, \<open>dc_values\<close>, which the lemmas below justify.
\<close>

record data_circular =
  dc_data :: data_array
  dc_first :: nat
  dc_last :: nat
  dc_size :: nat

text \<open>The code asserts that there are at least two elements.\<close>

definition new_dc :: "(nat \<Rightarrow> data_array) \<Rightarrow> nat \<Rightarrow> data_circular" where
  "new_dc newArray n = \<lparr>dc_data = newArray n, dc_first = 0, dc_last = 0, dc_size = 0\<rparr>"

definition dc_full :: "data_circular \<Rightarrow> bool" where
  "dc_full d \<longleftrightarrow> dc_size d = length (dc_data d)"

definition dc_increment :: "data_circular \<Rightarrow> nat \<Rightarrow> nat" where
  "dc_increment d p = (if p + 1 = length (dc_data d) then 0 else p + 1)"

definition dc_clear :: "data_circular \<Rightarrow> data_circular" where
  "dc_clear d = d\<lparr>dc_first := 0, dc_last := 0, dc_size := 0, dc_data := (dc_data d)[0 := 0]\<rparr>"

definition dc_setSize :: "(nat \<Rightarrow> data_array) \<Rightarrow> nat \<Rightarrow> data_circular \<Rightarrow> data_circular" where
  "dc_setSize newArray newSize d = (if newSize \<noteq> length (dc_data d) then new_dc newArray newSize else d)"

definition dc_append :: "dbl \<Rightarrow> data_circular \<Rightarrow> data_circular" where
  "dc_append v d =
     (let (res, d) =
        (if dc_full d then
           (let l = dc_increment d (dc_last d) in (dc_last d, d\<lparr>dc_last := l, dc_first := l\<rparr>))
         else (dc_last d, d\<lparr>dc_last := dc_increment d (dc_last d), dc_size := dc_size d + 1\<rparr>))
      in d\<lparr>dc_data := (dc_data d)[res := v]\<rparr>)"

text \<open>The place of \<^verbatim>\<open>back\<close>, which has none in an empty array, and \<^verbatim>\<open>asArray\<close>, in one or two copies.\<close>

definition dc_back_at :: "data_circular \<Rightarrow> nat option" where
  "dc_back_at d =
     (if dc_last d > dc_first d then Some (dc_last d - 1)
      else if dc_last d > 0 then Some (dc_last d - 1)
      else if dc_size d = 0 then None
      else Some (dc_size d - 1))"

definition dc_back :: "data_circular \<Rightarrow> dbl option" where
  "dc_back d = map_option (\<lambda>i. dc_data d ! i) (dc_back_at d)"

definition dc_set_back :: "dbl \<Rightarrow> data_circular \<Rightarrow> data_circular option" where
  "dc_set_back v d = map_option (\<lambda>i. d\<lparr>dc_data := (dc_data d)[i := v]\<rparr>) (dc_back_at d)"

definition dc_asArray :: "data_circular \<Rightarrow> data_array" where
  "dc_asArray d =
     (if dc_last d > dc_first d then take (dc_size d) (drop (dc_first d) (dc_data d))
      else if dc_last d > 0 then
        (let ofs = length (dc_data d) - dc_first d
         in take ofs (drop (dc_first d) (dc_data d)) @ take (dc_size d - ofs) (dc_data d))
      else take (dc_size d) (dc_data d))"

definition dc_front :: "data_circular \<Rightarrow> dbl" where
  "dc_front d = dc_data d ! dc_first d"

section \<open>The list of its values\<close>

definition dc_ok :: "data_circular \<Rightarrow> bool" where
  "dc_ok d \<longleftrightarrow> dc_first d < length (dc_data d) \<and> dc_size d \<le> length (dc_data d)
     \<and> (if dc_full d then dc_last d = dc_first d else dc_first d = 0 \<and> dc_last d = dc_size d)"

definition dc_values :: "data_circular \<Rightarrow> dbl list" where
  "dc_values d = (if dc_full d then drop (dc_first d) (dc_data d) @ take (dc_first d) (dc_data d) else take (dc_size d) (dc_data d))"

lemma dc_ok_new: "length (newArray n) = n \<Longrightarrow> 0 < n \<Longrightarrow> dc_ok (new_dc newArray n) \<and> dc_values (new_dc newArray n) = []"
  by (simp add: dc_ok_def new_dc_def dc_full_def dc_values_def)

lemma dc_asArray_values: "dc_ok d \<Longrightarrow> dc_asArray d = dc_values d"
  by (auto simp: dc_ok_def dc_asArray_def dc_values_def dc_full_def Let_def)

lemma length_dc_values: "dc_ok d \<Longrightarrow> length (dc_values d) = dc_size d"
  by (auto simp: dc_ok_def dc_values_def dc_full_def)

lemma dc_append_ok:
  assumes "dc_ok d"
  shows "dc_ok (dc_append v d) \<and> length (dc_data (dc_append v d)) = length (dc_data d)
    \<and> dc_values (dc_append v d) = take_last (length (dc_data d)) (dc_values d @ [v])"
proof (cases "dc_full d")
  case True
  let ?n = "length (dc_data d)" and ?f = "dc_first d"
  have f: "?f < ?n" "dc_last d = ?f" "dc_size d = ?n" using assms True by (auto simp: dc_ok_def dc_full_def)
  define g where "g = dc_increment d ?f"
  have a: "dc_append v d = d\<lparr>dc_last := g, dc_first := g, dc_data := (dc_data d)[?f := v]\<rparr>"
    using True f by (simp add: dc_append_def Let_def g_def)
  have g: "g < ?n" using f by (auto simp: g_def dc_increment_def)
  have "drop g ((dc_data d)[?f := v]) @ take g ((dc_data d)[?f := v]) = drop (?f + 1) (dc_data d) @ take ?f (dc_data d) @ [v]"
  proof (cases "?f + 1 = ?n")
    case True
    then show ?thesis by (simp add: g_def dc_increment_def take_Suc_conv_app_nth [symmetric] upd_conv_take_nth_drop)
  next
    case False
    then have "g = ?f + 1" by (simp add: g_def dc_increment_def)
    moreover have "take (?f + 1) ((dc_data d)[?f := v]) = take ?f (dc_data d) @ [v]"
      using f(1) by (simp add: take_Suc_conv_app_nth)
    ultimately show ?thesis by simp
  qed
  moreover have "take_last ?n ((drop ?f (dc_data d) @ take ?f (dc_data d)) @ [v]) = drop (?f + 1) (dc_data d) @ take ?f (dc_data d) @ [v]"
    using f(1) by (simp add: take_last_def)
  ultimately show ?thesis using True f g by (auto simp: a dc_ok_def dc_full_def dc_values_def)
next
  case False
  let ?n = "length (dc_data d)" and ?s = "dc_size d"
  have f: "?s < ?n" "dc_first d = 0" "dc_last d = ?s" using assms False by (auto simp: dc_ok_def dc_full_def)
  have a: "dc_append v d = d\<lparr>dc_last := dc_increment d ?s, dc_size := ?s + 1, dc_data := (dc_data d)[?s := v]\<rparr>"
    using False f by (simp add: dc_append_def Let_def)
  have "take (?s + 1) ((dc_data d)[?s := v]) = take ?s (dc_data d) @ [v]" using f(1) by (simp add: take_Suc_conv_app_nth)
  moreover have "take (?s + 1) ((dc_data d)[?s := v]) = (dc_data d)[?s := v]" if "?s + 1 = ?n" using that by simp
  ultimately show ?thesis using False f by (auto simp: a dc_ok_def dc_full_def dc_values_def dc_increment_def)
qed

lemma dc_back_ok:
  assumes "dc_ok d" and "0 < dc_size d"
  shows "dc_back d = Some (last (dc_values d))"
    and "\<exists>d'. dc_set_back v d = Some d' \<and> dc_ok d' \<and> dc_values d' = set_last v (dc_values d)"
proof -
  let ?n = "length (dc_data d)"
  have v: "dc_values d \<noteq> []" using length_dc_values [OF assms(1)] assms(2) by auto
  define k where "k = (if dc_last d > 0 then dc_last d - 1 else dc_size d - 1)"
  have b: "dc_back_at d = Some k" using assms(2) by (auto simp: dc_back_at_def k_def)
  have o: "dc_first d < ?n" "dc_size d \<le> ?n" "dc_full d \<Longrightarrow> dc_last d = dc_first d" "\<not> dc_full d \<Longrightarrow> dc_first d = 0 \<and> dc_last d = dc_size d"
    using assms(1) by (auto simp: dc_ok_def split: if_splits)
  have s: "dc_full d \<Longrightarrow> dc_size d = ?n" by (simp add: dc_full_def)
  have l: "dc_size d - 1 < length (dc_values d)" "length (dc_values d) = dc_size d" using assms length_dc_values [OF assms(1)] by auto
  have at: "dc_values (d\<lparr>dc_data := xs\<rparr>) ! (dc_size d - 1) = xs ! k" if "length xs = ?n" for xs
    using that o s assms(2) by (cases "dc_full d"; cases "dc_last d = 0") (auto simp: dc_values_def dc_full_def k_def nth_append)
  have d: "d\<lparr>dc_data := dc_data d\<rparr> = d" by simp
  show "dc_back d = Some (last (dc_values d))"
    using at [of "dc_data d"] v l by (simp add: dc_back_def b last_conv_nth)
  have "dc_values (d\<lparr>dc_data := (dc_data d)[k := v]\<rparr>) = (dc_values d)[dc_size d - 1 := v]"
    using o s assms(2)
    by (cases "dc_full d"; cases "dc_last d = 0")
      (auto simp: dc_values_def dc_full_def k_def list_update_append drop_update_swap take_update_swap)
  moreover have "dc_ok (d\<lparr>dc_data := (dc_data d)[k := v]\<rparr>)" using assms(1) by (simp add: dc_ok_def dc_full_def)
  ultimately show "\<exists>d'. dc_set_back v d = Some d' \<and> dc_ok d' \<and> dc_values d' = set_last v (dc_values d)"
    using l by (simp add: dc_set_back_def b set_last_def)
qed

text \<open>
  After any values were appended to a new circular array its copy holds the last of them, oldest first, as many as it has room for, and
  its back is the newest.
\<close>

theorem dc_keeps_last:
  assumes "length (newArray n) = n" and "0 < n"
  shows "(let d = fold dc_append xs (new_dc newArray n)
    in dc_asArray d = take_last n xs \<and> dc_back d = (if xs = [] then None else Some (last xs)))"
proof -
  have "dc_ok (fold dc_append xs (new_dc newArray n)) \<and> length (dc_data (fold dc_append xs (new_dc newArray n))) = n
      \<and> dc_values (fold dc_append xs (new_dc newArray n)) = take_last n xs"
  proof (induction xs rule: rev_induct)
    case Nil
    then show ?case using dc_ok_new [of newArray n] assms by (simp add: new_dc_def)
  next
    case (snoc x xs)
    then show ?case using dc_append_ok [of "fold dc_append xs (new_dc newArray n)" x] take_last_snoc_take_last [OF assms(2), of xs x] by simp
  qed
  then have d: "dc_ok (fold dc_append xs (new_dc newArray n))" "dc_values (fold dc_append xs (new_dc newArray n)) = take_last n xs"
    by blast+
  have "dc_back (fold dc_append xs (new_dc newArray n)) = (if xs = [] then None else Some (last xs))"
  proof (cases "xs = []")
    case False
    then have "take_last n xs \<noteq> []" "last (take_last n xs) = last xs" using assms(2) by (simp_all add: last_take_last)
    moreover have "0 < dc_size (fold dc_append xs (new_dc newArray n))"
      using calculation(1) length_dc_values [OF d(1)] d(2) by (metis length_greater_0_conv)
    ultimately show ?thesis using dc_back_ok(1) [OF d(1)] d(2) False by simp
  qed (simp add: new_dc_def dc_back_def dc_back_at_def)
  then show ?thesis using dc_asArray_values [OF d(1)] d(2) by (simp add: Let_def)
qed

theorem dc_keeps_last_witness:
  "dc_asArray (fold dc_append [1, 2, 3] (new_dc (\<lambda>n. replicate n 0) 2)) = [2, 3]"
  using dc_keeps_last [of "\<lambda>n. replicate n 0" 2 "[1, 2, 3]"] by (simp add: Let_def take_last_def)

end
