(* ===== verification/Maadx_Analysers.thy ===== *)
theory Maadx_Analysers
  imports Analyser Composite_Profile Bar_Imbalance Data_Circular Ta_Indicators
begin

text \<open>
  The analysers of the plugin \<^verbatim>\<open>strategies/src/strategies/maadx/\<close>: trend (\<^verbatim>\<open>maadxtrendanalyser.cpp\<close>), signal (\<^verbatim>\<open>maadxsiganalyser.cpp\<close>),
  confirmation (\<^verbatim>\<open>maadxconfanalyser.cpp\<close>), session (\<^verbatim>\<open>maadxsessionanalyser.cpp\<close>) and profile (\<^verbatim>\<open>maadxprofileanalyser.cpp\<close>). The averages
  that are configured and never computed are left out.
\<close>

text \<open>Analysers that update at the close of a bar compute only then.\<close>

definition computes :: "'a tf_analyser_scheme \<Rightarrow> bool" where
  "computes a \<longleftrightarrow> (if an_updateAtClose a then pr_consolidated (an_price a) else True)"

section \<open>Trend\<close>

record tr_analyser = tf_analyser +
  tr_slow_h :: hma
  tr_slow_l :: hma
  tr_vwapActive :: bool
  tr_vwap :: vwap
  tr_trend :: int
  tr_cross :: int
  tr_sig :: int
  tr_vwapTrend :: int

text \<open>The language compares the truth value of the first comparison, zero or one, with the third mean.\<close>

definition vwap_trend :: "data_array \<Rightarrow> int" where
  "vwap_trend v =
     (let a = v ! (length v - 3); b = v ! (length v - 2); c = v ! (length v - 1)
      in if of_bool (a < b) < c then 1 else if of_bool (a > b) > c then -1 else 0)"

definition tr_averages :: "(dbl \<Rightarrow> dbl) \<Rightarrow> 'a tr_analyser_scheme \<Rightarrow> 'a tr_analyser_scheme" where
  "tr_averages rt a =
     a\<lparr>tr_slow_h := hm_computed rt (pr_high (an_price a)) (tr_slow_h a), tr_slow_l := hm_computed rt (pr_low (an_price a)) (tr_slow_l a)\<rparr>"

definition tr_lookVwap :: "'a tr_analyser_scheme \<Rightarrow> 'a tr_analyser_scheme" where
  "tr_lookVwap a =
     (if tr_vwapActive a then
        (case vw_current (tr_vwap a) of
           None \<Rightarrow> a
         | Some d \<Rightarrow> if length (vd_vwap d) > 3 then a\<lparr>tr_vwapTrend := vwap_trend (vd_vwap d)\<rparr> else a)
      else a)"

text \<open>The signal is that of the crossing at the computation before.\<close>

definition tr_lookSig :: "'a tr_analyser_scheme \<Rightarrow> 'a tr_analyser_scheme" where
  "tr_lookSig a =
     (let open_price = da_last (pr_open (an_price a))
      in if above_nan open_price (hm_last (tr_slow_h a)) \<and> tr_cross a > 0 then a\<lparr>tr_sig := 1\<rparr>
         else if below_nan open_price (hm_last (tr_slow_l a)) \<and> tr_cross a < 0 then a\<lparr>tr_sig := -1\<rparr>
         else a)"

definition tr_lookCross :: "int \<Rightarrow> int \<Rightarrow> 'a tr_analyser_scheme \<Rightarrow> 'a tr_analyser_scheme" where
  "tr_lookCross hc lc a =
     (let a = a\<lparr>tr_cross := 0\<rparr>
      in if hc > 0 then a\<lparr>tr_trend := 1, tr_cross := 1\<rparr>
         else if lc < 0 then a\<lparr>tr_trend := -1, tr_cross := -1\<rparr>
         else if lc > 0 \<or> hc < 0 then a\<lparr>tr_trend := 0\<rparr>
         else a)"

definition tr_compute :: "(dbl \<Rightarrow> dbl) \<Rightarrow> dbl \<Rightarrow> dbl \<Rightarrow> 'a tr_analyser_scheme \<Rightarrow> 'a tr_analyser_scheme" where
  "tr_compute rt timestamp lastTimestamp a =
     (let a = a\<lparr>tr_sig := 0\<rparr>
      in if computes a then
           (let a = tr_averages rt a;
                hc = nan_cross (pr_close (an_price a)) (hm_hma (tr_slow_h a));
                lc = nan_cross (pr_close (an_price a)) (hm_hma (tr_slow_l a))
            in tr_lookCross hc lc (tr_lookSig (tr_lookVwap a)))
         else a)"

definition tr_updateTick :: "date_lib \<Rightarrow> (nat \<Rightarrow> data_array) \<Rightarrow> (dbl \<Rightarrow> dbl) \<Rightarrow> dbl \<Rightarrow> tick \<Rightarrow> bool \<Rightarrow> ohlc_ring \<Rightarrow> 'a tr_analyser_scheme
    \<Rightarrow> 'a tr_analyser_scheme" where
  "tr_updateTick dl newArray rt undef tick fin r a =
     (if tr_vwapActive a then
        (case vw_update dl newArray rt undef tick fin (tr_vwap a) of None \<Rightarrow> a | Some v \<Rightarrow> a\<lparr>tr_vwap := v\<rparr>)
      else a)"

section \<open>Signal\<close>

record si_analyser = tf_analyser +
  si_fast_h :: hma
  si_fast_l :: hma
  si_adx :: adx
  si_wma :: wma
  si_trend :: int
  si_sig :: int
  si_sig2 :: int
  si_cvdTrend :: int
  si_cvdCross :: int
  si_confirmation :: int

definition si_averages :: "(dbl \<Rightarrow> dbl) \<Rightarrow> ta_lib \<Rightarrow> 'a si_analyser_scheme \<Rightarrow> 'a si_analyser_scheme" where
  "si_averages rt ta a =
     (let p = an_price a
      in a\<lparr>si_fast_h := hm_computed rt (pr_high p) (si_fast_h a), si_fast_l := hm_computed rt (pr_low p) (si_fast_l a),
           si_adx := ax_compute ta (pr_high p) (pr_low p) (pr_close p) (si_adx a), si_wma := wm_computed (pr_close p) (si_wma a)\<rparr>)"

definition si_lookCross :: "int \<Rightarrow> int \<Rightarrow> 'a si_analyser_scheme \<Rightarrow> 'a si_analyser_scheme" where
  "si_lookCross hc lc a =
     (if hc > 0 then a\<lparr>si_trend := 1, si_sig := 1\<rparr>
      else if lc < 0 then a\<lparr>si_trend := -1, si_sig := -1\<rparr>
      else if lc > 0 \<or> hc < 0 then a\<lparr>si_trend := 0\<rparr> else a)"

definition si_lookCross2 :: "int \<Rightarrow> int \<Rightarrow> 'a si_analyser_scheme \<Rightarrow> 'a si_analyser_scheme" where
  "si_lookCross2 hc2 lc2 a = (if hc2 > 0 then a\<lparr>si_sig2 := 1\<rparr> else if lc2 < 0 then a\<lparr>si_sig2 := -1\<rparr> else a)"

text \<open>The crossings of the second signal, \<^verbatim>\<open>hc2\<close> and \<^verbatim>\<open>lc2\<close>, are never computed.\<close>

definition si_compute :: "(dbl \<Rightarrow> dbl) \<Rightarrow> ta_lib \<Rightarrow> dbl \<Rightarrow> dbl \<Rightarrow> 'a si_analyser_scheme \<Rightarrow> 'a si_analyser_scheme" where
  "si_compute rt ta timestamp lastTimestamp a =
     (let hc2 = 0; lc2 = 0;
          a = a\<lparr>si_confirmation := close_move (an_price a), si_cvdCross := 0, si_sig := 0, si_sig2 := 0\<rparr>
      in if computes a then
           (let a = si_averages rt ta a;
                hc = nan_cross (pr_close (an_price a)) (hm_hma (si_fast_h a));
                lc = nan_cross (pr_close (an_price a)) (hm_hma (si_fast_l a))
            in si_lookCross2 hc2 lc2 (si_lookCross hc lc a))
         else a)"

text \<open>Arithmetic on values of which one is not a number is zero here.\<close>

definition ma_height :: "'a si_analyser_scheme \<Rightarrow> dbl" where
  "ma_height a = (case (hm_last (si_fast_h a), hm_last (si_fast_l a)) of (Some h, Some l) \<Rightarrow> h - l | _ \<Rightarrow> 0)"

definition si_takeProfit :: "dbl \<Rightarrow> 'a si_analyser_scheme \<Rightarrow> dbl" where
  "si_takeProfit profitScale a =
     (if si_trend a > 0 then an_lastPrice a + profitScale * ma_height a
      else if si_trend a < 0 then an_lastPrice a - profitScale * ma_height a
      else 0)"

definition si_stopLoss :: "dbl \<Rightarrow> dbl \<Rightarrow> 'a si_analyser_scheme \<Rightarrow> dbl" where
  "si_stopLoss lossScale riskReward a =
     (if si_trend a > 0 then an_lastPrice a - riskReward * lossScale * ma_height a
      else if si_trend a < 0 then an_lastPrice a + riskReward * lossScale * ma_height a
      else 0)"

section \<open>Confirmation, session and profile\<close>

record mc_analyser = tf_analyser +
  mc_confirmation :: int

definition mc_compute :: "dbl \<Rightarrow> dbl \<Rightarrow> 'a mc_analyser_scheme \<Rightarrow> 'a mc_analyser_scheme" where
  "mc_compute timestamp lastTimestamp a =
     (let a = a\<lparr>mc_confirmation := 0\<rparr>; close = pr_close (an_price a)
      in if computes a then
           (if da_last close > da_prev close then a\<lparr>mc_confirmation := 1\<rparr>
            else if da_last close < da_prev close then a\<lparr>mc_confirmation := -1\<rparr> else a)
         else a)"

record ms_analyser = tf_analyser +
  ms_vp :: volume_profile
  ms_bollingerActive :: bool
  ms_bollinger :: bollinger
  ms_composite :: composite
  ms_vPocBreakout :: int
  ms_vPocTrend :: int
  ms_vPocs :: data_circular

text \<open>A composite that cannot be made stays as it is here.\<close>

definition ms_compose :: "'a ms_analyser_scheme \<Rightarrow> 'a ms_analyser_scheme" where
  "ms_compose a =
     (if vp_history (ms_vp a) \<noteq> [] then
        (let c = (case cp_composite (Some (ms_vp a)) (ms_composite a) of None \<Rightarrow> ms_composite a | Some c \<Rightarrow> c)
         in a\<lparr>ms_composite := c, ms_vPocs := dc_append (vp_pocPrice (cp_vp c)) (ms_vPocs a)\<rparr>)
      else a)"

definition ms_bands :: "ta_lib \<Rightarrow> 'a ms_analyser_scheme \<Rightarrow> 'a ms_analyser_scheme" where
  "ms_bands ta a =
     (let vPocs = dc_asArray (ms_vPocs a);
          b = bl_compute ta vPocs (ms_bollinger a)
      in a\<lparr>ms_bollinger := b,
           ms_vPocBreakout := (if da_cross vPocs (bl_upper b) > 0 then 1 else if da_cross vPocs (bl_lower b) < 0 then -1
                               else ms_vPocBreakout a),
           ms_vPocTrend := (if da_last vPocs > da_last (bl_upper b) then 1 else if da_last vPocs < da_last (bl_lower b) then -1 else 0)\<rparr>)"

definition ms_compute :: "ta_lib \<Rightarrow> dbl \<Rightarrow> dbl \<Rightarrow> 'a ms_analyser_scheme \<Rightarrow> 'a ms_analyser_scheme" where
  "ms_compute ta timestamp lastTimestamp a =
     (let a = a\<lparr>ms_vPocBreakout := 0\<rparr>
      in if computes a then
           (let a = ms_compose a in if dc_size (ms_vPocs a) > 2 \<and> ms_bollingerActive a then ms_bands ta a else a)
         else a)"

definition ms_updateTick :: "date_lib \<Rightarrow> (nat \<Rightarrow> data_array) \<Rightarrow> tick \<Rightarrow> bool \<Rightarrow> ohlc_ring \<Rightarrow> 'a ms_analyser_scheme \<Rightarrow> 'a ms_analyser_scheme" where
  "ms_updateTick dl newArray tick fin r a = a\<lparr>ms_vp := vp_update dl newArray tick fin (ms_vp a)\<rparr>"

record mp_analyser = tf_analyser +
  mp_active :: bool
  mp_imbalance :: bar_imbalance

definition mp_compute :: "dbl \<Rightarrow> dbl \<Rightarrow> 'a mp_analyser_scheme \<Rightarrow> 'a mp_analyser_scheme" where
  "mp_compute timestamp lastTimestamp a =
     (if computes a \<and> mp_active a then
        a\<lparr>mp_imbalance := bi_compute timestamp (pr_timestamp (an_price a)) (pr_high (an_price a)) (pr_low (an_price a)) (int (an_numLastBars a))
            (mp_imbalance a)\<rparr>
      else a)"

section \<open>The hooks\<close>

lemma maadx_parts [simp]:
  "tf_analyser.truncate (tr_averages rt tr) = tf_analyser.truncate tr" "tf_analyser.truncate (tr_lookVwap tr) = tf_analyser.truncate tr"
  "tf_analyser.truncate (tr_lookSig tr) = tf_analyser.truncate tr" "tf_analyser.truncate (tr_lookCross hc lc tr) = tf_analyser.truncate tr"
  "tf_analyser.truncate (si_averages rt ta si) = tf_analyser.truncate si" "tf_analyser.truncate (si_lookCross hc lc si) = tf_analyser.truncate si"
  "tf_analyser.truncate (si_lookCross2 hc lc si) = tf_analyser.truncate si"
  "tf_analyser.truncate (ms_compose ms) = tf_analyser.truncate ms" "tf_analyser.truncate (ms_bands ta ms) = tf_analyser.truncate ms"
  by (simp_all add: tf_analyser.truncate_def tr_averages_def tr_lookVwap_def tr_lookSig_def tr_lookCross_def si_averages_def si_lookCross_def
    si_lookCross2_def ms_compose_def ms_bands_def Let_def split: option.split)

lemma maadx_base [simp]:
  "tf_analyser.truncate (tr_compute rt ts now tr) = tf_analyser.truncate tr"
  "tf_analyser.truncate (si_compute rt ta ts now si) = tf_analyser.truncate si"
  "tf_analyser.truncate (ms_compute ta ts now ms) = tf_analyser.truncate ms"
  by (simp_all add: tr_compute_def si_compute_def ms_compute_def Let_def) (simp_all add: tf_analyser.truncate_def)

lemma maadx_hooks [simp]:
  "tf_analyser.truncate (tr_updateTick dl newArray rt undef t fin r tr) = tf_analyser.truncate tr"
  "tf_analyser.truncate (mc_compute ts now mc) = tf_analyser.truncate mc"
  "tf_analyser.truncate (ms_updateTick dl newArray t fin r ms) = tf_analyser.truncate ms"
  "tf_analyser.truncate (mp_compute ts now mp) = tf_analyser.truncate mp"
  by (simp_all add: tf_analyser.truncate_def tr_updateTick_def mc_compute_def ms_updateTick_def mp_compute_def Let_def split: option.split)

interpretation tr: analyser_hooks "tr_updateTick dl newArray rt undef" "tr_compute rt" for dl newArray rt undef
  by unfold_locales simp_all

interpretation si: analyser_hooks no_updateTick "si_compute rt ta" for rt ta
  by unfold_locales (simp_all add: no_updateTick_def)

interpretation mc: analyser_hooks no_updateTick mc_compute
  by unfold_locales (simp_all add: no_updateTick_def)

interpretation ms: analyser_hooks "ms_updateTick dl newArray" "ms_compute ta" for dl newArray ta
  by unfold_locales simp_all

interpretation mp: analyser_hooks no_updateTick mp_compute
  by unfold_locales (simp_all add: no_updateTick_def)

end
