(* ===== verification/Maadx.thy ===== *)
theory Maadx
  imports Strategy_Engine Maadx_Analysers
begin

text \<open>
  The plugin \<^verbatim>\<open>strategies/src/strategies/maadx/maadx.cpp\<close>: it means to enter when the price leaves the channel of two moving averages
  with a strong directional index. There is at most one analyser of each kind; those of the trend and the signal are dereferenced without a test.
\<close>

section \<open>State\<close>

record maadx = engine +
  ma_profile :: "mp_analyser option"
  ma_session :: "ms_analyser option"
  ma_trend :: tr_analyser
  ma_sig :: si_analyser
  ma_conf :: "mc_analyser option"
  ma_adxSig :: dbl
  ma_targetScale :: dbl
  ma_riskReward :: dbl

definition maadx_ADX_MAX :: dbl where "maadx_ADX_MAX = 75"

section \<open>The analysers\<close>

definition ma_prepare :: "dbl \<Rightarrow> maadx \<Rightarrow> maadx" where
  "ma_prepare timestamp e = e"

definition ma_analysers :: "(dbl \<Rightarrow> dbl) \<Rightarrow> ta_lib \<Rightarrow> dbl \<Rightarrow> dbl \<Rightarrow> maadx \<Rightarrow> maadx" where
  "ma_analysers rt ta timestamp lastTimestamp e =
     e\<lparr>ma_profile := map_option (processed mp_compute timestamp) (ma_profile e),
       ma_session := map_option (processed (ms_compute ta) timestamp) (ma_session e),
       ma_trend := processed (tr_compute rt) timestamp (ma_trend e),
       ma_sig := processed (si_compute rt ta) timestamp (ma_sig e),
       ma_conf := map_option (processed mc_compute timestamp) (ma_conf e)\<rparr>"

definition ma_onTickUpdate :: "date_lib \<Rightarrow> (nat \<Rightarrow> data_array) \<Rightarrow> (dbl \<Rightarrow> dbl) \<Rightarrow> dbl \<Rightarrow> tick list \<Rightarrow> maadx \<Rightarrow> maadx" where
  "ma_onTickUpdate dl newArray rt undef ticks e =
     (if sg_baseTimeframe (eg_strategy e) = TF_TICK then
        e\<lparr>ma_profile := map_option (an_onTickUpdate dl no_updateTick ticks) (ma_profile e),
          ma_session := map_option (an_onTickUpdate dl (ms_updateTick dl newArray) ticks) (ma_session e),
          ma_trend := an_onTickUpdate dl (tr_updateTick dl newArray rt undef) ticks (ma_trend e),
          ma_sig := an_onTickUpdate dl no_updateTick ticks (ma_sig e),
          ma_conf := map_option (an_onTickUpdate dl no_updateTick ticks) (ma_conf e)\<rparr>
      else e)"

definition ma_onOhlcUpdate :: "dbl \<Rightarrow> ohlc_type \<Rightarrow> ohlc list \<Rightarrow> maadx \<Rightarrow> maadx" where
  "ma_onOhlcUpdate timeframe ohlcType bars e =
     (if sg_baseTimeframe (eg_strategy e) = timeframe then
        let tf = ohlc_type_number ohlcType
        in e\<lparr>ma_profile := map_option (an_onOhlcUpdate tf bars) (ma_profile e),
             ma_session := map_option (an_onOhlcUpdate tf bars) (ma_session e),
             ma_trend := an_onOhlcUpdate tf bars (ma_trend e),
             ma_sig := an_onOhlcUpdate tf bars (ma_sig e),
             ma_conf := map_option (an_onOhlcUpdate tf bars) (ma_conf e)\<rparr>
      else e)"

definition ma_data :: "date_lib \<Rightarrow> (nat \<Rightarrow> data_array) \<Rightarrow> (dbl \<Rightarrow> dbl) \<Rightarrow> dbl \<Rightarrow> market_data \<Rightarrow> maadx \<Rightarrow> maadx" where
  "ma_data dl newArray rt undef md e =
     (case md of
        Md_ticks ticks \<Rightarrow> ma_onTickUpdate dl newArray rt undef ticks e
      | Md_bars timeframe ohlcType bars \<Rightarrow> ma_onOhlcUpdate timeframe ohlcType bars e)"

section \<open>The signal\<close>

text \<open>
  Only the first of the conditions in \<^verbatim>\<open>checkTrend\<close> is not a comment; the counts of volume profiles it is given are not used and left out.
\<close>

definition ma_checkTrend :: "int \<Rightarrow> maadx \<Rightarrow> bool" where
  "ma_checkTrend direction e \<longleftrightarrow> si_sig2 (ma_sig e) = direction"

text \<open>The channels of the two analysers overlap.\<close>

definition within_nan :: "dbl option \<Rightarrow> dbl option \<Rightarrow> dbl option \<Rightarrow> bool" where
  "within_nan x lo hi = (case (x, lo, hi) of (Some x, Some lo, Some hi) \<Rightarrow> x \<ge> lo \<and> x \<le> hi | _ \<Rightarrow> False)"

definition ma_filterMa :: "maadx \<Rightarrow> bool" where
  "ma_filterMa e =
     (let sh = hm_last (si_fast_h (ma_sig e)); sl = hm_last (si_fast_l (ma_sig e));
          th = hm_last (tr_slow_h (ma_trend e)); tl = hm_last (tr_slow_l (ma_trend e))
      in if within_nan sh tl th then True
         else if within_nan sl tl th then True
         else if within_nan th sl sh then True
         else if within_nan tl sl sh then True
         else False)"

definition ma_fill :: "int \<Rightarrow> market \<Rightarrow> maadx \<Rightarrow> trade_signal \<Rightarrow> trade_signal" where
  "ma_fill direction m e s =
     (let s = s\<lparr>sn_type := SN_ENTRY, sn_direction := direction\<rparr>;
          s = en_updateSignal (eg_entry e) m s;
          s = (if ee_adjustPolicy (eg_takeProfit e) = ADJ_CUSTOM
               then s\<lparr>sn_takeProfitPrice := si_takeProfit (ma_targetScale e) (ma_sig e)\<rparr>
               else tp_updateSignal (eg_takeProfit e) s)
      in if ee_adjustPolicy (eg_stopLoss e) = ADJ_CUSTOM
         then s\<lparr>sn_stopLossPrice := si_stopLoss (ma_targetScale e) (ma_riskReward e) (ma_sig e)\<rparr>
         else sl_updateSignal (eg_stopLoss e) s)"

definition ma_entry :: "int \<Rightarrow> dbl \<Rightarrow> market \<Rightarrow> maadx \<Rightarrow> trade_signal \<Rightarrow> trade_signal" where
  "ma_entry direction timestamp m e s =
     (if ax_last (si_adx (ma_sig e)) > ma_adxSig e \<and> ax_last (si_adx (ma_sig e)) \<le> maadx_ADX_MAX then
        (if 0 < direction * si_trend (ma_sig e) then
           (if sn_timestamp (eg_lastSignal e) + sn_timeframe (eg_lastSignal e) < timestamp then ma_fill direction m e s else s)
         else s)
      else s)"

definition ma_computeSignal :: "dbl \<Rightarrow> market \<Rightarrow> maadx \<Rightarrow> trade_signal \<times> maadx" where
  "ma_computeSignal timestamp m e =
     (let s = new_signal (an_timeframe (ma_sig e)) timestamp;
          s = (if ma_checkTrend 1 e \<and> \<not> ma_filterMa e then ma_entry LONG timestamp m e s
               else if ma_checkTrend (-1) e \<and> \<not> ma_filterMa e then ma_entry SHORT timestamp m e s
               else s)
      in if sn_valid s
         then (check_signal m e ((sl_updateSignal (eg_stopLoss e) s)\<lparr>sn_entryTimeout := en_timeout (eg_entry e)\<rparr>), e)
         else (s, e))"

definition ma_code :: "date_lib \<Rightarrow> (nat \<Rightarrow> data_array) \<Rightarrow> (dbl \<Rightarrow> dbl) \<Rightarrow> dbl \<Rightarrow> ta_lib \<Rightarrow> ('w, maadx) plugin_code" where
  "ma_code dl newArray rt undef ta = eg_standard (ma_data dl newArray rt undef) ma_prepare (ma_analysers rt ta) ma_computeSignal"

lemma ma_core [simp]:
  "eg_core (ma_prepare ts e) = eg_core e" "eg_core (ma_analysers rt ta ts now e) = eg_core e"
  "eg_core (ma_data dl newArray rt undef md e) = eg_core e" "snd (ma_computeSignal ts m e) = e"
  by (simp_all add: eg_core_def ma_prepare_def ma_analysers_def ma_data_def ma_onTickUpdate_def ma_onOhlcUpdate_def ma_computeSignal_def Let_def
    split: market_data.split)

interpretation ma: plugin "ma_code dl newArray rt undef ta" for dl newArray rt undef ta
  unfolding ma_code_def by (rule standard_plugin) simp_all

section \<open>It never trades\<close>

lemma sig2_parts [simp]:
  "si_sig2 (si_averages rt ta a) = si_sig2 a" "si_sig2 (si_lookCross hc lc a) = si_sig2 a"
  by (simp_all add: si_averages_def si_lookCross_def Let_def)

lemma sig2_compute [simp]: "si_sig2 (si_compute rt ta ts now a) = 0"
  by (simp add: si_compute_def Let_def si_lookCross2_def)

lemma sig2_processed: "si_sig2 a = 0 \<Longrightarrow> si_sig2 (processed (si_compute rt ta) ts a) = 0"
  by (auto simp: processed_def an_process_def Let_def split: option.split prod.split)

lemma loop_sig2: "gen_loop_analyser step no_updateTick ts g r (a :: si_analyser) = (n, g', r', a') \<Longrightarrow> a' = a"
  by (induction ts arbitrary: g r n) (auto simp: no_updateTick_def Let_def split: prod.splits)

lemma ticks_sig2: "si_sig2 (an_onTickUpdate dl no_updateTick ts (a :: si_analyser)) = si_sig2 a"
  by (cases "g_type (an_gen a)")
    (auto simp: an_onTickUpdate_def tf_genFromTicksAnalyser_def Let_def split: prod.split dest: loop_sig2)

lemma data_sig2: "si_sig2 (ma_sig (ma_data dl newArray rt undef md e)) = si_sig2 (ma_sig e)"
  by (auto simp: ma_data_def ma_onTickUpdate_def ma_onOhlcUpdate_def an_onOhlcUpdate_def ticks_sig2 Let_def split: market_data.split prod.split)

lemma engine_sig [simp]:
  "ma_sig (fst (snd (eg_reverse px sn e w))) = ma_sig e" "ma_sig (fst (eg_manage px dl pc ts e w)) = ma_sig e"
  "ma_sig (fst (eg_orderEntry px pc tf d oty op tp sl e w)) = ma_sig e" "ma_sig (eg_updateStats m e) = ma_sig e"
  by (simp_all add: eg_reverse_def eg_manage_def eg_orderEntry_def eg_updateStats_def eg_set_stats_def Let_def split_beta split: option.split)

lemma process_sig [simp]:
  "ma_sig (fst (eg_process px dl (ma_code dl newArray rt undef ta) h t e w)) = processed (si_compute rt ta) t (ma_sig e)"
  by (simp add: ma_code_def eg_process_def eg_compute_def eg_prepare_def eg_enter_def ma_prepare_def ma_analysers_def Let_def split_beta)

lemma silent_signal:
  "si_sig2 (ma_sig e) = 0 \<Longrightarrow> sn_type (fst (pc_computeSignal (ma_code dl newArray rt undef ta) ts m e)) \<noteq> SN_ENTRY"
  by (simp add: ma_code_def ma_computeSignal_def ma_checkTrend_def Let_def sn_valid_def new_signal_def)

text \<open>
  C25: The plugin never opens a trade: the second signal, which its trend asks for, is zero from the constructor on, whatever market data, steps and
  signals reach it.
\<close>

theorem maadx_never_trades:
  assumes "si_sig2 (ma_sig e) = 0" and "eg_trades e = []"
  shows "eg_trades (eg_run px dl (ma_code dl newArray rt undef ta) evs e) = []"
  using assms
proof (induction evs arbitrary: e)
  case (Cons ev evs)
  let ?e = "eg_event px dl (ma_code dl newArray rt undef ta) ev e"
  have "si_sig2 (ma_sig ?e) = 0 \<and> eg_trades ?e = []"
  proof (cases ev)
    case (Ev_data md)
    then show ?thesis using Cons.prems data_sig2 [of dl newArray rt undef md e] ma_core(3) [of dl newArray rt undef md e]
      by (simp add: eg_event_def ma_code_def eg_core_def del: ma_core)
  next
    case (Ev_process h t w)
    have q: "si_sig2 (ma_sig (eg_prepare dl (ma_code dl newArray rt undef ta) h t (pc_prepare (ma_code dl newArray rt undef ta) t (e\<lparr>eg_strategy := (eg_strategy e)\<lparr>sg_processing := b\<rparr>\<rparr>)))) = 0" for b
      using sig2_processed [OF Cons.prems(1)] by (simp add: ma_code_def eg_prepare_def ma_prepare_def ma_analysers_def Let_def)
    have "subseq (keys (eg_trades ?e)) (keys (eg_trades e))"
      unfolding Ev_process eg_event_def eg_event.case by (rule ma.process_silent [where Q = "\<lambda>e. si_sig2 (ma_sig e) = 0", OF silent_signal q])
    with Cons.prems(2) have "keys (eg_trades ?e) = []" by (simp only: list.map list_emb_Nil2)
    then have "eg_trades ?e = []" by (simp only: map_is_Nil_conv)
    then show ?thesis using sig2_processed [OF Cons.prems(1)] by (simp add: Ev_process eg_event_def)
  qed (use Cons.prems in \<open>simp_all add: eg_event_def eg_onOrderSignal_def eg_onPositionSignal_def\<close>)
  then show ?case using Cons.IH [of ?e] by (simp add: eg_run_def)
qed (simp add: eg_run_def)

section \<open>A concrete plugin\<close>

definition idle_ta :: ta_lib where
  "idle_ta = \<lparr>ta_bbands = \<lambda>p. (p, p, p), ta_bbands_lookback = 0, ta_adx = \<lambda>h l c. c, ta_adx_lookback = 0\<rparr>"

definition idle_hma :: hma where
  "idle_hma = \<lparr>hm_len = 4, hm_hma = [], hm_prev = None, hm_last = None\<rparr>"

definition idle_bars :: tf_analyser where
  "idle_bars = new_tf_analyser (\<lambda>n. replicate n 0) 60 0 5 0 PR_CLOSE"

definition demo_maadx :: maadx where
  "demo_maadx = \<lparr>eg_strategy = new_strategy, eg_trades = [], eg_pool = new_pool, eg_lastSignal = new_signal 0 0,
     eg_entry = new_trade_entry 0, eg_stopLoss = new_entry_exit, eg_takeProfit = new_entry_exit, eg_breakeven = new_entry_exit,
     eg_dynamicStop = new_dynamic_stop, eg_minProfit = 0, ma_profile = None, ma_session = None,
     ma_trend = tf_analyser.extend idle_bars \<lparr>tr_slow_h = idle_hma, tr_slow_l = idle_hma, tr_vwapActive = False,
       tr_vwap = new_vwap 60 0 0 False, tr_trend = 0, tr_cross = 0, tr_sig = 0, tr_vwapTrend = 0\<rparr>,
     ma_sig = tf_analyser.extend idle_bars \<lparr>si_fast_h = idle_hma, si_fast_l = idle_hma, si_adx = \<lparr>ax_adx = [], ax_prev = 0, ax_last = 0\<rparr>,
       si_wma = \<lparr>wm_len = 4, wm_wma = [], wm_prev = None, wm_last = None\<rparr>, si_trend = 0, si_sig = 0, si_sig2 = 0, si_cvdTrend = 0,
       si_cvdCross = 0, si_confirmation = 0\<rparr>,
     ma_conf = None, ma_adxSig = 25, ma_targetScale = 1, ma_riskReward = 1\<rparr>"

theorem maadx_never_trades_witness:
  "eg_trades (eg_run demo_proxy no_dates (ma_code no_dates (\<lambda>n. replicate n 0) (\<lambda>x. x) 0 idle_ta)
     [Ev_data (Md_ticks []), Ev_process 0 60 0] demo_maadx) = []"
  by (rule maadx_never_trades) (simp_all add: demo_maadx_def tf_analyser.defs)

end
