(* ===== verification/Tick_Stream.thy ===== *)
theory Tick_Stream
  imports Ohlc_Ring
begin

text \<open>
  The stream of ticks of a backtest, \<^verbatim>\<open>strategies/src/database/tickstream.cpp\<close>: files of ticks by month, read in blocks. The files are a
  parameter, a binary one given by its records and the size of an incomplete record at its end, one of text by its lines with the parser
  of a line. A date is its year, its month from one on and the seconds since the month began.
\<close>

section \<open>State\<close>

datatype stream_mode = MODE_BINARY | MODE_TEXT

datatype stream_file = Binary_file "tick list" nat | Text_file "string list"

type_synonym stamp = "int \<times> int \<times> dbl"

record tick_files =
  fs_binary :: "int \<Rightarrow> int \<Rightarrow> (tick list \<times> nat) option"
  fs_text :: "int \<Rightarrow> int \<Rightarrow> string list option"
  fs_line :: "string \<Rightarrow> tick option"

record tick_stream =
  st_mode :: stream_mode
  st_to :: stamp
  st_cur :: stamp
  st_fromTs :: dbl
  st_toTs :: dbl
  st_lastTs :: dbl
  st_buffer :: "tick list"
  st_bufferSize :: nat
  st_finished :: bool
  st_ofs :: nat
  st_file :: "stream_file option"

definition new_stream :: "stamp \<Rightarrow> stamp \<Rightarrow> dbl \<Rightarrow> dbl \<Rightarrow> nat \<Rightarrow> stream_mode \<Rightarrow> tick_stream" where
  "new_stream since to fromTs toTs bufferSize mode =
     \<lparr>st_mode = mode, st_to = to, st_cur = since, st_fromTs = fromTs, st_toTs = toTs, st_lastTs = 0, st_buffer = [],
      st_bufferSize = bufferSize, st_finished = False, st_ofs = 0, st_file = None\<rparr>"

fun before :: "stamp \<Rightarrow> stamp \<Rightarrow> bool" where
  "before (y, m, s) (y', m', s') \<longleftrightarrow> y < y' \<or> y = y' \<and> (m < m' \<or> m = m' \<and> s < s')"

fun next_month :: "stamp \<Rightarrow> stamp" where
  "next_month (y, m, s) = (if m = 12 then (y + 1, 1, 0) else (y, m + 1, 0))"

section \<open>Reading\<close>

definition st_open :: "tick_files \<Rightarrow> tick_stream \<Rightarrow> tick_stream" where
  "st_open fs s =
     (if st_file s \<noteq> None then s
      else
        let (y, m, _) = st_cur s;
            f = (if st_mode s = MODE_BINARY then map_option (\<lambda>(recs, tail). Binary_file recs tail) (fs_binary fs y m) else None)
        in s\<lparr>st_file := (case f of None \<Rightarrow> map_option Text_file (fs_text fs y m) | Some f \<Rightarrow> Some f)\<rparr>)"

definition st_close :: "tick_stream \<Rightarrow> tick_stream" where
  "st_close s = s\<lparr>st_file := None\<rparr>"

text \<open>The records of a block, up to one that goes back in time; whether there is one.\<close>

primrec st_push :: "tick list \<Rightarrow> tick_stream \<Rightarrow> bool \<times> tick_stream" where
  "st_push [] s = (False, s)"
| "st_push (t # ts) s =
     (if st_lastTs s > 0 \<and> t_ts t < st_lastTs s then (True, s)
      else st_push ts (s\<lparr>st_lastTs := t_ts t, st_buffer := st_buffer s @ [t]\<rparr>))"

definition TICK_STORED_SIZE :: nat where "TICK_STORED_SIZE = 41"

text \<open>A block of a binary file: its records, the number of bytes that were read, what is left of the file.\<close>

definition read_block :: "nat \<Rightarrow> tick list \<Rightarrow> nat \<Rightarrow> tick list \<times> nat \<times> stream_file" where
  "read_block len recs tail =
     (if length recs < len then (recs, TICK_STORED_SIZE * length recs + tail, Binary_file [] 0)
      else (take len recs, TICK_STORED_SIZE * len, Binary_file (drop len recs) tail))"

text \<open>The next block of the open file; whether the file ended.\<close>

definition st_read :: "tick_files \<Rightarrow> tick_stream \<Rightarrow> bool \<times> tick_stream" where
  "st_read fs s =
     (case st_file s of
        None \<Rightarrow> (True, s)
      | Some (Binary_file recs tail) \<Rightarrow>
          (let (block, n, f) = read_block (st_bufferSize s) recs tail;
               (broken, s) = st_push block (s\<lparr>st_file := Some f\<rparr>)
           in (n = 0 \<or> broken, s))
      | Some (Text_file ls) \<Rightarrow>
          (False, s\<lparr>st_buffer := st_buffer s @ List.map_filter (fs_line fs) (take (st_bufferSize s) ls),
                    st_file := Some (Text_file (drop (st_bufferSize s) ls))\<rparr>))"

definition st_nextFile :: "tick_files \<Rightarrow> tick_stream \<Rightarrow> tick_stream" where
  "st_nextFile fs s =
     (let s = st_close s;
          s = s\<lparr>st_cur := next_month (st_cur s)\<rparr>;
          s = (if before (st_cur s) (st_to s) then st_open fs s else s)
      in if st_file s = None then s\<lparr>st_finished := True\<rparr> else s)"

definition st_bufferize :: "tick_files \<Rightarrow> tick_stream \<Rightarrow> tick_stream" where
  "st_bufferize fs s =
     (if before (st_cur s) (st_to s) then
        (let (fileEnd, s) = st_read fs (st_open fs s)
         in if fileEnd then st_nextFile fs s else s)
      else s\<lparr>st_finished := True\<rparr>)"

text \<open>The buffer is read again once all of it was given away.\<close>

definition st_ready :: "tick_files \<Rightarrow> tick_stream \<Rightarrow> tick_stream" where
  "st_ready fs s = (if st_ofs s \<ge> length (st_buffer s) then st_bufferize fs (s\<lparr>st_buffer := [], st_ofs := 0\<rparr>) else s)"

partial_function (option) st_fillNext :: "tick_files \<Rightarrow> dbl \<Rightarrow> tick_stream \<Rightarrow> tick list \<Rightarrow> (tick list \<times> tick_stream) option" where
  "st_fillNext fs timestamp s out =
     (if st_finished s then Some (out, s)
      else
        let s = st_ready fs s; t = st_buffer s ! st_ofs s
        in if st_buffer s = [] then st_fillNext fs timestamp s out
           else if t_ts t < st_fromTs s then st_fillNext fs timestamp (s\<lparr>st_ofs := st_ofs s + 1\<rparr>) out
           else if t_ts t > st_toTs s then Some (out, st_close (s\<lparr>st_finished := True\<rparr>))
           else if t_ts t \<le> timestamp then st_fillNext fs timestamp (s\<lparr>st_ofs := st_ofs s + 1\<rparr>) (out @ [t])
           else Some (out, s))"

definition st_isFinished :: "tick_stream \<Rightarrow> bool" where
  "st_isFinished s \<longleftrightarrow> \<not> before (st_cur s) (st_to s) \<and> st_finished s"

section \<open>The ticks of a stream\<close>

text \<open>
  What a stream of binary files has left: the rest of its buffer, the records of the open file and those of the files of the months that follow
  without a gap. Before its first file is open a stream skips that file when it is missing.
\<close>

fun valid_month :: "stamp \<Rightarrow> bool" where
  "valid_month (y, m, s) \<longleftrightarrow> 1 \<le> m \<and> m \<le> 12"

fun months_left :: "stamp \<Rightarrow> stamp \<Rightarrow> nat" where
  "months_left (y, m, s) (y', m', s') = nat (12 * (y' - y) + (m' - m) + 1)"

definition records :: "tick_files \<Rightarrow> stamp \<Rightarrow> (tick list \<times> nat) option" where
  "records fs cur = fs_binary fs (fst cur) (fst (snd cur))"

primrec following :: "tick_files \<Rightarrow> stamp \<Rightarrow> nat \<Rightarrow> stamp \<Rightarrow> tick list" where
  "following fs to 0 cur = []"
| "following fs to (Suc k) cur =
     (if before cur to then
        (case records fs cur of None \<Rightarrow> [] | Some (recs, tail) \<Rightarrow> recs @ following fs to k (next_month cur))
      else [])"

definition files_from :: "tick_files \<Rightarrow> stamp \<Rightarrow> stamp \<Rightarrow> tick list" where
  "files_from fs to cur = following fs to (months_left cur to) cur"

definition unread :: "tick_files \<Rightarrow> tick_stream \<Rightarrow> tick list" where
  "unread fs s =
     (case st_file s of
        None \<Rightarrow> if before (st_cur s) (st_to s) \<and> records fs (st_cur s) = None then files_from fs (st_to s) (next_month (st_cur s))
                else files_from fs (st_to s) (st_cur s)
      | Some (Binary_file recs tail) \<Rightarrow> recs @ files_from fs (st_to s) (next_month (st_cur s))
      | Some (Text_file ls) \<Rightarrow> [])"

definition pending :: "tick_files \<Rightarrow> tick_stream \<Rightarrow> tick list" where
  "pending fs s = drop (st_ofs s) (st_buffer s) @ unread fs s"

lemma unread_update [simp]:
  "unread fs (s\<lparr>st_buffer := b\<rparr>) = unread fs s" "unread fs (s\<lparr>st_ofs := k\<rparr>) = unread fs s" "unread fs (s\<lparr>st_lastTs := x\<rparr>) = unread fs s"
  by (cases "st_file s"; simp add: unread_def split: stream_file.split)+

text \<open>The ticks of the range of the stream that were not given away.\<close>

definition due :: "tick_files \<Rightarrow> tick_stream \<Rightarrow> tick list" where
  "due fs s = (if st_finished s then [] else filter (\<lambda>t. st_fromTs s \<le> t_ts t \<and> t_ts t \<le> st_toTs s) (pending fs s))"

definition binary_only :: "tick_files \<Rightarrow> tick_stream \<Rightarrow> bool" where
  "binary_only fs s \<longleftrightarrow> st_mode s = MODE_BINARY \<and> (\<forall>y m. fs_text fs y m = None) \<and> (\<forall>ls. st_file s \<noteq> Some (Text_file ls)) \<and> 0 < st_bufferSize s
     \<and> valid_month (st_cur s) \<and> valid_month (st_to s)"

definition in_order :: "tick_files \<Rightarrow> tick_stream \<Rightarrow> bool" where
  "in_order fs s \<longleftrightarrow> sorted (map t_ts (pending fs s)) \<and> (0 < st_lastTs s \<longrightarrow> (\<forall>t\<in>set (unread fs s). st_lastTs s \<le> t_ts t))"

definition st_ok :: "tick_files \<Rightarrow> tick_stream \<Rightarrow> bool" where
  "st_ok fs s \<longleftrightarrow> binary_only fs s \<and> in_order fs s \<and> (if st_file s = None then st_buffer s = [] else before (st_cur s) (st_to s))"

text \<open>The steps a stream may still make.\<close>

definition work :: "tick_files \<Rightarrow> tick_stream \<Rightarrow> nat" where
  "work fs s = length (pending fs s) + 2 * months_left (st_cur s) (st_to s)
     + (case st_file s of None \<Rightarrow> 2 | Some (Binary_file recs tail) \<Rightarrow> of_bool (tail \<noteq> 0) | Some (Text_file ls) \<Rightarrow> 0)"

lemma valid_next [simp]: "valid_month cur \<Longrightarrow> valid_month (next_month cur)"
  by (cases cur) auto

lemma months_left_next: "valid_month cur \<Longrightarrow> valid_month to \<Longrightarrow> before cur to \<Longrightarrow> months_left cur to = Suc (months_left (next_month cur) to)"
  by (cases cur; cases to) auto

lemma files_from_unfold:
  "valid_month cur \<Longrightarrow> valid_month to \<Longrightarrow> files_from fs to cur =
     (if before cur to then (case records fs cur of None \<Rightarrow> [] | Some (recs, tail) \<Rightarrow> recs @ files_from fs to (next_month cur)) else [])"
  by (cases "before cur to"; cases "months_left cur to") (auto simp: files_from_def months_left_next split: option.split)

lemma push_sorted:
  "sorted (map t_ts ts) \<Longrightarrow> (0 < st_lastTs s \<Longrightarrow> \<forall>t\<in>set ts. st_lastTs s \<le> t_ts t) \<Longrightarrow>
     st_push ts s = (False, s\<lparr>st_lastTs := (if ts = [] then st_lastTs s else t_ts (last ts)), st_buffer := st_buffer s @ ts\<rparr>)"
  by (induction ts arbitrary: s) (force simp: not_less)+

text \<open>Before a file is opened the next one is what \<^verbatim>\<open>open\<close> finds.\<close>

lemma open_binary:
  assumes "binary_only fs s"
  shows "st_open fs s = (case st_file s of Some f \<Rightarrow> s | None \<Rightarrow> s\<lparr>st_file := map_option (\<lambda>(recs, tail). Binary_file recs tail) (records fs (st_cur s))\<rparr>)"
  using assms by (auto simp: st_open_def binary_only_def records_def Let_def split: prod.split option.split)

definition reader_of :: "tick_files \<Rightarrow> tick_stream \<Rightarrow> tick_stream \<Rightarrow> bool" where
  "reader_of fs s s' \<longleftrightarrow> st_fromTs s' = st_fromTs s \<and> st_toTs s' = st_toTs s
     \<and> (if st_finished s' then st_buffer s' = [] \<and> pending fs s = []
        else pending fs s' = pending fs s \<and> st_ok fs s' \<and> work fs s' + of_bool (st_buffer s' = []) \<le> work fs s)"

lemma nextFile_reader:
  assumes "binary_only fs s" "st_buffer s = []" "before (st_cur s) (st_to s)" "\<not> st_finished s"
    and "st_file s = None \<and> records fs (st_cur s) = None \<or> st_file s = Some (Binary_file [] 0)"
    and "in_order fs s"
  shows "reader_of fs s (st_nextFile fs s)"
proof -
  let ?n = "next_month (st_cur s)"
  have p: "pending fs s = files_from fs (st_to s) ?n" using assms(2,3,5) by (auto simp: pending_def unread_def)
  have v: "valid_month (st_cur s)" "valid_month (st_to s)" "valid_month ?n" using assms(1) by (auto simp: binary_only_def)
  note m = months_left_next [OF v(1,2) assms(3)] and u = files_from_unfold [OF v(3,2), of fs]
  let ?s = "s\<lparr>st_file := None, st_cur := ?n\<rparr>"
  have b: "binary_only fs ?s" using assms(1) v by (simp add: binary_only_def)
  show ?thesis
  proof (cases "before ?n (st_to s) \<and> records fs ?n \<noteq> None")
    case True
    then obtain recs tail where r: "before ?n (st_to s)" "records fs ?n = Some (recs, tail)" by auto
    then have e: "st_nextFile fs s = ?s\<lparr>st_file := Some (Binary_file recs tail)\<rparr>"
      by (simp add: st_nextFile_def st_close_def Let_def open_binary [OF b])
    have q: "pending fs (st_nextFile fs s) = pending fs s"
      unfolding e p u by (simp add: r assms(2)) (simp add: pending_def unread_def assms(2))
    have l: "set (unread fs (st_nextFile fs s)) \<subseteq> set (unread fs s)" using q assms(2) by (simp add: pending_def e)
    have "in_order fs (st_nextFile fs s)" using assms(6) l by (auto simp: in_order_def q) (auto simp: e)
    moreover have "work fs (st_nextFile fs s) < work fs s"
      using assms(5) m by (auto simp: work_def q) (auto simp: e)
    ultimately show ?thesis using b r assms(2,4) by (auto simp: reader_of_def q) (auto simp: e st_ok_def binary_only_def)
  next
    case False
    then have e: "st_nextFile fs s = ?s\<lparr>st_finished := True\<rparr>"
      by (auto simp: st_nextFile_def st_close_def Let_def open_binary [OF b])
    have z: "pending fs s = []" unfolding p u using False by (auto split: option.split)
    then show ?thesis using assms(2) by (simp add: reader_of_def) (simp add: e)
  qed
qed

lemma read_block_split:
  assumes "read_block len recs tail = (block, n, g)" "0 < len"
  obtains rest tail' where "g = Binary_file rest tail'" "recs = block @ rest" "tail' = 0 \<or> tail' = tail" "block = [] \<Longrightarrow> rest = [] \<and> tail' = 0"
    "n = 0 \<longleftrightarrow> recs = [] \<and> tail = 0"
proof (cases "length recs < len")
  case True
  then show ?thesis using assms that [of "[]" 0] by (auto simp: read_block_def TICK_STORED_SIZE_def)
next
  case False
  then show ?thesis using assms that [of "drop len recs" tail] by (fastforce simp: read_block_def TICK_STORED_SIZE_def)
qed

lemma bufferize_reader:
  assumes "st_ok fs s" "st_buffer s = []" "\<not> st_finished s" "st_ofs s = 0"
  shows "reader_of fs s (st_bufferize fs s)"
proof (cases "before (st_cur s) (st_to s)")
  case False
  then have f: "st_file s = None" using assms(1) by (auto simp: st_ok_def split: if_splits)
  then have "pending fs s = []" using False assms(1,2)
    by (simp add: pending_def unread_def st_ok_def binary_only_def files_from_unfold)
  then show ?thesis using False assms(2) by (simp add: st_bufferize_def reader_of_def)
next
  case T: True
  have b: "binary_only fs s" and o: "in_order fs s" using assms(1) by (auto simp: st_ok_def)
  let ?s = "st_open fs s"
  note op = open_binary [OF b]
  show ?thesis
  proof (cases "st_file ?s")
    case None
    then have n: "st_file s = None" "records fs (st_cur s) = None" by (auto simp: op split: option.splits)
    then have "?s = s" by (simp add: op)
    then show ?thesis using nextFile_reader [OF b assms(2) T assms(3) _ o] T n
      by (simp add: st_bufferize_def st_read_def)
  next
    case (Some f)
    then obtain recs tail where f: "st_file ?s = Some (Binary_file recs tail)"
      using b by (cases f) (auto simp: op binary_only_def split: option.splits)
    then have c: "st_file s = Some (Binary_file recs tail) \<or> st_file s = None \<and> records fs (st_cur s) = Some (recs, tail)"
      by (cases "st_file s") (auto simp: op)
    then have e: "?s = s\<lparr>st_file := Some (Binary_file recs tail)\<rparr>" by (auto simp: op)
    have v: "valid_month (st_cur s)" "valid_month (st_to s)" using b by (auto simp: binary_only_def)
    have u: "unread fs s = recs @ files_from fs (st_to s) (next_month (st_cur s))"
      using c T files_from_unfold [OF v, of fs] by (auto simp: unread_def)
    have w: "of_bool (tail \<noteq> 0) \<le> (case st_file s of None \<Rightarrow> 2 | Some (Binary_file recs tail) \<Rightarrow> of_bool (tail \<noteq> 0) | Some (Text_file ls) \<Rightarrow> (0::nat))"
      using c by auto
    obtain block n g where rb: "read_block (st_bufferSize s) recs tail = (block, n, g)" by (metis prod_cases3)
    have l: "0 < st_bufferSize s" using b by (simp add: binary_only_def)
    obtain rest tail' where r: "g = Binary_file rest tail'" "recs = block @ rest" "tail' = 0 \<or> tail' = tail"
      "block = [] \<Longrightarrow> rest = [] \<and> tail' = 0" "n = 0 \<longleftrightarrow> recs = [] \<and> tail = 0"
      using read_block_split [OF rb l] by blast
    have so: "sorted (map t_ts (recs @ files_from fs (st_to s) (next_month (st_cur s))))"
      "0 < st_lastTs s \<Longrightarrow> \<forall>t\<in>set recs. st_lastTs s \<le> t_ts t"
      using o by (auto simp: in_order_def pending_def assms(2) u)
    define s2 where "s2 = s\<lparr>st_file := Some g, st_lastTs := (if block = [] then st_lastTs s else t_ts (last block)), st_buffer := block\<rparr>"
    have "sorted (map t_ts block)" using so(1) by (simp add: r(2) sorted_append)
    moreover have "\<forall>t\<in>set block. st_lastTs s \<le> t_ts t" if "0 < st_lastTs s" using so(2) [OF that] by (simp add: r(2))
    ultimately have ps: "st_push block (s\<lparr>st_file := Some g\<rparr>) = (False, s2)"
      using push_sorted [of block "s\<lparr>st_file := Some g\<rparr>"] by (simp add: s2_def assms(2))
    have rd: "st_read fs ?s = (n = 0, s2)" by (simp add: st_read_def e rb ps)
    have p2: "pending fs s2 = pending fs s" using r(2) by (simp add: pending_def s2_def assms(2,4) u) (simp add: unread_def r(1))
    have w2: "work fs s2 \<le> work fs s" "st_file s = None \<or> st_file s = Some (Binary_file recs tail)"
      using w r(3) c by (auto simp: work_def p2) (auto simp: s2_def r(1))
    have b2: "binary_only fs s2" using b by (simp add: binary_only_def s2_def r(1))
    have u2: "unread fs s2 = rest @ files_from fs (st_to s) (next_month (st_cur s))" by (simp add: unread_def s2_def r(1))
    have o2: "in_order fs s2"
    proof (cases "block = []")
      case True
      then show ?thesis using o u2 u r(2) by (simp add: in_order_def p2) (simp add: s2_def)
    next
      case False
      then have "\<forall>t\<in>set (unread fs s2). t_ts (last block) \<le> t_ts t" using so(1) by (auto simp: u2 r(2) sorted_append)
      then show ?thesis using o False by (simp add: in_order_def p2) (simp add: s2_def)
    qed
    show ?thesis
    proof (cases "n = 0")
      case True
      have "reader_of fs s2 (st_nextFile fs s2)"
        by (rule nextFile_reader [OF b2 _ _ _ _ o2]) (use True r T assms(3) in \<open>auto simp: s2_def\<close>)
      then show ?thesis using T True w2(1) p2
        by (auto simp: st_bufferize_def rd reader_of_def) (auto simp: s2_def)
    next
      case False
      have "work fs s2 + of_bool (st_buffer s2 = []) \<le> work fs s"
      proof (cases "block = []")
        case True
        then have "tail' = 0" "tail \<noteq> 0" "recs = []" using r False by auto
        then show ?thesis using w2(2) by (auto simp: work_def p2) (auto simp: s2_def r(1))
      qed (use w2(1) in \<open>simp add: s2_def\<close>)
      then show ?thesis using T False b2 o2 p2 assms(3)
        by (auto simp: st_bufferize_def rd reader_of_def st_ok_def) (auto simp: s2_def)
    qed
  qed
qed

section \<open>Delivery\<close>

lemma ready_reader:
  assumes "st_ok fs s" "\<not> st_finished s"
  shows "reader_of fs s (st_ready fs s)"
    and "st_finished (st_ready fs s) \<or> st_buffer (st_ready fs s) = [] \<or> st_ofs (st_ready fs s) < length (st_buffer (st_ready fs s))"
proof -
  let ?s = "s\<lparr>st_buffer := [], st_ofs := 0\<rparr>"
  show "reader_of fs s (st_ready fs s)"
  proof (cases "st_ofs s \<ge> length (st_buffer s)")
    case True
    then have p: "pending fs ?s = pending fs s" by (simp add: pending_def)
    then have "st_ok fs ?s" using assms by (auto simp: st_ok_def in_order_def binary_only_def)
    then have "reader_of fs ?s (st_bufferize fs ?s)" using bufferize_reader [of fs ?s] assms(2) by simp
    moreover have "work fs ?s = work fs s" "st_fromTs ?s = st_fromTs s" "st_toTs ?s = st_toTs s" by (simp_all add: work_def p)
    then have "reader_of fs ?s x = reader_of fs s x" for x by (simp only: reader_of_def p)
    ultimately have "reader_of fs s (st_bufferize fs ?s)" by blast
    then show ?thesis using True by (simp add: st_ready_def)
  qed (use assms in \<open>auto simp: st_ready_def reader_of_def\<close>)
  have o: "st_ofs (st_bufferize fs ?s) = 0"
  proof -
    have "st_ofs (snd (st_push ts s')) = st_ofs s'" for ts s' by (induction ts arbitrary: s') simp_all
    then have "st_ofs (snd (st_read fs s')) = st_ofs s'" for s'
      by (auto simp: st_read_def Let_def split_beta split: option.split stream_file.split)
    moreover have "st_ofs (st_open fs s') = st_ofs s'" for s' by (simp add: st_open_def Let_def split_beta)
    ultimately show ?thesis by (simp add: st_bufferize_def st_nextFile_def st_close_def Let_def split_beta)
  qed
  then show "st_finished (st_ready fs s) \<or> st_buffer (st_ready fs s) = [] \<or> st_ofs (st_ready fs s) < length (st_buffer (st_ready fs s))"
    by (auto simp: st_ready_def)
qed

lemma pending_step:
  assumes "st_ofs s < length (st_buffer s)"
  shows "pending fs s = st_buffer s ! st_ofs s # pending fs (s\<lparr>st_ofs := st_ofs s + 1\<rparr>)"
  using assms by (simp add: pending_def Cons_nth_drop_Suc [symmetric])

lemma step_ok:
  assumes "st_ok fs s" "st_ofs s < length (st_buffer s)"
  shows "st_ok fs (s\<lparr>st_ofs := st_ofs s + 1\<rparr>)" "work fs (s\<lparr>st_ofs := st_ofs s + 1\<rparr>) < work fs s"
  using assms pending_step [OF assms(2), of fs]
  by (auto simp: st_ok_def in_order_def binary_only_def work_def split: if_splits)

text \<open>The stream after a call: it gives what is due until then and keeps what is due later.\<close>

definition delivers :: "tick_files \<Rightarrow> dbl \<Rightarrow> tick_stream \<Rightarrow> tick list \<Rightarrow> tick_stream \<Rightarrow> bool" where
  "delivers fs timestamp s ticks s' \<longleftrightarrow> ticks = filter (\<lambda>t. t_ts t \<le> timestamp) (due fs s) \<and> due fs s' = filter (\<lambda>t. \<not> t_ts t \<le> timestamp) (due fs s)
     \<and> (st_finished s' \<or> st_ok fs s')"

lemma fill_delivers:
  assumes "st_ok fs s"
  shows "\<exists>ticks s'. st_fillNext fs timestamp s out = Some (out @ ticks, s') \<and> delivers fs timestamp s ticks s'"
  using assms
proof (induction "work fs s" arbitrary: s out rule: less_induct)
  case less
  show ?case
  proof (cases "st_finished s")
    case True
    then show ?thesis by (simp add: st_fillNext.simps [of _ _ s] delivers_def due_def)
  next
    case False
    let ?r = "st_ready fs s" let ?t = "st_buffer ?r ! st_ofs ?r" let ?n = "?r\<lparr>st_ofs := st_ofs ?r + 1\<rparr>"
    note rd = ready_reader [OF less.prems False]
    note eq = st_fillNext.simps [of fs timestamp s out, unfolded if_not_P [OF False] Let_def]
    show ?thesis
    proof (cases "st_finished ?r")
      case True
      then have "st_buffer ?r = []" "due fs s = []" using rd(1) by (simp_all add: reader_of_def due_def)
      then show ?thesis using True by (simp add: eq st_fillNext.simps [of _ _ ?r] delivers_def) (simp add: due_def)
    next
      case nf: False
      have r: "st_ok fs ?r" "pending fs ?r = pending fs s" "work fs ?r + of_bool (st_buffer ?r = []) \<le> work fs s"
        "st_fromTs ?r = st_fromTs s" "st_toTs ?r = st_toTs s" using rd(1) nf by (simp_all add: reader_of_def)
      have d: "due fs ?r = due fs s" using r nf False by (simp add: due_def)
      show ?thesis
      proof (cases "st_buffer ?r = []")
        case True
        then have "work fs ?r < work fs s" using r(3) by simp
        from less.hyps [OF this r(1), of out] show ?thesis using True by (auto simp: eq delivers_def d)
      next
        case ne: False
        then have l: "st_ofs ?r < length (st_buffer ?r)" using rd(2) nf by simp
        have w: "work fs ?n < work fs s" using step_ok(2) [OF r(1) l] r(3) by simp
        note IH = less.hyps [OF w step_ok(1) [OF r(1) l]]
        have p: "pending fs s = ?t # pending fs ?n" using pending_step [OF l, of fs] r(2) by simp
        have so: "\<forall>t\<in>set (pending fs ?n). t_ts ?t \<le> t_ts t" using less.prems by (simp add: st_ok_def in_order_def p)
        have ds: "due fs s = (if st_fromTs s \<le> t_ts ?t \<and> t_ts ?t \<le> st_toTs s then ?t # due fs ?n else due fs ?n)"
          using False nf r(4,5) by (simp add: due_def p)
        consider (old) "t_ts ?t < st_fromTs ?r" | (over) "\<not> t_ts ?t < st_fromTs ?r" "t_ts ?t > st_toTs ?r"
          | (now) "\<not> t_ts ?t < st_fromTs ?r" "\<not> t_ts ?t > st_toTs ?r" "t_ts ?t \<le> timestamp"
          | (later) "\<not> t_ts ?t < st_fromTs ?r" "\<not> t_ts ?t > st_toTs ?r" "\<not> t_ts ?t \<le> timestamp" by blast
        then show ?thesis
        proof cases
          case old
          then have "due fs s = due fs ?n" using r(4) by (simp add: ds)
          then show ?thesis using IH [of out] ne old by (simp add: eq delivers_def)
        next
          case over
          then have "\<forall>t\<in>set (pending fs s). \<not> t_ts t \<le> st_toTs s" using so r(5) by (auto simp: p)
          then have "due fs s = []" by (simp add: due_def filter_empty_conv)
          then show ?thesis using ne over by (simp add: eq delivers_def) (simp add: due_def st_close_def)
        next
          case now
          then have "due fs s = ?t # due fs ?n" using r(4,5) by (simp add: ds)
          then show ?thesis using IH [of "out @ [?t]"] ne now by (auto simp: eq delivers_def)
        next
          case later
          have "\<forall>t\<in>set (due fs s). \<not> t_ts t \<le> timestamp" using later(3) so False by (auto simp: due_def p)
          then show ?thesis using ne later r(1) d by (simp add: eq delivers_def)
        qed
      qed
    qed
  qed
qed

primrec st_calls :: "tick_files \<Rightarrow> dbl list \<Rightarrow> tick_stream \<Rightarrow> (tick list list \<times> tick_stream) option" where
  "st_calls fs [] s = Some ([], s)"
| "st_calls fs (t # ts) s =
     (case st_fillNext fs t s [] of
        None \<Rightarrow> None
      | Some (x, s) \<Rightarrow> map_option (\<lambda>(xs, s). (x # xs, s)) (st_calls fs ts s))"

lemma due_sorted: "st_finished s \<or> st_ok fs s \<Longrightarrow> sorted (map t_ts (due fs s))"
  by (auto simp: due_def st_ok_def in_order_def sorted_filter)

lemma filter_split_sorted:
  "sorted (map t_ts xs) \<Longrightarrow> filter (\<lambda>t. t_ts t \<le> a) xs @ filter (\<lambda>t. \<not> t_ts t \<le> a \<and> P t) xs = filter (\<lambda>t. t_ts t \<le> a \<or> P t) xs"
proof (induction xs)
  case (Cons x xs)
  show ?case
  proof (cases "t_ts x \<le> a")
    case False
    then have "\<forall>y\<in>set (x # xs). \<not> t_ts y \<le> a" using Cons.prems by auto
    then show ?thesis by (simp add: filter_empty_conv cong: filter_cong)
  qed (use Cons in simp)
qed simp

lemma finished_call: "st_finished s \<Longrightarrow> st_fillNext fs timestamp s out = Some (out, s)"
  by (simp add: st_fillNext.simps)

lemma calls_finished: "st_finished s \<Longrightarrow> st_calls fs moments s = Some (map (\<lambda>_. []) moments, s)"
  by (induction moments) (simp_all add: finished_call)

lemma calls_once:
  assumes "st_ok fs s"
  shows "\<exists>xss s'. st_calls fs moments s = Some (xss, s') \<and> (st_finished s' \<or> st_ok fs s') \<and> concat xss = filter (\<lambda>t. \<exists>T\<in>set moments. t_ts t \<le> T) (due fs s)
    \<and> due fs s' = filter (\<lambda>t. \<forall>T\<in>set moments. \<not> t_ts t \<le> T) (due fs s)"
  using assms
proof (induction moments arbitrary: s)
  case (Cons T moments)
  obtain x s1 where c: "st_fillNext fs T s [] = Some (x, s1)" "delivers fs T s x s1"
    using fill_delivers [OF Cons.prems, of T "[]"] by auto
  show ?case
  proof (cases "st_finished s1")
    case True
    then have "due fs s1 = []" by (simp add: due_def)
    then have "filter (\<lambda>t. \<not> t_ts t \<le> T) (due fs s) = []" using c(2) by (simp add: delivers_def)
    then have "\<forall>t\<in>set (due fs s). t_ts t \<le> T" by (simp add: filter_empty_conv)
    then show ?thesis using c True \<open>due fs s1 = []\<close>
      by (auto simp: calls_finished delivers_def filter_empty_conv intro!: filter_cong)
  next
    case False
    then obtain xss s2 where r: "st_calls fs moments s1 = Some (xss, s2)" "st_finished s2 \<or> st_ok fs s2"
        "concat xss = filter (\<lambda>t. \<exists>T\<in>set moments. t_ts t \<le> T) (due fs s1)" "due fs s2 = filter (\<lambda>t. \<forall>T\<in>set moments. \<not> t_ts t \<le> T) (due fs s1)"
      using Cons.IH [of s1] c(2) by (auto simp: delivers_def)
    have "sorted (map t_ts (due fs s))" using due_sorted Cons.prems by blast
    then show ?thesis using c r by (auto simp: delivers_def filter_split_sorted conj_commute)
  qed
qed auto


lemma new_stream_ok:
  assumes "valid_month since" "valid_month to" "0 < n" "\<forall>y m. fs_text fs y m = None"
    and "sorted (map t_ts (unread fs (new_stream since to fromTs toTs n MODE_BINARY)))"
  shows "st_ok fs (new_stream since to fromTs toTs n MODE_BINARY)"
  using assms by (simp add: st_ok_def binary_only_def in_order_def pending_def) (simp add: new_stream_def)

section \<open>Files of text\<close>

text \<open>The end of a file of text is never noticed: the stream reads it again and again.\<close>

definition text_read :: "tick_files \<Rightarrow> dbl \<Rightarrow> tick_stream \<Rightarrow> bool" where
  "text_read fs timestamp s \<longleftrightarrow> \<not> st_finished s \<and> before (st_cur s) (st_to s)
     \<and> (\<exists>ls. st_file (st_open fs s) = Some (Text_file ls) \<and> (\<forall>t\<in>set (drop (st_ofs s) (st_buffer s)) \<union> set (List.map_filter (fs_line fs) ls).
           t_ts t < st_fromTs s \<or> t_ts t \<le> st_toTs s \<and> t_ts t \<le> timestamp))"

lemma ready_text:
  assumes "text_read fs timestamp s"
  shows "text_read fs timestamp (st_ready fs s)" "st_buffer (st_ready fs s) = [] \<or> st_ofs (st_ready fs s) < length (st_buffer (st_ready fs s))"
proof -
  obtain ls where l: "st_file (st_open fs s) = Some (Text_file ls)" using assms by (auto simp: text_read_def)
  let ?s = "s\<lparr>st_buffer := [], st_ofs := 0\<rparr>"
  let ?b = "List.map_filter (fs_line fs) (take (st_bufferSize s) ls)"
  let ?r = "s\<lparr>st_buffer := ?b, st_ofs := 0, st_file := Some (Text_file (drop (st_bufferSize s) ls))\<rparr>"
  have o: "st_open fs ?s = (st_open fs s)\<lparr>st_buffer := [], st_ofs := 0\<rparr>" "\<And>f. (st_open fs s)\<lparr>st_file := f\<rparr> = s\<lparr>st_file := f\<rparr>"
    by (simp_all add: st_open_def Let_def split_beta)
  have "st_read fs (st_open fs ?s) = (False, ?r)"
    using l o(2) [of "Some (Text_file (drop (st_bufferSize s) ls))"] by (simp add: o(1) st_read_def) (simp add: st_open_def Let_def split_beta)
  then have b: "st_bufferize fs ?s = ?r" using assms by (simp add: st_bufferize_def text_read_def)
  have sub: "set (List.map_filter (fs_line fs) xs) \<subseteq> set (List.map_filter (fs_line fs) ls)" if "set xs \<subseteq> set ls" for xs
    using that by (auto simp: map_filter_def)
  have "text_read fs timestamp ?r" using assms l sub [OF set_take_subset] sub [OF set_drop_subset]
    by (fastforce simp: text_read_def st_open_def)
  then show "text_read fs timestamp (st_ready fs s)" using assms b by (simp add: st_ready_def)
  show "st_buffer (st_ready fs s) = [] \<or> st_ofs (st_ready fs s) < length (st_buffer (st_ready fs s))" using b by (auto simp: st_ready_def)
qed

lemma text_step:
  assumes "text_read fs timestamp s" "st_ofs s < length (st_buffer s)"
  shows "text_read fs timestamp (s\<lparr>st_ofs := st_ofs s + 1\<rparr>)"
    and "let t = st_buffer s ! st_ofs s in t_ts t < st_fromTs s \<or> t_ts t \<le> st_toTs s \<and> t_ts t \<le> timestamp"
proof -
  have d: "drop (st_ofs s) (st_buffer s) = st_buffer s ! st_ofs s # drop (st_ofs s + 1) (st_buffer s)"
    using assms(2) by (simp add: Cons_nth_drop_Suc)
  have o: "st_file (st_open fs (s\<lparr>st_ofs := k\<rparr>)) = st_file (st_open fs s)" for k by (simp add: st_open_def Let_def split_beta)
  show "text_read fs timestamp (s\<lparr>st_ofs := st_ofs s + 1\<rparr>)" using assms(1) by (auto simp: text_read_def d o)
  show "let t = st_buffer s ! st_ofs s in t_ts t < st_fromTs s \<or> t_ts t \<le> st_toTs s \<and> t_ts t \<le> timestamp"
    using assms(1) by (auto simp: text_read_def d)
qed

text \<open>
  C26: A stream that reads a file of text never returns once it is asked for a time past the last tick of the file.
\<close>

theorem text_never_returns:
  assumes "text_read fs timestamp s"
  shows "st_fillNext fs timestamp s out = None"
proof (rule ccontr)
  assume "st_fillNext fs timestamp s out \<noteq> None"
  then obtain r where ret: "st_fillNext fs timestamp s out = Some r" by auto
  have "\<not> text_read fs timestamp s"
  proof (rule st_fillNext.raw_induct [where P = "\<lambda>fs timestamp s out r. \<not> text_read fs timestamp s", OF _ ret])
    fix f :: "tick_files \<Rightarrow> dbl \<Rightarrow> tick_stream \<Rightarrow> tick list \<Rightarrow> (tick list \<times> tick_stream) option" and fs timestamp s out r
    assume IH: "\<And>fs timestamp s out r. f fs timestamp s out = Some r \<Longrightarrow> \<not> text_read fs timestamp s"
    assume eq: "(if st_finished s then Some (out, s)
      else let s = st_ready fs s; t = st_buffer s ! st_ofs s
           in if st_buffer s = [] then f fs timestamp s out
              else if t_ts t < st_fromTs s then f fs timestamp (s\<lparr>st_ofs := st_ofs s + 1\<rparr>) out
              else if t_ts t > st_toTs s then Some (out, st_close (s\<lparr>st_finished := True\<rparr>))
              else if t_ts t \<le> timestamp then f fs timestamp (s\<lparr>st_ofs := st_ofs s + 1\<rparr>) (out @ [t])
              else Some (out, s)) = Some r"
    show "\<not> text_read fs timestamp s"
    proof
      assume t: "text_read fs timestamp s"
      note rd = ready_text [OF t]
      show False
      proof (cases "st_buffer (st_ready fs s) = []")
        case True
        then show False using IH rd(1) eq t by (simp add: Let_def text_read_def [of _ _ s])
      next
        case False
        then have "st_ofs (st_ready fs s) < length (st_buffer (st_ready fs s))" using rd(2) by simp
        note st = text_step [OF rd(1) this]
        have "\<not> st_finished s" using t by (simp add: text_read_def)
        then show False using eq st IH False by (auto simp: Let_def split: if_splits)
      qed
    qed
  qed
  then show False using assms by simp
qed

section \<open>A concrete stream\<close>

definition tick_at :: "dbl \<Rightarrow> tick" where
  "tick_at ts = \<lparr>t_ts = ts, t_bid = 10, t_ask = 11, t_last = 10, t_vol = 1, t_bos = 1\<rparr>"

definition demo_files :: tick_files where
  "demo_files = \<lparr>fs_binary = (\<lambda>y m. if y = 2024 \<and> m = 12 then Some ([tick_at 10, tick_at 20, tick_at 30], 5)
       else if y = 2025 \<and> m = 1 then Some ([tick_at 40, tick_at 50], 0) else None),
     fs_text = (\<lambda>y m. None), fs_line = (\<lambda>l. None)\<rparr>"

definition demo_stream :: tick_stream where
  "demo_stream = new_stream (2024, 12, 0) (2025, 2, 0) 15 45 2 MODE_BINARY"

definition text_files :: tick_files where
  "text_files = \<lparr>fs_binary = (\<lambda>y m. None), fs_text = (\<lambda>y m. if y = 2024 \<and> m = 12 then Some [''10''] else None),
     fs_line = (\<lambda>l. if l = ''10'' then Some (tick_at 10) else None)\<rparr>"

lemma demo_due: "due demo_files demo_stream = [tick_at 20, tick_at 30, tick_at 40]"
  and demo_stream_ok: "st_ok demo_files demo_stream"
proof -
  have u: "unread demo_files demo_stream = [tick_at 10, tick_at 20, tick_at 30, tick_at 40, tick_at 50]" by code_simp
  show "due demo_files demo_stream = [tick_at 20, tick_at 30, tick_at 40]"
    by (simp add: due_def pending_def u) (simp add: demo_stream_def new_stream_def tick_at_def)
  show "st_ok demo_files demo_stream" unfolding demo_stream_def
    by (rule new_stream_ok) (use u in \<open>simp_all add: demo_stream_def\<close>, simp_all add: demo_files_def tick_at_def)
qed


theorem text_never_returns_witness:
  "st_fillNext text_files 100 (new_stream (2024, 12, 0) (2025, 2, 0) 5 200 8 MODE_TEXT) [] = None"
  by (rule text_never_returns)
    (simp add: text_read_def, simp add: new_stream_def st_open_def text_files_def map_filter_def tick_at_def)

end
