(* ===== verification/Backtest.thy ===== *)
theory Backtest
  imports Pullback Local_Connector Tick_Stream
begin

text \<open>
  The loop of a backtest with one strategy, \<^verbatim>\<open>run\<close> of \<^verbatim>\<open>strategies/src/backtest/backtest.cpp\<close>: at every time step the ticks due
  are given to the strategy, the strategy processes them and the local connector is updated. The threads that run several strategies are not modelled.
\<close>

section \<open>The loop\<close>

record 'e backtest =
  bt_fromTs :: dbl
  bt_toTs :: dbl
  bt_curTs :: dbl
  bt_timestep :: dbl
  bt_strategy :: 'e
  bt_stream :: "tick_stream option"
  bt_connector :: lc

text \<open>The settings that \<^verbatim>\<open>init\<close> takes, with the time of the system; an exception is \<open>None\<close>.\<close>

definition bt_init :: "dbl \<Rightarrow> dbl \<Rightarrow> dbl \<Rightarrow> dbl \<Rightarrow> 'e \<Rightarrow> tick_stream option \<Rightarrow> lc \<Rightarrow> 'e backtest option" where
  "bt_init systemTime fromTs toTs timestep strategy stream w =
     (if fromTs \<le> 0 then None
      else
        let toTs = (if toTs \<le> 0 then systemTime else toTs)
        in if timestep \<le> 0 then None
           else Some \<lparr>bt_fromTs = fromTs, bt_toTs = toTs, bt_curTs = fromTs, bt_timestep = timestep, bt_strategy = strategy,
                      bt_stream = stream, bt_connector = w\<rparr>)"

text \<open>The signals of the connector reach the strategy of their market.\<close>

definition bt_signal :: "dbl \<Rightarrow> market \<Rightarrow> signal \<Rightarrow> 'x engine_scheme \<Rightarrow> 'x engine_scheme" where
  "bt_signal undef m sg e =
     (case sg of
        OrderSig os \<Rightarrow> if or_marketId os = mk_marketId m then eg_onOrderSignal m undef os e else e
      | PositionSig ps \<Rightarrow> if po_marketId ps = mk_marketId m then eg_onPositionSignal ps e else e)"

text \<open>One step for a strategy that has ticks: it gets them, the market the last of them, then the strategy and the connector run.\<close>

definition bt_feed :: "dbl \<Rightarrow> date_lib \<Rightarrow> (lc, 'x engine_scheme) plugin_code \<Rightarrow> tick list \<Rightarrow> 'x engine_scheme backtest
    \<Rightarrow> 'x engine_scheme backtest" where
  "bt_feed undef dl pc ticks b =
     (let lastTimestamp = t_ts (last ticks);
          e = pc_data pc (Md_ticks ticks) (bt_strategy b);
          w = bt_connector b;
          w = w\<lparr>lc_market := setLastTick (last ticks) (lc_market w), lc_now := bt_curTs b\<rparr>;
          (e, w) = eg_process (local_proxy undef) dl pc (bt_curTs b) lastTimestamp e w;
          (sigs, w) = lc_update dl w;
          e = fold (bt_signal undef (lc_market w)) sigs e
      in b\<lparr>bt_strategy := e, bt_connector := w\<rparr>)"

definition bt_step :: "dbl \<Rightarrow> date_lib \<Rightarrow> tick_files \<Rightarrow> (lc, 'x engine_scheme) plugin_code \<Rightarrow> 'x engine_scheme backtest
    \<Rightarrow> 'x engine_scheme backtest option" where
  "bt_step undef dl fs pc b =
     (if \<not> running (eg_strategy (bt_strategy b)) then Some b
      else
        case bt_stream b of
          None \<Rightarrow> Some b
        | Some s \<Rightarrow>
            (case st_fillNext fs (bt_curTs b) s [] of
               None \<Rightarrow> None
             | Some (ticks, s) \<Rightarrow>
                 let b = b\<lparr>bt_stream := Some s\<rparr>
                 in if length ticks \<le> 0 then Some b else Some (bt_feed undef dl pc ticks b)))"

partial_function (option) bt_run :: "dbl \<Rightarrow> date_lib \<Rightarrow> tick_files \<Rightarrow> (lc, 'x engine_scheme) plugin_code \<Rightarrow> 'x engine_scheme backtest
    \<Rightarrow> 'x engine_scheme backtest option" where
  "bt_run undef dl fs pc b =
     (if bt_curTs b > bt_toTs b then Some b
      else
        case bt_step undef dl fs pc b of
          None \<Rightarrow> None
        | Some b \<Rightarrow> bt_run undef dl fs pc (b\<lparr>bt_curTs := bt_curTs b + bt_timestep b\<rparr>))"

definition bt_progress :: "'e backtest \<Rightarrow> dbl" where
  "bt_progress b = max 0 (min 100 ((bt_curTs b - bt_fromTs b) / (bt_toTs b - bt_fromTs b) * 100))"

section \<open>What a backtest does to a strategy\<close>

text \<open>The times of its steps, and the ticks among the events a strategy got.\<close>

definition bt_moments :: "dbl \<Rightarrow> dbl \<Rightarrow> dbl \<Rightarrow> dbl list" where
  "bt_moments start to step = map (\<lambda>k. start + of_nat k * step) [0..<nat (\<lfloor>(to - start) / step\<rfloor> + 1)]"

definition ticks_of :: "'w eg_event list \<Rightarrow> tick list" where
  "ticks_of evs = concat (map (\<lambda>ev. case ev of Ev_data (Md_ticks ts) \<Rightarrow> ts | _ \<Rightarrow> []) evs)"

lemma ticks_of_simps [simp]:
  "ticks_of [] = []" "ticks_of (evs @ evs') = ticks_of evs @ ticks_of evs'" "ticks_of (Ev_process h t w # evs) = ticks_of evs"
  "ticks_of (Ev_data (Md_ticks ts) # evs) = ts @ ticks_of evs" "ticks_of (Ev_order m u os # evs) = ticks_of evs"
  "ticks_of (Ev_position ps # evs) = ticks_of evs"
  by (simp_all add: ticks_of_def)

lemma bt_moments_Nil [simp]:
  assumes "0 < step" "to < start"
  shows "bt_moments start to step = []"
proof -
  have "(to - start) / step < 0" using assms by (simp add: divide_less_0_iff)
  then have "\<lfloor>(to - start) / step\<rfloor> < 0" by (simp only: floor_less_zero)
  then have "nat (\<lfloor>(to - start) / step\<rfloor> + 1) = 0" by linarith
  then show ?thesis unfolding bt_moments_def by simp
qed

lemma bt_moments_Cons:
  assumes "0 < step" "start \<le> to"
  shows "bt_moments start to step = start # bt_moments (start + step) to step"
proof -
  define x where "x = (to - start) / step"
  have x: "(to - (start + step)) / step = x - 1" "0 \<le> \<lfloor>x\<rfloor>" using assms by (simp_all add: x_def field_simps)
  have n: "nat (\<lfloor>x\<rfloor> + 1) = Suc (nat (\<lfloor>x - 1\<rfloor> + 1))" using x(2) unfolding floor_diff_one by linarith
  have "map (\<lambda>k. start + of_nat k * step) [0..<Suc m] = start # map (\<lambda>k. start + step + of_nat k * step) [0..<m]" for m
    unfolding map_upt_Suc by (simp add: algebra_simps)
  then show ?thesis unfolding bt_moments_def x(1) x_def [symmetric] n by simp
qed

lemma signals_run:
  "\<exists>evs. fold (bt_signal u m) sigs e = eg_run px dl pc evs e \<and> ticks_of evs = []"
proof (induction sigs arbitrary: e)
  case Nil
  show ?case by (rule exI [of _ "[]"]) (simp add: eg_run_def)
next
  case (Cons sg sigs)
  obtain evs where evs: "fold (bt_signal u m) sigs (bt_signal u m sg e) = eg_run px dl pc evs (bt_signal u m sg e)"
    "ticks_of evs = []" using Cons by blast
  have "\<exists>ev. bt_signal u m sg e = eg_run px dl pc ev e \<and> ticks_of ev = []"
    by (cases sg; rule exI [of _ "if bt_signal u m sg e = e then [] else case sg of OrderSig os \<Rightarrow> [Ev_order m u os] | PositionSig ps \<Rightarrow> [Ev_position ps]"])
      (auto simp: bt_signal_def eg_run_def eg_event_def)
  then obtain ev where ev: "bt_signal u m sg e = eg_run px dl pc ev e" "ticks_of ev = []" by blast
  show ?case by (rule exI [of _ "ev @ evs"]) (use evs ev in \<open>simp add: eg_run_def\<close>)
qed

lemma feed_run:
  "\<exists>evs. bt_strategy (bt_feed u dl pc ticks b)
      = eg_run (local_proxy u) dl pc evs (bt_strategy b) \<and> ticks_of evs = ticks"
proof -
  let ?e = "pc_data pc (Md_ticks ticks) (bt_strategy b)"
  let ?w = "(bt_connector b)\<lparr>lc_market := setLastTick (last ticks) (lc_market (bt_connector b)), lc_now := bt_curTs b\<rparr>"
  obtain e w where p: "eg_process (local_proxy u) dl pc (bt_curTs b) (t_ts (last ticks)) ?e ?w = (e, w)" by fastforce
  obtain sigs w' where s: "lc_update dl w = (sigs, w')" by fastforce
  obtain evs where evs: "fold (bt_signal u (lc_market w')) sigs e = eg_run (local_proxy u) dl pc evs e" "ticks_of evs = []"
    using signals_run [of u "lc_market w'" sigs e "local_proxy u" dl pc] by blast
  have f: "bt_strategy (bt_feed u dl pc ticks b) = fold (bt_signal u (lc_market w')) sigs e"
    by (simp add: bt_feed_def Let_def p s)
  show ?thesis unfolding f
    by (rule exI [of _ "Ev_data (Md_ticks ticks) # Ev_process (bt_curTs b) (t_ts (last ticks)) ?w # evs"])
      (simp add: evs eg_run_def eg_event_def p)
qed

lemma feed_fields [simp]:
  "bt_curTs (bt_feed u dl pc ticks b) = bt_curTs b"
  "bt_toTs (bt_feed u dl pc ticks b) = bt_toTs b"
  "bt_timestep (bt_feed u dl pc ticks b) = bt_timestep b"
  "bt_stream (bt_feed u dl pc ticks b) = bt_stream b"
  by (simp_all add: bt_feed_def Let_def split_beta)

text \<open>A step asks the stream for the ticks up to its time and gives them to the strategy.\<close>

lemma step_run:
  assumes "running (eg_strategy (bt_strategy b))" "bt_stream b = Some s" "st_fillNext fs (bt_curTs b) s [] = Some (ticks, s')"
  obtains b' evs where "bt_step u dl fs pc b = Some b'" "bt_stream b' = Some s'" "bt_curTs b' = bt_curTs b"
    "bt_toTs b' = bt_toTs b" "bt_timestep b' = bt_timestep b" "ticks_of evs = ticks"
    "bt_strategy b' = eg_run (local_proxy u) dl pc evs (bt_strategy b)"
proof (cases "ticks = []")
  case True
  show thesis
    by (rule that [of "b\<lparr>bt_stream := Some s'\<rparr>" "[]"]) (use assms True in \<open>simp_all add: bt_step_def eg_run_def\<close>)
next
  case False
  obtain evs where "bt_strategy (bt_feed u dl pc ticks (b\<lparr>bt_stream := Some s'\<rparr>))
      = eg_run (local_proxy u) dl pc evs (bt_strategy b)" "ticks_of evs = ticks"
    using feed_run [of u dl pc ticks "b\<lparr>bt_stream := Some s'\<rparr>"] by auto
  with False show thesis
    by (intro that [of "bt_feed u dl pc ticks (b\<lparr>bt_stream := Some s'\<rparr>)" evs])
      (use assms in \<open>simp_all add: bt_step_def\<close>)
qed

context plugin begin

lemma run_config: "eg_config (eg_run px dl pc evs e) = eg_config e"
proof (induction evs arbitrary: e)
  case (Cons ev evs)
  have "eg_config (eg_event px dl pc ev e) = eg_config e"
    by (cases rule: event_cases [of px dl ev e])
  then show ?case using Cons by (simp add: eg_run_def)
qed (simp add: eg_run_def)

lemma run_running: "running (eg_strategy (eg_run px dl pc evs e)) = running (eg_strategy e)"
  using arg_cong [OF run_config [of px dl evs e], of sg_curState] by (simp add: eg_config_def running_def)

end

text \<open>The plugins over the local connector.\<close>

locale backtest_plugin = plugin pc for pc :: "(lc, 'x engine_scheme) plugin_code"
begin

text \<open>A running strategy gets all the ticks of its stream up to the last step, and the backtest ends when the stream can be read.\<close>

lemma backtest_events:
  assumes "0 < bt_timestep b" "running (eg_strategy (bt_strategy b))" "bt_stream b = Some s"
    and "st_calls fs (bt_moments (bt_curTs b) (bt_toTs b) (bt_timestep b)) s = Some (xss, s')"
  shows "\<exists>b' evs. bt_run u dl fs pc b = Some b' \<and> bt_toTs b' < bt_curTs b' \<and> bt_toTs b' = bt_toTs b
    \<and> bt_strategy b' = eg_run (local_proxy u) dl pc evs (bt_strategy b) \<and> ticks_of evs = concat xss"
  using assms
proof (induction "length (bt_moments (bt_curTs b) (bt_toTs b) (bt_timestep b))" arbitrary: b s xss rule: less_induct)
  case less
  show ?case
  proof (cases "bt_curTs b > bt_toTs b")
    case True
    then have "xss = []" using less.prems(1,4) by simp
    then show ?thesis using True by (intro exI [of _ b] exI [of _ "[]"]) (simp add: bt_run.simps eg_run_def)
  next
    case False
    let ?m = "bt_moments (bt_curTs b + bt_timestep b) (bt_toTs b) (bt_timestep b)"
    have m: "bt_moments (bt_curTs b) (bt_toTs b) (bt_timestep b) = bt_curTs b # ?m"
      using False less.prems(1) by (intro bt_moments_Cons) auto
    obtain ticks s1 xss' where c: "st_fillNext fs (bt_curTs b) s [] = Some (ticks, s1)" "st_calls fs ?m s1 = Some (xss', s')" "xss = ticks # xss'"
      using less.prems(4) by (auto simp: m split: option.splits)
    obtain b1 evs where b1: "bt_step u dl fs pc b = Some b1" "bt_stream b1 = Some s1" "bt_curTs b1 = bt_curTs b"
      "bt_toTs b1 = bt_toTs b" "bt_timestep b1 = bt_timestep b" "ticks_of evs = ticks"
      "bt_strategy b1 = eg_run (local_proxy u) dl pc evs (bt_strategy b)"
      using step_run [OF less.prems(2,3) c(1)] by blast
    let ?b = "b1\<lparr>bt_curTs := bt_curTs b + bt_timestep b\<rparr>"
    have "\<exists>b' evs'. bt_run u dl fs pc ?b = Some b' \<and> bt_toTs b' < bt_curTs b' \<and> bt_toTs b' = bt_toTs ?b
      \<and> bt_strategy b' = eg_run (local_proxy u) dl pc evs' (bt_strategy ?b) \<and> ticks_of evs' = concat xss'"
      by (rule less.hyps) (use less.prems(1,2) b1 c(2) in \<open>simp_all add: m run_running\<close>)
    then obtain b' evs' where r: "bt_run u dl fs pc ?b = Some b'" "bt_toTs b' < bt_curTs b'" "bt_toTs b' = bt_toTs b"
      "bt_strategy b' = eg_run (local_proxy u) dl pc evs' (bt_strategy b1)" "ticks_of evs' = concat xss'"
      using b1(4) by auto
    show ?thesis
      by (rule exI [of _ b'], rule exI [of _ "evs @ evs'"])
        (use False r b1(1,3,5,6,7) c(3) in \<open>simp add: bt_run.simps [of _ _ _ _ b] eg_run_def\<close>)
  qed
qed

lemma backtest_delivers:
  assumes "0 < bt_timestep b" "running (eg_strategy (bt_strategy b))" "bt_stream b = Some s" "st_ok fs s"
  shows "\<exists>b' evs. bt_run u dl fs pc b = Some b' \<and> bt_toTs b' < bt_curTs b' \<and> bt_toTs b' = bt_toTs b
    \<and> bt_strategy b' = eg_run (local_proxy u) dl pc evs (bt_strategy b)
    \<and> ticks_of evs = filter (\<lambda>t. \<exists>T\<in>set (bt_moments (bt_curTs b) (bt_toTs b) (bt_timestep b)). t_ts t \<le> T) (due fs s)"
proof -
  obtain xss s' where c: "st_calls fs (bt_moments (bt_curTs b) (bt_toTs b) (bt_timestep b)) s = Some (xss, s')"
    "concat xss = filter (\<lambda>t. \<exists>T\<in>set (bt_moments (bt_curTs b) (bt_toTs b) (bt_timestep b)). t_ts t \<le> T) (due fs s)"
    using calls_once [OF assms(4)] by blast
  show ?thesis using backtest_events [OF assms(1-3) c(1), of u dl] unfolding c(2) .
qed

end

section \<open>A backtest of the pullback plugin\<close>

interpretation pbb: backtest_plugin "pb_code dl newArray ta" for dl newArray ta
  by unfold_locales


definition demo_backtest :: "pullback backtest" where
  "demo_backtest = \<lparr>bt_fromTs = 15, bt_toTs = 45, bt_curTs = 15, bt_timestep = 10,
     bt_strategy = demo_pullback\<lparr>eg_strategy := new_strategy\<lparr>sg_curState := SG_RUNNING\<rparr>\<rparr>, bt_stream = Some demo_stream, bt_connector = sample_lc\<rparr>"


end
