(* ===== verification/Signal_Spacing.thy ===== *)
theory Signal_Spacing
  imports Strategy_Engine
begin

text \<open>
  The plugins mean to take one signal for each bar of their signal analyser: a signal is dropped unless more than a timeframe passed since the
  last one. The locale states what such a plugin promises, and what follows for the trades of a run.
\<close>

section \<open>One step\<close>

lemma engine_more [simp]:
  "engine.more (fst (snd (eg_reverse px sn e w))) = engine.more e" "engine.more (fst (eg_manage px dl pc ts e w)) = engine.more e"
  "engine.more (fst (eg_enter px dl pc ts sn n e w)) = engine.more e" "engine.more (eg_updateStats m e) = engine.more e"
  "engine.more (eg_onOrderSignal m u os e) = engine.more e" "engine.more (eg_onPositionSignal ps e) = engine.more e"
  by (simp_all add: eg_reverse_def eg_manage_def eg_enter_def eg_orderEntry_def eg_updateStats_def eg_set_stats_def eg_onOrderSignal_def
    eg_onPositionSignal_def Let_def split_beta split: option.split)

lemma engine_last [simp]:
  "eg_lastSignal (fst (snd (eg_reverse px sn e w))) = eg_lastSignal e" "eg_lastSignal (fst (eg_manage px dl pc ts e w)) = eg_lastSignal e"
  "eg_lastSignal (fst (eg_enter px dl pc ts sn n e w)) = (if sn_type sn = SN_ENTRY then sn else eg_lastSignal e)"
  "eg_lastSignal (eg_updateStats m e) = eg_lastSignal e"
  "eg_lastSignal (eg_onOrderSignal m u os e) = eg_lastSignal e" "eg_lastSignal (eg_onPositionSignal ps e) = eg_lastSignal e"
  by (simp_all add: eg_reverse_def eg_manage_def eg_enter_def eg_orderEntry_def eg_updateStats_def eg_set_stats_def eg_onOrderSignal_def
    eg_onPositionSignal_def Let_def split_beta split: option.split)

text \<open>What a plugin that takes one signal for each timeframe promises; the timeframe is a part of its own state.\<close>

locale spaced_plugin = plugin pc for pc :: "('w, 'x engine_scheme) plugin_code" +
  fixes tf :: "'x engine_scheme \<Rightarrow> dbl"
  assumes tf_more: "engine.more e = engine.more e' \<Longrightarrow> tf e = tf e'"
    and data_tf: "tf (pc_data pc md e) = tf e"
    and prep_tf: "tf (pc_prepare pc ts e) = tf e"
    and analysers_tf: "tf (pc_analysers pc ts now e) = tf e"
    and signal_tf: "tf (snd (pc_computeSignal pc ts m e)) = tf e"
    and data_last: "eg_lastSignal (pc_data pc md e) = eg_lastSignal e"
    and prep_last: "eg_lastSignal (pc_prepare pc ts e) = eg_lastSignal e"
    and analysers_last: "eg_lastSignal (pc_analysers pc ts now e) = eg_lastSignal e"
    and signal_last: "eg_lastSignal (snd (pc_computeSignal pc ts m e)) = eg_lastSignal e"
    and spaced: "sn_type (fst (pc_computeSignal pc ts m e)) = SN_ENTRY \<Longrightarrow>
      sn_timestamp (fst (pc_computeSignal pc ts m e)) = ts \<and> sn_timeframe (fst (pc_computeSignal pc ts m e)) = tf e
      \<and> sn_timestamp (eg_lastSignal e) + sn_timeframe (eg_lastSignal e) < ts"
begin

lemma tf_parts [simp]:
  "tf (e\<lparr>eg_strategy := x1\<rparr>) = tf e" "tf (e\<lparr>eg_breakeven := x2\<rparr>) = tf e" "tf (e\<lparr>eg_dynamicStop := x3\<rparr>) = tf e"
  by (rule tf_more; simp)+

lemma tf_signals: "tf (eg_onOrderSignal m u os e) = tf e" "tf (eg_onPositionSignal ps e) = tf e"
  by (rule tf_more; simp)+

lemma prepare_kept:
  "tf (eg_prepare dl pc h t (pc_prepare pc t e)) = tf e"
  "eg_lastSignal (eg_prepare dl pc h t (pc_prepare pc t e)) = eg_lastSignal e"
  by (simp_all add: eg_prepare_def Let_def analysers_tf prep_tf analysers_last prep_last)

lemma process_signal:
  fixes e :: "'x engine_scheme" and px :: "'w proxy" and w :: 'w and dl :: date_lib and h t :: dbl
  defines "e' \<equiv> fst (eg_process px dl pc h t e w)"
  shows "tf e' = tf e
    \<and> (eg_lastSignal e' = eg_lastSignal e \<and> subseq (keys (eg_trades e')) (keys (eg_trades e))
       \<or> sn_timestamp (eg_lastSignal e') = t \<and> sn_timeframe (eg_lastSignal e') = tf e
         \<and> sn_timestamp (eg_lastSignal e) + sn_timeframe (eg_lastSignal e) < t)"
proof -
  define e0 where "e0 = e\<lparr>eg_strategy := (eg_strategy e)\<lparr>sg_processing := True\<rparr>\<rparr>"
  define e1 where "e1 = eg_prepare dl pc h t (pc_prepare pc t e0)"
  obtain sn e2 where cs: "pc_computeSignal pc t (px_market px w) e1 = (sn, e2)" by fastforce
  obtain n e3 w3 where rv: "eg_reverse px sn e2 w = (n, e3, w3)" by (metis prod_cases3)
  obtain e4 w4 where mg: "eg_manage px dl pc t e3 w3 = (e4, w4)" by fastforce
  have c: "eg_compute px dl pc h t (pc_prepare pc t e0) w = eg_enter px dl pc t sn n e4 w4"
    by (simp add: eg_compute_def Let_def e1_def [symmetric] cs rv mg)
  have k1: "tf e1 = tf e" "eg_lastSignal e1 = eg_lastSignal e"
    using prepare_kept [of dl h t e0] by (simp_all add: e1_def e0_def)
  have k2: "tf e2 = tf e" "eg_lastSignal e2 = eg_lastSignal e"
    using signal_tf [of t "px_market px w" e1] signal_last [of t "px_market px w" e1] k1 by (simp_all add: cs)
  have k4: "tf e4 = tf e" "eg_lastSignal e4 = eg_lastSignal e"
    using tf_more [of e4 e3] tf_more [of e3 e2] arg_cong [OF mg, of "engine.more \<circ> fst"] arg_cong [OF rv, of "engine.more \<circ> fst \<circ> snd"]
      arg_cong [OF mg, of "eg_lastSignal \<circ> fst"] arg_cong [OF rv, of "eg_lastSignal \<circ> fst \<circ> snd"] k2 by simp_all
  have m': "engine.more e' = engine.more e4"
    by (simp add: e'_def eg_process_def Let_def split_beta e0_def [symmetric] c)
  have e': "tf e' = tf e4" "eg_lastSignal e' = (if sn_type sn = SN_ENTRY then sn else eg_lastSignal e4)"
    "eg_trades e' = eg_trades (fst (eg_enter px dl pc t sn n e4 w4))"
    by (rule tf_more [OF m'])
      (simp_all add: e'_def eg_process_def Let_def split_beta e0_def [symmetric] c eg_updateStats_def eg_set_stats_def)
  show ?thesis
  proof (cases "sn_type sn = SN_ENTRY")
    case True
    then have "sn_timestamp sn = t \<and> sn_timeframe sn = tf e \<and> sn_timestamp (eg_lastSignal e) + sn_timeframe (eg_lastSignal e) < t"
      using spaced [of t "px_market px w" e1] k1 by (simp add: cs)
    then show ?thesis using True e' k4 by simp
  next
    case False
    have "eg_core e2 = eg_core e0"
      using signal_core [of t "px_market px w" e1] analysers_core prep_core [of t e0] cs by (simp add: e1_def eg_prepare_def Let_def eg_core_def)
    then have "eg_trades e2 = eg_trades e" by (simp add: eg_core_def e0_def)
    moreover have "e3 = e2" using rv False by (simp add: eg_reverse_def)
    moreover have "subseq (keys (eg_trades e4)) (keys (eg_trades e3))"
      using mg tm_process_keys [OF hooks, of px px e3 dl "eg_now e3" t "eg_trades e3" "sg_stats (eg_strategy e3)" "eg_pool e3" w3]
      by (auto simp: eg_manage_def Let_def eg_set_stats_def split: prod.splits)
    ultimately show ?thesis using False e' k4 by (simp add: eg_enter_def)
  qed
qed

section \<open>Runs\<close>

text \<open>From a signal on, the last signal is never older than it and has the timeframe of the plugin.\<close>

lemma run_marks:
  assumes "0 \<le> tf e" "t \<le> sn_timestamp (eg_lastSignal e)" "sn_timeframe (eg_lastSignal e) = tf e"
  shows "tf (eg_run px dl pc evs e) = tf e \<and> t \<le> sn_timestamp (eg_lastSignal (eg_run px dl pc evs e))
    \<and> sn_timeframe (eg_lastSignal (eg_run px dl pc evs e)) = tf e"
  using assms
proof (induction evs arbitrary: e)
  case (Cons ev evs)
  let ?e = "eg_event px dl pc ev e"
  have "tf ?e = tf e \<and> t \<le> sn_timestamp (eg_lastSignal ?e) \<and> sn_timeframe (eg_lastSignal ?e) = tf e"
  proof (cases ev)
    case (Ev_process h s w)
    then show ?thesis using process_signal [of px dl h s e w] Cons.prems by (auto simp: eg_event_def)
  qed (use Cons.prems in \<open>simp_all add: eg_event_def data_tf data_last tf_signals\<close>)
  with Cons.IH [of ?e] Cons.prems(1) show ?case by (simp add: eg_run_def)
qed (simp add: eg_run_def)

lemma run_tf: "tf (eg_run px dl pc evs e) = tf e"
proof (induction evs arbitrary: e)
  case (Cons ev evs)
  have "tf (eg_event px dl pc ev e) = tf e"
    using process_signal by (cases ev) (simp_all add: eg_event_def data_tf tf_signals)
  with Cons show ?case by (simp add: eg_run_def)
qed (simp add: eg_run_def)

text \<open>Two steps of a run that both open a trade are more than the timeframe apart.\<close>

lemma openings_apart:
  assumes "e1 = eg_run px dl pc evs e" "e1' = fst (eg_process px dl pc h1 t1 e1 w1)"
    and "e2 = eg_run px dl pc evs' e1'" "e2' = fst (eg_process px dl pc h2 t2 e2 w2)"
    and "\<not> subseq (keys (eg_trades e1')) (keys (eg_trades e1))" "\<not> subseq (keys (eg_trades e2')) (keys (eg_trades e2))"
    and "0 \<le> tf e"
  shows "t1 + tf e < t2"
proof -
  have g: "tf e1 = tf e" by (simp add: assms(1) run_tf)
  have s1: "sn_timestamp (eg_lastSignal e1') = t1" "sn_timeframe (eg_lastSignal e1') = tf e" "tf e1' = tf e"
    using process_signal [of px dl h1 t1 e1 w1, folded assms(2)] assms(5) g by auto
  have s2: "t1 \<le> sn_timestamp (eg_lastSignal e2)" "sn_timeframe (eg_lastSignal e2) = tf e"
    using run_marks [of e1' t1 px dl evs', folded assms(3)] s1 assms(7) by simp_all
  have "sn_timestamp (eg_lastSignal e2) + sn_timeframe (eg_lastSignal e2) < t2"
    using process_signal [of px dl h2 t2 e2 w2, folded assms(4)] assms(6) by blast
  with s2 show ?thesis by simp
qed

end

end
