(* ===== verification/Ta_Lib.thy ===== *)
theory Ta_Lib
  imports Ta_Indicators
begin

text \<open>
  The functions of TA-Lib behind the Bollinger bands and the directional index (\<^verbatim>\<open>strategies/third/ta-lib/src/ta_func\<close>):
  \<^verbatim>\<open>ta_SMA.c\<close>, \<^verbatim>\<open>ta_EMA.c\<close>, \<^verbatim>\<open>ta_VAR.c\<close>, \<^verbatim>\<open>ta_STDDEV.c\<close>, \<^verbatim>\<open>ta_MA.c\<close>, \<^verbatim>\<open>ta_BBANDS.c\<close>, \<^verbatim>\<open>ta_ADX.c\<close>. The end index is
  that of the last value, as all callers pass it. The square root, the unstable periods of the library and the averages that
  the plugins do not ask for are parameters. The record of \<open>Ta_Indicators\<close> is instantiated by these functions.
\<close>

section \<open>Return codes and ranges\<close>

datatype RetCode =
    TA_SUCCESS | TA_LIB_NOT_INITIALIZE | TA_BAD_PARAM | TA_ALLOC_ERR | TA_GROUP_NOT_FOUND | TA_FUNC_NOT_FOUND
  | TA_INVALID_HANDLE | TA_INVALID_PARAM_HOLDER | TA_INVALID_PARAM_HOLDER_TYPE | TA_INVALID_PARAM_FUNCTION
  | TA_INPUT_NOT_ALL_INITIALIZE | TA_OUTPUT_NOT_ALL_INITIALIZE | TA_OUT_OF_RANGE_START_INDEX | TA_OUT_OF_RANGE_END_INDEX
  | TA_INVALID_LIST_TYPE | TA_BAD_OBJECT | TA_NOT_SUPPORTED | TA_INTERNAL_ERROR | TA_UNKNOWN_ERR

text \<open>What a function returns: its code when it fails, the first index and the values when it succeeds.\<close>

type_synonym 'a ta_result = "RetCode + nat \<times> 'a"

definition TA_IS_ZERO :: "dbl \<Rightarrow> bool" where
  "TA_IS_ZERO v \<longleftrightarrow> - (1 / 100000000) < v \<and> v < 1 / 100000000"

definition TA_IS_ZERO_OR_NEG :: "dbl \<Rightarrow> bool" where
  "TA_IS_ZERO_OR_NEG v \<longleftrightarrow> v < 1 / 100000000"

definition ta_real :: "dbl \<Rightarrow> dbl \<Rightarrow> dbl" where
  "ta_real dflt x = (if x = - (4 * 10 ^ 37) then dflt else x)"

definition ta_range :: "int \<Rightarrow> 'b list \<Rightarrow> bool \<Rightarrow> 'a ta_result \<Rightarrow> 'a ta_result" where
  "ta_range startIdx inReal param_ok result =
     (if startIdx < 0 then Inl TA_OUT_OF_RANGE_START_INDEX
      else if int (length inReal) - 1 < 0 \<or> int (length inReal) - 1 < startIdx then Inl TA_OUT_OF_RANGE_END_INDEX
      else if \<not> param_ok then Inl TA_BAD_PARAM
      else result)"

lemma ta_range_0: "xs \<noteq> [] \<Longrightarrow> ta_range 0 xs True r = r"
  by (cases xs) (simp_all add: ta_range_def)

lemma ta_range_Inr:
  "ta_range startIdx xs ok r = Inr y \<longleftrightarrow> 0 \<le> startIdx \<and> startIdx < int (length xs) \<and> ok \<and> r = Inr y"
  by (auto simp: ta_range_def)

section \<open>Simple moving average\<close>

primrec add_up :: "dbl list \<Rightarrow> nat \<Rightarrow> nat \<Rightarrow> dbl \<Rightarrow> dbl" where
  "add_up inReal i 0 acc = acc"
| "add_up inReal i (Suc d) acc = add_up inReal (i + 1) d (acc + inReal ! i)"

function sma_loop :: "dbl list \<Rightarrow> nat \<Rightarrow> nat \<Rightarrow> nat \<Rightarrow> dbl \<Rightarrow> dbl list" where
  "sma_loop inReal period i trailingIdx periodTotal =
     (if i < length inReal then
        (let tempReal = periodTotal + inReal ! i;
             periodTotal = tempReal - inReal ! trailingIdx
         in tempReal / of_nat period # sma_loop inReal period (i + 1) (trailingIdx + 1) periodTotal)
      else [])"
  by pat_completeness auto

termination
  by (relation "measure (\<lambda>(inReal, period, i, _). length inReal - i)") auto

declare sma_loop.simps [simp del]

definition TA_INT_SMA :: "nat \<Rightarrow> dbl list \<Rightarrow> nat \<Rightarrow> dbl list ta_result" where
  "TA_INT_SMA startIdx inReal period =
     (let lookbackTotal = period - 1; startIdx = max startIdx lookbackTotal in
      if length inReal \<le> startIdx then Inr (0, [])
      else
        let trailingIdx = startIdx - lookbackTotal;
            periodTotal = (if period > 1 then add_up inReal trailingIdx (startIdx - trailingIdx) 0 else 0)
        in Inr (startIdx, sma_loop inReal period startIdx trailingIdx periodTotal))"

definition TA_SMA :: "int \<Rightarrow> dbl list \<Rightarrow> int \<Rightarrow> dbl list ta_result" where
  "TA_SMA startIdx inReal period =
     (let period = ta_period 30 period in
      ta_range startIdx inReal (2 \<le> period \<and> period \<le> 100000) (TA_INT_SMA (nat startIdx) inReal (nat period)))"

text \<open>The mean of the values of a window.\<close>

definition win_mean :: "nat \<Rightarrow> (nat \<Rightarrow> dbl) \<Rightarrow> nat \<Rightarrow> dbl" where
  "win_mean n f k = (\<Sum>j<n. f (k + j)) / of_nat n"

lemma add_up_sum: "add_up xs i d t = t + (\<Sum>j<d. xs ! (i + j))"
  by (induction d arbitrary: i t) (simp_all add: sum.lessThan_Suc_shift del: sum.lessThan_Suc)

text \<open>How a sum moves: the next value comes in, the first one goes out.\<close>

lemma win_in: "(\<Sum>j<m. f (k + j)) + f (k + m) = (\<Sum>j<Suc m. f (k + j :: nat) :: dbl)"
  by simp

lemma win_out: "(\<Sum>j<Suc m. f (k + j :: nat) :: dbl) - f k = (\<Sum>j<m. f (Suc k + j))"
  by (simp add: sum.lessThan_Suc_shift del: sum.lessThan_Suc)

lemma sma_loop_means:
  assumes "i = k + m" "t = (\<Sum>j<m. xs ! (k + j))"
  shows "sma_loop xs (Suc m) i k t = map (win_mean (Suc m) ((!) xs)) [k..<length xs - m]"
  using assms
proof (induction "length xs - i" arbitrary: i k t)
  case 0
  then show ?case by (subst sma_loop.simps) (auto simp: upt_conv_Nil)
next
  case (Suc d)
  have lt: "i < length xs" using Suc.hyps(2) by simp
  have t: "t + xs ! i = (\<Sum>j<Suc m. xs ! (k + j))" using Suc.prems by simp
  have IH: "sma_loop xs (Suc m) (i + 1) (k + 1) ((\<Sum>j<Suc m. xs ! (k + j)) - xs ! k)
      = map (win_mean (Suc m) ((!) xs)) [k + 1..<length xs - m]"
    by (rule Suc.hyps(1)) (use Suc.hyps(2) Suc.prems(1) in \<open>simp_all only: win_out\<close>, simp_all)
  have "[k..<length xs - m] = k # [k + 1..<length xs - m]" using lt Suc.prems(1) by (subst upt_conv_Cons) auto
  moreover have "sma_loop xs (Suc m) i k t
      = (\<Sum>j<Suc m. xs ! (k + j)) / of_nat (Suc m) # sma_loop xs (Suc m) (i + 1) (k + 1) ((\<Sum>j<Suc m. xs ! (k + j)) - xs ! k)"
    using lt by (subst sma_loop.simps) (simp only: Let_def t if_True)
  ultimately show ?case by (simp only: IH list.map win_mean_def)
qed

lemma int_sma_means:
  assumes "startIdx < length xs" "m < length xs"
  shows "TA_INT_SMA startIdx xs (Suc m)
    = Inr (max startIdx m, map (win_mean (Suc m) ((!) xs)) [max startIdx m - m..<length xs - m])"
proof -
  define k where "k = max startIdx m - m"
  have k: "max startIdx m = k + m" by (simp add: k_def)
  have "\<not> length xs \<le> k + m" using assms k by auto
  then have "TA_INT_SMA startIdx xs (Suc m) = Inr (k + m, sma_loop xs (Suc m) (k + m) k (\<Sum>j<m. xs ! (k + j)))"
    unfolding TA_INT_SMA_def Let_def diff_Suc_1 k by (cases "m = 0") (simp_all add: add_up_sum)
  then show ?thesis unfolding k by (simp add: sma_loop_means)
qed

section \<open>Exponential moving average\<close>

primrec ema_skip :: "dbl list \<Rightarrow> dbl \<Rightarrow> nat \<Rightarrow> nat \<Rightarrow> dbl \<Rightarrow> dbl" where
  "ema_skip inReal k_1 today 0 prevMA = prevMA"
| "ema_skip inReal k_1 today (Suc d) prevMA = ema_skip inReal k_1 (today + 1) d ((inReal ! today - prevMA) * k_1 + prevMA)"

primrec ema_loop :: "dbl \<Rightarrow> dbl list \<Rightarrow> dbl \<Rightarrow> dbl list" where
  "ema_loop k_1 [] prevMA = []"
| "ema_loop k_1 (x # xs) prevMA = (let prevMA = (x - prevMA) * k_1 + prevMA in prevMA # ema_loop k_1 xs prevMA)"

definition TA_INT_EMA :: "nat \<Rightarrow> bool \<Rightarrow> nat \<Rightarrow> dbl list \<Rightarrow> nat \<Rightarrow> dbl \<Rightarrow> dbl list ta_result" where
  "TA_INT_EMA unst classic startIdx inReal period k_1 =
     (let lookbackTotal = period - 1 + unst; startIdx = max startIdx lookbackTotal in
      if length inReal \<le> startIdx then Inr (0, [])
      else
        let (prevMA, today) =
              (if classic then (add_up inReal (startIdx - lookbackTotal) period 0 / of_nat period, startIdx - lookbackTotal + period)
               else (inReal ! 0, 1));
            prevMA = ema_skip inReal k_1 today (startIdx + 1 - today) prevMA
        in Inr (startIdx, prevMA # ema_loop k_1 (drop (startIdx + 1) inReal) prevMA))"

definition TA_EMA :: "nat \<Rightarrow> bool \<Rightarrow> int \<Rightarrow> dbl list \<Rightarrow> int \<Rightarrow> dbl list ta_result" where
  "TA_EMA unst classic startIdx inReal period =
     (let period = ta_period 30 period in
      ta_range startIdx inReal (2 \<le> period \<and> period \<le> 100000)
        (TA_INT_EMA unst classic (nat startIdx) inReal (nat period) (2 / (of_int period + 1))))"

text \<open>An exponential average stays between the bounds of the values.\<close>

definition in_band :: "dbl \<Rightarrow> dbl \<Rightarrow> dbl \<Rightarrow> bool" where
  "in_band lo hi x \<longleftrightarrow> lo \<le> x \<and> x \<le> hi"

lemma ema_step_within:
  assumes "in_band lo hi x" "in_band lo hi m" "0 \<le> k" "k \<le> 1"
  shows "in_band lo hi ((x - m) * k + m)"
proof -
  have "(x - m) * k + m = k * x + (1 - k) * m" by (simp add: algebra_simps)
  moreover have "k * lo \<le> k * x" "k * x \<le> k * hi" "(1 - k) * lo \<le> (1 - k) * m" "(1 - k) * m \<le> (1 - k) * hi"
    using assms by (simp_all add: in_band_def mult_left_mono)
  ultimately show ?thesis by (simp add: in_band_def algebra_simps)
qed

lemma ema_skip_within:
  "\<forall>i. in_band lo hi (xs ! i) \<or> today + d \<le> i \<Longrightarrow> in_band lo hi m \<Longrightarrow> 0 \<le> k \<Longrightarrow> k \<le> 1 \<Longrightarrow> in_band lo hi (ema_skip xs k today d m)"
proof (induction d arbitrary: today m)
  case (Suc d)
  have "in_band lo hi (xs ! today)" using Suc.prems(1) [THEN spec, of today] by simp
  then show ?case using Suc by (simp add: ema_step_within)
qed simp

lemma ema_loop_within:
  "\<forall>x\<in>set xs. in_band lo hi x \<Longrightarrow> in_band lo hi m \<Longrightarrow> 0 \<le> k \<Longrightarrow> k \<le> 1 \<Longrightarrow> \<forall>y\<in>set (ema_loop k xs m). in_band lo hi y"
proof (induction xs arbitrary: m)
  case (Cons a xs)
  have a: "in_band lo hi ((a - m) * k + m)" by (rule ema_step_within) (use Cons.prems in simp_all)
  have "\<forall>y\<in>set (ema_loop k xs ((a - m) * k + m)). in_band lo hi y"
    by (rule Cons.IH [OF _ a Cons.prems(3,4)]) (use Cons.prems(1) in simp)
  with a show ?case by (simp only: ema_loop.simps Let_def list.set ball_simps simp_thms)
qed simp

lemma add_up_within:
  assumes "\<forall>j<d. in_band lo hi (xs ! (i + j))" "0 < d"
  shows "in_band lo hi (add_up xs i d 0 / of_nat d)"
proof -
  have "of_nat d * lo \<le> (\<Sum>j<d. xs ! (i + j))" "(\<Sum>j<d. xs ! (i + j)) \<le> of_nat d * hi"
    using sum_bounded_below [of "{..<d}" lo "\<lambda>j. xs ! (i + j)"] sum_bounded_above [of "{..<d}" "\<lambda>j. xs ! (i + j)" hi] assms(1)
    by (auto simp: in_band_def)
  then show ?thesis using assms(2) by (simp add: add_up_sum in_band_def pos_le_divide_eq pos_divide_le_eq mult.commute)
qed

lemma ema_in_band:
  assumes "TA_EMA unst classic 0 xs period = Inr (b, out)" "\<forall>x\<in>set xs. in_band lo hi x"
  shows "\<forall>y\<in>set out. in_band lo hi y"
proof -
  define n where "n = nat (ta_period 30 period)"
  define k where "k = 2 / (of_int (ta_period 30 period) + 1 :: dbl)"
  define lb where "lb = n - 1 + unst"
  have p: "2 \<le> n" "ta_period 30 period = int n" and r: "TA_INT_EMA unst classic 0 xs n k = Inr (b, out)"
    using assms(1) by (auto simp: TA_EMA_def Let_def ta_range_Inr n_def k_def)
  have k: "0 \<le> k" "k \<le> 1" using p by (simp_all add: k_def divide_le_eq)
  have v: "in_band lo hi (xs ! i)" if "i < length xs" for i using that assms(2) by simp
  show ?thesis
  proof (cases "length xs \<le> lb")
    case True
    then show ?thesis using r by (simp add: TA_INT_EMA_def Let_def lb_def)
  next
    case False
    define today where "today = (if classic then n else 1)"
    define m where "m = (if classic then add_up xs 0 n 0 / of_nat n else xs ! 0)"
    have l: "n \<le> length xs" "lb < length xs" using False p(1) by (auto simp: lb_def)
    then have "in_band lo hi (add_up xs 0 n 0 / of_nat n)" using v p(1) by (intro add_up_within) auto
    then have "in_band lo hi m" using v [of 0] l p(1) by (cases xs) (auto simp: m_def)
    moreover have "in_band lo hi (xs ! i) \<or> today + (lb + 1 - today) \<le> i" for i
      using v [of i] l p(1) by (cases "i < length xs") (auto simp: today_def lb_def)
    ultimately have s: "in_band lo hi (ema_skip xs k today (lb + 1 - today) m)" using k by (intro ema_skip_within) auto
    have "out = ema_skip xs k today (lb + 1 - today) m # ema_loop k (drop (lb + 1) xs) (ema_skip xs k today (lb + 1 - today) m)"
      using r False by (auto simp: TA_INT_EMA_def Let_def lb_def today_def m_def)
    moreover have "\<forall>x\<in>set (drop (lb + 1) xs). in_band lo hi x" using assms(2) by (meson in_set_dropD)
    ultimately show ?thesis using s k ema_loop_within [OF _ s] by auto
  qed
qed

section \<open>Variance and standard deviation\<close>

primrec var_start :: "dbl list \<Rightarrow> nat \<Rightarrow> nat \<Rightarrow> dbl \<Rightarrow> dbl \<Rightarrow> dbl \<times> dbl" where
  "var_start inReal i 0 periodTotal1 periodTotal2 = (periodTotal1, periodTotal2)"
| "var_start inReal i (Suc d) periodTotal1 periodTotal2 =
     var_start inReal (i + 1) d (periodTotal1 + inReal ! i) (periodTotal2 + inReal ! i * inReal ! i)"

function var_loop :: "dbl list \<Rightarrow> nat \<Rightarrow> nat \<Rightarrow> nat \<Rightarrow> dbl \<Rightarrow> dbl \<Rightarrow> dbl list" where
  "var_loop inReal period i trailingIdx periodTotal1 periodTotal2 =
     (if i < length inReal then
        (let tempReal = inReal ! i;
             periodTotal1 = periodTotal1 + tempReal;
             periodTotal2 = periodTotal2 + tempReal * tempReal;
             meanValue1 = periodTotal1 / of_nat period;
             meanValue2 = periodTotal2 / of_nat period;
             tempReal = inReal ! trailingIdx
         in (meanValue2 - meanValue1 * meanValue1)
            # var_loop inReal period (i + 1) (trailingIdx + 1) (periodTotal1 - tempReal) (periodTotal2 - tempReal * tempReal))
      else [])"
  by pat_completeness auto

termination
  by (relation "measure (\<lambda>(inReal, period, i, _). length inReal - i)") auto

declare var_loop.simps [simp del]

definition TA_INT_VAR :: "nat \<Rightarrow> dbl list \<Rightarrow> nat \<Rightarrow> dbl list ta_result" where
  "TA_INT_VAR startIdx inReal period =
     (let nbInitialElementNeeded = period - 1; startIdx = max startIdx nbInitialElementNeeded in
      if length inReal \<le> startIdx then Inr (0, [])
      else
        let trailingIdx = startIdx - nbInitialElementNeeded;
            (periodTotal1, periodTotal2) = (if period > 1 then var_start inReal trailingIdx (startIdx - trailingIdx) 0 0 else (0, 0))
        in Inr (startIdx, var_loop inReal period startIdx trailingIdx periodTotal1 periodTotal2))"

definition dev_of :: "(dbl \<Rightarrow> dbl) \<Rightarrow> dbl \<Rightarrow> dbl" where
  "dev_of rt v = (if \<not> TA_IS_ZERO_OR_NEG v then rt v else 0)"

definition TA_STDDEV :: "(dbl \<Rightarrow> dbl) \<Rightarrow> int \<Rightarrow> dbl list \<Rightarrow> int \<Rightarrow> dbl \<Rightarrow> dbl list ta_result" where
  "TA_STDDEV rt startIdx inReal period nbDev =
     (let period = ta_period 5 period; nbDev = ta_real 1 nbDev in
      ta_range startIdx inReal (2 \<le> period \<and> period \<le> 100000 \<and> - (3 * 10 ^ 37) \<le> nbDev \<and> nbDev \<le> 3 * 10 ^ 37)
        (case TA_INT_VAR (nat startIdx) inReal (nat period) of
           Inl e \<Rightarrow> Inl e
         | Inr (b, out) \<Rightarrow>
             Inr (b, map (\<lambda>v. if nbDev \<noteq> 1 then (if \<not> TA_IS_ZERO_OR_NEG v then rt v * nbDev else 0) else dev_of rt v) out)))"

text \<open>The standard deviation from averages that are already there.\<close>

primrec square_up :: "dbl list \<Rightarrow> nat \<Rightarrow> nat \<Rightarrow> dbl \<Rightarrow> dbl" where
  "square_up inReal i 0 periodTotal2 = periodTotal2"
| "square_up inReal i (Suc d) periodTotal2 = square_up inReal (i + 1) d (periodTotal2 + inReal ! i * inReal ! i)"

primrec dev_loop :: "(dbl \<Rightarrow> dbl) \<Rightarrow> dbl list \<Rightarrow> nat \<Rightarrow> dbl list \<Rightarrow> nat \<Rightarrow> nat \<Rightarrow> dbl \<Rightarrow> dbl list" where
  "dev_loop rt inReal timePeriod [] startSum endSum periodTotal2 = []"
| "dev_loop rt inReal timePeriod (ma # inMovAvg) startSum endSum periodTotal2 =
     (let tempReal = inReal ! endSum;
          periodTotal2 = periodTotal2 + tempReal * tempReal;
          meanValue2 = periodTotal2 / of_nat timePeriod;
          tempReal = inReal ! startSum;
          periodTotal2 = periodTotal2 - tempReal * tempReal;
          meanValue2 = meanValue2 - ma * ma
      in dev_of rt meanValue2 # dev_loop rt inReal timePeriod inMovAvg (startSum + 1) (endSum + 1) periodTotal2)"

definition TA_INT_stddev_using_precalc_ma :: "(dbl \<Rightarrow> dbl) \<Rightarrow> dbl list \<Rightarrow> dbl list \<Rightarrow> nat \<Rightarrow> nat \<Rightarrow> dbl list" where
  "TA_INT_stddev_using_precalc_ma rt inReal inMovAvg inMovAvgBegIdx timePeriod =
     (let startSum = 1 + inMovAvgBegIdx - timePeriod; endSum = inMovAvgBegIdx in
      dev_loop rt inReal timePeriod inMovAvg startSum endSum (square_up inReal startSum (endSum - startSum) 0))"

text \<open>The variance of a window: the mean of the squared distances from the mean.\<close>

definition win_var :: "nat \<Rightarrow> (nat \<Rightarrow> dbl) \<Rightarrow> nat \<Rightarrow> dbl" where
  "win_var n f k = (\<Sum>j<n. (f (k + j) - win_mean n f k) * (f (k + j) - win_mean n f k)) / of_nat n"

lemma win_var_eq:
  assumes "0 < n"
  shows "win_var n f k = win_mean n (\<lambda>i. f i * f i) k - win_mean n f k * win_mean n f k"
proof -
  define m where "m = win_mean n f k"
  define s where "s = (\<Sum>j<n. f (k + j))"
  define q where "q = (\<Sum>j<n. f (k + j) * f (k + j))"
  have "(\<Sum>j<n. (f (k + j) - m) * (f (k + j) - m)) = (\<Sum>j<n. f (k + j) * f (k + j) - 2 * m * f (k + j) + m * m)"
    by (rule sum.cong) (simp_all add: algebra_simps)
  also have "\<dots> = q - 2 * m * s + of_nat n * (m * m)"
    by (simp add: q_def s_def sum.distrib sum_subtractf sum_distrib_left)
  finally have e: "(\<Sum>j<n. (f (k + j) - m) * (f (k + j) - m)) = q - 2 * m * s + of_nat n * (m * m)" .
  have n: "(of_nat n :: dbl) \<noteq> 0" using assms by simp
  have sm: "s = of_nat n * m" using n by (simp add: m_def win_mean_def s_def)
  have "win_var n f k = (q - of_nat n * (m * m)) / of_nat n"
    unfolding win_var_def m_def [symmetric] e sm by (simp add: algebra_simps)
  also have "\<dots> = q / of_nat n - m * m" using n by (simp add: diff_divide_distrib)
  finally show ?thesis by (simp add: q_def m_def win_mean_def)
qed

lemma square_up_sum: "square_up xs i d t = t + (\<Sum>j<d. xs ! (i + j) * xs ! (i + j))"
  by (induction d arbitrary: i t) (simp_all add: sum.lessThan_Suc_shift del: sum.lessThan_Suc)

lemma var_start_sums:
  "var_start xs i d s t = (s + (\<Sum>j<d. xs ! (i + j)), t + (\<Sum>j<d. xs ! (i + j) * xs ! (i + j)))"
  by (induction d arbitrary: i s t) (simp_all add: sum.lessThan_Suc_shift del: sum.lessThan_Suc)

lemma dev_loop_devs:
  assumes "e = k + m" "t = (\<Sum>j<m. xs ! (k + j) * xs ! (k + j))"
  shows "dev_loop rt xs (Suc m) (map (win_mean (Suc m) ((!) xs)) [k..<k + d]) k e t
    = map (\<lambda>k. dev_of rt (win_var (Suc m) ((!) xs) k)) [k..<k + d]"
  using assms
proof (induction d arbitrary: k e t)
  case 0
  then show ?case by simp
next
  case (Suc d)
  have t: "t + xs ! e * xs ! e = (\<Sum>j<Suc m. xs ! (k + j) * xs ! (k + j))" using Suc.prems by simp
  have o: "(\<Sum>j<Suc m. xs ! (k + j) * xs ! (k + j)) - xs ! k * xs ! k = (\<Sum>j<m. xs ! (Suc k + j) * xs ! (Suc k + j))"
    by (rule win_out [of "\<lambda>i. xs ! i * xs ! i"])
  have v: "(\<Sum>j<Suc m. xs ! (k + j) * xs ! (k + j)) / of_nat (Suc m) - win_mean (Suc m) ((!) xs) k * win_mean (Suc m) ((!) xs) k
      = win_var (Suc m) ((!) xs) k"
    by (simp only: win_var_eq zero_less_Suc win_mean_def)
  have IH: "dev_loop rt xs (Suc m) (map (win_mean (Suc m) ((!) xs)) [Suc k..<Suc k + d]) (k + 1) (e + 1)
      ((\<Sum>j<Suc m. xs ! (k + j) * xs ! (k + j)) - xs ! k * xs ! k)
    = map (\<lambda>k. dev_of rt (win_var (Suc m) ((!) xs) k)) [Suc k..<Suc k + d]"
    using Suc.IH [of "e + 1" "Suc k", OF _ o] Suc.prems(1) by simp
  have "[k..<k + Suc d] = k # [Suc k..<Suc k + d]" by (simp add: upt_conv_Cons)
  then show ?case by (simp only: list.map dev_loop.simps Let_def t v IH)
qed

lemma var_loop_vars:
  assumes "i = k + m" "s = (\<Sum>j<m. xs ! (k + j))" "t = (\<Sum>j<m. xs ! (k + j) * xs ! (k + j))"
  shows "var_loop xs (Suc m) i k s t = map (win_var (Suc m) ((!) xs)) [k..<length xs - m]"
  using assms
proof (induction "length xs - i" arbitrary: i k s t)
  case 0
  then show ?case by (subst var_loop.simps) (auto simp: upt_conv_Nil)
next
  case (Suc d)
  have lt: "i < length xs" using Suc.hyps(2) by simp
  have s: "s + xs ! i = (\<Sum>j<Suc m. xs ! (k + j))" using Suc.prems by simp
  have t: "t + xs ! i * xs ! i = (\<Sum>j<Suc m. xs ! (k + j) * xs ! (k + j))" using Suc.prems by simp
  have o: "(\<Sum>j<Suc m. xs ! (k + j) * xs ! (k + j)) - xs ! k * xs ! k = (\<Sum>j<m. xs ! (Suc k + j) * xs ! (Suc k + j))"
    by (rule win_out [of "\<lambda>i. xs ! i * xs ! i"])
  have IH: "var_loop xs (Suc m) (i + 1) (k + 1) ((\<Sum>j<Suc m. xs ! (k + j)) - xs ! k)
      ((\<Sum>j<Suc m. xs ! (k + j) * xs ! (k + j)) - xs ! k * xs ! k)
    = map (win_var (Suc m) ((!) xs)) [k + 1..<length xs - m]"
    by (rule Suc.hyps(1)) (use Suc.hyps(2) Suc.prems(1) in \<open>simp_all only: win_out o\<close>, simp_all)
  have "[k..<length xs - m] = k # [k + 1..<length xs - m]" using lt Suc.prems(1) by (subst upt_conv_Cons) auto
  moreover have "var_loop xs (Suc m) i k s t = win_var (Suc m) ((!) xs) k
      # var_loop xs (Suc m) (i + 1) (k + 1) ((\<Sum>j<Suc m. xs ! (k + j)) - xs ! k)
          ((\<Sum>j<Suc m. xs ! (k + j) * xs ! (k + j)) - xs ! k * xs ! k)"
    using lt by (subst var_loop.simps) (simp only: Let_def s t if_True win_var_eq zero_less_Suc win_mean_def)
  ultimately show ?case by (simp only: IH list.map)
qed

lemma int_var_vars:
  assumes "startIdx < length xs" "m < length xs"
  shows "TA_INT_VAR startIdx xs (Suc m)
    = Inr (max startIdx m, map (win_var (Suc m) ((!) xs)) [max startIdx m - m..<length xs - m])"
proof -
  define k where "k = max startIdx m - m"
  have k: "max startIdx m = k + m" by (simp add: k_def)
  have "\<not> length xs \<le> k + m" using assms k by auto
  then have "TA_INT_VAR startIdx xs (Suc m)
      = Inr (k + m, var_loop xs (Suc m) (k + m) k (\<Sum>j<m. xs ! (k + j)) (\<Sum>j<m. xs ! (k + j) * xs ! (k + j)))"
    unfolding TA_INT_VAR_def Let_def diff_Suc_1 k by (cases "m = 0") (simp_all add: var_start_sums)
  then show ?thesis unfolding k by (simp add: var_loop_vars)
qed

lemma stddev_devs:
  assumes "1 \<le> m" "m < 100000" "startIdx < length xs" "m < length xs"
  shows "TA_STDDEV rt (int startIdx) xs (int (Suc m)) 1
    = Inr (max startIdx m, map (\<lambda>k. dev_of rt (win_var (Suc m) ((!) xs) k)) [max startIdx m - m..<length xs - m])"
proof -
  have "nat (1 + int m) = Suc m" by simp
  then show ?thesis using assms int_var_vars [OF assms(3,4)]
    by (auto simp: TA_STDDEV_def Let_def ta_period_def ta_real_def ta_range_def)
qed

section \<open>The choice of an average and the Bollinger bands\<close>

text \<open>From the index 0 on, with the averages of the other kinds as a parameter.\<close>

definition TA_MA_Lookback :: "nat \<Rightarrow> (MAType \<Rightarrow> int \<Rightarrow> int) \<Rightarrow> int \<Rightarrow> MAType \<Rightarrow> int" where
  "TA_MA_Lookback unst other period maType =
     (let period = ta_period 30 period in
      if period < 1 \<or> period > 100000 then -1
      else if period \<le> 1 then 0
      else case maType of
          MA_SMA \<Rightarrow> period - 1
        | MA_EMA \<Rightarrow> period - 1 + int unst
        | MA_WMA \<Rightarrow> period - 1
        | _ \<Rightarrow> other maType period)"

definition TA_MA :: "nat \<Rightarrow> bool \<Rightarrow> (MAType \<Rightarrow> dbl list \<Rightarrow> int \<Rightarrow> dbl list ta_result) \<Rightarrow> dbl list \<Rightarrow> int \<Rightarrow> MAType \<Rightarrow> dbl list ta_result" where
  "TA_MA unst classic other inReal period maType =
     (let period = ta_period 30 period in
      ta_range 0 inReal (1 \<le> period \<and> period \<le> 100000)
        (if period = 1 then Inr (0, inReal)
         else case maType of
             MA_SMA \<Rightarrow> TA_SMA 0 inReal period
           | MA_EMA \<Rightarrow> TA_EMA unst classic 0 inReal period
           | MA_WMA \<Rightarrow>
               (case ta_wma period inReal of
                  None \<Rightarrow> Inl TA_BAD_PARAM
                | Some out \<Rightarrow> Inr (if out = [] then 0 else nat (period - 1), out))
           | _ \<Rightarrow> other maType inReal period))"

definition ta_bands :: "dbl \<Rightarrow> dbl \<Rightarrow> dbl list \<Rightarrow> dbl list \<Rightarrow> dbl list \<times> dbl list \<times> dbl list" where
  "ta_bands up dn ma dev =
     (if up = dn then
        if up = 1 then (map2 (\<lambda>m d. m + d) ma dev, ma, map2 (\<lambda>m d. m - d) ma dev)
        else (map2 (\<lambda>m d. m + d * up) ma dev, ma, map2 (\<lambda>m d. m - d * up) ma dev)
      else if up = 1 then (map2 (\<lambda>m d. m + d) ma dev, ma, map2 (\<lambda>m d. m - d * dn) ma dev)
      else if dn = 1 then (map2 (\<lambda>m d. m + d * up) ma dev, ma, map2 (\<lambda>m d. m - d) ma dev)
      else (map2 (\<lambda>m d. m + d * up) ma dev, ma, map2 (\<lambda>m d. m - d * dn) ma dev))"

definition TA_BBANDS_Lookback :: "nat \<Rightarrow> (MAType \<Rightarrow> int \<Rightarrow> int) \<Rightarrow> int \<Rightarrow> dbl \<Rightarrow> dbl \<Rightarrow> MAType \<Rightarrow> int" where
  "TA_BBANDS_Lookback unst other period up dn maType =
     (let period = ta_period 5 period; up = ta_real 2 up; dn = ta_real 2 dn in
      if period < 2 \<or> period > 100000 then -1
      else if up < - (3 * 10 ^ 37) \<or> up > 3 * 10 ^ 37 then -1
      else if dn < - (3 * 10 ^ 37) \<or> dn > 3 * 10 ^ 37 then -1
      else TA_MA_Lookback unst other period maType)"

definition TA_BBANDS :: "(dbl \<Rightarrow> dbl) \<Rightarrow> nat \<Rightarrow> bool \<Rightarrow> (MAType \<Rightarrow> dbl list \<Rightarrow> int \<Rightarrow> dbl list ta_result) \<Rightarrow>
    dbl list \<Rightarrow> int \<Rightarrow> dbl \<Rightarrow> dbl \<Rightarrow> MAType \<Rightarrow> (dbl list \<times> dbl list \<times> dbl list) ta_result" where
  "TA_BBANDS rt unst classic other inReal period up dn maType =
     (let period = ta_period 5 period; up = ta_real 2 up; dn = ta_real 2 dn in
      ta_range 0 inReal (2 \<le> period \<and> period \<le> 100000 \<and> - (3 * 10 ^ 37) \<le> up \<and> up \<le> 3 * 10 ^ 37
          \<and> - (3 * 10 ^ 37) \<le> dn \<and> dn \<le> 3 * 10 ^ 37)
        (case TA_MA unst classic other inReal period maType of
           Inl e \<Rightarrow> Inl e
         | Inr (b, ma) \<Rightarrow>
             if ma = [] then Inr (b, [], [], [])
             else
               case (if maType = MA_SMA then Inr (b, TA_INT_stddev_using_precalc_ma rt inReal ma b (nat period))
                     else TA_STDDEV rt (int b) inReal period 1) of
                 Inl e \<Rightarrow> Inl e
               | Inr (b, dev) \<Rightarrow> Inr (b, ta_bands up dn ma dev)))"

lemma ta_bands_eq: "ta_bands up dn ma dev = (map2 (\<lambda>m d. m + d * up) ma dev, ma, map2 (\<lambda>m d. m - d * dn) ma dev)"
  by (simp add: ta_bands_def)

lemma map2_map_upt: "map2 f (map g xs) (map h xs) = map (\<lambda>k. f (g k) (h k)) xs"
  by (induction xs) simp_all

text \<open>The deviation the bands are drawn at: that of the window, or none below the precision of the library.\<close>

definition win_dev :: "(dbl \<Rightarrow> dbl) \<Rightarrow> nat \<Rightarrow> (nat \<Rightarrow> dbl) \<Rightarrow> nat \<Rightarrow> dbl" where
  "win_dev rt n f k = dev_of rt (win_var n f k)"

definition dev_range :: "dbl \<Rightarrow> bool" where
  "dev_range x \<longleftrightarrow> - (3 * 10 ^ 37) \<le> x \<and> x \<le> 3 * 10 ^ 37"

lemma dev_range_real: "dev_range x \<Longrightarrow> ta_real d x = x"
  by (auto simp: dev_range_def ta_real_def)

lemma ta_period_id [simp]: "0 \<le> p \<Longrightarrow> ta_period d p = p"
  by (simp add: ta_period_def)

lemma bbands_sma:
  assumes "1 \<le> m" "m < 100000" "m < length xs" "dev_range up" "dev_range dn"
  shows "TA_BBANDS rt unst classic other xs (int (Suc m)) up dn MA_SMA
    = Inr (m, map (\<lambda>k. win_mean (Suc m) ((!) xs) k + win_dev rt (Suc m) ((!) xs) k * up) [0..<length xs - m],
              map (win_mean (Suc m) ((!) xs)) [0..<length xs - m],
              map (\<lambda>k. win_mean (Suc m) ((!) xs) k - win_dev rt (Suc m) ((!) xs) k * dn) [0..<length xs - m])"
proof -
  have xs: "xs \<noteq> []" "[0..<length xs - m] \<noteq> []" using assms by auto
  note r = ta_range_0 [OF xs(1)]
  have p: "2 \<le> int (Suc m)" "int (Suc m) \<le> 100000" "0 \<le> int (Suc m)" using assms by auto
  have ma: "TA_MA unst classic other xs (int (Suc m)) MA_SMA = Inr (m, map (win_mean (Suc m) ((!) xs)) [0..<length xs - m])"
  proof -
    have sma: "TA_SMA 0 xs (int (Suc m)) = Inr (m, map (win_mean (Suc m) ((!) xs)) [0..<length xs - m])"
      unfolding TA_SMA_def Let_def ta_period_id [OF p(3)] using p xs(1) int_sma_means [of 0 xs m] assms(3) by (simp add: r del: of_nat_Suc)
    show ?thesis unfolding TA_MA_def Let_def ta_period_id [OF p(3)] using p assms(1) by (simp add: r sma del: of_nat_Suc)
  qed
  have dv: "TA_INT_stddev_using_precalc_ma rt xs (map (win_mean (Suc m) ((!) xs)) [0..<length xs - m]) m (Suc m)
      = map (win_dev rt (Suc m) ((!) xs)) [0..<length xs - m]"
    using dev_loop_devs [of m 0 m _ xs rt "length xs - m", OF _ refl]
    by (simp add: TA_INT_stddev_using_precalc_ma_def Let_def square_up_sum win_dev_def)
  have n: "nat (int (Suc m)) = Suc m" by simp
  show ?thesis
    unfolding TA_BBANDS_def Let_def ta_period_id [OF p(3)] dev_range_real [OF assms(4)] dev_range_real [OF assms(5)]
    using assms(4,5) p xs(2) by (simp add: dev_range_def r ma dv n ta_bands_eq map2_map_upt del: of_nat_Suc upt_eq_Nil_conv)
qed

section \<open>The directional index\<close>

record dm_state =
  dm_high :: dbl
  dm_low :: dbl
  dm_close :: dbl
  dm_minus :: dbl
  dm_plus :: dbl
  dm_tr :: dbl

type_synonym hlc = "nat \<Rightarrow> dbl \<times> dbl \<times> dbl"

definition TRUE_RANGE :: "dbl \<Rightarrow> dbl \<Rightarrow> dbl \<Rightarrow> dbl" where
  "TRUE_RANGE high low yc =
     (let out1 = high - low;
          tempReal2 = \<bar>high - yc\<bar>;
          out1 = (if tempReal2 > out1 then tempReal2 else out1);
          tempReal2 = \<bar>low - yc\<bar>
      in if tempReal2 > out1 then tempReal2 else out1)"

definition dm_add :: "dbl \<Rightarrow> dbl \<Rightarrow> dm_state \<Rightarrow> dm_state" where
  "dm_add diffP diffM s =
     (if diffM > 0 \<and> diffP < diffM then s\<lparr>dm_minus := dm_minus s + diffM\<rparr>
      else if diffP > 0 \<and> diffP > diffM then s\<lparr>dm_plus := dm_plus s + diffP\<rparr>
      else s)"

text \<open>A bar while the first sums are made, and a bar after that.\<close>

definition dm_first :: "dbl \<times> dbl \<times> dbl \<Rightarrow> dm_state \<Rightarrow> dm_state" where
  "dm_first bar s =
     (case bar of (h, l, c) \<Rightarrow>
        let diffP = h - dm_high s; diffM = dm_low s - l;
            s = dm_add diffP diffM (s\<lparr>dm_high := h, dm_low := l\<rparr>)
        in s\<lparr>dm_tr := dm_tr s + TRUE_RANGE h l (dm_close s), dm_close := c\<rparr>)"

definition dm_next :: "nat \<Rightarrow> dbl \<times> dbl \<times> dbl \<Rightarrow> dm_state \<Rightarrow> dm_state" where
  "dm_next period bar s =
     (case bar of (h, l, c) \<Rightarrow>
        let diffP = h - dm_high s; diffM = dm_low s - l;
            s = s\<lparr>dm_high := h, dm_low := l, dm_minus := dm_minus s - dm_minus s / of_nat period,
                  dm_plus := dm_plus s - dm_plus s / of_nat period\<rparr>;
            s = dm_add diffP diffM s
        in s\<lparr>dm_tr := dm_tr s - dm_tr s / of_nat period + TRUE_RANGE h l (dm_close s), dm_close := c\<rparr>)"

definition dm_dx :: "dm_state \<Rightarrow> dbl option" where
  "dm_dx s =
     (if \<not> TA_IS_ZERO (dm_tr s) then
        let minusDI = 100 * (dm_minus s / dm_tr s);
            plusDI = 100 * (dm_plus s / dm_tr s);
            tempReal = minusDI + plusDI
        in if \<not> TA_IS_ZERO tempReal then Some (100 * (\<bar>minusDI - plusDI\<bar> / tempReal)) else None
      else None)"

primrec adx_initial :: "hlc \<Rightarrow> nat \<Rightarrow> nat \<Rightarrow> dm_state \<Rightarrow> dm_state" where
  "adx_initial bars today 0 s = s"
| "adx_initial bars today (Suc i) s = adx_initial bars (today + 1) i (dm_first (bars (today + 1)) s)"

primrec adx_sumDX :: "nat \<Rightarrow> hlc \<Rightarrow> nat \<Rightarrow> nat \<Rightarrow> dbl \<times> dm_state \<Rightarrow> dbl \<times> dm_state" where
  "adx_sumDX period bars today 0 acc = acc"
| "adx_sumDX period bars today (Suc i) acc =
     (let (sumDX, s) = acc; s = dm_next period (bars (today + 1)) s
      in adx_sumDX period bars (today + 1) i (case dm_dx s of None \<Rightarrow> sumDX | Some dx \<Rightarrow> sumDX + dx, s))"

definition adx_next :: "nat \<Rightarrow> dbl \<times> dbl \<times> dbl \<Rightarrow> dbl \<times> dm_state \<Rightarrow> dbl \<times> dm_state" where
  "adx_next period bar acc =
     (let (prevADX, s) = acc; s = dm_next period bar s
      in (case dm_dx s of None \<Rightarrow> prevADX | Some dx \<Rightarrow> (prevADX * (of_nat period - 1) + dx) / of_nat period, s))"

primrec adx_skip :: "nat \<Rightarrow> hlc \<Rightarrow> nat \<Rightarrow> nat \<Rightarrow> dbl \<times> dm_state \<Rightarrow> dbl \<times> dm_state" where
  "adx_skip period bars today 0 acc = acc"
| "adx_skip period bars today (Suc i) acc = adx_skip period bars (today + 1) i (adx_next period (bars (today + 1)) acc)"

function adx_rest :: "nat \<Rightarrow> hlc \<Rightarrow> nat \<Rightarrow> nat \<Rightarrow> dbl \<times> dm_state \<Rightarrow> dbl list" where
  "adx_rest period bars endIdx today acc =
     (if today < endIdx then
        (let acc = adx_next period (bars (today + 1)) acc
         in fst acc # adx_rest period bars endIdx (today + 1) acc)
      else [])"
  by pat_completeness auto

termination
  by (relation "measure (\<lambda>(period, bars, endIdx, today, acc). endIdx - today)") auto

declare adx_rest.simps [simp del]

definition TA_ADX_Lookback :: "nat \<Rightarrow> int \<Rightarrow> int" where
  "TA_ADX_Lookback unst period =
     (let period = ta_period 14 period in
      if period < 2 \<or> period > 100000 then -1 else 2 * period + int unst - 1)"

definition TA_INT_ADX :: "nat \<Rightarrow> hlc \<Rightarrow> nat \<Rightarrow> nat \<Rightarrow> dbl list ta_result" where
  "TA_INT_ADX unst bars endIdx period =
     (let lookbackTotal = 2 * period + unst - 1; startIdx = lookbackTotal in
      if endIdx < startIdx then Inr (0, [])
      else
        let today = startIdx - lookbackTotal; (h, l, c) = bars today;
            s = \<lparr>dm_high = h, dm_low = l, dm_close = c, dm_minus = 0, dm_plus = 0, dm_tr = 0\<rparr>;
            s = adx_initial bars today (period - 1) s;
            today = today + (period - 1);
            (sumDX, s) = adx_sumDX period bars today period (0, s);
            today = today + period;
            (prevADX, s) = adx_skip period bars today unst (sumDX / of_nat period, s);
            today = today + unst
        in Inr (startIdx, prevADX # adx_rest period bars endIdx today (prevADX, s)))"

definition TA_ADX :: "nat \<Rightarrow> dbl list \<Rightarrow> dbl list \<Rightarrow> dbl list \<Rightarrow> int \<Rightarrow> dbl list ta_result" where
  "TA_ADX unst inHigh inLow inClose period =
     (let period = ta_period 14 period in
      ta_range 0 inHigh (2 \<le> period \<and> period \<le> 100000)
        (TA_INT_ADX unst (\<lambda>i. (inHigh ! i, inLow ! i, inClose ! i)) (length inHigh - 1) (nat period)))"

text \<open>The movements and the range stay non-negative, the indices within a percentage.\<close>

definition dm_ok :: "dm_state \<Rightarrow> bool" where
  "dm_ok s \<longleftrightarrow> 0 \<le> dm_minus s \<and> 0 \<le> dm_plus s \<and> 0 \<le> dm_tr s"

definition percent :: "dbl \<Rightarrow> bool" where
  "percent x \<longleftrightarrow> 0 \<le> x \<and> x \<le> 100"

lemma TRUE_RANGE_nonneg: "0 \<le> TRUE_RANGE h l c"
  by (auto simp: TRUE_RANGE_def Let_def)

lemma dm_add_sel [simp]: "dm_high (dm_add p m s) = dm_high s" "dm_low (dm_add p m s) = dm_low s"
    "dm_close (dm_add p m s) = dm_close s" "dm_tr (dm_add p m s) = dm_tr s"
  by (simp_all add: dm_add_def)

lemma dm_add_ok: "dm_ok s \<Longrightarrow> dm_ok (dm_add p m s)"
  by (simp add: dm_add_def dm_ok_def)

lemma dm_ok_tr: "dm_ok s \<Longrightarrow> 0 \<le> t \<Longrightarrow> dm_ok (s\<lparr>dm_tr := t, dm_close := c\<rparr>)"
  by (simp add: dm_ok_def)

lemma dm_first_ok:
  assumes "dm_ok s"
  shows "dm_ok (dm_first bar s)"
proof -
  obtain h l c where b: "bar = (h, l, c)" by (cases bar)
  have "dm_ok (s\<lparr>dm_high := h, dm_low := l\<rparr>)" using assms by (simp add: dm_ok_def)
  moreover have "0 \<le> dm_tr s + TRUE_RANGE h l (dm_close s)" using assms TRUE_RANGE_nonneg [of h l "dm_close s"] by (simp add: dm_ok_def)
  ultimately show ?thesis by (simp add: b dm_first_def Let_def dm_add_ok dm_ok_tr)
qed

lemma decay_nonneg: "(0::dbl) \<le> x \<Longrightarrow> 1 \<le> n \<Longrightarrow> 0 \<le> x - x / of_nat n"
  by (simp add: divide_le_eq mult_le_cancel_left1)

lemma dm_next_ok:
  assumes "dm_ok s" "1 \<le> n"
  shows "dm_ok (dm_next n bar s)"
proof -
  obtain h l c where b: "bar = (h, l, c)" by (cases bar)
  have "dm_ok (s\<lparr>dm_high := h, dm_low := l, dm_minus := dm_minus s - dm_minus s / of_nat n, dm_plus := dm_plus s - dm_plus s / of_nat n\<rparr>)"
    using assms by (simp add: dm_ok_def decay_nonneg del: diff_ge_0_iff_ge)
  moreover have "0 \<le> dm_tr s - dm_tr s / of_nat n" using assms by (simp add: dm_ok_def decay_nonneg del: diff_ge_0_iff_ge)
  ultimately show ?thesis using TRUE_RANGE_nonneg [of h l "dm_close s"]
    by (simp add: b dm_next_def Let_def dm_add_ok dm_ok_tr)
qed

lemma dm_dx_percent:
  assumes "dm_ok s" "dm_dx s = Some x"
  shows "percent x"
proof -
  define m where "m = 100 * (dm_minus s / dm_tr s)"
  define p where "p = 100 * (dm_plus s / dm_tr s)"
  have x: "x = 100 * (\<bar>m - p\<bar> / (m + p))" using assms(2) by (auto simp: dm_dx_def Let_def m_def p_def split: if_splits)
  have "0 \<le> m" "0 \<le> p" using assms(1) by (simp_all add: m_def p_def dm_ok_def)
  then have "\<bar>m - p\<bar> / (m + p) \<le> 1" "0 \<le> \<bar>m - p\<bar> / (m + p)" by (auto simp: divide_le_eq_1)
  then show ?thesis unfolding percent_def x by simp
qed

lemma adx_next_ok:
  assumes "dm_ok (snd acc)" "percent (fst acc)" "1 \<le> n"
  shows "dm_ok (snd (adx_next n bar acc)) \<and> percent (fst (adx_next n bar acc))"
proof -
  obtain a s where acc: "acc = (a, s)" by (cases acc)
  define s' where "s' = dm_next n bar s"
  have ok: "dm_ok s'" using assms dm_next_ok by (simp add: s'_def acc)
  have n: "(1::dbl) \<le> of_nat n" using assms(3) by simp
  have "percent ((a * (of_nat n - 1) + x) / of_nat n)" if "percent x" for x
  proof -
    have a: "0 \<le> a" "a \<le> 100" and x: "0 \<le> x" "x \<le> 100" using that assms(2) by (simp_all add: percent_def acc)
    have "0 \<le> a * (of_nat n - 1)" using a n by (intro mult_nonneg_nonneg) simp_all
    moreover have "a * (of_nat n - 1) \<le> 100 * (of_nat n - 1)" using a n by (intro mult_right_mono) simp_all
    ultimately show ?thesis using x n by (simp add: percent_def divide_le_eq algebra_simps)
  qed
  then show ?thesis using ok assms(2) dm_dx_percent [OF ok]
    by (auto simp: adx_next_def Let_def acc s'_def [symmetric] split: option.split)
qed

lemma adx_initial_ok: "dm_ok s \<Longrightarrow> dm_ok (adx_initial bars today i s)"
  by (induction i arbitrary: today s) (simp_all add: dm_first_ok)

lemma adx_sumDX_ok:
  assumes "dm_ok s" "0 \<le> t" "1 \<le> n" "adx_sumDX n bars today i (t, s) = (t', s')"
  shows "dm_ok s' \<and> 0 \<le> t' \<and> t' \<le> t + 100 * of_nat i"
  using assms
proof (induction i arbitrary: today t s)
  case 0
  then show ?case by simp
next
  case (Suc i)
  define u where "u = dm_next n (bars (today + 1)) s"
  have ok: "dm_ok u" using Suc.prems dm_next_ok by (simp add: u_def)
  define v where "v = (case dm_dx u of None \<Rightarrow> t | Some dx \<Rightarrow> t + dx)"
  have v: "0 \<le> v" "v \<le> t + 100"
    using Suc.prems(2) dm_dx_percent [OF ok] by (auto simp: v_def percent_def split: option.split)
  have "adx_sumDX n bars (today + 1) i (v, u) = (t', s')" using Suc.prems(4) by (simp add: Let_def u_def v_def)
  from Suc.IH [OF ok v(1) Suc.prems(3) this] v(2) show ?case by (auto simp: algebra_simps)
qed

lemma adx_skip_ok:
  "dm_ok (snd acc) \<Longrightarrow> percent (fst acc) \<Longrightarrow> 1 \<le> n \<Longrightarrow>
    dm_ok (snd (adx_skip n bars today i acc)) \<and> percent (fst (adx_skip n bars today i acc))"
  by (induction i arbitrary: today acc) (simp_all add: adx_next_ok)

lemma adx_rest_ok:
  assumes "dm_ok (snd acc)" "percent (fst acc)" "1 \<le> n"
  shows "(\<forall>x\<in>set (adx_rest n bars endIdx today acc). percent x) \<and> length (adx_rest n bars endIdx today acc) = endIdx - today"
  using assms
proof (induction "endIdx - today" arbitrary: today acc)
  case 0
  then show ?case by (subst (1 2) adx_rest.simps) simp
next
  case (Suc d)
  define a where "a = adx_next n (bars (today + 1)) acc"
  have a: "dm_ok (snd a)" "percent (fst a)" using adx_next_ok [OF Suc.prems] by (simp_all add: a_def)
  have "adx_rest n bars endIdx today acc = fst a # adx_rest n bars endIdx (today + 1) a"
    using Suc.hyps(2) by (subst adx_rest.simps) (simp add: Let_def a_def)
  then show ?case using Suc.hyps(1) [of "today + 1" a] a Suc.prems(3) Suc.hyps(2) by auto
qed

lemma TA_ADX_returns:
  assumes "2 \<le> period" "period \<le> 100000" "high \<noteq> []"
  obtains b out where "TA_ADX unst high low close period = Inr (b, out)"
proof -
  have "\<exists>b out. TA_INT_ADX unst (\<lambda>i. (high ! i, low ! i, close ! i)) (length high - 1) (nat period) = Inr (b, out)"
    by (simp add: TA_INT_ADX_def Let_def split: prod.split)
  then obtain b out where "TA_INT_ADX unst (\<lambda>i. (high ! i, low ! i, close ! i)) (length high - 1) (nat period) = Inr (b, out)" by blast
  then show thesis using that assms by (simp add: TA_ADX_def ta_range_0)
qed

text \<open>
  C33: Whatever the bars are, also of a range below zero, the directional index has a value for every bar from the look-back on, and all of them are
  percentages: Wilder's smoothing never makes a movement or the true range negative.
\<close>

theorem adx_percent:
  assumes "TA_ADX unst high low close period = Inr (b, out)"
  shows "(\<forall>x\<in>set out. 0 \<le> x \<and> x \<le> 100) \<and> int (length out) = max 0 (int (length high) - TA_ADX_Lookback unst period)
    \<and> (out \<noteq> [] \<longrightarrow> int b = TA_ADX_Lookback unst period)"
proof -
  define n where "n = nat (ta_period 14 period)"
  define bars where "bars = (\<lambda>i. (high ! i, low ! i, close ! i))"
  have p: "2 \<le> n" "ta_period 14 period = int n" "n \<le> 100000" and ne: "high \<noteq> []"
    and r: "TA_INT_ADX unst bars (length high - 1) n = Inr (b, out)"
    using assms by (auto simp: TA_ADX_def Let_def ta_range_Inr n_def bars_def)
  have lb: "TA_ADX_Lookback unst period = int (2 * n + unst - 1)" using p by (simp add: TA_ADX_Lookback_def Let_def of_nat_diff)
  show ?thesis
  proof (cases "length high - 1 < 2 * n + unst - 1")
    case True
    then have "out = []" "length high \<le> 2 * n + unst - 1" using r ne p by (auto simp: TA_INT_ADX_def Let_def)
    then show ?thesis by (simp add: lb)
  next
    case False
    define s where "s = adx_initial bars 0 (n - 1)
      \<lparr>dm_high = high ! 0, dm_low = low ! 0, dm_close = close ! 0, dm_minus = 0, dm_plus = 0, dm_tr = 0\<rparr>"
    have s: "dm_ok s" unfolding s_def by (rule adx_initial_ok) (simp add: dm_ok_def)
    obtain t u where t: "adx_sumDX n bars (n - 1) n (0, s) = (t, u)" by fastforce
    have u: "dm_ok u" "0 \<le> t" "t \<le> 100 * of_nat n" using adx_sumDX_ok [OF s order_refl _ t] p(1) by auto
    then have q: "percent (t / of_nat n)" using p(1) by (simp add: percent_def divide_le_eq)
    obtain a v where a: "adx_skip n bars (n - 1 + n) unst (t / of_nat n, u) = (a, v)" by fastforce
    have v: "dm_ok v" "percent a" using adx_skip_ok [of "(t / of_nat n, u)" n bars "n - 1 + n" unst] u q p(1) a by auto
    have b0: "bars 0 = (high ! 0, low ! 0, close ! 0)" by (simp add: bars_def)
    have "TA_INT_ADX unst bars (length high - 1) n
        = Inr (2 * n + unst - 1, a # adx_rest n bars (length high - 1) (n - 1 + n + unst) (a, v))"
      by (simp only: TA_INT_ADX_def Let_def diff_self_eq_0 add_0 b0 prod.case s_def [symmetric] t a False if_False)
    then have o: "out = a # adx_rest n bars (length high - 1) (n - 1 + n + unst) (a, v)" "b = 2 * n + unst - 1"
      using r by simp_all
    have w: "(\<forall>x\<in>set (adx_rest n bars (length high - 1) (n - 1 + n + unst) (a, v)). percent x)
      \<and> length (adx_rest n bars (length high - 1) (n - 1 + n + unst) (a, v)) = length high - 1 - (n - 1 + n + unst)"
      by (rule adx_rest_ok) (use v p(1) in auto)
    have "length high - 1 - (n - 1 + n + unst) + 1 = length high - (2 * n + unst - 1)" using False p(1) by auto
    moreover have "2 * n + unst - 1 \<le> length high" using False by auto
    ultimately show ?thesis using w v(2) by (auto simp: o lb percent_def of_nat_diff)
  qed
qed

theorem adx_percent_witness:
  "\<exists>b out. TA_ADX 0 [5, 6, 8, 7, 9] [4, 5, 6, 5, 8] [5, 5, 7, 6, 9] 2 = Inr (b, out) \<and> length out = 2 \<and> (\<forall>x\<in>set out. 0 \<le> x \<and> x \<le> 100)"
proof -
  obtain b out where r: "TA_ADX 0 [5, 6, 8, 7, 9] [4, 5, 6, 5, 8] [5, 5, 7, 6, 9] 2 = Inr (b, out)"
    by (rule TA_ADX_returns [of 2 "[5, 6, 8, 7, 9]"]) simp_all
  from adx_percent [OF r] r show ?thesis by (simp add: TA_ADX_Lookback_def Let_def)
qed

section \<open>The indicators on top of the library\<close>

text \<open>
  The arrays of \<^verbatim>\<open>Bollinger\<close> and \<^verbatim>\<open>Adx\<close> are sized to that of the prices and written from the look-back on; what is in front is what
  the memory held, a parameter. A function that fails leaves them so. The length is one that the look-back functions accept.
\<close>

definition sized_from :: "(nat \<Rightarrow> dbl) \<Rightarrow> int \<Rightarrow> nat \<Rightarrow> dbl list \<Rightarrow> data_array" where
  "sized_from junk lb size_of out =
     map junk [0..<nat lb] @ out @ map junk [nat lb + length out..<size_of]"

definition siis_ta :: "(dbl \<Rightarrow> dbl) \<Rightarrow> nat \<Rightarrow> nat \<Rightarrow> bool \<Rightarrow> (MAType \<Rightarrow> dbl list \<Rightarrow> int \<Rightarrow> dbl list ta_result) \<Rightarrow> (MAType \<Rightarrow> int \<Rightarrow> int) \<Rightarrow>
    (nat \<Rightarrow> dbl) \<Rightarrow> int \<Rightarrow> MAType \<Rightarrow> dbl \<Rightarrow> dbl \<Rightarrow> int \<Rightarrow> ta_lib" where
  "siis_ta rt unstEma unstAdx classic other otherLb junk len maType numDevUp numDevDn adxLen =
     (let bbLb = TA_BBANDS_Lookback unstEma otherLb len numDevUp numDevDn maType;
          adxLb = TA_ADX_Lookback unstAdx adxLen
      in \<lparr>ta_bbands = (\<lambda>price.
             case TA_BBANDS rt unstEma classic other price len numDevUp numDevDn maType of
               Inl e \<Rightarrow> (sized_from junk bbLb (length price) [], sized_from junk bbLb (length price) [], sized_from junk bbLb (length price) [])
             | Inr (b, u, m, l) \<Rightarrow> (sized_from junk bbLb (length price) u, sized_from junk bbLb (length price) m, sized_from junk bbLb (length price) l)),
          ta_bbands_lookback = nat bbLb,
          ta_adx = (\<lambda>high low close.
             case TA_ADX unstAdx high low close adxLen of
               Inl e \<Rightarrow> sized_from junk adxLb (length high) []
             | Inr (b, out) \<Rightarrow> sized_from junk adxLb (length high) out),
          ta_adx_lookback = nat adxLb\<rparr>)"

lemma sized_from_last:
  assumes "out \<noteq> []" "nat lb + length out = n"
  shows "length (sized_from junk lb n out) = n" "da_last (sized_from junk lb n out) = last out"
  using assms by (cases out rule: rev_cases; auto simp: sized_from_def da_last_def nth_append)+

lemma last_map_upt: "i < j \<Longrightarrow> last (map f [i..<j]) = f (j - 1)"
  by (simp add: last_map)

text \<open>
  C32: The bands of a length of at least two and at least as many prices are the mean of the last prices, and as many standard deviations above and below it
  as configured, where the deviation comes from the mean of the squared distances from the mean: the library computes it by two sums carried along. A variance
  below its precision counts as none. With multipliers and square roots that are not negative the bands are in order.
\<close>

theorem bollinger_bands:
  assumes "2 \<le> n" "n \<le> 100000" "n \<le> length price" "dev_range up" "dev_range dn"
    and b: "b' = bl_compute (siis_ta rt unstEma unstAdx classic other otherLb junk (int n) MA_SMA up dn adxLen) price b"
  shows "bl_lastMiddle b' = win_mean n ((!) price) (length price - n)
    \<and> bl_lastUpper b' = bl_lastMiddle b' + win_dev rt n ((!) price) (length price - n) * up
    \<and> bl_lastLower b' = bl_lastMiddle b' - win_dev rt n ((!) price) (length price - n) * dn
    \<and> bl_prevMiddle b' = bl_lastMiddle b
    \<and> ((\<forall>x. 0 \<le> rt x) \<and> 0 \<le> up \<and> 0 \<le> dn \<longrightarrow> bl_lastLower b' \<le> bl_lastMiddle b' \<and> bl_lastMiddle b' \<le> bl_lastUpper b')"
proof -
  obtain m where m: "n = Suc m" using assms(1) by (cases n) auto
  define W where "W = [0..<length price - m]"
  have w: "W \<noteq> []" "m + length W = length price" using assms(3) m by (simp_all add: W_def)
  have lb: "TA_BBANDS_Lookback unstEma otherLb (int n) up dn MA_SMA = int m"
    using assms(1,2,4,5) by (auto simp: TA_BBANDS_Lookback_def TA_MA_Lookback_def Let_def dev_range_real dev_range_def m)
  have bb: "TA_BBANDS rt unstEma classic other price (int n) up dn MA_SMA
      = Inr (m, map (\<lambda>k. win_mean n ((!) price) k + win_dev rt n ((!) price) k * up) W,
                map (win_mean n ((!) price)) W,
                map (\<lambda>k. win_mean n ((!) price) k - win_dev rt n ((!) price) k * dn) W)"
    unfolding m W_def by (rule bbands_sma) (use assms m in auto)
  have l: "da_last (sized_from junk (int m) (length price) (map f W)) = f (length price - n)" for f
    using w assms(3) by (simp add: sized_from_last) (simp add: W_def m last_map)
  have nl: "\<not> length price \<le> m" using assms(3) m by simp
  have e: "bl_lastMiddle b' = win_mean n ((!) price) (length price - n)"
    "bl_lastUpper b' = win_mean n ((!) price) (length price - n) + win_dev rt n ((!) price) (length price - n) * up"
    "bl_lastLower b' = win_mean n ((!) price) (length price - n) - win_dev rt n ((!) price) (length price - n) * dn"
    "bl_prevMiddle b' = bl_lastMiddle b"
    using nl by (simp_all add: b bl_compute_def siis_ta_def Let_def lb bb l)
  have "0 \<le> win_dev rt n ((!) price) (length price - n)" if "\<forall>x. 0 \<le> rt x" using that by (simp add: win_dev_def dev_of_def)
  then show ?thesis using e by auto
qed

definition demo_bands :: bollinger where
  "demo_bands = \<lparr>bl_upper = [], bl_middle = [], bl_lower = [], bl_prevUpper = 0, bl_lastUpper = 0, bl_prevMiddle = 0, bl_lastMiddle = 0,
     bl_prevLower = 0, bl_lastLower = 0\<rparr>"

theorem bollinger_bands_witness:
  "\<exists>b'. b' = bl_compute (siis_ta (\<lambda>x. x) 0 0 True (\<lambda>t xs p. Inl TA_BAD_PARAM) (\<lambda>t p. 0) (\<lambda>i. 0) (int 2) MA_SMA 2 2 14) [1, 3, 7] demo_bands
    \<and> bl_lastMiddle b' = 5 \<and> bl_lastUpper b' = 13 \<and> bl_lastLower b' = -3"
proof -
  define b' where "b' = bl_compute (siis_ta (\<lambda>x. x) 0 0 True (\<lambda>t xs p. Inl TA_BAD_PARAM) (\<lambda>t p. 0) (\<lambda>i. 0) (int 2) MA_SMA 2 2 14) [1, 3, 7] demo_bands"
  have "win_mean 2 ((!) [1, 3, 7]) 1 = 5" by (simp add: win_mean_def numeral_2_eq_2)
  moreover have "win_dev (\<lambda>x. x) 2 ((!) [1, 3, 7]) 1 = 4"
    by (simp add: win_dev_def win_var_def win_mean_def dev_of_def TA_IS_ZERO_OR_NEG_def numeral_2_eq_2)
  ultimately show ?thesis using bollinger_bands [OF _ _ _ _ _ b'_def] by (intro exI [of _ b'] conjI b'_def) (simp_all add: dev_range_def)
qed

end
