(* ===== verification/Trend_Indicators.thy ===== *)
theory Trend_Indicators
  imports Ta_Lib
begin

text \<open>
  Indicators of the trend plugins: the Donchian channel (\<^verbatim>\<open>indicators/donchian/donchian.cpp\<close>) over \<^verbatim>\<open>ta_MAX.c\<close> and \<^verbatim>\<open>ta_MIN.c\<close>,
  the average true range (\<^verbatim>\<open>atr/atr.cpp\<close> over \<^verbatim>\<open>ta_ATR.c\<close> and \<^verbatim>\<open>ta_TRANGE.c\<close>), the super trend (\<^verbatim>\<open>supertrend/supertrend.cpp\<close>), the
  filter \<^verbatim>\<open>kahlmanfilter/kahlmanfilter.cpp\<close> and the counts of \<^verbatim>\<open>td9/td9.cpp\<close>.
\<close>

section \<open>The extremes of a window\<close>

text \<open>
  The loops of \<^verbatim>\<open>TA_MAX\<close> and \<^verbatim>\<open>TA_MIN\<close> differ in the comparisons, which are arguments. The last extreme is kept with its index, and the
  window is searched again when the index falls out of it.
\<close>

primrec ext_scan :: "(dbl \<Rightarrow> dbl \<Rightarrow> bool) \<Rightarrow> dbl list \<Rightarrow> nat \<Rightarrow> nat \<Rightarrow> int \<times> dbl \<Rightarrow> int \<times> dbl" where
  "ext_scan gt inReal i 0 acc = acc"
| "ext_scan gt inReal i (Suc d) acc =
     (let tmp = inReal ! (i + 1)
      in ext_scan gt inReal (i + 1) d (if gt tmp (snd acc) then (int (i + 1), tmp) else acc))"

function ext_loop :: "(dbl \<Rightarrow> dbl \<Rightarrow> bool) \<Rightarrow> (dbl \<Rightarrow> dbl \<Rightarrow> bool) \<Rightarrow> dbl list \<Rightarrow> nat \<Rightarrow> nat \<Rightarrow> int \<times> dbl \<Rightarrow> dbl list" where
  "ext_loop gt ge inReal today trailingIdx ext1 =
     (if today < length inReal then
        (let tmp = inReal ! today;
             ext1 = (if fst ext1 < int trailingIdx
                    then ext_scan gt inReal trailingIdx (today - trailingIdx) (int trailingIdx, inReal ! trailingIdx)
                    else if ge tmp (snd ext1) then (int today, tmp)
                    else ext1)
         in snd ext1 # ext_loop gt ge inReal (today + 1) (trailingIdx + 1) ext1)
      else [])"
  by pat_completeness auto

termination
  by (relation "measure (\<lambda>(gt, ge, inReal, today, _). length inReal - today)") auto

declare ext_loop.simps [simp del]

definition ta_extreme :: "(dbl \<Rightarrow> dbl \<Rightarrow> bool) \<Rightarrow> (dbl \<Rightarrow> dbl \<Rightarrow> bool) \<Rightarrow> dbl list \<Rightarrow> nat \<Rightarrow> dbl list ta_result" where
  "ta_extreme gt ge inReal period =
     (let nbInitialElementNeeded = period - 1; startIdx = nbInitialElementNeeded in
      if length inReal \<le> startIdx then Inr (0, [])
      else Inr (startIdx, ext_loop gt ge inReal startIdx (startIdx - nbInitialElementNeeded) (-1, 0)))"

definition TA_MAX :: "dbl list \<Rightarrow> int \<Rightarrow> dbl list ta_result" where
  "TA_MAX inReal period =
     (let period = ta_period 30 period in
      ta_range 0 inReal (2 \<le> period \<and> period \<le> 100000) (ta_extreme (>) (\<ge>) inReal (nat period)))"

definition TA_MIN :: "dbl list \<Rightarrow> int \<Rightarrow> dbl list ta_result" where
  "TA_MIN inReal period =
     (let period = ta_period 30 period in
      ta_range 0 inReal (2 \<le> period \<and> period \<le> 100000) (ta_extreme (<) (\<le>) inReal (nat period)))"

definition TA_MAX_Lookback :: "int \<Rightarrow> int" where
  "TA_MAX_Lookback period =
     (let period = ta_period 30 period in if period < 2 \<or> period > 100000 then -1 else period - 1)"

text \<open>The two comparisons of a linear order, in either direction.\<close>

locale ext_order =
  fixes gt ge :: "dbl \<Rightarrow> dbl \<Rightarrow> bool"
  assumes gt_iff: "gt x y \<longleftrightarrow> \<not> ge y x"
    and ge_trans: "ge x y \<Longrightarrow> ge y z \<Longrightarrow> ge x z"
    and ge_total: "ge x y \<or> ge y x"
begin

definition best :: "dbl list \<Rightarrow> nat \<Rightarrow> nat \<Rightarrow> int \<times> dbl \<Rightarrow> bool" where
  "best xs a b e \<longleftrightarrow> (\<exists>h. e = (int h, xs ! h) \<and> a \<le> h \<and> h \<le> b \<and> (\<forall>j. a \<le> j \<and> j \<le> b \<longrightarrow> ge (xs ! h) (xs ! j)))"

lemma ge_refl: "ge x x"
  using ge_total by blast

lemma best_one: "best xs a a (int a, xs ! a)"
  by (auto simp: best_def ge_refl)

lemma best_keep: "best xs a b e \<Longrightarrow> ge (snd e) (xs ! (b + 1)) \<Longrightarrow> best xs a (b + 1) e"
  unfolding best_def by (metis add.commute le_Suc_eq plus_1_eq_Suc snd_conv trans_le_add1)

lemma best_new: "best xs a b e \<Longrightarrow> ge (xs ! (b + 1)) (snd e) \<Longrightarrow> best xs a (b + 1) (int (b + 1), xs ! (b + 1))"
  unfolding best_def by (metis add.commute ge_refl ge_trans le_Suc_eq le_trans plus_1_eq_Suc snd_conv trans_le_add1)

lemma best_drop: "best xs a b e \<Longrightarrow> int a < fst e \<Longrightarrow> best xs (a + 1) b e"
  unfolding best_def by auto

lemma ext_scan_best: "best xs a i e \<Longrightarrow> best xs a (i + d) (ext_scan gt xs i d e)"
proof (induction d arbitrary: i e)
  case (Suc d)
  have "best xs a (i + 1) (if gt (xs ! (i + 1)) (snd e) then (int (i + 1), xs ! (i + 1)) else e)"
  proof (cases "ge (snd e) (xs ! (i + 1))")
    case True
    then show ?thesis using best_keep [OF Suc.prems] by (simp only: gt_iff simp_thms if_False)
  next
    case False
    then have "ge (xs ! (i + 1)) (snd e)" using ge_total by blast
    then show ?thesis using False best_new [OF Suc.prems] by (simp only: gt_iff simp_thms if_True)
  qed
  from Suc.IH [OF this] show ?case by (simp only: ext_scan.simps Let_def) simp
qed simp

lemma ext_loop_best:
  assumes "today = k + m" "fst e < int k \<or> (\<exists>n. m = Suc n \<and> best xs k (k + n) e)"
  shows "length (ext_loop gt ge xs today k e) = length xs - today
    \<and> (\<forall>i<length xs - today. \<exists>h. best xs (k + i) (today + i) (int h, ext_loop gt ge xs today k e ! i))"
  using assms
proof (induction "length xs - today" arbitrary: today k e)
  case 0
  then show ?case by (subst (1 2) ext_loop.simps) simp
next
  case (Suc d)
  define e' where "e' = (if fst e < int k then ext_scan gt xs k (today - k) (int k, xs ! k)
      else if ge (xs ! today) (snd e) then (int today, xs ! today) else e)"
  have b: "best xs k today e'"
  proof (cases "fst e < int k")
    case True
    then show ?thesis using ext_scan_best [OF best_one [of xs k], of "today - k"] Suc.prems(1) by (simp add: e'_def)
  next
    case False
    then obtain n where n: "m = Suc n" "best xs k (k + n) e" using Suc.prems(2) by auto
    then have t: "today = (k + n) + 1" using Suc.prems(1) by simp
    show ?thesis using False best_new [OF n(2)] best_keep [OF n(2)] ge_total by (auto simp: e'_def t)
  qed
  have "fst e' < int (k + 1) \<or> (\<exists>n. m = Suc n \<and> best xs (k + 1) (k + 1 + n) e')"
  proof (cases "fst e' < int (k + 1)")
    case False
    then have "k < today" using b by (auto simp: best_def)
    then obtain n where "m = Suc n" using Suc.prems(1) by (cases m) auto
    moreover from this have "best xs (k + 1) (k + 1 + n) e'" using best_drop [OF b] False Suc.prems(1) by simp
    ultimately show ?thesis by blast
  qed simp
  then have IH: "length (ext_loop gt ge xs (today + 1) (k + 1) e') = length xs - (today + 1)
      \<and> (\<forall>i<length xs - (today + 1). \<exists>h. best xs (k + 1 + i) (today + 1 + i) (int h, ext_loop gt ge xs (today + 1) (k + 1) e' ! i))"
    by (intro Suc.hyps(1)) (use Suc.hyps(2) Suc.prems(1) in simp_all)
  have u: "ext_loop gt ge xs today k e = snd e' # ext_loop gt ge xs (today + 1) (k + 1) e'"
    using Suc.hyps(2) by (subst ext_loop.simps) (simp add: Let_def e'_def)
  show ?case unfolding u
  proof (intro conjI allI impI)
    fix i
    assume i: "i < length xs - today"
    show "\<exists>h. best xs (k + i) (today + i) (int h, (snd e' # ext_loop gt ge xs (today + 1) (k + 1) e') ! i)"
    proof (cases i)
      case 0
      then show ?thesis using b by (auto simp: best_def)
    next
      case (Suc j)
      then show ?thesis using IH i by auto
    qed
  qed (use IH Suc.hyps(2) in simp)
qed

lemma extreme_best:
  assumes "1 \<le> n" "n \<le> length xs"
  shows "\<exists>out. ta_extreme gt ge xs n = Inr (n - 1, out) \<and> length out = length xs + 1 - n
    \<and> (\<forall>i<length out. \<exists>h. best xs i (i + (n - 1)) (int h, out ! i))"
proof -
  define out where "out = ext_loop gt ge xs (n - 1) 0 (-1, 0)"
  have "length out = length xs - (n - 1) \<and> (\<forall>i<length xs - (n - 1). \<exists>h. best xs (0 + i) (n - 1 + i) (int h, out ! i))"
    unfolding out_def by (rule ext_loop_best [of _ _ "n - 1"]) simp_all
  moreover have "\<not> length xs \<le> n - 1" using assms by auto
  then have "ta_extreme gt ge xs n = Inr (n - 1, out)" by (simp add: ta_extreme_def Let_def out_def)
  moreover have "length xs - (n - 1) = length xs + 1 - n" using assms by simp
  ultimately show ?thesis by (auto simp: add.commute)
qed

end

interpretation mx: ext_order "(>)" "(\<ge>)"
  by unfold_locales auto

interpretation mn: ext_order "(<)" "(\<le>)"
  by unfold_locales auto

section \<open>The Donchian channel\<close>

record donchian =
  dn_len :: int
  dn_upper :: data_array
  dn_lower :: data_array
  dn_prevUpper :: dbl
  dn_lastUpper :: dbl
  dn_prevLower :: dbl
  dn_lastLower :: dbl

definition ta_values :: "(nat \<Rightarrow> dbl) \<Rightarrow> int \<Rightarrow> nat \<Rightarrow> dbl list ta_result \<Rightarrow> data_array" where
  "ta_values junk lb size_of r = (case r of Inl e \<Rightarrow> sized_from junk lb size_of [] | Inr (b, out) \<Rightarrow> sized_from junk lb size_of out)"

text \<open>
  Before the last values are taken, the code asserts that the index \<open>b\<close> of the first value is 0. It is the index that the last of
  the two calls to succeed gives, and not initialized (\<open>b0\<close>) when both fail. Whether \<^verbatim>\<open>O3D_ASSERT\<close> checks, as in a debug build, is the
  parameter \<open>asserts\<close>; \<open>None\<close> is an assertion that fails.
\<close>

definition ta_begin :: "int \<Rightarrow> dbl list ta_result \<Rightarrow> int" where
  "ta_begin b0 r = (case r of Inl e \<Rightarrow> b0 | Inr (b, out) \<Rightarrow> int b)"

definition dn_compute :: "bool \<Rightarrow> int \<Rightarrow> (nat \<Rightarrow> dbl) \<Rightarrow> data_array \<Rightarrow> data_array \<Rightarrow> donchian \<Rightarrow> donchian option" where
  "dn_compute asserts b0 junk high low d =
     (let lb = TA_MAX_Lookback (dn_len d) in
      if int (length high) \<le> lb then Some d
      else if length high \<le> 0 then Some d
      else
        let d = d\<lparr>dn_prevUpper := dn_lastUpper d, dn_prevLower := dn_lastLower d\<rparr>;
            upper = TA_MAX high (dn_len d);
            lower = TA_MIN low (dn_len d);
            d = d\<lparr>dn_upper := ta_values junk lb (length high) upper, dn_lower := ta_values junk lb (length high) lower\<rparr>
        in if asserts \<and> ta_begin (ta_begin b0 upper) lower \<noteq> 0 then None
           else Some (d\<lparr>dn_lastUpper := da_last (dn_upper d), dn_lastLower := da_last (dn_lower d)\<rparr>))"

text \<open>The greatest and the least of the last values.\<close>

definition window_max :: "nat \<Rightarrow> dbl list \<Rightarrow> dbl" where
  "window_max n xs = Max (set (drop (length xs - n) xs))"

definition window_min :: "nat \<Rightarrow> dbl list \<Rightarrow> dbl" where
  "window_min n xs = Min (set (drop (length xs - n) xs))"

lemma last_window:
  assumes "n \<le> length xs"
  shows "set (drop (length xs - n) xs) = (!) xs ` {length xs - n..<length xs}"
proof -
  have "drop (length xs - n) xs = map ((!) xs) [length xs - n..<length xs]" by (rule nth_equalityI) (use assms in simp_all)
  then show ?thesis by simp
qed

lemma ta_min_begin:
  assumes "2 \<le> n" "n \<le> 100000" "n \<le> length xs"
  shows "ta_begin b0 (TA_MIN xs (int n)) = int n - 1"
proof -
  have "xs \<noteq> []" using assms by auto
  moreover obtain out where "ta_extreme (<) (\<le>) xs n = Inr (n - 1, out)" using mn.extreme_best [of n xs] assms by auto
  ultimately show ?thesis using assms by (simp add: ta_begin_def TA_MIN_def Let_def ta_range_0)
qed

lemma extreme_last:
  assumes "2 \<le> n" "n \<le> 100000" "n \<le> length xs"
  shows "da_last (ta_values junk (int n - 1) (length xs) (TA_MAX xs (int n))) = window_max n xs"
    and "da_last (ta_values junk (int n - 1) (length xs) (TA_MIN xs (int n))) = window_min n xs"
proof -
  have xs: "xs \<noteq> []" using assms by auto
  have l: "da_last (sized_from junk (int n - 1) (length xs) out) = out ! (length xs - n)"
    if o: "length out = length xs + 1 - n" for out
  proof -
    have "out \<noteq> []" "nat (int n - 1) + length out = length xs" "length out - 1 = length xs - n" using o assms by auto
    then show ?thesis by (simp add: sized_from_last last_conv_nth)
  qed
  have i: "length xs - n + (n - 1) = length xs - 1" using assms by auto
  have le: "x \<le> length xs - 1 \<longleftrightarrow> x < length xs" for x using xs by (cases xs) auto
  have j: "length xs - n < length xs + 1 - n" using assms by auto
  obtain out where "ta_extreme (>) (\<ge>) xs n = Inr (n - 1, out)" and lo: "length out = length xs + 1 - n"
    and b: "\<forall>i<length out. \<exists>h. mx.best xs i (i + (n - 1)) (int h, out ! i)"
    using mx.extreme_best [of n xs] assms by auto
  then have "TA_MAX xs (int n) = Inr (n - 1, out)" using assms xs by (simp add: TA_MAX_def Let_def ta_range_0)
  then have v: "da_last (ta_values junk (int n - 1) (length xs) (TA_MAX xs (int n))) = out ! (length xs - n)"
    using l [OF lo] by (simp add: ta_values_def)
  obtain h where h: "mx.best xs (length xs - n) (length xs - 1) (int h, out ! (length xs - n))"
    using b [rule_format, of "length xs - n", unfolded lo, OF j] unfolding i by blast
  then have "out ! (length xs - n) = xs ! h" "length xs - n \<le> h" "h < length xs"
    "\<forall>j. length xs - n \<le> j \<and> j < length xs \<longrightarrow> xs ! j \<le> out ! (length xs - n)"
    using h unfolding mx.best_def le by auto
  then show "da_last (ta_values junk (int n - 1) (length xs) (TA_MAX xs (int n))) = window_max n xs"
    unfolding v window_max_def last_window [OF assms(3)] by (intro Max_eqI [symmetric]) auto
  obtain out where "ta_extreme (<) (\<le>) xs n = Inr (n - 1, out)" and lo: "length out = length xs + 1 - n"
    and b: "\<forall>i<length out. \<exists>h. mn.best xs i (i + (n - 1)) (int h, out ! i)"
    using mn.extreme_best [of n xs] assms by auto
  then have "TA_MIN xs (int n) = Inr (n - 1, out)" using assms xs by (simp add: TA_MIN_def Let_def ta_range_0)
  then have v: "da_last (ta_values junk (int n - 1) (length xs) (TA_MIN xs (int n))) = out ! (length xs - n)"
    using l [OF lo] by (simp add: ta_values_def)
  obtain h where h: "mn.best xs (length xs - n) (length xs - 1) (int h, out ! (length xs - n))"
    using b [rule_format, of "length xs - n", unfolded lo, OF j] unfolding i by blast
  then have "out ! (length xs - n) = xs ! h" "length xs - n \<le> h" "h < length xs"
    "\<forall>j. length xs - n \<le> j \<and> j < length xs \<longrightarrow> out ! (length xs - n) \<le> xs ! j"
    using h unfolding mn.best_def le by auto
  then show "da_last (ta_values junk (int n - 1) (length xs) (TA_MIN xs (int n))) = window_min n xs"
    unfolding v window_min_def last_window [OF assms(3)] by (intro Min_eqI [symmetric]) auto
qed

text \<open>
  C34: The channel is the greatest high and the least low of the last bars, although the library searches a window again only when its
  extreme leaves it. A build that checks assertions never gets there: the first value of the library has the index \<open>n - 1\<close>, and the
  assertion, which asks for 0, fails for every number of bars that reaches the length of the channel.
\<close>

theorem donchian_channel:
  assumes "2 \<le> n" "n \<le> 100000" "n \<le> length high" "length low = length high" "dn_len d = int n"
  shows "dn_compute True b0 junk high low d = None
    \<and> (\<exists>d'. dn_compute False b0 junk high low d = Some d' \<and> dn_lastUpper d' = window_max n high \<and> dn_lastLower d' = window_min n low
      \<and> dn_prevUpper d' = dn_lastUpper d \<and> dn_prevLower d' = dn_lastLower d)"
proof -
  have "TA_MAX_Lookback (int n) = int n - 1" using assms by (simp add: TA_MAX_Lookback_def Let_def)
  moreover have "high \<noteq> []" using assms by auto
  ultimately show ?thesis
    using assms extreme_last [of n high junk] extreme_last [of n low junk] ta_min_begin [of n low]
    by (simp add: dn_compute_def Let_def)
qed

theorem donchian_channel_witness:
  "let d = \<lparr>dn_len = 2, dn_upper = [], dn_lower = [], dn_prevUpper = 0, dn_lastUpper = 0, dn_prevLower = 0, dn_lastLower = 0\<rparr>
   in dn_compute True 0 (\<lambda>i. 0) [5, 9, 6, 7] [3, 4, 2, 6] d = None
     \<and> (\<exists>d'. dn_compute False 0 (\<lambda>i. 0) [5, 9, 6, 7] [3, 4, 2, 6] d = Some d' \<and> dn_lastUpper d' = 7 \<and> dn_lastLower d' = 2)"
proof -
  define d where "d = \<lparr>dn_len = 2, dn_upper = [], dn_lower = [], dn_prevUpper = 0, dn_lastUpper = 0, dn_prevLower = 0, dn_lastLower = 0\<rparr>"
  have "window_max 2 [5, 9, 6, 7] = 7" "window_min 2 [3, 4, 2, 6] = 2" by (simp_all add: window_max_def window_min_def)
  then show ?thesis
    using donchian_channel [of 2 "[5, 9, 6, 7]" "[3, 4, 2, 6]" d 0 "\<lambda>i. 0"] unfolding Let_def d_def [symmetric]
    by (simp add: d_def, blast)
qed

section \<open>The average true range\<close>

definition trange_at :: "data_array \<Rightarrow> data_array \<Rightarrow> data_array \<Rightarrow> nat \<Rightarrow> dbl" where
  "trange_at inHigh inLow inClose today =
     (let tempLT = inLow ! today; tempHT = inHigh ! today; tempCY = inClose ! (today - 1);
          greatest1 = tempHT - tempLT;
          val2 = \<bar>tempCY - tempHT\<bar>;
          greatest1 = (if val2 > greatest1 then val2 else greatest1);
          val3 = \<bar>tempCY - tempLT\<bar>
      in if val3 > greatest1 then val3 else greatest1)"

definition TA_TRANGE :: "int \<Rightarrow> data_array \<Rightarrow> data_array \<Rightarrow> data_array \<Rightarrow> dbl list ta_result" where
  "TA_TRANGE startIdx inHigh inLow inClose =
     ta_range startIdx inHigh True
       (let startIdx = max 1 (nat startIdx) in
        if length inHigh \<le> startIdx then Inr (0, [])
        else Inr (startIdx, map (trange_at inHigh inLow inClose) [startIdx..<length inHigh]))"

definition wilder :: "nat \<Rightarrow> dbl \<Rightarrow> dbl \<Rightarrow> dbl" where
  "wilder period prevATR x = (prevATR * (of_nat period - 1) + x) / of_nat period"

primrec atr_loop :: "nat \<Rightarrow> dbl \<Rightarrow> dbl list \<Rightarrow> dbl list" where
  "atr_loop period prevATR [] = []"
| "atr_loop period prevATR (x # tempBuffer) =
     (let prevATR = wilder period prevATR x in prevATR # atr_loop period prevATR tempBuffer)"

definition TA_ATR_Lookback :: "nat \<Rightarrow> int \<Rightarrow> int" where
  "TA_ATR_Lookback unst period =
     (let period = ta_period 14 period in if period < 1 \<or> period > 100000 then -1 else period + int unst)"

definition TA_ATR :: "nat \<Rightarrow> data_array \<Rightarrow> data_array \<Rightarrow> data_array \<Rightarrow> int \<Rightarrow> dbl list ta_result" where
  "TA_ATR unst inHigh inLow inClose period =
     (let period = ta_period 14 period in
      ta_range 0 inHigh (1 \<le> period \<and> period \<le> 100000)
        (let n = nat period; lookbackTotal = n + unst; startIdx = lookbackTotal in
         if length inHigh \<le> startIdx then Inr (0, [])
         else if n \<le> 1 then TA_TRANGE (int startIdx) inHigh inLow inClose
         else
           case TA_TRANGE (int (startIdx - lookbackTotal + 1)) inHigh inLow inClose of
             Inl e \<Rightarrow> Inl e
           | Inr (b, tempBuffer) \<Rightarrow>
               case TA_INT_SMA (n - 1) (take n tempBuffer) n of
                 Inl e \<Rightarrow> Inl e
               | Inr (b, prevATRTemp) \<Rightarrow>
                   (let prevATR = foldl (wilder n) (prevATRTemp ! 0) (take unst (drop n tempBuffer))
                    in Inr (startIdx, prevATR # atr_loop n prevATR (drop (n + unst) tempBuffer)))))"

record atr =
  ar_len :: int
  ar_factor :: dbl
  ar_atr :: data_array
  ar_prev :: dbl
  ar_last :: dbl
  ar_longStopPrice :: dbl
  ar_shortStopPrice :: dbl

definition ar_compute :: "nat \<Rightarrow> (nat \<Rightarrow> dbl) \<Rightarrow> data_array \<Rightarrow> data_array \<Rightarrow> data_array \<Rightarrow> atr \<Rightarrow> atr" where
  "ar_compute unst junk high low close a =
     (if int (length high) \<le> ar_len a then a
      else
        let a = a\<lparr>ar_prev := ar_last a, ar_atr := ta_values junk (ar_len a) (length high) (TA_ATR unst high low close (ar_len a))\<rparr>;
            a = a\<lparr>ar_last := da_last (ar_atr a)\<rparr>;
            a = a\<lparr>ar_longStopPrice := close ! (length close - 1) - ar_factor a * ar_last a\<rparr>
        in a\<lparr>ar_shortStopPrice := close ! (length close - 1) + ar_factor a * ar_last a\<rparr>)"

lemma trange_nonneg: "0 \<le> trange_at h l c i"
  by (auto simp: trange_at_def Let_def)

lemma wilder_in_band:
  assumes "in_band lo hi m" "in_band lo hi x" "1 \<le> n"
  shows "in_band lo hi (wilder n m x)"
proof -
  have n: "(1::dbl) \<le> of_nat n" using assms(3) by simp
  have "wilder n m x = (x - m) * (1 / of_nat n) + m" using n by (simp add: wilder_def field_simps)
  then show ?thesis using ema_step_within [OF assms(2,1), of "1 / of_nat n"] n by (simp add: divide_le_eq)
qed

lemma wilder_fold: "in_band lo hi m \<Longrightarrow> \<forall>x\<in>set xs. in_band lo hi x \<Longrightarrow> 1 \<le> n \<Longrightarrow> in_band lo hi (foldl (wilder n) m xs)"
  by (induction xs arbitrary: m) (simp_all add: wilder_in_band)

lemma atr_loop_in_band:
  "in_band lo hi m \<Longrightarrow> \<forall>x\<in>set xs. in_band lo hi x \<Longrightarrow> 1 \<le> n \<Longrightarrow> (\<forall>y\<in>set (atr_loop n m xs). in_band lo hi y) \<and> length (atr_loop n m xs) = length xs"
proof (induction xs arbitrary: m)
  case (Cons a xs)
  have a: "in_band lo hi (wilder n m a)" by (rule wilder_in_band) (use Cons.prems in simp_all)
  have "(\<forall>y\<in>set (atr_loop n (wilder n m a) xs). in_band lo hi y) \<and> length (atr_loop n (wilder n m a) xs) = length xs"
    by (rule Cons.IH [OF a _ Cons.prems(3)]) (use Cons.prems(2) in simp)
  with a show ?case unfolding atr_loop.simps Let_def by auto
qed simp

lemma win_mean_in_band:
  assumes "\<forall>j<n. in_band lo hi (f (k + j))" "0 < n"
  shows "in_band lo hi (win_mean n f k)"
  using add_up_within [of n lo hi "map (\<lambda>j. f (k + j)) [0..<n]" 0] assms by (simp add: add_up_sum win_mean_def)

text \<open>The average true range lies between the least and the greatest true range, and there is one for every bar from the look-back on.\<close>

lemma atr_in_band:
  assumes "2 \<le> n" "n \<le> 100000" "n + unst < length high"
    and "\<And>i. 1 \<le> i \<Longrightarrow> i < length high \<Longrightarrow> in_band lo hi (trange_at high low close i)"
  shows "\<exists>out. TA_ATR unst high low close (int n) = Inr (n + unst, out) \<and> (\<forall>y\<in>set out. in_band lo hi y)
    \<and> length out = length high - (n + unst)"
proof -
  define temp where "temp = map (trange_at high low close) [1..<length high]"
  have l: "length temp = length high - 1" by (simp add: temp_def)
  have b: "\<forall>x\<in>set temp. in_band lo hi x" using assms(4) by (auto simp: temp_def)
  have h: "high \<noteq> []" "1 < length high" using assms(1,3) by auto
  then have tr: "TA_TRANGE 1 high low close = Inr (1, temp)" by (simp add: TA_TRANGE_def ta_range_def temp_def)
  obtain m where m: "n = Suc m" using assms(1) by (cases n) auto
  define first where "first = win_mean (Suc m) ((!) (take n temp)) 0"
  have lt: "length (take n temp) = Suc m" using assms(3) l m by simp
  have sma: "TA_INT_SMA (n - 1) (take n temp) n = Inr (m, [first])"
    using int_sma_means [of m "take n temp" m] lt by (simp add: m first_def)
  have "\<forall>j<Suc m. in_band lo hi (take n temp ! (0 + j))" using b lt by (metis add_0 in_set_takeD nth_mem)
  then have f: "in_band lo hi first" unfolding first_def by (rule win_mean_in_band) simp
  define p where "p = foldl (wilder n) first (take unst (drop n temp))"
  have p: "in_band lo hi p" unfolding p_def using f b assms(1) by (intro wilder_fold) (auto dest: in_set_takeD in_set_dropD)
  have "\<forall>x\<in>set (drop (n + unst) temp). in_band lo hi x" using b by (auto dest: in_set_dropD)
  from atr_loop_in_band [OF p this, of n] assms(1)
  have q: "(\<forall>y\<in>set (atr_loop n p (drop (n + unst) temp)). in_band lo hi y)
    \<and> length (atr_loop n p (drop (n + unst) temp)) = length temp - (n + unst)" by simp
  have "TA_ATR unst high low close (int n) = Inr (n + unst, p # atr_loop n p (drop (n + unst) temp))"
    using assms(1-3) h sma by (simp add: TA_ATR_def Let_def ta_range_0 tr p_def)
  with p q l assms(3) show ?thesis by auto
qed

section \<open>The super trend\<close>

record super_trend =
  st_len :: int
  st_coeff :: dbl
  st_trend :: data_array
  st_position :: "int list"
  st_up :: data_array
  st_down :: data_array
  st_prev :: dbl
  st_last :: dbl

text \<open>
  The bands from the second bar on, each from the one before it; the first ones are what the memory held, a parameter, as are the first
  values of the average true range. The coefficient is not used.
\<close>

primrec up_at :: "dbl \<Rightarrow> data_array \<Rightarrow> data_array \<Rightarrow> nat \<Rightarrow> dbl" where
  "up_at junk upper close 0 = junk"
| "up_at junk upper close (Suc i) =
     (let prev = up_at junk upper close i in if close ! i > prev then max (upper ! Suc i) prev else upper ! Suc i)"

primrec down_at :: "dbl \<Rightarrow> data_array \<Rightarrow> data_array \<Rightarrow> nat \<Rightarrow> dbl" where
  "down_at junk lower close 0 = junk"
| "down_at junk lower close (Suc i) =
     (let prev = down_at junk lower close i in if close ! i < prev then min (lower ! Suc i) prev else lower ! Suc i)"

primrec position_at :: "data_array \<Rightarrow> data_array \<Rightarrow> data_array \<Rightarrow> nat \<Rightarrow> int" where
  "position_at up down close 0 = 1"
| "position_at up down close (Suc i) =
     (if close ! Suc i > down ! i then 1
      else if close ! Suc i < up ! i then -1
      else position_at up down close i)"

definition da_add :: "data_array \<Rightarrow> data_array \<Rightarrow> data_array" where
  "da_add a b = map (\<lambda>i. a ! i + b ! i) [0..<length a]"

definition da_sub :: "data_array \<Rightarrow> data_array \<Rightarrow> data_array" where
  "da_sub a b = map (\<lambda>i. a ! i - b ! i) [0..<length a]"

definition da_scale :: "dbl \<Rightarrow> data_array \<Rightarrow> data_array" where
  "da_scale x a = map (\<lambda>y. y * x) a"

definition st_trendline :: "dbl \<Rightarrow> int list \<Rightarrow> data_array \<Rightarrow> data_array \<Rightarrow> data_array" where
  "st_trendline junk position up down =
     junk # map (\<lambda>i. if position ! i > 0 then up ! i else down ! i) [1..<length position]"

definition st_compute :: "nat \<Rightarrow> (nat \<Rightarrow> dbl) \<Rightarrow> data_array \<Rightarrow> data_array \<Rightarrow> data_array \<Rightarrow> super_trend \<Rightarrow> super_trend" where
  "st_compute unst junk high low close s =
     (if int (length high) \<le> st_len s then s
      else
        let s = s\<lparr>st_prev := st_last s\<rparr>;
            hl2 = da_scale (1 / 2) (da_add high low);
            catr = ta_values junk (st_len s) (length high) (TA_ATR unst high low close (st_len s));
            upper = da_sub hl2 catr;
            lower = da_add hl2 catr;
            up = map (up_at (junk 0) upper close) [0..<length high];
            down = map (down_at (junk 0) lower close) [0..<length high];
            position = map (position_at up down close) [0..<length high];
            s = s\<lparr>st_up := up, st_down := down, st_position := position, st_trend := st_trendline (junk 0) position up down\<rparr>
        in s\<lparr>st_last := da_last (st_trend s)\<rparr>)"

definition st_positionChange :: "super_trend \<Rightarrow> int" where
  "st_positionChange s =
     (let n = length (st_position s) in
      if n > 2 then (if st_position s ! (n - 2) \<noteq> st_position s ! (n - 1) then st_position s ! (n - 1) else 0) else 0)"

definition st_lastPosition :: "super_trend \<Rightarrow> int" where
  "st_lastPosition s = (if st_position s = [] then 0 else last (st_position s))"

lemma position_cases: "position_at up down close i = 1 \<or> position_at up down close i = -1"
  by (induction i) auto

text \<open>
  The trend line of every bar is the lower band in a rise and the upper one in a fall, the position turns only on a close beyond the
  opposite band of the bar before, and a band that the close has not crossed never moves away from the price. The coefficient that the
  configuration gives has no effect.
\<close>

theorem super_trend_ratchet:
  assumes "0 \<le> st_len s" "st_len s < int (length high)" and s': "s' = st_compute unst junk high low close s"
    and i: "Suc i < length high"
  shows "st_position s' ! i \<in> {1, -1}
    \<and> st_trend s' ! Suc i = (if st_position s' ! Suc i = 1 then st_up s' ! Suc i else st_down s' ! Suc i)
    \<and> (st_position s' ! Suc i \<noteq> st_position s' ! i \<longrightarrow>
         (if st_position s' ! Suc i = 1 then st_down s' ! i < close ! Suc i else close ! Suc i < st_up s' ! i))
    \<and> (st_up s' ! i < close ! i \<longrightarrow> st_up s' ! i \<le> st_up s' ! Suc i)
    \<and> (close ! i < st_down s' ! i \<longrightarrow> st_down s' ! Suc i \<le> st_down s' ! i)
    \<and> st_trend (st_compute unst junk high low close (s\<lparr>st_coeff := k\<rparr>)) = st_trend s'"
proof -
  define catr where "catr = ta_values junk (st_len s) (length high) (TA_ATR unst high low close (st_len s))"
  define upper where "upper = da_sub (da_scale (1 / 2) (da_add high low)) catr"
  define lower where "lower = da_add (da_scale (1 / 2) (da_add high low)) catr"
  define up where "up = map (up_at (junk 0) upper close) [0..<length high]"
  define down where "down = map (down_at (junk 0) lower close) [0..<length high]"
  define position where "position = map (position_at up down close) [0..<length high]"
  define trend where "trend = st_trendline (junk 0) position up down"
  have c: "st_compute unst junk high low close (s\<lparr>st_coeff := k\<rparr>)
      = s\<lparr>st_coeff := k, st_prev := st_last s, st_up := up, st_down := down, st_position := position, st_trend := trend, st_last := da_last trend\<rparr>" for k
    using assms(2) by (simp add: st_compute_def Let_def catr_def upper_def lower_def up_def down_def position_def trend_def)
  have e: "st_up s' = up" "st_down s' = down" "st_position s' = position" "st_trend s' = trend"
    using c [of "st_coeff s"] by (simp_all add: s')
  have x: "up ! j = up_at (junk 0) upper close j" "down ! j = down_at (junk 0) lower close j" "position ! j = position_at up down close j"
    if "j < length high" for j using that by (simp_all add: up_def down_def position_def)
  have t: "trend ! Suc i = (if position ! Suc i > 0 then up ! Suc i else down ! Suc i)" using i by (simp add: trend_def st_trendline_def position_def)
  have i': "i < length high" using i by simp
  note p = position_cases [of up down close i] position_cases [of up down close "Suc i"]
  show ?thesis unfolding e t c using p i i' by (auto simp: x Let_def simp del: position_at.simps) (auto simp: x split: if_splits)
qed

definition demo_trend :: super_trend where
  "demo_trend = \<lparr>st_len = 2, st_coeff = 3, st_trend = [], st_position = [], st_up = [], st_down = [], st_prev = 0, st_last = 0\<rparr>"

theorem super_trend_ratchet_witness:
  "\<exists>s'. s' = st_compute 0 (\<lambda>i. 0) [2, 3, 5, 6] [1, 2, 3, 5] [2, 3, 4, 6] demo_trend
    \<and> st_position s' ! 2 \<in> {1, -1} \<and> st_trend (st_compute 0 (\<lambda>i. 0) [2, 3, 5, 6] [1, 2, 3, 5] [2, 3, 4, 6] (demo_trend\<lparr>st_coeff := 9\<rparr>)) = st_trend s'"
  using super_trend_ratchet [OF _ _ refl, of demo_trend "[2, 3, 5, 6]" 2 0 "\<lambda>i. 0" "[1, 2, 3, 5]" "[2, 3, 4, 6]" 9]
  by (simp add: demo_trend_def)

section \<open>The filter\<close>

text \<open>A value that is not a number is \<open>None\<close>, and every result of it too.\<close>

definition nan2 :: "(dbl \<Rightarrow> dbl \<Rightarrow> dbl) \<Rightarrow> dbl option \<Rightarrow> dbl option \<Rightarrow> dbl option" where
  "nan2 f x y = (case (x, y) of (Some x, Some y) \<Rightarrow> Some (f x y) | _ \<Rightarrow> None)"

record kahlman =
  km_len :: int
  km_gain :: dbl
  km_g2Sqrt :: dbl
  km_kf :: "dbl option list"
  km_dk :: "dbl option list"
  km_smooth :: "dbl option list"
  km_velo :: "dbl option list"
  km_prev :: "dbl option"
  km_last :: "dbl option"

definition km_resize :: "(nat \<Rightarrow> dbl option list) \<Rightarrow> nat \<Rightarrow> kahlman \<Rightarrow> kahlman" where
  "km_resize newArray len k =
     (if len \<noteq> length (km_kf k) then
        k\<lparr>km_len := int len, km_kf := newArray len, km_dk := newArray len, km_smooth := newArray len, km_velo := newArray len\<rparr>
      else k)"

definition km_step :: "(nat \<Rightarrow> dbl option) \<Rightarrow> nat \<Rightarrow> kahlman \<Rightarrow> kahlman" where
  "km_step price i k =
     (let base = (if i = 0 \<or> km_kf k ! (i - 1) = None then price i else km_kf k ! (i - 1));
          k = k\<lparr>km_dk := (km_dk k)[i := nan2 (-) (price i) base]\<rparr>;
          k = k\<lparr>km_smooth := (km_smooth k)[i := nan2 (+) base (map_option (\<lambda>x. x * km_g2Sqrt k) (km_dk k ! i))]\<rparr>;
          velo = (if i = 0 \<or> km_velo k ! (i - 1) = None then Some 0 else km_velo k ! (i - 1));
          k = k\<lparr>km_velo := (km_velo k)[i := nan2 (+) velo (map_option (\<lambda>x. km_gain k * x) (km_dk k ! i))]\<rparr>
      in k\<lparr>km_kf := (km_kf k)[i := nan2 (+) (km_smooth k ! i) (km_velo k ! i)]\<rparr>)"

text \<open>\<open>None\<close> where the loop writes beyond the arrays, which keep their size when the number of prices is the configured length.\<close>

definition km_compute :: "(nat \<Rightarrow> dbl option list) \<Rightarrow> dbl option list \<Rightarrow> kahlman \<Rightarrow> kahlman option" where
  "km_compute newArray price k =
     (if length price \<le> 1 then Some k
      else
        let k = k\<lparr>km_prev := km_last k\<rparr>;
            k = (if km_len k \<noteq> int (length price) then km_resize newArray (length price) k else k)
        in if int (length price) < km_len k \<or> int (length (km_kf k)) < km_len k then None
           else
             let k = foldl (\<lambda>k i. km_step ((!) price) i k) k [0..<nat (km_len k)]
             in Some (k\<lparr>km_last := if km_kf k = [] then Some 0 else last (km_kf k)\<rparr>))"

text \<open>What the filter is: a recurrence on the prices.\<close>

primrec filter_at :: "dbl \<Rightarrow> dbl \<Rightarrow> (nat \<Rightarrow> dbl) \<Rightarrow> nat \<Rightarrow> dbl \<times> dbl" where
  "filter_at g s price 0 = (price 0, 0)"
| "filter_at g s price (Suc i) =
     (let (kf, velo) = filter_at g s price i; dk = price (Suc i) - kf; velo = velo + g * dk
      in (kf + dk * s + velo, velo))"

lemma filter_affine:
  "filter_at g s (\<lambda>i. a * f i + c) n = (a * fst (filter_at g s f n) + c, a * snd (filter_at g s f n))"
  by (induction n) (auto simp: Let_def split_beta algebra_simps)

lemma filter_constant: "filter_at g s (\<lambda>i. c) n = (c, 0)"
  using filter_affine [of g s 0 "\<lambda>i. 0" c n] by simp

definition km_arrays :: "nat \<Rightarrow> kahlman \<Rightarrow> bool" where
  "km_arrays n k \<longleftrightarrow> length (km_kf k) = n \<and> length (km_dk k) = n \<and> length (km_smooth k) = n \<and> length (km_velo k) = n"

definition km_done :: "dbl list \<Rightarrow> nat \<Rightarrow> kahlman \<Rightarrow> nat \<Rightarrow> bool" where
  "km_done xs d k j \<longleftrightarrow>
     km_kf k ! j = (if j < d then None else Some (fst (filter_at (km_gain k) (km_g2Sqrt k) ((!) xs) (j - d))))
     \<and> km_velo k ! j = (if j < d then None else Some (snd (filter_at (km_gain k) (km_g2Sqrt k) ((!) xs) (j - d))))"

lemma km_step_sel [simp]:
  "km_gain (km_step p i k) = km_gain k" "km_g2Sqrt (km_step p i k) = km_g2Sqrt k" "km_len (km_step p i k) = km_len k"
  "km_prev (km_step p i k) = km_prev k"
  by (simp_all add: km_step_def Let_def)

lemma km_step_at:
  assumes "km_arrays n k" "i < n"
    and "b = (if i = 0 \<or> km_kf k ! (i - 1) = None then p i else km_kf k ! (i - 1))"
    and "v = nan2 (+) (if i = 0 \<or> km_velo k ! (i - 1) = None then Some 0 else km_velo k ! (i - 1)) (map_option (\<lambda>x. km_gain k * x) (nan2 (-) (p i) b))"
  shows "km_velo (km_step p i k) ! i = v"
    and "km_kf (km_step p i k) ! i = nan2 (+) (nan2 (+) b (map_option (\<lambda>x. x * km_g2Sqrt k) (nan2 (-) (p i) b))) v"
  using assms(1,2) by (simp_all add: km_step_def Let_def km_arrays_def assms(3,4))

lemma km_step_done:
  assumes "km_arrays n k" "i < n" "n = d + length xs" "\<forall>j<i. km_done xs d k j"
  shows "km_arrays n (km_step ((!) (nan_front d xs)) i k) \<and> (\<forall>j<Suc i. km_done xs d (km_step ((!) (nan_front d xs)) i k) j)"
proof -
  define k' where "k' = km_step ((!) (nan_front d xs)) i k"
  have a: "length (km_kf k) = n" "length (km_dk k) = n" "length (km_smooth k) = n" "length (km_velo k) = n"
    using assms(1) by (simp_all add: km_arrays_def)
  have p: "nan_front d xs ! i = (if i < d then None else Some (xs ! (i - d)))"
    using assms(2,3) by (auto simp: nan_front_def nth_append)
  have u: "km_kf k' ! j = km_kf k ! j" "km_velo k' ! j = km_velo k ! j" if "j \<noteq> i" for j
    using that by (simp_all add: k'_def km_step_def Let_def)
  have "km_done xs d k' j" if "j < i" for j
    using assms(4) that u [of j] by (simp add: km_done_def k'_def)
  moreover have "km_done xs d k' i"
  proof (cases "i \<le> d")
    case True
    have prev: "i = 0 \<or> km_kf k ! (i - 1) = None \<and> km_velo k ! (i - 1) = None"
      using assms(4) True by (cases i) (simp_all add: km_done_def)
    have b: "(if i = 0 \<or> km_kf k ! (i - 1) = None then nan_front d xs ! i else km_kf k ! (i - 1)) = nan_front d xs ! i"
      and v: "(if i = 0 \<or> km_velo k ! (i - 1) = None then Some 0 else km_velo k ! (i - 1)) = Some 0" using prev by auto
    note s = km_step_at [where p = "(!) (nan_front d xs)", OF assms(1,2) b [symmetric] refl, unfolded v, folded k'_def]
    show ?thesis using True unfolding km_done_def s p by (simp add: nan2_def)
  next
    case False
    then obtain m where m: "i = Suc (d + m)" by (metis add_Suc_right le_Suc_ex less_imp_Suc_add not_le)
    have "km_done xs d k (d + m)" using assms(4) m by simp
    then have q: "km_kf k ! (i - 1) = Some (fst (filter_at (km_gain k) (km_g2Sqrt k) ((!) xs) m))"
      "km_velo k ! (i - 1) = Some (snd (filter_at (km_gain k) (km_g2Sqrt k) ((!) xs) m))"
      by (simp_all add: km_done_def m)
    have b: "(if i = 0 \<or> km_kf k ! (i - 1) = None then nan_front d xs ! i else km_kf k ! (i - 1)) = Some (fst (filter_at (km_gain k) (km_g2Sqrt k) ((!) xs) m))"
      and v: "(if i = 0 \<or> km_velo k ! (i - 1) = None then Some 0 else km_velo k ! (i - 1)) = Some (snd (filter_at (km_gain k) (km_g2Sqrt k) ((!) xs) m))"
      using m q by simp_all
    note s = km_step_at [where p = "(!) (nan_front d xs)", OF assms(1,2) b [symmetric] refl, unfolded v, folded k'_def]
    have i: "i - d = Suc m" "\<not> i < d" using m by simp_all
    have g: "km_gain k' = km_gain k" "km_g2Sqrt k' = km_g2Sqrt k" by (simp_all add: k'_def)
    show ?thesis unfolding km_done_def s p i g by (simp add: i nan2_def Let_def split_beta)
  qed
  moreover have "km_arrays n k'" using a by (simp add: km_arrays_def k'_def km_step_def Let_def)
  ultimately show ?thesis by (auto simp: k'_def less_Suc_eq)
qed

lemma km_loop:
  assumes "km_arrays n k" "n = d + length xs" "i \<le> n"
  shows "km_arrays n (foldl (\<lambda>k i. km_step ((!) (nan_front d xs)) i k) k [0..<i])
    \<and> (\<forall>j<i. km_done xs d (foldl (\<lambda>k i. km_step ((!) (nan_front d xs)) i k) k [0..<i]) j)
    \<and> km_gain (foldl (\<lambda>k i. km_step ((!) (nan_front d xs)) i k) k [0..<i]) = km_gain k
    \<and> km_g2Sqrt (foldl (\<lambda>k i. km_step ((!) (nan_front d xs)) i k) k [0..<i]) = km_g2Sqrt k"
  using assms(3)
proof (induction i)
  case (Suc i)
  then show ?case using km_step_done [of n _ i d xs] assms(2) by simp
qed (use assms(1) in simp)

text \<open>
  On an average with not a number in front, and arrays of the right size or new ones, the filter gives not a number in front and then the values of its
  recurrence on the numbers alone; it is affine in the prices.
\<close>

theorem kahlman_recurrence:
  assumes "2 \<le> length price" "price = nan_front d xs" "xs \<noteq> []"
    and "km_len k = int (length price) \<and> km_arrays (length price) k
      \<or> km_len k \<noteq> int (length price) \<and> length (km_kf k) \<noteq> length price \<and> length (newArray (length price)) = length price"
  shows "\<exists>k'. km_compute newArray price k = Some k' \<and> km_prev k' = km_last k
    \<and> km_kf k' = nan_front d (map (fst \<circ> filter_at (km_gain k) (km_g2Sqrt k) ((!) xs)) [0..<length xs])
    \<and> km_last k' = Some (fst (filter_at (km_gain k) (km_g2Sqrt k) ((!) xs) (length xs - 1)))
    \<and> (\<forall>a c n. fst (filter_at (km_gain k) (km_g2Sqrt k) (\<lambda>i. a * xs ! i + c) n) = a * fst (filter_at (km_gain k) (km_g2Sqrt k) ((!) xs) n) + c)"
proof -
  define n where "n = length price"
  have n: "n = d + length xs" using assms(2) by (simp add: n_def nan_front_def)
  define k0 where "k0 = k\<lparr>km_prev := km_last k\<rparr>"
  define k1 where "k1 = (if km_len k0 \<noteq> int n then km_resize newArray n k0 else k0)"
  have k1: "km_len k1 = int n" "km_arrays n k1" "km_gain k1 = km_gain k" "km_g2Sqrt k1 = km_g2Sqrt k" "km_prev k1 = km_last k"
    using assms(4) [folded n_def] by (simp_all add: k1_def k0_def km_resize_def km_arrays_def split: if_split_asm) auto
  define k2 where "k2 = foldl (\<lambda>k i. km_step ((!) price) i k) k1 [0..<n]"
  have l: "km_arrays n k2" "\<forall>j<n. km_done xs d k2 j" "km_gain k2 = km_gain k" "km_g2Sqrt k2 = km_g2Sqrt k"
    using km_loop [OF k1(2) n order_refl] k1(3,4) by (simp_all add: k2_def assms(2))
  have "km_prev (foldl (\<lambda>k i. km_step p i k) k js) = km_prev k" for p k and js :: "nat list" by (induction js arbitrary: k) simp_all
  then have pv: "km_prev k2 = km_last k" by (simp add: k2_def k1(5))
  have kf: "km_kf k2 = nan_front d (map (fst \<circ> filter_at (km_gain k) (km_g2Sqrt k) ((!) xs)) [0..<length xs])"
  proof (rule nth_equalityI)
    fix j
    assume "j < length (km_kf k2)"
    then have j: "j < n" using l(1) by (simp add: km_arrays_def)
    with l(2) have "km_done xs d k2 j" by blast
    then show "km_kf k2 ! j = nan_front d (map (fst \<circ> filter_at (km_gain k) (km_g2Sqrt k) ((!) xs)) [0..<length xs]) ! j"
      using j n unfolding km_done_def l(3,4) by (simp add: nan_front_def nth_append)
  qed (use l(1) n in \<open>simp add: km_arrays_def nan_front_def\<close>)
  have ls: "last (km_kf k2) = Some (fst (filter_at (km_gain k) (km_g2Sqrt k) ((!) xs) (length xs - 1)))" "km_kf k2 \<noteq> []"
    using assms(3) by (simp_all add: kf nan_front_def last_map)
  have "\<not> n \<le> 1" "\<not> (int n < int n \<or> int (length (km_kf k1)) < int n)" using assms(1) k1(2) by (simp_all add: n_def km_arrays_def)
  then have "km_compute newArray price k = Some (k2\<lparr>km_last := last (km_kf k2)\<rparr>)"
    by (simp only: km_compute_def Let_def n_def [symmetric] k0_def [symmetric] k1_def [symmetric] k1(1) nat_int k2_def [symmetric] if_False ls(2))
  then show ?thesis using kf ls pv by (simp add: filter_affine)
qed

theorem kahlman_recurrence_witness:
  "\<exists>k'. km_compute (\<lambda>n. replicate n None) (nan_front 1 [4, 6])
      \<lparr>km_len = 7, km_gain = 1 / 2, km_g2Sqrt = 1, km_kf = [], km_dk = [], km_smooth = [], km_velo = [], km_prev = None, km_last = None\<rparr> = Some k'
    \<and> km_last k' = Some 7"
  using kahlman_recurrence [of "nan_front 1 [4, 6]" 1 "[4, 6]"
      "\<lparr>km_len = 7, km_gain = 1 / 2, km_g2Sqrt = 1, km_kf = [], km_dk = [], km_smooth = [], km_velo = [], km_prev = None, km_last = None\<rparr>"
      "\<lambda>n. replicate n None"]
  by (auto simp: nan_front_def Let_def)

section \<open>The average weighted by volume\<close>

record vwma =
  vw_len :: int
  vw_vwma :: data_array
  vw_prev :: dbl
  vw_last :: dbl
  vw_tmp1 :: data_array
  vw_volume :: data_array
  vw_pvs :: data_array
  vw_vs :: data_array

definition da_mult :: "data_array \<Rightarrow> data_array \<Rightarrow> data_array" where
  "da_mult a b = map (\<lambda>i. a ! i * b ! i) [0..<length a]"

definition da_div :: "data_array \<Rightarrow> data_array \<Rightarrow> data_array" where
  "da_div a b = map (\<lambda>i. a ! i / b ! i) [0..<length a]"

text \<open>\<^verbatim>\<open>a.sma(len, out)\<close> puts the average of the array \<open>a\<close> into \<open>out\<close>, from the index of the look-back on.\<close>

definition da_sma :: "int \<Rightarrow> data_array \<Rightarrow> data_array \<Rightarrow> data_array" where
  "da_sma len a out =
     (case TA_SMA 0 a len of
        Inl e \<Rightarrow> out
      | Inr (b, vals) \<Rightarrow> take (nat (len - 1)) out @ vals @ drop (nat (len - 1) + length vals) out)"

definition vw_compute :: "(nat \<Rightarrow> data_array) \<Rightarrow> data_array \<Rightarrow> data_array \<Rightarrow> vwma \<Rightarrow> vwma" where
  "vw_compute newArray price volume v =
     (if int (length price) \<le> vw_len v - 1 then v
      else
        let v = v\<lparr>vw_prev := vw_last v\<rparr>; n = length price;
            v = (if length (vw_vwma v) \<noteq> n
                 then v\<lparr>vw_vwma := newArray n, vw_tmp1 := newArray n, vw_volume := newArray n, vw_pvs := newArray n, vw_vs := newArray n\<rparr> else v);
            v = v\<lparr>vw_volume := map (\<lambda>i. if volume ! i > 0 then volume ! i else 1) [0..<n]\<rparr>;
            v = v\<lparr>vw_tmp1 := da_mult price (vw_volume v)\<rparr>;
            v = v\<lparr>vw_tmp1 := da_sma (vw_len v) (vw_pvs v) (vw_tmp1 v)\<rparr>;
            v = v\<lparr>vw_volume := da_sma (vw_len v) (vw_vs v) (vw_volume v)\<rparr>;
            v = v\<lparr>vw_vwma := da_div (vw_pvs v) (vw_vs v)\<rparr>
        in v\<lparr>vw_last := da_last (vw_vwma v)\<rparr>)"

text \<open>
  The average does not depend on the prices or the volumes: the two sums are averaged into the arrays they should come from, and the quotient is
  that of arrays that nothing writes.
\<close>

theorem vwma_blind:
  assumes "length price' = length price"
  shows "vw_vwma (vw_compute newArray price' volume' v) = vw_vwma (vw_compute newArray price volume v)
    \<and> vw_last (vw_compute newArray price' volume' v) = vw_last (vw_compute newArray price volume v)"
  using assms by (simp add: vw_compute_def Let_def)

theorem vwma_blind_witness:
  "\<exists>v. vw_last (vw_compute (\<lambda>n. replicate n 1) [100, 200, 300] [1, 1, 1] v) = vw_last (vw_compute (\<lambda>n. replicate n 1) [1, 2, 3] [5, 6, 7] v)
    \<and> vw_last (vw_compute (\<lambda>n. replicate n 1) [1, 2, 3] [5, 6, 7] v) = 1"
  using vwma_blind [of "[100, 200, 300]" "[1, 2, 3]" "\<lambda>n. replicate n 1" "[1, 1, 1]"
      "\<lparr>vw_len = 2, vw_vwma = [], vw_prev = 0, vw_last = 0, vw_tmp1 = [], vw_volume = [], vw_pvs = [], vw_vs = []\<rparr>" "[5, 6, 7]"]
  by (intro exI [of _ "\<lparr>vw_len = 2, vw_vwma = [], vw_prev = 0, vw_last = 0, vw_tmp1 = [], vw_volume = [], vw_pvs = [], vw_vs = []\<rparr>"])
    (simp add: vw_compute_def Let_def da_div_def da_last_def numeral_3_eq_3)

end
