(* ===== verification/Hull_Trend.thy ===== *)
theory Hull_Trend
  imports Trend_Indicators
begin

text \<open>
  The variant of the Hull average \<^verbatim>\<open>indicators/hma3/hma3.cpp\<close>, and the trend that the analysers of the plugins \<^verbatim>\<open>supertrend/\<close> and
  \<^verbatim>\<open>kahlmanfibo/\<close> make of both averages, each smoothed by the filter.
\<close>

section \<open>The variant of the Hull average\<close>

record hma3 =
  h3_len :: int
  h3_hma3 :: "dbl option list"
  h3_prev :: "dbl option"
  h3_last :: "dbl option"

definition h3_lookback :: "int \<Rightarrow> int" where
  "h3_lookback len = len - 1 + len - 1"

definition h3_third :: "int \<Rightarrow> int" where
  "h3_third len = to_int32 (of_int len * (333333334 / 1000000000))"

text \<open>
  Three times the average of a third of the period less those of the half and the whole; the front repeats the first value that all have.
  \<open>None\<close> where an average of TA-Lib has no values or fails.
\<close>

definition h3_raw :: "int \<Rightarrow> int \<Rightarrow> int \<Rightarrow> data_array \<Rightarrow> data_array option" where
  "h3_raw N N_2 N_3 price =
     (case (ta_wma N_3 price, ta_wma N_2 price, ta_wma N price) of
        (Some third, Some half, Some full) \<Rightarrow>
          if third = [] \<or> half = [] \<or> full = [] then None
          else
            let value_at = (\<lambda>i. third ! (i - nat (N_3 - 1)) * 3 - half ! (i - nat (N_2 - 1)) - full ! (i - nat (N - 1)))
            in Some (map (\<lambda>i. if int i < N - 1 then value_at (nat (N - 1)) else value_at i) [0..<length price])
      | _ \<Rightarrow> None)"

definition h3_compute :: "data_array \<Rightarrow> hma3 \<Rightarrow> hma3 option" where
  "h3_compute price h =
     (if int (length price) \<le> h3_lookback (h3_len h) then Some h
      else
        let N = max 2 (h3_len h); N_2 = max 2 (h3_len h div 2); N_3 = max 2 (h3_third (h3_len h))
        in case Option.bind (h3_raw N N_2 N_3 price) (ta_wma N) of
             None \<Rightarrow> None
           | Some out \<Rightarrow>
               if out = [] \<or> int (length price) < (N - 1) + (N - 1) then None
               else
                 let front = nat ((N - 1) + (N - 1));
                     h = h\<lparr>h3_prev := h3_last h, h3_hma3 := nan_front front (drop (front - nat (N - 1)) out)\<rparr>
                 in Some (h\<lparr>h3_last := no_last (h3_hma3 h)\<rparr>))"

definition hull3_of :: "nat \<Rightarrow> nat \<Rightarrow> nat \<Rightarrow> (nat \<Rightarrow> dbl) \<Rightarrow> nat \<Rightarrow> dbl" where
  "hull3_of third half n f j = mean_upto third f j * 3 - mean_upto half f j - mean_upto n f j"

lemma h3_third_bounds:
  assumes "2 \<le> n" "n \<le> 100000"
  obtains t where "max 2 (h3_third (int n)) = int t" "2 \<le> t" "t \<le> n"
proof -
  define x where "x = of_int (int n) * (333333334 / 1000000000 :: dbl)"
  have x: "0 \<le> x" "x \<le> of_nat n" using assms by (simp_all add: x_def)
  have "of_nat n \<le> (100000 :: dbl)" using assms(2) by (metis of_nat_le_iff of_nat_numeral)
  then have "x < 2147483648" using x(2) by linarith
  then have e: "h3_third (int n) = \<lfloor>x\<rfloor>" unfolding h3_third_def x_def [symmetric] using x(1) by (simp add: to_int32_nonneg)
  have "0 \<le> \<lfloor>x\<rfloor>" "\<lfloor>x\<rfloor> \<le> int n" using x by (simp_all add: floor_le_iff)
  then show thesis using that [of "nat (max 2 \<lfloor>x\<rfloor>)"] assms(1) e by auto
qed

lemma h3_raw_hull:
  assumes "2 \<le> third" "third \<le> n" "2 \<le> half" "half \<le> n" "n \<le> WMA_MAX" "n \<le> length price"
  obtains raw where "h3_raw (int n) (int half) (int third) price = Some raw" "length raw = length price"
    "\<And>i. n - 1 \<le> i \<Longrightarrow> i < length price \<Longrightarrow> raw ! i = hull3_of third half n ((!) price) i"
proof -
  obtain xs where x: "ta_wma (int third) price = Some xs" "length xs = length price + 1 - third"
    "\<And>i. third - 1 \<le> i \<Longrightarrow> i < length price \<Longrightarrow> xs ! (i - (third - 1)) = mean_upto third ((!) price) i"
    using ta_wma_upto [of third price] assms by auto
  obtain ys where y: "ta_wma (int half) price = Some ys" "length ys = length price + 1 - half"
    "\<And>i. half - 1 \<le> i \<Longrightarrow> i < length price \<Longrightarrow> ys ! (i - (half - 1)) = mean_upto half ((!) price) i"
    using ta_wma_upto [of half price] assms by auto
  obtain zs where z: "ta_wma (int n) price = Some zs" "length zs = length price + 1 - n"
    "\<And>i. n - 1 \<le> i \<Longrightarrow> i < length price \<Longrightarrow> zs ! (i - (n - 1)) = mean_upto n ((!) price) i"
    using ta_wma_upto [of n price] assms by auto
  have ne: "xs \<noteq> []" "ys \<noteq> []" "zs \<noteq> []" using x(2) y(2) z(2) assms by auto
  have n: "nat (int third - 1) = third - 1" "nat (int half - 1) = half - 1" "nat (int n - 1) = n - 1" using assms by auto
  define v where "v = (\<lambda>i. xs ! (i - (third - 1)) * 3 - ys ! (i - (half - 1)) - zs ! (i - (n - 1)))"
  show thesis
  proof (rule that)
    show "h3_raw (int n) (int half) (int third) price = Some (map (\<lambda>i. if int i < int n - 1 then v (n - 1) else v i) [0..<length price])"
      using ne by (simp add: h3_raw_def x(1) y(1) z(1) Let_def n v_def)
  next
    fix i
    assume i: "n - 1 \<le> i" "i < length price"
    then have "third - 1 \<le> i" "half - 1 \<le> i" "\<not> int i < int n - 1" using assms by auto
    then show "map (\<lambda>i. if int i < int n - 1 then v (n - 1) else v i) [0..<length price] ! i = hull3_of third half n ((!) price) i"
      using i x(3) [of i] y(3) [of i] z(3) [of i] by (simp add: hull3_of_def v_def)
  qed simp
qed

text \<open>From the index on where it has values, the variant is the weighted mean of the last values of that combination of averages.\<close>

lemma hma3_hull:
  assumes "2 \<le> n" "n \<le> WMA_MAX" "h3_len h = int n" "2 * n - 2 < length price"
    and "third = nat (max 2 (h3_third (int n)))" "half = max 2 (n div 2)"
  shows "\<exists>h'. h3_compute price h = Some h' \<and> length (h3_hma3 h') = length price \<and> (\<forall>i<2 * n - 2. h3_hma3 h' ! i = None)
    \<and> (\<forall>i. 2 * n - 2 \<le> i \<and> i < length price \<longrightarrow> h3_hma3 h' ! i = Some (mean_upto n (hull3_of third half n ((!) price)) i))
    \<and> h3_last h' = Some (mean_upto n (hull3_of third half n ((!) price)) (length price - 1))"
proof -
  obtain t where t: "max 2 (h3_third (int n)) = int t" "2 \<le> t" "t \<le> n" using h3_third_bounds [OF assms(1)] assms(2) by (auto simp: WMA_MAX_def)
  then have third: "third = t" using assms(5) by simp
  have half: "2 \<le> half" "half \<le> n" "max 2 (int n div 2) = int half" using assms(1,6) by (auto simp: max_def)
  have np: "n \<le> length price" using assms(1,4) by linarith
  obtain raw where r: "h3_raw (int n) (int half) (int t) price = Some raw" "length raw = length price"
    "\<And>i. n - 1 \<le> i \<Longrightarrow> i < length price \<Longrightarrow> raw ! i = hull3_of t half n ((!) price) i"
    using h3_raw_hull [OF t(2,3) half(1,2) assms(2) np] by blast
  obtain out where o: "ta_wma (int n) raw = Some out" "length out = length raw + 1 - n"
    "\<And>i. n - 1 \<le> i \<Longrightarrow> i < length raw \<Longrightarrow> out ! (i - (n - 1)) = mean_upto n ((!) raw) i"
    using ta_wma_upto [OF assms(1,2), of raw] np r(2) by auto
  define hs where "hs = nan_front (2 * n - 2) (drop (n - 1) out)"
  have l: "length hs = length price" using o(2) r(2) assms(1,4) by (simp add: hs_def nan_front_def)
  have v: "hs ! i = Some (mean_upto n (hull3_of t half n ((!) price)) i)" if "2 * n - 2 \<le> i" "i < length price" for i
  proof -
    have k: "i - (2 * n - 2) < length (drop (n - 1) out)" "n - 1 + (i - (2 * n - 2)) = i - (n - 1)" "n - 1 \<le> i"
      using that o(2) r(2) assms(1) by auto
    have "hs ! i = Some (drop (n - 1) out ! (i - (2 * n - 2)))" using that k(1) by (simp add: hs_def nan_front_def nth_append)
    also have "drop (n - 1) out ! (i - (2 * n - 2)) = out ! (n - 1 + (i - (2 * n - 2)))" by (rule nth_drop) (use k(1) in simp)
    also have "\<dots> = mean_upto n ((!) raw) i" unfolding k(2) by (rule o(3) [OF k(3)]) (use that r(2) in simp)
    also have "\<dots> = mean_upto n (hull3_of t half n ((!) price)) i"
      unfolding mean_upto_def [of n _ i] by (rule weighted_mean_cong, rule r(3)) (use that assms(1) in auto)
    finally show ?thesis .
  qed
  have ne: "hs \<noteq> []" "out \<noteq> []" using l o(2) r(2) np assms(1,4) by auto
  have lb: "\<not> int (length price) \<le> h3_lookback (int n)" using assms(1,4) by (simp add: h3_lookback_def)
  have f: "nat (int n - 1 + (int n - 1)) = 2 * n - 2" "nat (int n - 1) = n - 1" "2 * n - 2 - (n - 1) = n - 1"
    "\<not> int (length price) < int n - 1 + (int n - 1)" "max 2 (int n) = int n"
    using assms(1,4) by auto
  have c: "h3_compute price h = Some (h\<lparr>h3_prev := h3_last h, h3_hma3 := hs, h3_last := no_last hs\<rparr>)"
    using lb ne(2) unfolding h3_compute_def assms(3)
    by (simp only: if_False f t(1) half(3) Let_def r(1) bind.bind_lunit o(1) option.case simp_thms) (simp add: hs_def)
  have "no_last hs = Some (mean_upto n (hull3_of t half n ((!) price)) (length price - 1))"
    using v [of "length price - 1"] ne(1) l assms(4) by (simp add: no_last_def last_conv_nth)
  moreover have "\<forall>i<2 * n - 2. hs ! i = None" by (simp add: hs_def nan_front_def nth_append)
  ultimately show ?thesis using l v unfolding c third by auto
qed

text \<open>An average and a filter that cannot be computed stay as they are here.\<close>

definition h3_computed :: "data_array \<Rightarrow> hma3 \<Rightarrow> hma3" where
  "h3_computed price h = (case h3_compute price h of None \<Rightarrow> h | Some h' \<Rightarrow> h')"

definition km_computed :: "(nat \<Rightarrow> dbl option list) \<Rightarrow> dbl option list \<Rightarrow> kahlman \<Rightarrow> kahlman" where
  "km_computed newArray price k = (case km_compute newArray price k of None \<Rightarrow> k | Some k' \<Rightarrow> k')"

section \<open>The trend of both averages\<close>

record hull_trend =
  ht_kahlman :: bool
  ht_trendTimestamp :: dbl
  ht_hma :: hma
  ht_hma3 :: hma3
  ht_trend :: int
  ht_kHma :: kahlman
  ht_kHma3 :: kahlman

definition new_kahlman :: "(dbl \<Rightarrow> dbl) \<Rightarrow> int \<Rightarrow> dbl \<Rightarrow> kahlman" where
  "new_kahlman rt len gain = \<lparr>km_len = len, km_gain = gain, km_g2Sqrt = rt (gain * 2), km_kf = [], km_dk = [], km_smooth = [], km_velo = [],
     km_prev = Some 0, km_last = Some 0\<rparr>"

text \<open>The constructors, with the length that the configuration gives to the first average; the second has half of it.\<close>

definition new_hull_trend :: "(dbl \<Rightarrow> dbl) \<Rightarrow> int \<Rightarrow> hull_trend" where
  "new_hull_trend rt len =
     \<lparr>ht_kahlman = True, ht_trendTimestamp = 0, ht_hma = \<lparr>hm_len = len, hm_hma = [], hm_prev = Some 0, hm_last = Some 0\<rparr>,
      ht_hma3 = \<lparr>h3_len = len div 2, h3_hma3 = [], h3_prev = Some 0, h3_last = Some 0\<rparr>, ht_trend = 0,
      ht_kHma = new_kahlman rt 22 (7 / 10), ht_kHma3 = new_kahlman rt 11 (7 / 10)\<rparr>"

definition gt_nan :: "dbl option \<Rightarrow> dbl option \<Rightarrow> bool" where
  "gt_nan x y = (case (x, y) of (Some x, Some y) \<Rightarrow> x > y | _ \<Rightarrow> False)"

definition ht_averages :: "(dbl \<Rightarrow> dbl) \<Rightarrow> price_ind \<Rightarrow> hull_trend \<Rightarrow> hull_trend" where
  "ht_averages rt p h = h\<lparr>ht_hma := hm_computed rt (pr_price p) (ht_hma h), ht_hma3 := h3_computed (pr_close p) (ht_hma3 h)\<rparr>"

definition ht_filter :: "(nat \<Rightarrow> dbl option list) \<Rightarrow> hull_trend \<Rightarrow> hull_trend" where
  "ht_filter newArray h =
     h\<lparr>ht_kHma := km_computed newArray (hm_hma (ht_hma h)) (ht_kHma h), ht_kHma3 := km_computed newArray (h3_hma3 (ht_hma3 h)) (ht_kHma3 h)\<rparr>"

definition ht_look :: "(nat \<Rightarrow> dbl option list) \<Rightarrow> hull_trend \<Rightarrow> hull_trend" where
  "ht_look newArray h =
     (if ht_kahlman h then
        (let h = ht_filter newArray h in h\<lparr>ht_trend := if gt_nan (km_last (ht_kHma3 h)) (km_last (ht_kHma h)) then 1 else -1\<rparr>)
      else h\<lparr>ht_trend := if gt_nan (h3_last (ht_hma3 h)) (hm_last (ht_hma h)) then 1 else -1\<rparr>)"

definition ht_compute :: "(dbl \<Rightarrow> dbl) \<Rightarrow> (nat \<Rightarrow> dbl option list) \<Rightarrow> dbl \<Rightarrow> price_ind \<Rightarrow> hull_trend \<Rightarrow> hull_trend" where
  "ht_compute rt newArray timestamp p h =
     (let h = ht_averages rt p h; prevTrend = ht_trend h; h = ht_look newArray h
      in if prevTrend \<noteq> ht_trend h then h\<lparr>ht_trendTimestamp := timestamp\<rparr> else h)"

text \<open>The trend is up or down from the first computation on, and the time noted is that of the last computation that turned it.\<close>

lemma ht_look_trend: "ht_trend (ht_look newArray h) \<in> {1, -1}"
  by (simp add: ht_look_def Let_def)

lemma ht_averages_kept [simp]:
  "ht_trend (ht_averages rt p h) = ht_trend h" "ht_trendTimestamp (ht_averages rt p h) = ht_trendTimestamp h"
  by (simp_all add: ht_averages_def)

lemma ht_look_kept [simp]: "ht_trendTimestamp (ht_look newArray h) = ht_trendTimestamp h"
  by (simp add: ht_look_def ht_filter_def Let_def)

lemma ht_compute_trend:
  "ht_trend (ht_compute rt newArray ts p h) \<in> {1, -1}
   \<and> ht_trendTimestamp (ht_compute rt newArray ts p h)
     = (if ht_trend (ht_compute rt newArray ts p h) = ht_trend h then ht_trendTimestamp h else ts)"
  using ht_look_trend [of newArray "ht_averages rt p h"] by (auto simp: ht_compute_def Let_def)

end
