(* ===== verification/Supertrend.thy ===== *)
theory Supertrend
  imports Signal_Spacing Backtest Hull_Trend
begin

text \<open>
  The plugin \<^verbatim>\<open>strategies/src/strategies/supertrend/supertrendstrat.cpp\<close> and its analysers: a signal where the super trend turns, with the
  stop-loss behind its line, which the stop-loss of the trades then follows. The computations of the trend and of the signal analyser are the same.
\<close>

section \<open>Analysers\<close>

record su_analyser = tf_analyser +
  su_hull :: hull_trend
  su_superTrend :: super_trend

record sc_analyser = tf_analyser +
  sc_confirmation :: int

text \<open>The library of the analysers: the square root, the content of new arrays, the unstable period of TA-Lib.\<close>

record su_lib =
  sl_sqrt :: "dbl \<Rightarrow> dbl"
  sl_newArray :: "nat \<Rightarrow> dbl option list"
  sl_junk :: "nat \<Rightarrow> dbl"
  sl_unstable :: nat

definition su_compute :: "su_lib \<Rightarrow> dbl \<Rightarrow> dbl \<Rightarrow> 'a su_analyser_scheme \<Rightarrow> 'a su_analyser_scheme" where
  "su_compute L timestamp lastTimestamp a =
     (let p = an_price a in
      if pr_consolidated p then
        a\<lparr>su_hull := ht_compute (sl_sqrt L) (sl_newArray L) timestamp p (su_hull a),
          su_superTrend := st_compute (sl_unstable L) (sl_junk L) (pr_high p) (pr_low p) (pr_close p) (su_superTrend a)\<rparr>
      else a)"

definition su_sig :: "'a su_analyser_scheme \<Rightarrow> int" where
  "su_sig a = st_positionChange (su_superTrend a)"

definition su_takeProfit :: "int \<Rightarrow> dbl \<Rightarrow> 'a su_analyser_scheme \<Rightarrow> dbl" where
  "su_takeProfit direction profitScale a = 0"

definition su_stopLoss :: "int \<Rightarrow> dbl \<Rightarrow> dbl \<Rightarrow> 'a su_analyser_scheme \<Rightarrow> dbl" where
  "su_stopLoss direction riskScale onePipMeans a = st_last (su_superTrend a) - of_int direction * riskScale * onePipMeans"

definition su_dynamicStopLoss :: "int \<Rightarrow> dbl \<Rightarrow> dbl \<Rightarrow> 'a su_analyser_scheme \<Rightarrow> dbl" where
  "su_dynamicStopLoss direction curStopLoss distance a =
     (if st_lastPosition (su_superTrend a) \<noteq> direction then 0
      else if direction > 0 then max (st_last (su_superTrend a) * (1 - distance)) curStopLoss
      else if direction < 0 then min (st_last (su_superTrend a) * (1 + distance)) curStopLoss
      else 0)"

definition sc_compute :: "dbl \<Rightarrow> dbl \<Rightarrow> 'a sc_analyser_scheme \<Rightarrow> 'a sc_analyser_scheme" where
  "sc_compute timestamp lastTimestamp a = a\<lparr>sc_confirmation := close_move (an_price a)\<rparr>"

lemma supertrend_base [simp]:
  "tf_analyser.truncate (su_compute L ts now a) = tf_analyser.truncate a" "tf_analyser.truncate (sc_compute ts now c) = tf_analyser.truncate c"
  by (simp_all add: tf_analyser.truncate_def su_compute_def sc_compute_def Let_def)

interpretation su: analyser_hooks no_updateTick "su_compute L" for L
  by unfold_locales (simp_all add: no_updateTick_def)

interpretation sc: analyser_hooks no_updateTick sc_compute
  by unfold_locales (simp_all add: no_updateTick_def)

section \<open>State\<close>

record supertrend = engine +
  se_trend :: "su_analyser option"
  se_sig :: su_analyser
  se_conf :: "sc_analyser option"
  se_profitScale :: dbl
  se_riskScale :: dbl

definition se_prepare :: "dbl \<Rightarrow> supertrend \<Rightarrow> supertrend" where
  "se_prepare timestamp e = e"

definition se_analysers :: "su_lib \<Rightarrow> dbl \<Rightarrow> dbl \<Rightarrow> supertrend \<Rightarrow> supertrend" where
  "se_analysers L timestamp lastTimestamp e =
     e\<lparr>se_trend := map_option (processed (su_compute L) timestamp) (se_trend e),
       se_sig := processed (su_compute L) timestamp (se_sig e),
       se_conf := map_option (processed sc_compute timestamp) (se_conf e)\<rparr>"

definition se_onTickUpdate :: "date_lib \<Rightarrow> tick list \<Rightarrow> supertrend \<Rightarrow> supertrend" where
  "se_onTickUpdate dl ticks e =
     (if sg_baseTimeframe (eg_strategy e) = TF_TICK then
        e\<lparr>se_trend := map_option (an_onTickUpdate dl no_updateTick ticks) (se_trend e),
          se_sig := an_onTickUpdate dl no_updateTick ticks (se_sig e),
          se_conf := map_option (an_onTickUpdate dl no_updateTick ticks) (se_conf e)\<rparr>
      else e)"

definition se_onOhlcUpdate :: "dbl \<Rightarrow> ohlc_type \<Rightarrow> ohlc list \<Rightarrow> supertrend \<Rightarrow> supertrend" where
  "se_onOhlcUpdate timeframe ohlcType bars e =
     (if sg_baseTimeframe (eg_strategy e) = timeframe then
        let tf = ohlc_type_number ohlcType
        in e\<lparr>se_trend := map_option (an_onOhlcUpdate tf bars) (se_trend e), se_sig := an_onOhlcUpdate tf bars (se_sig e),
             se_conf := map_option (an_onOhlcUpdate tf bars) (se_conf e)\<rparr>
      else e)"

definition se_data :: "date_lib \<Rightarrow> market_data \<Rightarrow> supertrend \<Rightarrow> supertrend" where
  "se_data dl md e =
     (case md of Md_ticks ticks \<Rightarrow> se_onTickUpdate dl ticks e | Md_bars timeframe ohlcType bars \<Rightarrow> se_onOhlcUpdate timeframe ohlcType bars e)"

section \<open>The signal\<close>

definition se_takeProfitPrice :: "int \<Rightarrow> market \<Rightarrow> supertrend \<Rightarrow> dbl \<Rightarrow> dbl" where
  "se_takeProfitPrice direction m e price =
     (if direction > 0 then price * (1 + ee_distance (eg_takeProfit e)) + se_profitScale e * mk_onePipMean m
      else price * (1 - ee_distance (eg_takeProfit e)) - se_profitScale e * mk_onePipMean m)"

definition se_fill :: "int \<Rightarrow> dbl \<Rightarrow> market \<Rightarrow> supertrend \<Rightarrow> trade_signal \<Rightarrow> trade_signal" where
  "se_fill direction timestamp m e s =
     (if sn_timestamp (eg_lastSignal e) + sn_timeframe (eg_lastSignal e) < timestamp then
        (let s = en_updateSignal (eg_entry e) m (s\<lparr>sn_type := SN_ENTRY, sn_direction := direction\<rparr>)
         in s\<lparr>sn_takeProfitPrice := se_takeProfitPrice direction m e (sn_price s),
              sn_stopLossPrice := su_stopLoss direction (se_riskScale e) (mk_onePipMean m) (se_sig e)\<rparr>)
      else s)"

definition se_computeSignal :: "dbl \<Rightarrow> market \<Rightarrow> supertrend \<Rightarrow> trade_signal \<times> supertrend" where
  "se_computeSignal timestamp m e =
     (let s = new_signal (an_timeframe (se_sig e)) timestamp; sig = su_sig (se_sig e);
          s = (if sig > 0 then se_fill LONG timestamp m e s else if sig < 0 then se_fill SHORT timestamp m e s else s)
      in if sn_valid s
         then (check_signal m e ((sl_updateSignal (eg_stopLoss e) s)\<lparr>sn_entryTimeout := en_timeout (eg_entry e)\<rparr>), e)
         else (s, e))"

section \<open>The stop-loss of the trades\<close>

text \<open>The price that \<^verbatim>\<open>updateTrade\<close> moves the stop-loss to; the rules for breakeven and trailing are not applied.\<close>

definition se_stop :: "supertrend \<Rightarrow> market \<Rightarrow> 'a trade_scheme \<Rightarrow> dbl option" where
  "se_stop e m t =
     (if ee_priceType (eg_dynamicStop e) = PRICE_CUSTOM then
        (if \<not> ds_checkMinDistance (eg_dynamicStop e) m t then None
         else
           let newStopPrice = su_dynamicStopLoss (tr_direction t) (tr_stopLossPrice t) (ee_distance (eg_dynamicStop e)) (se_sig e)
           in if newStopPrice > 0 then
                (let newStopPrice = adjustPrice m newStopPrice
                 in if newStopPrice \<noteq> tr_stopLossPrice t then Some newStopPrice else None)
              else None)
      else None)"

definition se_updateTrade :: "'w proxy \<Rightarrow> (dbl \<Rightarrow> modifier_type \<Rightarrow> 'a trade_scheme \<Rightarrow> 'w \<Rightarrow> 'a trade_scheme \<times> 'w)
    \<Rightarrow> supertrend \<Rightarrow> 'a trade_scheme \<Rightarrow> 'w \<Rightarrow> 'a trade_scheme \<times> 'w" where
  "se_updateTrade px modify e t w = move_stop modify (se_stop e (px_market px w) t) t w"

definition se_hooks :: "'w proxy \<Rightarrow> supertrend \<Rightarrow> 'w strategy_hooks" where
  "se_hooks px e = \<lparr>sh_updateInd = se_updateTrade px (it_modifyStopLoss px) e,
     sh_updatePosition = se_updateTrade px (pt_modifyStopLoss px) e\<rparr>"

text \<open>An entry whose take-profit is too close is not let in.\<close>

definition se_accepts :: "trade_signal \<Rightarrow> 'x engine_scheme \<Rightarrow> bool" where
  "se_accepts sn e \<longleftrightarrow> \<not> sn_takeProfitRate sn < eg_minProfit e"

definition se_code :: "date_lib \<Rightarrow> su_lib \<Rightarrow> ('w, supertrend) plugin_code" where
  "se_code dl L =
     \<lparr>pc_data = se_data dl, pc_prepare = se_prepare, pc_analysers = se_analysers L, pc_computeSignal = se_computeSignal, pc_hooks = se_hooks,
      pc_accepts = se_accepts, pc_created = \<lambda>_ t. t\<rparr>"

section \<open>The plugin\<close>

lemma se_core [simp]:
  "eg_core (se_data dl md e) = eg_core e" "eg_core (se_prepare ts e) = eg_core e" "eg_core (se_analysers L ts now e) = eg_core e"
  "eg_lastSignal (se_data dl md e) = eg_lastSignal e" "eg_lastSignal (se_prepare ts e) = eg_lastSignal e"
  "eg_lastSignal (se_analysers L ts now e) = eg_lastSignal e" "snd (se_computeSignal ts m e) = e"
  by (simp_all add: eg_core_def se_data_def se_prepare_def se_analysers_def se_onTickUpdate_def se_onOhlcUpdate_def se_computeSignal_def Let_def
    split: market_data.split)

lemma se_hooks_ok [simp]: "hooks_ok (se_hooks px e)"
  by (simp add: hooks_ok_def se_hooks_def se_updateTrade_def)

lemma se_fill_cases:
  obtains "se_fill d ts m e s = s"
  | "sn_timestamp (eg_lastSignal e) + sn_timeframe (eg_lastSignal e) < ts" "sn_type (se_fill d ts m e s) = SN_ENTRY"
    "sn_direction (se_fill d ts m e s) = d"
    "sn_stopLossPrice (se_fill d ts m e s) = su_stopLoss d (se_riskScale e) (mk_onePipMean m) (se_sig e)"
    "sn_takeProfitPrice (se_fill d ts m e s) = se_takeProfitPrice d m e (sn_price (se_fill d ts m e s))"
    "sn_timestamp (se_fill d ts m e s) = sn_timestamp s" "sn_timeframe (se_fill d ts m e s) = sn_timeframe s"
  by (cases "sn_timestamp (eg_lastSignal e) + sn_timeframe (eg_lastSignal e) < ts")
    (auto simp: se_fill_def Let_def en_updateSignal_def limit_at_def split: PriceType.splits DistanceType.splits)

interpretation se: plugin "se_code dl L" for dl L
  by unfold_locales (simp_all add: se_code_def)

text \<open>A signal of the plugin: where the super trend turned, in its new direction, not before a timeframe has passed.\<close>

lemma se_signal:
  assumes "sn_valid (fst (se_computeSignal ts m e))"
  shows "sn_timestamp (fst (se_computeSignal ts m e)) = ts \<and> sn_timeframe (fst (se_computeSignal ts m e)) = an_timeframe (se_sig e)
    \<and> sn_timestamp (eg_lastSignal e) + sn_timeframe (eg_lastSignal e) < ts
    \<and> (su_sig (se_sig e) > 0 \<and> sn_direction (fst (se_computeSignal ts m e)) = LONG
       \<or> su_sig (se_sig e) < 0 \<and> sn_direction (fst (se_computeSignal ts m e)) = SHORT)
    \<and> en_checkMaxSpread (eg_entry e) m \<and> (eg_minProfit e > 0 \<longrightarrow> eg_minProfit e \<le> sn_takeProfitRate (fst (se_computeSignal ts m e)))"
proof -
  define n where "n = new_signal (an_timeframe (se_sig e)) ts"
  define s where "s = (if su_sig (se_sig e) > 0 then se_fill LONG ts m e n else if su_sig (se_sig e) < 0 then se_fill SHORT ts m e n else n)"
  define u where "u = (sl_updateSignal (eg_stopLoss e) s)\<lparr>sn_entryTimeout := en_timeout (eg_entry e)\<rparr>"
  have c: "fst (se_computeSignal ts m e) = (if sn_valid s then check_signal m e u else s)"
    by (simp add: se_computeSignal_def Let_def n_def s_def u_def)
  have v: "sn_valid s" "sn_valid (check_signal m e u)" using assms by (auto simp: c split: if_splits)
  have r: "fst (se_computeSignal ts m e) = u" using c v check_signal_valid [OF v(2)] by simp
  have k: "en_checkMaxSpread (eg_entry e) m" "eg_minProfit e > 0 \<longrightarrow> eg_minProfit e \<le> sn_takeProfitRate u"
    using v(2) by (auto simp: check_signal_def Let_def sn_valid_def sn_reset_def split: if_splits)
  have n: "\<not> sn_valid n" "sn_timestamp n = ts" "sn_timeframe n = an_timeframe (se_sig e)" by (simp_all add: n_def sn_valid_def new_signal_def)
  have d: "se_fill d ts m e n = n \<or> sn_timestamp (eg_lastSignal e) + sn_timeframe (eg_lastSignal e) < ts \<and> sn_direction (se_fill d ts m e n) = d
      \<and> sn_timestamp (se_fill d ts m e n) = ts \<and> sn_timeframe (se_fill d ts m e n) = an_timeframe (se_sig e)" for d
    by (cases rule: se_fill_cases [of d ts m e n]) (auto simp: n)
  have q: "sn_timestamp u = sn_timestamp s" "sn_timeframe u = sn_timeframe s" "sn_direction u = sn_direction s"
    by (simp_all add: u_def sl_updateSignal_def split: DistanceType.split)
  show ?thesis using v(1) n(1) d [of LONG] d [of SHORT] k unfolding r q s_def by (auto split: if_splits)
qed

lemma sn_entry_valid: "sn_type s = SN_ENTRY \<Longrightarrow> sn_valid s" by (simp add: sn_valid_def)

interpretation se: spaced_plugin "se_code dl L" "\<lambda>e. an_timeframe (se_sig e)" for dl L
proof unfold_locales
  fix e e' :: supertrend
  assume "engine.more e = engine.more e'"
  then show "an_timeframe (se_sig e) = an_timeframe (se_sig e')" by (cases e, cases e') simp
qed (auto simp: se_code_def se_prepare_def se_analysers_def se_data_def se_onTickUpdate_def se_onOhlcUpdate_def Let_def su.timeframe_kept
  split: market_data.split dest!: sn_entry_valid se_signal)

text \<open>
  Over any run the plugin opens trades more than the timeframe of its signal analyser apart, whatever ticks, bars and signals reach it between.
\<close>

theorem supertrend_spaced:
  assumes "e1 = eg_run px dl (se_code dl L) evs e" "e1' = fst (eg_process px dl (se_code dl L) h1 t1 e1 w1)"
    and "e2 = eg_run px dl (se_code dl L) evs' e1'" "e2' = fst (eg_process px dl (se_code dl L) h2 t2 e2 w2)"
    and "\<not> subseq (keys (eg_trades e1')) (keys (eg_trades e1))" "\<not> subseq (keys (eg_trades e2')) (keys (eg_trades e2))"
    and "0 \<le> an_timeframe (se_sig e)"
  shows "t1 + an_timeframe (se_sig e) < t2"
  by (rule se.openings_apart [OF assms])

interpretation seb: backtest_plugin "se_code dl L" for dl L
  by unfold_locales

text \<open>
  A backtest of the plugin on binary files that are in order ends, gives it exactly the ticks of its range up to the last step, and leaves it within its
  number of trades unless it reverses.
\<close>

theorem supertrend_backtest:
  assumes "0 < bt_timestep b" "bt_stream b = Some s" "st_ok fs s"
    and "running (eg_strategy (bt_strategy b))" "eg_trades (bt_strategy b) = []" "0 \<le> sg_maxTrades (eg_strategy (bt_strategy b))"
  shows "\<exists>b' evs. bt_run u dl fs (se_code dl L) b = Some b' \<and> bt_toTs b < bt_curTs b'
    \<and> bt_strategy b' = eg_run (local_proxy u) dl (se_code dl L) evs (bt_strategy b)
    \<and> ticks_of evs = filter (\<lambda>t. \<exists>T\<in>set (bt_moments (bt_curTs b) (bt_toTs b) (bt_timestep b)). t_ts t \<le> T) (due fs s)
    \<and> (sg_reversal (eg_strategy (bt_strategy b)) \<or> tm_numTrades (eg_trades (bt_strategy b')) \<le> sg_maxTrades (eg_strategy (bt_strategy b)))"
proof -
  obtain b' evs where r: "bt_run u dl fs (se_code dl L) b = Some b'" "bt_toTs b < bt_curTs b'"
    "bt_strategy b' = eg_run (local_proxy u) dl (se_code dl L) evs (bt_strategy b)"
    "ticks_of evs = filter (\<lambda>t. \<exists>T\<in>set (bt_moments (bt_curTs b) (bt_toTs b) (bt_timestep b)). t_ts t \<le> T) (due fs s)"
    using seb.backtest_delivers [OF assms(1,4,2,3), where u = u and dl = dl and dla = dl and L = L] by metis
  have "sg_reversal (eg_strategy (bt_strategy b)) \<or> tm_numTrades (eg_trades (bt_strategy b')) \<le> sg_maxTrades (eg_strategy (bt_strategy b))"
    unfolding r(3) using se.run_max_trades [OF _ assms(5,6)] by blast
  with r show ?thesis by blast
qed

section \<open>The stop-loss of the trades follows the line\<close>

lemma adjustPrice_grid:
  assumes "fits_step (mk_priceFilter m)"
  shows "on_grid (fi_step (mk_priceFilter m)) (adjustPrice m x)" "\<bar>adjustPrice m x - x\<bar> \<le> fi_step (mk_priceFilter m) / 2"
  using assms round_to_step_near [of "fi_step (mk_priceFilter m)" x] by (auto simp: adjustPrice_eq on_grid_def fits_step_def)

lemma grid_gap:
  assumes "0 < s" "on_grid s x" "on_grid s y" "x - s / 2 \<le> y"
  shows "x \<le> y"
proof -
  obtain a b where "x / s = of_int a" "y / s = of_int b" using assms(2,3) unfolding on_grid_def by (metis is_intE)
  then have x: "x = of_int a * s" and y: "y = of_int b * s" using assms(1) by (simp_all add: field_simps)
  have "of_int a * s - s / 2 \<le> of_int b * s" using assms(4) by (simp only: x y)
  then have "(of_int a - 1 / 2) * s \<le> of_int b * s" by (simp add: algebra_simps)
  then have "of_int a - 1 / 2 \<le> (of_int b :: dbl)" using assms(1) by simp
  then have "a \<le> b" by linarith
  then show ?thesis using assms(1) by (simp add: x y)
qed

lemma se_stop_moves:
  assumes "se_stop e m t = Some p" "fits_step (mk_priceFilter m)" "s = fi_step (mk_priceFilter m)"
  shows "on_grid s p \<and> st_lastPosition (su_superTrend (se_sig e)) = tr_direction t
    \<and> (tr_direction t > 0 \<and> tr_stopLossPrice t - s / 2 \<le> p \<or> tr_direction t < 0 \<and> p \<le> tr_stopLossPrice t + s / 2)"
proof -
  define x where "x = su_dynamicStopLoss (tr_direction t) (tr_stopLossPrice t) (ee_distance (eg_dynamicStop e)) (se_sig e)"
  have x: "0 < x" "p = adjustPrice m x"
    using assms(1) unfolding se_stop_def Let_def x_def [symmetric] by (auto split: if_splits)
  have g: "on_grid s p" "\<bar>p - x\<bar> \<le> s / 2" using adjustPrice_grid [OF assms(2)] unfolding x(2) assms(3) by blast+
  have "st_lastPosition (su_superTrend (se_sig e)) = tr_direction t
      \<and> (tr_direction t > 0 \<and> tr_stopLossPrice t \<le> x \<or> tr_direction t < 0 \<and> x \<le> tr_stopLossPrice t)"
    using x(1) unfolding x_def su_dynamicStopLoss_def by (auto split: if_splits)
  moreover have "x - s / 2 \<le> p" "p \<le> x + s / 2" using g(2) unfolding abs_le_iff by linarith+
  ultimately show ?thesis using g(1) by force
qed

text \<open>The stop-loss of a trade before and after each of a sequence of updates, with the plugin, the market and the system as each finds them.\<close>

fun su_trail :: "(dbl \<Rightarrow> modifier_type \<Rightarrow> 'a trade_scheme \<Rightarrow> 'w \<Rightarrow> 'a trade_scheme \<times> 'w) \<Rightarrow> (supertrend \<times> market \<times> 'w) list
    \<Rightarrow> 'a trade_scheme \<Rightarrow> dbl list" where
  "su_trail modify [] t = [tr_stopLossPrice t]"
| "su_trail modify ((e, m, w) # us) t = tr_stopLossPrice t # su_trail modify us (fst (move_stop modify (se_stop e m t) t w))"

definition ticks_of_size :: "dbl \<Rightarrow> (supertrend \<times> market \<times> 'w) list \<Rightarrow> bool" where
  "ticks_of_size s us \<longleftrightarrow> (\<forall>(e, m, w)\<in>set us. fits_step (mk_priceFilter m) \<and> fi_step (mk_priceFilter m) = s)"

context stop_mover
begin

lemma su_step:
  fixes t :: "'a trade_scheme" and e :: supertrend and m :: market and w :: 'w
  defines "t' \<equiv> fst (move_stop modify (se_stop e m t) t w)"
  assumes "fits_step (mk_priceFilter m)" "s = fi_step (mk_priceFilter m)"
  shows "tr_direction t' = tr_direction t"
    and "tr_stopLossPrice t' = tr_stopLossPrice t \<or> on_grid s (tr_stopLossPrice t')
      \<and> (tr_direction t > 0 \<and> tr_stopLossPrice t - s / 2 \<le> tr_stopLossPrice t' \<or> tr_direction t < 0 \<and> tr_stopLossPrice t' \<le> tr_stopLossPrice t + s / 2)"
proof -
  consider "t' = t" | p where "se_stop e m t = Some p" "t' = fst (modify p MOD_PREVIOUS t w)"
    by (cases "se_stop e m t") (simp_all add: t'_def move_stop_def)
  note c = this
  show "tr_direction t' = tr_direction t" by (cases rule: c) (simp_all add: direction_kept)
  show "tr_stopLossPrice t' = tr_stopLossPrice t \<or> on_grid s (tr_stopLossPrice t')
      \<and> (tr_direction t > 0 \<and> tr_stopLossPrice t - s / 2 \<le> tr_stopLossPrice t' \<or> tr_direction t < 0 \<and> tr_stopLossPrice t' \<le> tr_stopLossPrice t + s / 2)"
  proof (cases rule: c)
    case (2 p)
    have "tr_stopLossPrice t' \<in> {tr_stopLossPrice t, p}" using stop_set [of p MOD_PREVIOUS t w] by (simp add: 2(2))
    with se_stop_moves [OF 2(1) assms(2,3)] show ?thesis by auto
  qed simp
qed

lemma su_trail_head: "su_trail modify us t = tr_stopLossPrice t # tl (su_trail modify us t)"
  by (cases us) auto

lemma su_trail_sorted:
  assumes "ticks_of_size s us" "on_grid s (tr_stopLossPrice t)"
  shows "if tr_direction t > 0 then sorted (su_trail modify us t) else sorted_wrt (\<ge>) (su_trail modify us t)"
  using assms
proof (induction us arbitrary: t)
  case (Cons u us)
  obtain e m w where u: "u = (e, m, w)" by (cases u)
  have f: "fits_step (mk_priceFilter m)" "s = fi_step (mk_priceFilter m)" "ticks_of_size s us" and s: "0 < s"
    using Cons.prems(1) by (auto simp: ticks_of_size_def u fits_step_def)
  let ?t = "fst (move_stop modify (se_stop e m t) t w)"
  note k = su_step [OF f(1,2), of e t w]
  have g: "on_grid s (tr_stopLossPrice ?t)" using k(2) Cons.prems(2) by auto
  have le: "tr_direction t > 0 \<Longrightarrow> tr_stopLossPrice t \<le> tr_stopLossPrice ?t" "\<not> tr_direction t > 0 \<Longrightarrow> tr_stopLossPrice ?t \<le> tr_stopLossPrice t"
    using k(2) grid_gap [OF s Cons.prems(2) g] grid_gap [OF s g Cons.prems(2)] by auto
  obtain xs where xs: "su_trail modify us ?t = tr_stopLossPrice ?t # xs" using su_trail_head by blast
  show ?case using Cons.IH [OF f(3) g] le k(1) unfolding u by (cases "tr_direction t > 0") (auto simp: xs)
qed simp

lemma su_trail_bound:
  assumes "ticks_of_size s us" "x \<in> set (su_trail modify us t)" "0 < s"
  shows "if tr_direction t > 0 then tr_stopLossPrice t - s / 2 \<le> x else x \<le> tr_stopLossPrice t + s / 2"
  using assms(1,2)
proof (induction us arbitrary: t)
  case (Cons u us)
  obtain e m w where u: "u = (e, m, w)" by (cases u)
  have f: "fits_step (mk_priceFilter m)" "s = fi_step (mk_priceFilter m)" "ticks_of_size s us"
    using Cons.prems(1) by (auto simp: ticks_of_size_def u)
  let ?t = "fst (move_stop modify (se_stop e m t) t w)"
  note k = su_step [OF f(1,2), of e t w]
  obtain xs where xs: "su_trail modify us ?t = tr_stopLossPrice ?t # xs" using su_trail_head by blast
  show ?case
  proof (cases "x = tr_stopLossPrice t")
    case False
    then have x: "x \<in> set (su_trail modify us ?t)" using Cons.prems(2) by (simp add: u)
    show ?thesis
    proof (cases "tr_stopLossPrice ?t = tr_stopLossPrice t")
      case True
      then show ?thesis using Cons.IH [OF f(3) x] by (simp only: True k(1))
    next
      case moved: False
      have "if tr_direction ?t > 0 then sorted (su_trail modify us ?t) else sorted_wrt (\<ge>) (su_trail modify us ?t)"
        using su_trail_sorted [OF f(3)] k(2) moved by blast
      then show ?thesis using x k moved xs by (auto split: if_splits)
    qed
  qed (use assms(3) in simp)
qed (use assms(3) in simp)

end

text \<open>
  Whatever the markets and the trend become, the stop-loss of a trade only moves in favour of it when it starts on the grid of prices, and loses at
  most half of a tick, by the rounding of its first move, when it does not.
\<close>

theorem supertrend_trail:
  assumes "ticks_of_size s us" "0 < s"
  shows "(on_grid s (tr_stopLossPrice it) \<longrightarrow>
      (if tr_direction it > 0 then sorted (su_trail (it_modifyStopLoss px) us it) else sorted_wrt (\<ge>) (su_trail (it_modifyStopLoss px) us it)))
    \<and> (on_grid s (tr_stopLossPrice pt) \<longrightarrow>
      (if tr_direction pt > 0 then sorted (su_trail (pt_modifyStopLoss px) us pt) else sorted_wrt (\<ge>) (su_trail (pt_modifyStopLoss px) us pt)))
    \<and> (\<forall>x\<in>set (su_trail (it_modifyStopLoss px) us it).
      if tr_direction it > 0 then tr_stopLossPrice it - s / 2 \<le> x else x \<le> tr_stopLossPrice it + s / 2)"
  using ism.su_trail_sorted [OF assms(1)] psm.su_trail_sorted [OF assms(1)] ism.su_trail_bound [OF assms(1) _ assms(2)] by blast

section \<open>An example\<close>

definition se_bars :: "dbl list \<Rightarrow> tf_analyser" where
  "se_bars close = (new_tf_analyser (\<lambda>_. []) 60 0 2 0 PR_CLOSE)\<lparr>an_price := (new_price (\<lambda>_. []) PR_CLOSE)\<lparr>pr_close := close\<rparr>\<rparr>"

definition demo_line :: "int list \<Rightarrow> dbl \<Rightarrow> su_analyser" where
  "demo_line position line = tf_analyser.extend (se_bars [])
     \<lparr>su_hull = new_hull_trend (\<lambda>x. x) 9, su_superTrend = \<lparr>st_len = 3, st_coeff = 1, st_trend = [], st_position = position, st_up = [],
      st_down = [], st_prev = 0, st_last = line\<rparr>\<rparr>"

definition demo_supertrend :: supertrend where
  "demo_supertrend = \<lparr>eg_strategy = new_strategy\<lparr>sg_tradeType := TYPE_IND_MARGIN, sg_maxTrades := 5\<rparr>, eg_trades = [], eg_pool = new_pool,
     eg_lastSignal = new_signal 0 0, eg_entry = (new_trade_entry 0)\<lparr>ee_priceType := PRICE_LAST\<rparr>, eg_stopLoss = new_entry_exit,
     eg_takeProfit = new_entry_exit\<lparr>ee_distance := 1 / 20\<rparr>, eg_breakeven = new_entry_exit,
     eg_dynamicStop = new_dynamic_stop\<lparr>ee_priceType := PRICE_CUSTOM, ee_distanceType := DIST_PERCENTIL\<rparr>, eg_minProfit = 0,
     se_trend = None, se_sig = demo_line [-1, -1, 1] 90, se_conf = None, se_profitScale = 0, se_riskScale = 0\<rparr>"

definition demo_su_lib :: su_lib where
  "demo_su_lib = \<lparr>sl_sqrt = \<lambda>x. x, sl_newArray = \<lambda>n. replicate n None, sl_junk = \<lambda>i. 0, sl_unstable = 0\<rparr>"

text \<open>The demonstration proxy on a market that can be traded.\<close>

definition open_proxy :: "nat proxy" where
  "open_proxy = demo_proxy\<lparr>px_market := \<lambda>n. (px_market demo_proxy n)\<lparr>mk_tradeCaps := 6, mk_bid := 100, mk_ask := 100\<rparr>\<rparr>"

definition demo_step :: "dbl \<Rightarrow> supertrend \<Rightarrow> supertrend" where
  "demo_step t e = fst (eg_process open_proxy no_dates (se_code no_dates demo_su_lib) t t e 0)"

lemma demo_steps:
  "length (eg_trades demo_supertrend) = 0" "length (eg_trades (demo_step 100 demo_supertrend)) = 1"
  "length (eg_trades (demo_step 200 (demo_step 100 demo_supertrend))) = 2"
  by code_simp+

text \<open>The steps at 100 and 200 both open a trade.\<close>

theorem supertrend_spaced_witness:
  "100 + an_timeframe (se_sig demo_supertrend) < 200 \<and> length (eg_trades (demo_step 200 (demo_step 100 demo_supertrend))) = 2"
proof -
  have k: "\<not> subseq (keys ts) (keys us)" if "length us < length ts" for ts us
    using that list_emb_length [of "(=)" "keys ts" "keys us"] by auto
  have e: "e = eg_run px dl pc [] e" for e px dl pc by (simp add: eg_run_def)
  have t: "0 \<le> an_timeframe (se_sig demo_supertrend)" by code_simp
  have "100 + an_timeframe (se_sig demo_supertrend) < 200"
    by (rule supertrend_spaced [OF e demo_step_def [of 100] e demo_step_def [of 200] k k t]) (simp_all add: demo_steps)
  then show ?thesis using demo_steps(3) by blast
qed

text \<open>The line of the example stands at 90: the stop-loss of a long trade at 80 moves there, and the one of a trade at 95 stays.\<close>

definition demo_long :: "dbl \<Rightarrow> position_trade" where
  "demo_long stop = new_position_trade\<lparr>tr_direction := 1, tr_stopLossPrice := stop\<rparr>"

definition demo_grid :: market where
  "demo_grid = (px_market open_proxy 0)\<lparr>mk_priceFilter := (mk_priceFilter (px_market open_proxy 0))\<lparr>fi_step := 1 / 2, fi_precision := 1\<rparr>\<rparr>"

definition demo_updates :: "(supertrend \<times> market \<times> nat) list" where
  "demo_updates = [(demo_supertrend, demo_grid, 0), (demo_supertrend, demo_grid, 0)]"

theorem supertrend_trail_witness:
  "su_trail (pt_modifyStopLoss open_proxy) demo_updates (demo_long 80) = [80, 90, 90]
    \<and> su_trail (pt_modifyStopLoss open_proxy) demo_updates (demo_long 95) = [95, 95, 95]
    \<and> sorted (su_trail (pt_modifyStopLoss open_proxy) demo_updates (demo_long 80))"
proof -
  have "fits_step (mk_priceFilter demo_grid)" "fi_step (mk_priceFilter demo_grid) = 1 / 2"
    by code_simp+
  then have u: "ticks_of_size (1 / 2) demo_updates" by (simp add: ticks_of_size_def demo_updates_def)
  have "on_grid (1 / 2) (tr_stopLossPrice (demo_long 80))" "tr_direction (demo_long 80) > 0"
    by (code_simp, simp add: demo_long_def)
  then have "sorted (su_trail (pt_modifyStopLoss open_proxy) demo_updates (demo_long 80))"
    using supertrend_trail [OF u, where px = open_proxy and pt = "demo_long 80"] by simp
  moreover have "su_trail (pt_modifyStopLoss open_proxy) demo_updates (demo_long 80) = [80, 90, 90]"
    "su_trail (pt_modifyStopLoss open_proxy) demo_updates (demo_long 95) = [95, 95, 95]"
    by code_simp+
  ultimately show ?thesis by simp
qed

definition demo_su_backtest :: "supertrend backtest" where
  "demo_su_backtest = \<lparr>bt_fromTs = 15, bt_toTs = 45, bt_curTs = 15, bt_timestep = 10,
     bt_strategy = demo_supertrend\<lparr>eg_strategy := new_strategy\<lparr>sg_curState := SG_RUNNING\<rparr>\<rparr>, bt_stream = Some demo_stream, bt_connector = sample_lc\<rparr>"

theorem supertrend_backtest_witness:
  "\<exists>b' evs. bt_run 0 no_dates demo_files (se_code no_dates demo_su_lib) demo_su_backtest = Some b'
    \<and> bt_strategy b' = eg_run (local_proxy 0) no_dates (se_code no_dates demo_su_lib) evs (bt_strategy demo_su_backtest)
    \<and> ticks_of evs = [tick_at 20, tick_at 30, tick_at 40]"
proof -
  have h: "0 < bt_timestep demo_su_backtest" "bt_stream demo_su_backtest = Some demo_stream" "running (eg_strategy (bt_strategy demo_su_backtest))"
    "eg_trades (bt_strategy demo_su_backtest) = []" "0 \<le> sg_maxTrades (eg_strategy (bt_strategy demo_su_backtest))"
    by (simp_all add: demo_su_backtest_def running_def demo_supertrend_def new_strategy_def)
  have m: "bt_moments (bt_curTs demo_su_backtest) (bt_toTs demo_su_backtest) (bt_timestep demo_su_backtest) = [15, 25, 35, 45]"
    unfolding demo_su_backtest_def by code_simp
  show ?thesis
    using supertrend_backtest [OF h(1,2) demo_stream_ok h(3,4,5), of 0 no_dates demo_su_lib] unfolding m demo_due
    by (elim exE conjE) (rule exI, rule exI, intro conjI, assumption, assumption, simp add: tick_at_def)
qed

end
