(* ===== verification/Trader_Dispatch.thy ===== *)
theory Trader_Dispatch
  imports Trade_Pool Trade_Proxy
begin

text \<open>
  The rest of \<^verbatim>\<open>strategies/src/connector/traderproxy.cpp\<close>: the calls that are passed on to the connector, the signals of the account, the
  assets, the markets and the trades, and the queries. The proxy has one mutex; an operation that finds it held never returns, which is \<open>None\<close>.
  The markets and strategies are those of the handler.
\<close>

section \<open>State\<close>

record asset =
  as_symbol :: string
  as_lastTimestamp :: dbl
  as_freeQuantity :: dbl
  as_lockedQuantity :: dbl

definition new_asset :: "string \<Rightarrow> asset" where
  "new_asset symbol = \<lparr>as_symbol = symbol, as_lastTimestamp = 0, as_freeQuantity = 0, as_lockedQuantity = 0\<rparr>"

definition setQuantity :: "dbl \<Rightarrow> dbl \<Rightarrow> dbl \<Rightarrow> asset \<Rightarrow> asset" where
  "setQuantity freeQuantity lockedQuantity timestamp a =
     a\<lparr>as_freeQuantity := freeQuantity, as_lockedQuantity := lockedQuantity, as_lastTimestamp := timestamp\<rparr>"

record trader =
  td_locked :: bool
  td_alive :: bool
  td_freeMargin :: dbl
  td_reservedMargin :: dbl
  td_marginFactor :: dbl
  td_assets :: "string \<Rightarrow> asset option"
  td_pool :: pool

text \<open>The constructor leaves the state of the connection as the memory holds it.\<close>

definition new_trader :: "bool \<Rightarrow> trader" where
  "new_trader alive = \<lparr>td_locked = False, td_alive = alive, td_freeMargin = 0, td_reservedMargin = 0, td_marginFactor = 0,
     td_assets = (\<lambda>_. None), td_pool = new_pool\<rparr>"

definition td_lock :: "trader \<Rightarrow> trader option" where
  "td_lock d = (if td_locked d then None else Some (d\<lparr>td_locked := True\<rparr>))"

definition td_unlock :: "trader \<Rightarrow> trader" where
  "td_unlock d = d\<lparr>td_locked := False\<rparr>"

text \<open>A section of the code between the two.\<close>

definition guarded :: "(trader \<Rightarrow> 'a \<times> trader) \<Rightarrow> trader \<Rightarrow> ('a \<times> trader) option" where
  "guarded f d = map_option (\<lambda>d. map_prod id td_unlock (f d)) (td_lock d)"

section \<open>Calls to the connector\<close>

definition RET_UNREACHABLE_SERVICE :: int where "RET_UNREACHABLE_SERVICE = -32"

definition td_createOrder :: "'w proxy option \<Rightarrow> order \<Rightarrow> 'w \<Rightarrow> int \<times> signal list \<times> 'w" where
  "td_createOrder connector od w = (case connector of None \<Rightarrow> (RET_UNREACHABLE_SERVICE, [], w) | Some c \<Rightarrow> px_createOrder c od w)"

definition td_cancelOrder :: "'w proxy option \<Rightarrow> string \<Rightarrow> 'w \<Rightarrow> int \<times> signal list \<times> 'w" where
  "td_cancelOrder connector orderId w = (case connector of None \<Rightarrow> (RET_UNREACHABLE_SERVICE, [], w) | Some c \<Rightarrow> px_cancelOrder c orderId w)"

definition td_closePosition :: "'w proxy option \<Rightarrow> string \<Rightarrow> int \<Rightarrow> dbl \<Rightarrow> bool \<Rightarrow> dbl \<Rightarrow> 'w \<Rightarrow> int \<times> signal list \<times> 'w" where
  "td_closePosition connector positionId direction quantity taker limitPrice w =
     (case connector of
        None \<Rightarrow> (RET_UNREACHABLE_SERVICE, [], w)
      | Some c \<Rightarrow> px_closePosition c positionId direction quantity taker limitPrice w)"

definition td_modifyPosition :: "'w proxy option \<Rightarrow> string \<Rightarrow> dbl \<Rightarrow> dbl \<Rightarrow> 'w \<Rightarrow> int \<times> signal list \<times> 'w" where
  "td_modifyPosition connector positionId stopPrice limitPrice w =
     (case connector of None \<Rightarrow> (RET_UNREACHABLE_SERVICE, [], w) | Some c \<Rightarrow> px_modifyPosition c positionId stopPrice limitPrice w)"

section \<open>Trades and quantities\<close>

definition td_createTrade :: "market option \<Rightarrow> trade_type \<Rightarrow> dbl \<Rightarrow> trader \<Rightarrow> (any_trade option \<times> trader) option" where
  "td_createTrade market ty timeframe d =
     (case market of
        None \<Rightarrow> Some (None, d)
      | Some m \<Rightarrow> guarded (\<lambda>d. let (t, p) = createTrade (Some m) ty timeframe (td_pool d) in (t, d\<lparr>td_pool := p\<rparr>)) d)"

definition td_freeTrade :: "any_trade option \<Rightarrow> trader \<Rightarrow> trader option" where
  "td_freeTrade trade d =
     (case trade of
        None \<Rightarrow> Some d
      | Some t \<Rightarrow> map_option snd (guarded (\<lambda>d. ((), d\<lparr>td_pool := freeTrade t (td_pool d)\<rparr>)) d))"

definition freeAssetQuantity :: "string \<Rightarrow> trader \<Rightarrow> (dbl \<times> trader) option" where
  "freeAssetQuantity assetId d = guarded (\<lambda>d. (case td_assets d assetId of None \<Rightarrow> 0 | Some a \<Rightarrow> as_freeQuantity a, d)) d"

text \<open>The quantity of an asset that is found is returned before the mutex is released.\<close>

definition lockedAssetQuantity :: "string \<Rightarrow> trader \<Rightarrow> (dbl \<times> trader) option" where
  "lockedAssetQuantity assetId d =
     (case td_lock d of
        None \<Rightarrow> None
      | Some d \<Rightarrow>
          (case td_assets d assetId of
             Some a \<Rightarrow> Some (as_lockedQuantity a, d)
           | None \<Rightarrow> Some (0, td_unlock d)))"

section \<open>Signals of the account\<close>

record account_signal =
  sa_freeMargin :: dbl
  sa_reservedMargin :: dbl
  sa_marginFactor :: dbl

record asset_signal =
  sq_timestamp :: dbl
  sq_symbol :: string
  sq_freeQuantity :: dbl
  sq_lockedQuantity :: dbl

datatype status_event = CONN_ACQUIRED | CONN_LOST

definition td_onAccountSignal :: "account_signal \<Rightarrow> trader \<Rightarrow> trader option" where
  "td_onAccountSignal s d =
     map_option snd (guarded (\<lambda>d. ((), d\<lparr>td_freeMargin := sa_freeMargin s, td_reservedMargin := sa_reservedMargin s,
       td_marginFactor := sa_marginFactor s\<rparr>)) d)"

definition td_onAssetSignal :: "asset_signal \<Rightarrow> trader \<Rightarrow> trader option" where
  "td_onAssetSignal s d =
     map_option snd (guarded (\<lambda>d.
       let a = (case td_assets d (sq_symbol s) of Some a \<Rightarrow> a | None \<Rightarrow> new_asset (sq_symbol s))
       in ((), d\<lparr>td_assets := (td_assets d)(sq_symbol s \<mapsto> setQuantity (sq_freeQuantity s) (sq_lockedQuantity s) (sq_timestamp s) a)\<rparr>)) d)"

definition td_onStatusSignal :: "status_event \<Rightarrow> trader \<Rightarrow> trader option" where
  "td_onStatusSignal ev d =
     map_option snd (guarded (\<lambda>d. ((), case ev of CONN_ACQUIRED \<Rightarrow> d\<lparr>td_alive := True\<rparr> | CONN_LOST \<Rightarrow> d\<lparr>td_alive := False\<rparr>)) d)"

section \<open>Signals of the markets\<close>

text \<open>A signal has a value that means undefined for what it says nothing about.\<close>

record signal_fee =
  sf_rate :: dbl
  sf_commission :: dbl
  sf_limits :: "dbl \<times> dbl"

record market_signal =
  mi_timestamp :: dbl
  mi_marketId :: string
  mi_pair :: string
  mi_alias :: string
  mi_open :: int
  mi_marketType :: market_type
  mi_marketContract :: market_contract
  mi_marketUnit :: market_unit
  mi_tradeCaps :: "32 word"
  mi_orderCaps :: "32 word"
  mi_hedging :: int
  mi_contractSize :: dbl
  mi_lotSize :: dbl
  mi_baseExchangeRate :: dbl
  mi_valuePerPip :: dbl
  mi_onePipMeans :: dbl
  mi_marginFactor :: dbl
  mi_priceFilter :: "dbl \<times> dbl \<times> dbl"
  mi_qtyFilter :: "dbl \<times> dbl \<times> dbl"
  mi_notionalFilter :: "dbl \<times> dbl \<times> dbl"
  mi_bid :: dbl
  mi_ask :: dbl
  mi_base :: market_symbol
  mi_quote :: market_symbol
  mi_settlement :: market_symbol
  mi_takerFees :: signal_fee
  mi_makerFees :: signal_fee

definition TRADE_UNDEFINED :: "32 word" where "TRADE_UNDEFINED = -1"
definition ORDER_CAPS_UNDEFINED :: "32 word" where "ORDER_CAPS_UNDEFINED = -1"

definition mi_state :: "market_signal \<Rightarrow> market \<Rightarrow> market" where
  "mi_state s m =
     (if mi_open s > 0 \<and> \<not> mk_tradeable m then setState (mi_baseExchangeRate s) True m
      else if mi_open s \<le> 0 \<and> mk_tradeable m then setState (mi_baseExchangeRate s) False m
      else m)"

definition mi_details :: "market_signal \<Rightarrow> market \<Rightarrow> market" where
  "mi_details s m =
     (let m = (if mi_marginFactor s > 0 then setMarginFactor (mi_marginFactor s) m else m);
          m = (if isValid (mi_pair s) then setPair (mi_pair s) m else m);
          m = (if isValid (mi_alias s) then setAlias (mi_alias s) m else m);
          m = (if mi_contractSize s > 0
               then setDetails (mi_contractSize s) (mi_lotSize s) (mi_valuePerPip s) (mi_onePipMeans s) (mi_hedging s \<noteq> 0) m else m)
      in if mi_bid s \<ge> 0 then setPrice (mi_bid s) (mi_ask s) (mi_timestamp s) m else m)"

text \<open>The fees of the taker go to those of the maker.\<close>

definition mi_fees :: "market_signal \<Rightarrow> market \<Rightarrow> market" where
  "mi_fees s m =
     (let f = mi_makerFees s; t = mi_takerFees s;
          m = (if sf_commission f \<ge> 0 then setMakerFee (sf_rate f) (sf_commission f) (Some (sf_limits f)) m else m)
      in if sf_commission t \<ge> 0 then setMakerFee (sf_rate t) (sf_commission t) (Some (sf_limits t)) m else m)"

definition mi_filters :: "market_signal \<Rightarrow> market \<Rightarrow> market" where
  "mi_filters s m =
     (let m = (if mi_marketType s \<noteq> TYPE_UNDEFINED then setType (mi_marketType s) (mi_marketContract s) (mi_marketUnit s) m else m);
          m = (case mi_priceFilter s of (lo, hi, step) \<Rightarrow> if lo \<ge> 0 then setPriceFilter lo hi step m else m);
          m = (case mi_qtyFilter s of (lo, hi, step) \<Rightarrow> if lo \<ge> 0 then setQtyFilter lo hi step m else m)
      in case mi_notionalFilter s of (lo, hi, step) \<Rightarrow> if lo \<ge> 0 then setNotionalFilter lo hi step m else m)"

definition mi_symbols :: "market_signal \<Rightarrow> market \<Rightarrow> market" where
  "mi_symbols s m =
     (let m = (if mi_tradeCaps s \<noteq> TRADE_UNDEFINED then setTradeCapacities (mi_tradeCaps s) m else m);
          m = (if mi_orderCaps s \<noteq> ORDER_CAPS_UNDEFINED then setOrderCapacities (mi_orderCaps s) m else m);
          b = mi_base s; q = mi_quote s; t = mi_settlement s;
          m = (if isValid (sy_symbol b) then setBaseInfo (sy_symbol b) (sy_precision b) m else m);
          m = (if isValid (sy_symbol q) then setQuoteInfo (sy_symbol q) (sy_precision q) m else m);
          m = (if isValid (sy_symbol t) then setSettlementInfo (sy_symbol t) (sy_precision t) m else m);
          m = (if sy_vol24h b \<ge> 0 then setBaseVol24h (sy_vol24h b) m else m)
      in if sy_vol24h q \<ge> 0 then setQuoteVol24h (sy_vol24h q) m else m)"

definition td_onMarketSignal :: "market_signal \<Rightarrow> (string \<Rightarrow> market option) \<Rightarrow> (string \<Rightarrow> market option)" where
  "td_onMarketSignal s markets =
     (case markets (mi_marketId s) of
        None \<Rightarrow> markets
      | Some m \<Rightarrow> markets(mi_marketId s \<mapsto> mi_symbols s (mi_filters s (mi_fees s (mi_details s (mi_state s m))))))"

section \<open>Signals of the trades\<close>

text \<open>The strategy of the market of a signal handles it; a signal for another market is lost.\<close>

definition td_dispatch :: "(string \<Rightarrow> market option) \<Rightarrow> string \<Rightarrow> ('s \<Rightarrow> 's) \<Rightarrow> (string \<Rightarrow> 's option) \<Rightarrow> (string \<Rightarrow> 's option)" where
  "td_dispatch markets marketId handle strategies =
     (case markets marketId of
        None \<Rightarrow> strategies
      | Some m \<Rightarrow> (case strategies (mk_marketId m) of None \<Rightarrow> strategies | Some s \<Rightarrow> strategies(mk_marketId m \<mapsto> handle s)))"

definition td_onOrderSignal :: "(string \<Rightarrow> market option) \<Rightarrow> (order_signal \<Rightarrow> 's \<Rightarrow> 's) \<Rightarrow> order_signal \<Rightarrow> (string \<Rightarrow> 's option)
    \<Rightarrow> (string \<Rightarrow> 's option)" where
  "td_onOrderSignal markets onOrderSignal sg = td_dispatch markets (or_marketId sg) (onOrderSignal sg)"

definition td_onPositionSignal :: "(string \<Rightarrow> market option) \<Rightarrow> (position_signal \<Rightarrow> 's \<Rightarrow> 's) \<Rightarrow> position_signal \<Rightarrow> (string \<Rightarrow> 's option)
    \<Rightarrow> (string \<Rightarrow> 's option)" where
  "td_onPositionSignal markets onPositionSignal sg = td_dispatch markets (po_marketId sg) (onPositionSignal sg)"

section \<open>Properties\<close>

lemma guarded_free: "\<not> td_locked d \<Longrightarrow> guarded f d = Some (map_prod id td_unlock (f (d\<lparr>td_locked := True\<rparr>)))"
  and guarded_held: "td_locked d \<Longrightarrow> guarded f d = None"
  by (simp_all add: guarded_def td_lock_def)

text \<open>
  After a query for the locked quantity of an asset that is known the mutex stays held, and no query, signal or creation of a trade returns any
  more; a query for an unknown one leaves everything as it was.
\<close>

theorem lockedAssetQuantity_holds:
  assumes "\<not> td_locked d"
  shows "\<exists>q d'. lockedAssetQuantity assetId d = Some (q, d') \<and> q = (case td_assets d assetId of None \<Rightarrow> 0 | Some a \<Rightarrow> as_lockedQuantity a)
    \<and> (if td_assets d assetId = None then d' = d
       else lockedAssetQuantity i d' = None \<and> freeAssetQuantity i d' = None \<and> td_onAccountSignal ac d' = None \<and> td_onAssetSignal aq d' = None
         \<and> td_onStatusSignal st d' = None \<and> td_createTrade (Some m) ty tf d' = None \<and> td_freeTrade (Some t) d' = None)"
  using assms by (cases "td_assets d assetId")
    (auto simp: lockedAssetQuantity_def freeAssetQuantity_def td_onAccountSignal_def td_onAssetSignal_def td_onStatusSignal_def td_createTrade_def
      td_freeTrade_def td_lock_def td_unlock_def guarded_held)

text \<open>The last signal for an asset decides on its quantities.\<close>

fun asset_signals :: "asset_signal list \<Rightarrow> trader \<Rightarrow> trader option" where
  "asset_signals [] d = Some d"
| "asset_signals (s # ss) d = (case td_onAssetSignal s d of None \<Rightarrow> None | Some d \<Rightarrow> asset_signals ss d)"

definition last_signal :: "string \<Rightarrow> asset_signal list \<Rightarrow> asset_signal option" where
  "last_signal assetId ss = (case filter (\<lambda>s. sq_symbol s = assetId) ss of [] \<Rightarrow> None | xs \<Rightarrow> Some (last xs))"

lemma asset_signals_last:
  assumes "\<not> td_locked d"
  shows "\<exists>d'. asset_signals ss d = Some d' \<and> \<not> td_locked d' \<and>
    map_option as_freeQuantity (td_assets d' i) = (case last_signal i ss of None \<Rightarrow> map_option as_freeQuantity (td_assets d i) | Some s \<Rightarrow> Some (sq_freeQuantity s))
    \<and> map_option as_lockedQuantity (td_assets d' i) = (case last_signal i ss of None \<Rightarrow> map_option as_lockedQuantity (td_assets d i) | Some s \<Rightarrow> Some (sq_lockedQuantity s))"
  using assms
proof (induction ss arbitrary: d)
  case (Cons s ss)
  let ?a = "case td_assets d (sq_symbol s) of Some a \<Rightarrow> a | None \<Rightarrow> new_asset (sq_symbol s)"
  let ?d = "d\<lparr>td_assets := (td_assets d)(sq_symbol s \<mapsto> setQuantity (sq_freeQuantity s) (sq_lockedQuantity s) (sq_timestamp s) ?a)\<rparr>"
  have "td_onAssetSignal s d = Some ?d" using Cons.prems by (simp add: td_onAssetSignal_def guarded_free td_unlock_def Let_def)
  moreover have "\<not> td_locked ?d" using Cons.prems by simp
  note Cons.IH [OF this]
  moreover have "last_signal i (s # ss) = (case last_signal i ss of None \<Rightarrow> if sq_symbol s = i then Some s else None | Some x \<Rightarrow> Some x)"
    by (auto simp: last_signal_def split: list.split)
  ultimately show ?case by (auto simp: setQuantity_def split: option.splits if_splits)
qed (simp add: last_signal_def)

text \<open>
  After any signals on assets a new proxy answers with the free quantity of the last signal for the asset, zero when there was none, and can be
  asked again.
\<close>

theorem asset_quantity:
  "\<exists>d. asset_signals ss (new_trader alive) = Some d \<and> freeAssetQuantity assetId d = Some (case last_signal assetId ss of None \<Rightarrow> 0 | Some s \<Rightarrow> sq_freeQuantity s, d)"
proof -
  obtain d where d: "asset_signals ss (new_trader alive) = Some d" "\<not> td_locked d"
    "map_option as_freeQuantity (td_assets d assetId) = (case last_signal assetId ss of None \<Rightarrow> None | Some s \<Rightarrow> Some (sq_freeQuantity s))"
    using asset_signals_last [of "new_trader alive" ss assetId] by (auto simp: new_trader_def split: option.splits)
  have "(case td_assets d assetId of None \<Rightarrow> 0 | Some a \<Rightarrow> as_freeQuantity a) = (case last_signal assetId ss of None \<Rightarrow> 0 | Some s \<Rightarrow> sq_freeQuantity s)"
    using d(3) by (auto split: option.splits)
  then show ?thesis using d(1,2) by (auto simp: freeAssetQuantity_def guarded_free td_unlock_def)
qed

text \<open>What the parts of a market signal leave as it is.\<close>

lemmas setters = setState_def setMarginFactor_def setPair_def setAlias_def setDetails_def setPrice_def setMakerFee_def setType_def setPriceFilter_def
  setQtyFilter_def setNotionalFilter_def setTradeCapacities_def setOrderCapacities_def setBaseInfo_def setQuoteInfo_def setSettlementInfo_def
  setBaseVol24h_def setQuoteVol24h_def

lemma mi_state_fees [simp]: "mk_takerFees (mi_state s m) = mk_takerFees m" "mk_makerFees (mi_state s m) = mk_makerFees m"
  by (simp_all add: mi_state_def setters)

lemma mi_details_parts [simp]:
  "mk_takerFees (mi_details s m) = mk_takerFees m" "mk_makerFees (mi_details s m) = mk_makerFees m" "mk_tradeable (mi_details s m) = mk_tradeable m"
  by (simp_all add: mi_details_def Let_def setters)

lemma mi_fees_parts [simp]: "mk_takerFees (mi_fees s m) = mk_takerFees m" "mk_tradeable (mi_fees s m) = mk_tradeable m"
  by (simp_all add: mi_fees_def Let_def setters split_beta)

lemma mi_filters_parts [simp]:
  "mk_takerFees (mi_filters s m) = mk_takerFees m" "mk_makerFees (mi_filters s m) = mk_makerFees m" "mk_tradeable (mi_filters s m) = mk_tradeable m"
  by (simp_all add: mi_filters_def Let_def setters split_beta)

lemma mi_symbols_parts [simp]:
  "mk_takerFees (mi_symbols s m) = mk_takerFees m" "mk_makerFees (mi_symbols s m) = mk_makerFees m" "mk_tradeable (mi_symbols s m) = mk_tradeable m"
  by (simp_all add: mi_symbols_def Let_def setters)

text \<open>
  A signal of a market never sets the fees of the taker: they overwrite those of the maker. A signal that says nothing about the market being
  open closes it.
\<close>

theorem market_signal_wrong:
  assumes "markets (mi_marketId s) = Some m"
  shows "\<exists>m'. td_onMarketSignal s markets (mi_marketId s) = Some m' \<and> mk_takerFees m' = mk_takerFees m
    \<and> (sf_commission (mi_takerFees s) \<ge> 0 \<longrightarrow> fee_rate (mk_makerFees m') = sf_rate (mi_takerFees s)
         \<and> fee_commission (mk_makerFees m') = sf_commission (mi_takerFees s))
    \<and> (mi_open s = -1 \<longrightarrow> \<not> mk_tradeable m')"
  using assms by (auto simp: td_onMarketSignal_def mi_fees_def mi_state_def setMakerFee_def setState_def Let_def split: prod.split)

definition silent_signal :: "string \<Rightarrow> market_signal" where
  "silent_signal marketId = \<lparr>mi_timestamp = -1, mi_marketId = marketId, mi_pair = '''', mi_alias = '''', mi_open = -1, mi_marketType = TYPE_UNDEFINED,
     mi_marketContract = CONTRACT_SPOT, mi_marketUnit = UNIT_UNDEFINED, mi_tradeCaps = TRADE_UNDEFINED, mi_orderCaps = ORDER_CAPS_UNDEFINED,
     mi_hedging = -1, mi_contractSize = -1, mi_lotSize = -1, mi_baseExchangeRate = -1, mi_valuePerPip = -1, mi_onePipMeans = -1, mi_marginFactor = -1,
     mi_priceFilter = (-1, -1, -1), mi_qtyFilter = (-1, -1, -1), mi_notionalFilter = (-1, -1, -1), mi_bid = -1, mi_ask = -1,
     mi_base = new_symbol\<lparr>sy_vol24h := -1\<rparr>, mi_quote = new_symbol\<lparr>sy_vol24h := -1\<rparr>, mi_settlement = new_symbol\<lparr>sy_vol24h := -1\<rparr>,
     mi_takerFees = \<lparr>sf_rate = 1, sf_commission = 2, sf_limits = (0, 0)\<rparr>, mi_makerFees = \<lparr>sf_rate = 1, sf_commission = -1, sf_limits = (0, 0)\<rparr>\<rparr>"

theorem market_signal_wrong_witness:
  "\<exists>m'. td_onMarketSignal (silent_signal ''BTC'') [''BTC'' \<mapsto> sample_market] ''BTC'' = Some m' \<and> mk_takerFees m' = mk_takerFees sample_market
     \<and> fee_commission (mk_makerFees m') = 2 \<and> \<not> mk_tradeable m'"
  using market_signal_wrong [of "[''BTC'' \<mapsto> sample_market]" "silent_signal ''BTC''" sample_market] by (auto simp: silent_signal_def)

theorem lockedAssetQuantity_holds_witness:
  "\<exists>d'. lockedAssetQuantity ''EUR'' ((new_trader True)\<lparr>td_assets := [''EUR'' \<mapsto> new_asset ''EUR'']\<rparr>) = Some (0, d') \<and> freeAssetQuantity ''EUR'' d' = None"
  using lockedAssetQuantity_holds [of "(new_trader True)\<lparr>td_assets := [''EUR'' \<mapsto> new_asset ''EUR'']\<rparr>" "''EUR''", where i = "''EUR''"]
  by (simp add: new_trader_def new_asset_def) blast

end
