(* ===== verification/Td9.thy ===== *)
theory Td9
  imports Indicators
begin

text \<open>
  The counts of \<^verbatim>\<open>indicators/td9/td9.cpp\<close>: setups of nine closes and the count-downs that should follow them. The arrays have the same size;
  \<open>None\<close> is a read before their first value.
\<close>

record c_token =
  ct_c :: int
  ct_d :: int
  ct_p :: bool
  ct_tdst :: dbl

record cd_token =
  cd_c :: int
  cd_d :: int
  cd_q :: bool
  cd_eight :: dbl

definition c_reset :: c_token where
  "c_reset = \<lparr>ct_c = 0, ct_d = 0, ct_p = False, ct_tdst = 0\<rparr>"

definition cd_reset :: cd_token where
  "cd_reset = \<lparr>cd_c = 0, cd_d = 0, cd_q = False, cd_eight = 0\<rparr>"

record td9 =
  td_timeframe :: dbl
  td_lastTimestamp :: dbl
  td_c :: c_token
  td_prevC :: c_token
  td_cd :: cd_token
  td_prevCd :: cd_token
  td_aggCd :: cd_token
  td_prevAggCd :: cd_token
  td_highLow :: dbl

definition new_td9 :: "dbl \<Rightarrow> td9" where
  "new_td9 timeframe =
     \<lparr>td_timeframe = timeframe, td_lastTimestamp = 0, td_c = c_reset, td_prevC = c_reset, td_cd = cd_reset, td_prevCd = cd_reset,
      td_aggCd = cd_reset, td_prevAggCd = cd_reset, td_highLow = 0\<rparr>"

definition td_setup :: "nat \<Rightarrow> data_array \<Rightarrow> data_array \<Rightarrow> data_array \<Rightarrow> td9 \<Rightarrow> td9" where
  "td_setup b high low close t =
     (let c = td_c t; prevC = td_prevC t in
      if close ! b \<le> close ! (b - 4) \<and> close ! (b - 1) \<ge> close ! (b - 5) then
        t\<lparr>td_c := c\<lparr>ct_d := 1, ct_c := 1\<rparr>, td_highLow := high ! b\<rparr>
      else if close ! b \<ge> close ! (b - 4) \<and> close ! (b - 1) \<le> close ! (b - 5) then
        t\<lparr>td_c := c\<lparr>ct_d := -1, ct_c := 1\<rparr>, td_highLow := low ! b\<rparr>
      else if close ! b < close ! (b - 4) \<and> ct_d prevC > 0 then
        (if ct_c prevC < 9
         then t\<lparr>td_c := c\<lparr>ct_d := 1, ct_c := ct_c prevC + 1\<rparr>, td_highLow := max (high ! b) (td_highLow t)\<rparr>
         else t\<lparr>td_c := c\<lparr>ct_d := 1, ct_c := 1\<rparr>\<rparr>)
      else if close ! b > close ! (b - 4) \<and> ct_d prevC < 0 then
        (if ct_c prevC < 9
         then t\<lparr>td_c := c\<lparr>ct_d := -1, ct_c := ct_c prevC + 1\<rparr>, td_highLow := min (low ! b) (td_highLow t)\<rparr>
         else t\<lparr>td_c := c\<lparr>ct_d := -1, ct_c := 1\<rparr>\<rparr>)
      else t)"

definition td_perfect :: "nat \<Rightarrow> data_array \<Rightarrow> data_array \<Rightarrow> td9 \<Rightarrow> td9" where
  "td_perfect b high low t =
     (let c = td_c t in
      if ct_c c \<ge> 8 then
        (if ct_d c > 0 then t\<lparr>td_c := c\<lparr>ct_p := low ! b < low ! (b - 2)\<rparr>\<rparr>
         else if ct_d c < 0 then t\<lparr>td_c := c\<lparr>ct_p := high ! b > high ! (b - 2)\<rparr>\<rparr>
         else t)
      else t)"

definition td_eight :: "dbl \<Rightarrow> td9 \<Rightarrow> td9" where
  "td_eight x t =
     (let t = (if cd_c (td_cd t) = 8 then t\<lparr>td_cd := (td_cd t)\<lparr>cd_eight := x\<rparr>\<rparr> else t)
      in if cd_c (td_aggCd t) = 8 then t\<lparr>td_aggCd := (td_aggCd t)\<lparr>cd_eight := x\<rparr>\<rparr> else t)"

text \<open>The count-downs of a buy setup, then those of a sell setup.\<close>

definition td_buy_start :: "td9 \<Rightarrow> td9" where
  "td_buy_start t =
     (if ct_d (td_prevC t) > 0 then
        (let t = (if ct_c (td_c t) = 9 \<and> cd_c (td_prevCd t) = 0 then t\<lparr>td_cd := (td_cd t)\<lparr>cd_c := 1, cd_d := 1\<rparr>\<rparr> else t)
         in if ct_c (td_c t) = 9 \<and> cd_c (td_prevCd t) = 0 then t\<lparr>td_aggCd := (td_aggCd t)\<lparr>cd_c := 1, cd_d := 1\<rparr>\<rparr> else t)
      else t)"

definition td_buy_count :: "nat \<Rightarrow> data_array \<Rightarrow> data_array \<Rightarrow> td9 \<Rightarrow> td9" where
  "td_buy_count b low close t =
     (if cd_d (td_cd t) > 0 then
        (if close ! b < low ! (b - 2) \<and> cd_c (td_prevCd t) \<ge> 1 \<and> cd_c (td_prevCd t) < 13 then
           (let cd = (td_cd t)\<lparr>cd_c := cd_c (td_prevCd t) + 1, cd_d := 1\<rparr>
            in t\<lparr>td_cd := (if cd_c cd = 13 \<and> low ! b \<le> cd_eight cd then cd\<lparr>cd_q := True\<rparr> else cd)\<rparr>)
         else t)
      else t)"

definition td_buy_aggressive :: "nat \<Rightarrow> data_array \<Rightarrow> td9 \<Rightarrow> td9" where
  "td_buy_aggressive b low t =
     (if cd_d (td_aggCd t) = 1 then
        (if low ! b < low ! (b - 2) \<and> cd_c (td_prevAggCd t) \<ge> 1 \<and> cd_c (td_prevAggCd t) < 13 then
           (let cd = (td_aggCd t)\<lparr>cd_c := cd_c (td_prevAggCd t) + 1, cd_d := -1\<rparr>
            in t\<lparr>td_aggCd := (if cd_c cd = 13 \<and> low ! b \<le> cd_eight cd then cd\<lparr>cd_q := True\<rparr> else cd)\<rparr>)
         else t)
      else t)"

definition td_sell_start :: "td9 \<Rightarrow> td9" where
  "td_sell_start t =
     (if ct_d (td_prevC t) < 0 then
        (if ct_c (td_c t) = 9 \<and> cd_c (td_prevCd t) = 0 then
           (let t = t\<lparr>td_cd := (td_cd t)\<lparr>cd_c := 1, cd_d := -1\<rparr>\<rparr>
            in if ct_c (td_c t) = 9 \<and> cd_c (td_prevCd t) = 0 then t\<lparr>td_aggCd := (td_aggCd t)\<lparr>cd_c := 1, cd_d := -1\<rparr>\<rparr> else t)
         else t)
      else t)"

definition td_sell_count :: "nat \<Rightarrow> data_array \<Rightarrow> data_array \<Rightarrow> td9 \<Rightarrow> td9" where
  "td_sell_count b high close t =
     (if cd_d (td_cd t) < 0 then
        (if close ! b \<ge> high ! (b - 2) \<and> cd_c (td_prevCd t) \<ge> 1 \<and> cd_c (td_prevCd t) < 13 then
           (let cd = (td_cd t)\<lparr>cd_c := cd_c (td_prevCd t) + 1, cd_d := -1\<rparr>
            in t\<lparr>td_cd := (if cd_c cd = 13 \<and> high ! b \<ge> cd_eight cd then cd\<lparr>cd_q := True\<rparr> else cd)\<rparr>)
         else t)
      else t)"

definition td_sell_aggressive :: "nat \<Rightarrow> data_array \<Rightarrow> td9 \<Rightarrow> td9" where
  "td_sell_aggressive b high t =
     (if cd_d (td_aggCd t) < 0 then
        (if high ! b \<ge> high ! (b - 2) \<and> cd_c (td_prevAggCd t) \<ge> 1 \<and> cd_c (td_prevAggCd t) < 13 then
           (let cd = (td_aggCd t)\<lparr>cd_c := cd_c (td_prevAggCd t) + 1, cd_d := 1\<rparr>
            in t\<lparr>td_aggCd := (if cd_c cd = 13 \<and> high ! b \<ge> cd_eight cd then cd\<lparr>cd_q := True\<rparr> else cd)\<rparr>)
         else t)
      else t)"

definition td_tdst :: "nat \<Rightarrow> data_array \<Rightarrow> td9 \<Rightarrow> td9" where
  "td_tdst b close t =
     (let t = (if ct_c (td_c t) = 9 then
                (let t = t\<lparr>td_c := (td_c t)\<lparr>ct_tdst := td_highLow t\<rparr>\<rparr>;
                     t = (if cd_d (td_cd t) > 0 \<and> ct_d (td_c t) \<noteq> cd_d (td_cd t) then t\<lparr>td_cd := cd_reset\<rparr> else t)
                 in if cd_d (td_aggCd t) > 0 \<and> ct_d (td_c t) \<noteq> cd_d (td_aggCd t) then t\<lparr>td_aggCd := cd_reset\<rparr> else t)
              else t\<lparr>td_c := (td_c t)\<lparr>ct_tdst := ct_tdst (td_prevC t)\<rparr>\<rparr>)
      in if ct_d (td_prevC t) > 0 \<and> close ! b > ct_tdst (td_c t) \<or> ct_d (td_prevC t) < 0 \<and> close ! b < ct_tdst (td_c t)
         then t\<lparr>td_cd := cd_reset, td_aggCd := cd_reset, td_c := (td_c t)\<lparr>ct_tdst := 0\<rparr>\<rparr>
         else t)"

definition td9_at :: "nat \<Rightarrow> data_array \<Rightarrow> data_array \<Rightarrow> data_array \<Rightarrow> td9 \<Rightarrow> td9" where
  "td9_at b high low close t =
     (let t = td_eight (close ! b) (td_perfect b high low (td_setup b high low close t));
          t = td_buy_aggressive b low (td_buy_count b low close (td_buy_start t));
          t = td_sell_aggressive b high (td_sell_count b high close (td_sell_start t))
      in td_tdst b close t)"

text \<open>A bar, and its validation when it is after the last timestamp.\<close>

definition td_bar :: "data_array \<Rightarrow> data_array \<Rightarrow> data_array \<Rightarrow> data_array \<Rightarrow> nat \<Rightarrow> td9 \<Rightarrow> td9" where
  "td_bar timestamps high low close b t =
     (let t = td9_at b high low close (t\<lparr>td_c := c_reset, td_cd := cd_reset, td_aggCd := cd_reset\<rparr>) in
      if timestamps ! b > td_lastTimestamp t then
        (let t = t\<lparr>td_prevC := td_c t\<rparr>;
             t = (if cd_c (td_cd t) > 0 then t\<lparr>td_prevCd := td_cd t\<rparr> else t)
         in if cd_c (td_aggCd t) > 0 then t\<lparr>td_prevAggCd := td_aggCd t\<rparr> else t)
      else t)"

definition td_compute :: "dbl \<Rightarrow> data_array \<Rightarrow> data_array \<Rightarrow> data_array \<Rightarrow> data_array \<Rightarrow> td9 \<Rightarrow> td9 option" where
  "td_compute timestamp timestamps high low close t =
     (let n = int (length timestamps);
          delta = min (to_int32 ((timestamp - td_lastTimestamp t) / td_timeframe t)) n;
          base = delta + (if timestamp = td_lastTimestamp t then 1 else 0)
      in if base > 0 \<and> n - base < 5 then None
         else Some ((fold (td_bar timestamps high low close) [nat (n - base)..<length timestamps] t)\<lparr>td_lastTimestamp := timestamp\<rparr>))"

section \<open>The count-downs never count\<close>

text \<open>Both count-downs are in step, and a validated one keeps another from starting.\<close>

definition td_idle :: "td9 \<Rightarrow> bool" where
  "td_idle t \<longleftrightarrow> td_prevAggCd t = td_prevCd t \<and> td_aggCd t = td_cd t \<and> 0 \<le> cd_c (td_prevCd t) \<and> cd_c (td_prevCd t) \<le> 1
     \<and> 0 \<le> cd_c (td_cd t) \<and> cd_c (td_cd t) \<le> 1 \<and> \<not> cd_q (td_cd t) \<and> \<not> cd_q (td_prevCd t)"

definition td_started :: "td9 \<Rightarrow> bool" where
  "td_started t \<longleftrightarrow> td_idle t \<and> (cd_d (td_cd t) = 0 \<or> cd_c (td_prevCd t) < 1)"

lemma td_setup_sel [simp]:
  "td_cd (td_setup b h l c t) = td_cd t" "td_aggCd (td_setup b h l c t) = td_aggCd t" "td_prevCd (td_setup b h l c t) = td_prevCd t"
  "td_prevAggCd (td_setup b h l c t) = td_prevAggCd t" "td_prevC (td_setup b h l c t) = td_prevC t"
  "td_cd (td_perfect b h l t) = td_cd t" "td_aggCd (td_perfect b h l t) = td_aggCd t" "td_prevCd (td_perfect b h l t) = td_prevCd t"
  "td_prevAggCd (td_perfect b h l t) = td_prevAggCd t"
  by (simp_all add: td_setup_def td_perfect_def Let_def)

lemma td_eight_started: "td_started t \<Longrightarrow> td_started (td_eight x t)"
  by (simp add: td_eight_def td_started_def td_idle_def Let_def)

text \<open>In this state a count-down that is under way has no validated one to go on from.\<close>

lemma td_count_none:
  "cd_d (td_cd t) = 0 \<or> cd_c (td_prevCd t) < 1 \<Longrightarrow> td_buy_count b low close t = t"
  "cd_d (td_cd t) = 0 \<or> cd_c (td_prevCd t) < 1 \<Longrightarrow> td_sell_count b high close t = t"
  "cd_d (td_aggCd t) = 0 \<or> cd_c (td_prevAggCd t) < 1 \<Longrightarrow> td_buy_aggressive b low t = t"
  "cd_d (td_aggCd t) = 0 \<or> cd_c (td_prevAggCd t) < 1 \<Longrightarrow> td_sell_aggressive b high t = t"
  by (erule disjE; simp add: td_buy_count_def td_buy_aggressive_def td_sell_count_def td_sell_aggressive_def)+

lemma td_count_id [simp]:
  assumes "td_started t"
  shows "td_buy_count b low close t = t" "td_buy_aggressive b low t = t" "td_sell_count b high close t = t" "td_sell_aggressive b high t = t"
proof -
  have "cd_d (td_cd t) = 0 \<or> cd_c (td_prevCd t) < 1" "td_prevAggCd t = td_prevCd t" "td_aggCd t = td_cd t"
    using assms by (simp_all add: td_started_def td_idle_def)
  then show "td_buy_count b low close t = t" "td_buy_aggressive b low t = t" "td_sell_count b high close t = t" "td_sell_aggressive b high t = t"
    by (simp_all add: td_count_none)
qed

lemma td_start_started: "td_started t \<Longrightarrow> td_started (td_buy_start t)" "td_started t \<Longrightarrow> td_started (td_sell_start t)"
  by (simp_all add: td_started_def td_idle_def td_buy_start_def td_sell_start_def)

lemma td_tdst_started:
  assumes "td_started t"
  shows "td_started (td_tdst b c t)"
proof -
  have p: "td_aggCd t = td_cd t" using assms by (simp add: td_started_def td_idle_def)
  define u where "u = (if ct_c (td_c t) = 9 then
                (let t = t\<lparr>td_c := (td_c t)\<lparr>ct_tdst := td_highLow t\<rparr>\<rparr>;
                     t = (if cd_d (td_cd t) > 0 \<and> ct_d (td_c t) \<noteq> cd_d (td_cd t) then t\<lparr>td_cd := cd_reset\<rparr> else t)
                 in if cd_d (td_aggCd t) > 0 \<and> ct_d (td_c t) \<noteq> cd_d (td_aggCd t) then t\<lparr>td_aggCd := cd_reset\<rparr> else t)
              else t\<lparr>td_c := (td_c t)\<lparr>ct_tdst := ct_tdst (td_prevC t)\<rparr>\<rparr>)"
  have u: "td_started u"
    using assms by (cases "cd_d (td_cd t) > 0 \<and> ct_d (td_c t) \<noteq> cd_d (td_cd t)")
      (auto simp: u_def p Let_def td_started_def td_idle_def cd_reset_def)
  then have "td_started (u\<lparr>td_cd := cd_reset, td_aggCd := cd_reset, td_c := c\<rparr>)" for c
    by (simp add: td_started_def td_idle_def cd_reset_def)
  with u show ?thesis unfolding td_tdst_def Let_def u_def [unfolded Let_def, symmetric] by simp
qed

lemma td9_at_started:
  assumes "td_started t"
  shows "td_started (td9_at b high low close t)"
proof -
  have "td_started (td_perfect b high low (td_setup b high low close t))" using assms by (simp add: td_started_def td_idle_def)
  then show ?thesis by (simp add: td9_at_def Let_def td_eight_started td_start_started td_tdst_started)
qed

lemma td_bar_idle:
  assumes "td_idle t"
  shows "td_idle (td_bar ts high low close b t)"
proof -
  define u where "u = td9_at b high low close (t\<lparr>td_c := c_reset, td_cd := cd_reset, td_aggCd := cd_reset\<rparr>)"
  have "td_started u" unfolding u_def using assms by (intro td9_at_started) (simp add: td_started_def td_idle_def cd_reset_def)
  then have "td_idle u" by (simp add: td_started_def)
  then show ?thesis unfolding td_bar_def Let_def u_def [symmetric] by (simp add: td_idle_def)
qed

lemma td_compute_idle: "td_compute timestamp ts high low close t = Some t' \<Longrightarrow> td_idle t \<Longrightarrow> td_idle t'"
proof -
  have "td_idle t \<Longrightarrow> td_idle (fold (td_bar ts high low close) bs t)" for bs and t
    by (induction bs arbitrary: t) (simp_all add: td_bar_idle)
  moreover assume "td_compute timestamp ts high low close t = Some t'" "td_idle t"
  ultimately show ?thesis by (auto simp: td_compute_def Let_def td_idle_def split: if_splits)
qed

text \<open>The prices of a call: timestamp, timestamps of the bars, highs, lows, closes.\<close>

fun td_run :: "(dbl \<times> data_array \<times> data_array \<times> data_array \<times> data_array) list \<Rightarrow> td9 \<Rightarrow> td9 option" where
  "td_run [] t = Some t"
| "td_run ((timestamp, ts, high, low, close) # calls) t = Option.bind (td_compute timestamp ts high low close t) (td_run calls)"

text \<open>
  Whatever prices reach the indicator, neither count-down ever goes beyond its first count: both are reset at every bar, and go on only from a validated count while a
  new one starts only when there is none. No count-down reaches thirteen, and no signal is qualified.
\<close>

theorem td9_never_counts:
  assumes "td_run calls (new_td9 tf) = Some t"
  shows "cd_c (td_cd t) \<le> 1 \<and> cd_c (td_prevCd t) \<le> 1 \<and> cd_c (td_aggCd t) \<le> 1 \<and> cd_c (td_prevAggCd t) \<le> 1
    \<and> \<not> cd_q (td_cd t) \<and> \<not> cd_q (td_aggCd t)"
proof -
  have "td_run calls t0 = Some t \<Longrightarrow> td_idle t0 \<Longrightarrow> td_idle t" for t0
  proof (induction calls t0 rule: td_run.induct)
    case (2 timestamp ts high low close calls t0)
    then show ?case by (auto simp: bind_eq_Some_conv dest: td_compute_idle)
  qed simp
  from this [OF assms] show ?thesis by (simp add: td_idle_def new_td9_def cd_reset_def)
qed

theorem td9_never_counts_witness:
  "\<exists>t. td_run [(360, [60, 120, 180, 240, 300, 360], [9, 9, 9, 9, 9, 9], [1, 1, 1, 1, 1, 1], [5, 4, 3, 2, 1, 0])] (new_td9 360) = Some t
    \<and> cd_c (td_cd t) \<le> 1"
proof -
  obtain t where t: "td_run [(360, [60, 120, 180, 240, 300, 360], [9, 9, 9, 9, 9, 9], [1, 1, 1, 1, 1, 1], [5, 4, 3, 2, 1, 0])] (new_td9 360) = Some t"
    by (simp add: td_compute_def new_td9_def to_int32_nonneg)
  with td9_never_counts [OF t] show ?thesis by blast
qed

end
