(* ===== verification/Spec2Isabelle.thy ===== *)
theory Spec2Isabelle
  imports Timeframe_Gen Range_Gen Reversal_Gen Margin_Trade Paper_Trading Paper_Position Trade_Manager Trade_Exits Strategy_Engine Pullback Maadx Backtest Supertrend Trader_Dispatch Trend_Indicators Td9
begin

text \<open>
  A verification development for the strategy engine of SiiS Revolution, the C++ program under \<^verbatim>\<open>strategies/\<close>: sources in
  \<^verbatim>\<open>strategies/src\<close>, headers in \<^verbatim>\<open>strategies/include/siis\<close>. Paths below are relative to these two directories.

  \<^bold>\<open>The program.\<close> A connector receives ticks and bars of a market and hands them to the strategies. Each strategy is a plugin. Its
  analysers build bars from the ticks with a generator, keep them in a ring and compute indicators on them. At every step the plugin processes
  its analysers, looks for a signal, lets the trade manager update the trades, and opens a trade on the signal when its limits allow it. A trade
  sends orders through the trader proxy to the connector; the connector answers with order and position signals, which the manager passes to the
  trades. For paper trading and backtests the connector is the local one, which simulates a broker and its account.

  \<^bold>\<open>The theories\<close>, from the bottom up:

  \<^item> \<open>Prelude\<close>: numbers, conversions and lemmas on lists. \<open>Common\<close>: \<^verbatim>\<open>constants.h\<close>, \<^verbatim>\<open>utils/math.h\<close>, \<^verbatim>\<open>utils/common.cpp\<close>.
  \<^item> \<open>Ohlc_Ring\<close>: \<^verbatim>\<open>tick.h\<close>, \<^verbatim>\<open>ohlc.h\<close>. \<open>Bar_Gen\<close>, \<open>Timeframe_Gen\<close>, \<open>Range_Gen\<close>, \<open>Reversal_Gen\<close>: the bar generators
    \<^verbatim>\<open>utils/*ohlcgen.cpp\<close>. The locale \<open>bar_log\<close> is what a generator relies on, interpreted by the ring; the locale \<open>bar_gen\<close> is
    the refinement of a history of bars, interpreted by each generator.
  \<^item> \<open>Market_Model\<close>: \<^verbatim>\<open>market.cpp\<close>. \<open>Orders\<close>: \<^verbatim>\<open>order.h\<close>, \<^verbatim>\<open>position.cpp\<close> and the signals of \<^verbatim>\<open>connector/\<close>.
  \<^item> \<open>Trade_Base\<close>, \<open>Trade_Proxy\<close>, \<open>Margin_Trade\<close>, \<open>Ind_Margin_Trade\<close>, \<open>Position_Trade\<close>, \<open>Any_Trade\<close>, \<open>Trade_Frames\<close>:
    \<^verbatim>\<open>trade/trade.cpp\<close>, \<^verbatim>\<open>margintrade.cpp\<close>, \<^verbatim>\<open>indmargintrade.cpp\<close>, \<^verbatim>\<open>positiontrade.cpp\<close>, \<^verbatim>\<open>assettrade.cpp\<close> and the
    virtual functions over them. A trade is a record that extends that of the base class.
  \<^item> \<open>Local_State\<close>, \<open>Local_Ind\<close>, \<open>Local_Position\<close>, \<open>Local_Connector\<close>: \<^verbatim>\<open>connector/localconnector*.cpp\<close>.
    \<open>Paper_Trading\<close> and \<open>Paper_Position\<close> put the trades on top of that connector and follow a trade from its entry to its close.
  \<^item> \<open>Trade_Pool\<close>, \<open>Trader_Dispatch\<close>: the pools and the rest of \<^verbatim>\<open>connector/traderproxy.cpp\<close>. \<open>Trade_Manager\<close>: \<^verbatim>\<open>trade/stdtrademanager.cpp\<close>.
    \<open>Trade_Statistics\<close>: \<^verbatim>\<open>statistics/statistics.cpp\<close>. \<open>Strategy_Base\<close>: \<^verbatim>\<open>strategy.cpp\<close>.
  \<^item> \<open>Trade_Signal\<close>, \<open>Trade_Exits\<close>: \<^verbatim>\<open>trade/tradesignal.h\<close> and the rules for entries and exits, \<^verbatim>\<open>entryexit.cpp\<close>, \<^verbatim>\<open>entry.cpp\<close>,
    \<^verbatim>\<open>stoploss.cpp\<close>, \<^verbatim>\<open>takeprofit.cpp\<close>, \<^verbatim>\<open>breakeven.cpp\<close>, \<^verbatim>\<open>dynamicstoploss.cpp\<close>.
  \<^item> \<open>Indicators\<close>, \<open>Volume_Indicators\<close>: \<^verbatim>\<open>dataarray.cpp\<close> and the indicators \<^verbatim>\<open>price\<close>, \<^verbatim>\<open>volume\<close>, \<^verbatim>\<open>pivotpoint\<close>, \<^verbatim>\<open>vwap\<close>,
    \<^verbatim>\<open>cumulativevolumedelta\<close>, \<^verbatim>\<open>volumeprofile\<close> under \<^verbatim>\<open>indicators/\<close>. \<open>Ta_Indicators\<close>: \<^verbatim>\<open>wma\<close>, \<^verbatim>\<open>hma\<close>, \<^verbatim>\<open>bollinger\<close>,
    \<^verbatim>\<open>adx\<close> and the weighted average of TA-Lib. \<open>Ta_Lib\<close>: the functions of TA-Lib that they call, \<^verbatim>\<open>ta_SMA.c\<close>, \<^verbatim>\<open>ta_EMA.c\<close>,
    \<^verbatim>\<open>ta_VAR.c\<close>, \<^verbatim>\<open>ta_STDDEV.c\<close>, \<^verbatim>\<open>ta_MA.c\<close>, \<^verbatim>\<open>ta_BBANDS.c\<close>, \<^verbatim>\<open>ta_ADX.c\<close> under \<^verbatim>\<open>third/ta-lib/src/ta_func\<close>. \<open>Trend_Indicators\<close>: \<^verbatim>\<open>donchian\<close>,
    \<^verbatim>\<open>atr\<close>, \<^verbatim>\<open>supertrend\<close>, \<^verbatim>\<open>kahlmanfilter\<close>, \<^verbatim>\<open>vwma\<close>, and \<^verbatim>\<open>ta_MAX.c\<close>, \<^verbatim>\<open>ta_MIN.c\<close>, \<^verbatim>\<open>ta_TRANGE.c\<close>,
    \<^verbatim>\<open>ta_ATR.c\<close>; the locale \<open>ext_order\<close> is an order in either direction, for the loops that look for extremes. \<open>Td9\<close>: \<^verbatim>\<open>td9\<close>. \<open>Data_Circular\<close>: \<^verbatim>\<open>datacircular.h\<close>. \<open>Composite_Profile\<close>,
    \<open>Bar_Imbalance\<close>: \<^verbatim>\<open>volumeprofile/compositevolumeprofile.cpp\<close>, \<^verbatim>\<open>imbalance/barimbalance.cpp\<close>. \<open>Analyser\<close>: \<^verbatim>\<open>analysers/timeframebaranalyser.cpp\<close>, with
    the locale \<open>analyser_hooks\<close> for what an analyser of a plugin may do, interpreted by those of the plugins.
  \<^item> \<open>Strategy_Engine\<close>: the handlers that the plugins share, over the record \<open>plugin_code\<close> of the functions that a plugin adds to them, with
    the locale \<open>plugin\<close> for what these functions promise. \<open>Pullback_Analysers\<close>, \<open>Pullback\<close>: the plugin under \<^verbatim>\<open>strategies/pullback/\<close>.
    \<open>Maadx_Analysers\<close>, \<open>Maadx\<close>: that under \<^verbatim>\<open>strategies/maadx/\<close>. \<open>Hull_Trend\<close>, \<open>Signal_Spacing\<close>, \<open>Supertrend\<close>: that under
    \<^verbatim>\<open>strategies/supertrend/\<close>, with \<^verbatim>\<open>indicators/hma3\<close>; the locale \<open>spaced_plugin\<close> extends \<open>plugin\<close> with signals that are at least a timeframe
    apart, and the stop-loss of the trades is shown to follow the line of the trend in one direction only.
  \<^item> \<open>Tick_Stream\<close>: \<^verbatim>\<open>database/tickstream.cpp\<close>. \<open>Backtest\<close>: the loop of \<^verbatim>\<open>backtest/backtest.cpp\<close>, which puts a plugin on top of
    the stream and of the local connector.
  \<^bold>\<open>What the lemmas show.\<close>

  \<^item> Bars: the generators refine functions on unbounded histories (ticks grouped by interval, bars of limited height); the ring keeps the last bars
    and its iterator visits them; the analysers compute on the bars of the ring although they mostly update the last one only.
  \<^item> Prices and quantities: what the filters of a market round to, the profit of a position, the average prices of fills.
  \<^item> Trades: what each kind sends and what it does on each signal, the balance of quantities, the prices of entry and exit, when a trade is over;
    the compositions show an order from the strategy to the account and back.
  \<^item> Management: the manager removes exactly the trades that are over and keeps the others in order with distinct identifiers, signals reach the
    trades they are for, the exit rules never move a stop-loss against a trade, the statistics are those of the trades that closed.
  \<^item> Indicators: volume weighted mean and variance, the flow of volumes, the point of control, the order of pivot points; the sliding sums of TA-Lib are means
    and standard deviations, its directional index is a percentage, its sliding extremes are those of the window.
  \<^item> Plugins: the locale \<open>plugin\<close> proves the limits on trades, directions and sessions once for every signal and every analyser; each plugin is
    an interpretation of it. The story of a pullback signal is proved on the calls of the plugin.
  \<^item> Backtests: the stream gives every tick of its range once, whatever the blocks and the files; a backtest ends, and what it does to a plugin is a run
    of the engine, so that the limits of the locale \<open>plugin\<close> hold for it.
  \<^item> Errors: several theorems state what the code does where that is not what it means to do.

  \<^bold>\<open>How the code is modelled.\<close>

  \<^item> Doubles are exact rationals; a quotient by zero is zero, and every property that depends on a quotient has the hypothesis or the guard of
    the code that excludes it. The 32-bit integers are \<open>int\<close>, wrapped by \<open>to_int32\<close> where the code converts to them; the divider of
    \<^verbatim>\<open>TA_WMA\<close>, which overflows for periods that the library accepts, is a 32-bit word; counters are unbounded.
  \<^item> A pointer into a ring is an index, a pointer to a trade its place in the list or its kind, the null pointer \<open>None\<close>. An access out of an
    array and an exception are \<open>None\<close> too.
  \<^item> What comes from the O3D library, the C++ runtime and JsonCpp is a parameter: the conversion of strings and dates, the
    square root, identifiers, the content of an array that was just sized, the averages of TA-Lib that no plugin here asks for. The plugins are proved for a record of any functions in
    the place of the bands and the directional index of TA-Lib, and \<open>siis_ta\<close> of \<open>Ta_Lib\<close> is the record of the real ones. A configuration is what was read from it.
  \<^item> The hash maps are association lists in the order of insertion, which is an order their iterators may have; \<^verbatim>\<open>std::sort\<close> is a stable sort.
  \<^item> The engine is sequential here, and a signal that the connector sends while it is called is delivered in that call. The operations give the
    mutexes they take back before they return, so that these are left out, with one exception: \<^verbatim>\<open>LocalConnector::modifyPosition\<close> keeps the mutex
    of the connector (\<open>operations_unlock\<close>). The field \<open>lc_locked\<close> says so and \<open>lc_enter\<close> is the entry of the operations that take it;
    \<open>distant_stop_ignored\<close> states what follows for a mutex that is reentrant and for one that is not. Only the stop-loss or take-profit of a position
    trade that is moved to the exchange calls \<^verbatim>\<open>modifyPosition\<close>; the other compositions are to be read for runs without that call.
  \<^item> Whether a build checks assertions is a parameter of the one computation whose assertion fails, \<open>dn_compute\<close>; the others, on the
    start index of the other indicators, hold whenever TA-Lib succeeds.
  \<^item> Loops are structural recursion or have a measure. The walk of the ring's iterator, the reading of a stream and the loop of a backtest,
    whose end their code does not bound, are partial functions, with theorems on when they return and when not. No definition has fuel.

  \<^bold>\<open>Not modelled\<close>: see the components of the manifest. Input and output (the ZeroMQ connector and its messages, the databases and caches,
  displays, logs), the reading of the JSON configuration, the threads of live and backtest runs, learning and optimisation, the plugins other than those
  above, and the vendored TA-Lib and JsonCpp, except where a definition says so.
\<close>

end
